(* ===== verification/Cutex_Prelude.thy ===== *)
theory Cutex_Prelude
  imports
    "HOL-Library.Word"
    "HOL-Library.List_Lexorder"
    "HOL-Library.Char_ord"
begin

text \<open>
  Shared vocabulary of the development.

  \<^item> Results: a Rust \<open>Result<T, E>\<close> is a value of \<open>'e + 'a\<close> with \<open>Inl\<close> for \<open>Err\<close>;
    \<open>res_bind\<close> is the question-mark operator and \<open>ok_or\<close> is \<open>Option::ok_or\<close>.
  \<^item> Integers: a \<open>u64\<close> is a \<open>64 word\<close>; \<open>checked_add\<close> is the overflow-checked addition and
    \<open>json_safe_succ\<close> the \<open>checked_add(1).filter(..)\<close> idiom that bounds every revision and
    epoch of the program by \<open>2^53 - 1\<close>.
  \<^item> Maps: a \<open>BTreeMap\<close> is an association list with strictly increasing keys, so that equality
    of maps is equality of lists and iteration is in key order. Its contract is the locale
    \<open>ordered_map\<close>.
  \<^item> Step systems: \<open>reach\<close> is reachability, the locale \<open>invariant_system\<close> carries invariants and
    monotone quantities to reachable states, the locale \<open>receipted_store\<close> is the contract of
    every operation that is made idempotent by a durable receipt.
\<close>

named_theorems res_simps \<open>how results of fallible calls are taken apart\<close>
named_theorems bt_simps \<open>lookups in updated ordered maps\<close>

section \<open>Results\<close>

type_synonym bytes = "char list"
type_synonym u64 = "64 word"
type_synonym u16 = "16 word"

definition res_bind :: "'e + 'a \<Rightarrow> ('a \<Rightarrow> 'e + 'b) \<Rightarrow> 'e + 'b" where
  "res_bind r f = (case r of Inl e \<Rightarrow> Inl e | Inr x \<Rightarrow> f x)"

definition ok_or :: "'e \<Rightarrow> 'a option \<Rightarrow> 'e + 'a" where
  "ok_or e v = (case v of None \<Rightarrow> Inl e | Some x \<Rightarrow> Inr x)"

definition map_err :: "('e \<Rightarrow> 'f) \<Rightarrow> 'e + 'a \<Rightarrow> 'f + 'a" where
  "map_err f r = (case r of Inl e \<Rightarrow> Inl (f e) | Inr x \<Rightarrow> Inr x)"

definition ensure :: "'e \<Rightarrow> bool \<Rightarrow> 'e + unit" where
  "ensure e b = (if b then Inr () else Inl e)"

lemma res_bind_Inr [simp]: "res_bind (Inr x) f = f x"
  and res_bind_Inl [simp]: "res_bind (Inl e) f = Inl e"
  by (simp_all add: res_bind_def)

lemma res_bind_eq_Inr [res_simps]:
  "res_bind r f = Inr y \<longleftrightarrow> (\<exists>x. r = Inr x \<and> f x = Inr y)"
  by (cases r) auto

lemma res_bind_eq_Inl [res_simps]:
  "res_bind r f = Inl e \<longleftrightarrow> r = Inl e \<or> (\<exists>x. r = Inr x \<and> f x = Inl e)"
  by (cases r) auto

lemma ok_or_simps [simp]: "ok_or e None = Inl e" "ok_or e (Some x) = Inr x"
  by (simp_all add: ok_or_def)

lemma ok_or_eq_Inr [res_simps]: "ok_or e v = Inr x \<longleftrightarrow> v = Some x"
  by (cases v) auto

lemma ok_or_eq_Inl [res_simps]: "ok_or e v = Inl e' \<longleftrightarrow> v = None \<and> e' = e"
  by (cases v) auto

lemma map_err_simps [simp]: "map_err f (Inl e) = Inl (f e)" "map_err f (Inr x) = Inr x"
  by (simp_all add: map_err_def)

lemma map_err_eq_Inr [res_simps]: "map_err f r = Inr x \<longleftrightarrow> r = Inr x"
  by (cases r) auto

lemma map_err_eq_Inl [res_simps]: "map_err f r = Inl e \<longleftrightarrow> (\<exists>e'. r = Inl e' \<and> e = f e')"
  by (cases r) auto

lemma ensure_eq_Inr [res_simps]: "ensure e b = Inr u \<longleftrightarrow> b"
  by (simp add: ensure_def)

lemma ensure_eq_Inl [res_simps]: "ensure e b = Inl e' \<longleftrightarrow> \<not> b \<and> e' = e"
  by (auto simp: ensure_def)

lemma ensure_simps [simp]: "ensure e True = Inr ()" "ensure e False = Inl e"
  by (simp_all add: ensure_def)

text \<open>A \<open>for\<close> loop whose body is a check followed by the question mark.\<close>

fun res_each :: "('a \<Rightarrow> 'e + unit) \<Rightarrow> 'a list \<Rightarrow> 'e + unit" where
  "res_each f [] = Inr ()"
| "res_each f (x # xs) = res_bind (f x) (\<lambda>_. res_each f xs)"

lemma res_each_Inr [res_simps]: "res_each f xs = Inr u \<longleftrightarrow> (\<forall>x \<in> set xs. f x = Inr ())"
  by (induction xs) (auto simp: res_simps)

section \<open>Machine integers\<close>

definition MAX_JSON_SAFE_INTEGER :: u64 where
  "MAX_JSON_SAFE_INTEGER = 9007199254740991"

definition checked_add :: "u64 \<Rightarrow> u64 \<Rightarrow> u64 option" where
  "checked_add a b = (if unat a + unat b < 2 ^ 64 then Some (a + b) else None)"

definition json_safe_succ :: "u64 \<Rightarrow> u64 option" where
  "json_safe_succ a = (case checked_add a 1 of
     None \<Rightarrow> None
   | Some v \<Rightarrow> if v \<le> MAX_JSON_SAFE_INTEGER then Some v else None)"

lemma unat_MAX_JSON_SAFE_INTEGER [simp]: "unat MAX_JSON_SAFE_INTEGER = 9007199254740991"
  by (simp add: MAX_JSON_SAFE_INTEGER_def)

lemma unat_succ_u64: "unat (a :: u64) + 1 < 2 ^ 64 \<Longrightarrow> unat (a + 1) = Suc (unat a)"
  by (simp add: unat_word_ariths)

lemma json_safe_succ_Some:
  "json_safe_succ a = Some b \<Longrightarrow>
     b = a + 1 \<and> unat b = Suc (unat a) \<and> b \<le> MAX_JSON_SAFE_INTEGER"
  by (auto simp: json_safe_succ_def checked_add_def unat_succ_u64
      split: option.splits if_splits)

lemma json_safe_succ_less: "json_safe_succ a = Some b \<Longrightarrow> a < b"
  unfolding word_less_nat_alt by (drule json_safe_succ_Some) linarith

lemma json_safe_succ_nonzero: "json_safe_succ a = Some b \<Longrightarrow> b \<noteq> 0"
  using json_safe_succ_Some [of a b] by auto

lemma json_safe_succ_exists:
  assumes "a < MAX_JSON_SAFE_INTEGER"
  shows "json_safe_succ a = Some (a + 1)"
proof -
  have "unat a < 9007199254740991"
    using assms by (simp add: word_less_nat_alt)
  then show ?thesis
    by (simp add: json_safe_succ_def checked_add_def word_le_nat_alt unat_succ_u64)
qed

lemma json_safe_succ_None:
  "json_safe_succ a = None \<longleftrightarrow> MAX_JSON_SAFE_INTEGER \<le> a"
proof
  assume "json_safe_succ a = None"
  then show "MAX_JSON_SAFE_INTEGER \<le> a"
    using json_safe_succ_exists [of a] by (cases "a < MAX_JSON_SAFE_INTEGER") auto
next
  assume le: "MAX_JSON_SAFE_INTEGER \<le> a"
  show "json_safe_succ a = None"
  proof (rule ccontr)
    assume "json_safe_succ a \<noteq> None"
    then obtain b where "json_safe_succ a = Some b" by auto
    from json_safe_succ_less [OF this] json_safe_succ_Some [OF this] le
    show False by auto
  qed
qed

lemma checked_add_code [code]: "checked_add a b = (if a \<le> a + b then Some (a + b) else None)"
  by (simp add: checked_add_def no_olen_add_nat)

lemma json_safe_succ_code [code]:
  "json_safe_succ a = (if a < MAX_JSON_SAFE_INTEGER then Some (a + 1) else None)"
  using json_safe_succ_exists json_safe_succ_None by auto

section \<open>Ordered maps\<close>

text \<open>The model of \<open>std::collections::BTreeMap\<close>.\<close>

type_synonym ('k, 'v) btree = "('k \<times> 'v) list"

definition bt_get :: "('k, 'v) btree \<Rightarrow> 'k \<Rightarrow> 'v option" where
  "bt_get m k = map_of m k"

fun bt_insert :: "'k::linorder \<Rightarrow> 'v \<Rightarrow> ('k, 'v) btree \<Rightarrow> ('k, 'v) btree" where
  "bt_insert k v [] = [(k, v)]"
| "bt_insert k v ((k', v') # m) =
     (if k = k' then (k, v) # m
      else if k < k' then (k, v) # (k', v') # m
      else (k', v') # bt_insert k v m)"

definition bt_remove :: "'k \<Rightarrow> ('k, 'v) btree \<Rightarrow> ('k, 'v) btree" where
  "bt_remove k m = filter (\<lambda>e. fst e \<noteq> k) m"

definition bt_keys :: "('k, 'v) btree \<Rightarrow> 'k list" where
  "bt_keys m = map fst m"

definition bt_values :: "('k, 'v) btree \<Rightarrow> 'v list" where
  "bt_values m = map snd m"

text \<open>\<open>iter().next_back()\<close>: the entry with the largest key.\<close>

definition bt_last :: "('k, 'v) btree \<Rightarrow> ('k \<times> 'v) option" where
  "bt_last m = (if m = [] then None else Some (last m))"

text \<open>\<open>values_mut()\<close>: every value replaced in place.\<close>

definition bt_map_values :: "('v \<Rightarrow> 'w) \<Rightarrow> ('k, 'v) btree \<Rightarrow> ('k, 'w) btree" where
  "bt_map_values f m = map (\<lambda>(k, v). (k, f v)) m"

definition bt_ok :: "('k::linorder, 'v) btree \<Rightarrow> bool" where
  "bt_ok m \<longleftrightarrow> sorted_wrt (<) (map fst m)"

lemma bt_get_Nil [simp, bt_simps]: "bt_get [] k = None"
  by (simp add: bt_get_def)

lemma bt_get_Cons [simp]: "bt_get ((k', v) # m) k = (if k = k' then Some v else bt_get m k)"
  by (simp add: bt_get_def)

lemma bt_get_insert [bt_simps]:
  "bt_get (bt_insert k v m) k' = (if k' = k then Some v else bt_get m k')"
  by (induction k v m rule: bt_insert.induct) auto

lemma bt_get_remove [bt_simps]:
  "bt_get (bt_remove k m) k' = (if k' = k then None else bt_get m k')"
  by (induction m) (auto simp: bt_remove_def)

lemma bt_get_map_values [bt_simps]:
  "bt_get (bt_map_values f m) k = map_option f (bt_get m k)"
  by (induction m) (auto simp: bt_map_values_def)

lemma bt_ok_Nil [simp]: "bt_ok []"
  by (simp add: bt_ok_def)

lemma bt_ok_Cons: "bt_ok ((k, v) # m) \<longleftrightarrow> (\<forall>e \<in> set m. k < fst e) \<and> bt_ok m"
  by (auto simp: bt_ok_def)

lemma set_bt_insert: "set (map fst (bt_insert k v m)) = insert k (set (map fst m))"
  by (induction k v m rule: bt_insert.induct) auto

lemma bt_ok_insert [simp, intro]: "bt_ok m \<Longrightarrow> bt_ok (bt_insert k v m)"
proof (induction k v m rule: bt_insert.induct)
  case (2 k v k' v' m)
  then have IH: "\<not> k \<le> k' \<Longrightarrow> bt_ok (bt_insert k v m)"
    by (auto simp: bt_ok_Cons)
  have keys: "fst e = k \<or> fst e \<in> fst ` set m" if "e \<in> set (bt_insert k v m)" for e
    using that set_bt_insert [of k v m] by (metis image_eqI insertE list.set_map)
  have tail: "\<forall>e \<in> set m. k' < fst e" "bt_ok m"
    using 2 by (auto simp: bt_ok_Cons)
  show ?case
  proof (cases "k \<le> k'")
    case True
    with tail show ?thesis
      by (auto simp: bt_ok_Cons)
  next
    case False
    with tail IH keys show ?thesis
      by (fastforce simp: bt_ok_Cons)
  qed
qed (simp add: bt_ok_def)

lemma bt_ok_remove [simp, intro]: "bt_ok m \<Longrightarrow> bt_ok (bt_remove k m)"
  by (induction m) (auto simp: bt_remove_def bt_ok_def sorted_wrt_filter)

lemma bt_ok_map_values [simp, intro]: "bt_ok m \<Longrightarrow> bt_ok (bt_map_values f m)"
  by (simp add: bt_ok_def bt_map_values_def comp_def split_def)

lemma bt_ok_distinct: "bt_ok m \<Longrightarrow> distinct (map fst m)"
  unfolding bt_ok_def by (rule strict_sorted_iff [THEN iffD1, THEN conjunct2])

lemma bt_get_in_set: "bt_get m k = Some v \<Longrightarrow> (k, v) \<in> set m"
  by (auto simp: bt_get_def intro: map_of_SomeD)

lemma bt_in_set_get: "bt_ok m \<Longrightarrow> (k, v) \<in> set m \<Longrightarrow> bt_get m k = Some v"
  by (simp add: bt_get_def bt_ok_distinct)

lemma bt_get_iff: "bt_ok m \<Longrightarrow> bt_get m k = Some v \<longleftrightarrow> (k, v) \<in> set m"
  by (blast intro: bt_get_in_set bt_in_set_get)

lemma bt_values_iff: "bt_ok m \<Longrightarrow> v \<in> set (bt_values m) \<longleftrightarrow> (\<exists>k. bt_get m k = Some v)"
  by (force simp: bt_values_def bt_get_iff)

lemma bt_rep:
  assumes "bt_ok m"
  shows "m = map (\<lambda>k. (k, the (bt_get m k))) (map fst m)"
proof -
  have "(fst e, the (bt_get m (fst e))) = e" if "e \<in> set m" for e
    using bt_in_set_get [OF assms, of "fst e" "snd e"] that by simp
  then show ?thesis
    by (simp add: comp_def map_idI)
qed

lemma bt_keys_get: "k \<in> set (map fst m) \<longleftrightarrow> bt_get m k \<noteq> None"
  by (simp add: bt_get_def map_of_eq_None_iff)

lemma bt_ext:
  assumes "bt_ok m" and "bt_ok m'" and eq: "\<And>k. bt_get m k = bt_get m' k"
  shows "m = m'"
proof -
  have "set (map fst m) = set (map fst m')"
    using eq by (auto simp only: bt_keys_get)
  then have keys: "map fst m = map fst m'"
    using assms(1,2) unfolding bt_ok_def by (intro strict_sorted_equal) auto
  have "m = map (\<lambda>k. (k, the (bt_get m k))) (map fst m)"
    by (rule bt_rep [OF assms(1)])
  also have "\<dots> = map (\<lambda>k. (k, the (bt_get m' k))) (map fst m')"
    by (simp only: eq keys)
  also have "\<dots> = m'"
    by (rule bt_rep [OF assms(2), symmetric])
  finally show ?thesis .
qed

lemma bt_last_Some:
  "bt_ok m \<Longrightarrow> bt_last m = Some (k, v) \<Longrightarrow>
     bt_get m k = Some v \<and> (\<forall>k' v'. bt_get m k' = Some v' \<longrightarrow> k' \<le> k)"
proof -
  assume ok: "bt_ok m" and l: "bt_last m = Some (k, v)"
  then have m: "m = butlast m @ [(k, v)]"
    by (auto simp: bt_last_def split: if_splits) (metis append_butlast_last_id)
  have "sorted_wrt (<) (map fst (butlast m @ [(k, v)]))"
    using ok m unfolding bt_ok_def by simp
  then have "\<forall>e \<in> set (butlast m). fst e < k"
    by (simp add: sorted_wrt_append)
  then have "\<forall>e \<in> set m. fst e \<le> k"
    by (subst m) auto
  moreover have "(k, v) \<in> set m"
    by (subst m) simp
  ultimately show ?thesis
    using ok by (auto simp: bt_get_iff)
qed

lemma bt_last_None: "bt_last m = None \<longleftrightarrow> m = []"
  by (simp add: bt_last_def)

lemma bt_values_get: "bt_get m k = Some v \<Longrightarrow> v \<in> set (bt_values m)"
  by (force simp: bt_values_def dest: bt_get_in_set)

lemma bt_insert_nonempty [simp]: "bt_insert k v m \<noteq> []"
  by (cases m) (auto split: if_splits)

text \<open>What the clients of a \<open>BTreeMap\<close> rely on.\<close>

locale ordered_map =
  fixes empty :: 'm
    and get :: "'m \<Rightarrow> 'k::linorder \<Rightarrow> 'v option"
    and put :: "'k \<Rightarrow> 'v \<Rightarrow> 'm \<Rightarrow> 'm"
    and remove :: "'k \<Rightarrow> 'm \<Rightarrow> 'm"
    and entries :: "'m \<Rightarrow> ('k \<times> 'v) list"
    and ok :: "'m \<Rightarrow> bool"
  assumes get_empty: "get empty k = None"
    and get_put: "get (put k v m) k' = (if k' = k then Some v else get m k')"
    and get_remove: "get (remove k m) k' = (if k' = k then None else get m k')"
    and ok_empty: "ok empty"
    and ok_put: "ok m \<Longrightarrow> ok (put k v m)"
    and ok_remove: "ok m \<Longrightarrow> ok (remove k m)"
    and entries_get: "ok m \<Longrightarrow> (k, v) \<in> set (entries m) \<longleftrightarrow> get m k = Some v"
    and entries_sorted: "ok m \<Longrightarrow> sorted_wrt (<) (map fst (entries m))"
    and extensional: "ok m \<Longrightarrow> ok m' \<Longrightarrow> (\<And>k. get m k = get m' k) \<Longrightarrow> m = m'"
begin

lemma put_put_same: "ok m \<Longrightarrow> put k v (put k w m) = put k v m"
  by (rule extensional) (simp_all add: ok_put get_put)

lemma put_commute: "ok m \<Longrightarrow> k \<noteq> k' \<Longrightarrow> put k v (put k' v' m) = put k' v' (put k v m)"
  by (rule extensional) (auto simp: ok_put get_put)

lemma put_same: "ok m \<Longrightarrow> get m k = Some v \<Longrightarrow> put k v m = m"
  by (rule extensional) (simp_all add: ok_put get_put)

lemma remove_put: "ok m \<Longrightarrow> get m k = None \<Longrightarrow> remove k (put k v m) = m"
  by (rule extensional) (simp_all add: ok_put ok_remove get_put get_remove)

lemma remove_absent: "ok m \<Longrightarrow> get m k = None \<Longrightarrow> remove k m = m"
  by (rule extensional) (simp_all add: ok_remove get_remove)

end

interpretation bt: ordered_map "[]" bt_get bt_insert bt_remove "\<lambda>m. m" bt_ok
  by unfold_locales (auto simp: bt_simps bt_get_iff bt_ok_def [symmetric] intro: bt_ext)

section \<open>Step systems and receipts\<close>

inductive reach :: "('s \<Rightarrow> bool) \<Rightarrow> ('s \<Rightarrow> 's \<Rightarrow> bool) \<Rightarrow> 's \<Rightarrow> bool"
  for init step where
  reach_init: "init s \<Longrightarrow> reach init step s"
| reach_step: "reach init step s \<Longrightarrow> step s t \<Longrightarrow> reach init step t"

inductive steps :: "('s \<Rightarrow> 's \<Rightarrow> bool) \<Rightarrow> 's \<Rightarrow> 's \<Rightarrow> bool" for step where
  steps_refl: "steps step s s"
| steps_snoc: "steps step s t \<Longrightarrow> step t u \<Longrightarrow> steps step s u"

lemma steps_one: "step s t \<Longrightarrow> steps step s t"
  by (blast intro: steps_refl steps_snoc)

lemma steps_trans: "steps step t u \<Longrightarrow> steps step s t \<Longrightarrow> steps step s u"
  by (induction rule: steps.induct) (auto intro: steps_snoc)

lemma reach_steps: "steps step s t \<Longrightarrow> reach init step s \<Longrightarrow> reach init step t"
  by (induction rule: steps.induct) (auto intro: reach_step)

text \<open>A component whose every step keeps an invariant and never lowers a rank.\<close>

locale invariant_system =
  fixes init :: "'s \<Rightarrow> bool"
    and step :: "'s \<Rightarrow> 's \<Rightarrow> bool"
    and inv :: "'s \<Rightarrow> bool"
    and rank :: "'s \<Rightarrow> 'k \<Rightarrow> nat"
  assumes inv_init: "init s \<Longrightarrow> inv s"
    and inv_step: "inv s \<Longrightarrow> step s t \<Longrightarrow> inv t"
    and rank_step: "inv s \<Longrightarrow> step s t \<Longrightarrow> rank s k \<le> rank t k"
begin

lemma reach_inv: "reach init step s \<Longrightarrow> inv s"
  by (induction rule: reach.induct) (auto intro: inv_init inv_step)

lemma steps_inv: "steps step s t \<Longrightarrow> inv s \<Longrightarrow> inv t"
  by (induction rule: steps.induct) (auto intro: inv_step)

lemma steps_rank: "steps step s t \<Longrightarrow> inv s \<Longrightarrow> rank s k \<le> rank t k"
proof (induction rule: steps.induct)
  case (steps_snoc s t u)
  then show ?case
    using rank_step [OF steps_inv, of s t u k] by (metis le_trans)
qed simp

end

text \<open>
  A component that hands out something under a fencing rank: whenever the holder changes, the
  rank rises, so that a rank names at most one holder for ever.
\<close>

locale fenced_system = invariant_system init step inv rank
  for init :: "'s \<Rightarrow> bool" and step :: "'s \<Rightarrow> 's \<Rightarrow> bool" and inv :: "'s \<Rightarrow> bool"
    and rank :: "'s \<Rightarrow> 'k \<Rightarrow> nat" +
  fixes holder :: "'s \<Rightarrow> 'k \<Rightarrow> 'h"
  assumes holder_step: "inv s \<Longrightarrow> step s t \<Longrightarrow> holder t k = holder s k \<or> rank s k < rank t k"
begin

lemma steps_holder:
  "steps step s t \<Longrightarrow> inv s \<Longrightarrow> rank s k = rank t k \<Longrightarrow> holder t k = holder s k"
proof (induction rule: steps.induct)
  case (steps_snoc s t u)
  have "inv t" using steps_snoc steps_inv by blast
  moreover have "rank s k \<le> rank t k" using steps_snoc steps_rank by blast
  moreover have "rank t k \<le> rank u k" using steps_snoc \<open>inv t\<close> rank_step by blast
  ultimately show ?case
    using steps_snoc holder_step [of t u k] by fastforce
qed simp

end

text \<open>Submitting the same request once and then \<open>n\<close> more times.\<close>

fun repeat_op :: "('q \<Rightarrow> 's \<Rightarrow> 'e + ('s \<times> 'v \<times> bool)) \<Rightarrow> nat \<Rightarrow> 'q \<Rightarrow> 's \<Rightarrow> 'e + ('s \<times> 'v \<times> bool)"
  where
  "repeat_op f 0 q s = f q s"
| "repeat_op f (Suc n) q s = (case f q s of Inl e \<Rightarrow> Inl e | Inr (t, _, _) \<Rightarrow> repeat_op f n q t)"

text \<open>
  An operation that answers from its durable receipt when the same request comes again.
  \<open>apply_op q s\<close> gives the next state, the answer and whether the state is to be written.
\<close>

locale receipted_store =
  fixes apply_op :: "'q \<Rightarrow> 's \<Rightarrow> 'e + ('s \<times> 'v \<times> bool)"
    and inv :: "'s \<Rightarrow> bool"
  assumes keeps: "inv s \<Longrightarrow> apply_op q s = Inr (t, v, w) \<Longrightarrow> inv t"
    and no_write: "apply_op q s = Inr (t, v, False) \<Longrightarrow> t = s"
    and replays: "inv s \<Longrightarrow> apply_op q s = Inr (t, v, True) \<Longrightarrow> apply_op q t = Inr (t, v, False)"
begin

lemma replay_stable:
  assumes "inv s" and "apply_op q s = Inr (t, v, w)"
  shows "apply_op q t = Inr (t, v, False)"
  using assms no_write replays by (cases w) auto

lemma exactly_once:
  assumes "inv s" and "apply_op q s = Inr (t, v, w)"
  shows "repeat_op apply_op (Suc n) q s = Inr (t, v, False)"
  using assms
proof (induction n arbitrary: s w)
  case 0
  then show ?case using replay_stable by simp
next
  case (Suc n)
  from Suc.prems have "apply_op q t = Inr (t, v, False)" by (rule replay_stable)
  with Suc.IH [of t False] Suc.prems keeps show ?case by auto
qed

end

end
