(* ===== verification/Rust_Text.thy ===== *)
theory Rust_Text
  imports Cutex_Prelude
begin

text \<open>
  The parts of Rust's \<open>str\<close>, \<open>char\<close> and \<open>Path\<close> that the program's validators use. A \<open>String\<close>
  is its UTF-8 bytes (\<open>char list\<close>, one \<open>char\<close> per byte), so \<open>len()\<close> is \<open>length\<close> and the order
  of strings is the bytewise lexicographic order. \<open>utf8_chars\<close> groups the bytes into characters.
  Paths are those of Unix: the separator is the slash and there is no prefix component.
\<close>

abbreviation code :: "char \<Rightarrow> nat" where
  "code c \<equiv> of_char c"

definition newline :: char where
  "newline = CHR 0x0A"

definition is_ascii_digit :: "char \<Rightarrow> bool" where
  "is_ascii_digit c \<longleftrightarrow> 48 \<le> code c \<and> code c \<le> 57"

definition is_ascii_alphanumeric :: "char \<Rightarrow> bool" where
  "is_ascii_alphanumeric c \<longleftrightarrow> is_ascii_digit c
     \<or> 65 \<le> code c \<and> code c \<le> 90 \<or> 97 \<le> code c \<and> code c \<le> 122"

definition to_ascii_lowercase :: "bytes \<Rightarrow> bytes" where
  "to_ascii_lowercase s =
     map (\<lambda>c. if 65 \<le> code c \<and> code c \<le> 90 then char_of (code c + 32) else c) s"

section \<open>Characters of a UTF-8 string\<close>

definition is_continuation :: "char \<Rightarrow> bool" where
  "is_continuation c \<longleftrightarrow> 128 \<le> code c \<and> code c < 192"

fun utf8_chars :: "bytes \<Rightarrow> bytes list" where
  "utf8_chars [] = []"
| "utf8_chars [c] = [[c]]"
| "utf8_chars (c # d # s) =
     (if is_continuation d
      then (case utf8_chars (d # s) of [] \<Rightarrow> [[c]] | g # gs \<Rightarrow> (c # g) # gs)
      else [c] # utf8_chars (d # s))"

lemma utf8_chars_nonempty: "utf8_chars (c # s) \<noteq> []"
  by (induction "c # s" arbitrary: c s rule: utf8_chars.induct) (auto split: list.splits)

lemma concat_utf8_chars [simp]: "concat (utf8_chars s) = s"
proof (induction s rule: utf8_chars.induct)
  case (3 c d s)
  then show ?case
    using utf8_chars_nonempty [of d s] by (auto split: list.splits)
qed auto

text \<open>\<open>char::is_control\<close>: general category Cc.\<close>

definition is_control :: "bytes \<Rightarrow> bool" where
  "is_control g \<longleftrightarrow> (case g of
     [c] \<Rightarrow> code c < 32 \<or> code c = 127
   | [c, d] \<Rightarrow> code c = 194 \<and> 128 \<le> code d \<and> code d < 160
   | _ \<Rightarrow> False)"

text \<open>\<open>char::is_whitespace\<close>: the Unicode property White\_Space.\<close>

definition is_whitespace :: "bytes \<Rightarrow> bool" where
  "is_whitespace g \<longleftrightarrow> map code g \<in> set
     [[9], [10], [11], [12], [13], [32], [194, 133], [194, 160], [225, 154, 128],
      [226, 128, 128], [226, 128, 129], [226, 128, 130], [226, 128, 131], [226, 128, 132],
      [226, 128, 133], [226, 128, 134], [226, 128, 135], [226, 128, 136], [226, 128, 137],
      [226, 128, 138], [226, 128, 168], [226, 128, 169], [226, 128, 175], [226, 129, 159],
      [227, 128, 128]]"

definition trim :: "bytes \<Rightarrow> bytes" where
  "trim s = concat (rev (dropWhile is_whitespace (rev (dropWhile is_whitespace (utf8_chars s)))))"

definition contains_control :: "bytes \<Rightarrow> bool" where
  "contains_control s \<longleftrightarrow> list_ex is_control (utf8_chars s)"

text \<open>\<open>str::starts_with\<close> and \<open>str::find\<close> (the byte index of the first match).\<close>

fun starts_with :: "bytes \<Rightarrow> bytes \<Rightarrow> bool" where
  "starts_with s [] = True"
| "starts_with [] (c # p) = False"
| "starts_with (d # s) (c # p) = (c = d \<and> starts_with s p)"

fun str_find :: "bytes \<Rightarrow> bytes \<Rightarrow> nat option" where
  "str_find [] p = (if p = [] then Some 0 else None)"
| "str_find (c # s) p = (if starts_with (c # s) p then Some 0 else map_option Suc (str_find s p))"

lemma starts_with_iff: "starts_with s p \<longleftrightarrow> (\<exists>r. s = p @ r)"
  by (induction s p rule: starts_with.induct) auto

lemma str_find_Some: "str_find s p = Some i \<Longrightarrow> i \<le> length s \<and> starts_with (drop i s) p"
  by (induction s p arbitrary: i rule: str_find.induct) (auto split: if_splits)

lemma trim_Nil [simp]: "trim [] = []"
  by (simp add: trim_def)

section \<open>Paths\<close>

fun path_components :: "bytes \<Rightarrow> bytes list" where
  "path_components [] = [[]]"
| "path_components (c # s) =
     (if c = CHR ''/'' then [] # path_components s
      else (case path_components s of [] \<Rightarrow> [[c]] | g # gs \<Rightarrow> (c # g) # gs))"

definition path_is_absolute :: "bytes \<Rightarrow> bool" where
  "path_is_absolute s \<longleftrightarrow> starts_with s ''/''"

end
