(* ===== verification/Typed_Values.thy ===== *)
theory Typed_Values
  imports Rust_Text
begin

text \<open>
  The typed values of \<open>role_revision/mod.rs\<close> and \<open>task_service\<close>: string identifiers, positive
  JSON-safe numbers and digests. Each is a newtype whose only constructor is a validating
  \<open>new\<close>, so the model uses the underlying representation and states the validator; the
  predicates \<open>valid_id\<close>, \<open>valid_positive\<close> and \<open>valid_sha256\<close> are what a constructed value satisfies.
\<close>

datatype ValueError = InvalidId | InvalidPositiveNumber | InvalidSha256 | InvalidRfc3339

type_synonym id = bytes
type_synonym Sha256 = bytes
type_synonym Rfc3339 = bytes

section \<open>String identifiers\<close>

definition id_byte :: "char \<Rightarrow> bool" where
  "id_byte c \<longleftrightarrow> is_ascii_alphanumeric c \<or> c \<in> set ''-_.:/@''"

definition string_id_new :: "bytes \<Rightarrow> ValueError + id" where
  "string_id_new v =
     (if v = [] \<or> length v > 256 \<or> \<not> list_all id_byte v then Inl InvalidId else Inr v)"

definition valid_id :: "id \<Rightarrow> bool" where
  "valid_id v \<longleftrightarrow> string_id_new v = Inr v"

section \<open>Positive numbers\<close>

definition positive_new :: "u64 \<Rightarrow> ValueError + u64" where
  "positive_new v =
     (if v = 0 \<or> v > MAX_JSON_SAFE_INTEGER then Inl InvalidPositiveNumber else Inr v)"

definition checked_next :: "u64 \<Rightarrow> ValueError + u64" where
  "checked_next v = ok_or InvalidPositiveNumber (json_safe_succ v)"

definition valid_positive :: "u64 \<Rightarrow> bool" where
  "valid_positive v \<longleftrightarrow> positive_new v = Inr v"

lemma valid_positive_iff: "valid_positive v \<longleftrightarrow> 0 < unat v \<and> unat v \<le> 9007199254740991"
  by (auto simp: valid_positive_def positive_new_def word_le_nat_alt word_less_nat_alt unat_gt_0)

lemma checked_next_Inr:
  "checked_next v = Inr w \<Longrightarrow> w = v + 1 \<and> unat w = Suc (unat v) \<and> valid_positive w"
  using json_safe_succ_Some [of v w]
  by (auto simp: checked_next_def valid_positive_iff word_le_nat_alt res_simps)

lemma checked_next_Inl: "checked_next v = Inl e \<longleftrightarrow> e = InvalidPositiveNumber \<and> MAX_JSON_SAFE_INTEGER \<le> v"
  by (auto simp: checked_next_def res_simps json_safe_succ_None)

section \<open>Digests\<close>

definition sha256_new :: "bytes \<Rightarrow> ValueError + Sha256" where
  "sha256_new v =
     (if length v \<noteq> 64 \<or> \<not> list_all (\<lambda>c. is_ascii_digit c \<or> 97 \<le> code c \<and> code c \<le> 102) v
      then Inl InvalidSha256 else Inr v)"

definition valid_sha256 :: "Sha256 \<Rightarrow> bool" where
  "valid_sha256 v \<longleftrightarrow> sha256_new v = Inr v"

definition zero_sha256 :: Sha256 where
  "zero_sha256 = replicate 64 (CHR ''0'')"

lemma valid_zero_sha256: "valid_sha256 zero_sha256"
  by (simp add: valid_sha256_def sha256_new_def zero_sha256_def is_ascii_digit_def list_all_iff)

text \<open>
  \<open>Rfc3339::new\<close> accepts a timestamp when \<open>chrono\<close> parses it and rendering the parsed instant in
  UTC gives it back; \<open>renormalise\<close> stands for that parse and render.
\<close>

definition rfc3339_new :: "(bytes \<Rightarrow> bytes option) \<Rightarrow> bytes \<Rightarrow> ValueError + Rfc3339" where
  "rfc3339_new renormalise v =
     (case renormalise v of
        None \<Rightarrow> Inl InvalidRfc3339
      | Some n \<Rightarrow> if v \<noteq> n then Inl InvalidRfc3339 else Inr v)"

end
