(* ===== verification/Release_Model.thy ===== *)
theory Release_Model
  imports Typed_Values
begin

text \<open>
  The data of the Release-seat rotation (\<open>rotation/model.rs\<close>): the owner's template for a
  successor session, the request of a Director, the durable rotation record with its status,
  last completed boundary and pending external step, and the receipt derived from it. Fields
  whose Rust type is a one-value schema tag carry no information and are left out here and in
  the other theories.
\<close>

datatype CutexSessionRuntimeBackend = Host | HostForeground | Docker | CuteAlden | Future
datatype CutexSessionQuickActionMode = Auto | Pinned | Hidden
datatype AgentRegistrationClass = Persistent | Ephemeral | LocalOnly

record ReleaseRolePackage =
  package_reference :: bytes
  package_sha256 :: Sha256

record ReleaseTemplate =
  tpl_version :: u64
  tpl_successor_name :: bytes
  tpl_cwd :: bytes
  tpl_managed_cwd :: "bytes option"
  tpl_runtime_backend :: CutexSessionRuntimeBackend
  tpl_role_package :: ReleaseRolePackage
  tpl_agent_groups :: "bytes list"
  tpl_profile :: "bytes option"
  tpl_model :: "bytes option"
  tpl_reasoning :: "bytes option"
  tpl_permissions :: "bytes option"
  tpl_approval_policy :: "bytes option"
  tpl_sandbox_mode :: "bytes option"
  tpl_exposed_to_backend :: bool
  tpl_quick_action :: CutexSessionQuickActionMode
  tpl_registration_class :: AgentRegistrationClass
  tpl_default_cli_args :: "bytes list"

record ConfigureReleaseTemplateRequest =
  cfg_action_id :: id
  cfg_expected_current_version :: "u64 option"
  cfg_template :: ReleaseTemplate

record ReleaseTemplateReceipt =
  trc_action_id :: id
  trc_request_sha256 :: Sha256
  trc_template_version :: u64
  trc_template_sha256 :: Sha256
  trc_configured_at :: Rfc3339

record ReleaseRotationRequest =
  req_action_id :: id
  req_target_seat :: id
  req_expected_predecessor_cutex_session :: id
  req_expected_seat_epoch :: u64
  req_expected_template_version :: u64
  req_expected_template_sha256 :: Sha256
  req_starting_message :: bytes

datatype ReleaseRotationStatus = Running | Blocked | Complete

datatype ReleaseRotationBoundary =
    SeatRevoked | PredecessorOfflined | PredecessorRetired | SuccessorSessionCreated
  | SuccessorThreadStarted | SuccessorRuntimeOnline | SuccessorBound | DirectorMessageDelivered

datatype ReleaseRotationExternalStep =
    OfflinePredecessor | RetirePredecessor | CreateSuccessorSession | StartSuccessorThread
  | LaunchSuccessorRuntime | DeliverDirectorMessage

record ReleaseRotationRecord =
  rr_action_id :: id
  rr_request_sha256 :: Sha256
  rr_director_cutex_session :: id
  rr_target_seat :: id
  rr_predecessor_cutex_session :: id
  rr_predecessor_seat_epoch :: u64
  rr_template :: ReleaseTemplate
  rr_template_sha256 :: Sha256
  rr_starting_message :: bytes
  rr_status :: ReleaseRotationStatus
  rr_completed_boundary :: ReleaseRotationBoundary
  rr_pending_external_step :: "ReleaseRotationExternalStep option"
  rr_successor_cutex_session :: "id option"
  rr_successor_thread_id :: "bytes option"
  rr_successor_seat_epoch :: "u64 option"
  rr_delivered_message_id :: "bytes option"
  rr_blocked_reason :: "bytes option"
  rr_created_at :: Rfc3339
  rr_updated_at :: Rfc3339
  rr_completed_at :: "Rfc3339 option"

record ReleaseRotationReceipt =
  rc_action_id :: id
  rc_request_sha256 :: Sha256
  rc_status :: ReleaseRotationStatus
  rc_completed_boundary :: ReleaseRotationBoundary
  rc_pending_external_step :: "ReleaseRotationExternalStep option"
  rc_predecessor_cutex_session :: id
  rc_predecessor_seat_epoch :: u64
  rc_successor_cutex_session :: "id option"
  rc_successor_thread_id :: "bytes option"
  rc_successor_seat_epoch :: "u64 option"
  rc_template_version :: u64
  rc_template_sha256 :: Sha256
  rc_delivered_message_id :: "bytes option"
  rc_blocked_reason :: "bytes option"
  rc_updated_at :: Rfc3339

definition ReleaseRotationReceipt_from :: "ReleaseRotationRecord \<Rightarrow> ReleaseRotationReceipt" where
  "ReleaseRotationReceipt_from r = \<lparr>
     rc_action_id = rr_action_id r,
     rc_request_sha256 = rr_request_sha256 r,
     rc_status = rr_status r,
     rc_completed_boundary = rr_completed_boundary r,
     rc_pending_external_step = rr_pending_external_step r,
     rc_predecessor_cutex_session = rr_predecessor_cutex_session r,
     rc_predecessor_seat_epoch = rr_predecessor_seat_epoch r,
     rc_successor_cutex_session = rr_successor_cutex_session r,
     rc_successor_thread_id = rr_successor_thread_id r,
     rc_successor_seat_epoch = rr_successor_seat_epoch r,
     rc_template_version = tpl_version (rr_template r),
     rc_template_sha256 = rr_template_sha256 r,
     rc_delivered_message_id = rr_delivered_message_id r,
     rc_blocked_reason = rr_blocked_reason r,
     rc_updated_at = rr_updated_at r\<rparr>"

record RetryReleaseRotationRequest =
  retry_action_id :: id
  retry_expected_request_sha256 :: Sha256
  retry_expected_completed_boundary :: ReleaseRotationBoundary
  retry_expected_pending_external_step :: "ReleaseRotationExternalStep option"
  retry_corrected_successor_cutex_session :: "id option"
  retry_corrected_successor_thread_id :: "bytes option"

section \<open>The order of the boundaries\<close>

fun boundary_rank :: "ReleaseRotationBoundary \<Rightarrow> nat" where
  "boundary_rank SeatRevoked = 0"
| "boundary_rank PredecessorOfflined = 1"
| "boundary_rank PredecessorRetired = 2"
| "boundary_rank SuccessorSessionCreated = 3"
| "boundary_rank SuccessorThreadStarted = 4"
| "boundary_rank SuccessorRuntimeOnline = 5"
| "boundary_rank SuccessorBound = 6"
| "boundary_rank DirectorMessageDelivered = 7"

lemma boundary_rank_le: "boundary_rank b \<le> 7"
  by (cases b) auto

lemma boundary_rank_inj: "boundary_rank b = boundary_rank c \<Longrightarrow> b = c"
  by (cases b; cases c) auto

text \<open>The boundary that a completed external step leads to.\<close>

fun step_target :: "ReleaseRotationExternalStep \<Rightarrow> ReleaseRotationBoundary" where
  "step_target OfflinePredecessor = PredecessorOfflined"
| "step_target RetirePredecessor = PredecessorRetired"
| "step_target CreateSuccessorSession = SuccessorSessionCreated"
| "step_target StartSuccessorThread = SuccessorThreadStarted"
| "step_target LaunchSuccessorRuntime = SuccessorRuntimeOnline"
| "step_target DeliverDirectorMessage = DirectorMessageDelivered"

end
