(* ===== verification/Durable_Document.thy ===== *)
theory Durable_Document
  imports Rust_Text
begin

text \<open>
  The durable single-document stores. \<open>SeatOccupancyStore\<close> (\<open>seat/mod.rs\<close>) and
  \<open>ReleaseTemplateStore\<close> (\<open>rotation/template_store.rs\<close>) keep one JSON document each under a lock
  file and share the same skeleton: take the process mutex, open and lock the lock file, read
  the document (an absent file is the empty document), run an operation that returns the next
  document, an answer and a write flag, and, when the flag is set, replace the document by
  writing a temporary file and renaming it.

  \<open>doc_fs\<close> is what is on disk; \<open>doc_io\<close> is what the operating system answers during one call: a
  poisoned mutex, a failure to open or lock the lock file, to open or read the document, or to
  write it, in which case the flag says whether the rename had already happened. The document
  is bytes; \<open>serde_json\<close> is the pair \<open>enc\<close>, \<open>dec\<close> of a \<open>doc_spec\<close>, with the laws the stores rely
  on in \<open>doc_roundtrip\<close>.
\<close>

datatype io_error_kind = NotFound | PermissionDenied | AlreadyExists | InvalidInput | OtherKind bytes

record doc_fs =
  lock_file :: bool
  store_file :: "bytes option"

record doc_io =
  mutex_poisoned :: bool
  open_lock_error :: "io_error_kind option"
  flock_error :: "io_error_kind option"
  open_store_error :: "io_error_kind option"
  read_store_error :: "io_error_kind option"
  write_store_error :: "(bool \<times> io_error_kind) option"

definition io_fine :: doc_io where
  "io_fine = \<lparr>mutex_poisoned = False, open_lock_error = None, flock_error = None,
     open_store_error = None, read_store_error = None, write_store_error = None\<rparr>"

record ('s, 'e) doc_spec =
  empty_doc :: 's
  enc :: "'s \<Rightarrow> bytes option"
  dec :: "bytes \<Rightarrow> 's option"
  err_unavailable :: 'e
  err_invalid :: 'e
  err_io :: "io_error_kind \<Rightarrow> 'e"

definition read_snapshot :: "('s, 'e) doc_spec \<Rightarrow> doc_io \<Rightarrow> doc_fs \<Rightarrow> 'e + 's" where
  "read_snapshot D io fs =
     (case open_store_error io of
        Some NotFound \<Rightarrow> Inr (empty_doc D)
      | Some k \<Rightarrow> Inl (err_io D k)
      | None \<Rightarrow> (case store_file fs of
          None \<Rightarrow> Inr (empty_doc D)
        | Some bs \<Rightarrow> (case read_store_error io of
            Some k \<Rightarrow> Inl (err_io D k)
          | None \<Rightarrow> ok_or (err_invalid D) (dec D bs))))"

definition write_snapshot :: "('s, 'e) doc_spec \<Rightarrow> doc_io \<Rightarrow> doc_fs \<Rightarrow> 's \<Rightarrow> ('e + unit) \<times> doc_fs" where
  "write_snapshot D io fs st =
     (case enc D st of
        None \<Rightarrow> (Inl (err_invalid D), fs)
      | Some bs \<Rightarrow> (case write_store_error io of
          None \<Rightarrow> (Inr (), fs\<lparr>store_file := Some bs\<rparr>)
        | Some (renamed, k) \<Rightarrow>
            (Inl (err_io D k), if renamed then fs\<lparr>store_file := Some bs\<rparr> else fs)))"

text \<open>Opening the lock file: \<open>Ok\<close> leaves it on disk, an error is the kind reported.\<close>

definition open_lock_file :: "bool \<Rightarrow> doc_io \<Rightarrow> doc_fs \<Rightarrow> io_error_kind + doc_fs" where
  "open_lock_file create io fs =
     (case open_lock_error io of
        Some k \<Rightarrow> Inl k
      | None \<Rightarrow> if lock_file fs \<or> create then Inr (fs\<lparr>lock_file := True\<rparr>) else Inl NotFound)"

definition with_locked_state ::
  "('s, 'e) doc_spec \<Rightarrow> bool \<Rightarrow> ('s \<Rightarrow> 'e + ('s \<times> 'v \<times> bool)) \<Rightarrow> doc_io \<Rightarrow> doc_fs \<Rightarrow> ('e + 'v) \<times> doc_fs"
  where
  "with_locked_state D create operation io fs =
     (if mutex_poisoned io then (Inl (err_unavailable D), fs)
      else case open_lock_file create io fs of
        Inl k \<Rightarrow>
          if \<not> create \<and> k = NotFound
          then (case operation (empty_doc D) of
                  Inl e \<Rightarrow> (Inl e, fs)
                | Inr (st, v, write) \<Rightarrow> (Inr v, fs))
          else (Inl (err_io D k), fs)
      | Inr fs1 \<Rightarrow> (case flock_error io of
          Some k \<Rightarrow> (Inl (err_io D k), fs1)
        | None \<Rightarrow> (case read_snapshot D io fs1 of
            Inl e \<Rightarrow> (Inl e, fs1)
          | Inr state \<Rightarrow> (case operation state of
              Inl e \<Rightarrow> (Inl e, fs1)
            | Inr (st, v, write) \<Rightarrow>
                if write
                then (case write_snapshot D io fs1 st of
                        (Inl e, fs2) \<Rightarrow> (Inl e, fs2)
                      | (Inr _, fs2) \<Rightarrow> (Inr v, fs2))
                else (Inr v, fs1)))))"

text \<open>The shared-lock reader of both stores: no lock file is an answer of its own.\<close>

definition with_shared_state ::
  "('s, 'e) doc_spec \<Rightarrow> 'e \<Rightarrow> ('s \<Rightarrow> 'e + 'v) \<Rightarrow> doc_io \<Rightarrow> doc_fs \<Rightarrow> 'e + 'v"
  where
  "with_shared_state D missing operation io fs =
     (if mutex_poisoned io then Inl (err_unavailable D)
      else case open_lock_file False io fs of
        Inl k \<Rightarrow> if k = NotFound then Inl missing else Inl (err_io D k)
      | Inr fs1 \<Rightarrow> (case flock_error io of
          Some k \<Rightarrow> Inl (err_io D k)
        | None \<Rightarrow> res_bind (read_snapshot D io fs1) operation))"

section \<open>The contract\<close>

definition doc_roundtrip :: "('s, 'e) doc_spec \<Rightarrow> bool" where
  "doc_roundtrip D \<longleftrightarrow> (\<forall>s bs. enc D s = Some bs \<longrightarrow> dec D bs = Some s)"

text \<open>The document on disk, \<open>None\<close> when its bytes do not decode.\<close>

definition doc_state :: "('s, 'e) doc_spec \<Rightarrow> doc_fs \<Rightarrow> 's option" where
  "doc_state D fs = (case store_file fs of None \<Rightarrow> Some (empty_doc D) | Some bs \<Rightarrow> dec D bs)"

text \<open>
  The operating system reports a file as not found only when it is absent; and the document is
  only ever written under its lock file.
\<close>

definition no_spurious_not_found :: "doc_io \<Rightarrow> bool" where
  "no_spurious_not_found io \<longleftrightarrow>
     open_store_error io \<noteq> Some NotFound \<and> open_lock_error io \<noteq> Some NotFound"

definition doc_wf :: "doc_fs \<Rightarrow> bool" where
  "doc_wf fs \<longleftrightarrow> (store_file fs \<noteq> None \<longrightarrow> lock_file fs)"

lemma io_fine_simps [simp]:
  "mutex_poisoned io_fine = False" "open_lock_error io_fine = None" "flock_error io_fine = None"
  "open_store_error io_fine = None" "read_store_error io_fine = None"
  "write_store_error io_fine = None" "no_spurious_not_found io_fine"
  by (simp_all add: io_fine_def no_spurious_not_found_def)

lemma doc_state_lock [simp]: "doc_state D (fs\<lparr>lock_file := b\<rparr>) = doc_state D fs"
  by (simp add: doc_state_def)

lemma doc_state_written:
  "doc_roundtrip D \<Longrightarrow> enc D t = Some bs \<Longrightarrow> doc_state D (fs\<lparr>store_file := Some bs\<rparr>) = Some t"
  by (simp add: doc_roundtrip_def doc_state_def)

lemma read_snapshot_state:
  "no_spurious_not_found io \<Longrightarrow> read_snapshot D io fs = Inr s \<Longrightarrow> doc_state D fs = Some s"
  by (auto simp: read_snapshot_def doc_state_def no_spurious_not_found_def res_simps
      split: option.splits io_error_kind.splits)

lemmas locked_state_defs = with_locked_state_def open_lock_file_def write_snapshot_def
lemmas doc_splits = if_splits sum.splits option.splits prod.splits

text \<open>
  Whatever the operating system answers, the document afterwards is either the one before or
  the one the operation computed from it: a call never leaves a third document behind.
\<close>

lemma locked_state_atomic:
  assumes rt: "doc_roundtrip D"
    and run: "with_locked_state D create operation io fs = (r, fs')"
    and nf: "no_spurious_not_found io"
  shows "doc_state D fs' = doc_state D fs \<or>
    (\<exists>s t v. doc_state D fs = Some s \<and> operation s = Inr (t, v, True) \<and> doc_state D fs' = Some t)"
  using run
  by (auto simp: locked_state_defs doc_state_written [OF rt] split: doc_splits
      dest!: read_snapshot_state [OF nf])

lemma locked_state_wf:
  "with_locked_state D create operation io fs = (r, fs') \<Longrightarrow> doc_wf fs \<Longrightarrow> doc_wf fs'"
  by (auto simp: locked_state_defs doc_wf_def split: doc_splits)

text \<open>An answer \<open>Ok\<close> is the operation's answer on the document that was on disk.\<close>

lemma locked_state_ok:
  assumes rt: "doc_roundtrip D"
    and run: "with_locked_state D create operation io fs = (Inr v, fs')"
    and nf: "no_spurious_not_found io"
    and wf: "doc_wf fs"
  shows "\<exists>s t w. doc_state D fs = Some s \<and> operation s = Inr (t, v, w) \<and>
    (create \<and> w \<longrightarrow> doc_state D fs' = Some t) \<and> (\<not> w \<longrightarrow> doc_state D fs' = Some s)"
proof -
  have absent: "doc_state D fs = Some (empty_doc D)" if "\<not> lock_file fs"
    using wf that by (auto simp: doc_wf_def doc_state_def)
  show ?thesis
  proof (cases "open_lock_file create io fs")
    case (Inl k)
    with nf have "\<not> lock_file fs"
      if "k = NotFound"
      using that by (auto simp: open_lock_file_def no_spurious_not_found_def split: doc_splits)
    with run Inl absent show ?thesis
      by (auto simp: with_locked_state_def split: doc_splits)
  next
    case (Inr fs1)
    then have fs1: "doc_state D fs1 = doc_state D fs"
      by (auto simp: open_lock_file_def split: doc_splits)
    obtain s where s: "read_snapshot D io fs1 = Inr s"
      using run Inr by (auto simp: with_locked_state_def split: doc_splits)
    have before: "doc_state D fs = Some s"
      using read_snapshot_state [OF nf s] fs1 by simp
    have "\<exists>t w. operation s = Inr (t, v, w) \<and>
        (create \<and> w \<longrightarrow> doc_state D fs' = Some t) \<and> (\<not> w \<longrightarrow> doc_state D fs' = doc_state D fs)"
      using run Inr fs1 s
      by (auto simp: with_locked_state_def write_snapshot_def doc_state_written [OF rt]
          split: doc_splits)
    with before show ?thesis by auto
  qed
qed

text \<open>An answer \<open>Ok\<close> always comes from the operation.\<close>

lemma locked_state_result:
  "with_locked_state D create operation io fs = (Inr v, fs') \<Longrightarrow> \<exists>s t w. operation s = Inr (t, v, w)"
  by (auto simp: with_locked_state_def split: doc_splits)

text \<open>When nothing fails, the call is the operation followed by its write.\<close>

lemma read_snapshot_fine:
  "doc_state D fs = Some s \<Longrightarrow> read_snapshot D io_fine (fs\<lparr>lock_file := b\<rparr>) = Inr s"
  by (auto simp: read_snapshot_def doc_state_def split: option.splits)

lemma locked_state_fine:
  assumes "doc_state D fs = Some s"
  shows "with_locked_state D True operation io_fine fs =
    (case operation s of
       Inl e \<Rightarrow> (Inl e, fs\<lparr>lock_file := True\<rparr>)
     | Inr (t, v, w) \<Rightarrow>
         if w then (case enc D t of
             None \<Rightarrow> (Inl (err_invalid D), fs\<lparr>lock_file := True\<rparr>)
           | Some bs \<Rightarrow> (Inr v, fs\<lparr>lock_file := True, store_file := Some bs\<rparr>))
         else (Inr v, fs\<lparr>lock_file := True\<rparr>))"
  by (auto simp: locked_state_defs read_snapshot_fine [OF assms] split: sum.splits option.splits)

lemma locked_state_read_fine:
  assumes "doc_state D fs = Some s" and "doc_wf fs" and "operation s = Inr (s, v, False)"
  shows "fst (with_locked_state D False operation io_fine fs) = Inr v"
proof (cases "lock_file fs")
  case True
  then have "fs\<lparr>lock_file := True\<rparr> = fs" by simp
  with True show ?thesis
    using read_snapshot_fine [OF assms(1), of True] assms(3)
    by (simp add: locked_state_defs)
next
  case False
  then have "s = empty_doc D"
    using assms(1,2) by (simp add: doc_wf_def doc_state_def split: option.splits)
  with False assms(3) show ?thesis
    by (simp add: locked_state_defs)
qed

section \<open>A codec for a finite set of documents\<close>

text \<open>A concrete codec with the laws above: a document is written as its place in a table.\<close>

fun table_index :: "'s list \<Rightarrow> 's \<Rightarrow> nat option" where
  "table_index [] s = None"
| "table_index (x # xs) s = (if x = s then Some 0 else map_option Suc (table_index xs s))"

definition table_enc :: "'s list \<Rightarrow> 's \<Rightarrow> bytes option" where
  "table_enc xs s = map_option (\<lambda>i. replicate i (CHR ''x'')) (table_index xs s)"

definition table_dec :: "'s list \<Rightarrow> bytes \<Rightarrow> 's option" where
  "table_dec xs bs = (if length bs < length xs then Some (xs ! length bs) else None)"

lemma table_index_Some: "table_index xs s = Some i \<Longrightarrow> i < length xs \<and> xs ! i = s"
  by (induction xs s arbitrary: i rule: table_index.induct) (auto split: if_splits)

lemma table_roundtrip: "table_enc xs s = Some bs \<Longrightarrow> table_dec xs bs = Some s"
  by (auto simp: table_enc_def table_dec_def dest: table_index_Some)

end
