(* ===== verification/Seat_Authority.thy ===== *)
theory Seat_Authority
  imports Release_Model Durable_Document
begin

text \<open>
  Durable logical-seat occupancy (\<open>seat/mod.rs\<close>): which durable session holds the Task Service
  seats \<open>cutex-director\<close> and \<open>cutex-release\<close>, with the epoch that fences an earlier holder, the
  receipts that make the mutations idempotent, the fence of an unfinished Director transfer and
  the records of Release rotations.

  Every mutation of the store is a transaction: a function from the snapshot to an error or
  the next snapshot, the answer and the write flag, run by \<open>with_locked_state\<close> of
  \<open>Durable_Document\<close>. The transactions come first, in the order of the source, then the store
  operations that run them on disk.
\<close>

section \<open>State\<close>

record SeatOccupancyBindRequest =
  bind_action_id :: id
  bind_seat_id :: id
  bind_occupant_cutex_session :: id

record DirectorSeatTransferRequest =
  xfer_action_id :: id
  xfer_expected_predecessor_cutex_session :: id
  xfer_successor_cutex_session :: id

record SeatOccupancy =
  occ_seat_id :: id
  occ_occupant_cutex_session :: id
  occ_epoch :: u64
  occ_bound_at :: Rfc3339

record SeatOccupancyReceipt =
  rcpt_action_id :: id
  rcpt_request_sha256 :: bytes
  rcpt_store_revision :: u64
  rcpt_occupancy :: SeatOccupancy

record SeatRotatingVacancy =
  vac_seat_id :: id
  vac_action_id :: id
  vac_request_sha256 :: Sha256
  vac_predecessor_cutex_session :: id
  vac_epoch :: u64
  vac_vacated_at :: Rfc3339

record SeatOccupancySnapshot =
  store_revision :: u64
  occupancies :: "(id, SeatOccupancy) btree"
  receipts :: "(id, SeatOccupancyReceipt) btree"
  active_director_transfer :: "id option"
  rotating_vacancies :: "(id, SeatRotatingVacancy) btree"
  release_rotations :: "(id, ReleaseRotationRecord) btree"
  active_release_rotation :: "id option"

definition SeatOccupancySnapshot_empty :: SeatOccupancySnapshot where
  "SeatOccupancySnapshot_empty = \<lparr>store_revision = 0, occupancies = [], receipts = [],
     active_director_transfer = None, rotating_vacancies = [], release_rotations = [],
     active_release_rotation = None\<rparr>"

datatype SeatAuthorityError =
    Seat_InvalidRequest bytes
  | Seat_Unauthorized
  | Seat_Conflict bytes
  | Seat_PersistenceUnavailable
  | Seat_InvalidStore
  | Seat_Io io_error_kind

definition director_seat :: id where
  "director_seat = ''cutex-director''"

definition release_seat :: id where
  "release_seat = ''cutex-release''"

lemma seats_distinct [simp]: "director_seat \<noteq> release_seat" "release_seat \<noteq> director_seat"
  by (simp_all add: director_seat_def release_seat_def)

text \<open>
  What the operations take from outside: the JSON form of the two requests whose digest is
  stored, SHA-256 in lower-case hexadecimal, and the time of the call.
\<close>

record seat_env =
  json_bind :: "SeatOccupancyBindRequest \<Rightarrow> bytes option"
  json_transfer :: "DirectorSeatTransferRequest \<Rightarrow> bytes option"
  sha256_hex :: "bytes \<Rightarrow> bytes"
  now :: Rfc3339

definition request_digest :: "('q \<Rightarrow> bytes option) \<Rightarrow> (bytes \<Rightarrow> bytes) \<Rightarrow> 'q \<Rightarrow> SeatAuthorityError + bytes" where
  "request_digest json sha q =
     (case json q of None \<Rightarrow> Inl (Seat_InvalidRequest ''invalid_request'') | Some bs \<Rightarrow> Inr (sha bs))"

definition next_revision :: "u64 \<Rightarrow> SeatAuthorityError + u64" where
  "next_revision current = ok_or (Seat_Conflict ''store_revision_overflow'') (json_safe_succ current)"

definition next_epoch :: "u64 \<Rightarrow> SeatAuthorityError + u64" where
  "next_epoch current = ok_or (Seat_Conflict ''seat_epoch_overflow'') (json_safe_succ current)"

definition director_occupancy :: "SeatOccupancySnapshot \<Rightarrow> SeatAuthorityError + SeatOccupancy" where
  "director_occupancy s =
     ok_or (Seat_Conflict ''director_seat_not_bound'') (bt_get (occupancies s) director_seat)"

text \<open>The check repeated by every mutation that seats a session.\<close>

definition occupies_another_seat :: "SeatOccupancySnapshot \<Rightarrow> id \<Rightarrow> id \<Rightarrow> bool" where
  "occupies_another_seat s seat session \<longleftrightarrow>
     list_ex (\<lambda>(k, oc). k \<noteq> seat \<and> occ_occupant_cutex_session oc = session) (occupancies s)"

section \<open>Administrative bind\<close>

definition bind_transaction ::
  "seat_env \<Rightarrow> SeatOccupancyBindRequest \<Rightarrow> bytes \<Rightarrow> SeatOccupancySnapshot \<Rightarrow>
     SeatAuthorityError + (SeatOccupancySnapshot \<times> SeatOccupancyReceipt \<times> bool)" where
  "bind_transaction E q digest s =
     (case bt_get (receipts s) (bind_action_id q) of
        Some receipt \<Rightarrow>
          if rcpt_request_sha256 receipt = digest then Inr (s, receipt, False)
          else Inl (Seat_Conflict ''action_id_payload_conflict'')
      | None \<Rightarrow>
          if occupies_another_seat s (bind_seat_id q) (bind_occupant_cutex_session q)
          then Inl (Seat_Conflict ''session_already_occupies_another_seat'')
          else if bt_get (rotating_vacancies s) (bind_seat_id q) \<noteq> None
             \<or> (bind_seat_id q = director_seat \<and> active_director_transfer s \<noteq> None)
             \<or> (bind_seat_id q = release_seat \<and> active_release_rotation s \<noteq> None)
          then Inl (Seat_Conflict ''seat_rotation_in_progress'')
          else res_bind (case bt_get (occupancies s) (bind_seat_id q) of
                           None \<Rightarrow> Inr 1 | Some current \<Rightarrow> next_epoch (occ_epoch current)) (\<lambda>epoch.
               res_bind (next_revision (store_revision s)) (\<lambda>revision.
               let occupancy = \<lparr>occ_seat_id = bind_seat_id q,
                     occ_occupant_cutex_session = bind_occupant_cutex_session q,
                     occ_epoch = epoch, occ_bound_at = now E\<rparr>;
                   receipt = \<lparr>rcpt_action_id = bind_action_id q, rcpt_request_sha256 = digest,
                     rcpt_store_revision = revision, rcpt_occupancy = occupancy\<rparr>
               in Inr (s\<lparr>store_revision := revision,
                         occupancies := bt_insert (bind_seat_id q) occupancy (occupancies s),
                         receipts := bt_insert (bind_action_id q) receipt (receipts s)\<rparr>,
                       receipt, True))))"

text \<open>The checks made before the lock is taken, and the whole request seen on a snapshot.\<close>

definition bind_prepare :: "seat_env \<Rightarrow> SeatOccupancyBindRequest \<Rightarrow> SeatAuthorityError + bytes" where
  "bind_prepare E q =
     (if bind_seat_id q \<notin> {director_seat, release_seat}
      then Inl (Seat_InvalidRequest ''unsupported_seat'')
      else request_digest (json_bind E) (sha256_hex E) q)"

definition bind_on ::
  "seat_env \<Rightarrow> SeatOccupancyBindRequest \<Rightarrow> SeatOccupancySnapshot \<Rightarrow>
     SeatAuthorityError + (SeatOccupancySnapshot \<times> SeatOccupancyReceipt \<times> bool)" where
  "bind_on E q s = res_bind (bind_prepare E q) (\<lambda>digest. bind_transaction E q digest s)"

section \<open>Director transfer\<close>

definition verify_director_transfer_receipt ::
  "seat_env \<Rightarrow> SeatOccupancySnapshot \<Rightarrow> DirectorSeatTransferRequest \<Rightarrow> SeatOccupancyReceipt \<Rightarrow>
     SeatAuthorityError + unit" where
  "verify_director_transfer_receipt E s q receipt =
     res_bind (request_digest (json_transfer E) (sha256_hex E) q) (\<lambda>digest.
     if rcpt_request_sha256 receipt \<noteq> digest
     then Inl (Seat_Conflict ''action_id_payload_conflict'')
     else res_bind (director_occupancy s) (\<lambda>current.
       if occ_seat_id (rcpt_occupancy receipt) \<noteq> director_seat
          \<or> occ_occupant_cutex_session (rcpt_occupancy receipt) \<noteq> xfer_successor_cutex_session q
          \<or> current \<noteq> rcpt_occupancy receipt
       then Inl (Seat_Conflict ''director_seat_changed_after_transfer'')
       else Inr ()))"

definition preflight_director_transfer_transaction ::
  "seat_env \<Rightarrow> id \<Rightarrow> id \<Rightarrow> DirectorSeatTransferRequest option \<Rightarrow> SeatOccupancySnapshot \<Rightarrow>
     SeatAuthorityError + (SeatOccupancySnapshot \<times> unit \<times> bool)" where
  "preflight_director_transfer_transaction E action_id expected_predecessor replay s =
     (case bt_get (receipts s) action_id of
        Some receipt \<Rightarrow>
          res_bind (ok_or (Seat_Conflict ''director_seat_transfer_action_id_already_used'') replay) (\<lambda>q.
          res_bind (verify_director_transfer_receipt E s q receipt) (\<lambda>_. Inr (s, (), False)))
      | None \<Rightarrow>
          res_bind (director_occupancy s) (\<lambda>current.
          if occ_occupant_cutex_session current \<noteq> expected_predecessor
          then Inl (Seat_Conflict ''stale_director_seat_occupancy'')
          else Inr (s, (), False)))"

definition transfer_director_transaction ::
  "seat_env \<Rightarrow> DirectorSeatTransferRequest \<Rightarrow> bytes \<Rightarrow> SeatOccupancySnapshot \<Rightarrow>
     SeatAuthorityError + (SeatOccupancySnapshot \<times> SeatOccupancyReceipt \<times> bool)" where
  "transfer_director_transaction E q digest s =
     (case bt_get (receipts s) (xfer_action_id q) of
        Some receipt \<Rightarrow>
          res_bind (verify_director_transfer_receipt E s q receipt) (\<lambda>_. Inr (s, receipt, False))
      | None \<Rightarrow>
          if active_director_transfer s \<noteq> None
          then Inl (Seat_Conflict ''director_seat_rotation_in_progress'')
          else if occupies_another_seat s director_seat (xfer_successor_cutex_session q)
          then Inl (Seat_Conflict ''session_already_occupies_another_seat'')
          else res_bind (director_occupancy s) (\<lambda>current.
            if occ_occupant_cutex_session current \<noteq> xfer_expected_predecessor_cutex_session q
            then Inl (Seat_Conflict ''stale_director_seat_occupancy'')
            else res_bind (next_epoch (occ_epoch current)) (\<lambda>epoch.
                 res_bind (next_revision (store_revision s)) (\<lambda>revision.
                 let occupancy = \<lparr>occ_seat_id = director_seat,
                       occ_occupant_cutex_session = xfer_successor_cutex_session q,
                       occ_epoch = epoch, occ_bound_at = now E\<rparr>;
                     receipt = \<lparr>rcpt_action_id = xfer_action_id q, rcpt_request_sha256 = digest,
                       rcpt_store_revision = revision, rcpt_occupancy = occupancy\<rparr>
                 in Inr (s\<lparr>store_revision := revision,
                           occupancies := bt_insert director_seat occupancy (occupancies s),
                           receipts := bt_insert (xfer_action_id q) receipt (receipts s),
                           active_director_transfer := Some (xfer_action_id q)\<rparr>,
                         receipt, True)))))"

definition transfer_director_prepare :: "seat_env \<Rightarrow> DirectorSeatTransferRequest \<Rightarrow> SeatAuthorityError + bytes" where
  "transfer_director_prepare E q =
     (if xfer_expected_predecessor_cutex_session q = xfer_successor_cutex_session q
      then Inl (Seat_InvalidRequest ''director_transfer_requires_distinct_successor'')
      else request_digest (json_transfer E) (sha256_hex E) q)"

definition transfer_director_on ::
  "seat_env \<Rightarrow> DirectorSeatTransferRequest \<Rightarrow> SeatOccupancySnapshot \<Rightarrow>
     SeatAuthorityError + (SeatOccupancySnapshot \<times> SeatOccupancyReceipt \<times> bool)" where
  "transfer_director_on E q s =
     res_bind (transfer_director_prepare E q) (\<lambda>digest. transfer_director_transaction E q digest s)"

definition finish_director_transfer_on ::
  "seat_env \<Rightarrow> DirectorSeatTransferRequest \<Rightarrow> SeatOccupancySnapshot \<Rightarrow>
     SeatAuthorityError + (SeatOccupancySnapshot \<times> SeatOccupancyReceipt \<times> bool)" where
  "finish_director_transfer_on E q s =
     res_bind (ok_or (Seat_Conflict ''director_seat_transfer_not_found'')
                 (bt_get (receipts s) (xfer_action_id q))) (\<lambda>receipt.
     res_bind (verify_director_transfer_receipt E s q receipt) (\<lambda>_.
     case active_director_transfer s of
       Some active \<Rightarrow>
         if active = xfer_action_id q
         then res_bind (next_revision (store_revision s)) (\<lambda>revision.
              Inr (s\<lparr>active_director_transfer := None, store_revision := revision\<rparr>, receipt, True))
         else Inl (Seat_Conflict ''director_seat_rotation_in_progress'')
     | None \<Rightarrow> Inr (s, receipt, False)))"

definition verify_director_transfer_on ::
  "seat_env \<Rightarrow> DirectorSeatTransferRequest \<Rightarrow> SeatOccupancySnapshot \<Rightarrow>
     SeatAuthorityError + (SeatOccupancySnapshot \<times> SeatOccupancyReceipt \<times> bool)" where
  "verify_director_transfer_on E q s =
     res_bind (ok_or (Seat_Conflict ''director_seat_transfer_not_found'')
                 (bt_get (receipts s) (xfer_action_id q))) (\<lambda>receipt.
     res_bind (verify_director_transfer_receipt E s q receipt) (\<lambda>_. Inr (s, receipt, False)))"

definition query_on ::
  "SeatOccupancySnapshot \<Rightarrow> SeatAuthorityError + (SeatOccupancySnapshot \<times> SeatOccupancySnapshot \<times> bool)" where
  "query_on s = Inr (s, s, False)"

section \<open>Release rotation\<close>

definition begin_release_rotation_transaction ::
  "seat_env \<Rightarrow> id \<Rightarrow> ReleaseRotationRequest \<Rightarrow> Sha256 \<Rightarrow> ReleaseTemplate \<Rightarrow> Sha256 \<Rightarrow>
     SeatOccupancySnapshot \<Rightarrow> SeatAuthorityError + (SeatOccupancySnapshot \<times> ReleaseRotationRecord \<times> bool)" where
  "begin_release_rotation_transaction E director_session q request_sha256 template template_sha256 s =
     (case bt_get (release_rotations s) (req_action_id q) of
        Some record \<Rightarrow>
          if rr_request_sha256 record = request_sha256 then Inr (s, record, False)
          else Inl (Seat_Conflict ''action_id_payload_conflict'')
      | None \<Rightarrow>
          if active_release_rotation s \<noteq> None
          then Inl (Seat_Conflict ''release_rotation_in_progress'')
          else res_bind (ok_or Seat_Unauthorized (bt_get (occupancies s) director_seat)) (\<lambda>director.
            if occ_occupant_cutex_session director \<noteq> director_session then Inl Seat_Unauthorized
            else res_bind (ok_or (Seat_Conflict ''release_seat_not_bound'')
                             (bt_get (occupancies s) (req_target_seat q))) (\<lambda>current.
              if occ_occupant_cutex_session current \<noteq> req_expected_predecessor_cutex_session q
                 \<or> occ_epoch current \<noteq> req_expected_seat_epoch q
              then Inl (Seat_Conflict ''stale_release_occupancy'')
              else if tpl_version template \<noteq> req_expected_template_version q
                 \<or> template_sha256 \<noteq> req_expected_template_sha256 q
              then Inl (Seat_Conflict ''stale_release_template'')
              else res_bind (next_revision (store_revision s)) (\<lambda>revision.
                let vacancy = \<lparr>vac_seat_id = req_target_seat q, vac_action_id = req_action_id q,
                      vac_request_sha256 = request_sha256,
                      vac_predecessor_cutex_session = occ_occupant_cutex_session current,
                      vac_epoch = occ_epoch current, vac_vacated_at = now E\<rparr>;
                    record = \<lparr>rr_action_id = req_action_id q, rr_request_sha256 = request_sha256,
                      rr_director_cutex_session = director_session,
                      rr_target_seat = req_target_seat q,
                      rr_predecessor_cutex_session = req_expected_predecessor_cutex_session q,
                      rr_predecessor_seat_epoch = req_expected_seat_epoch q,
                      rr_template = template, rr_template_sha256 = template_sha256,
                      rr_starting_message = req_starting_message q,
                      rr_status = Running, rr_completed_boundary = SeatRevoked,
                      rr_pending_external_step = None, rr_successor_cutex_session = None,
                      rr_successor_thread_id = None, rr_successor_seat_epoch = None,
                      rr_delivered_message_id = None, rr_blocked_reason = None,
                      rr_created_at = now E, rr_updated_at = now E, rr_completed_at = None\<rparr>
                in Inr (s\<lparr>store_revision := revision,
                          occupancies := bt_remove (req_target_seat q) (occupancies s),
                          rotating_vacancies :=
                            bt_insert (req_target_seat q) vacancy (rotating_vacancies s),
                          active_release_rotation := Some (req_action_id q),
                          release_rotations :=
                            bt_insert (req_action_id q) record (release_rotations s)\<rparr>,
                        record, True)))))"

definition begin_release_rotation_on ::
  "seat_env \<Rightarrow> id \<Rightarrow> ReleaseRotationRequest \<Rightarrow> Sha256 \<Rightarrow> ReleaseTemplate \<Rightarrow> Sha256 \<Rightarrow>
     SeatOccupancySnapshot \<Rightarrow> SeatAuthorityError + (SeatOccupancySnapshot \<times> ReleaseRotationRecord \<times> bool)" where
  "begin_release_rotation_on E director_session q request_sha256 template template_sha256 s =
     (if req_target_seat q \<noteq> release_seat
      then Inl (Seat_InvalidRequest ''unsupported_rotation_target'')
      else begin_release_rotation_transaction E director_session q request_sha256 template template_sha256 s)"

definition mutate_release_rotation_on ::
  "seat_env \<Rightarrow> id \<Rightarrow> Sha256 \<Rightarrow> (ReleaseRotationRecord \<Rightarrow> SeatAuthorityError + ReleaseRotationRecord) \<Rightarrow>
     SeatOccupancySnapshot \<Rightarrow> SeatAuthorityError + (SeatOccupancySnapshot \<times> ReleaseRotationRecord \<times> bool)" where
  "mutate_release_rotation_on E action_id request_sha256 operation s =
     res_bind (ok_or (Seat_Conflict ''rotation_not_found'')
                 (bt_get (release_rotations s) action_id)) (\<lambda>record.
     if rr_request_sha256 record \<noteq> request_sha256
     then Inl (Seat_Conflict ''action_id_payload_conflict'')
     else res_bind (operation record) (\<lambda>changed.
       let record' = changed\<lparr>rr_updated_at := now E\<rparr>
       in res_bind (next_revision (store_revision s)) (\<lambda>revision.
          Inr (s\<lparr>release_rotations := bt_insert action_id record' (release_rotations s),
                 store_revision := revision\<rparr>, record', True))))"

definition mark_pending_change ::
  "ReleaseRotationStatus \<Rightarrow> ReleaseRotationBoundary \<Rightarrow> ReleaseRotationExternalStep \<Rightarrow>
     ReleaseRotationRecord \<Rightarrow> SeatAuthorityError + ReleaseRotationRecord" where
  "mark_pending_change expected_status expected_boundary step record =
     (if rr_status record = Complete then Inl (Seat_Conflict ''rotation_already_complete'')
      else if rr_status record \<noteq> expected_status
         \<or> rr_completed_boundary record \<noteq> expected_boundary
         \<or> rr_pending_external_step record \<noteq> None
      then Inl (Seat_Conflict ''external_boundary_changed'')
      else Inr (record\<lparr>rr_status := Running, rr_blocked_reason := None,
                       rr_pending_external_step := Some step\<rparr>))"

definition mark_release_rotation_pending_on ::
  "seat_env \<Rightarrow> id \<Rightarrow> Sha256 \<Rightarrow> ReleaseRotationStatus \<Rightarrow> ReleaseRotationBoundary \<Rightarrow>
     ReleaseRotationExternalStep \<Rightarrow> SeatOccupancySnapshot \<Rightarrow>
     SeatAuthorityError + (SeatOccupancySnapshot \<times> ReleaseRotationRecord \<times> bool)" where
  "mark_release_rotation_pending_on E action_id request_sha256 expected_status expected_boundary step =
     mutate_release_rotation_on E action_id request_sha256
       (mark_pending_change expected_status expected_boundary step)"

definition block_change :: "bytes \<Rightarrow> ReleaseRotationRecord \<Rightarrow> SeatAuthorityError + ReleaseRotationRecord" where
  "block_change reason record =
     (if rr_status record = Complete then Inl (Seat_Conflict ''rotation_already_complete'')
      else Inr (record\<lparr>rr_status := Blocked, rr_pending_external_step := None,
                       rr_blocked_reason := Some reason\<rparr>))"

definition block_release_rotation_on ::
  "seat_env \<Rightarrow> id \<Rightarrow> Sha256 \<Rightarrow> bytes \<Rightarrow> SeatOccupancySnapshot \<Rightarrow>
     SeatAuthorityError + (SeatOccupancySnapshot \<times> ReleaseRotationRecord \<times> bool)" where
  "block_release_rotation_on E action_id request_sha256 reason =
     mutate_release_rotation_on E action_id request_sha256 (block_change reason)"

definition RELEASE_ROTATION_RESTART_BETWEEN_BOUNDARIES :: bytes where
  "RELEASE_ROTATION_RESTART_BETWEEN_BOUNDARIES = ''rotation_interrupted_after_restart''"

definition RELEASE_ROTATION_RESTART_EXTERNAL_OUTCOME_UNKNOWN :: bytes where
  "RELEASE_ROTATION_RESTART_EXTERNAL_OUTCOME_UNKNOWN = ''external_outcome_unknown_after_restart''"

definition restart_reason :: "ReleaseRotationExternalStep option \<Rightarrow> bytes" where
  "restart_reason step =
     (if step \<noteq> None then RELEASE_ROTATION_RESTART_EXTERNAL_OUTCOME_UNKNOWN
      else RELEASE_ROTATION_RESTART_BETWEEN_BOUNDARIES)"

definition interrupt_record :: "Rfc3339 \<Rightarrow> ReleaseRotationRecord \<Rightarrow> ReleaseRotationRecord" where
  "interrupt_record timestamp record =
     (if rr_status record = Running
      then record\<lparr>rr_status := Blocked,
                  rr_blocked_reason := Some (restart_reason (rr_pending_external_step record)),
                  rr_updated_at := timestamp\<rparr>
      else record)"

definition block_interrupted_release_rotations_on ::
  "seat_env \<Rightarrow> SeatOccupancySnapshot \<Rightarrow> SeatAuthorityError + (SeatOccupancySnapshot \<times> nat \<times> bool)" where
  "block_interrupted_release_rotations_on E s =
     (let changed = length (filter (\<lambda>r. rr_status r = Running) (bt_values (release_rotations s)));
          s' = s\<lparr>release_rotations := bt_map_values (interrupt_record (now E)) (release_rotations s)\<rparr>
      in if changed > 0
         then res_bind (next_revision (store_revision s')) (\<lambda>revision.
              Inr (s'\<lparr>store_revision := revision\<rparr>, changed, True))
         else Inr (s', changed, False))"

definition resume_interrupted_change ::
  "ReleaseRotationBoundary \<Rightarrow> ReleaseRotationExternalStep option \<Rightarrow>
     ReleaseRotationRecord \<Rightarrow> SeatAuthorityError + ReleaseRotationRecord" where
  "resume_interrupted_change expected_boundary expected_step record =
     (if rr_status record \<noteq> Blocked \<or> rr_completed_boundary record \<noteq> expected_boundary
         \<or> rr_pending_external_step record \<noteq> expected_step
      then Inl (Seat_Conflict ''recovery_identity_changed'')
      else if rr_blocked_reason record \<noteq> Some (restart_reason expected_step)
      then Inl (Seat_Conflict ''rotation_is_not_restart_blocked'')
      else Inr (record\<lparr>rr_status := Running, rr_pending_external_step := None,
                       rr_blocked_reason := None\<rparr>))"

definition resume_interrupted_release_rotation_on ::
  "seat_env \<Rightarrow> id \<Rightarrow> Sha256 \<Rightarrow> ReleaseRotationBoundary \<Rightarrow> ReleaseRotationExternalStep option \<Rightarrow>
     SeatOccupancySnapshot \<Rightarrow> SeatAuthorityError + (SeatOccupancySnapshot \<times> ReleaseRotationRecord \<times> bool)" where
  "resume_interrupted_release_rotation_on E action_id request_sha256 expected_boundary expected_step =
     mutate_release_rotation_on E action_id request_sha256
       (resume_interrupted_change expected_boundary expected_step)"

definition bind_release_rotation_successor_on ::
  "seat_env \<Rightarrow> id \<Rightarrow> Sha256 \<Rightarrow> id \<Rightarrow> SeatOccupancySnapshot \<Rightarrow>
     SeatAuthorityError + (SeatOccupancySnapshot \<times> ReleaseRotationRecord \<times> bool)" where
  "bind_release_rotation_successor_on E action_id request_sha256 successor s =
     res_bind (ok_or (Seat_Conflict ''rotation_not_found'')
                 (bt_get (release_rotations s) action_id)) (\<lambda>existing.
     if rr_request_sha256 existing \<noteq> request_sha256
     then Inl (Seat_Conflict ''action_id_payload_conflict'')
     else if rr_completed_boundary existing = SuccessorBound
          \<or> rr_completed_boundary existing = DirectorMessageDelivered
     then (if rr_successor_cutex_session existing = Some successor then Inr (s, existing, False)
           else Inl (Seat_Conflict ''successor_payload_conflict''))
     else if rr_completed_boundary existing \<noteq> SuccessorRuntimeOnline
     then Inl (Seat_Conflict ''successor_runtime_not_online'')
     else if rr_status existing \<noteq> Running \<or> rr_pending_external_step existing \<noteq> None
     then Inl (Seat_Conflict ''external_boundary_changed'')
     else if rr_successor_cutex_session existing \<noteq> Some successor
     then Inl (Seat_Conflict ''successor_payload_conflict'')
     else res_bind (ok_or (Seat_Conflict ''rotation_vacancy_missing'')
                      (bt_get (rotating_vacancies s) (rr_target_seat existing))) (\<lambda>vacancy.
       if vac_action_id vacancy \<noteq> action_id \<or> vac_request_sha256 vacancy \<noteq> request_sha256
          \<or> vac_predecessor_cutex_session vacancy \<noteq> rr_predecessor_cutex_session existing
          \<or> vac_epoch vacancy \<noteq> rr_predecessor_seat_epoch existing
       then Inl Seat_InvalidStore
       else if bt_get (occupancies s) (rr_target_seat existing) \<noteq> None
       then Inl (Seat_Conflict ''release_seat_already_occupied'')
       else if occupies_another_seat s (rr_target_seat existing) successor
       then Inl (Seat_Conflict ''session_already_occupies_another_seat'')
       else res_bind (next_epoch (vac_epoch vacancy)) (\<lambda>epoch.
         let occupancy = \<lparr>occ_seat_id = rr_target_seat existing,
               occ_occupant_cutex_session = successor, occ_epoch = epoch, occ_bound_at = now E\<rparr>;
             record = existing\<lparr>rr_status := Running, rr_completed_boundary := SuccessorBound,
               rr_pending_external_step := None, rr_successor_seat_epoch := Some epoch,
               rr_blocked_reason := None, rr_updated_at := now E\<rparr>
         in res_bind (next_revision (store_revision s)) (\<lambda>revision.
            Inr (s\<lparr>release_rotations := bt_insert action_id record (release_rotations s),
                   occupancies := bt_insert (rr_target_seat existing) occupancy (occupancies s),
                   rotating_vacancies := bt_remove (rr_target_seat existing) (rotating_vacancies s),
                   store_revision := revision\<rparr>, record, True)))))"

definition complete_release_rotation_on ::
  "seat_env \<Rightarrow> id \<Rightarrow> Sha256 \<Rightarrow> bytes \<Rightarrow> SeatOccupancySnapshot \<Rightarrow>
     SeatAuthorityError + (SeatOccupancySnapshot \<times> ReleaseRotationRecord \<times> bool)" where
  "complete_release_rotation_on E action_id request_sha256 message_id s =
     res_bind (ok_or (Seat_Conflict ''rotation_not_found'')
                 (bt_get (release_rotations s) action_id)) (\<lambda>existing.
     if rr_request_sha256 existing \<noteq> request_sha256
     then Inl (Seat_Conflict ''action_id_payload_conflict'')
     else if rr_status existing = Complete
     then (if rr_delivered_message_id existing = Some message_id then Inr (s, existing, False)
           else Inl (Seat_Conflict ''message_payload_conflict''))
     else if rr_completed_boundary existing \<noteq> SuccessorBound
     then Inl (Seat_Conflict ''successor_not_bound'')
     else if rr_status existing \<noteq> Running
          \<or> rr_pending_external_step existing \<noteq> Some DeliverDirectorMessage
     then Inl (Seat_Conflict ''external_boundary_changed'')
     else let record = existing\<lparr>rr_status := Complete,
                rr_completed_boundary := DirectorMessageDelivered,
                rr_pending_external_step := None, rr_delivered_message_id := Some message_id,
                rr_blocked_reason := None, rr_updated_at := now E, rr_completed_at := Some (now E)\<rparr>
          in res_bind (next_revision (store_revision s)) (\<lambda>revision.
             Inr (s\<lparr>release_rotations := bt_insert action_id record (release_rotations s),
                    active_release_rotation := None, store_revision := revision\<rparr>, record, True)))"

section \<open>The store on disk\<close>

record seat_codec =
  seat_to_vec :: "SeatOccupancySnapshot \<Rightarrow> bytes option"
  seat_from_slice :: "bytes \<Rightarrow> SeatOccupancySnapshot option"

definition seat_doc :: "seat_codec \<Rightarrow> (SeatOccupancySnapshot, SeatAuthorityError) doc_spec" where
  "seat_doc C = \<lparr>empty_doc = SeatOccupancySnapshot_empty, enc = seat_to_vec C,
     dec = seat_from_slice C, err_unavailable = Seat_PersistenceUnavailable,
     err_invalid = Seat_InvalidStore, err_io = Seat_Io\<rparr>"

text \<open>
  \<open>SeatOccupancyStore::with_locked_state\<close>, and the operations that run a transaction in it.
  A check that comes before the lock leaves the disk untouched.
\<close>

definition seat_with_locked_state ::
  "seat_codec \<Rightarrow> bool \<Rightarrow> (SeatOccupancySnapshot \<Rightarrow> SeatAuthorityError + (SeatOccupancySnapshot \<times> 'v \<times> bool)) \<Rightarrow>
     doc_io \<Rightarrow> doc_fs \<Rightarrow> (SeatAuthorityError + 'v) \<times> doc_fs" where
  "seat_with_locked_state C = with_locked_state (seat_doc C)"

definition bind ::
  "seat_env \<Rightarrow> seat_codec \<Rightarrow> SeatOccupancyBindRequest \<Rightarrow> doc_io \<Rightarrow> doc_fs \<Rightarrow>
     (SeatAuthorityError + SeatOccupancyReceipt) \<times> doc_fs" where
  "bind E C q io fs =
     (case bind_prepare E q of
        Inl e \<Rightarrow> (Inl e, fs)
      | Inr digest \<Rightarrow> seat_with_locked_state C True (bind_transaction E q digest) io fs)"

definition preflight_director_transfer ::
  "seat_env \<Rightarrow> seat_codec \<Rightarrow> id \<Rightarrow> id \<Rightarrow> DirectorSeatTransferRequest option \<Rightarrow> doc_io \<Rightarrow> doc_fs \<Rightarrow>
     (SeatAuthorityError + unit) \<times> doc_fs" where
  "preflight_director_transfer E C action_id expected_predecessor replay =
     seat_with_locked_state C False
       (preflight_director_transfer_transaction E action_id expected_predecessor replay)"

definition transfer_director ::
  "seat_env \<Rightarrow> seat_codec \<Rightarrow> DirectorSeatTransferRequest \<Rightarrow> doc_io \<Rightarrow> doc_fs \<Rightarrow>
     (SeatAuthorityError + SeatOccupancyReceipt) \<times> doc_fs" where
  "transfer_director E C q io fs =
     (case transfer_director_prepare E q of
        Inl e \<Rightarrow> (Inl e, fs)
      | Inr digest \<Rightarrow> seat_with_locked_state C True (transfer_director_transaction E q digest) io fs)"

definition finish_director_transfer ::
  "seat_env \<Rightarrow> seat_codec \<Rightarrow> DirectorSeatTransferRequest \<Rightarrow> doc_io \<Rightarrow> doc_fs \<Rightarrow>
     (SeatAuthorityError + SeatOccupancyReceipt) \<times> doc_fs" where
  "finish_director_transfer E C q = seat_with_locked_state C True (finish_director_transfer_on E q)"

definition verify_director_transfer ::
  "seat_env \<Rightarrow> seat_codec \<Rightarrow> DirectorSeatTransferRequest \<Rightarrow> doc_io \<Rightarrow> doc_fs \<Rightarrow>
     (SeatAuthorityError + SeatOccupancyReceipt) \<times> doc_fs" where
  "verify_director_transfer E C q = seat_with_locked_state C False (verify_director_transfer_on E q)"

definition query ::
  "seat_codec \<Rightarrow> doc_io \<Rightarrow> doc_fs \<Rightarrow> (SeatAuthorityError + SeatOccupancySnapshot) \<times> doc_fs" where
  "query C = seat_with_locked_state C False query_on"

definition begin_release_rotation ::
  "seat_env \<Rightarrow> seat_codec \<Rightarrow> id \<Rightarrow> ReleaseRotationRequest \<Rightarrow> Sha256 \<Rightarrow> ReleaseTemplate \<Rightarrow> Sha256 \<Rightarrow>
     doc_io \<Rightarrow> doc_fs \<Rightarrow> (SeatAuthorityError + ReleaseRotationRecord) \<times> doc_fs" where
  "begin_release_rotation E C director_session q request_sha256 template template_sha256 io fs =
     (if req_target_seat q \<noteq> release_seat
      then (Inl (Seat_InvalidRequest ''unsupported_rotation_target''), fs)
      else seat_with_locked_state C True
        (begin_release_rotation_transaction E director_session q request_sha256 template template_sha256)
        io fs)"

definition mutate_release_rotation ::
  "seat_env \<Rightarrow> seat_codec \<Rightarrow> id \<Rightarrow> Sha256 \<Rightarrow> (ReleaseRotationRecord \<Rightarrow> SeatAuthorityError + ReleaseRotationRecord) \<Rightarrow>
     doc_io \<Rightarrow> doc_fs \<Rightarrow> (SeatAuthorityError + ReleaseRotationRecord) \<times> doc_fs" where
  "mutate_release_rotation E C action_id request_sha256 operation =
     seat_with_locked_state C True (mutate_release_rotation_on E action_id request_sha256 operation)"

definition mark_release_rotation_pending ::
  "seat_env \<Rightarrow> seat_codec \<Rightarrow> id \<Rightarrow> Sha256 \<Rightarrow> ReleaseRotationStatus \<Rightarrow> ReleaseRotationBoundary \<Rightarrow>
     ReleaseRotationExternalStep \<Rightarrow> doc_io \<Rightarrow> doc_fs \<Rightarrow> (SeatAuthorityError + ReleaseRotationRecord) \<times> doc_fs" where
  "mark_release_rotation_pending E C action_id request_sha256 expected_status expected_boundary step =
     mutate_release_rotation E C action_id request_sha256
       (mark_pending_change expected_status expected_boundary step)"

definition block_release_rotation ::
  "seat_env \<Rightarrow> seat_codec \<Rightarrow> id \<Rightarrow> Sha256 \<Rightarrow> bytes \<Rightarrow> doc_io \<Rightarrow> doc_fs \<Rightarrow>
     (SeatAuthorityError + ReleaseRotationRecord) \<times> doc_fs" where
  "block_release_rotation E C action_id request_sha256 reason =
     mutate_release_rotation E C action_id request_sha256 (block_change reason)"

definition block_interrupted_release_rotations ::
  "seat_env \<Rightarrow> seat_codec \<Rightarrow> doc_io \<Rightarrow> doc_fs \<Rightarrow> (SeatAuthorityError + nat) \<times> doc_fs" where
  "block_interrupted_release_rotations E C =
     seat_with_locked_state C True (block_interrupted_release_rotations_on E)"

definition resume_interrupted_release_rotation ::
  "seat_env \<Rightarrow> seat_codec \<Rightarrow> id \<Rightarrow> Sha256 \<Rightarrow> ReleaseRotationBoundary \<Rightarrow> ReleaseRotationExternalStep option \<Rightarrow>
     doc_io \<Rightarrow> doc_fs \<Rightarrow> (SeatAuthorityError + ReleaseRotationRecord) \<times> doc_fs" where
  "resume_interrupted_release_rotation E C action_id request_sha256 expected_boundary expected_step =
     mutate_release_rotation E C action_id request_sha256
       (resume_interrupted_change expected_boundary expected_step)"

definition bind_release_rotation_successor ::
  "seat_env \<Rightarrow> seat_codec \<Rightarrow> id \<Rightarrow> Sha256 \<Rightarrow> id \<Rightarrow> doc_io \<Rightarrow> doc_fs \<Rightarrow>
     (SeatAuthorityError + ReleaseRotationRecord) \<times> doc_fs" where
  "bind_release_rotation_successor E C action_id request_sha256 successor =
     seat_with_locked_state C True (bind_release_rotation_successor_on E action_id request_sha256 successor)"

definition complete_release_rotation ::
  "seat_env \<Rightarrow> seat_codec \<Rightarrow> id \<Rightarrow> Sha256 \<Rightarrow> bytes \<Rightarrow> doc_io \<Rightarrow> doc_fs \<Rightarrow>
     (SeatAuthorityError + ReleaseRotationRecord) \<times> doc_fs" where
  "complete_release_rotation E C action_id request_sha256 message_id =
     seat_with_locked_state C True (complete_release_rotation_on E action_id request_sha256 message_id)"

section \<open>Principals\<close>

datatype AuthenticatedPrincipal =
    PrincipalSession id "id option" "u64 option"
  | TaskServiceSystem

datatype ProviderError =
    Provider_InvalidRequest bytes
  | Provider_Unauthorized
  | Provider_NotFound bytes
  | Provider_Conflict bytes
  | Provider_IllegalState bytes
  | Provider_RecoveryRequired
  | Provider_PersistenceUnavailable
  | Provider_InvalidStore
  | Provider_Io io_error_kind

definition seated_session :: "id \<Rightarrow> id \<Rightarrow> u64 \<Rightarrow> ProviderError + AuthenticatedPrincipal" where
  "seated_session session seat epoch =
     (if epoch = 0 \<or> epoch > MAX_JSON_SAFE_INTEGER
      then Inl (Provider_InvalidRequest ''invalid_seat_epoch'')
      else Inr (PrincipalSession session (Some seat) (Some epoch)))"

definition current_principal :: "id \<Rightarrow> SeatOccupancySnapshot \<Rightarrow> SeatAuthorityError + AuthenticatedPrincipal" where
  "current_principal session s =
     res_bind (ok_or Seat_Unauthorized
       (find (\<lambda>oc. occ_occupant_cutex_session oc = session) (bt_values (occupancies s)))) (\<lambda>occupancy.
     map_err (\<lambda>_. Seat_InvalidStore)
       (seated_session session (occ_seat_id occupancy) (occ_epoch occupancy)))"

definition with_current_principal_snapshot ::
  "seat_codec \<Rightarrow> id \<Rightarrow> (AuthenticatedPrincipal \<Rightarrow> SeatOccupancySnapshot \<Rightarrow> 'v) \<Rightarrow> doc_io \<Rightarrow> doc_fs \<Rightarrow>
     SeatAuthorityError + 'v" where
  "with_current_principal_snapshot C session operation =
     with_shared_state (seat_doc C) Seat_Unauthorized (\<lambda>snapshot.
       res_bind (current_principal session snapshot) (\<lambda>principal. Inr (operation principal snapshot)))"

definition with_current_principal ::
  "seat_codec \<Rightarrow> id \<Rightarrow> (AuthenticatedPrincipal \<Rightarrow> 'v) \<Rightarrow> doc_io \<Rightarrow> doc_fs \<Rightarrow> SeatAuthorityError + 'v" where
  "with_current_principal C session operation =
     with_current_principal_snapshot C session (\<lambda>principal _. operation principal)"

end
