(* ===== verification/Seat_Properties.thy ===== *)
theory Seat_Properties
  imports Seat_Authority
begin

text \<open>
  The invariant of the seat store and what follows from it: at most one seat per session, epochs
  that never go back, exact replay of every receipted mutation, the fence of a Director transfer
  that can always be finished, and the Release seat that stays vacant from the start of a
  rotation until its successor is bound.
\<close>

section \<open>The invariant\<close>

definition epoch_ok :: "u64 \<Rightarrow> bool" where
  "epoch_ok e \<longleftrightarrow> e \<noteq> 0 \<and> e \<le> MAX_JSON_SAFE_INTEGER"

definition inv_maps :: "SeatOccupancySnapshot \<Rightarrow> bool" where
  "inv_maps s \<longleftrightarrow> bt_ok (occupancies s) \<and> bt_ok (receipts s) \<and> bt_ok (rotating_vacancies s)
     \<and> bt_ok (release_rotations s) \<and> store_revision s \<le> MAX_JSON_SAFE_INTEGER"

definition inv_occupancies :: "SeatOccupancySnapshot \<Rightarrow> bool" where
  "inv_occupancies s \<longleftrightarrow> (\<forall>k oc. bt_get (occupancies s) k = Some oc \<longrightarrow>
     occ_seat_id oc = k \<and> k \<in> {director_seat, release_seat} \<and> epoch_ok (occ_epoch oc))"

definition inv_one_seat :: "SeatOccupancySnapshot \<Rightarrow> bool" where
  "inv_one_seat s \<longleftrightarrow> (\<forall>k k' oc oc'. bt_get (occupancies s) k = Some oc \<longrightarrow>
     bt_get (occupancies s) k' = Some oc' \<longrightarrow>
     occ_occupant_cutex_session oc = occ_occupant_cutex_session oc' \<longrightarrow> k = k')"

definition inv_vacancies :: "SeatOccupancySnapshot \<Rightarrow> bool" where
  "inv_vacancies s \<longleftrightarrow> (\<forall>k v. bt_get (rotating_vacancies s) k = Some v \<longrightarrow>
     k = release_seat \<and> bt_get (occupancies s) k = None \<and> epoch_ok (vac_epoch v)
     \<and> active_release_rotation s = Some (vac_action_id v))"

text \<open>A rotation is unfinished exactly while it is the active one.\<close>

definition rotation_ok :: "id option \<Rightarrow> id \<Rightarrow> ReleaseRotationRecord \<Rightarrow> bool" where
  "rotation_ok active a r \<longleftrightarrow>
     rr_action_id r = a \<and> rr_target_seat r = release_seat
     \<and> (rr_status r = Complete \<longleftrightarrow> rr_completed_boundary r = DirectorMessageDelivered)
     \<and> (rr_status r = Complete \<longleftrightarrow> active \<noteq> Some a)
     \<and> rr_successor_cutex_session r \<noteq> Some (rr_predecessor_cutex_session r)"

definition inv_rotations :: "SeatOccupancySnapshot \<Rightarrow> bool" where
  "inv_rotations s \<longleftrightarrow> (\<forall>a r. bt_get (release_rotations s) a = Some r \<longrightarrow>
     rotation_ok (active_release_rotation s) a r)"

text \<open>
  The record of the active rotation and the Release seat agree: before the successor is bound
  the seat is vacant and the vacancy repeats the record; afterwards the seat is held by the
  recorded successor at the epoch after the predecessor's.
\<close>

definition vacancy_matches :: "SeatRotatingVacancy \<Rightarrow> ReleaseRotationRecord \<Rightarrow> bool" where
  "vacancy_matches v r \<longleftrightarrow> vac_action_id v = rr_action_id r
     \<and> vac_request_sha256 v = rr_request_sha256 r
     \<and> vac_predecessor_cutex_session v = rr_predecessor_cutex_session r
     \<and> vac_epoch v = rr_predecessor_seat_epoch r"

definition successor_seated :: "SeatOccupancySnapshot \<Rightarrow> ReleaseRotationRecord \<Rightarrow> bool" where
  "successor_seated s r \<longleftrightarrow> (\<exists>oc. bt_get (occupancies s) release_seat = Some oc
     \<and> rr_successor_cutex_session r = Some (occ_occupant_cutex_session oc)
     \<and> rr_successor_seat_epoch r = Some (occ_epoch oc)
     \<and> unat (occ_epoch oc) = Suc (unat (rr_predecessor_seat_epoch r)))"

definition rotation_seated :: "SeatOccupancySnapshot \<Rightarrow> ReleaseRotationRecord \<Rightarrow> bool" where
  "rotation_seated s r \<longleftrightarrow>
     (if boundary_rank (rr_completed_boundary r) < 6
      then (\<exists>v. bt_get (rotating_vacancies s) release_seat = Some v \<and> vacancy_matches v r)
      else successor_seated s r)"

definition inv_active :: "SeatOccupancySnapshot \<Rightarrow> bool" where
  "inv_active s \<longleftrightarrow> (\<forall>a. active_release_rotation s = Some a \<longrightarrow>
     (\<exists>r. bt_get (release_rotations s) a = Some r \<and> rotation_seated s r))"

definition inv_transfer :: "SeatOccupancySnapshot \<Rightarrow> bool" where
  "inv_transfer s \<longleftrightarrow> (\<forall>a. active_director_transfer s = Some a \<longrightarrow>
     (\<exists>rc. bt_get (receipts s) a = Some rc \<and>
        bt_get (occupancies s) director_seat = Some (rcpt_occupancy rc)))"

definition seat_inv :: "SeatOccupancySnapshot \<Rightarrow> bool" where
  "seat_inv s \<longleftrightarrow> inv_maps s \<and> inv_occupancies s \<and> inv_one_seat s \<and> inv_vacancies s
     \<and> inv_rotations s \<and> inv_active s \<and> inv_transfer s"

lemmas seat_inv_defs = seat_inv_def inv_maps_def inv_occupancies_def inv_one_seat_def
  inv_vacancies_def inv_rotations_def inv_active_def inv_transfer_def

text \<open>The epoch a seat has reached: its holder's, or the one kept by its vacancy.\<close>

definition seat_epoch :: "SeatOccupancySnapshot \<Rightarrow> id \<Rightarrow> nat" where
  "seat_epoch s k = (case bt_get (occupancies s) k of
     Some oc \<Rightarrow> unat (occ_epoch oc)
   | None \<Rightarrow> (case bt_get (rotating_vacancies s) k of Some v \<Rightarrow> unat (vac_epoch v) | None \<Rightarrow> 0))"

definition seat_holder :: "SeatOccupancySnapshot \<Rightarrow> id \<Rightarrow> id option" where
  "seat_holder s k = map_option occ_occupant_cutex_session (bt_get (occupancies s) k)"

lemma seat_inv_empty: "seat_inv SeatOccupancySnapshot_empty"
  by (simp add: seat_inv_defs SeatOccupancySnapshot_empty_def)

lemma not_occupies_another_seat:
  assumes "\<not> occupies_another_seat s seat session" and "bt_get (occupancies s) k = Some oc"
    and "k \<noteq> seat"
  shows "occ_occupant_cutex_session oc \<noteq> session"
  using assms bt_get_in_set [OF assms(2)] by (auto simp: occupies_another_seat_def list_ex_iff)

lemma next_epoch_Inr:
  "next_epoch e = Inr e' \<Longrightarrow> epoch_ok e' \<and> unat e' = Suc (unat e)"
  by (auto simp: next_epoch_def epoch_ok_def res_simps dest: json_safe_succ_Some json_safe_succ_nonzero)

lemma next_revision_Inr:
  "next_revision r = Inr r' \<Longrightarrow> r' \<le> MAX_JSON_SAFE_INTEGER \<and> unat r' = Suc (unat r)"
  by (auto simp: next_revision_def res_simps dest: json_safe_succ_Some)

lemma inv_rotationsD:
  "seat_inv s \<Longrightarrow> bt_get (release_rotations s) a = Some r \<Longrightarrow>
     rotation_ok (active_release_rotation s) a r"
  by (simp add: seat_inv_def inv_rotations_def)

lemma inv_vacanciesD:
  "seat_inv s \<Longrightarrow> bt_get (rotating_vacancies s) k = Some v \<Longrightarrow>
     k = release_seat \<and> bt_get (occupancies s) k = None \<and> epoch_ok (vac_epoch v)
     \<and> active_release_rotation s = Some (vac_action_id v)"
  by (simp add: seat_inv_def inv_vacancies_def)

lemma inv_occupanciesD:
  "seat_inv s \<Longrightarrow> bt_get (occupancies s) k = Some oc \<Longrightarrow>
     occ_seat_id oc = k \<and> k \<in> {director_seat, release_seat} \<and> epoch_ok (occ_epoch oc)"
  by (simp add: seat_inv_def inv_occupancies_def)

lemma no_director_vacancy: "seat_inv s \<Longrightarrow> bt_get (rotating_vacancies s) director_seat = None"
  by (cases "bt_get (rotating_vacancies s) director_seat") (auto dest: inv_vacanciesD)

lemma no_other_vacancy:
  "seat_inv s \<Longrightarrow> k \<noteq> release_seat \<Longrightarrow> bt_get (rotating_vacancies s) k = None"
  by (cases "bt_get (rotating_vacancies s) k") (auto dest: inv_vacanciesD)

lemma no_vacancy_when_idle:
  "seat_inv s \<Longrightarrow> active_release_rotation s = None \<Longrightarrow> bt_get (rotating_vacancies s) k = None"
  by (cases "bt_get (rotating_vacancies s) k") (auto dest: inv_vacanciesD)

lemma rotation_seated_cong:
  assumes "bt_get (occupancies t) release_seat = bt_get (occupancies s) release_seat"
    and "bt_get (rotating_vacancies t) release_seat = bt_get (rotating_vacancies s) release_seat"
  shows "rotation_seated t r = rotation_seated s r"
  using assms by (simp add: rotation_seated_def successor_seated_def)

section \<open>Seating a session\<close>

text \<open>The common effect of an administrative bind and of a Director transfer.\<close>

lemma seat_inv_seat:
  assumes inv: "seat_inv s" and k: "k \<in> {director_seat, release_seat}"
    and oc: "occ_seat_id oc = k" "epoch_ok (occ_epoch oc)"
    and free: "\<not> occupies_another_seat s k (occ_occupant_cutex_session oc)"
    and vac: "bt_get (rotating_vacancies s) k = None"
    and rel: "k = release_seat \<Longrightarrow> active_release_rotation s = None"
    and rc: "bt_get (receipts s) a = None" "rcpt_occupancy rc = oc"
    and rv: "revision \<le> MAX_JSON_SAFE_INTEGER"
    and tr: "k = release_seat \<and> tr = active_director_transfer s
      \<or> k = director_seat \<and> (tr = None \<and> active_director_transfer s = None \<or> tr = Some a)"
  shows "seat_inv (s\<lparr>store_revision := revision, occupancies := bt_insert k oc (occupancies s),
     receipts := bt_insert a rc (receipts s), active_director_transfer := tr\<rparr>)" (is "seat_inv ?t")
proof -
  have m: "inv_maps ?t" and o: "inv_occupancies ?t" and v: "inv_vacancies ?t"
    and r: "inv_rotations ?t"
    using inv k oc vac rv by (auto simp: seat_inv_defs bt_simps)
  have ne: "occ_occupant_cutex_session oc' \<noteq> occ_occupant_cutex_session oc"
    if "bt_get (occupancies s) k' = Some oc'" "k' \<noteq> k" for k' oc'
    using that by (rule not_occupies_another_seat [OF free])
  have "inv_one_seat ?t"
    using inv ne ne [symmetric] by (auto simp: seat_inv_def inv_one_seat_def bt_simps split: if_splits)
  moreover have "inv_active ?t"
    using inv rel rotation_seated_cong [of ?t s]
    by (cases "k = release_seat") (auto simp: seat_inv_def inv_active_def bt_simps)
  moreover have "inv_transfer ?t"
    using inv rc tr by (auto simp: seat_inv_def inv_transfer_def bt_simps split: if_splits)
  ultimately show ?thesis
    using m o v r by (simp add: seat_inv_def)
qed

text \<open>What a successful request did: it either answered from its receipt or committed.\<close>

lemma bind_on_no_write: "bind_on E q s = Inr (t, rc, False) \<Longrightarrow>
    t = s \<and> bt_get (receipts s) (bind_action_id q) = Some rc"
  by (auto simp: bind_on_def bind_transaction_def Let_def res_simps split: option.splits if_splits)

lemma bind_on_commit:
  assumes "bind_on E q s = Inr (t, rc, True)"
  shows "bind_seat_id q \<in> {director_seat, release_seat}"
    and "bt_get (receipts s) (bind_action_id q) = None"
    and "\<not> occupies_another_seat s (bind_seat_id q) (bind_occupant_cutex_session q)"
    and "bt_get (rotating_vacancies s) (bind_seat_id q) = None"
    and "bind_seat_id q = director_seat \<Longrightarrow> active_director_transfer s = None"
    and "bind_seat_id q = release_seat \<Longrightarrow> active_release_rotation s = None"
    and "(case bt_get (occupancies s) (bind_seat_id q) of None \<Rightarrow> Inr 1
          | Some current \<Rightarrow> next_epoch (occ_epoch current)) = Inr (occ_epoch (rcpt_occupancy rc))"
    and "next_revision (store_revision s) = Inr (rcpt_store_revision rc)"
    and "occ_seat_id (rcpt_occupancy rc) = bind_seat_id q
          \<and> occ_occupant_cutex_session (rcpt_occupancy rc) = bind_occupant_cutex_session q"
    and "bind_prepare E q = Inr (rcpt_request_sha256 rc)"
    and "t = s\<lparr>store_revision := rcpt_store_revision rc,
           occupancies := bt_insert (bind_seat_id q) (rcpt_occupancy rc) (occupancies s),
           receipts := bt_insert (bind_action_id q) rc (receipts s)\<rparr>"
proof -
  from assms obtain digest where d: "bind_prepare E q = Inr digest"
    and b: "bind_transaction E q digest s = Inr (t, rc, True)"
    by (auto simp: bind_on_def res_simps)
  show seat: "bind_seat_id q \<in> {director_seat, release_seat}"
    using d by (auto simp: bind_prepare_def split: if_splits)
  show none: "bt_get (receipts s) (bind_action_id q) = None"
    using b by (auto simp: bind_transaction_def split: option.splits if_splits)
  note b' = b [unfolded bind_transaction_def none option.case Let_def]
  show "\<not> occupies_another_seat s (bind_seat_id q) (bind_occupant_cutex_session q)"
    "bt_get (rotating_vacancies s) (bind_seat_id q) = None"
    "bind_seat_id q = director_seat \<Longrightarrow> active_director_transfer s = None"
    "bind_seat_id q = release_seat \<Longrightarrow> active_release_rotation s = None"
    using b' by (simp_all split: if_splits)
  from b' obtain epoch revision where
    ep: "(case bt_get (occupancies s) (bind_seat_id q) of None \<Rightarrow> Inr 1
          | Some current \<Rightarrow> next_epoch (occ_epoch current)) = Inr epoch" and
    rv: "next_revision (store_revision s) = Inr revision" and
    rc: "rc = \<lparr>rcpt_action_id = bind_action_id q, rcpt_request_sha256 = digest,
      rcpt_store_revision = revision, rcpt_occupancy = \<lparr>occ_seat_id = bind_seat_id q,
      occ_occupant_cutex_session = bind_occupant_cutex_session q, occ_epoch = epoch,
      occ_bound_at = now E\<rparr>\<rparr>" and
    t: "t = s\<lparr>store_revision := revision,
      occupancies := bt_insert (bind_seat_id q) (rcpt_occupancy rc) (occupancies s),
      receipts := bt_insert (bind_action_id q) rc (receipts s)\<rparr>"
    by (simp add: res_simps split: if_splits) blast
  show "(case bt_get (occupancies s) (bind_seat_id q) of None \<Rightarrow> Inr 1
          | Some current \<Rightarrow> next_epoch (occ_epoch current)) = Inr (occ_epoch (rcpt_occupancy rc))"
    "next_revision (store_revision s) = Inr (rcpt_store_revision rc)"
    "occ_seat_id (rcpt_occupancy rc) = bind_seat_id q
          \<and> occ_occupant_cutex_session (rcpt_occupancy rc) = bind_occupant_cutex_session q"
    "bind_prepare E q = Inr (rcpt_request_sha256 rc)"
    "t = s\<lparr>store_revision := rcpt_store_revision rc,
           occupancies := bt_insert (bind_seat_id q) (rcpt_occupancy rc) (occupancies s),
           receipts := bt_insert (bind_action_id q) rc (receipts s)\<rparr>"
    using ep rv rc t d by simp_all
qed

lemma transfer_director_on_no_write: "transfer_director_on E q s = Inr (t, rc, False) \<Longrightarrow>
    t = s \<and> bt_get (receipts s) (xfer_action_id q) = Some rc"
  by (auto simp: transfer_director_on_def transfer_director_transaction_def Let_def res_simps
      split: option.splits if_splits)

lemma transfer_director_on_commit:
  assumes "transfer_director_on E q s = Inr (t, rc, True)"
  shows "bt_get (receipts s) (xfer_action_id q) = None"
    and "active_director_transfer s = None"
    and "\<not> occupies_another_seat s director_seat (xfer_successor_cutex_session q)"
    and "\<exists>current. bt_get (occupancies s) director_seat = Some current
          \<and> occ_occupant_cutex_session current = xfer_expected_predecessor_cutex_session q
          \<and> next_epoch (occ_epoch current) = Inr (occ_epoch (rcpt_occupancy rc))"
    and "next_revision (store_revision s) = Inr (rcpt_store_revision rc)"
    and "occ_seat_id (rcpt_occupancy rc) = director_seat
          \<and> occ_occupant_cutex_session (rcpt_occupancy rc) = xfer_successor_cutex_session q"
    and "transfer_director_prepare E q = Inr (rcpt_request_sha256 rc)"
    and "t = s\<lparr>store_revision := rcpt_store_revision rc,
           occupancies := bt_insert director_seat (rcpt_occupancy rc) (occupancies s),
           receipts := bt_insert (xfer_action_id q) rc (receipts s),
           active_director_transfer := Some (xfer_action_id q)\<rparr>"
  using assms
  by (auto simp: transfer_director_on_def transfer_director_transaction_def director_occupancy_def
      Let_def res_simps split: option.splits if_splits)

lemma bind_on_inv:
  assumes inv: "seat_inv s" and run: "bind_on E q s = Inr (t, rc, w)"
  shows "seat_inv t"
proof (cases w)
  case False
  with inv run bind_on_no_write [of E q s t rc] show ?thesis by simp
next
  case True
  with run have "bind_on E q s = Inr (t, rc, True)" by simp
  note c = bind_on_commit [OF this]
  have ep: "epoch_ok (occ_epoch (rcpt_occupancy rc))"
    using c(7) next_epoch_Inr by (auto simp: epoch_ok_def MAX_JSON_SAFE_INTEGER_def split: option.splits)
  have "t = s\<lparr>store_revision := rcpt_store_revision rc,
       occupancies := bt_insert (bind_seat_id q) (rcpt_occupancy rc) (occupancies s),
       receipts := bt_insert (bind_action_id q) rc (receipts s),
       active_director_transfer := active_director_transfer s\<rparr>"
    by (simp add: c(11))
  also have "seat_inv \<dots>"
    using c(1-6) c(9) ep next_revision_Inr [OF c(8)]
    by (intro seat_inv_seat [OF inv c(1)]) auto
  finally show ?thesis .
qed

lemma transfer_director_on_inv:
  assumes inv: "seat_inv s" and run: "transfer_director_on E q s = Inr (t, rc, w)"
  shows "seat_inv t"
proof (cases w)
  case False
  with inv run transfer_director_on_no_write [of E q s t rc] show ?thesis by simp
next
  case True
  with run have "transfer_director_on E q s = Inr (t, rc, True)" by simp
  note c = transfer_director_on_commit [OF this]
  show ?thesis
    unfolding c(8) using no_director_vacancy [OF inv] c(1-4) c(6) next_epoch_Inr next_revision_Inr [OF c(5)]
    by (intro seat_inv_seat [OF inv]) auto
qed

lemma finish_director_transfer_on_cases:
  assumes "finish_director_transfer_on E q s = Inr (t, rc, w)"
  shows "if w then active_director_transfer s = Some (xfer_action_id q)
          \<and> (\<exists>revision. next_revision (store_revision s) = Inr revision
             \<and> t = s\<lparr>active_director_transfer := None, store_revision := revision\<rparr>)
         else t = s"
  using assms
  by (auto simp: finish_director_transfer_on_def res_simps split: option.splits if_splits)

lemma finish_director_transfer_on_inv:
  assumes inv: "seat_inv s" and run: "finish_director_transfer_on E q s = Inr (t, rc, w)"
  shows "seat_inv t"
proof (cases w)
  case True
  with finish_director_transfer_on_cases [OF run] obtain revision where
    "next_revision (store_revision s) = Inr revision" and
    t: "t = s\<lparr>active_director_transfer := None, store_revision := revision\<rparr>" by auto
  then show ?thesis
    using inv next_revision_Inr rotation_seated_cong [of t s] by (auto simp: seat_inv_defs)
qed (use inv finish_director_transfer_on_cases [OF run] in simp)

section \<open>Rotations\<close>

text \<open>
  What the closures passed to \<open>mutate_release_rotation\<close> may do to the record of an unfinished
  rotation: keep its identity, stay unfinished, and either stay at the boundary with the
  same successor or move up to a boundary before the binding of the successor.
\<close>

definition rotation_change_ok :: "ReleaseRotationRecord \<Rightarrow> ReleaseRotationRecord \<Rightarrow> bool" where
  "rotation_change_ok r r' \<longleftrightarrow>
     rr_action_id r' = rr_action_id r \<and> rr_request_sha256 r' = rr_request_sha256 r
     \<and> rr_target_seat r' = rr_target_seat r
     \<and> rr_predecessor_cutex_session r' = rr_predecessor_cutex_session r
     \<and> rr_predecessor_seat_epoch r' = rr_predecessor_seat_epoch r
     \<and> rr_successor_seat_epoch r' = rr_successor_seat_epoch r
     \<and> rr_status r \<noteq> Complete \<and> rr_status r' \<noteq> Complete
     \<and> (rr_completed_boundary r' = rr_completed_boundary r
          \<and> rr_successor_cutex_session r' = rr_successor_cutex_session r
        \<or> boundary_rank (rr_completed_boundary r) < boundary_rank (rr_completed_boundary r')
          \<and> boundary_rank (rr_completed_boundary r') < 6
          \<and> (rr_successor_cutex_session r' = rr_successor_cutex_session r
             \<or> (\<exists>x. rr_successor_cutex_session r' = Some x \<and> x \<noteq> rr_predecessor_cutex_session r)))"

definition admissible_change :: "(ReleaseRotationRecord \<Rightarrow> SeatAuthorityError + ReleaseRotationRecord) \<Rightarrow> bool" where
  "admissible_change f \<longleftrightarrow> (\<forall>r r'. f r = Inr r' \<longrightarrow> rotation_change_ok r r')"

text \<open>The same for the one record the closure is applied to.\<close>

definition admissible_at ::
  "SeatOccupancySnapshot \<Rightarrow> id \<Rightarrow> (ReleaseRotationRecord \<Rightarrow> SeatAuthorityError + ReleaseRotationRecord) \<Rightarrow> bool" where
  "admissible_at s a f \<longleftrightarrow> (\<forall>r r'. bt_get (release_rotations s) a = Some r \<longrightarrow> f r = Inr r' \<longrightarrow> rotation_change_ok r r')"

lemma admissible_change_at: "admissible_change f \<Longrightarrow> admissible_at s a f"
  by (simp add: admissible_change_def admissible_at_def)

lemma mark_pending_admissible: "admissible_change (mark_pending_change st b step)"
  by (auto simp: admissible_change_def mark_pending_change_def rotation_change_ok_def split: if_splits)

lemma block_admissible: "admissible_change (block_change reason)"
  by (auto simp: admissible_change_def block_change_def rotation_change_ok_def split: if_splits)

lemma resume_interrupted_admissible: "admissible_change (resume_interrupted_change b step)"
  by (auto simp: admissible_change_def resume_interrupted_change_def rotation_change_ok_def
      split: if_splits)

lemma rotation_change_ok_updated:
  "rotation_change_ok r r' \<Longrightarrow> rotation_change_ok r (r'\<lparr>rr_updated_at := u\<rparr>)"
  by (simp add: rotation_change_ok_def)

text \<open>Replacing the record of an unfinished rotation by an admissible one.\<close>

lemma seat_inv_record:
  assumes inv: "seat_inv s" and r: "bt_get (release_rotations s) a = Some r"
    and ch: "rotation_change_ok r r'" and rv: "revision \<le> MAX_JSON_SAFE_INTEGER"
  shows "seat_inv (s\<lparr>release_rotations := bt_insert a r' (release_rotations s),
     store_revision := revision\<rparr>)" (is "seat_inv ?t")
proof -
  have act: "active_release_rotation s = Some a" "rr_completed_boundary r \<noteq> DirectorMessageDelivered"
    using inv_rotationsD [OF inv r] ch by (auto simp: rotation_ok_def rotation_change_ok_def)
  then have seated: "rotation_seated s r"
    using inv r by (auto simp: seat_inv_def inv_active_def)
  have "rotation_seated ?t r'"
    using seated ch
    by (auto simp: rotation_seated_def successor_seated_def vacancy_matches_def rotation_change_ok_def
        split: if_splits)
  then have "inv_active ?t"
    using act by (simp add: inv_active_def bt_simps)
  moreover have "rotation_ok (active_release_rotation s) a r'"
    using inv_rotationsD [OF inv r] ch act by (auto simp: rotation_ok_def rotation_change_ok_def)
  then have "inv_rotations ?t"
    using inv by (simp add: seat_inv_def inv_rotations_def bt_simps)
  moreover have "inv_maps ?t" "inv_occupancies ?t" "inv_one_seat ?t" "inv_vacancies ?t" "inv_transfer ?t"
    using inv rv by (auto simp: seat_inv_defs)
  ultimately show ?thesis by (simp add: seat_inv_def)
qed

lemma mutate_release_rotation_on_commit:
  assumes "mutate_release_rotation_on E a sha f s = Inr (t, r', w)"
  shows "\<exists>r r0 revision. bt_get (release_rotations s) a = Some r \<and> rr_request_sha256 r = sha
     \<and> f r = Inr r0 \<and> r' = r0\<lparr>rr_updated_at := now E\<rparr> \<and> w
     \<and> next_revision (store_revision s) = Inr revision
     \<and> t = s\<lparr>release_rotations := bt_insert a r' (release_rotations s), store_revision := revision\<rparr>"
  using assms by (auto simp: mutate_release_rotation_on_def Let_def res_simps split: if_splits)

lemma mutate_release_rotation_on_inv:
  assumes inv: "seat_inv s" and f: "admissible_at s a f"
    and run: "mutate_release_rotation_on E a sha f s = Inr (t, r', w)"
  shows "seat_inv t"
proof -
  from mutate_release_rotation_on_commit [OF run] obtain r r0 revision where
    r: "bt_get (release_rotations s) a = Some r" and "f r = Inr r0"
    and r': "r' = r0\<lparr>rr_updated_at := now E\<rparr>" and rv: "next_revision (store_revision s) = Inr revision"
    and t: "t = s\<lparr>release_rotations := bt_insert a r' (release_rotations s), store_revision := revision\<rparr>"
    by auto
  with f have "rotation_change_ok r r'"
    by (auto simp: admissible_at_def intro: rotation_change_ok_updated)
  with r rv show ?thesis
    unfolding t by (intro seat_inv_record [OF inv]) (auto dest: next_revision_Inr)
qed

lemma begin_release_rotation_on_no_write:
  "begin_release_rotation_on E d q sha tpl tsha s = Inr (t, r, False) \<Longrightarrow>
     t = s \<and> bt_get (release_rotations s) (req_action_id q) = Some r \<and> rr_request_sha256 r = sha"
  by (auto simp: begin_release_rotation_on_def begin_release_rotation_transaction_def Let_def res_simps
      split: option.splits if_splits)

definition begun_vacancy :: "seat_env \<Rightarrow> ReleaseRotationRequest \<Rightarrow> Sha256 \<Rightarrow> SeatRotatingVacancy" where
  "begun_vacancy E q sha = \<lparr>vac_seat_id = release_seat, vac_action_id = req_action_id q,
     vac_request_sha256 = sha,
     vac_predecessor_cutex_session = req_expected_predecessor_cutex_session q,
     vac_epoch = req_expected_seat_epoch q, vac_vacated_at = now E\<rparr>"

lemma begin_release_rotation_on_commit:
  assumes run: "begin_release_rotation_on E d q sha tpl tsha s = Inr (t, r, True)"
  shows "\<exists>dir current revision.
     bt_get (release_rotations s) (req_action_id q) = None \<and> active_release_rotation s = None
     \<and> bt_get (occupancies s) director_seat = Some dir \<and> occ_occupant_cutex_session dir = d
     \<and> bt_get (occupancies s) release_seat = Some current
     \<and> occ_occupant_cutex_session current = req_expected_predecessor_cutex_session q
     \<and> occ_epoch current = req_expected_seat_epoch q
     \<and> next_revision (store_revision s) = Inr revision
     \<and> vacancy_matches (begun_vacancy E q sha) r
     \<and> rr_action_id r = req_action_id q \<and> rr_request_sha256 r = sha \<and> rr_target_seat r = release_seat
     \<and> rr_predecessor_cutex_session r = req_expected_predecessor_cutex_session q
     \<and> rr_status r = Running \<and> rr_completed_boundary r = SeatRevoked
     \<and> rr_pending_external_step r = None \<and> rr_successor_cutex_session r = None
     \<and> t = s\<lparr>store_revision := revision, occupancies := bt_remove release_seat (occupancies s),
          rotating_vacancies := bt_insert release_seat (begun_vacancy E q sha) (rotating_vacancies s),
          active_release_rotation := Some (req_action_id q),
          release_rotations := bt_insert (req_action_id q) r (release_rotations s)\<rparr>"
proof -
  have target: "req_target_seat q = release_seat"
    using run by (auto simp: begin_release_rotation_on_def split: if_splits)
  have none: "bt_get (release_rotations s) (req_action_id q) = None"
    using run by (auto simp: begin_release_rotation_on_def begin_release_rotation_transaction_def
        split: option.splits if_splits)
  note run' = run [unfolded begin_release_rotation_on_def begin_release_rotation_transaction_def
      none option.case target]
  then show ?thesis
    using none
    by (auto simp: Let_def res_simps vacancy_matches_def begun_vacancy_def split: if_splits)
qed

lemma begin_release_rotation_on_inv:
  assumes inv: "seat_inv s" and run: "begin_release_rotation_on E d q sha tpl tsha s = Inr (t, r, w)"
  shows "seat_inv t"
proof (cases w)
  case False
  with run inv begin_release_rotation_on_no_write [of E d q sha tpl tsha s t r] show ?thesis by simp
next
  case True
  with run have run': "begin_release_rotation_on E d q sha tpl tsha s = Inr (t, r, True)" by simp
  let ?v = "begun_vacancy E q sha"
  from begin_release_rotation_on_commit [OF run'] obtain dir current revision where
    c: "active_release_rotation s = None" "bt_get (occupancies s) release_seat = Some current"
      "next_revision (store_revision s) = Inr revision" "vacancy_matches ?v r"
      "occ_epoch current = req_expected_seat_epoch q"
      "rr_action_id r = req_action_id q" "rr_target_seat r = release_seat" "rr_status r = Running"
      "rr_completed_boundary r = SeatRevoked" "rr_successor_cutex_session r = None"
    and t: "t = s\<lparr>store_revision := revision, occupancies := bt_remove release_seat (occupancies s),
          rotating_vacancies := bt_insert release_seat ?v (rotating_vacancies s),
          active_release_rotation := Some (req_action_id q),
          release_rotations := bt_insert (req_action_id q) r (release_rotations s)\<rparr>"
      and fresh: "bt_get (release_rotations s) (req_action_id q) = None"
    by auto
  have v: "epoch_ok (vac_epoch ?v)" "vac_action_id ?v = req_action_id q"
    using inv_occupanciesD [OF inv c(2)] c(5) by (simp_all add: begun_vacancy_def)
  have "inv_maps t" "inv_occupancies t" "inv_transfer t"
    using inv c next_revision_Inr [OF c(3)] unfolding t by (auto simp: seat_inv_defs bt_simps)
  moreover have "inv_one_seat t"
    using inv unfolding t by (auto simp: seat_inv_def inv_one_seat_def bt_simps split: if_splits)
  moreover have "inv_vacancies t"
    using no_vacancy_when_idle [OF inv c(1)] v unfolding t
    by (auto simp: inv_vacancies_def bt_simps split: if_splits)
  moreover have "rotation_ok (Some (req_action_id q)) a r'"
    if "bt_get (release_rotations t) a = Some r'" for a r'
    using that inv_rotationsD [OF inv, of a r'] c unfolding t
    by (auto simp: rotation_ok_def bt_simps split: if_splits)
  then have "inv_rotations t"
    unfolding inv_rotations_def by (simp add: t)
  moreover have "inv_active t"
    using c unfolding t by (auto simp: inv_active_def rotation_seated_def bt_simps)
  ultimately show ?thesis by (simp add: seat_inv_def)
qed

lemma bind_release_rotation_successor_on_no_write:
  "bind_release_rotation_successor_on E a sha x s = Inr (t, r, False) \<Longrightarrow>
     t = s \<and> bt_get (release_rotations s) a = Some r"
  by (auto simp: bind_release_rotation_successor_on_def Let_def res_simps split: if_splits)

lemma bind_release_rotation_successor_on_commit:
  assumes "bind_release_rotation_successor_on E a sha x s = Inr (t, r', True)"
  shows "\<exists>r v epoch revision. bt_get (release_rotations s) a = Some r \<and> rr_request_sha256 r = sha
     \<and> rr_completed_boundary r = SuccessorRuntimeOnline \<and> rr_status r = Running
     \<and> rr_successor_cutex_session r = Some x
     \<and> bt_get (rotating_vacancies s) (rr_target_seat r) = Some v \<and> vac_action_id v = a
     \<and> vac_epoch v = rr_predecessor_seat_epoch r
     \<and> bt_get (occupancies s) (rr_target_seat r) = None
     \<and> \<not> occupies_another_seat s (rr_target_seat r) x
     \<and> next_epoch (vac_epoch v) = Inr epoch \<and> next_revision (store_revision s) = Inr revision
     \<and> r' = r\<lparr>rr_status := Running, rr_completed_boundary := SuccessorBound,
          rr_pending_external_step := None, rr_successor_seat_epoch := Some epoch,
          rr_blocked_reason := None, rr_updated_at := now E\<rparr>
     \<and> t = s\<lparr>release_rotations := bt_insert a r' (release_rotations s),
          occupancies := bt_insert (rr_target_seat r) \<lparr>occ_seat_id = rr_target_seat r,
            occ_occupant_cutex_session = x, occ_epoch = epoch, occ_bound_at = now E\<rparr> (occupancies s),
          rotating_vacancies := bt_remove (rr_target_seat r) (rotating_vacancies s),
          store_revision := revision\<rparr>"
  using assms
  by (auto simp: bind_release_rotation_successor_on_def Let_def res_simps split: if_splits)

lemma bind_release_rotation_successor_on_inv:
  assumes inv: "seat_inv s" and run: "bind_release_rotation_successor_on E a sha x s = Inr (t, r', w)"
  shows "seat_inv t"
proof (cases w)
  case False
  with run inv bind_release_rotation_successor_on_no_write [of E a sha x s t r'] show ?thesis by simp
next
  case True
  with run have run': "bind_release_rotation_successor_on E a sha x s = Inr (t, r', True)" by simp
  from bind_release_rotation_successor_on_commit [OF run'] obtain r v epoch revision where
    r: "bt_get (release_rotations s) a = Some r" and
    st: "rr_completed_boundary r = SuccessorRuntimeOnline" "rr_status r = Running"
      "rr_successor_cutex_session r = Some x" and
    v: "bt_get (rotating_vacancies s) (rr_target_seat r) = Some v" "vac_epoch v = rr_predecessor_seat_epoch r" and
    free: "\<not> occupies_another_seat s (rr_target_seat r) x" and
    n: "next_epoch (vac_epoch v) = Inr epoch" "next_revision (store_revision s) = Inr revision" and
    r': "r' = r\<lparr>rr_status := Running, rr_completed_boundary := SuccessorBound,
          rr_pending_external_step := None, rr_successor_seat_epoch := Some epoch,
          rr_blocked_reason := None, rr_updated_at := now E\<rparr>" and
    t: "t = s\<lparr>release_rotations := bt_insert a r' (release_rotations s),
          occupancies := bt_insert (rr_target_seat r) \<lparr>occ_seat_id = rr_target_seat r,
            occ_occupant_cutex_session = x, occ_epoch = epoch, occ_bound_at = now E\<rparr> (occupancies s),
          rotating_vacancies := bt_remove (rr_target_seat r) (rotating_vacancies s),
          store_revision := revision\<rparr>"
    by blast
  have ok: "rotation_ok (active_release_rotation s) a r"
    by (rule inv_rotationsD [OF inv r])
  then have tgt: "rr_target_seat r = release_seat" and act: "active_release_rotation s = Some a"
    using st by (auto simp: rotation_ok_def)
  have "inv_maps t" "inv_transfer t"
    using inv tgt next_revision_Inr [OF n(2)] unfolding t by (auto simp: seat_inv_defs bt_simps)
  moreover have "inv_occupancies t"
    using inv_occupanciesD [OF inv] tgt next_epoch_Inr [OF n(1)] unfolding t inv_occupancies_def
    by (auto simp: bt_simps)
  moreover have "inv_one_seat t"
    using inv not_occupies_another_seat [OF free] tgt unfolding t
    by (auto simp: seat_inv_def inv_one_seat_def bt_simps split: if_splits)
  moreover have "inv_vacancies t"
    using no_other_vacancy [OF inv] tgt unfolding t inv_vacancies_def
    by (auto simp: bt_simps split: if_splits)
  moreover have "rotation_ok (Some a) a r'"
    using ok st act unfolding r' by (auto simp: rotation_ok_def)
  then have "inv_rotations t"
    using inv_rotationsD [OF inv] act unfolding t inv_rotations_def by (auto simp: bt_simps)
  moreover have "inv_active t"
    using act tgt st v next_epoch_Inr [OF n(1)] unfolding t r'
    by (auto simp: inv_active_def rotation_seated_def successor_seated_def bt_simps)
  ultimately show ?thesis by (simp add: seat_inv_def)
qed

lemma complete_release_rotation_on_no_write:
  "complete_release_rotation_on E a sha m s = Inr (t, r, False) \<Longrightarrow>
     t = s \<and> bt_get (release_rotations s) a = Some r"
  by (auto simp: complete_release_rotation_on_def Let_def res_simps split: if_splits)

lemma complete_release_rotation_on_commit:
  assumes "complete_release_rotation_on E a sha m s = Inr (t, r', True)"
  shows "\<exists>r revision. bt_get (release_rotations s) a = Some r \<and> rr_request_sha256 r = sha
     \<and> rr_completed_boundary r = SuccessorBound \<and> rr_status r = Running
     \<and> rr_pending_external_step r = Some DeliverDirectorMessage
     \<and> next_revision (store_revision s) = Inr revision
     \<and> r' = r\<lparr>rr_status := Complete, rr_completed_boundary := DirectorMessageDelivered,
          rr_pending_external_step := None, rr_delivered_message_id := Some m,
          rr_blocked_reason := None, rr_updated_at := now E, rr_completed_at := Some (now E)\<rparr>
     \<and> t = s\<lparr>release_rotations := bt_insert a r' (release_rotations s),
          active_release_rotation := None, store_revision := revision\<rparr>"
  using assms by (auto simp: complete_release_rotation_on_def Let_def res_simps split: if_splits)

lemma complete_release_rotation_on_inv:
  assumes inv: "seat_inv s" and run: "complete_release_rotation_on E a sha m s = Inr (t, r', w)"
  shows "seat_inv t"
proof (cases w)
  case False
  with run inv complete_release_rotation_on_no_write [of E a sha m s t r'] show ?thesis by simp
next
  case True
  with run have run': "complete_release_rotation_on E a sha m s = Inr (t, r', True)" by simp
  from complete_release_rotation_on_commit [OF run'] obtain r revision where
    r: "bt_get (release_rotations s) a = Some r" and
    st: "rr_completed_boundary r = SuccessorBound" "rr_status r = Running" and
    n: "next_revision (store_revision s) = Inr revision" and
    r': "r' = r\<lparr>rr_status := Complete, rr_completed_boundary := DirectorMessageDelivered,
          rr_pending_external_step := None, rr_delivered_message_id := Some m,
          rr_blocked_reason := None, rr_updated_at := now E, rr_completed_at := Some (now E)\<rparr>" and
    t: "t = s\<lparr>release_rotations := bt_insert a r' (release_rotations s),
          active_release_rotation := None, store_revision := revision\<rparr>"
    by blast
  have ok: "rotation_ok (active_release_rotation s) a r"
    by (rule inv_rotationsD [OF inv r])
  then have act: "active_release_rotation s = Some a"
    using st by (auto simp: rotation_ok_def)
  have "rotation_seated s r"
    using inv act r by (auto simp: seat_inv_def inv_active_def)
  then have held: "\<exists>oc. bt_get (occupancies s) release_seat = Some oc"
    using st by (auto simp: rotation_seated_def successor_seated_def)
  have "inv_maps t" "inv_transfer t" "inv_occupancies t" "inv_one_seat t" "inv_active t"
    using inv next_revision_Inr [OF n] unfolding t by (auto simp: seat_inv_defs bt_simps)
  moreover have "inv_vacancies t"
    using inv_vacanciesD [OF inv] held unfolding t inv_vacancies_def by fastforce
  moreover have "rotation_ok None b q" if "bt_get (release_rotations t) b = Some q" for b q
    using that inv_rotationsD [OF inv, of b q] ok act st unfolding t r'
    by (auto simp: rotation_ok_def bt_simps split: if_splits)
  then have "inv_rotations t"
    by (simp add: inv_rotations_def t)
  ultimately show ?thesis by (simp add: seat_inv_def)
qed

text \<open>
  The restart classification changes only unfinished records, and an unfinished record is the
  active one, so at most one record changes.
\<close>

lemma interrupt_record_keeps:
  "rotation_ok active a (interrupt_record u r) = rotation_ok active a r"
  "rotation_seated s (interrupt_record u r) = rotation_seated s r"
  by (auto simp: interrupt_record_def rotation_ok_def rotation_seated_def successor_seated_def
      vacancy_matches_def)

lemma block_interrupted_release_rotations_on_commit:
  assumes "block_interrupted_release_rotations_on E s = Inr (t, n, w)"
  shows "\<exists>revision. t = s\<lparr>release_rotations := bt_map_values (interrupt_record (now E)) (release_rotations s),
       store_revision := revision\<rparr>
     \<and> (if w then next_revision (store_revision s) = Inr revision else revision = store_revision s)"
  using assms
  by (auto simp: block_interrupted_release_rotations_on_def Let_def res_simps split: if_splits)

lemma block_interrupted_release_rotations_on_inv:
  assumes inv: "seat_inv s" and run: "block_interrupted_release_rotations_on E s = Inr (t, n, w)"
  shows "seat_inv t"
proof -
  from block_interrupted_release_rotations_on_commit [OF run] obtain revision where
    t: "t = s\<lparr>release_rotations := bt_map_values (interrupt_record (now E)) (release_rotations s),
       store_revision := revision\<rparr>" and
    "if w then next_revision (store_revision s) = Inr revision else revision = store_revision s"
    by blast
  then have "revision \<le> MAX_JSON_SAFE_INTEGER"
    using inv next_revision_Inr by (auto simp: seat_inv_def inv_maps_def split: if_splits)
  then have "inv_maps t" "inv_occupancies t" "inv_one_seat t" "inv_vacancies t" "inv_transfer t"
    using inv unfolding t by (auto simp: seat_inv_defs)
  moreover have "inv_rotations t"
    using inv_rotationsD [OF inv] unfolding t inv_rotations_def
    by (auto simp: bt_simps interrupt_record_keeps)
  moreover have "inv_active t"
    using inv rotation_seated_cong [of t s] unfolding t
    by (auto simp: seat_inv_def inv_active_def bt_simps interrupt_record_keeps)
  ultimately show ?thesis by (simp add: seat_inv_def)
qed

section \<open>Runs of the store\<close>

text \<open>
  One committed or replayed request of any kind, at any time and with any digest function; the
  closures given to \<open>mutate_release_rotation\<close> change the record they are applied to admissibly.
\<close>

inductive seat_step :: "SeatOccupancySnapshot \<Rightarrow> SeatOccupancySnapshot \<Rightarrow> bool" where
  step_bind: "bind_on E q s = Inr (t, rc, w) \<Longrightarrow> seat_step s t"
| step_transfer: "transfer_director_on E x s = Inr (t, rc, w) \<Longrightarrow> seat_step s t"
| step_finish: "finish_director_transfer_on E x s = Inr (t, rc, w) \<Longrightarrow> seat_step s t"
| step_begin: "begin_release_rotation_on E d y sha tpl tsha s = Inr (t, r, w) \<Longrightarrow> seat_step s t"
| step_mutate: "admissible_at s a f \<Longrightarrow> mutate_release_rotation_on E a sha f s = Inr (t, r, w) \<Longrightarrow>
    seat_step s t"
| step_interrupt: "block_interrupted_release_rotations_on E s = Inr (t, n, w) \<Longrightarrow> seat_step s t"
| step_bind_successor: "bind_release_rotation_successor_on E a sha z s = Inr (t, r, w) \<Longrightarrow> seat_step s t"
| step_complete: "complete_release_rotation_on E a sha m s = Inr (t, r, w) \<Longrightarrow> seat_step s t"

inductive_cases seat_stepE: "seat_step s t"

abbreviation seat_init :: "SeatOccupancySnapshot \<Rightarrow> bool" where
  "seat_init s \<equiv> s = SeatOccupancySnapshot_empty"

abbreviation seat_reachable :: "SeatOccupancySnapshot \<Rightarrow> bool" where
  "seat_reachable \<equiv> reach seat_init seat_step"

lemmas seat_on_inv = bind_on_inv transfer_director_on_inv finish_director_transfer_on_inv
  begin_release_rotation_on_inv mutate_release_rotation_on_inv
  block_interrupted_release_rotations_on_inv bind_release_rotation_successor_on_inv
  complete_release_rotation_on_inv

lemma seat_step_inv: "seat_inv s \<Longrightarrow> seat_step s t \<Longrightarrow> seat_inv t"
  by (erule seat_stepE) (blast intro: seat_on_inv)+

text \<open>
  The fence of a seat orders its history: an epoch with a holder, then the same epoch vacated,
  then the next epoch with a holder.
\<close>

definition seat_fence :: "SeatOccupancySnapshot \<Rightarrow> id \<Rightarrow> nat" where
  "seat_fence s k = 2 * seat_epoch s k + (if seat_holder s k = None then 1 else 0)"

lemma seat_fence_cong:
  "bt_get (occupancies t) k = bt_get (occupancies s) k \<Longrightarrow>
   bt_get (rotating_vacancies t) k = bt_get (rotating_vacancies s) k \<Longrightarrow>
     seat_fence t k = seat_fence s k \<and> seat_holder t k = seat_holder s k"
  by (simp add: seat_fence_def seat_epoch_def seat_holder_def split: option.split)

definition fence_rises :: "SeatOccupancySnapshot \<Rightarrow> SeatOccupancySnapshot \<Rightarrow> id \<Rightarrow> bool" where
  "fence_rises s t k \<longleftrightarrow>
     seat_fence t k = seat_fence s k \<and> seat_holder t k = seat_holder s k
     \<or> seat_fence s k < seat_fence t k"

lemma fence_rises_same [simp]: "fence_rises s s k"
  by (simp add: fence_rises_def)

lemma fence_rises_cong:
  "bt_get (occupancies t) k = bt_get (occupancies s) k \<Longrightarrow>
   bt_get (rotating_vacancies t) k = bt_get (rotating_vacancies s) k \<Longrightarrow> fence_rises s t k"
  unfolding fence_rises_def by (rule disjI1, rule seat_fence_cong)

lemma fence_rises_seat:
  assumes "bt_get (occupancies t) k = Some oc" and "seat_epoch s k < unat (occ_epoch oc)"
  shows "fence_rises s t k"
proof -
  have "seat_epoch t k = unat (occ_epoch oc)" "seat_holder t k \<noteq> None"
    using assms(1) by (simp_all add: seat_epoch_def seat_holder_def)
  then show ?thesis
    using assms(2) by (simp add: fence_rises_def seat_fence_def)
qed

lemma fence_rises_vacate:
  assumes "bt_get (occupancies s) k = Some oc" and "bt_get (occupancies t) k = None"
    and "bt_get (rotating_vacancies t) k = Some v" and "vac_epoch v = occ_epoch oc"
  shows "fence_rises s t k"
  using assms by (simp add: fence_rises_def seat_fence_def seat_epoch_def seat_holder_def)

lemma bind_on_fence: 
  assumes "bind_on E q s = Inr (t, rc, w)"
  shows "fence_rises s t k"
proof (cases w)
  case False
  with assms bind_on_no_write [of E q s t rc] show ?thesis by simp
next
  case True
  with assms have "bind_on E q s = Inr (t, rc, True)" by simp
  note c = bind_on_commit [OF this]
  show ?thesis
  proof (cases "k = bind_seat_id q")
    case True
    moreover have "seat_epoch s (bind_seat_id q) < unat (occ_epoch (rcpt_occupancy rc))"
      using c(4,7) next_epoch_Inr by (auto simp: seat_epoch_def split: option.splits)
    ultimately show ?thesis
      by (intro fence_rises_seat [where oc = "rcpt_occupancy rc"]) (simp_all add: c(11) bt_simps)
  qed (intro fence_rises_cong; simp add: c(11) bt_simps)
qed

lemma transfer_director_on_fence:
  assumes "transfer_director_on E q s = Inr (t, rc, w)"
  shows "fence_rises s t k"
proof (cases w)
  case False
  with assms transfer_director_on_no_write [of E q s t rc] show ?thesis by simp
next
  case True
  with assms have "transfer_director_on E q s = Inr (t, rc, True)" by simp
  note c = transfer_director_on_commit [OF this]
  show ?thesis
  proof (cases "k = director_seat")
    case True
    moreover have "seat_epoch s director_seat < unat (occ_epoch (rcpt_occupancy rc))"
      using c(4) next_epoch_Inr by (auto simp: seat_epoch_def)
    ultimately show ?thesis
      by (intro fence_rises_seat [where oc = "rcpt_occupancy rc"]) (simp_all add: c(8) bt_simps)
  qed (intro fence_rises_cong; simp add: c(8) bt_simps)
qed

lemma begin_release_rotation_on_fence:
  assumes "begin_release_rotation_on E d q sha tpl tsha s = Inr (t, r, w)"
  shows "fence_rises s t k"
proof (cases w)
  case False
  with assms begin_release_rotation_on_no_write [of E d q sha tpl tsha s t r] show ?thesis by simp
next
  case True
  with assms have "begin_release_rotation_on E d q sha tpl tsha s = Inr (t, r, True)" by simp
  from begin_release_rotation_on_commit [OF this] obtain current revision where
    cur: "bt_get (occupancies s) release_seat = Some current"
      "occ_epoch current = req_expected_seat_epoch q" and
    t: "occupancies t = bt_remove release_seat (occupancies s)"
      "rotating_vacancies t = bt_insert release_seat (begun_vacancy E q sha) (rotating_vacancies s)"
    by auto
  show ?thesis
  proof (cases "k = release_seat")
    case True
    with cur t show ?thesis
      by (intro fence_rises_vacate [where oc = current and v = "begun_vacancy E q sha"])
        (simp_all add: bt_simps begun_vacancy_def)
  qed (intro fence_rises_cong; simp add: t bt_simps)
qed

lemma bind_release_rotation_successor_on_fence:
  assumes "bind_release_rotation_successor_on E a sha x s = Inr (t, r, w)"
  shows "fence_rises s t k"
proof (cases w)
  case False
  with assms bind_release_rotation_successor_on_no_write [of E a sha x s t r] show ?thesis by simp
next
  case True
  with assms have "bind_release_rotation_successor_on E a sha x s = Inr (t, r, True)" by simp
  from bind_release_rotation_successor_on_commit [OF this] obtain seat v epoch where
    v: "bt_get (rotating_vacancies s) seat = Some v" "next_epoch (vac_epoch v) = Inr epoch" 
      "bt_get (occupancies s) seat = None" and
    t: "occupancies t = bt_insert seat \<lparr>occ_seat_id = seat, occ_occupant_cutex_session = x,
          occ_epoch = epoch, occ_bound_at = now E\<rparr> (occupancies s)"
      "rotating_vacancies t = bt_remove seat (rotating_vacancies s)"
    by auto
  show ?thesis
  proof (cases "k = seat")
    case True
    with v t next_epoch_Inr [OF v(2)] show ?thesis
      by (intro fence_rises_seat) (auto simp: bt_simps seat_epoch_def)
  qed (intro fence_rises_cong; simp add: t bt_simps)
qed

lemma complete_release_rotation_on_seats:
  assumes "complete_release_rotation_on E a sha m s = Inr (t, r, w)"
  shows "occupancies t = occupancies s \<and> rotating_vacancies t = rotating_vacancies s"
  using assms by (auto simp: complete_release_rotation_on_def Let_def res_simps split: if_splits)

lemma seat_step_fence: "seat_step s t \<Longrightarrow> fence_rises s t k"
proof (erule seat_stepE)
  fix E x rc w assume "finish_director_transfer_on E x s = Inr (t, rc, w)"
  from finish_director_transfer_on_cases [OF this] show ?thesis
    by (intro fence_rises_cong) (auto split: if_splits)
next
  fix a f E sha r w assume "mutate_release_rotation_on E a sha f s = Inr (t, r, w)"
  from mutate_release_rotation_on_commit [OF this] show ?thesis
    by (intro fence_rises_cong) auto
next
  fix E n w assume "block_interrupted_release_rotations_on E s = Inr (t, n, w)"
  from block_interrupted_release_rotations_on_commit [OF this] show ?thesis
    by (intro fence_rises_cong) auto
next
  fix E a sha m r w assume "complete_release_rotation_on E a sha m s = Inr (t, r, w)"
  from complete_release_rotation_on_seats [OF this] show ?thesis
    by (intro fence_rises_cong) auto
qed (blast intro: bind_on_fence transfer_director_on_fence begin_release_rotation_on_fence
    bind_release_rotation_successor_on_fence)+

lemma seat_step_fence_mono: "seat_step s t \<Longrightarrow> seat_fence s k \<le> seat_fence t k"
  using seat_step_fence [of s t k] by (auto simp: fence_rises_def)

interpretation seat_runs: fenced_system seat_init seat_step seat_inv seat_fence seat_holder
proof unfold_locales
  fix s t k assume "seat_step s t"
  from seat_step_fence [OF this, of k]
  show "seat_holder t k = seat_holder s k \<or> seat_fence s k < seat_fence t k"
    by (auto simp: fence_rises_def)
qed (auto intro: seat_inv_empty seat_step_inv seat_step_fence_mono)

section \<open>Receipts\<close>

text \<open>Each receipted mutation answers a repeated request from its receipt and does not write.\<close>

lemma bind_on_replay:
  assumes "bind_on E q s = Inr (t, rc, True)"
  shows "bind_on E q t = Inr (t, rc, False)"
proof -
  note c = bind_on_commit [OF assms]
  show ?thesis
    using c(10) by (simp add: bind_on_def bind_transaction_def c(11) bt_simps)
qed

lemma transfer_director_on_replay:
  assumes "transfer_director_on E q s = Inr (t, rc, True)"
  shows "transfer_director_on E q t = Inr (t, rc, False)"
proof -
  note c = transfer_director_on_commit [OF assms]
  have d: "request_digest (json_transfer E) (sha256_hex E) q = Inr (rcpt_request_sha256 rc)"
    using c(7) by (auto simp: transfer_director_prepare_def split: if_splits)
  show ?thesis
    using c(6,7) d
    by (simp add: transfer_director_on_def transfer_director_transaction_def c(8) bt_simps
        verify_director_transfer_receipt_def director_occupancy_def)
qed

lemma begin_release_rotation_on_replay:
  assumes "begin_release_rotation_on E d q sha tpl tsha s = Inr (t, r, True)"
  shows "begin_release_rotation_on E d q sha tpl tsha t = Inr (t, r, False)"
proof -
  have "req_target_seat q = release_seat"
    using assms by (auto simp: begin_release_rotation_on_def split: if_splits)
  with begin_release_rotation_on_commit [OF assms] show ?thesis
    by (auto simp: begin_release_rotation_on_def begin_release_rotation_transaction_def bt_simps)
qed

lemma bind_release_rotation_successor_on_replay:
  assumes "bind_release_rotation_successor_on E a sha x s = Inr (t, r, True)"
  shows "bind_release_rotation_successor_on E a sha x t = Inr (t, r, False)"
  using bind_release_rotation_successor_on_commit [OF assms]
  by (auto simp: bind_release_rotation_successor_on_def bt_simps)

lemma complete_release_rotation_on_replay:
  assumes "complete_release_rotation_on E a sha m s = Inr (t, r, True)"
  shows "complete_release_rotation_on E a sha m t = Inr (t, r, False)"
  using complete_release_rotation_on_commit [OF assms]
  by (auto simp: complete_release_rotation_on_def bt_simps)

interpretation bind_receipts: receipted_store "bind_on E" seat_inv for E
  by unfold_locales (auto intro: bind_on_inv bind_on_replay dest: bind_on_no_write)

interpretation transfer_receipts: receipted_store "transfer_director_on E" seat_inv for E
  by unfold_locales (auto intro: transfer_director_on_inv transfer_director_on_replay
      dest: transfer_director_on_no_write)

interpretation rotation_receipts:
  receipted_store "\<lambda>(d, q, sha, tpl, tsha). begin_release_rotation_on E d q sha tpl tsha" seat_inv for E
  by unfold_locales (auto split: prod.splits intro: begin_release_rotation_on_inv
      begin_release_rotation_on_replay dest: begin_release_rotation_on_no_write)

interpretation successor_receipts:
  receipted_store "\<lambda>(a, sha, x). bind_release_rotation_successor_on E a sha x" seat_inv for E
  by unfold_locales (auto split: prod.splits intro: bind_release_rotation_successor_on_inv
      bind_release_rotation_successor_on_replay dest: bind_release_rotation_successor_on_no_write)

interpretation completion_receipts:
  receipted_store "\<lambda>(a, sha, m). complete_release_rotation_on E a sha m" seat_inv for E
  by unfold_locales (auto split: prod.splits intro: complete_release_rotation_on_inv
      complete_release_rotation_on_replay dest: complete_release_rotation_on_no_write)

text \<open>A receipt is never lost or overwritten.\<close>

lemma seat_step_receipts:
  assumes "seat_step s t" and rc: "bt_get (receipts s) a = Some rc"
  shows "bt_get (receipts t) a = Some rc"
  using assms(1)
proof (cases rule: seat_step.cases)
  case (step_bind E q rc' w)
  show ?thesis
  proof (cases w)
    case True
    with step_bind have "bind_on E q s = Inr (t, rc', True)" by simp
    from bind_on_commit(2,11) [OF this] rc show ?thesis by (auto simp: bt_simps)
  qed (use step_bind rc bind_on_no_write [of E q s t rc'] in simp)
next
  case (step_transfer E q rc' w)
  show ?thesis
  proof (cases w)
    case True
    with step_transfer have "transfer_director_on E q s = Inr (t, rc', True)" by simp
    from transfer_director_on_commit(1,8) [OF this] rc show ?thesis by (auto simp: bt_simps)
  qed (use step_transfer rc transfer_director_on_no_write [of E q s t rc'] in simp)
next
  case (step_finish E q rc' w)
  from finish_director_transfer_on_cases [OF step_finish] rc show ?thesis
    by (auto split: if_splits)
next
  case (step_begin E d q sha tpl tsha r w)
  then have "receipts t = receipts s"
    by (auto simp: begin_release_rotation_on_def begin_release_rotation_transaction_def Let_def
        res_simps split: if_splits option.splits)
  with rc show ?thesis by simp
next
  case (step_mutate a' f E sha r w)
  from mutate_release_rotation_on_commit [OF step_mutate(2)] rc show ?thesis by auto
next
  case (step_interrupt E n w)
  from block_interrupted_release_rotations_on_commit [OF step_interrupt] rc show ?thesis by auto
next
  case (step_bind_successor E a' sha z r w)
  then have "receipts t = receipts s"
    by (auto simp: bind_release_rotation_successor_on_def Let_def res_simps split: if_splits)
  with rc show ?thesis by simp
next
  case (step_complete E a' sha m r w)
  then have "receipts t = receipts s"
    by (auto simp: complete_release_rotation_on_def Let_def res_simps split: if_splits)
  with rc show ?thesis by simp
qed

lemma steps_receipts:
  "steps seat_step s t \<Longrightarrow> bt_get (receipts s) a = Some rc \<Longrightarrow> bt_get (receipts t) a = Some rc"
  by (induction rule: steps.induct) (auto intro: seat_step_receipts)

text \<open>While a rotation is unfinished its predecessor does not hold the Release seat.\<close>

lemma unfinished_predecessor_unseated:
  assumes inv: "seat_inv s" and r: "bt_get (release_rotations s) a = Some r" and "rr_status r \<noteq> Complete"
  shows "active_release_rotation s = Some a \<and> seat_holder s release_seat \<noteq> Some (rr_predecessor_cutex_session r)"
proof -
  have ok: "rotation_ok (active_release_rotation s) a r" by (rule inv_rotationsD [OF inv r])
  then have act: "active_release_rotation s = Some a" using assms(3) by (auto simp: rotation_ok_def)
  then have "rotation_seated s r" using inv r by (auto simp: seat_inv_def inv_active_def)
  with ok act show ?thesis
    by (auto simp: rotation_seated_def rotation_ok_def successor_seated_def seat_holder_def
        split: if_splits dest!: inv_vacanciesD [OF inv])
qed

section \<open>The store on disk refines the step relation\<close>

text \<open>The requests of the store, and the disk after one of them, whatever it answered.\<close>

datatype seat_request =
    ReqBind SeatOccupancyBindRequest
  | ReqTransfer DirectorSeatTransferRequest
  | ReqFinish DirectorSeatTransferRequest
  | ReqVerify DirectorSeatTransferRequest
  | ReqPreflight id id "DirectorSeatTransferRequest option"
  | ReqQuery
  | ReqBegin id ReleaseRotationRequest Sha256 ReleaseTemplate Sha256
  | ReqMark id Sha256 ReleaseRotationStatus ReleaseRotationBoundary ReleaseRotationExternalStep
  | ReqBlock id Sha256 bytes
  | ReqInterrupt
  | ReqResume id Sha256 ReleaseRotationBoundary "ReleaseRotationExternalStep option"
  | ReqBindSuccessor id Sha256 id
  | ReqComplete id Sha256 bytes

fun seat_disk_step :: "seat_codec \<Rightarrow> seat_env \<Rightarrow> seat_request \<Rightarrow> doc_io \<Rightarrow> doc_fs \<Rightarrow> doc_fs" where
  "seat_disk_step C E (ReqBind q) io fs = snd (bind E C q io fs)"
| "seat_disk_step C E (ReqTransfer q) io fs = snd (transfer_director E C q io fs)"
| "seat_disk_step C E (ReqFinish q) io fs = snd (finish_director_transfer E C q io fs)"
| "seat_disk_step C E (ReqVerify q) io fs = snd (verify_director_transfer E C q io fs)"
| "seat_disk_step C E (ReqPreflight a p q) io fs = snd (preflight_director_transfer E C a p q io fs)"
| "seat_disk_step C E ReqQuery io fs = snd (query C io fs)"
| "seat_disk_step C E (ReqBegin d q sha tpl tsha) io fs =
     snd (begin_release_rotation E C d q sha tpl tsha io fs)"
| "seat_disk_step C E (ReqMark a sha st b step) io fs =
     snd (mark_release_rotation_pending E C a sha st b step io fs)"
| "seat_disk_step C E (ReqBlock a sha reason) io fs = snd (block_release_rotation E C a sha reason io fs)"
| "seat_disk_step C E ReqInterrupt io fs = snd (block_interrupted_release_rotations E C io fs)"
| "seat_disk_step C E (ReqResume a sha b step) io fs =
     snd (resume_interrupted_release_rotation E C a sha b step io fs)"
| "seat_disk_step C E (ReqBindSuccessor a sha x) io fs =
     snd (bind_release_rotation_successor E C a sha x io fs)"
| "seat_disk_step C E (ReqComplete a sha m) io fs = snd (complete_release_rotation E C a sha m io fs)"

definition seat_disk_run :: "seat_codec \<Rightarrow> (seat_env \<times> seat_request \<times> doc_io) list \<Rightarrow> doc_fs \<Rightarrow> doc_fs" where
  "seat_disk_run C reqs fs = fold (\<lambda>(E, q, io) fs. seat_disk_step C E q io fs) reqs fs"

text \<open>A transaction that only makes store steps, run under the lock, makes at most one.\<close>

lemma seat_locked_refines:
  assumes "doc_roundtrip (seat_doc C)" and "no_spurious_not_found io"
    and "doc_state (seat_doc C) fs = Some s"
    and "\<And>t v. operation s = Inr (t, v, True) \<Longrightarrow> seat_step s t"
  shows "\<exists>t. doc_state (seat_doc C) (snd (seat_with_locked_state C create operation io fs)) = Some t
    \<and> (t = s \<or> seat_step s t)"
proof -
  obtain r fs' where run: "with_locked_state (seat_doc C) create operation io fs = (r, fs')"
    by (cases "with_locked_state (seat_doc C) create operation io fs")
  from locked_state_atomic [OF assms(1) run assms(2)] assms(3,4) run show ?thesis
    by (auto simp: seat_with_locked_state_def)
qed

lemma seat_disk_step_refines:
  assumes rt: "doc_roundtrip (seat_doc C)" and nf: "no_spurious_not_found io"
    and st: "doc_state (seat_doc C) fs = Some s"
  shows "\<exists>t. doc_state (seat_doc C) (seat_disk_step C E q io fs) = Some t \<and> (t = s \<or> seat_step s t)"
proof -
  note locked = seat_locked_refines [OF rt nf st]
  show ?thesis
  proof (cases q)
    case (ReqBind b)
    show ?thesis
    proof (cases "bind_prepare E b")
      case (Inr d)
      then have "seat_step s t" if "bind_transaction E b d s = Inr (t, v, True)" for t v
        using that by (intro step_bind [of E b]) (simp add: bind_on_def)
      with ReqBind Inr show ?thesis by (simp add: bind_def locked)
    qed (simp add: ReqBind bind_def st)
  next
    case (ReqTransfer b)
    show ?thesis
    proof (cases "transfer_director_prepare E b")
      case (Inr d)
      then have "seat_step s t" if "transfer_director_transaction E b d s = Inr (t, v, True)" for t v
        using that by (intro step_transfer [of E b]) (simp add: transfer_director_on_def)
      with ReqTransfer Inr show ?thesis by (simp add: transfer_director_def locked)
    qed (simp add: ReqTransfer transfer_director_def st)
  next
    case (ReqBegin d b sha tpl tsha)
    show ?thesis
    proof (cases "req_target_seat b = release_seat")
      case True
      then have "seat_step s t"
        if "begin_release_rotation_transaction E d b sha tpl tsha s = Inr (t, v, True)" for t v
        using that by (intro step_begin [of E d b]) (simp add: begin_release_rotation_on_def)
      with ReqBegin True show ?thesis by (simp add: begin_release_rotation_def locked)
    qed (simp add: ReqBegin begin_release_rotation_def st)
  next
    case (ReqVerify b)
    then show ?thesis
      by (simp add: verify_director_transfer_def)
        (rule locked, auto simp: verify_director_transfer_on_def res_simps)
  next
    case (ReqPreflight a p b)
    then show ?thesis
      by (simp add: preflight_director_transfer_def)
        (rule locked, auto simp: preflight_director_transfer_transaction_def res_simps
          split: option.splits if_splits)
  next
    case ReqQuery
    then show ?thesis
      by (simp add: query_def) (rule locked, simp add: query_on_def)
  qed (simp_all add: finish_director_transfer_def mark_release_rotation_pending_def
      block_release_rotation_def block_interrupted_release_rotations_def
      resume_interrupted_release_rotation_def bind_release_rotation_successor_def
      complete_release_rotation_def mutate_release_rotation_def,
      (rule locked, blast intro: seat_step.intros admissible_change_at mark_pending_admissible
        block_admissible resume_interrupted_admissible)+)
qed

lemma seat_disk_run_refines:
  assumes rt: "doc_roundtrip (seat_doc C)"
    and "\<And>E q io. (E, q, io) \<in> set reqs \<Longrightarrow> no_spurious_not_found io"
    and "doc_state (seat_doc C) fs = Some s" and "reach init seat_step s"
  shows "\<exists>t. doc_state (seat_doc C) (seat_disk_run C reqs fs) = Some t \<and> reach init seat_step t"
  using assms(2-)
proof (induction reqs arbitrary: fs s)
  case Nil
  then show ?case by (auto simp: seat_disk_run_def)
next
  case (Cons req reqs)
  obtain E q io where req: "req = (E, q, io)" by (cases req)
  then have nf: "no_spurious_not_found io" using Cons.prems(1) by auto
  from seat_disk_step_refines [OF rt nf Cons.prems(2), of E q] obtain t where
    t: "doc_state (seat_doc C) (seat_disk_step C E q io fs) = Some t" "t = s \<or> seat_step s t" by blast
  have "reach init seat_step t"
    using t(2) Cons.prems(3) by (auto intro: reach_step)
  moreover have "no_spurious_not_found io'" if "(E', q', io') \<in> set reqs" for E' q' io'
    using Cons.prems(1) [of E' q' io'] that by simp
  ultimately show ?case
    using Cons.IH [OF _ t(1)] by (simp add: req seat_disk_run_def)
qed

end
