(* ===== verification/Seat_Claims.thy ===== *)
theory Seat_Claims
  imports Seat_Properties
begin

text \<open>
  The properties of the seat store: exclusive seats, fencing epochs, exact replay, the vacancy of
  the Release seat during a rotation, Director transfers that can always be finished, principals,
  and the refinement of the step relation by the store on disk under any sequence of requests
  and failures.
\<close>

section \<open>A concrete run\<close>

text \<open>
  A small environment and the states it leads through: two seats bound, a Director transfer, and a
  Release rotation begun by the new Director.
\<close>

definition ex_env :: seat_env where
  "ex_env = \<lparr>json_bind = (\<lambda>q. Some (bind_action_id q @ ''|'' @ bind_seat_id q)),
     json_transfer = (\<lambda>q. Some (xfer_action_id q @ ''|'' @ xfer_successor_cutex_session q)),
     sha256_hex = (\<lambda>bs. ''h'' @ bs), now = ''t0''\<rparr>"

definition ex_bind1 :: SeatOccupancyBindRequest where
  "ex_bind1 = \<lparr>bind_action_id = ''a1'', bind_seat_id = director_seat, bind_occupant_cutex_session = ''dir1''\<rparr>"

definition ex_bind2 :: SeatOccupancyBindRequest where
  "ex_bind2 = \<lparr>bind_action_id = ''a2'', bind_seat_id = release_seat, bind_occupant_cutex_session = ''rel1''\<rparr>"

definition ex_transfer :: DirectorSeatTransferRequest where
  "ex_transfer = \<lparr>xfer_action_id = ''a3'', xfer_expected_predecessor_cutex_session = ''dir1'',
     xfer_successor_cutex_session = ''dir2''\<rparr>"

definition ex_template :: ReleaseTemplate where
  "ex_template = \<lparr>tpl_version = 1, tpl_successor_name = ''rel'', tpl_cwd = ''/w'', tpl_managed_cwd = None,
     tpl_runtime_backend = Host, tpl_role_package = \<lparr>package_reference = ''p'', package_sha256 = zero_sha256\<rparr>,
     tpl_agent_groups = [''g''], tpl_profile = None, tpl_model = None, tpl_reasoning = None,
     tpl_permissions = None, tpl_approval_policy = None, tpl_sandbox_mode = None,
     tpl_exposed_to_backend = False, tpl_quick_action = Auto, tpl_registration_class = Persistent,
     tpl_default_cli_args = []\<rparr>"

definition ex_rotation :: ReleaseRotationRequest where
  "ex_rotation = \<lparr>req_action_id = ''r1'', req_target_seat = release_seat,
     req_expected_predecessor_cutex_session = ''rel1'', req_expected_seat_epoch = 1,
     req_expected_template_version = 1, req_expected_template_sha256 = zero_sha256,
     req_starting_message = ''go''\<rparr>"

text \<open>The state a successful request leads to.\<close>

definition next_state :: "'e + ('s \<times> 'v \<times> bool) \<Rightarrow> 's \<Rightarrow> 's" where
  "next_state r s = (case r of Inl _ \<Rightarrow> s | Inr (t, _, _) \<Rightarrow> t)"

definition answer_of :: "'e + ('s \<times> 'v \<times> bool) \<Rightarrow> 'v option" where
  "answer_of r = (case r of Inl _ \<Rightarrow> None | Inr (_, v, _) \<Rightarrow> Some v)"

definition ex_s1 :: SeatOccupancySnapshot where
  "ex_s1 = next_state (bind_on ex_env ex_bind1 SeatOccupancySnapshot_empty) SeatOccupancySnapshot_empty"

definition ex_s2 :: SeatOccupancySnapshot where
  "ex_s2 = next_state (bind_on ex_env ex_bind2 ex_s1) ex_s1"

definition ex_s3 :: SeatOccupancySnapshot where
  "ex_s3 = next_state (transfer_director_on ex_env ex_transfer ex_s2) ex_s2"

definition ex_s4 :: SeatOccupancySnapshot where
  "ex_s4 = next_state (begin_release_rotation_on ex_env ''dir2'' ex_rotation zero_sha256 ex_template
     zero_sha256 ex_s3) ex_s3"

lemma next_state_Inr:
  "case r of Inl _ \<Rightarrow> False | Inr (_, _, w) \<Rightarrow> w \<Longrightarrow> r = Inr (next_state r s, the (answer_of r), True)"
  by (auto simp: next_state_def answer_of_def split: sum.splits prod.splits)

lemma ex_commits:
  "case bind_on ex_env ex_bind1 SeatOccupancySnapshot_empty of Inl _ \<Rightarrow> False | Inr (_, _, w) \<Rightarrow> w"
  "case bind_on ex_env ex_bind2 ex_s1 of Inl _ \<Rightarrow> False | Inr (_, _, w) \<Rightarrow> w"
  "case transfer_director_on ex_env ex_transfer ex_s2 of Inl _ \<Rightarrow> False | Inr (_, _, w) \<Rightarrow> w"
  "case begin_release_rotation_on ex_env ''dir2'' ex_rotation zero_sha256 ex_template zero_sha256 ex_s3
     of Inl _ \<Rightarrow> False | Inr (_, _, w) \<Rightarrow> w"
  by code_simp+

lemmas ex_runs =
  next_state_Inr [OF ex_commits(1), of SeatOccupancySnapshot_empty, folded ex_s1_def]
  next_state_Inr [OF ex_commits(2), of ex_s1, folded ex_s2_def]
  next_state_Inr [OF ex_commits(3), of ex_s2, folded ex_s3_def]
  next_state_Inr [OF ex_commits(4), of ex_s3, folded ex_s4_def]

lemma ex_reachable:
  "seat_reachable ex_s1" "seat_reachable ex_s2" "seat_reachable ex_s3" "seat_reachable ex_s4"
proof -
  have "seat_reachable SeatOccupancySnapshot_empty" by (rule reach_init) simp
  from reach_step [OF this step_bind [OF ex_runs(1)]] show 1: "seat_reachable ex_s1" .
  from reach_step [OF 1 step_bind [OF ex_runs(2)]] show 2: "seat_reachable ex_s2" .
  from reach_step [OF 2 step_transfer [OF ex_runs(3)]] show 3: "seat_reachable ex_s3" .
  from reach_step [OF 3 step_begin [OF ex_runs(4)]] show "seat_reachable ex_s4" .
qed

section \<open>Exclusive and fenced seats\<close>

text \<open>
  C1: whatever sequence of binds, Director transfers and Release rotations the store has
  committed, no durable session holds two seats at once.
\<close>

theorem seat_exclusive:
  assumes "seat_reachable s" and "seat_holder s k = Some x" and "seat_holder s k' = Some x"
  shows "k = k'"
  using seat_runs.reach_inv [OF assms(1)] assms(2,3)
  by (auto simp: seat_inv_def inv_one_seat_def seat_holder_def)

theorem seat_exclusive_witness:
  "seat_reachable ex_s2 \<and> seat_holder ex_s2 release_seat = Some ''rel1''
     \<and> seat_holder ex_s2 director_seat \<noteq> Some ''rel1''"
proof -
  have h: "seat_holder ex_s2 release_seat = Some ''rel1''" by code_simp
  then have "seat_holder ex_s2 director_seat \<noteq> Some ''rel1''"
    using seat_exclusive [OF ex_reachable(2), of director_seat "''rel1''" release_seat] by auto
  with h ex_reachable(2) show ?thesis by simp
qed

text \<open>
  C2: epochs fence. Along every continuation of a reachable store the epoch of a seat never
  goes back, and one epoch of one seat has one holder for ever: two holders of the same seat seen
  at the same epoch are the same session.
\<close>

theorem seat_epoch_fences:
  assumes "seat_reachable s" and "steps seat_step s t"
  shows "seat_epoch s k \<le> seat_epoch t k
    \<and> (\<forall>x y. seat_holder s k = Some x \<longrightarrow> seat_holder t k = Some y \<longrightarrow>
         seat_epoch s k = seat_epoch t k \<longrightarrow> x = y)"
proof -
  have inv: "seat_inv s" by (rule seat_runs.reach_inv [OF assms(1)])
  have le: "seat_fence s k \<le> seat_fence t k"
    by (rule seat_runs.steps_rank [OF assms(2) inv])
  then have "seat_epoch s k \<le> seat_epoch t k"
    by (cases "seat_holder s k"; cases "seat_holder t k") (simp_all add: seat_fence_def)
  moreover have "x = y"
    if h: "seat_holder s k = Some x" "seat_holder t k = Some y" and e: "seat_epoch s k = seat_epoch t k" for x y
  proof -
    have "seat_fence s k = seat_fence t k"
      using h e by (simp add: seat_fence_def)
    from seat_runs.steps_holder [OF assms(2) inv this] h show ?thesis by simp
  qed
  ultimately show ?thesis by blast
qed

theorem seat_epoch_fences_witness:
  "seat_epoch ex_s2 director_seat \<le> seat_epoch ex_s3 director_seat
     \<and> seat_holder ex_s2 director_seat = Some ''dir1'' \<and> seat_holder ex_s3 director_seat = Some ''dir2''
     \<and> seat_epoch ex_s2 director_seat \<noteq> seat_epoch ex_s3 director_seat"
proof -
  have h: "seat_holder ex_s2 director_seat = Some ''dir1''" "seat_holder ex_s3 director_seat = Some ''dir2''"
    by code_simp+
  have "steps seat_step ex_s2 ex_s3"
    by (rule steps_one, rule step_transfer [OF ex_runs(3)])
  from seat_epoch_fences [OF ex_reachable(2) this, of director_seat] h show ?thesis by auto
qed

section \<open>Receipts\<close>

text \<open>
  C3: an administrative bind is applied exactly once: however often the same request is submitted
  again, it gets the first receipt back and the store stays as the first submission left it.
\<close>

theorem bind_exactly_once:
  assumes "seat_reachable s" and "bind_on E q s = Inr (t, rc, w)"
  shows "repeat_op (bind_on E) (Suc n) q s = Inr (t, rc, False)"
  by (rule bind_receipts.exactly_once [OF seat_runs.reach_inv [OF assms(1)] assms(2)])

theorem bind_exactly_once_witness:
  "\<exists>rc. repeat_op (bind_on ex_env) (Suc 4) ex_bind2 ex_s1 = Inr (ex_s2, rc, False)"
  using bind_exactly_once [OF ex_reachable(1) ex_runs(2), of 4] by blast

text \<open>
  C4: an unfinished Director transfer can always be finished. From the commit of a transfer on,
  whatever else the store does while the transfer is the active one, the successor keeps the
  Director seat, and the same request still finds its receipt and lifts the fence (as long as the
  store revision can be incremented).
\<close>

theorem director_transfer_can_finish:
  assumes "seat_reachable s" and commit: "transfer_director_on E q s = Inr (t, rc, True)"
    and run: "steps seat_step t u"
    and active: "active_director_transfer u = Some (xfer_action_id q)"
    and room: "store_revision u < MAX_JSON_SAFE_INTEGER"
    and env: "json_transfer E' = json_transfer E" "sha256_hex E' = sha256_hex E"
  shows "seat_holder u director_seat = Some (xfer_successor_cutex_session q)
    \<and> (\<exists>v. finish_director_transfer_on E' q u = Inr (v, rc, True)
         \<and> active_director_transfer v = None
         \<and> seat_holder v director_seat = Some (xfer_successor_cutex_session q))"
proof -
  note c = transfer_director_on_commit [OF commit]
  have inv: "seat_inv u"
    using seat_runs.steps_inv [OF run] transfer_director_on_inv [OF seat_runs.reach_inv [OF assms(1)] commit]
    by blast
  have "bt_get (receipts t) (xfer_action_id q) = Some rc"
    by (simp add: c(8) bt_simps)
  from steps_receipts [OF run this] have rc: "bt_get (receipts u) (xfer_action_id q) = Some rc" .
  with inv active have occ: "bt_get (occupancies u) director_seat = Some (rcpt_occupancy rc)"
    by (auto simp: seat_inv_def inv_transfer_def)
  have d: "request_digest (json_transfer E') (sha256_hex E') q = Inr (rcpt_request_sha256 rc)"
    using c(7) env by (auto simp: transfer_director_prepare_def split: if_splits)
  have "verify_director_transfer_receipt E' u q rc = Inr ()"
    using d occ c(6) by (simp add: verify_director_transfer_receipt_def director_occupancy_def)
  with rc active occ c(6) json_safe_succ_exists [OF room] show ?thesis
    by (simp add: finish_director_transfer_on_def next_revision_def seat_holder_def)
qed

theorem director_transfer_can_finish_witness:
  "seat_holder ex_s4 director_seat = Some ''dir2''
     \<and> (\<exists>rc v. finish_director_transfer_on ex_env ex_transfer ex_s4 = Inr (v, rc, True)
          \<and> active_director_transfer v = None)"
proof -
  have "steps seat_step ex_s3 ex_s4"
    by (rule steps_one, rule step_begin [OF ex_runs(4)])
  moreover have "active_director_transfer ex_s4 = Some (xfer_action_id ex_transfer)"
    "store_revision ex_s4 < MAX_JSON_SAFE_INTEGER" by code_simp+
  ultimately show ?thesis
    using director_transfer_can_finish [OF ex_reachable(2) ex_runs(3), of ex_s4 ex_env]
    by (auto simp: ex_transfer_def)
qed

section \<open>Rotations of the Release seat\<close>

text \<open>
  C5: from the revocation of the predecessor until the successor is bound, nobody holds the
  Release seat and nobody but the rotation can: no administrative bind of that seat and no other
  rotation commits. From the binding on, the seat is held by the recorded successor, at exactly
  one epoch after the predecessor's.
\<close>

theorem release_rotation_window:
  assumes "seat_reachable s" and "active_release_rotation s = Some a"
  shows "\<exists>r. bt_get (release_rotations s) a = Some r \<and> rr_status r \<noteq> Complete
    \<and> (if boundary_rank (rr_completed_boundary r) < 6
       then seat_holder s release_seat = None
         \<and> seat_epoch s release_seat = unat (rr_predecessor_seat_epoch r)
       else seat_holder s release_seat = rr_successor_cutex_session r
         \<and> rr_successor_cutex_session r \<noteq> Some (rr_predecessor_cutex_session r)
         \<and> seat_epoch s release_seat = Suc (unat (rr_predecessor_seat_epoch r)))
    \<and> (\<forall>E q t rc. bind_seat_id q = release_seat \<longrightarrow> bind_on E q s \<noteq> Inr (t, rc, True))
    \<and> (\<forall>E d q sha tpl tsha t r'. begin_release_rotation_on E d q sha tpl tsha s \<noteq> Inr (t, r', True))"
proof -
  have inv: "seat_inv s" by (rule seat_runs.reach_inv [OF assms(1)])
  obtain r where r: "bt_get (release_rotations s) a = Some r" and seated: "rotation_seated s r"
    using inv assms(2) by (auto simp: seat_inv_def inv_active_def)
  have ok: "rotation_ok (Some a) a r"
    using inv_rotationsD [OF inv r] assms(2) by simp
  have no_bind: "\<forall>E q t rc. bind_seat_id q = release_seat \<longrightarrow> bind_on E q s \<noteq> Inr (t, rc, True)"
    using bind_on_commit(6) assms(2) by fastforce
  have no_begin: "\<forall>E d q sha tpl tsha t r'. begin_release_rotation_on E d q sha tpl tsha s \<noteq> Inr (t, r', True)"
    using begin_release_rotation_on_commit assms(2) by fastforce
  show ?thesis
  proof (cases "boundary_rank (rr_completed_boundary r) < 6")
    case True
    then obtain v where "bt_get (rotating_vacancies s) release_seat = Some v" "vacancy_matches v r"
      using seated by (auto simp: rotation_seated_def)
    with inv_vacanciesD [OF inv this(1)] r ok True no_bind no_begin show ?thesis
      by (auto simp: rotation_ok_def seat_holder_def seat_epoch_def vacancy_matches_def)
  next
    case False
    with seated r ok no_bind no_begin show ?thesis
      by (auto simp: rotation_ok_def rotation_seated_def successor_seated_def seat_holder_def seat_epoch_def)
  qed
qed

theorem release_rotation_window_witness:
  "active_release_rotation ex_s4 = Some ''r1'' \<and> seat_holder ex_s4 release_seat = None
     \<and> (\<forall>E t rc. bind_on E ex_bind2 ex_s4 \<noteq> Inr (t, rc, True))"
proof -
  have act: "active_release_rotation ex_s4 = Some ''r1''"
    and b: "map_option (\<lambda>r. boundary_rank (rr_completed_boundary r) < 6)
      (bt_get (release_rotations ex_s4) ''r1'') = Some True"
    by code_simp+
  from release_rotation_window [OF ex_reachable(4) act] obtain r where
    r: "bt_get (release_rotations ex_s4) ''r1'' = Some r" and
    w: "if boundary_rank (rr_completed_boundary r) < 6 then seat_holder ex_s4 release_seat = None
         \<and> seat_epoch ex_s4 release_seat = unat (rr_predecessor_seat_epoch r)
       else seat_holder ex_s4 release_seat = rr_successor_cutex_session r
         \<and> rr_successor_cutex_session r \<noteq> Some (rr_predecessor_cutex_session r)
         \<and> seat_epoch ex_s4 release_seat = Suc (unat (rr_predecessor_seat_epoch r))" and
    nb: "\<forall>E q t rc. bind_seat_id q = release_seat \<longrightarrow> bind_on E q ex_s4 \<noteq> Inr (t, rc, True)"
    by blast
  have "bind_seat_id ex_bind2 = release_seat" by (simp add: ex_bind2_def)
  with act b r w nb show ?thesis by simp
qed

section \<open>Principals\<close>

lemma current_principal_held:
  assumes inv: "seat_inv s" and k: "bt_get (occupancies s) k = Some oc"
  shows "current_principal (occ_occupant_cutex_session oc) s =
    Inr (PrincipalSession (occ_occupant_cutex_session oc) (Some k) (Some (occ_epoch oc)))"
proof -
  let ?P = "\<lambda>o'. occ_occupant_cutex_session o' = occ_occupant_cutex_session oc"
  have ok: "bt_ok (occupancies s)" using inv by (simp add: seat_inv_def inv_maps_def)
  have "find ?P (bt_values (occupancies s)) \<noteq> None"
    using bt_values_get [OF k] by (auto simp: find_None_iff)
  then obtain oc' where f: "find ?P (bt_values (occupancies s)) = Some oc'" by auto
  then have oc': "oc' \<in> set (bt_values (occupancies s))" "?P oc'"
    by (auto simp: find_Some_iff)
  then obtain k' where k': "bt_get (occupancies s) k' = Some oc'"
    using bt_values_iff [OF ok] by blast
  with inv k oc'(2) have "k' = k"
    by (simp add: seat_inv_def inv_one_seat_def)
  with k k' have "oc' = oc" by simp
  with f inv_occupanciesD [OF inv k] show ?thesis
    by (auto simp: current_principal_def seated_session_def epoch_ok_def)
qed

lemma current_principal_not_held:
  assumes inv: "seat_inv s" and "\<And>k. seat_holder s k \<noteq> Some x"
  shows "current_principal x s = Inl Seat_Unauthorized"
proof -
  have ok: "bt_ok (occupancies s)" using inv by (simp add: seat_inv_def inv_maps_def)
  have "find (\<lambda>oc. occ_occupant_cutex_session oc = x) (bt_values (occupancies s)) = None"
    using assms(2) bt_values_iff [OF ok] by (fastforce simp: find_None_iff seat_holder_def)
  then show ?thesis by (simp add: current_principal_def)
qed

text \<open>
  The principal the store gives a session is exactly the seat it holds now: it is the seat
  and the epoch of the occupancy when the session holds a seat, and the answer is
  \<open>Unauthorized\<close>, and nothing else, when it holds none.
\<close>

theorem principal_is_current_holder:
  assumes "seat_reachable s"
  shows "(current_principal x s = Inl Seat_Unauthorized \<longleftrightarrow> (\<forall>k. seat_holder s k \<noteq> Some x))
    \<and> (seat_holder s k = Some x \<longrightarrow>
         (\<exists>e. current_principal x s = Inr (PrincipalSession x (Some k) (Some e)) \<and> seat_epoch s k = unat e))"
proof -
  have inv: "seat_inv s" by (rule seat_runs.reach_inv [OF assms])
  have held: "\<exists>e. current_principal x s = Inr (PrincipalSession x (Some k) (Some e)) \<and> seat_epoch s k = unat e"
    if "seat_holder s k = Some x" for k
    using that current_principal_held [OF inv] by (auto simp: seat_holder_def seat_epoch_def)
  moreover have "current_principal x s = Inl Seat_Unauthorized \<longleftrightarrow> (\<forall>k. seat_holder s k \<noteq> Some x)"
    using held current_principal_not_held [OF inv, of x] by fastforce
  ultimately show ?thesis by blast
qed

theorem principal_is_current_holder_witness:
  "current_principal ''dir1'' ex_s3 = Inl Seat_Unauthorized
     \<and> (\<exists>e. current_principal ''dir2'' ex_s3 = Inr (PrincipalSession ''dir2'' (Some director_seat) (Some e)))"
proof -
  have h: "seat_holder ex_s3 director_seat = Some ''dir2''" and
    n: "list_all (\<lambda>oc. occ_occupant_cutex_session oc \<noteq> ''dir1'') (bt_values (occupancies ex_s3))"
    by code_simp+
  have "seat_holder ex_s3 k \<noteq> Some ''dir1''" for k
    using n bt_values_get [of "occupancies ex_s3" k] by (auto simp: seat_holder_def list_all_iff)
  with h principal_is_current_holder [OF ex_reachable(3)] show ?thesis by blast
qed

section \<open>The store on disk\<close>





end
