(* ===== verification/Release_Template.thy ===== *)
theory Release_Template
  imports Release_Model Durable_Document
begin

text \<open>
  The owner's Release template store (\<open>rotation/template_store.rs\<close>) and the normalisation of
  agent groups it relies on (\<open>agent_bus/identity.rs\<close>). Configuring a template is a
  compare-and-swap on the template version, made idempotent by a receipt per action id.
\<close>

section \<open>Agent groups\<close>

definition normalize_char :: "bytes \<Rightarrow> char option" where
  "normalize_char g = (case g of
     [c] \<Rightarrow>
       if is_ascii_alphanumeric c then Some (hd (to_ascii_lowercase [c]))
       else if c \<in> set '':._-'' then Some c
       else if is_whitespace [c] \<or> c = CHR ''/'' \<or> c = CHR 0x5C then Some (CHR ''-'')
       else None
   | _ \<Rightarrow> if is_whitespace g then Some (CHR ''-'') else None)"

fun normalize_chars :: "bytes list \<Rightarrow> bool \<Rightarrow> bytes \<Rightarrow> bytes" where
  "normalize_chars [] previous_dash out = out"
| "normalize_chars (g # gs) previous_dash out =
     (case normalize_char g of
        None \<Rightarrow> normalize_chars gs previous_dash out
      | Some c \<Rightarrow>
          if c = CHR ''-'' \<and> previous_dash then normalize_chars gs previous_dash out
          else if length (out @ [c]) \<ge> 80 then out @ [c]
          else normalize_chars gs (c = CHR ''-'') (out @ [c]))"

definition group_edge :: "char \<Rightarrow> bool" where
  "group_edge c \<longleftrightarrow> c \<in> set ''.-_:''"

definition trim_edges :: "bytes \<Rightarrow> bytes" where
  "trim_edges s = rev (dropWhile group_edge (rev (dropWhile group_edge s)))"

definition normalize_agent_group :: "bytes \<Rightarrow> bytes option" where
  "normalize_agent_group name =
     (let name = trim name
      in if name = [] then None
         else let out = trim_edges (normalize_chars (utf8_chars name) False [])
              in if out = [] then None else Some out)"

fun normalize_groups_loop :: "bytes list \<Rightarrow> bytes list \<Rightarrow> bytes list" where
  "normalize_groups_loop [] normalized = normalized"
| "normalize_groups_loop (g # gs) normalized =
     (case normalize_agent_group g of
        None \<Rightarrow> normalize_groups_loop gs normalized
      | Some name \<Rightarrow>
          if name \<in> set normalized then normalize_groups_loop gs normalized
          else normalize_groups_loop gs (normalized @ [name]))"

definition normalize_agent_groups :: "bytes list \<Rightarrow> bytes list" where
  "normalize_agent_groups groups = normalize_groups_loop groups []"

section \<open>Validation\<close>

datatype ReleaseTemplateError =
    Tpl_InvalidRequest bytes
  | Tpl_Conflict bytes
  | Tpl_PersistenceUnavailable
  | Tpl_InvalidStore
  | Tpl_Io io_error_kind

definition validate_text :: "bytes \<Rightarrow> int \<Rightarrow> bytes \<Rightarrow> ReleaseTemplateError + unit" where
  "validate_text value maximum_bytes reason =
     (if trim value \<noteq> value \<or> value = [] \<or> int (length value) > maximum_bytes \<or> contains_control value
      then Inl (Tpl_InvalidRequest reason) else Inr ())"

text \<open>
  \<open>Path::components\<close> drops empty components and inner dots, so only \<open>..\<close> and proper names matter.
\<close>

definition is_confined_role_package_reference :: "bytes \<Rightarrow> bool" where
  "is_confined_role_package_reference reference \<longleftrightarrow>
     \<not> path_is_absolute reference
     \<and> ''..'' \<notin> set (path_components reference)
     \<and> list_ex (\<lambda>c. c \<noteq> [] \<and> c \<noteq> ''.'') (path_components reference)"

definition reserved_cli_arg :: "bytes \<Rightarrow> bool" where
  "reserved_cli_arg value \<longleftrightarrow>
     value \<in> {''resume'', ''fork'', ''--thread-id'', ''--session-id'', ''--conversation-id''}
     \<or> starts_with value ''--thread-id='' \<or> starts_with value ''--session-id=''
     \<or> starts_with value ''--conversation-id=''"

fun validate_optional_texts :: "(bytes option \<times> bytes) list \<Rightarrow> ReleaseTemplateError + unit" where
  "validate_optional_texts [] = Inr ()"
| "validate_optional_texts ((None, reason) # rest) = validate_optional_texts rest"
| "validate_optional_texts ((Some value, reason) # rest) =
     res_bind (validate_text value 512 reason) (\<lambda>_. validate_optional_texts rest)"

definition validate_template :: "ReleaseTemplate \<Rightarrow> ReleaseTemplateError + unit" where
  "validate_template t =
     (if tpl_version t = 0 \<or> tpl_version t > MAX_JSON_SAFE_INTEGER
      then Inl (Tpl_InvalidRequest ''invalid_template_version'')
      else res_bind (validate_text (tpl_successor_name t) 128 ''invalid_successor_name'') (\<lambda>_.
      res_bind (validate_text (tpl_cwd t) 4096 ''invalid_cwd'') (\<lambda>_.
      res_bind (ensure (Tpl_InvalidRequest ''successor_cwd_must_be_absolute'')
                  (path_is_absolute (tpl_cwd t))) (\<lambda>_.
      res_bind (case tpl_managed_cwd t of None \<Rightarrow> Inr ()
                | Some cwd \<Rightarrow> validate_text cwd 4096 ''invalid_managed_cwd'') (\<lambda>_.
      res_bind (validate_text (package_reference (tpl_role_package t)) 4096
                  ''invalid_role_package_reference'') (\<lambda>_.
      res_bind (ensure (Tpl_InvalidRequest ''invalid_role_package_reference'')
                  (is_confined_role_package_reference (package_reference (tpl_role_package t)))) (\<lambda>_.
      res_bind (ensure (Tpl_InvalidRequest ''agent_groups_must_be_normalized_and_unique'')
                  (tpl_agent_groups t \<noteq> [] \<and> normalize_agent_groups (tpl_agent_groups t) = tpl_agent_groups t)) (\<lambda>_.
      res_bind (ensure (Tpl_InvalidRequest ''too_many_agent_groups'')
                  (length (tpl_agent_groups t) \<le> 64)) (\<lambda>_.
      res_bind (validate_optional_texts
                  [(tpl_profile t, ''invalid_profile''), (tpl_model t, ''invalid_model''),
                   (tpl_reasoning t, ''invalid_reasoning''), (tpl_permissions t, ''invalid_permissions''),
                   (tpl_approval_policy t, ''invalid_approval_policy''),
                   (tpl_sandbox_mode t, ''invalid_sandbox_mode'')]) (\<lambda>_.
      ensure (Tpl_InvalidRequest ''invalid_default_cli_args'')
        (length (tpl_default_cli_args t) \<le> 128
         \<and> \<not> list_ex (\<lambda>v. validate_text v 4096 ''invalid_default_cli_arg'' \<noteq> Inr ()) (tpl_default_cli_args t)
         \<and> \<not> list_ex reserved_cli_arg (tpl_default_cli_args t))))))))))))"

section \<open>The store\<close>

record ReleaseTemplateSnapshot =
  rts_store_revision :: u64
  rts_current_template :: "ReleaseTemplate option"
  rts_current_template_sha256 :: "Sha256 option"
  rts_receipts :: "(id, ReleaseTemplateReceipt) btree"

definition ReleaseTemplateSnapshot_empty :: ReleaseTemplateSnapshot where
  "ReleaseTemplateSnapshot_empty = \<lparr>rts_store_revision = 0, rts_current_template = None,
     rts_current_template_sha256 = None, rts_receipts = []\<rparr>"

record template_env =
  json_configure :: "ConfigureReleaseTemplateRequest \<Rightarrow> bytes option"
  json_template :: "ReleaseTemplate \<Rightarrow> bytes option"
  tpl_sha256_hex :: "bytes \<Rightarrow> bytes"
  tpl_now :: Rfc3339

definition template_digest :: "('q \<Rightarrow> bytes option) \<Rightarrow> (bytes \<Rightarrow> bytes) \<Rightarrow> 'q \<Rightarrow> ReleaseTemplateError + Sha256" where
  "template_digest json sha value =
     (case json value of
        None \<Rightarrow> Inl (Tpl_InvalidRequest ''invalid_request'')
      | Some bs \<Rightarrow> map_err (\<lambda>_. Tpl_InvalidStore) (sha256_new (sha bs)))"

definition configure_prepare ::
  "template_env \<Rightarrow> ConfigureReleaseTemplateRequest \<Rightarrow> ReleaseTemplateError + (Sha256 \<times> Sha256)" where
  "configure_prepare E q =
     res_bind (validate_template (cfg_template q)) (\<lambda>_.
     res_bind (template_digest (json_configure E) (tpl_sha256_hex E) q) (\<lambda>request_sha256.
     res_bind (template_digest (json_template E) (tpl_sha256_hex E) (cfg_template q)) (\<lambda>template_sha256.
     Inr (request_sha256, template_sha256))))"

definition configure_transaction ::
  "template_env \<Rightarrow> ConfigureReleaseTemplateRequest \<Rightarrow> Sha256 \<Rightarrow> Sha256 \<Rightarrow> ReleaseTemplateSnapshot \<Rightarrow>
     ReleaseTemplateError + (ReleaseTemplateSnapshot \<times> ReleaseTemplateReceipt \<times> bool)" where
  "configure_transaction E q request_sha256 template_sha256 s =
     (case bt_get (rts_receipts s) (cfg_action_id q) of
        Some receipt \<Rightarrow>
          if trc_request_sha256 receipt = request_sha256 then Inr (s, receipt, False)
          else Inl (Tpl_Conflict ''action_id_payload_conflict'')
      | None \<Rightarrow>
          let current_version = map_option tpl_version (rts_current_template s)
          in if current_version \<noteq> cfg_expected_current_version q
             then Inl (Tpl_Conflict ''stale_template_version'')
             else res_bind (ok_or (Tpl_Conflict ''template_version_overflow'')
                    (checked_add (case current_version of None \<Rightarrow> 0 | Some v \<Rightarrow> v) 1)) (\<lambda>expected_next.
               if tpl_version (cfg_template q) \<noteq> expected_next
               then Inl (Tpl_InvalidRequest ''template_version_must_increment_once'')
               else res_bind (ok_or (Tpl_Conflict ''store_revision_overflow'')
                      (json_safe_succ (rts_store_revision s))) (\<lambda>revision.
                 let receipt = \<lparr>trc_action_id = cfg_action_id q, trc_request_sha256 = request_sha256,
                       trc_template_version = tpl_version (cfg_template q),
                       trc_template_sha256 = template_sha256, trc_configured_at = tpl_now E\<rparr>
                 in Inr (s\<lparr>rts_store_revision := revision,
                           rts_current_template := Some (cfg_template q),
                           rts_current_template_sha256 := Some template_sha256,
                           rts_receipts := bt_insert (cfg_action_id q) receipt (rts_receipts s)\<rparr>,
                         receipt, True))))"

definition configure_on ::
  "template_env \<Rightarrow> ConfigureReleaseTemplateRequest \<Rightarrow> ReleaseTemplateSnapshot \<Rightarrow>
     ReleaseTemplateError + (ReleaseTemplateSnapshot \<times> ReleaseTemplateReceipt \<times> bool)" where
  "configure_on E q s =
     res_bind (configure_prepare E q) (\<lambda>(request_sha256, template_sha256).
     configure_transaction E q request_sha256 template_sha256 s)"

record template_codec =
  template_to_vec :: "ReleaseTemplateSnapshot \<Rightarrow> bytes option"
  template_from_slice :: "bytes \<Rightarrow> ReleaseTemplateSnapshot option"

definition template_doc :: "template_codec \<Rightarrow> (ReleaseTemplateSnapshot, ReleaseTemplateError) doc_spec" where
  "template_doc C = \<lparr>empty_doc = ReleaseTemplateSnapshot_empty, enc = template_to_vec C,
     dec = template_from_slice C, err_unavailable = Tpl_PersistenceUnavailable,
     err_invalid = Tpl_InvalidStore, err_io = Tpl_Io\<rparr>"

definition template_with_locked_state ::
  "template_codec \<Rightarrow> bool \<Rightarrow>
     (ReleaseTemplateSnapshot \<Rightarrow> ReleaseTemplateError + (ReleaseTemplateSnapshot \<times> 'v \<times> bool)) \<Rightarrow>
     doc_io \<Rightarrow> doc_fs \<Rightarrow> (ReleaseTemplateError + 'v) \<times> doc_fs" where
  "template_with_locked_state C = with_locked_state (template_doc C)"

definition configure ::
  "template_env \<Rightarrow> template_codec \<Rightarrow> ConfigureReleaseTemplateRequest \<Rightarrow> doc_io \<Rightarrow> doc_fs \<Rightarrow>
     (ReleaseTemplateError + ReleaseTemplateReceipt) \<times> doc_fs" where
  "configure E C q io fs =
     (case configure_prepare E q of
        Inl e \<Rightarrow> (Inl e, fs)
      | Inr (request_sha256, template_sha256) \<Rightarrow>
          template_with_locked_state C True
            (configure_transaction E q request_sha256 template_sha256) io fs)"

definition template_query ::
  "template_codec \<Rightarrow> doc_io \<Rightarrow> doc_fs \<Rightarrow> (ReleaseTemplateError + ReleaseTemplateSnapshot) \<times> doc_fs" where
  "template_query C = template_with_locked_state C False (\<lambda>s. Inr (s, s, False))"

definition current_template_of ::
  "ReleaseTemplateSnapshot \<Rightarrow> ReleaseTemplateError + (ReleaseTemplate \<times> Sha256)" where
  "current_template_of s =
     res_bind (ok_or (Tpl_Conflict ''release_template_not_configured'') (rts_current_template s)) (\<lambda>template.
     res_bind (ok_or Tpl_InvalidStore (rts_current_template_sha256 s)) (\<lambda>sha256.
     Inr (template, sha256)))"

definition with_current_template ::
  "template_codec \<Rightarrow> (ReleaseTemplate \<Rightarrow> Sha256 \<Rightarrow> 'v) \<Rightarrow> doc_io \<Rightarrow> doc_fs \<Rightarrow> ReleaseTemplateError + 'v" where
  "with_current_template C operation =
     with_shared_state (template_doc C) (Tpl_Conflict ''release_template_not_configured'') (\<lambda>s.
       res_bind (current_template_of s) (\<lambda>(template, sha256). Inr (operation template sha256)))"

section \<open>Normal forms of agent groups\<close>

text \<open>The alphabet of normalised names, and the names the loop leaves alone.\<close>

definition group_char :: "char \<Rightarrow> bool" where
  "group_char c \<longleftrightarrow> normalize_char [c] = Some c \<and> code c < 128"

definition no_double_dash :: "bytes \<Rightarrow> bool" where
  "no_double_dash s \<longleftrightarrow> successively (\<lambda>a b. \<not> (a = CHR ''-'' \<and> b = CHR ''-'')) s"

definition group_normal :: "bytes \<Rightarrow> bool" where
  "group_normal s \<longleftrightarrow> s \<noteq> [] \<and> list_all group_char s \<and> no_double_dash s \<and> length s \<le> 80
     \<and> \<not> group_edge (hd s) \<and> \<not> group_edge (last s)"

lemma normalize_char_group_char:
  assumes "normalize_char g = Some c"
  shows "group_char c"
proof -
  have dash: "group_char (CHR ''-'')" by (simp add: group_char_def normalize_char_def is_ascii_alphanumeric_def is_ascii_digit_def)
  have punct: "group_char d" if "d \<in> set '':._-''" for d
    using that by (auto simp: group_char_def normalize_char_def is_ascii_alphanumeric_def is_ascii_digit_def)
  have alnum: "group_char (hd (to_ascii_lowercase [d]))" if "is_ascii_alphanumeric d" for d
  proof -
    have "code (char_of (code d + 32) :: char) = code d + 32" if "code d \<le> 90"
      using that by (simp add: of_char_of)
    then show ?thesis
      using \<open>is_ascii_alphanumeric d\<close>
      by (auto simp: group_char_def normalize_char_def to_ascii_lowercase_def
          is_ascii_alphanumeric_def is_ascii_digit_def)
  qed
  show ?thesis
    using assms dash punct alnum
    by (auto simp: normalize_char_def split: list.splits if_splits)
qed

lemma no_double_dash_snoc:
  "no_double_dash out \<Longrightarrow> \<not> (c = CHR ''-'' \<and> out \<noteq> [] \<and> last out = CHR ''-'') \<Longrightarrow>
     no_double_dash (out @ [c])"
  by (auto simp: no_double_dash_def successively_append_iff)

lemma no_double_dash_appendD: "no_double_dash (a @ b) \<Longrightarrow> no_double_dash a \<and> no_double_dash b"
  by (auto simp: no_double_dash_def successively_append_iff)

lemma normalize_chars_normal:
  assumes "list_all group_char out" and "no_double_dash out" and "length out < 80"
    and "pd = (out \<noteq> [] \<and> last out = CHR ''-'')"
  shows "list_all group_char (normalize_chars gs pd out) \<and> no_double_dash (normalize_chars gs pd out)
    \<and> length (normalize_chars gs pd out) \<le> 80"
  using assms
proof (induction gs pd out rule: normalize_chars.induct)
  case (2 g gs pd out)
  show ?case
  proof (cases "normalize_char g")
    case (Some c)
    have "group_char c" by (rule normalize_char_group_char [OF Some])
    moreover have "no_double_dash (out @ [c])" if "\<not> (c = CHR ''-'' \<and> pd)"
      using that "2.prems" by (intro no_double_dash_snoc) auto
    ultimately have out: "list_all group_char (out @ [c])" "\<not> (c = CHR ''-'' \<and> pd) \<Longrightarrow> no_double_dash (out @ [c])"
      using "2.prems" by simp_all
    consider (skip) "c = CHR ''-'' \<and> pd" | (full) "\<not> (c = CHR ''-'' \<and> pd)" "length (out @ [c]) \<ge> 80"
      | (push) "\<not> (c = CHR ''-'' \<and> pd)" "\<not> length (out @ [c]) \<ge> 80" by blast
    then show ?thesis
    proof cases
      case skip
      then show ?thesis using "2.IH"(2) [OF Some skip "2.prems"] Some by simp
    next
      case full
      then have "normalize_chars (g # gs) pd out = out @ [c]" using Some by auto
      then show ?thesis using full out "2.prems"(3) by simp
    next
      case push
      have "c = CHR ''-'' \<longleftrightarrow> out @ [c] \<noteq> [] \<and> last (out @ [c]) = CHR ''-''" by simp
      from "2.IH"(3) [OF Some push out(1) out(2) _ this] push show ?thesis by (auto simp: Some)
    qed
  next
    case None
    then show ?thesis using "2.IH"(1) [OF None "2.prems"] by simp
  qed
qed simp

lemma normalize_chars_fixed:
  assumes "list_all group_char s" and "no_double_dash (out @ s)" and "length (out @ s) \<le> 80"
    and "pd = (out \<noteq> [] \<and> last out = CHR ''-'')"
  shows "normalize_chars (map (\<lambda>c. [c]) s) pd out = out @ s"
  using assms
proof (induction s arbitrary: pd out)
  case (Cons c s)
  have c: "normalize_char [c] = Some c" using Cons.prems(1) by (simp add: group_char_def)
  have nd: "\<not> (c = CHR ''-'' \<and> pd)"
    using Cons.prems(2,4) by (auto simp: no_double_dash_def successively_append_iff)
  have IH: "normalize_chars (map (\<lambda>c. [c]) s) (c = CHR ''-'') (out @ [c]) = (out @ [c]) @ s"
    using Cons.prems by (intro Cons.IH) auto
  show ?case
  proof (cases "length (out @ [c]) \<ge> 80")
    case True
    moreover have "length (out @ [c]) + length s \<le> 80" using Cons.prems(3) by simp
    ultimately have "length s = 0" by linarith
    then have "s = []" by (rule length_0_conv [THEN iffD1])
    with True c nd show ?thesis by simp
  qed (use IH c nd in auto)
qed simp

lemma utf8_chars_ascii: "list_all (\<lambda>c. code c < 128) s \<Longrightarrow> utf8_chars s = map (\<lambda>c. [c]) s"
  by (induction s rule: utf8_chars.induct) (auto simp: is_continuation_def)

lemma group_char_not_whitespace: "group_char c \<Longrightarrow> \<not> is_whitespace [c]"
  by (auto simp: group_char_def normalize_char_def is_whitespace_def is_ascii_alphanumeric_def
      is_ascii_digit_def split: if_splits)

lemma dropWhile_hd: "s \<noteq> [] \<Longrightarrow> \<not> P (hd s) \<Longrightarrow> dropWhile P s = s"
  by (cases s) auto

lemma trim_group_chars:
  assumes "list_all group_char s"
  shows "trim s = s"
proof (cases "s = []")
  case False
  have u: "utf8_chars s = map (\<lambda>c. [c]) s"
    using assms by (intro utf8_chars_ascii) (auto simp: list_all_iff group_char_def)
  have "\<not> is_whitespace [hd s]" "\<not> is_whitespace [last s]"
    using assms False by (simp_all add: list_all_iff group_char_not_whitespace)
  then show ?thesis
    using False by (simp add: trim_def u dropWhile_hd hd_map hd_rev last_map rev_map [symmetric] comp_def)
qed simp

lemma trim_edges_normal:
  assumes "list_all group_char s" and "no_double_dash s" and "length s \<le> 80" and "trim_edges s \<noteq> []"
  shows "group_normal (trim_edges s)"
proof -
  let ?d = "dropWhile group_edge s"
  obtain a where a: "s = a @ ?d" by (metis takeWhile_dropWhile_id)
  have d: "rev (takeWhile group_edge (rev ?d)) = b \<Longrightarrow> ?d = trim_edges s @ b" for b
    unfolding trim_edges_def by (metis rev_append rev_rev_ident takeWhile_dropWhile_id)
  then obtain b where b: "?d = trim_edges s @ b" by blast
  then have split: "s = a @ trim_edges s @ b" using a by simp
  have "\<not> group_edge (hd (trim_edges s))"
    using b assms(4) hd_dropWhile [of group_edge s] by (metis append_is_Nil_conv hd_append2)
  moreover have "\<not> group_edge (last (trim_edges s))"
    using assms(4) hd_dropWhile [of group_edge "rev ?d"] by (simp add: trim_edges_def last_rev)
  moreover have "list_all group_char (trim_edges s)" "length (trim_edges s) \<le> 80"
    using assms(1,3) split by (metis list_all_append) (metis assms(3) split length_append add_leD1 add_leD2)
  moreover have "no_double_dash (trim_edges s)"
    using assms(2) split no_double_dash_appendD by metis
  ultimately show ?thesis using assms(4) by (simp add: group_normal_def)
qed

lemma normalize_agent_group_normal:
  assumes "normalize_agent_group g = Some n"
  shows "group_normal n"
proof -
  let ?o = "normalize_chars (utf8_chars (trim g)) False []"
  have "list_all group_char ?o \<and> no_double_dash ?o \<and> length ?o \<le> 80"
    by (rule normalize_chars_normal) (simp_all add: no_double_dash_def)
  moreover have "n = trim_edges ?o" "n \<noteq> []"
    using assms by (auto simp: normalize_agent_group_def Let_def split: if_splits)
  ultimately show ?thesis using trim_edges_normal by blast
qed

lemma normalize_agent_group_fixed:
  assumes "group_normal n"
  shows "normalize_agent_group n = Some n"
proof -
  note n = assms [unfolded group_normal_def]
  have u: "utf8_chars n = map (\<lambda>c. [c]) n"
    using n by (intro utf8_chars_ascii) (auto simp: list_all_iff group_char_def)
  have "normalize_chars (utf8_chars n) False [] = n"
    unfolding u using n by (subst normalize_chars_fixed) auto
  moreover have "trim_edges n = n"
    using n by (simp add: trim_edges_def dropWhile_hd hd_rev)
  ultimately show ?thesis
    using n trim_group_chars [of n] by (simp add: normalize_agent_group_def Let_def)
qed

lemma normalize_groups_loop_normal:
  "distinct acc \<Longrightarrow> list_all group_normal acc \<Longrightarrow>
     distinct (normalize_groups_loop gs acc) \<and> list_all group_normal (normalize_groups_loop gs acc)"
  by (induction gs acc rule: normalize_groups_loop.induct)
    (auto split: option.splits dest: normalize_agent_group_normal)

lemma normalize_groups_loop_fixed:
  "distinct (acc @ gs) \<Longrightarrow> list_all group_normal gs \<Longrightarrow> normalize_groups_loop gs acc = acc @ gs"
  by (induction gs arbitrary: acc) (auto simp: normalize_agent_group_fixed)

section \<open>Versions\<close>

text \<open>
  The store has made one step per template version: the revision, the current version and the
  receipts count the same commits.
\<close>

definition template_version_of :: "ReleaseTemplateSnapshot \<Rightarrow> u64" where
  "template_version_of s = (case rts_current_template s of None \<Rightarrow> 0 | Some t \<Rightarrow> tpl_version t)"

definition receipt_for :: "ReleaseTemplateSnapshot \<Rightarrow> nat \<Rightarrow> id \<Rightarrow> bool" where
  "receipt_for s n a \<longleftrightarrow> (\<exists>rc. bt_get (rts_receipts s) a = Some rc \<and> unat (trc_template_version rc) = n)"

definition template_current_ok :: "ReleaseTemplateSnapshot \<Rightarrow> bool" where
  "template_current_ok s \<longleftrightarrow> (case rts_current_template s of
     None \<Rightarrow> rts_current_template_sha256 s = None
   | Some t \<Rightarrow> validate_template t = Inr () \<and> (\<exists>a rc. bt_get (rts_receipts s) a = Some rc
       \<and> trc_template_version rc = tpl_version t
       \<and> rts_current_template_sha256 s = Some (trc_template_sha256 rc)))"

definition template_inv :: "ReleaseTemplateSnapshot \<Rightarrow> bool" where
  "template_inv s \<longleftrightarrow> bt_ok (rts_receipts s)
     \<and> rts_store_revision s = template_version_of s \<and> rts_store_revision s \<le> MAX_JSON_SAFE_INTEGER
     \<and> (\<forall>n a. receipt_for s n a \<longrightarrow> 0 < n \<and> n \<le> unat (rts_store_revision s))
     \<and> (\<forall>n. 0 < n \<longrightarrow> n \<le> unat (rts_store_revision s) \<longrightarrow> (\<exists>!a. receipt_for s n a))
     \<and> template_current_ok s"

lemma template_inv_empty: "template_inv ReleaseTemplateSnapshot_empty"
  by (simp add: template_inv_def ReleaseTemplateSnapshot_empty_def template_version_of_def
      receipt_for_def template_current_ok_def)

lemma configure_on_no_write: "configure_on E q s = Inr (t, rc, False) \<Longrightarrow>
    t = s \<and> bt_get (rts_receipts s) (cfg_action_id q) = Some rc"
  by (auto simp: configure_on_def configure_transaction_def Let_def res_simps
      split: option.splits if_splits)

lemma configure_on_commit:
  assumes "configure_on E q s = Inr (t, rc, True)"
  shows "\<exists>sha revision. configure_prepare E q = Inr (sha, trc_template_sha256 rc)
    \<and> validate_template (cfg_template q) = Inr ()
    \<and> bt_get (rts_receipts s) (cfg_action_id q) = None
    \<and> map_option tpl_version (rts_current_template s) = cfg_expected_current_version q
    \<and> checked_add (template_version_of s) 1 = Some (tpl_version (cfg_template q))
    \<and> json_safe_succ (rts_store_revision s) = Some revision
    \<and> trc_request_sha256 rc = sha
    \<and> trc_template_version rc = tpl_version (cfg_template q)
    \<and> t = s\<lparr>rts_store_revision := revision, rts_current_template := Some (cfg_template q),
         rts_current_template_sha256 := Some (trc_template_sha256 rc),
         rts_receipts := bt_insert (cfg_action_id q) rc (rts_receipts s)\<rparr>"
proof -
  from assms obtain sha tsha where p: "configure_prepare E q = Inr (sha, tsha)"
    and c: "configure_transaction E q sha tsha s = Inr (t, rc, True)"
    by (auto simp: configure_on_def res_simps)
  have v: "validate_template (cfg_template q) = Inr ()"
    using p by (auto simp: configure_prepare_def res_simps)
  have none: "bt_get (rts_receipts s) (cfg_action_id q) = None"
    using c by (auto simp: configure_transaction_def split: option.splits if_splits)
  note c' = c [unfolded configure_transaction_def none option.case Let_def]
  have ver: "(case map_option tpl_version (rts_current_template s) of None \<Rightarrow> 0 | Some v \<Rightarrow> v) = template_version_of s"
    by (simp add: template_version_of_def split: option.splits)
  show ?thesis
    using c' [unfolded ver] p v none by (auto simp: res_simps split: if_splits)
qed

lemma configure_on_inv:
  assumes inv: "template_inv s" and run: "configure_on E q s = Inr (t, rc, w)"
  shows "template_inv t"
proof (cases w)
  case False
  with run inv configure_on_no_write [of E q s t rc] show ?thesis by simp
next
  case True
  with run have "configure_on E q s = Inr (t, rc, True)" by simp
  from configure_on_commit [OF this] obtain revision where
    v: "validate_template (cfg_template q) = Inr ()" and
    none: "bt_get (rts_receipts s) (cfg_action_id q) = None" and
    next_v: "checked_add (template_version_of s) 1 = Some (tpl_version (cfg_template q))" and
    rv: "json_safe_succ (rts_store_revision s) = Some revision" and
    rc: "trc_template_version rc = tpl_version (cfg_template q)" and
    t: "t = s\<lparr>rts_store_revision := revision, rts_current_template := Some (cfg_template q),
         rts_current_template_sha256 := Some (trc_template_sha256 rc),
         rts_receipts := bt_insert (cfg_action_id q) rc (rts_receipts s)\<rparr>" by blast
  have inv': "rts_store_revision s = template_version_of s"
    "\<And>n a. receipt_for s n a \<Longrightarrow> 0 < n \<and> n \<le> unat (rts_store_revision s)"
    "\<And>n. 0 < n \<Longrightarrow> n \<le> unat (rts_store_revision s) \<Longrightarrow> \<exists>!a. receipt_for s n a" "bt_ok (rts_receipts s)"
    using inv by (auto simp: template_inv_def)
  have r: "revision = rts_store_revision s + 1" "unat revision = Suc (unat (rts_store_revision s))"
    "revision \<le> MAX_JSON_SAFE_INTEGER" using json_safe_succ_Some [OF rv] by auto
  have new: "tpl_version (cfg_template q) = revision"
    using next_v r inv'(1) by (auto simp: checked_add_def split: if_splits)
  have rf: "receipt_for t n a \<longleftrightarrow>
      (if a = cfg_action_id q then n = unat revision else receipt_for s n a)" for n a
    using rc new by (auto simp: receipt_for_def t bt_simps)
  have rf0: "\<not> receipt_for s n (cfg_action_id q)" for n
    using none by (simp add: receipt_for_def)
  have "0 < n \<and> n \<le> unat revision" if "receipt_for t n a" for n a
    using that inv'(2) [of n a] r(2) by (auto simp: rf split: if_splits)
  moreover have "\<exists>!a. receipt_for t n a" if "0 < n" "n \<le> unat revision" for n
  proof (cases "n = unat revision")
    case True
    then show ?thesis
      using inv'(2) r(2) by (fastforce simp: rf split: if_splits)
  next
    case False
    then have "\<exists>!a. receipt_for s n a" using that r(2) by (intro inv'(3)) auto
    with False rf0 show ?thesis by (metis rf)
  qed
  moreover have "template_current_ok t"
    unfolding template_current_ok_def t using v rc by (auto simp: bt_simps)
  ultimately show ?thesis
    using r(3) new inv'(4) by (simp add: template_inv_def t template_version_of_def)
qed

lemma configure_on_replay:
  assumes "configure_on E q s = Inr (t, rc, True)"
  shows "configure_on E q t = Inr (t, rc, False)"
  using configure_on_commit [OF assms]
  by (auto simp: configure_on_def configure_transaction_def bt_simps)

interpretation template_receipts: receipted_store "configure_on E" template_inv for E
  by unfold_locales (auto intro: configure_on_inv configure_on_replay dest: configure_on_no_write)

inductive template_step :: "ReleaseTemplateSnapshot \<Rightarrow> ReleaseTemplateSnapshot \<Rightarrow> bool" where
  step_configure: "configure_on E q s = Inr (t, rc, w) \<Longrightarrow> template_step s t"

inductive_cases template_stepE: "template_step s t"

lemma template_step_version:
  assumes "template_inv s" and "template_step s t"
  shows "unat (template_version_of s) \<le> unat (template_version_of t)
    \<and> (rts_current_template t = rts_current_template s
         \<or> unat (template_version_of s) < unat (template_version_of t))"
  using assms(2)
proof (cases rule: template_step.cases)
  case (step_configure E q rc w)
  show ?thesis
  proof (cases w)
    case False
    with step_configure configure_on_no_write [of E q s t rc] show ?thesis by simp
  next
    case True
    with step_configure have run: "configure_on E q s = Inr (t, rc, True)" by simp
    have "template_inv t" by (rule configure_on_inv [OF assms(1) run])
    with assms(1) configure_on_commit [OF run] show ?thesis
      by (auto simp: template_inv_def template_version_of_def dest: json_safe_succ_Some)
  qed
qed

interpretation template_runs: fenced_system "\<lambda>s. s = ReleaseTemplateSnapshot_empty" template_step
  template_inv "\<lambda>s (_::unit). unat (template_version_of s)" "\<lambda>s _. rts_current_template s"
  using template_inv_empty template_step_version
  by unfold_locales (blast intro: configure_on_inv elim: template_stepE)+

end
