(* ===== verification/Release_Rotation.thy ===== *)
theory Release_Rotation
  imports Seat_Properties Release_Template
begin

text \<open>
  The Release rotation state machine (\<open>rotation/provider.rs\<close>): a Director's request revokes the
  Release seat and drives the recorded rotation through its boundaries, calling the external
  lifecycle at each step; a failure blocks the record at the boundary it has reached, and a
  management-root retry continues it from there.

  The provider's state is the world the lifecycle acts on, the two stores on disk and a counter of
  the store calls made so far. The external lifecycle is the record \<open>lifecycle\<close> of functions on an
  arbitrary world, one for each method of the trait \<open>ReleaseRotationLifecycle\<close>. What the clock and the
  operating system answer at the n-th store call is given by \<open>re_calls\<close>.
\<close>

named_theorems rot_simps \<open>how successful runs of the provider are taken apart\<close>

section \<open>Errors and lifecycle\<close>

datatype ReleaseRotationError =
    Rot_InvalidRequest bytes
  | Rot_Unauthorized
  | Rot_Conflict bytes
  | Rot_Blocked ReleaseRotationReceipt
  | Rot_PersistenceUnavailable
  | Rot_InvalidStore

fun ReleaseRotationError_from_seat :: "SeatAuthorityError \<Rightarrow> ReleaseRotationError" where
  "ReleaseRotationError_from_seat (Seat_InvalidRequest reason) = Rot_InvalidRequest reason"
| "ReleaseRotationError_from_seat Seat_Unauthorized = Rot_Unauthorized"
| "ReleaseRotationError_from_seat (Seat_Conflict reason) = Rot_Conflict reason"
| "ReleaseRotationError_from_seat Seat_PersistenceUnavailable = Rot_PersistenceUnavailable"
| "ReleaseRotationError_from_seat (Seat_Io _) = Rot_PersistenceUnavailable"
| "ReleaseRotationError_from_seat Seat_InvalidStore = Rot_InvalidStore"

fun ReleaseRotationError_from_template :: "ReleaseTemplateError \<Rightarrow> ReleaseRotationError" where
  "ReleaseRotationError_from_template (Tpl_InvalidRequest reason) = Rot_InvalidRequest reason"
| "ReleaseRotationError_from_template (Tpl_Conflict reason) = Rot_Conflict reason"
| "ReleaseRotationError_from_template Tpl_PersistenceUnavailable = Rot_PersistenceUnavailable"
| "ReleaseRotationError_from_template (Tpl_Io _) = Rot_PersistenceUnavailable"
| "ReleaseRotationError_from_template Tpl_InvalidStore = Rot_InvalidStore"

fun error_code :: "ReleaseRotationError \<Rightarrow> bytes" where
  "error_code (Rot_InvalidRequest _) = ''invalid_request''"
| "error_code Rot_Unauthorized = ''unauthorized''"
| "error_code (Rot_Conflict _) = ''conflict''"
| "error_code (Rot_Blocked _) = ''blocked''"
| "error_code Rot_PersistenceUnavailable = ''persistence_unavailable''"
| "error_code Rot_InvalidStore = ''invalid_store''"

text \<open>An \<open>anyhow::Error\<close> is its text.\<close>

record 'w lifecycle =
  preflight_successor :: "ReleaseTemplate \<Rightarrow> 'w \<Rightarrow> (bytes + unit) \<times> 'w"
  predecessor_has_active_turn :: "id \<Rightarrow> 'w \<Rightarrow> (bytes + bool) \<times> 'w"
  predecessor_thread_id :: "id \<Rightarrow> 'w \<Rightarrow> (bytes + bytes option) \<times> 'w"
  offline_predecessor :: "id \<Rightarrow> 'w \<Rightarrow> (bytes + unit) \<times> 'w"
  retire_predecessor :: "id \<Rightarrow> 'w \<Rightarrow> (bytes + unit) \<times> 'w"
  create_successor_session :: "ReleaseTemplate \<Rightarrow> 'w \<Rightarrow> (bytes + id) \<times> 'w"
  verify_successor_session :: "id \<Rightarrow> ReleaseTemplate \<Rightarrow> 'w \<Rightarrow> (bytes + bool) \<times> 'w"
  start_successor_thread :: "id \<Rightarrow> ReleaseTemplate \<Rightarrow> 'w \<Rightarrow> (bytes + bytes) \<times> 'w"
  verify_successor_thread :: "id \<Rightarrow> bytes \<Rightarrow> 'w \<Rightarrow> (bytes + bool) \<times> 'w"
  launch_successor_runtime :: "id \<Rightarrow> 'w \<Rightarrow> (bytes + unit) \<times> 'w"
  deliver_director_message :: "id \<Rightarrow> id \<Rightarrow> id \<Rightarrow> bytes \<Rightarrow> 'w \<Rightarrow> (bytes + bytes) \<times> 'w"

record 'w rot_state =
  rs_world :: 'w
  rs_seats :: doc_fs
  rs_templates :: doc_fs
  rs_tick :: nat

record rot_env =
  re_seat_codec :: seat_codec
  re_template_codec :: template_codec
  re_calls :: "nat \<Rightarrow> seat_env \<times> doc_io"
  re_json_request :: "ReleaseRotationRequest \<Rightarrow> bytes option"
  re_sha256_hex :: "bytes \<Rightarrow> bytes"

section \<open>Running calls in sequence\<close>

type_synonym ('w, 'a) prov = "'w rot_state \<Rightarrow> (ReleaseRotationError + 'a) \<times> 'w rot_state"

definition rot_return :: "'a \<Rightarrow> ('w, 'a) prov" where
  "rot_return x st = (Inr x, st)"

definition rot_fail :: "ReleaseRotationError \<Rightarrow> ('w, 'a) prov" where
  "rot_fail e st = (Inl e, st)"

definition rot_bind :: "('w, 'a) prov \<Rightarrow> ('a \<Rightarrow> ('w, 'b) prov) \<Rightarrow> ('w, 'b) prov" where
  "rot_bind m f st = (case m st of (Inl e, st') \<Rightarrow> (Inl e, st') | (Inr x, st') \<Rightarrow> f x st')"

definition rot_lift :: "ReleaseRotationError + 'a \<Rightarrow> ('w, 'a) prov" where
  "rot_lift r st = (r, st)"

definition rot_require :: "ReleaseRotationError \<Rightarrow> bool \<Rightarrow> ('w, unit) prov" where
  "rot_require e b = rot_lift (ensure e b)"

definition seat_call ::
  "rot_env \<Rightarrow> (seat_env \<Rightarrow> seat_codec \<Rightarrow> doc_io \<Rightarrow> doc_fs \<Rightarrow> (SeatAuthorityError + 'a) \<times> doc_fs) \<Rightarrow>
     ('w, 'a) prov" where
  "seat_call R call st =
     (let (E, io) = re_calls R (rs_tick st);
          (r, fs) = call E (re_seat_codec R) io (rs_seats st)
      in (map_err ReleaseRotationError_from_seat r, st\<lparr>rs_seats := fs, rs_tick := Suc (rs_tick st)\<rparr>))"

definition template_call ::
  "rot_env \<Rightarrow> (template_codec \<Rightarrow> doc_io \<Rightarrow> doc_fs \<Rightarrow> (ReleaseTemplateError + 'a) \<times> doc_fs) \<Rightarrow>
     ('w, 'a) prov" where
  "template_call R call st =
     (let (E, io) = re_calls R (rs_tick st);
          (r, fs) = call (re_template_codec R) io (rs_templates st)
      in (map_err ReleaseRotationError_from_template r,
          st\<lparr>rs_templates := fs, rs_tick := Suc (rs_tick st)\<rparr>))"

text \<open>A call of the lifecycle; its own error is a value for the caller to decide on.\<close>

definition life_call :: "('w \<Rightarrow> (bytes + 'a) \<times> 'w) \<Rightarrow> ('w, bytes + 'a) prov" where
  "life_call call st = (let (r, w) = call (rs_world st) in (Inr r, st\<lparr>rs_world := w\<rparr>))"

definition life_query :: "('w \<Rightarrow> (bytes + 'a) \<times> 'w) \<Rightarrow> bytes \<Rightarrow> ('w, 'a) prov" where
  "life_query call reason =
     rot_bind (life_call call) (\<lambda>r. rot_lift (map_err (\<lambda>_. Rot_Conflict reason) r))"

section \<open>Steps of a rotation\<close>

definition RELEASE_ROTATION_MAX_MESSAGE_BYTES :: int where
  "RELEASE_ROTATION_MAX_MESSAGE_BYTES = 256 * 1024"

definition RELEASE_ROTATION_EXTERNAL_STEP_FAILED :: bytes where
  "RELEASE_ROTATION_EXTERNAL_STEP_FAILED = ''external_step_failed''"

fun pending_step_boundary :: "ReleaseRotationExternalStep \<Rightarrow> ReleaseRotationBoundary" where
  "pending_step_boundary OfflinePredecessor = SeatRevoked"
| "pending_step_boundary RetirePredecessor = PredecessorOfflined"
| "pending_step_boundary CreateSuccessorSession = PredecessorRetired"
| "pending_step_boundary StartSuccessorThread = SuccessorSessionCreated"
| "pending_step_boundary LaunchSuccessorRuntime = SuccessorThreadStarted"
| "pending_step_boundary DeliverDirectorMessage = SuccessorBound"

definition validate_request :: "ReleaseRotationRequest \<Rightarrow> ReleaseRotationError + unit" where
  "validate_request q =
     (if req_target_seat q \<noteq> release_seat
      then Inl (Rot_InvalidRequest ''unsupported_rotation_target'')
      else if req_expected_seat_epoch q = 0 \<or> req_expected_seat_epoch q > MAX_JSON_SAFE_INTEGER
      then Inl (Rot_InvalidRequest ''invalid_expected_seat_epoch'')
      else if req_expected_template_version q = 0 \<or> req_expected_template_version q > MAX_JSON_SAFE_INTEGER
      then Inl (Rot_InvalidRequest ''invalid_expected_template_version'')
      else if trim (req_starting_message q) \<noteq> req_starting_message q \<or> req_starting_message q = []
         \<or> int (length (req_starting_message q)) > RELEASE_ROTATION_MAX_MESSAGE_BYTES
         \<or> CHR 0x00 \<in> set (req_starting_message q)
      then Inl (Rot_InvalidRequest ''invalid_starting_message'')
      else Inr ())"

fun redact_markers :: "bytes list \<Rightarrow> bytes \<Rightarrow> bytes" where
  "redact_markers [] safe = safe"
| "redact_markers (marker # markers) safe =
     (case str_find (to_ascii_lowercase safe) (to_ascii_lowercase marker) of
        Some index \<Rightarrow> take index safe @ ''[redacted]''
      | None \<Rightarrow> redact_markers markers safe)"

definition sanitize_reason :: "bytes \<Rightarrow> bytes" where
  "sanitize_reason reason =
     (let safe = concat (take 512 (filter (\<lambda>c. \<not> is_control c) (utf8_chars reason)));
          safe = redact_markers [''Bearer '', ''token='', ''authorization=''] safe
      in if safe = [] then ''external_step_failed'' else safe)"

definition mark_pending ::
  "rot_env \<Rightarrow> ReleaseRotationRecord \<Rightarrow> ReleaseRotationExternalStep \<Rightarrow> ('w, ReleaseRotationRecord) prov" where
  "mark_pending R record step =
     seat_call R (\<lambda>E C. mark_release_rotation_pending E C (rr_action_id record) (rr_request_sha256 record)
       (rr_status record) (rr_completed_boundary record) step)"

definition finish_pending_change ::
  "ReleaseRotationBoundary \<Rightarrow> ReleaseRotationExternalStep \<Rightarrow> ReleaseRotationBoundary \<Rightarrow>
     (ReleaseRotationRecord \<Rightarrow> ReleaseRotationRecord) \<Rightarrow>
     ReleaseRotationRecord \<Rightarrow> SeatAuthorityError + ReleaseRotationRecord" where
  "finish_pending_change expected_completed_boundary step boundary update record =
     (if rr_status record \<noteq> Running \<or> rr_completed_boundary record \<noteq> expected_completed_boundary
         \<or> rr_pending_external_step record \<noteq> Some step
      then Inl (Seat_Conflict ''external_boundary_changed'')
      else Inr ((update record)\<lparr>rr_completed_boundary := boundary, rr_pending_external_step := None,
                  rr_status := Running, rr_blocked_reason := None\<rparr>))"

definition finish_pending ::
  "rot_env \<Rightarrow> ReleaseRotationRecord \<Rightarrow> ReleaseRotationExternalStep \<Rightarrow> ReleaseRotationBoundary \<Rightarrow>
     (ReleaseRotationRecord \<Rightarrow> ReleaseRotationRecord) \<Rightarrow> ('w, ReleaseRotationRecord) prov" where
  "finish_pending R record step boundary update =
     seat_call R (\<lambda>E C. mutate_release_rotation E C (rr_action_id record) (rr_request_sha256 record)
       (finish_pending_change (rr_completed_boundary record) step boundary update))"

definition blocked :: "rot_env \<Rightarrow> ReleaseRotationRecord \<Rightarrow> bytes \<Rightarrow> ('w, 'a) prov" where
  "blocked R record reason =
     rot_bind (seat_call R (\<lambda>E C. block_release_rotation E C (rr_action_id record)
       (rr_request_sha256 record) (sanitize_reason reason)))
       (\<lambda>r. rot_fail (Rot_Blocked (ReleaseRotationReceipt_from r)))"

definition blocked_external :: "rot_env \<Rightarrow> ReleaseRotationRecord \<Rightarrow> bytes \<Rightarrow> ('w, 'a) prov" where
  "blocked_external R record error = blocked R record RELEASE_ROTATION_EXTERNAL_STEP_FAILED"

definition external_unit_step ::
  "rot_env \<Rightarrow> ReleaseRotationRecord \<Rightarrow> ReleaseRotationExternalStep \<Rightarrow> ReleaseRotationBoundary \<Rightarrow>
     ('w \<Rightarrow> (bytes + unit) \<times> 'w) \<Rightarrow> ('w, ReleaseRotationRecord) prov" where
  "external_unit_step R record step boundary operation =
     rot_bind (mark_pending R record step) (\<lambda>pending.
     rot_bind (life_call operation) (\<lambda>r. case r of
       Inl error \<Rightarrow> blocked_external R pending error
     | Inr _ \<Rightarrow> finish_pending R pending step boundary (\<lambda>record. record)))"

text \<open>The successor session a record must carry from its creation on.\<close>

definition with_successor ::
  "rot_env \<Rightarrow> ReleaseRotationRecord \<Rightarrow> (id \<Rightarrow> ('w, 'a) prov) \<Rightarrow> ('w, 'a) prov" where
  "with_successor R record f =
     (case rr_successor_cutex_session record of
        Some successor \<Rightarrow> f successor
      | None \<Rightarrow> blocked R record ''successor_session_missing'')"

definition create_successor_step ::
  "rot_env \<Rightarrow> 'w lifecycle \<Rightarrow> ReleaseRotationRecord \<Rightarrow> ('w, ReleaseRotationRecord) prov" where
  "create_successor_step R L record =
     rot_bind (mark_pending R record CreateSuccessorSession) (\<lambda>pending.
     rot_bind (life_call (create_successor_session L (rr_template pending))) (\<lambda>r. case r of
       Inl error \<Rightarrow> blocked_external R pending error
     | Inr successor \<Rightarrow>
         if successor \<noteq> rr_predecessor_cutex_session pending
         then finish_pending R pending CreateSuccessorSession SuccessorSessionCreated
                (\<lambda>record. record\<lparr>rr_successor_cutex_session := Some successor\<rparr>)
         else blocked R pending ''successor_reused_predecessor_session''))"

definition start_thread_step ::
  "rot_env \<Rightarrow> 'w lifecycle \<Rightarrow> ReleaseRotationRecord \<Rightarrow> ('w, ReleaseRotationRecord) prov" where
  "start_thread_step R L record =
     with_successor R record (\<lambda>successor.
     rot_bind (life_call (predecessor_thread_id L (rr_predecessor_cutex_session record))) (\<lambda>p. case p of
       Inl error \<Rightarrow> blocked_external R record error
     | Inr predecessor_thread \<Rightarrow>
         rot_bind (mark_pending R record StartSuccessorThread) (\<lambda>pending.
         rot_bind (life_call (start_successor_thread L successor (rr_template pending))) (\<lambda>r. case r of
           Inl error \<Rightarrow> blocked_external R pending error
         | Inr thread_id \<Rightarrow>
             if trim thread_id \<noteq> [] \<and> predecessor_thread \<noteq> Some thread_id
             then finish_pending R pending StartSuccessorThread SuccessorThreadStarted
                    (\<lambda>record. record\<lparr>rr_successor_thread_id := Some thread_id\<rparr>)
             else blocked R pending ''thread_start_did_not_return_distinct_thread''))))"

definition bind_successor_step ::
  "rot_env \<Rightarrow> ReleaseRotationRecord \<Rightarrow> ('w, ReleaseRotationRecord) prov" where
  "bind_successor_step R record =
     with_successor R record (\<lambda>successor.
     seat_call R (\<lambda>E C. bind_release_rotation_successor E C (rr_action_id record)
       (rr_request_sha256 record) successor))"

definition deliver_message_step ::
  "rot_env \<Rightarrow> 'w lifecycle \<Rightarrow> ReleaseRotationRecord \<Rightarrow> ('w, ReleaseRotationRecord) prov" where
  "deliver_message_step R L record =
     with_successor R record (\<lambda>successor.
     rot_bind (mark_pending R record DeliverDirectorMessage) (\<lambda>pending.
     rot_bind (life_call (deliver_director_message L (rr_director_cutex_session pending) successor
                            (rr_action_id pending) (rr_starting_message pending))) (\<lambda>r. case r of
       Inl error \<Rightarrow> blocked_external R pending error
     | Inr message_id \<Rightarrow>
         if trim message_id \<noteq> []
         then seat_call R (\<lambda>E C. complete_release_rotation E C (rr_action_id pending)
                (rr_request_sha256 pending) message_id)
         else blocked R pending ''message_delivery_omitted_message_id'')))"

text \<open>The match of the loop in \<open>execute\<close>; the last boundary leaves the loop.\<close>

definition execute_step ::
  "rot_env \<Rightarrow> 'w lifecycle \<Rightarrow> ReleaseRotationRecord \<Rightarrow> ('w, ReleaseRotationRecord) prov" where
  "execute_step R L record =
     (case rr_completed_boundary record of
        SeatRevoked \<Rightarrow> external_unit_step R record OfflinePredecessor PredecessorOfflined
          (offline_predecessor L (rr_predecessor_cutex_session record))
      | PredecessorOfflined \<Rightarrow> external_unit_step R record RetirePredecessor PredecessorRetired
          (retire_predecessor L (rr_predecessor_cutex_session record))
      | PredecessorRetired \<Rightarrow> create_successor_step R L record
      | SuccessorSessionCreated \<Rightarrow> start_thread_step R L record
      | SuccessorThreadStarted \<Rightarrow> with_successor R record (\<lambda>successor.
          external_unit_step R record LaunchSuccessorRuntime SuccessorRuntimeOnline
            (launch_successor_runtime L successor))
      | SuccessorRuntimeOnline \<Rightarrow> bind_successor_step R record
      | SuccessorBound \<Rightarrow> deliver_message_step R L record
      | DirectorMessageDelivered \<Rightarrow> rot_return record)"

section \<open>The loop\<close>

lemma rot_bind_Inr [rot_simps]: "rot_bind m f st = (Inr y, st') \<longleftrightarrow> (\<exists>x st1. m st = (Inr x, st1) \<and> f x st1 = (Inr y, st'))"
  by (auto simp: rot_bind_def split: prod.splits sum.splits)

lemma rot_fail_Inr [simp]: "rot_fail e st \<noteq> (Inr y, st')"
  by (simp add: rot_fail_def)

lemma blocked_Inr [simp]: "blocked R r reason st \<noteq> (Inr y, st')"
  by (simp add: blocked_def rot_bind_Inr)

lemma blocked_external_Inr [simp]: "blocked_external R r e st \<noteq> (Inr y, st')"
  by (simp add: blocked_external_def)

lemma rot_case_Inr [rot_simps]:
  "(case r of Inl e \<Rightarrow> blocked_external R p e | Inr x \<Rightarrow> g x) st = (Inr y, st') \<longleftrightarrow>
     (\<exists>x. r = Inr x \<and> g x st = (Inr y, st'))"
  by (cases r) simp_all

lemma rot_if_blocked_Inr [rot_simps]:
  "(if b then m else blocked R p reason) st = (Inr y, st') \<longleftrightarrow> b \<and> m st = (Inr y, st')"
  by simp

lemma with_successor_Inr [rot_simps]:
  "with_successor R r f st = (Inr y, st') \<longleftrightarrow>
     (\<exists>x. rr_successor_cutex_session r = Some x \<and> f x st = (Inr y, st'))"
  by (simp add: with_successor_def split: option.splits)

lemma seat_call_Inr:
  "seat_call R call st = (Inr x, st') \<Longrightarrow>
     \<exists>E io fs. re_calls R (rs_tick st) = (E, io) \<and> call E (re_seat_codec R) io (rs_seats st) = (Inr x, fs)
       \<and> st' = st\<lparr>rs_seats := fs, rs_tick := Suc (rs_tick st)\<rparr>"
  by (auto simp: seat_call_def Let_def res_simps split: prod.splits)

lemma finish_pending_boundary:
  assumes "finish_pending R r step b f st = (Inr r', st')"
  shows "rr_completed_boundary r' = b \<and> rr_status r' = Running"
proof -
  from seat_call_Inr [OF assms [unfolded finish_pending_def]] obtain E io fs where
    "mutate_release_rotation E (re_seat_codec R) (rr_action_id r) (rr_request_sha256 r)
       (finish_pending_change (rr_completed_boundary r) step b f) io (rs_seats st) = (Inr r', fs)" by blast
  from locked_state_result [OF this [unfolded mutate_release_rotation_def seat_with_locked_state_def]]
  show ?thesis
    by (auto dest!: mutate_release_rotation_on_commit simp: finish_pending_change_def split: if_splits)
qed

lemma bind_release_rotation_successor_boundary:
  assumes "bind_release_rotation_successor E C a sha x io fs = (Inr r', fs')"
  shows "6 \<le> boundary_rank (rr_completed_boundary r')"
proof -
  from locked_state_result [OF assms [unfolded bind_release_rotation_successor_def seat_with_locked_state_def]]
  show ?thesis
    by (auto simp: bind_release_rotation_successor_on_def Let_def res_simps split: if_splits)
qed

lemma complete_release_rotation_status:
  assumes "complete_release_rotation E C a sha m io fs = (Inr r', fs')"
  shows "rr_status r' = Complete"
proof -
  from locked_state_result [OF assms [unfolded complete_release_rotation_def seat_with_locked_state_def]]
  show ?thesis
    by (auto simp: complete_release_rotation_on_def Let_def res_simps split: if_splits)
qed

lemma external_unit_step_boundary:
  "external_unit_step R r step b op st = (Inr r', st') \<Longrightarrow> rr_completed_boundary r' = b"
  by (auto simp: external_unit_step_def rot_simps dest: finish_pending_boundary)

text \<open>Every pass of the loop that does not leave it moves the record to a later boundary.\<close>

lemma execute_step_rank:
  assumes "execute_step R L r st = (Inr r', st')"
    and "rr_completed_boundary r \<noteq> DirectorMessageDelivered" and "rr_status r' \<noteq> Complete"
  shows "boundary_rank (rr_completed_boundary r) < boundary_rank (rr_completed_boundary r')"
proof (cases "rr_completed_boundary r")
  case PredecessorRetired
  with assms(1) have "rr_completed_boundary r' = SuccessorSessionCreated"
    by (auto simp: execute_step_def create_successor_step_def rot_simps dest: finish_pending_boundary)
  with PredecessorRetired show ?thesis by simp
next
  case SuccessorSessionCreated
  with assms(1) have "rr_completed_boundary r' = SuccessorThreadStarted"
    by (auto simp: execute_step_def start_thread_step_def rot_simps dest: finish_pending_boundary)
  with SuccessorSessionCreated show ?thesis by simp
next
  case SuccessorRuntimeOnline
  with assms(1) show ?thesis
    by (auto simp: execute_step_def bind_successor_step_def rot_simps
        dest!: seat_call_Inr bind_release_rotation_successor_boundary)
next
  case SuccessorBound
  with assms(1) have "rr_status r' = Complete"
    by (auto simp: execute_step_def deliver_message_step_def rot_simps
        dest!: seat_call_Inr complete_release_rotation_status)
  with assms(3) show ?thesis by simp
qed (use assms in \<open>auto simp: execute_step_def rot_simps dest!: external_unit_step_boundary\<close>)

function execute ::
  "rot_env \<Rightarrow> 'w lifecycle \<Rightarrow> ReleaseRotationRecord \<Rightarrow> ('w, ReleaseRotationReceipt) prov" where
  "execute R L record st =
     (if rr_completed_boundary record = DirectorMessageDelivered
      then (Inr (ReleaseRotationReceipt_from record), st)
      else case execute_step R L record st of
        (Inl e, st') \<Rightarrow> (Inl e, st')
      | (Inr record', st') \<Rightarrow>
          if rr_status record' = Complete then (Inr (ReleaseRotationReceipt_from record'), st')
          else execute R L record' st')"
  by pat_completeness auto

termination execute
proof (relation "measure (\<lambda>(R, L, r, st). 7 - boundary_rank (rr_completed_boundary r))", goal_cases)
  case (2 R L r st x st' r')
  then show ?case
    using execute_step_rank [of R L r st r' st'] boundary_rank_le [of "rr_completed_boundary r'"]
    by auto
qed simp

declare execute.simps [simp del]

section \<open>Requests\<close>

definition begin_under_template ::
  "rot_env \<Rightarrow> id \<Rightarrow> ReleaseRotationRequest \<Rightarrow> Sha256 \<Rightarrow> ReleaseTemplate \<Rightarrow> Sha256 \<Rightarrow>
     ('w, ReleaseRotationRecord) prov" where
  "begin_under_template R director q request_sha256 current current_sha256 =
     (if tpl_version current \<noteq> req_expected_template_version q
         \<or> current_sha256 \<noteq> req_expected_template_sha256 q
      then rot_fail (Rot_Conflict ''stale_release_template'')
      else seat_call R (\<lambda>E C. begin_release_rotation E C director q request_sha256 current current_sha256))"

text \<open>
  \<open>with_current_template\<close> around the begin of the rotation: the template store answers from its own
  lock and document, the operation then acts on the seat store.
\<close>

definition with_template_held ::
  "rot_env \<Rightarrow> (ReleaseTemplate \<Rightarrow> Sha256 \<Rightarrow> ('w, 'a) prov) \<Rightarrow> ('w, 'a) prov" where
  "with_template_held R operation st =
     (let (E, io) = re_calls R (rs_tick st);
          st = st\<lparr>rs_tick := Suc (rs_tick st)\<rparr>
      in case with_current_template (re_template_codec R) operation io (rs_templates st) of
           Inl e \<Rightarrow> (Inl (ReleaseRotationError_from_template e), st)
         | Inr run \<Rightarrow> run st)"

definition check_director ::
  "SeatOccupancySnapshot \<Rightarrow> id \<Rightarrow> ReleaseRotationRequest \<Rightarrow> ReleaseRotationError + unit" where
  "check_director snapshot director_session q =
     res_bind (ok_or Rot_Unauthorized
       (find (\<lambda>oc. occ_seat_id oc = director_seat) (bt_values (occupancies snapshot)))) (\<lambda>director.
     res_bind (ensure Rot_Unauthorized (occ_occupant_cutex_session director = director_session)) (\<lambda>_.
     res_bind (ensure (Rot_Conflict ''release_rotation_in_progress'')
                 (active_release_rotation snapshot = None)) (\<lambda>_.
     res_bind (ok_or (Rot_Conflict ''release_seat_not_bound'')
                 (bt_get (occupancies snapshot) (req_target_seat q))) (\<lambda>release.
     ensure (Rot_Conflict ''stale_release_occupancy'')
       (occ_occupant_cutex_session release = req_expected_predecessor_cutex_session q
        \<and> occ_epoch release = req_expected_seat_epoch q)))))"

definition check_template ::
  "ReleaseTemplateSnapshot \<Rightarrow> ReleaseRotationRequest \<Rightarrow> ReleaseRotationError + ReleaseTemplate" where
  "check_template snapshot q =
     res_bind (ok_or (Rot_Conflict ''release_template_not_configured'') (rts_current_template snapshot)) (\<lambda>template.
     res_bind (ok_or Rot_InvalidStore (rts_current_template_sha256 snapshot)) (\<lambda>template_sha256.
     res_bind (ensure (Rot_Conflict ''stale_release_template'')
                 (tpl_version template = req_expected_template_version q
                  \<and> template_sha256 = req_expected_template_sha256 q)) (\<lambda>_.
     Inr template)))"

text \<open>The part of \<open>request_director\<close> after the replay check, up to the commit of the revocation.\<close>

definition request_director_begin ::
  "rot_env \<Rightarrow> 'w lifecycle \<Rightarrow> id \<Rightarrow> ReleaseRotationRequest \<Rightarrow> Sha256 \<Rightarrow> bool \<Rightarrow>
     SeatOccupancySnapshot \<Rightarrow> ('w, ReleaseRotationRecord) prov" where
  "request_director_begin R L director_session q request_sha256 has_nonterminal_assignment snapshot =
     rot_bind (rot_lift (check_director snapshot director_session q)) (\<lambda>_.
     rot_bind (template_call R template_query) (\<lambda>template_snapshot.
     rot_bind (rot_lift (check_template template_snapshot q)) (\<lambda>template.
     rot_bind (rot_require (Rot_Conflict ''predecessor_has_nonterminal_assignment'')
                 (\<not> has_nonterminal_assignment)) (\<lambda>_.
     rot_bind (life_query (predecessor_has_active_turn L (req_expected_predecessor_cutex_session q))
                 ''active_turn_status_unavailable'') (\<lambda>active.
     rot_bind (rot_require (Rot_Conflict ''predecessor_has_active_turn'') (\<not> active)) (\<lambda>_.
     rot_bind (life_query (preflight_successor L template) ''successor_preflight_failed'') (\<lambda>_.
     with_template_held R (begin_under_template R director_session q request_sha256))))))))"

definition request_director ::
  "rot_env \<Rightarrow> 'w lifecycle \<Rightarrow> id \<Rightarrow> ReleaseRotationRequest \<Rightarrow> bool \<Rightarrow> ('w, ReleaseRotationReceipt) prov" where
  "request_director R L director_session q has_nonterminal_assignment =
     rot_bind (rot_lift (validate_request q)) (\<lambda>_.
     rot_bind (rot_lift (map_err ReleaseRotationError_from_template
                 (template_digest (re_json_request R) (re_sha256_hex R) q))) (\<lambda>request_sha256.
     rot_bind (seat_call R (\<lambda>E. query)) (\<lambda>snapshot.
     case bt_get (release_rotations snapshot) (req_action_id q) of
       Some existing \<Rightarrow>
         if rr_request_sha256 existing \<noteq> request_sha256
         then rot_fail (Rot_Conflict ''action_id_payload_conflict'')
         else rot_return (ReleaseRotationReceipt_from existing)
     | None \<Rightarrow>
         rot_bind (request_director_begin R L director_session q request_sha256
                     has_nonterminal_assignment snapshot)
           (execute R L))))"

section \<open>Retries\<close>

definition resume_clean_change ::
  "id \<Rightarrow> ReleaseRotationRecord \<Rightarrow> SeatAuthorityError + ReleaseRotationRecord" where
  "resume_clean_change successor current =
     (if rr_status current \<noteq> Blocked \<or> rr_completed_boundary current \<noteq> SuccessorSessionCreated
         \<or> rr_pending_external_step current \<noteq> None
         \<or> rr_blocked_reason current \<noteq> Some RELEASE_ROTATION_EXTERNAL_STEP_FAILED
         \<or> rr_successor_cutex_session current \<noteq> Some successor
      then Inl (Seat_Conflict ''clean_thread_start_retry_identity_changed'')
      else Inr (current\<lparr>rr_status := Running, rr_blocked_reason := None\<rparr>))"

definition resume_clean_synchronous_thread_start ::
  "rot_env \<Rightarrow> 'w lifecycle \<Rightarrow> ReleaseRotationRecord \<Rightarrow> ('w, ReleaseRotationRecord) prov" where
  "resume_clean_synchronous_thread_start R L record =
     rot_bind (rot_lift (ok_or Rot_InvalidStore (rr_successor_cutex_session record))) (\<lambda>successor.
     rot_bind (rot_require (Rot_Conflict ''successor_session_is_not_clean_for_retry'')
                 (successor \<noteq> rr_predecessor_cutex_session record)) (\<lambda>_.
     rot_bind (life_query (verify_successor_session L successor (rr_template record))
                 ''clean_successor_session_status_unavailable'') (\<lambda>clean.
     rot_bind (rot_require (Rot_Conflict ''successor_session_is_not_clean_for_retry'') clean) (\<lambda>_.
     seat_call R (\<lambda>E C. mutate_release_rotation E C (rr_action_id record) (rr_request_sha256 record)
       (resume_clean_change successor))))))"

definition require_verified_successor_session ::
  "'w lifecycle \<Rightarrow> ReleaseRotationRecord \<Rightarrow> id option \<Rightarrow> bytes option \<Rightarrow> ('w, id) prov" where
  "require_verified_successor_session L record corrected_successor corrected_thread =
     rot_bind (rot_lift (ok_or (Rot_Conflict ''explicit_successor_session_correction_required'')
                 corrected_successor)) (\<lambda>successor.
     rot_bind (rot_require (Rot_Conflict ''invalid_successor_session_correction'')
                 (corrected_thread = None \<and> successor \<noteq> rr_predecessor_cutex_session record)) (\<lambda>_.
     rot_bind (life_query (verify_successor_session L successor (rr_template record))
                 ''successor_session_correction_unavailable'') (\<lambda>verified.
     rot_bind (rot_require (Rot_Conflict ''invalid_successor_session_correction'') verified) (\<lambda>_.
     rot_return successor))))"

definition require_verified_successor_thread ::
  "'w lifecycle \<Rightarrow> ReleaseRotationRecord \<Rightarrow> id option \<Rightarrow> bytes option \<Rightarrow> ('w, bytes) prov" where
  "require_verified_successor_thread L record corrected_successor corrected_thread =
     rot_bind (rot_require (Rot_Conflict ''invalid_successor_thread_correction'')
                 (corrected_successor = None)) (\<lambda>_.
     rot_bind (rot_lift (ok_or Rot_InvalidStore (rr_successor_cutex_session record))) (\<lambda>successor.
     rot_bind (rot_lift (ok_or (Rot_Conflict ''explicit_successor_thread_correction_required'')
                 (case corrected_thread of
                    Some value \<Rightarrow> if trim value \<noteq> [] then Some value else None
                  | None \<Rightarrow> None))) (\<lambda>thread_id.
     rot_bind (life_query (predecessor_thread_id L (rr_predecessor_cutex_session record))
                 ''predecessor_thread_status_unavailable'') (\<lambda>predecessor_thread.
     rot_bind (rot_require (Rot_Conflict ''invalid_successor_thread_correction'')
                 (predecessor_thread \<noteq> Some thread_id)) (\<lambda>_.
     rot_bind (life_query (verify_successor_thread L successor thread_id)
                 ''successor_thread_correction_unavailable'') (\<lambda>verified.
     rot_bind (rot_require (Rot_Conflict ''invalid_successor_thread_correction'') verified) (\<lambda>_.
     rot_return thread_id)))))))"

definition finish_correction_change ::
  "ReleaseRotationBoundary \<Rightarrow> ReleaseRotationExternalStep option \<Rightarrow> ReleaseRotationBoundary \<Rightarrow>
     (ReleaseRotationRecord \<Rightarrow> ReleaseRotationRecord) \<Rightarrow>
     ReleaseRotationRecord \<Rightarrow> SeatAuthorityError + ReleaseRotationRecord" where
  "finish_correction_change expected_boundary expected_step boundary update record =
     (if rr_status record \<noteq> Blocked then Inl (Seat_Conflict ''rotation_is_not_blocked'')
      else if rr_completed_boundary record \<noteq> expected_boundary
      then Inl (Seat_Conflict ''completed_boundary_changed'')
      else if rr_pending_external_step record \<noteq> expected_step
      then Inl (Seat_Conflict ''pending_external_identity_changed'')
      else Inr ((update record)\<lparr>rr_completed_boundary := boundary, rr_pending_external_step := None,
                  rr_status := Running, rr_blocked_reason := None\<rparr>))"

definition finish_pending_correction ::
  "rot_env \<Rightarrow> ReleaseRotationRecord \<Rightarrow> ReleaseRotationBoundary \<Rightarrow> ReleaseRotationExternalStep option \<Rightarrow>
     ReleaseRotationBoundary \<Rightarrow> (ReleaseRotationRecord \<Rightarrow> ReleaseRotationRecord) \<Rightarrow>
     ('w, ReleaseRotationRecord) prov" where
  "finish_pending_correction R record expected_boundary expected_step boundary update =
     seat_call R (\<lambda>E C. mutate_release_rotation E C (rr_action_id record) (rr_request_sha256 record)
       (finish_correction_change expected_boundary expected_step boundary update))"

definition apply_explicit_correction ::
  "rot_env \<Rightarrow> 'w lifecycle \<Rightarrow> ReleaseRotationRecord \<Rightarrow> RetryReleaseRotationRequest \<Rightarrow>
     ('w, ReleaseRotationRecord) prov" where
  "apply_explicit_correction R L record q =
     (case rr_completed_boundary record of
        PredecessorRetired \<Rightarrow>
          rot_bind (require_verified_successor_session L record
            (retry_corrected_successor_cutex_session q) (retry_corrected_successor_thread_id q)) (\<lambda>successor.
          finish_pending_correction R record (retry_expected_completed_boundary q)
            (retry_expected_pending_external_step q) SuccessorSessionCreated
            (\<lambda>record. record\<lparr>rr_successor_cutex_session := Some successor\<rparr>))
      | SuccessorSessionCreated \<Rightarrow>
          rot_bind (require_verified_successor_thread L record
            (retry_corrected_successor_cutex_session q) (retry_corrected_successor_thread_id q)) (\<lambda>thread_id.
          finish_pending_correction R record (retry_expected_completed_boundary q)
            (retry_expected_pending_external_step q) SuccessorThreadStarted
            (\<lambda>record. record\<lparr>rr_successor_thread_id := Some thread_id\<rparr>))
      | _ \<Rightarrow>
          if retry_corrected_successor_cutex_session q \<noteq> None \<or> retry_corrected_successor_thread_id q \<noteq> None
          then rot_fail (Rot_InvalidRequest ''unexpected_rotation_correction'')
          else rot_return record)"

definition resume_uncorrected ::
  "rot_env \<Rightarrow> ReleaseRotationRecord \<Rightarrow> RetryReleaseRotationRequest \<Rightarrow>
     ReleaseRotationExternalStep option \<Rightarrow> ('w, ReleaseRotationRecord) prov" where
  "resume_uncorrected R record q step =
     (if retry_corrected_successor_cutex_session q \<noteq> None \<or> retry_corrected_successor_thread_id q \<noteq> None
      then rot_fail (Rot_InvalidRequest ''unexpected_rotation_correction'')
      else seat_call R (\<lambda>E C. resume_interrupted_release_rotation E C (rr_action_id record)
        (rr_request_sha256 record) (retry_expected_completed_boundary q) step))"

definition correct_blocked ::
  "rot_env \<Rightarrow> 'w lifecycle \<Rightarrow> ReleaseRotationRecord \<Rightarrow> RetryReleaseRotationRequest \<Rightarrow>
     ('w, ReleaseRotationRecord) prov" where
  "correct_blocked R L record q =
     (case rr_pending_external_step record of
        Some step \<Rightarrow>
          if pending_step_boundary step \<noteq> rr_completed_boundary record then rot_fail Rot_InvalidStore
          else if step = CreateSuccessorSession \<or> step = StartSuccessorThread
          then apply_explicit_correction R L record q
          else resume_uncorrected R record q (Some step)
      | None \<Rightarrow>
          if rr_blocked_reason record = Some RELEASE_ROTATION_RESTART_BETWEEN_BOUNDARIES
          then resume_uncorrected R record q None
          else if rr_blocked_reason record = Some RELEASE_ROTATION_EXTERNAL_STEP_FAILED
             \<and> rr_completed_boundary record = SuccessorSessionCreated
             \<and> retry_corrected_successor_cutex_session q = None
             \<and> retry_corrected_successor_thread_id q = None
          then resume_clean_synchronous_thread_start R L record
          else apply_explicit_correction R L record q)"

definition retry_root ::
  "rot_env \<Rightarrow> 'w lifecycle \<Rightarrow> RetryReleaseRotationRequest \<Rightarrow> ('w, ReleaseRotationReceipt) prov" where
  "retry_root R L q =
     rot_bind (seat_call R (\<lambda>E. query)) (\<lambda>snapshot.
     rot_bind (rot_lift (ok_or (Rot_Conflict ''rotation_not_found'')
                 (bt_get (release_rotations snapshot) (retry_action_id q)))) (\<lambda>record.
     rot_bind (rot_require (Rot_Conflict ''action_id_payload_conflict'')
                 (rr_request_sha256 record = retry_expected_request_sha256 q)) (\<lambda>_.
     rot_bind (rot_require (Rot_Conflict ''completed_boundary_changed'')
                 (rr_completed_boundary record = retry_expected_completed_boundary q)) (\<lambda>_.
     rot_bind (rot_require (Rot_Conflict ''pending_external_identity_changed'')
                 (rr_pending_external_step record = retry_expected_pending_external_step q)) (\<lambda>_.
     case rr_status record of
       Complete \<Rightarrow> rot_return (ReleaseRotationReceipt_from record)
     | Running \<Rightarrow> rot_fail (Rot_Conflict ''release_rotation_in_progress'')
     | Blocked \<Rightarrow> rot_bind (correct_blocked R L record q) (execute R L))))))"

section \<open>Restart and query\<close>

definition reopen :: "rot_env \<Rightarrow> ('w, nat) prov" where
  "reopen R = seat_call R block_interrupted_release_rotations"

definition rotation_query :: "rot_env \<Rightarrow> id option \<Rightarrow> ('w, ReleaseRotationReceipt list) prov" where
  "rotation_query R action_id =
     rot_bind (seat_call R (\<lambda>E. query)) (\<lambda>snapshot.
     rot_return (case action_id of
       Some a \<Rightarrow> (case bt_get (release_rotations snapshot) a of
         Some r \<Rightarrow> [ReleaseRotationReceipt_from r] | None \<Rightarrow> [])
     | None \<Rightarrow> map ReleaseRotationReceipt_from (bt_values (release_rotations snapshot))))"

end
