(* ===== verification/Rotation_Properties.thy ===== *)
theory Rotation_Properties
  imports Release_Rotation
begin

text \<open>
  A small program logic for the rotation provider and what it shows. \<open>run_from R s m Q\<close> says that
  the program \<open>m\<close>, started on a disk that holds the seat document \<open>s\<close>, leaves a document \<open>t\<close> that
  committed steps of the seat store reach from \<open>s\<close>, and that \<open>Q\<close> holds of its answer and \<open>t\<close>, whatever
  the lifecycle and the operating system answer.
\<close>

section \<open>The program logic\<close>

definition disk :: "rot_env \<Rightarrow> 'w rot_state \<Rightarrow> SeatOccupancySnapshot option" where
  "disk R st = doc_state (seat_doc (re_seat_codec R)) (rs_seats st)"

definition rot_env_ok :: "rot_env \<Rightarrow> bool" where
  "rot_env_ok R \<longleftrightarrow> doc_roundtrip (seat_doc (re_seat_codec R))
     \<and> (\<forall>n. no_spurious_not_found (snd (re_calls R n)))"

definition run_from ::
  "rot_env \<Rightarrow> SeatOccupancySnapshot \<Rightarrow> ('w, 'a) prov \<Rightarrow>
     (ReleaseRotationError + 'a \<Rightarrow> SeatOccupancySnapshot \<Rightarrow> bool) \<Rightarrow> bool" where
  "run_from R s m Q \<longleftrightarrow> (\<forall>st. disk R st = Some s \<longrightarrow> doc_wf (rs_seats st) \<longrightarrow>
     (\<exists>t. disk R (snd (m st)) = Some t \<and> doc_wf (rs_seats (snd (m st)))
        \<and> steps seat_step s t \<and> Q (fst (m st)) t))"

lemma run_return: "Q (Inr x) s \<Longrightarrow> run_from R s (rot_return x) Q"
  by (auto simp: run_from_def rot_return_def intro: steps_refl)

lemma run_fail: "Q (Inl e) s \<Longrightarrow> run_from R s (rot_fail e) Q"
  by (auto simp: run_from_def rot_fail_def intro: steps_refl)

lemma run_lift: "Q r s \<Longrightarrow> run_from R s (rot_lift r) Q"
  by (auto simp: run_from_def rot_lift_def intro: steps_refl)

lemma run_life: "(\<And>r. Q (Inr r) s) \<Longrightarrow> run_from R s (life_call c) Q"
  by (auto simp: run_from_def life_call_def Let_def disk_def split: prod.splits intro: steps_refl)

lemma run_bind_result:
  fixes m :: "('w, 'a) prov"
  assumes m: "run_from R s m M"
    and err: "\<And>e t. steps seat_step s t \<Longrightarrow> M (Inl e) t \<Longrightarrow> Q (Inl e) t"
    and ok: "\<And>x t st st'. m st = (Inr x, st') \<Longrightarrow> steps seat_step s t \<Longrightarrow> M (Inr x) t \<Longrightarrow>
      run_from R t (f x) Q"
  shows "run_from R s (rot_bind m f) Q"
  unfolding run_from_def
proof (intro allI impI)
  fix st :: "'w rot_state" assume "disk R st = Some s" "doc_wf (rs_seats st)"
  with m obtain t where t: "disk R (snd (m st)) = Some t" "doc_wf (rs_seats (snd (m st)))"
    "steps seat_step s t" "M (fst (m st)) t"
    by (auto simp: run_from_def)
  show "\<exists>t. disk R (snd (rot_bind m f st)) = Some t \<and> doc_wf (rs_seats (snd (rot_bind m f st)))
      \<and> steps seat_step s t \<and> Q (fst (rot_bind m f st)) t"
  proof (cases "m st")
    case (Pair r st1)
    show ?thesis
    proof (cases r)
      case (Inl e)
      with Pair t err show ?thesis by (auto simp: rot_bind_def)
    next
      case (Inr x)
      with Pair t have "run_from R t (f x) Q" by (intro ok [of st x st1]) auto
      then obtain u where "disk R (snd (f x st1)) = Some u" "doc_wf (rs_seats (snd (f x st1)))"
        "steps seat_step t u" "Q (fst (f x st1)) u"
        using Pair t by (auto simp: run_from_def)
      moreover from this(3) t(3) have "steps seat_step s u" by (rule steps_trans)
      moreover have "rot_bind m f st = f x st1" using Pair Inr by (simp add: rot_bind_def)
      ultimately show ?thesis by auto
    qed
  qed
qed

lemma run_bind:
  assumes "run_from R s m M"
    and "\<And>e t. steps seat_step s t \<Longrightarrow> M (Inl e) t \<Longrightarrow> Q (Inl e) t"
    and "\<And>x t. steps seat_step s t \<Longrightarrow> M (Inr x) t \<Longrightarrow> run_from R t (f x) Q"
  shows "run_from R s (rot_bind m f) Q"
  using assms(1) by (rule run_bind_result) (auto intro: assms)

lemma run_weaken:
  "run_from R s m M \<Longrightarrow> (\<And>r t. steps seat_step s t \<Longrightarrow> M r t \<Longrightarrow> Q r t) \<Longrightarrow> run_from R s m Q"
  unfolding run_from_def by meson

text \<open>A store call: an \<open>Ok\<close> is the transaction's answer on the document that was on disk.\<close>

lemma run_seat_call:
  assumes ok: "rot_env_ok R"
    and call: "\<And>E C. call E C = seat_with_locked_state C create (op E)"
    and step: "\<And>E t v. op E s = Inr (t, v, True) \<Longrightarrow> create \<and> seat_step s t"
    and same: "\<And>E t v. op E s = Inr (t, v, False) \<Longrightarrow> t = s"
    and post: "\<And>E t v w. op E s = Inr (t, v, w) \<Longrightarrow> Q (Inr v) t"
    and err: "\<And>e t. t = s \<or> (\<exists>E v. op E s = Inr (t, v, True)) \<Longrightarrow> Q (Inl (ReleaseRotationError_from_seat e)) t"
  shows "run_from R s (seat_call R call :: ('w, 'a) prov) Q"
  unfolding run_from_def
proof (intro allI impI)
  fix st :: "'w rot_state"
  assume s: "disk R st = Some s" and wf: "doc_wf (rs_seats st)"
  let ?D = "seat_doc (re_seat_codec R)"
  obtain E io where c: "re_calls R (rs_tick st) = (E, io)" by (cases "re_calls R (rs_tick st)")
  obtain r fs where run: "with_locked_state ?D create (op E) io (rs_seats st) = (r, fs)"
    by (cases "with_locked_state ?D create (op E) io (rs_seats st)")
  have rt: "doc_roundtrip ?D" and nf: "no_spurious_not_found io"
    using ok c by (auto simp: rot_env_ok_def dest: spec [of _ "rs_tick st"])
  have wf': "doc_wf fs" by (rule locked_state_wf [OF run wf])
  have out: "seat_call R call st = (map_err ReleaseRotationError_from_seat r,
      st\<lparr>rs_seats := fs, rs_tick := Suc (rs_tick st)\<rparr>)"
    by (simp add: seat_call_def c call seat_with_locked_state_def run)
  have "\<exists>t. doc_state ?D fs = Some t \<and> steps seat_step s t \<and> Q (map_err ReleaseRotationError_from_seat r) t"
  proof (cases r)
    case (Inl e)
    from locked_state_atomic [OF rt run nf] s obtain t where
      t: "doc_state ?D fs = Some t" "t = s \<or> (\<exists>v. op E s = Inr (t, v, True))"
      by (auto simp: disk_def)
    then have "steps seat_step s t"
      using step [of E] steps_refl [of seat_step s] steps_one [of seat_step s] by blast
    with Inl t err [of t e] show ?thesis by auto
  next
    case (Inr v)
    from locked_state_ok [OF rt run [unfolded Inr] nf wf] s obtain t w where
      o: "op E s = Inr (t, v, w)" and d: "create \<and> w \<Longrightarrow> doc_state ?D fs = Some t"
        "\<not> w \<Longrightarrow> doc_state ?D fs = Some s"
      by (auto simp: disk_def)
    show ?thesis
    proof (cases w)
      case True
      with o step [of E t v] d(1) post [OF o] Inr show ?thesis by (auto intro: steps_one)
    next
      case False
      with o same [of E t v] d(2) post [OF o] Inr show ?thesis by (auto intro: steps_refl)
    qed
  qed
  with out wf' show "\<exists>t. disk R (snd (seat_call R call st)) = Some t
      \<and> doc_wf (rs_seats (snd (seat_call R call st)))
      \<and> steps seat_step s t \<and> Q (fst (seat_call R call st)) t"
    by (simp add: disk_def)
qed

section \<open>The steps of a rotation\<close>

definition on_disk :: "ReleaseRotationRecord \<Rightarrow> SeatOccupancySnapshot \<Rightarrow> bool" where
  "on_disk r s \<longleftrightarrow> bt_get (release_rotations s) (rr_action_id r) = Some r"

definition blocked_reasons :: "bytes list" where
  "blocked_reasons = [RELEASE_ROTATION_EXTERNAL_STEP_FAILED, ''successor_reused_predecessor_session'',
     ''successor_session_missing'', ''thread_start_did_not_return_distinct_thread'',
     ''message_delivery_omitted_message_id'']"

text \<open>A reported block is the durable record, blocked where it stood for a fixed reason.\<close>

definition blocked_ok :: "id \<Rightarrow> ReleaseRotationError \<Rightarrow> SeatOccupancySnapshot \<Rightarrow> bool" where
  "blocked_ok a e t \<longleftrightarrow> (case e of
     Rot_Blocked rc \<Rightarrow> (\<exists>r. bt_get (release_rotations t) a = Some r \<and> rc = ReleaseRotationReceipt_from r
       \<and> rr_status r = Blocked \<and> rr_pending_external_step r = None
       \<and> rr_blocked_reason r \<in> Some ` set blocked_reasons)
   | _ \<Rightarrow> True)"

definition step_post :: "id \<Rightarrow> ReleaseRotationError + ReleaseRotationRecord \<Rightarrow> SeatOccupancySnapshot \<Rightarrow> bool" where
  "step_post a res t \<longleftrightarrow> (case res of
     Inl e \<Rightarrow> blocked_ok a e t
   | Inr r \<Rightarrow> rr_action_id r = a \<and> on_disk r t \<and> seat_inv t
       \<and> (rr_status r = Complete \<longrightarrow> active_release_rotation t = None \<and> successor_seated t r))"

lemma seat_error_not_blocked [simp]: "blocked_ok a (ReleaseRotationError_from_seat e) t"
  by (cases e) (simp_all add: blocked_ok_def)

lemma sanitize_blocked_reasons: "reason \<in> set blocked_reasons \<Longrightarrow> sanitize_reason reason = reason"
proof -
  have "list_all (\<lambda>reason. sanitize_reason reason = reason) blocked_reasons" by code_simp
  then show "reason \<in> set blocked_reasons \<Longrightarrow> sanitize_reason reason = reason" by (simp add: list_all_iff)
qed

text \<open>A store call that changes one record on disk by an admissible closure.\<close>

lemma run_mutate:
  assumes ok: "rot_env_ok R" and inv: "seat_inv s" and r: "on_disk r s"
    and f: "admissible_at s (rr_action_id r) f"
    and call: "\<And>E C. call E C = mutate_release_rotation E C (rr_action_id r) sha f"
    and post: "\<And>r0 u t. f r = Inr r0 \<Longrightarrow> on_disk (r0\<lparr>rr_updated_at := u\<rparr>) t \<Longrightarrow> seat_inv t \<Longrightarrow>
      rotation_change_ok r r0 \<Longrightarrow> Q (Inr (r0\<lparr>rr_updated_at := u\<rparr>)) t"
    and err: "\<And>e t. Q (Inl (ReleaseRotationError_from_seat e)) t"
  shows "run_from R s (seat_call R call) Q"
proof (rule run_seat_call [OF ok])
  show "call E C = seat_with_locked_state C True (mutate_release_rotation_on E (rr_action_id r) sha f)" for E C
    by (simp add: call mutate_release_rotation_def)
  fix E t v
  show "True \<and> seat_step s t" if "mutate_release_rotation_on E (rr_action_id r) sha f s = Inr (t, v, True)"
    using f that by (blast intro: step_mutate)
  show "t = s" if "mutate_release_rotation_on E (rr_action_id r) sha f s = Inr (t, v, False)"
    using mutate_release_rotation_on_commit [OF that] by simp
  fix w
  assume run: "mutate_release_rotation_on E (rr_action_id r) sha f s = Inr (t, v, w)"
  from mutate_release_rotation_on_commit [OF run] r obtain r0 revision where
    r0: "f r = Inr r0" and v: "v = r0\<lparr>rr_updated_at := now E\<rparr>" and
    t: "t = s\<lparr>release_rotations := bt_insert (rr_action_id r) v (release_rotations s), store_revision := revision\<rparr>"
    by (auto simp: on_disk_def)
  have ch: "rotation_change_ok r r0" using f r r0 by (simp add: admissible_at_def on_disk_def)
  then have "rr_action_id v = rr_action_id r" by (simp add: v rotation_change_ok_def)
  then have "on_disk v t" by (simp add: on_disk_def t bt_simps)
  with post [OF r0 _ mutate_release_rotation_on_inv [OF inv f run] ch] v show "Q (Inr v) t" by simp
qed (rule err)

definition pending_of :: "ReleaseRotationRecord \<Rightarrow> ReleaseRotationExternalStep \<Rightarrow> ReleaseRotationRecord \<Rightarrow> bool" where
  "pending_of r step p \<longleftrightarrow> (\<exists>u. p = r\<lparr>rr_status := Running, rr_blocked_reason := None,
     rr_pending_external_step := Some step, rr_updated_at := u\<rparr>)"

lemma run_mark_pending:
  assumes ok: "rot_env_ok R" and inv: "seat_inv s" and r: "on_disk r s"
    and post: "\<And>p t. pending_of r step p \<Longrightarrow> on_disk p t \<Longrightarrow> seat_inv t \<Longrightarrow> Q (Inr p) t"
    and err: "\<And>e t. Q (Inl (ReleaseRotationError_from_seat e)) t"
  shows "run_from R s (mark_pending R r step) Q"
  unfolding mark_pending_def
proof (rule run_mutate [OF ok inv r admissible_change_at [OF mark_pending_admissible]])
  fix r0 u t
  assume m: "mark_pending_change (rr_status r) (rr_completed_boundary r) step r = Inr r0"
    and o: "on_disk (r0\<lparr>rr_updated_at := u\<rparr>) t" and i: "seat_inv t"
  have "pending_of r step (r0\<lparr>rr_updated_at := u\<rparr>)"
    using m by (auto simp: mark_pending_change_def pending_of_def split: if_splits)
  from post [OF this o i] show "Q (Inr (r0\<lparr>rr_updated_at := u\<rparr>)) t" .
qed (simp_all add: mark_release_rotation_pending_def err)

lemma run_blocked:
  assumes ok: "rot_env_ok R" and inv: "seat_inv s" and r: "on_disk r s"
    and reason: "reason \<in> set blocked_reasons" and a: "rr_action_id r = a"
    and post: "\<And>e t. blocked_ok a e t \<Longrightarrow> Q (Inl e) t"
  shows "run_from R s (blocked R r reason) Q"
  unfolding blocked_def
proof (rule run_bind [where M = "\<lambda>res t. case res of Inl e \<Rightarrow> blocked_ok a e t
    | Inr r' \<Rightarrow> blocked_ok a (Rot_Blocked (ReleaseRotationReceipt_from r')) t"])
  show "run_from R s (seat_call R (\<lambda>E C. block_release_rotation E C (rr_action_id r) (rr_request_sha256 r)
      (sanitize_reason reason))) (\<lambda>res t. case res of Inl e \<Rightarrow> blocked_ok a e t
    | Inr r' \<Rightarrow> blocked_ok a (Rot_Blocked (ReleaseRotationReceipt_from r')) t)"
  proof (rule run_mutate [OF ok inv r admissible_change_at [OF block_admissible]])
    fix r0 u t
    assume "block_change (sanitize_reason reason) r = Inr r0" and "on_disk (r0\<lparr>rr_updated_at := u\<rparr>) t"
    with reason a show "case Inr (r0\<lparr>rr_updated_at := u\<rparr>) of Inl e \<Rightarrow> blocked_ok a e t
      | Inr r' \<Rightarrow> blocked_ok a (Rot_Blocked (ReleaseRotationReceipt_from r')) t"
      by (auto simp: block_change_def blocked_ok_def on_disk_def sanitize_blocked_reasons split: if_splits)
  qed (simp_all add: block_release_rotation_def)
qed (auto intro: post run_fail)

lemma finish_pending_admissible:
  assumes "on_disk p s"
    and "boundary_rank (rr_completed_boundary p) < boundary_rank b" and "boundary_rank b < 6"
    and "f = (\<lambda>r. r) \<or> (\<exists>x. f = (\<lambda>r. r\<lparr>rr_successor_thread_id := Some x\<rparr>))
      \<or> (\<exists>x. x \<noteq> rr_predecessor_cutex_session p \<and> f = (\<lambda>r. r\<lparr>rr_successor_cutex_session := Some x\<rparr>))"
  shows "admissible_at s (rr_action_id p) (finish_pending_change (rr_completed_boundary p) step b f)"
    and "admissible_at s (rr_action_id p) (finish_correction_change (rr_completed_boundary p) st b f)"
  using assms unfolding admissible_at_def finish_pending_change_def finish_correction_change_def on_disk_def
  by (auto simp: rotation_change_ok_def split: if_splits)

lemma run_finish_pending:
  assumes ok: "rot_env_ok R" and inv: "seat_inv s" and p: "on_disk p s" and a: "rr_action_id p = a"
    and f: "boundary_rank (rr_completed_boundary p) < boundary_rank b" "boundary_rank b < 6"
      "f = (\<lambda>r. r) \<or> (\<exists>x. f = (\<lambda>r. r\<lparr>rr_successor_thread_id := Some x\<rparr>))
        \<or> (\<exists>x. x \<noteq> rr_predecessor_cutex_session p \<and> f = (\<lambda>r. r\<lparr>rr_successor_cutex_session := Some x\<rparr>))"
    and post: "\<And>r t. step_post a r t \<Longrightarrow> Q r t"
  shows "run_from R s (finish_pending R p step b f) Q"
  unfolding finish_pending_def
proof (rule run_mutate [OF ok inv p finish_pending_admissible(1) [OF p f]])
  fix r0 u t
  assume "on_disk (r0\<lparr>rr_updated_at := u\<rparr>) t" "seat_inv t" "rotation_change_ok p r0"
  then show "Q (Inr (r0\<lparr>rr_updated_at := u\<rparr>)) t"
    using a by (intro post) (auto simp: step_post_def rotation_change_ok_def)
next
  fix e t show "Q (Inl (ReleaseRotationError_from_seat e)) t"
    by (rule post) (simp add: step_post_def)
qed simp

lemma run_pending:
  assumes ok: "rot_env_ok R" and inv: "seat_inv s" and r: "on_disk r s" and a: "rr_action_id r = a"
    and f: "\<And>p t. pending_of r step p \<Longrightarrow> on_disk p t \<Longrightarrow> seat_inv t \<Longrightarrow> run_from R t (f p) (step_post a)"
  shows "run_from R s (rot_bind (mark_pending R r step) f) (step_post a)"
proof (rule run_bind [where M = "\<lambda>res t. case res of Inl e \<Rightarrow> blocked_ok a e t
    | Inr p \<Rightarrow> pending_of r step p \<and> on_disk p t \<and> seat_inv t"])
  show "run_from R s (mark_pending R r step) (\<lambda>res t. case res of Inl e \<Rightarrow> blocked_ok a e t
    | Inr p \<Rightarrow> pending_of r step p \<and> on_disk p t \<and> seat_inv t)"
    by (rule run_mark_pending [OF ok inv r]) simp_all
qed (auto intro: f simp: step_post_def)

lemma run_life_bind:
  assumes "\<And>r. run_from R s (f r) Q"
  shows "run_from R s (rot_bind (life_call c) f) Q"
  by (rule run_bind [where M = "\<lambda>res u. u = s \<and> (\<exists>x. res = Inr x)"]) (auto intro: run_life assms)

lemma run_blocked_step:
  assumes "rot_env_ok R" and "seat_inv s" and "on_disk r s" and "rr_action_id r = a"
  shows "reason \<in> set blocked_reasons \<Longrightarrow>
      run_from R s (blocked R r reason :: ('w, ReleaseRotationRecord) prov) (step_post a)"
    and "run_from R s (blocked_external R r e :: ('w, ReleaseRotationRecord) prov) (step_post a)"
  by (auto simp: step_post_def blocked_external_def blocked_reasons_def
      intro!: run_blocked [OF assms(1-3) _ assms(4)])

lemma pending_of_keeps:
  "pending_of r step p \<Longrightarrow> rr_action_id p = rr_action_id r
     \<and> rr_completed_boundary p = rr_completed_boundary r
     \<and> rr_predecessor_cutex_session p = rr_predecessor_cutex_session r
     \<and> rr_successor_cutex_session p = rr_successor_cutex_session r
     \<and> rr_status p = Running \<and> rr_pending_external_step p = Some step"
  by (auto simp: pending_of_def)

lemma run_external_unit:
  assumes ok: "rot_env_ok R" and inv: "seat_inv s" and r: "on_disk r s" and a: "rr_action_id r = a"
    and b: "boundary_rank (rr_completed_boundary r) < boundary_rank b" "boundary_rank b < 6"
  shows "run_from R s (external_unit_step R r step b op) (step_post a)"
  unfolding external_unit_step_def
proof (rule run_pending [OF ok inv r a], rule run_life_bind)
  fix p t res assume p: "pending_of r step p" "on_disk p t" "seat_inv t"
  note k = pending_of_keeps [OF p(1)]
  show "run_from R t (case res of Inl error \<Rightarrow> blocked_external R p error
      | Inr _ \<Rightarrow> finish_pending R p step b (\<lambda>r. r)) (step_post a)"
  proof (cases res)
    case (Inl e)
    then show ?thesis using k a by (simp add: run_blocked_step(2) [OF ok p(3,2)])
  next
    case (Inr x)
    then show ?thesis using k a b by (simp add: run_finish_pending [OF ok p(3,2)])
  qed
qed

lemma run_with_successor:
  assumes "rot_env_ok R" and "seat_inv s" and "on_disk r s" and "rr_action_id r = a"
    and "\<And>x. rr_successor_cutex_session r = Some x \<Longrightarrow> run_from R s (f x) (step_post a)"
  shows "run_from R s (with_successor R r f) (step_post a)"
  using assms by (auto simp: with_successor_def blocked_reasons_def split: option.split
      intro!: run_blocked_step(1))

lemma run_create_successor:
  fixes L :: "'w lifecycle"
  assumes ok: "rot_env_ok R" and inv: "seat_inv s" and r: "on_disk r s" and a: "rr_action_id r = a"
    and b: "rr_completed_boundary r = PredecessorRetired"
  shows "run_from R s (create_successor_step R L r) (step_post a)"
  unfolding create_successor_step_def
proof (rule run_pending [OF ok inv r a], rule run_life_bind)
  fix p t res assume p: "pending_of r CreateSuccessorSession p" "on_disk p t" "seat_inv t"
  note k = pending_of_keeps [OF p(1)]
  show "run_from R t (case res of Inl error \<Rightarrow> blocked_external R p error
     | Inr successor \<Rightarrow>
         if successor \<noteq> rr_predecessor_cutex_session p
         then finish_pending R p CreateSuccessorSession SuccessorSessionCreated
                (\<lambda>record. record\<lparr>rr_successor_cutex_session := Some successor\<rparr>)
         else (blocked R p ''successor_reused_predecessor_session'' :: ('w, _) prov)) (step_post a)"
  proof (cases res)
    case (Inl e)
    then show ?thesis using k a by (simp add: run_blocked_step(2) [OF ok p(3,2)])
  next
    case (Inr x)
    have "run_from R t (finish_pending R p CreateSuccessorSession SuccessorSessionCreated
        (\<lambda>record. record\<lparr>rr_successor_cutex_session := Some x\<rparr>) :: ('w, _) prov) (step_post a)"
      if "x \<noteq> rr_predecessor_cutex_session p"
      using that k a b by (intro run_finish_pending [OF ok p(3,2)]) auto
    moreover have "run_from R t (blocked R p ''successor_reused_predecessor_session'' :: ('w, _) prov) (step_post a)"
      using k a by (intro run_blocked_step(1) [OF ok p(3,2)]) (auto simp: blocked_reasons_def)
    ultimately show ?thesis using Inr by simp
  qed
qed

lemma run_start_thread:
  fixes L :: "'w lifecycle"
  assumes ok: "rot_env_ok R" and inv: "seat_inv s" and r: "on_disk r s" and a: "rr_action_id r = a"
    and b: "rr_completed_boundary r = SuccessorSessionCreated"
  shows "run_from R s (start_thread_step R L r) (step_post a)"
  unfolding start_thread_step_def
proof (rule run_with_successor [OF ok inv r a], rule run_life_bind)
  fix x q
  let ?pend = "\<lambda>pt. rot_bind (mark_pending R r StartSuccessorThread) (\<lambda>p.
      rot_bind (life_call (start_successor_thread L x (rr_template p))) (\<lambda>res. case res of
        Inl error \<Rightarrow> blocked_external R p error
      | Inr th \<Rightarrow> if trim th \<noteq> [] \<and> pt \<noteq> Some th
          then finish_pending R p StartSuccessorThread SuccessorThreadStarted
                 (\<lambda>record. record\<lparr>rr_successor_thread_id := Some th\<rparr>)
          else blocked R p ''thread_start_did_not_return_distinct_thread''))"
  have "run_from R s (?pend pt) (step_post a)" for pt
  proof (rule run_pending [OF ok inv r a], rule run_life_bind)
    fix p t res assume p: "pending_of r StartSuccessorThread p" "on_disk p t" "seat_inv t"
    note k = pending_of_keeps [OF p(1)]
    show "run_from R t (case res of Inl error \<Rightarrow> blocked_external R p error
      | Inr th \<Rightarrow> if trim th \<noteq> [] \<and> pt \<noteq> Some th
          then finish_pending R p StartSuccessorThread SuccessorThreadStarted
                 (\<lambda>record. record\<lparr>rr_successor_thread_id := Some th\<rparr>)
          else (blocked R p ''thread_start_did_not_return_distinct_thread'' :: ('w, _) prov)) (step_post a)"
    proof (cases res)
      case (Inl e)
      then show ?thesis using k a by (simp add: run_blocked_step(2) [OF ok p(3,2)])
    next
      case (Inr th)
      have "run_from R t (finish_pending R p StartSuccessorThread SuccessorThreadStarted
          (\<lambda>record. record\<lparr>rr_successor_thread_id := Some th\<rparr>) :: ('w, _) prov) (step_post a)"
        using k a b by (intro run_finish_pending [OF ok p(3,2)]) auto
      moreover have "run_from R t (blocked R p ''thread_start_did_not_return_distinct_thread'' :: ('w, _) prov) (step_post a)"
        using k a by (intro run_blocked_step(1) [OF ok p(3,2)]) (auto simp: blocked_reasons_def)
      ultimately show ?thesis using Inr by simp
    qed
  qed
  moreover have "run_from R s (blocked_external R r e :: ('w, _) prov) (step_post a)" for e
    by (rule run_blocked_step(2) [OF ok inv r a])
  ultimately show "run_from R s (case q of Inl error \<Rightarrow> blocked_external R r error | Inr pt \<Rightarrow> ?pend pt) (step_post a)"
    by (cases q) simp_all
qed

lemma run_bind_successor:
  assumes ok: "rot_env_ok R" and inv: "seat_inv s" and r: "on_disk r s" and a: "rr_action_id r = a"
    and b: "rr_completed_boundary r = SuccessorRuntimeOnline"
  shows "run_from R s (bind_successor_step R r :: ('w, _) prov) (step_post a)"
  unfolding bind_successor_step_def
proof (rule run_with_successor [OF ok inv r a], rule run_seat_call [OF ok, where create = True])
  fix x E t v w
  let ?op = "\<lambda>E. bind_release_rotation_successor_on E (rr_action_id r) (rr_request_sha256 r) x"
  show "bind_release_rotation_successor E C (rr_action_id r) (rr_request_sha256 r) x
      = seat_with_locked_state C True (?op E)" for C
    by (simp add: bind_release_rotation_successor_def)
  show "True \<and> seat_step s t" if "?op E s = Inr (t, v, True)"
    using that by (blast intro: step_bind_successor)
  show "t = s" if "?op E s = Inr (t, v, False)"
    using bind_release_rotation_successor_on_no_write [OF that] by simp
  assume run: "?op E s = Inr (t, v, w)"
  have inv': "seat_inv t" by (rule bind_release_rotation_successor_on_inv [OF inv run])
  show "step_post a (Inr v) t"
  proof (cases w)
    case True
    with run have "?op E s = Inr (t, v, True)" by simp
    from bind_release_rotation_successor_on_commit [OF this] r a inv' show ?thesis
      by (auto simp: step_post_def on_disk_def bt_simps)
  next
    case False
    with run have "?op E s = Inr (t, v, False)" by simp
    from bind_release_rotation_successor_on_no_write [OF this] r have "t = s" "v = r"
      by (auto simp: on_disk_def)
    moreover have "rr_status r \<noteq> Complete"
      using inv_rotationsD [OF inv] r b by (auto simp: on_disk_def rotation_ok_def)
    ultimately show ?thesis using r a inv by (simp add: step_post_def)
  qed
qed (simp add: step_post_def)

lemma run_deliver_message:
  fixes L :: "'w lifecycle"
  assumes ok: "rot_env_ok R" and inv: "seat_inv s" and r: "on_disk r s" and a: "rr_action_id r = a"
    and b: "rr_completed_boundary r = SuccessorBound"
  shows "run_from R s (deliver_message_step R L r) (step_post a)"
  unfolding deliver_message_step_def
proof (rule run_with_successor [OF ok inv r a], rule run_pending [OF ok inv r a], rule run_life_bind)
  fix x p t res
  assume p: "pending_of r DeliverDirectorMessage p" "on_disk p t" "seat_inv t"
  note k = pending_of_keeps [OF p(1)]
  let ?op = "\<lambda>m E. complete_release_rotation_on E (rr_action_id p) (rr_request_sha256 p) m"
  have "run_from R t (seat_call R (\<lambda>E C. complete_release_rotation E C (rr_action_id p)
      (rr_request_sha256 p) m) :: ('w, _) prov) (step_post a)" for m
  proof (rule run_seat_call [OF ok, where create = True and op = "?op m"])
    fix E u v w
    show "True \<and> seat_step t u" if "?op m E t = Inr (u, v, True)"
      using that by (blast intro: step_complete)
    show "u = t" if "?op m E t = Inr (u, v, False)"
      using complete_release_rotation_on_no_write [OF that] by simp
    assume run: "?op m E t = Inr (u, v, w)"
    have inv': "seat_inv u" by (rule complete_release_rotation_on_inv [OF p(3) run])
    have pd: "bt_get (release_rotations t) (rr_action_id p) = Some p"
      using p(2) by (simp add: on_disk_def)
    have w: "w"
      using run pd k by (auto simp: complete_release_rotation_on_def Let_def res_simps split: if_splits)
    have "active_release_rotation t = Some (rr_action_id p)"
      using inv_rotationsD [OF p(3) pd] k by (auto simp: rotation_ok_def)
    then have "successor_seated t p"
      using p(3) pd k b by (auto simp: seat_inv_def inv_active_def rotation_seated_def)
    with complete_release_rotation_on_commit [of E "rr_action_id p" "rr_request_sha256 p" m t u v]
      run w pd k a inv'
    show "step_post a (Inr v) u"
      by (auto simp: step_post_def on_disk_def bt_simps successor_seated_def)
  qed (simp_all add: complete_release_rotation_def step_post_def)
  moreover have "run_from R t (blocked R p ''message_delivery_omitted_message_id'' :: ('w, _) prov) (step_post a)"
    using k a by (intro run_blocked_step(1) [OF ok p(3,2)]) (auto simp: blocked_reasons_def)
  moreover have "run_from R t (blocked_external R p e :: ('w, _) prov) (step_post a)" for e
    using k a by (intro run_blocked_step(2) [OF ok p(3,2)]) auto
  ultimately show "run_from R t (case res of Inl error \<Rightarrow> blocked_external R p error
     | Inr message_id \<Rightarrow> if trim message_id \<noteq> []
         then seat_call R (\<lambda>E C. complete_release_rotation E C (rr_action_id p)
                (rr_request_sha256 p) message_id)
         else (blocked R p ''message_delivery_omitted_message_id'' :: ('w, _) prov)) (step_post a)"
    by (cases res) simp_all
qed

lemma run_execute_step:
  fixes L :: "'w lifecycle"
  assumes ok: "rot_env_ok R" and inv: "seat_inv s" and r: "on_disk r s" and a: "rr_action_id r = a"
    and nc: "rr_status r \<noteq> Complete"
  shows "run_from R s (execute_step R L r) (step_post a)"
proof -
  have "rr_completed_boundary r \<noteq> DirectorMessageDelivered"
    using inv_rotationsD [OF inv] r nc by (auto simp: on_disk_def rotation_ok_def)
  then show ?thesis
    by (cases "rr_completed_boundary r")
      (auto simp: execute_step_def intro!: run_create_successor [OF ok inv r a]
        run_start_thread [OF ok inv r a] run_bind_successor [OF ok inv r a]
        run_deliver_message [OF ok inv r a] run_external_unit [OF ok inv r a]
        run_with_successor [OF ok inv r a])
qed

section \<open>Whole rotations\<close>

text \<open>
  The answer of a whole run: success means the durable record is complete and the recorded
  successor holds the Release seat at the epoch after the predecessor's.
\<close>

definition rotation_post ::
  "id \<Rightarrow> ReleaseRotationError + ReleaseRotationReceipt \<Rightarrow> SeatOccupancySnapshot \<Rightarrow> bool" where
  "rotation_post a res t \<longleftrightarrow> (case res of
     Inl e \<Rightarrow> blocked_ok a e t
   | Inr rc \<Rightarrow> \<exists>r. bt_get (release_rotations t) a = Some r \<and> rc = ReleaseRotationReceipt_from r
       \<and> rr_status r = Complete \<and> active_release_rotation t = None \<and> successor_seated t r)"

lemma execute_unfold:
  "execute R L r = (if rr_completed_boundary r = DirectorMessageDelivered
     then rot_return (ReleaseRotationReceipt_from r)
     else rot_bind (execute_step R L r) (\<lambda>r'.
       if rr_status r' = Complete then rot_return (ReleaseRotationReceipt_from r') else execute R L r'))"
  by (rule ext) (simp add: execute.simps rot_return_def rot_bind_def split: prod.splits sum.splits)

lemma run_execute:
  fixes L :: "'w lifecycle"
  assumes ok: "rot_env_ok R" and "seat_inv s" and "on_disk r s" and "rr_action_id r = a"
    and "rr_status r \<noteq> Complete"
  shows "run_from R s (execute R L r) (rotation_post a)"
  using assms(2-)
proof (induction "7 - boundary_rank (rr_completed_boundary r)" arbitrary: r s rule: less_induct)
  case less
  have nd: "rr_completed_boundary r \<noteq> DirectorMessageDelivered"
    using inv_rotationsD [OF less.prems(1)] less.prems by (auto simp: on_disk_def rotation_ok_def)
  have "run_from R s (rot_bind (execute_step R L r) (\<lambda>r'.
       if rr_status r' = Complete then rot_return (ReleaseRotationReceipt_from r') else execute R L r'))
       (rotation_post a)"
  proof (rule run_bind_result [OF run_execute_step [OF ok less.prems]])
    fix r' t st st'
    assume res: "execute_step R L r st = (Inr r', st')" and "step_post a (Inr r') t"
    then have p: "seat_inv t" "on_disk r' t" "rr_action_id r' = a"
      "rr_status r' = Complete \<Longrightarrow> active_release_rotation t = None \<and> successor_seated t r'"
      by (auto simp: step_post_def)
    show "run_from R t (if rr_status r' = Complete then rot_return (ReleaseRotationReceipt_from r')
        else execute R L r') (rotation_post a)"
    proof (cases "rr_status r' = Complete")
      case True
      with p show ?thesis by (auto intro!: run_return simp: rotation_post_def on_disk_def)
    next
      case False
      have "7 - boundary_rank (rr_completed_boundary r') < 7 - boundary_rank (rr_completed_boundary r)"
        using execute_step_rank [OF res nd False] boundary_rank_le [of "rr_completed_boundary r'"] by simp
      from less.hyps [OF this p(1-3) False] False show ?thesis by simp
    qed
  qed (simp add: step_post_def rotation_post_def)
  with nd show ?case by (subst execute_unfold) simp
qed

text \<open>What a rotation is about never changes once it is recorded.\<close>

definition rotation_identity :: "ReleaseRotationRecord \<Rightarrow> id \<times> Sha256 \<times> id \<times> id \<times> u64" where
  "rotation_identity r = (rr_action_id r, rr_request_sha256 r, rr_target_seat r,
     rr_predecessor_cutex_session r, rr_predecessor_seat_epoch r)"

lemma rotation_change_identity: "rotation_change_ok r r' \<Longrightarrow> rotation_identity r' = rotation_identity r"
  by (simp add: rotation_change_ok_def rotation_identity_def)

lemma seat_step_identity:
  assumes "seat_step s t" and r: "bt_get (release_rotations s) a = Some r"
  shows "\<exists>r'. bt_get (release_rotations t) a = Some r' \<and> rotation_identity r' = rotation_identity r"
  using assms(1)
proof (cases rule: seat_step.cases)
  case (step_bind E q rc w)
  then have "release_rotations t = release_rotations s"
    by (auto simp: bind_on_def bind_transaction_def Let_def res_simps split: option.splits if_splits)
  with r show ?thesis by simp
next
  case (step_transfer E q rc w)
  then have "release_rotations t = release_rotations s"
    by (auto simp: transfer_director_on_def transfer_director_transaction_def Let_def res_simps
        split: option.splits if_splits)
  with r show ?thesis by simp
next
  case (step_finish E q rc w)
  from finish_director_transfer_on_cases [OF step_finish] r show ?thesis by (auto split: if_splits)
next
  case (step_begin E d q sha tpl tsha r0 w)
  show ?thesis
  proof (cases w)
    case True
    with step_begin have "begin_release_rotation_on E d q sha tpl tsha s = Inr (t, r0, True)" by simp
    from begin_release_rotation_on_commit [OF this] r show ?thesis by (auto simp: bt_simps)
  qed (use step_begin r begin_release_rotation_on_no_write [of E d q sha tpl tsha s t r0] in auto)
next
  case (step_mutate a' f E sha r0 w)
  from mutate_release_rotation_on_commit [OF step_mutate(2)] step_mutate(1) r show ?thesis
    by (auto simp: bt_simps admissible_at_def dest!: rotation_change_identity)
       (auto simp: rotation_identity_def)
next
  case (step_interrupt E n w)
  from block_interrupted_release_rotations_on_commit [OF step_interrupt] r show ?thesis
    by (auto simp: bt_simps rotation_identity_def interrupt_record_def)
next
  case (step_bind_successor E a' sha z r0 w)
  show ?thesis
  proof (cases w)
    case True
    with step_bind_successor have "bind_release_rotation_successor_on E a' sha z s = Inr (t, r0, True)" by simp
    from bind_release_rotation_successor_on_commit [OF this] r show ?thesis
      by (auto simp: bt_simps rotation_identity_def)
  qed (use step_bind_successor r bind_release_rotation_successor_on_no_write [of E a' sha z s t r0] in auto)
next
  case (step_complete E a' sha m r0 w)
  show ?thesis
  proof (cases w)
    case True
    with step_complete have "complete_release_rotation_on E a' sha m s = Inr (t, r0, True)" by simp
    from complete_release_rotation_on_commit [OF this] r show ?thesis
      by (auto simp: bt_simps rotation_identity_def)
  qed (use step_complete r complete_release_rotation_on_no_write [of E a' sha m s t r0] in auto)
qed

lemma steps_identity:
  "steps seat_step s t \<Longrightarrow> bt_get (release_rotations s) a = Some r \<Longrightarrow>
     \<exists>r'. bt_get (release_rotations t) a = Some r' \<and> rotation_identity r' = rotation_identity r"
proof (induction rule: steps.induct)
  case (steps_snoc s t u)
  then show ?case using seat_step_identity by metis
qed simp

section \<open>Requests\<close>

lemma run_template_call:
  "(\<And>x. Q (Inr x) s) \<Longrightarrow> (\<And>e. Q (Inl (ReleaseRotationError_from_template e)) s) \<Longrightarrow>
     run_from R s (template_call R c) Q"
  by (auto simp: run_from_def template_call_def Let_def disk_def map_err_def
      split: prod.splits sum.splits intro: steps_refl)

lemma run_bind_lift:
  assumes "\<And>e. r = Inl e \<Longrightarrow> Q (Inl e) s" and "\<And>x. r = Inr x \<Longrightarrow> run_from R s (f x) Q"
  shows "run_from R s (rot_bind (rot_lift r) f) Q"
  by (rule run_bind [where M = "\<lambda>res t. t = s \<and> res = r"]) (auto intro: run_lift assms)

lemma run_bind_require:
  "Q (Inl e) s \<Longrightarrow> (b \<Longrightarrow> run_from R s (f ()) Q) \<Longrightarrow> run_from R s (rot_bind (rot_require e b) f) Q"
  unfolding rot_require_def by (rule run_bind_lift) (auto simp: res_simps)

lemma run_bind_life_query:
  "Q (Inl (Rot_Conflict reason)) s \<Longrightarrow> (\<And>x. run_from R s (f x) Q) \<Longrightarrow>
     run_from R s (rot_bind (life_query c reason) f) Q"
  unfolding life_query_def
  by (rule run_bind [where M = "\<lambda>res t. t = s \<and> (\<forall>e. res = Inl e \<longrightarrow> e = Rot_Conflict reason)"])
    (auto intro!: run_life_bind run_lift simp: res_simps)

lemma run_bind_template_call:
  "(\<And>e. Q (Inl (ReleaseRotationError_from_template e)) s) \<Longrightarrow> (\<And>x. run_from R s (f x) Q) \<Longrightarrow>
     run_from R s (rot_bind (template_call R c) f) Q"
  by (rule run_bind [where M = "\<lambda>res t. t = s \<and> (\<forall>e. res = Inl e \<longrightarrow> (\<exists>e'. e = ReleaseRotationError_from_template e'))"])
    (auto intro!: run_template_call)

lemmas run_stay = run_bind_lift run_bind_require run_bind_life_query run_bind_template_call

lemma run_template_held:
  assumes "\<And>t sha. run_from R s (op t sha) Q" and "\<And>e. Q (Inl (ReleaseRotationError_from_template e)) s"
  shows "run_from R s (with_template_held R op) Q"
  unfolding run_from_def
proof (intro allI impI)
  fix st :: "'a rot_state" assume st: "disk R st = Some s" "doc_wf (rs_seats st)"
  obtain E io where c: "re_calls R (rs_tick st) = (E, io)" by (cases "re_calls R (rs_tick st)")
  let ?st = "st\<lparr>rs_tick := Suc (rs_tick st)\<rparr>"
  have st': "disk R ?st = Some s" "doc_wf (rs_seats ?st)" using st by (simp_all add: disk_def)
  show "\<exists>t. disk R (snd (with_template_held R op st)) = Some t
      \<and> doc_wf (rs_seats (snd (with_template_held R op st)))
      \<and> steps seat_step s t \<and> Q (fst (with_template_held R op st)) t"
  proof (cases "with_current_template (re_template_codec R) op io (rs_templates st)")
    case (Inl e)
    then have "with_template_held R op st = (Inl (ReleaseRotationError_from_template e), ?st)"
      by (simp add: with_template_held_def c)
    with st' assms(2) show ?thesis by (auto intro: steps_refl)
  next
    case (Inr run)
    then obtain t sha where "run = op t sha"
      by (auto simp: with_current_template_def with_shared_state_def res_simps split: if_splits sum.splits option.splits)
    with Inr have "with_template_held R op st = op t sha ?st"
      by (simp add: with_template_held_def c)
    with st' assms(1) [of t sha] show ?thesis by (simp add: run_from_def)
  qed
qed

lemma run_query:
  assumes "rot_env_ok R" and "Q (Inr s) s" and "\<And>e. Q (Inl (ReleaseRotationError_from_seat e)) s"
  shows "run_from R s (seat_call R (\<lambda>E. query)) Q"
  by (rule run_seat_call [OF assms(1), where create = False and op = "\<lambda>_. query_on"])
    (auto simp: query_def query_on_def assms)

text \<open>
  What a Director's request may do: a known action id is answered from its record and changes
  nothing; a new one changes the store only if every authority check holds on the document it
  started from.
\<close>

definition may_rotate :: "id \<Rightarrow> ReleaseRotationRequest \<Rightarrow> SeatOccupancySnapshot \<Rightarrow> bool" where
  "may_rotate d q s \<longleftrightarrow> req_target_seat q = release_seat \<and> active_release_rotation s = None
     \<and> seat_holder s director_seat = Some d
     \<and> seat_holder s release_seat = Some (req_expected_predecessor_cutex_session q)
     \<and> seat_epoch s release_seat = unat (req_expected_seat_epoch q)"

definition request_post ::
  "id \<Rightarrow> ReleaseRotationRequest \<Rightarrow> SeatOccupancySnapshot \<Rightarrow>
     ReleaseRotationError + 'a \<Rightarrow> SeatOccupancySnapshot \<Rightarrow> bool" where
  "request_post d q s res t \<longleftrightarrow>
     (case res of Inl e \<Rightarrow> blocked_ok (req_action_id q) e t | Inr _ \<Rightarrow> True) \<and> (t = s \<or> may_rotate d q s)"

lemma other_errors_not_blocked [simp]:
  "blocked_ok a (ReleaseRotationError_from_template e) t" "blocked_ok a (Rot_Conflict reason) t"
  "blocked_ok a (Rot_InvalidRequest reason) t" "blocked_ok a Rot_Unauthorized t"
  "blocked_ok a Rot_InvalidStore t" "blocked_ok a Rot_PersistenceUnavailable t"
  by (cases e) (simp_all add: blocked_ok_def)

text \<open>The record of a rotation that was begun for a request.\<close>

definition begun_for :: "ReleaseRotationRequest \<Rightarrow> ReleaseRotationRecord \<Rightarrow> bool" where
  "begun_for q r \<longleftrightarrow> rr_action_id r = req_action_id q
     \<and> rr_predecessor_cutex_session r = req_expected_predecessor_cutex_session q
     \<and> rr_predecessor_seat_epoch r = req_expected_seat_epoch q"

lemma begin_commit_begun:
  assumes "begin_release_rotation_on E d q sha tpl tsha s = Inr (t, r, True)"
  shows "begun_for q r \<and> on_disk r t \<and> rr_status r \<noteq> Complete"
proof -
  from begin_release_rotation_on_commit [OF assms] obtain dir current revision where
    v: "vacancy_matches (begun_vacancy E q sha) r" and
    r: "rr_action_id r = req_action_id q" "rr_status r = Running" and
    t: "release_rotations t = bt_insert (req_action_id q) r (release_rotations s)" by auto
  show ?thesis
    using v r by (simp add: begun_for_def on_disk_def t bt_simps vacancy_matches_def begun_vacancy_def)
qed

lemma run_begin:
  assumes ok: "rot_env_ok R" and inv: "seat_inv s" and tgt: "req_target_seat q = release_seat"
    and new: "bt_get (release_rotations s) (req_action_id q) = None"
  shows "run_from R s (begin_under_template R d q sha tpl tsha :: ('w, _) prov)
    (\<lambda>res t. request_post d q s res t \<and> (\<forall>r. res = Inr r \<longrightarrow> may_rotate d q s \<and>
       begun_for q r \<and> on_disk r t \<and> seat_inv t \<and> rr_status r \<noteq> Complete))"
proof (cases "tpl_version tpl \<noteq> req_expected_template_version q \<or> tsha \<noteq> req_expected_template_sha256 q")
  case True
  then show ?thesis by (auto simp: begin_under_template_def request_post_def intro: run_fail)
next
  case False
  let ?op = "\<lambda>E. begin_release_rotation_on E d q sha tpl tsha"
  have commit: "may_rotate d q s" if "?op E s = Inr (t, r, True)" for E t r
    using begin_release_rotation_on_commit [OF that] tgt
    by (auto simp: may_rotate_def seat_holder_def seat_epoch_def)
  have wrote: "w" if "?op E s = Inr (t, r, w)" for E t r w
    using that new begin_release_rotation_on_no_write [of E d q sha tpl tsha s t r] by (cases w) auto
  have "run_from R s (seat_call R (\<lambda>E C. begin_release_rotation E C d q sha tpl tsha) :: ('w, _) prov)
    (\<lambda>res t. request_post d q s res t \<and> (\<forall>r. res = Inr r \<longrightarrow> may_rotate d q s \<and>
       begun_for q r \<and> on_disk r t \<and> seat_inv t \<and> rr_status r \<noteq> Complete))"
  proof (rule run_seat_call [OF ok, where create = True and op = ?op])
    show "begin_release_rotation E C d q sha tpl tsha = seat_with_locked_state C True (?op E)" for E C
    proof -
      have "?op E = begin_release_rotation_transaction E d q sha tpl tsha"
        using tgt by (intro ext) (simp add: begin_release_rotation_on_def)
      with tgt show ?thesis by (intro ext) (simp add: begin_release_rotation_def)
    qed
    fix E t r w
    show "True \<and> seat_step s t" if "?op E s = Inr (t, r, True)"
      using that by (blast intro: step_begin)
    show "t = s" if "?op E s = Inr (t, r, False)"
      using begin_release_rotation_on_no_write [OF that] by simp
    assume run: "?op E s = Inr (t, r, w)"
    with wrote have run': "?op E s = Inr (t, r, True)" by fastforce
    from begin_commit_begun [OF run'] commit [OF run'] begin_release_rotation_on_inv [OF inv run]
    show "request_post d q s (Inr r) t \<and> (\<forall>r'. Inr r = Inr r' \<longrightarrow> may_rotate d q s \<and>
       begun_for q r' \<and> on_disk r' t \<and> seat_inv t \<and> rr_status r' \<noteq> Complete)"
      by (simp add: request_post_def)
  next
    fix e t assume "t = s \<or> (\<exists>E v. ?op E s = Inr (t, v, True))"
    then show "request_post d q s (Inl (ReleaseRotationError_from_seat e)) t \<and>
      (\<forall>r. Inl (ReleaseRotationError_from_seat e) = Inr r \<longrightarrow> may_rotate d q s \<and>
       begun_for q r \<and> on_disk r t \<and> seat_inv t \<and> rr_status r \<noteq> Complete)"
      using commit by (auto simp: request_post_def)
  qed
  with False show ?thesis by (simp add: begin_under_template_def)
qed

definition request_new_post ::
  "id \<Rightarrow> ReleaseRotationRequest \<Rightarrow> SeatOccupancySnapshot \<Rightarrow>
     ReleaseRotationError + ReleaseRotationReceipt \<Rightarrow> SeatOccupancySnapshot \<Rightarrow> bool" where
  "request_new_post d q s res t \<longleftrightarrow>
     rotation_post (req_action_id q) res t \<and> (t = s \<or> may_rotate d q s)
     \<and> (\<forall>rc. res = Inr rc \<longrightarrow> may_rotate d q s
         \<and> rc_predecessor_cutex_session rc = req_expected_predecessor_cutex_session q
         \<and> rc_predecessor_seat_epoch rc = req_expected_seat_epoch q)"

lemma run_request_begin:
  fixes L :: "'w lifecycle"
  assumes ok: "rot_env_ok R" and inv: "seat_inv s" and tgt: "req_target_seat q = release_seat"
    and new: "bt_get (release_rotations s) (req_action_id q) = None"
  shows "run_from R s (request_director_begin R L d q sha n s)
    (\<lambda>res t. request_post d q s res t \<and> (\<forall>r. res = Inr r \<longrightarrow> \<not> n \<and> may_rotate d q s \<and>
       begun_for q r \<and> on_disk r t \<and> seat_inv t \<and> rr_status r \<noteq> Complete))"
  (is "run_from R s _ ?Q")
proof -
  have same: "?Q (Inl e) s" if "blocked_ok (req_action_id q) e s" for e
    using that by (simp add: request_post_def)
  have held: "run_from R s (with_template_held R (begin_under_template R d q sha) :: ('w, _) prov) ?Q"
    if "\<not> n"
    by (rule run_template_held, rule run_weaken [OF run_begin [OF ok inv tgt new]])
      (use that in \<open>auto simp: request_post_def\<close>)
  have dir: "blocked_ok (req_action_id q) e s" if "check_director s d q = Inl e" for e
    using that by (auto simp: check_director_def res_simps)
  have tpl: "blocked_ok (req_action_id q) e s" if "check_template ts q = Inl e" for ts e
    using that by (auto simp: check_template_def res_simps)
  show ?thesis
    unfolding request_director_begin_def
    by (intro run_stay held same) (auto dest: dir tpl)
qed

lemma run_request_director_new:
  fixes L :: "'w lifecycle"
  assumes ok: "rot_env_ok R" and inv: "seat_inv s" and tgt: "req_target_seat q = release_seat"
    and new: "bt_get (release_rotations s) (req_action_id q) = None"
  shows "run_from R s (rot_bind (request_director_begin R L d q sha n s) (execute R L)) (request_new_post d q s)"
proof (rule run_bind [OF run_request_begin [OF ok inv tgt new]])
  fix r t
  assume "request_post d q s (Inr r) t \<and> (\<forall>r'. Inr r = Inr r' \<longrightarrow> \<not> n \<and> may_rotate d q s \<and>
       begun_for q r' \<and> on_disk r' t \<and> seat_inv t \<and> rr_status r' \<noteq> Complete)"
  then have r: "may_rotate d q s" "rr_action_id r = req_action_id q" "on_disk r t" "seat_inv t"
    "rr_status r \<noteq> Complete" and q: "begun_for q r" by (auto simp: begun_for_def)
  show "run_from R t (execute R L r) (request_new_post d q s)"
  proof (rule run_weaken [OF run_execute [OF ok r(4,3,2,5)]])
    fix res u assume "steps seat_step t u" and post: "rotation_post (req_action_id q) res u"
    with r(2,3) obtain r' where r': "bt_get (release_rotations u) (req_action_id q) = Some r'"
      "rotation_identity r' = rotation_identity r"
      using steps_identity [of t u "req_action_id q" r] by (auto simp: on_disk_def)
    then have "rr_predecessor_cutex_session r' = req_expected_predecessor_cutex_session q"
      "rr_predecessor_seat_epoch r' = req_expected_seat_epoch q"
      using q by (auto simp: begun_for_def rotation_identity_def)
    with post r' r(1) show "request_new_post d q s res u"
      by (auto simp: request_new_post_def rotation_post_def ReleaseRotationReceipt_from_def)
  qed
qed (auto simp: request_new_post_def request_post_def rotation_post_def)

text \<open>
  The whole request: replay of a known action id, or a new rotation. A replay writes nothing; it is
  answered with the receipt of the stored record when the digest of the request is the stored one.
\<close>

definition request_replay_post ::
  "rot_env \<Rightarrow> ReleaseRotationRequest \<Rightarrow> ReleaseRotationRecord \<Rightarrow> SeatOccupancySnapshot \<Rightarrow>
     ReleaseRotationError + ReleaseRotationReceipt \<Rightarrow> SeatOccupancySnapshot \<Rightarrow> bool" where
  "request_replay_post R q r s res t \<longleftrightarrow> t = s \<and> (case res of
     Inl e \<Rightarrow> blocked_ok (req_action_id q) e t
   | Inr rc \<Rightarrow> rc = ReleaseRotationReceipt_from r \<and>
       template_digest (re_json_request R) (re_sha256_hex R) q = Inr (rr_request_sha256 r))"

lemma run_request_director:
  fixes L :: "'w lifecycle"
  assumes ok: "rot_env_ok R" and inv: "seat_inv s"
  shows "run_from R s (request_director R L d q n) (\<lambda>res t.
    case bt_get (release_rotations s) (req_action_id q) of
      Some r \<Rightarrow> request_replay_post R q r s res t
    | None \<Rightarrow> request_new_post d q s res t)" (is "run_from R s _ ?Q")
proof -
  have same: "?Q (Inl e) s" if "blocked_ok (req_action_id q) e s" for e
    using that by (simp add: request_new_post_def request_replay_post_def rotation_post_def split: option.split)
  have "blocked_ok (req_action_id q) e s" if "validate_request q = Inl e" for e
    using that by (auto simp: validate_request_def split: if_splits)
  moreover have "req_target_seat q = release_seat" if "validate_request q = Inr ()"
    using that by (auto simp: validate_request_def split: if_splits)
  moreover have "run_from R s (rot_bind (seat_call R (\<lambda>E. query)) (\<lambda>snapshot.
     case bt_get (release_rotations snapshot) (req_action_id q) of
       Some existing \<Rightarrow>
         if rr_request_sha256 existing \<noteq> sha
         then rot_fail (Rot_Conflict ''action_id_payload_conflict'')
         else rot_return (ReleaseRotationReceipt_from existing)
     | None \<Rightarrow> rot_bind (request_director_begin R L d q sha n snapshot) (execute R L)) :: ('w, _) prov) ?Q"
    if tgt: "req_target_seat q = release_seat"
      and sha: "template_digest (re_json_request R) (re_sha256_hex R) q = Inr sha" for sha
  proof (rule run_bind [where M = "\<lambda>res t. t = s \<and> (\<forall>x. res = Inr x \<longrightarrow> x = s)
      \<and> (\<forall>e. res = Inl e \<longrightarrow> blocked_ok (req_action_id q) e s)"], goal_cases)
    case 1
    show ?case by (rule run_query [OF ok]) auto
  next
    case (3 x t)
    then have [simp]: "x = s" "t = s" by auto
    show ?case
    proof (cases "bt_get (release_rotations s) (req_action_id q)")
      case None
      with run_request_director_new [OF ok inv tgt None, of L d sha n] show ?thesis by simp
    next
      case (Some r)
      with sha show ?thesis by (auto simp: request_replay_post_def intro!: run_fail run_return)
    qed
  qed (use same in auto)
  ultimately show ?thesis
    unfolding request_director_def
    by (intro run_stay same) (auto simp: res_simps)
qed

section \<open>Retries\<close>

definition correct_post ::
  "id \<Rightarrow> ReleaseRotationError + ReleaseRotationRecord \<Rightarrow> SeatOccupancySnapshot \<Rightarrow> bool" where
  "correct_post a res t \<longleftrightarrow> (case res of
     Inl e \<Rightarrow> blocked_ok a e t
   | Inr r \<Rightarrow> rr_action_id r = a \<and> on_disk r t \<and> seat_inv t \<and> rr_status r \<noteq> Complete)"

lemma run_correct_mutate:
  assumes ok: "rot_env_ok R" and inv: "seat_inv s" and r: "on_disk r s" and a: "rr_action_id r = a"
    and f: "admissible_at s (rr_action_id r) f"
    and call: "\<And>E C. call E C = mutate_release_rotation E C (rr_action_id r) sha f"
  shows "run_from R s (seat_call R call :: ('w, _) prov) (correct_post a)"
  by (rule run_mutate [OF ok inv r f call])
    (use a in \<open>auto simp: correct_post_def rotation_change_ok_def\<close>)

lemma resume_clean_admissible: "admissible_change (resume_clean_change x)"
  by (auto simp: admissible_change_def resume_clean_change_def rotation_change_ok_def split: if_splits)

lemma run_resume_uncorrected:
  assumes ok: "rot_env_ok R" and inv: "seat_inv s" and r: "on_disk r s" and a: "rr_action_id r = a"
  shows "run_from R s (resume_uncorrected R r q step :: ('w, _) prov) (correct_post a)"
  unfolding resume_uncorrected_def
  by (auto intro!: run_fail run_correct_mutate [OF ok inv r a]
        admissible_change_at [OF resume_interrupted_admissible]
      simp: correct_post_def resume_interrupted_release_rotation_def)

lemma run_resume_clean:
  fixes L :: "'w lifecycle"
  assumes ok: "rot_env_ok R" and inv: "seat_inv s" and r: "on_disk r s" and a: "rr_action_id r = a"
  shows "run_from R s (resume_clean_synchronous_thread_start R L r) (correct_post a)"
  unfolding resume_clean_synchronous_thread_start_def
  by (intro run_stay run_correct_mutate [OF ok inv r a])
    (auto simp: correct_post_def res_simps intro: admissible_change_at resume_clean_admissible)

lemma run_apply_explicit:
  fixes L :: "'w lifecycle"
  assumes ok: "rot_env_ok R" and inv: "seat_inv s" and r: "on_disk r s" and a: "rr_action_id r = a"
    and nc: "rr_status r \<noteq> Complete"
    and exp: "retry_expected_completed_boundary q = rr_completed_boundary r"
  shows "run_from R s (apply_explicit_correction R L r q) (correct_post a)"
proof -
  let ?session = "\<lambda>res t. t = s \<and> (\<forall>x. res = Inr x \<longrightarrow> x \<noteq> rr_predecessor_cutex_session r)
      \<and> (\<forall>e. res = Inl e \<longrightarrow> blocked_ok a e s)"
  let ?thread = "\<lambda>res t. t = s \<and> (\<forall>e. res = Inl e \<longrightarrow> blocked_ok a e s)"
  have session: "run_from R s (require_verified_successor_session L r cs ct) ?session" for cs ct
    unfolding require_verified_successor_session_def
    by (intro run_stay run_return) (auto simp: res_simps)
  have thread: "run_from R s (require_verified_successor_thread L r cs ct) ?thread" for cs ct
    unfolding require_verified_successor_thread_def
    by (intro run_stay run_return) (auto simp: res_simps)
  have finish: "run_from R s (finish_pending_correction R r (rr_completed_boundary r) st b f :: ('w, _) prov) (correct_post a)"
    if "boundary_rank (rr_completed_boundary r) < boundary_rank b" "boundary_rank b < 6"
      "f = (\<lambda>r. r) \<or> (\<exists>x. f = (\<lambda>r. r\<lparr>rr_successor_thread_id := Some x\<rparr>))
        \<or> (\<exists>x. x \<noteq> rr_predecessor_cutex_session r \<and> f = (\<lambda>r. r\<lparr>rr_successor_cutex_session := Some x\<rparr>))" for st b f
    unfolding finish_pending_correction_def
    by (rule run_correct_mutate [OF ok inv r a finish_pending_admissible(2) [OF r that]]) simp
  have stay: "correct_post a (Inr r) s"
    using inv r a nc by (simp add: correct_post_def)
  show ?thesis
  proof (cases "rr_completed_boundary r")
    case PredecessorRetired
    show ?thesis
      unfolding apply_explicit_correction_def PredecessorRetired ReleaseRotationBoundary.case
      by (rule run_bind [OF session])
        (use PredecessorRetired exp in \<open>auto simp: correct_post_def intro!: finish [unfolded PredecessorRetired]\<close>)
  next
    case SuccessorSessionCreated
    show ?thesis
      unfolding apply_explicit_correction_def SuccessorSessionCreated ReleaseRotationBoundary.case
      by (rule run_bind [OF thread])
        (use SuccessorSessionCreated exp in \<open>auto simp: correct_post_def intro!: finish [unfolded SuccessorSessionCreated]\<close>)
  qed (use stay in \<open>auto simp: apply_explicit_correction_def correct_post_def intro!: run_fail run_return\<close>)
qed

lemma run_correct_blocked:
  fixes L :: "'w lifecycle"
  assumes ok: "rot_env_ok R" and inv: "seat_inv s" and r: "on_disk r s" and a: "rr_action_id r = a"
    and nc: "rr_status r \<noteq> Complete"
    and exp: "retry_expected_completed_boundary q = rr_completed_boundary r"
  shows "run_from R s (correct_blocked R L r q) (correct_post a)"
  unfolding correct_blocked_def
  by (auto split: option.split intro!: run_fail run_apply_explicit [OF assms]
      run_resume_uncorrected [OF ok inv r a] run_resume_clean [OF ok inv r a] simp: correct_post_def)

text \<open>A retry of a record that is not complete ends as a whole rotation does.\<close>

lemma run_retry_root:
  fixes L :: "'w lifecycle"
  assumes ok: "rot_env_ok R" and inv: "seat_inv s"
    and r: "bt_get (release_rotations s) (retry_action_id q) = Some r" and nc: "rr_status r \<noteq> Complete"
  shows "run_from R s (retry_root R L q) (rotation_post (retry_action_id q))"
proof -
  let ?a = "retry_action_id q" and ?Q = "rotation_post (retry_action_id q)"
  have a: "rr_action_id r = ?a" "on_disk r s"
    using inv_rotationsD [OF inv r] r by (auto simp: rotation_ok_def on_disk_def)
  have same: "?Q (Inl e) s" if "blocked_ok ?a e s" for e
    using that by (simp add: rotation_post_def)
  have exec: "run_from R s (rot_bind (correct_blocked R L r q) (execute R L)) ?Q"
    if "retry_expected_completed_boundary q = rr_completed_boundary r"
    by (rule run_bind [OF run_correct_blocked [OF ok inv a(2,1) nc that]])
      (auto simp: correct_post_def rotation_post_def intro!: run_execute [OF ok])
  show ?thesis
    unfolding retry_root_def
  proof (rule run_bind [where M = "\<lambda>res t. t = s \<and> (\<forall>x. res = Inr x \<longrightarrow> x = s)
      \<and> (\<forall>e. res = Inl e \<longrightarrow> blocked_ok ?a e s)"], goal_cases)
    case 1
    show ?case by (rule run_query [OF ok]) auto
  next
    case (3 x t)
    then have [simp]: "x = s" "t = s" by auto
    show ?case
      by (intro run_stay same)
        (auto simp: r nc intro!: exec run_fail same split: ReleaseRotationStatus.split)
  qed (use same in auto)
qed

section \<open>The number of store calls\<close>

definition calls_at_most :: "nat \<Rightarrow> ('w, 'a) prov \<Rightarrow> bool" where
  "calls_at_most n m \<longleftrightarrow> (\<forall>st. rs_tick (snd (m st)) \<le> rs_tick st + n)"

named_theorems call_rules \<open>bounds on the store calls of a program\<close>

lemma calls_weaken: "calls_at_most n m \<Longrightarrow> n \<le> k \<Longrightarrow> calls_at_most k m"
  unfolding calls_at_most_def by (meson add_left_mono order_trans)

lemma calls_basic [call_rules]:
  "calls_at_most 0 (rot_return x)" "calls_at_most 0 (rot_fail e)" "calls_at_most 0 (rot_lift r)"
  "calls_at_most 0 (life_call c)" "calls_at_most (Suc 0) (seat_call R f)"
  by (auto simp: calls_at_most_def rot_return_def rot_fail_def rot_lift_def life_call_def seat_call_def
      Let_def split: prod.splits)

lemma calls_bind:
  fixes m :: "('w, 'a) prov"
  assumes "calls_at_most n m" and "\<And>x. calls_at_most k (f x)"
  shows "calls_at_most (n + k) (rot_bind m f)"
  unfolding calls_at_most_def
proof
  fix st :: "'w rot_state"
  obtain r st1 where m: "m st = (r, st1)" by (cases "m st")
  then have le: "rs_tick st1 \<le> rs_tick st + n" using assms(1) by (metis calls_at_most_def snd_conv)
  show "rs_tick (snd (rot_bind m f st)) \<le> rs_tick st + (n + k)"
  proof (cases r)
    case (Inl e)
    then have "rot_bind m f st = (Inl e, st1)" using m by (simp add: rot_bind_def)
    with le show ?thesis by simp
  next
    case (Inr x)
    then have "rot_bind m f st = f x st1" using m by (simp add: rot_bind_def)
    moreover have "rs_tick (snd (f x st1)) \<le> rs_tick st1 + k"
      using assms(2) by (simp add: calls_at_most_def)
    ultimately have "rs_tick (snd (rot_bind m f st)) \<le> rs_tick st1 + k" by simp
    with le show ?thesis by linarith
  qed
qed

lemma calls_life_bind:
  "(\<And>x. calls_at_most k (f x)) \<Longrightarrow> calls_at_most k (rot_bind (life_call c) f)"
  using calls_bind [OF calls_basic(4)] by fastforce

lemma calls_blocked [call_rules]:
  "calls_at_most (Suc 0) (blocked R r reason)" "calls_at_most (Suc 0) (blocked_external R r e)"
  using calls_bind [OF calls_basic(5) calls_basic(2)] by (simp_all add: blocked_def blocked_external_def)

lemma calls_pending [call_rules]:
  "calls_at_most (Suc 0) (mark_pending R r step)" "calls_at_most (Suc 0) (finish_pending R r step b f)"
  by (simp_all add: mark_pending_def finish_pending_def calls_basic)

text \<open>A pending mark, a lifecycle call and one more store call.\<close>

lemma calls_two:
  fixes f :: "ReleaseRotationRecord \<Rightarrow> bytes + 'b \<Rightarrow> ('w, 'c) prov"
  assumes "\<And>p x. calls_at_most (Suc 0) (f p x)"
  shows "calls_at_most 2 (rot_bind (mark_pending R r step) (\<lambda>p. rot_bind (life_call (c p)) (f p)))"
  using calls_bind [OF calls_pending(1) calls_bind [OF calls_basic(4) assms]] by (simp add: numeral_2_eq_2)

lemma calls_with_successor:
  assumes "\<And>x. calls_at_most 2 (f x)"
  shows "calls_at_most 2 (with_successor R r f)"
  using assms by (auto simp: with_successor_def intro: calls_weaken [OF calls_blocked(1)] split: option.split)

lemma calls_external_unit: "calls_at_most 2 (external_unit_step R r step b op)"
  unfolding external_unit_step_def
  by (rule calls_two) (auto intro: call_rules split: sum.split)

lemma calls_execute_step:
  fixes L :: "'w lifecycle"
  shows "calls_at_most 2 (execute_step R L r)"
proof -
  have "calls_at_most 2 (create_successor_step R L r)"
    unfolding create_successor_step_def by (rule calls_two) (auto intro: call_rules split: sum.split)
  moreover have "calls_at_most 2 (start_thread_step R L r)"
    unfolding start_thread_step_def
    by (rule calls_with_successor, rule calls_life_bind)
      (auto intro!: calls_two intro: call_rules calls_weaken [OF calls_blocked(2)] split: sum.split)
  moreover have "calls_at_most 2 (bind_successor_step R r :: ('w, _) prov)"
    unfolding bind_successor_step_def
    by (rule calls_with_successor) (simp add: calls_weaken [OF calls_basic(5)])
  moreover have "calls_at_most 2 (deliver_message_step R L r)"
    unfolding deliver_message_step_def
    by (rule calls_with_successor, rule calls_two) (auto intro: call_rules split: sum.split)
  ultimately show ?thesis
    by (auto simp: execute_step_def calls_external_unit calls_weaken [OF calls_basic(1)]
        intro!: calls_with_successor split: ReleaseRotationBoundary.split)
qed

lemma calls_execute:
  "rs_tick (snd (execute R L r st)) \<le> rs_tick st + 2 * (7 - boundary_rank (rr_completed_boundary r))"
proof (induction R L r st rule: execute.induct)
  case (1 R L r st)
  show ?case
  proof (cases "rr_completed_boundary r = DirectorMessageDelivered")
    case False
    obtain res st1 where s: "execute_step R L r st = (res, st1)" by (cases "execute_step R L r st")
    then have le: "rs_tick st1 \<le> rs_tick st + 2"
      using calls_execute_step [of R L r] by (metis calls_at_most_def snd_conv)
    have "boundary_rank (rr_completed_boundary r) < 7"
      using False boundary_rank_le [of "rr_completed_boundary r"]
        boundary_rank_inj [of "rr_completed_boundary r" DirectorMessageDelivered]
      by (cases "boundary_rank (rr_completed_boundary r) = 7") auto
    then have room: "rs_tick st + 2 \<le> rs_tick st + 2 * (7 - boundary_rank (rr_completed_boundary r))" by simp
    show ?thesis
    proof (cases res)
      case (Inr r')
      show ?thesis
      proof (cases "rr_status r' = Complete")
        case nc: False
        from execute_step_rank [OF s [unfolded Inr] False nc]
        have "2 + 2 * (7 - boundary_rank (rr_completed_boundary r')) \<le> 2 * (7 - boundary_rank (rr_completed_boundary r))"
          using boundary_rank_le [of "rr_completed_boundary r'"] by simp
        with "1.IH" [OF False s [symmetric] Inr nc] le show ?thesis
          using False s Inr nc by (simp add: execute.simps [of R L r st])
      qed (use False s Inr le room in \<open>simp add: execute.simps\<close>)
    qed (use False s le room in \<open>simp add: execute.simps\<close>)
  qed (simp add: execute.simps)
qed

end
