(* ===== verification/Release_Claims.thy ===== *)
theory Release_Claims
  imports Seat_Claims Rotation_Properties
begin

text \<open>
  The properties of the Release template store and of the rotation provider, with a concrete
  rotation that runs through all its boundaries.
\<close>

section \<open>A concrete rotation\<close>

text \<open>A table codec indexed by the store revision, for the documents of one run.\<close>

definition revision_enc :: "SeatOccupancySnapshot list \<Rightarrow> SeatOccupancySnapshot \<Rightarrow> bytes option" where
  "revision_enc xs s = (let n = unat (store_revision s) in
     if n < length xs \<and> xs ! n = s then Some (replicate n (CHR ''x'')) else None)"

definition revision_dec :: "SeatOccupancySnapshot list \<Rightarrow> bytes \<Rightarrow> SeatOccupancySnapshot option" where
  "revision_dec xs bs = (if length bs < length xs then Some (xs ! length bs) else None)"

lemma revision_roundtrip: "revision_enc xs s = Some bs \<Longrightarrow> revision_dec xs bs = Some s"
  by (auto simp: revision_enc_def revision_dec_def Let_def split: if_splits)

text \<open>The documents the run goes through, written out.\<close>

definition ex_dir :: "id \<times> SeatOccupancy" where
  "ex_dir = (director_seat, \<lparr>occ_seat_id = director_seat, occ_occupant_cutex_session = ''dir2'',
     occ_epoch = 2, occ_bound_at = ''t0''\<rparr>)"

definition ex_rel :: "id \<Rightarrow> u64 \<Rightarrow> id \<times> SeatOccupancy" where
  "ex_rel x e = (release_seat, \<lparr>occ_seat_id = release_seat, occ_occupant_cutex_session = x,
     occ_epoch = e, occ_bound_at = ''t0''\<rparr>)"

definition ex_vac :: "id \<times> SeatRotatingVacancy" where
  "ex_vac = (release_seat, \<lparr>vac_seat_id = release_seat, vac_action_id = ''r1'', vac_request_sha256 = zero_sha256,
     vac_predecessor_cutex_session = ''rel1'', vac_epoch = 1, vac_vacated_at = ''t0''\<rparr>)"

definition ex_rcpt :: "id \<Rightarrow> bytes \<Rightarrow> u64 \<Rightarrow> id \<times> SeatOccupancy \<Rightarrow> id \<times> SeatOccupancyReceipt" where
  "ex_rcpt a h n oc = (a, \<lparr>rcpt_action_id = a, rcpt_request_sha256 = h, rcpt_store_revision = n,
     rcpt_occupancy = snd oc\<rparr>)"

lemma ex_s3_code [code]:
  "ex_s3 = \<lparr>store_revision = 3, occupancies = [ex_dir, ex_rel ''rel1'' 1],
     receipts = [ex_rcpt ''a1'' ''ha1|cutex-director'' 1
         (director_seat, \<lparr>occ_seat_id = director_seat, occ_occupant_cutex_session = ''dir1'',
            occ_epoch = 1, occ_bound_at = ''t0''\<rparr>),
       ex_rcpt ''a2'' ''ha2|cutex-release'' 2 (ex_rel ''rel1'' 1),
       ex_rcpt ''a3'' ''ha3|dir2'' 3 ex_dir],
     active_director_transfer = Some ''a3'', rotating_vacancies = [], release_rotations = [],
     active_release_rotation = None\<rparr>"
  by code_simp

definition ex_record ::
  "ReleaseRotationBoundary \<Rightarrow> ReleaseRotationExternalStep option \<Rightarrow> ReleaseRotationRecord" where
  "ex_record b step = \<lparr>rr_action_id = ''r1'', rr_request_sha256 = zero_sha256,
     rr_director_cutex_session = ''dir2'', rr_target_seat = release_seat,
     rr_predecessor_cutex_session = ''rel1'', rr_predecessor_seat_epoch = 1, rr_template = ex_template,
     rr_template_sha256 = zero_sha256, rr_starting_message = ''go'',
     rr_status = (if b = DirectorMessageDelivered then Complete else Running),
     rr_completed_boundary = b, rr_pending_external_step = step,
     rr_successor_cutex_session = (if 3 \<le> boundary_rank b then Some ''rel2'' else None),
     rr_successor_thread_id = (if 4 \<le> boundary_rank b then Some ''th2'' else None),
     rr_successor_seat_epoch = (if 6 \<le> boundary_rank b then Some 2 else None),
     rr_delivered_message_id = (if b = DirectorMessageDelivered then Some ''m1'' else None),
     rr_blocked_reason = None, rr_created_at = ''t0'', rr_updated_at = ''t0'',
     rr_completed_at = (if b = DirectorMessageDelivered then Some ''t0'' else None)\<rparr>"

definition ex_doc ::
  "u64 \<Rightarrow> ReleaseRotationBoundary \<Rightarrow> ReleaseRotationExternalStep option \<Rightarrow> SeatOccupancySnapshot" where
  "ex_doc n b step = \<lparr>store_revision = n,
     occupancies = (if 6 \<le> boundary_rank b then [ex_dir, ex_rel ''rel2'' 2] else [ex_dir]),
     receipts = receipts ex_s3, active_director_transfer = Some ''a3'',
     rotating_vacancies = (if 6 \<le> boundary_rank b then [] else [ex_vac]),
     release_rotations = [(''r1'', ex_record b step)],
     active_release_rotation = (if b = DirectorMessageDelivered then None else Some ''r1'')\<rparr>"

definition ex_run :: "SeatOccupancySnapshot list" where
  "ex_run = [SeatOccupancySnapshot_empty, SeatOccupancySnapshot_empty, SeatOccupancySnapshot_empty,
     ex_s3,
     ex_doc 4 SeatRevoked None,
     ex_doc 5 SeatRevoked (Some OfflinePredecessor),
     ex_doc 6 PredecessorOfflined None,
     ex_doc 7 PredecessorOfflined (Some RetirePredecessor),
     ex_doc 8 PredecessorRetired None,
     ex_doc 9 PredecessorRetired (Some CreateSuccessorSession),
     ex_doc 10 SuccessorSessionCreated None,
     ex_doc 11 SuccessorSessionCreated (Some StartSuccessorThread),
     ex_doc 12 SuccessorThreadStarted None,
     ex_doc 13 SuccessorThreadStarted (Some LaunchSuccessorRuntime),
     ex_doc 14 SuccessorRuntimeOnline None,
     ex_doc 15 SuccessorBound None,
     ex_doc 16 SuccessorBound (Some DeliverDirectorMessage),
     ex_doc 17 DirectorMessageDelivered None]"

definition ex_life :: "nat lifecycle" where
  "ex_life = \<lparr>preflight_successor = (\<lambda>t w. (Inr (), w)),
    predecessor_has_active_turn = (\<lambda>p w. (Inr False, w)),
    predecessor_thread_id = (\<lambda>p w. (Inr (Some ''th1''), w)),
    offline_predecessor = (\<lambda>p w. (Inr (), w + 1)),
    retire_predecessor = (\<lambda>p w. (Inr (), w + 1)),
    create_successor_session = (\<lambda>t w. (Inr ''rel2'', w + 1)),
    verify_successor_session = (\<lambda>s t w. (Inr True, w)),
    start_successor_thread = (\<lambda>s t w. (Inr ''th2'', w + 1)),
    verify_successor_thread = (\<lambda>s t w. (Inr True, w)),
    launch_successor_runtime = (\<lambda>s w. (Inr (), w + 1)),
    deliver_director_message = (\<lambda>d s a m w. (Inr ''m1'', w + 1))\<rparr>"

definition ex_templates :: ReleaseTemplateSnapshot where
  "ex_templates = \<lparr>rts_store_revision = 1, rts_current_template = Some ex_template,
     rts_current_template_sha256 = Some zero_sha256, rts_receipts = []\<rparr>"

definition ex_rot_env :: rot_env where
  "ex_rot_env = \<lparr>re_seat_codec = \<lparr>seat_to_vec = revision_enc ex_run, seat_from_slice = revision_dec ex_run\<rparr>,
     re_template_codec = \<lparr>template_to_vec = table_enc [ex_templates], template_from_slice = table_dec [ex_templates]\<rparr>,
     re_calls = (\<lambda>_. (ex_env, io_fine)), re_json_request = (\<lambda>q. Some (req_action_id q)),
     re_sha256_hex = (\<lambda>_. zero_sha256)\<rparr>"

definition ex_rot_state :: "nat rot_state" where
  "ex_rot_state = \<lparr>rs_world = 0, rs_seats = \<lparr>lock_file = True, store_file = Some ''xxx''\<rparr>,
     rs_templates = \<lparr>lock_file = True, store_file = Some []\<rparr>, rs_tick = 0\<rparr>"

lemma ex_rot_env_ok: "rot_env_ok ex_rot_env"
  by (simp add: rot_env_ok_def doc_roundtrip_def seat_doc_def ex_rot_env_def revision_roundtrip)

definition ex_rot_result where
  "ex_rot_result = request_director ex_rot_env ex_life ''dir2'' ex_rotation False ex_rot_state"

lemma ex_rot_success: "case fst ex_rot_result of Inl e \<Rightarrow> False | Inr rc \<Rightarrow> True"
  by code_simp

lemma ex_rot_start:
  "disk ex_rot_env ex_rot_state = Some ex_s3" "doc_wf (rs_seats ex_rot_state)"
  "bt_get (release_rotations ex_s3) (req_action_id ex_rotation) = None"
proof -
  show "disk ex_rot_env ex_rot_state = Some ex_s3"
    by (simp add: disk_def doc_state_def seat_doc_def ex_rot_env_def ex_rot_state_def revision_dec_def
        ex_run_def)
  show "doc_wf (rs_seats ex_rot_state)"
    by (simp add: doc_wf_def ex_rot_state_def)
  show "bt_get (release_rotations ex_s3) (req_action_id ex_rotation) = None"
    by code_simp
qed

lemma run_fromD:
  assumes "run_from R s m Q" and "disk R st = Some s" and "doc_wf (rs_seats st)" and "m st = (res, st')"
  shows "\<exists>t. disk R st' = Some t \<and> doc_wf (rs_seats st') \<and> steps seat_step s t \<and> Q res t"
proof -
  have "\<exists>t. disk R (snd (m st)) = Some t \<and> doc_wf (rs_seats (snd (m st))) \<and> steps seat_step s t \<and> Q (fst (m st)) t"
    using assms(1-3) unfolding run_from_def by blast
  with assms(4) show ?thesis by simp
qed

section \<open>Release templates\<close>

text \<open>
  C7: templates are versioned without gaps: in every state the template store can reach, the store
  revision is the current template version, every version from one up to it was configured by
  exactly one action, and the current template passed validation.
\<close>

theorem template_versions_dense:
  assumes "reach (\<lambda>s. s = ReleaseTemplateSnapshot_empty) template_step s"
  shows "rts_store_revision s = template_version_of s
    \<and> (\<forall>n. 0 < n \<longrightarrow> n \<le> unat (template_version_of s) \<longrightarrow> (\<exists>!a. receipt_for s n a))
    \<and> (\<forall>t. rts_current_template s = Some t \<longrightarrow> validate_template t = Inr ())"
  using template_runs.reach_inv [OF assms]
  by (auto simp: template_inv_def template_current_ok_def split: option.splits)

definition ex_configure :: ConfigureReleaseTemplateRequest where
  "ex_configure = \<lparr>cfg_action_id = ''t1'', cfg_expected_current_version = None, cfg_template = ex_template\<rparr>"

definition ex_template_env :: template_env where
  "ex_template_env = \<lparr>json_configure = (\<lambda>q. Some (cfg_action_id q)), json_template = (\<lambda>t. Some (tpl_cwd t)),
     tpl_sha256_hex = (\<lambda>_. zero_sha256), tpl_now = ''t0''\<rparr>"

definition ex_configured where
  "ex_configured = next_state (configure_on ex_template_env ex_configure ReleaseTemplateSnapshot_empty)
     ReleaseTemplateSnapshot_empty"

lemma ex_configure_commits:
  "case configure_on ex_template_env ex_configure ReleaseTemplateSnapshot_empty of Inl _ \<Rightarrow> False | Inr (_, _, w) \<Rightarrow> w"
  by code_simp

lemmas ex_configure_run = next_state_Inr [OF ex_configure_commits, of ReleaseTemplateSnapshot_empty,
    folded ex_configured_def]

lemma ex_template_reachable:
  "reach (\<lambda>s. s = ReleaseTemplateSnapshot_empty) template_step ReleaseTemplateSnapshot_empty"
  "reach (\<lambda>s. s = ReleaseTemplateSnapshot_empty) template_step ex_configured"
proof -
  show 1: "reach (\<lambda>s. s = ReleaseTemplateSnapshot_empty) template_step ReleaseTemplateSnapshot_empty"
    by (rule reach.reach_init) simp
  show "reach (\<lambda>s. s = ReleaseTemplateSnapshot_empty) template_step ex_configured"
    by (rule reach_step [OF 1 step_configure [OF ex_configure_run]])
qed

theorem template_versions_dense_witness:
  "\<exists>!a. receipt_for ex_configured 1 a"
proof -
  have "template_version_of ex_configured = 1" by code_simp
  with template_versions_dense [OF ex_template_reachable(2)] show ?thesis by simp
qed

text \<open>
  Configuring a template never overwrites a concurrent configuration: after a commit, every
  further request of another action that still expects the version seen before that commit is
  refused, whatever happened in between.
\<close>

theorem template_no_lost_update:
  assumes "reach (\<lambda>s. s = ReleaseTemplateSnapshot_empty) template_step s"
    and commit: "configure_on E q s = Inr (t, rc, True)"
    and run: "steps template_step t u"
    and same: "cfg_expected_current_version q' = cfg_expected_current_version q"
  shows "configure_on E' q' u \<noteq> Inr (v, rc', True)"
proof
  assume again: "configure_on E' q' u = Inr (v, rc', True)"
  have inv: "template_inv s" by (rule template_runs.reach_inv [OF assms(1)])
  have "unat (template_version_of t) \<le> unat (template_version_of u)"
    using template_runs.steps_rank [OF run configure_on_inv [OF inv commit]] by simp
  moreover have "unat (template_version_of s) < unat (template_version_of t)"
    using configure_on_commit [OF commit] configure_on_inv [OF inv commit] inv
    by (auto simp: template_inv_def template_version_of_def dest: json_safe_succ_Some)
  moreover have "map_option tpl_version (rts_current_template u) = map_option tpl_version (rts_current_template s)"
    using configure_on_commit [OF commit] configure_on_commit [OF again] same by metis
  then have "template_version_of u = template_version_of s"
    by (auto simp: template_version_of_def split: option.splits)
  ultimately show False by simp
qed

theorem template_no_lost_update_witness:
  "configure_on ex_template_env (ex_configure\<lparr>cfg_action_id := ''t2''\<rparr>) ex_configured
     \<noteq> Inr (ex_configured, the (answer_of (configure_on ex_template_env ex_configure
         ReleaseTemplateSnapshot_empty)), True)"
  using template_no_lost_update [OF ex_template_reachable(1) ex_configure_run steps_refl,
      of "ex_configure\<lparr>cfg_action_id := ''t2''\<rparr>"]
  by (simp add: ex_configure_def)

text \<open>
  Normalising a list of agent groups is idempotent, its result has no duplicates, and every
  name in it is at most 80 bytes of lower-case letters, digits and the separators the bus uses,
  without a separator at either end or two dashes in a row.
\<close>

theorem agent_groups_normal_form:
  "normalize_agent_groups (normalize_agent_groups gs) = normalize_agent_groups gs
     \<and> distinct (normalize_agent_groups gs) \<and> list_all group_normal (normalize_agent_groups gs)"
  using normalize_groups_loop_normal [of "[]" gs] normalize_groups_loop_fixed [of "[]" "normalize_agent_groups gs"]
  by (simp add: normalize_agent_groups_def)

section \<open>Rotations\<close>

text \<open>
  C8: What a success of a Director's request means, whatever the lifecycle answered and wherever the
  operating system failed. An answer \<open>Ok\<close> to a new action id means that the seat was rotated: the
  requester held the Director seat and named the current holder and epoch of the Release seat, and
  afterwards the document on disk is a reachable state with no rotation active, the Release
  seat held by the successor of the receipt, who is not the predecessor, at exactly one epoch later.
  An answer \<open>Ok\<close> to an action id that is already recorded is a replay: nothing was written, the
  request has the recorded digest, and the receipt is that of the record as it stands, which may be
  running or blocked; who asks is not checked.
\<close>

theorem rotation_success_seats_successor:
  assumes "rot_env_ok R" and "disk R st = Some s" and "doc_wf (rs_seats st)" and "seat_reachable s"
    and "request_director R L d q n st = (Inr rc, st')"
  shows "\<exists>t. disk R st' = Some t \<and> seat_reachable t \<and> (case bt_get (release_rotations s) (req_action_id q) of
      None \<Rightarrow> may_rotate d q s
        \<and> rc_status rc = Complete \<and> active_release_rotation t = None
        \<and> seat_holder t release_seat = rc_successor_cutex_session rc
        \<and> rc_successor_cutex_session rc \<noteq> Some (req_expected_predecessor_cutex_session q)
        \<and> seat_epoch t release_seat = Suc (seat_epoch s release_seat)
    | Some r \<Rightarrow> t = s \<and> rc = ReleaseRotationReceipt_from r
        \<and> template_digest (re_json_request R) (re_sha256_hex R) q = Inr (rr_request_sha256 r))"
proof (cases "bt_get (release_rotations s) (req_action_id q)")
  case (Some r)
  with run_fromD [OF run_request_director [OF assms(1) seat_runs.reach_inv [OF assms(4)]] assms(2,3,5)] assms(4)
  show ?thesis by (auto simp: request_replay_post_def)
next
  case None
  have inv: "seat_inv s" by (rule seat_runs.reach_inv [OF assms(4)])
  from run_fromD [OF run_request_director [OF assms(1) inv] assms(2,3,5)] None
  obtain t where t: "disk R st' = Some t" "steps seat_step s t" "request_new_post d q s (Inr rc) t" by auto
  then obtain r where r: "bt_get (release_rotations t) (req_action_id q) = Some r"
    "rc = ReleaseRotationReceipt_from r" "rr_status r = Complete" "active_release_rotation t = None"
    "successor_seated t r" "may_rotate d q s"
    "rr_predecessor_cutex_session r = req_expected_predecessor_cutex_session q"
    "rr_predecessor_seat_epoch r = req_expected_seat_epoch q"
    by (auto simp: request_new_post_def rotation_post_def ReleaseRotationReceipt_from_def)
  have re: "seat_reachable t" by (rule reach_steps [OF t(2) assms(4)])
  have "rotation_ok (active_release_rotation t) (req_action_id q) r"
    by (rule inv_rotationsD [OF seat_runs.reach_inv [OF re] r(1)])
  with None r re t(1) show ?thesis
    by (auto simp: rotation_ok_def successor_seated_def seat_holder_def seat_epoch_def may_rotate_def
        ReleaseRotationReceipt_from_def)
qed

lemma ex_rot_run: "request_director ex_rot_env ex_life ''dir2'' ex_rotation False ex_rot_state =
    (Inr (projr (fst ex_rot_result)), snd ex_rot_result)"
proof -
  have "fst ex_rot_result = Inr (projr (fst ex_rot_result))"
    using ex_rot_success by (cases "fst ex_rot_result") auto
  then have "ex_rot_result = (Inr (projr (fst ex_rot_result)), snd ex_rot_result)"
    by (metis prod.collapse)
  then show ?thesis unfolding ex_rot_result_def .
qed

theorem rotation_success_seats_successor_witness:
  "\<exists>t. disk ex_rot_env (snd ex_rot_result) = Some t \<and> seat_reachable t
     \<and> active_release_rotation t = None \<and> seat_holder t release_seat \<noteq> Some ''rel1''
     \<and> seat_epoch t release_seat = Suc (seat_epoch ex_s3 release_seat)"
proof -
  have p: "req_expected_predecessor_cutex_session ex_rotation = ''rel1''" by (simp add: ex_rotation_def)
  from rotation_success_seats_successor [OF ex_rot_env_ok ex_rot_start(1,2) ex_reachable(3) ex_rot_run]
  show ?thesis
    unfolding p ex_rot_start(3) by auto
qed

text \<open>
  C9: A Director's request that fails never leaves the seat in between. The document on disk is a
  reachable state; it is the one before the request unless the action id is new, the requester held
  the Director seat and named the current Release holder and epoch. So a request under a recorded
  action id that fails, because its payload differs for instance, changes nothing. When the
  answer is \<open>Blocked\<close>, the receipt is that of the durable record, which is blocked with no external step
  pending, for one of five fixed reasons (never the text of a lifecycle error), and the predecessor
  no longer holds the seat.
\<close>

theorem rotation_failure_is_contained:
  assumes "rot_env_ok R" and "disk R st = Some s" and "doc_wf (rs_seats st)" and "seat_reachable s"
    and "request_director R L d q n st = (Inl e, st')"
  shows "\<exists>t. disk R st' = Some t \<and> seat_reachable t
    \<and> (t = s \<or> bt_get (release_rotations s) (req_action_id q) = None \<and> may_rotate d q s)
    \<and> (\<forall>rc. e = Rot_Blocked rc \<longrightarrow> (\<exists>r. bt_get (release_rotations t) (req_action_id q) = Some r
         \<and> rc = ReleaseRotationReceipt_from r \<and> rr_status r = Blocked
         \<and> rr_pending_external_step r = None \<and> rr_blocked_reason r \<in> Some ` set blocked_reasons
         \<and> active_release_rotation t = Some (req_action_id q)
         \<and> seat_holder t release_seat \<noteq> Some (rr_predecessor_cutex_session r)))"
proof -
  have inv: "seat_inv s" by (rule seat_runs.reach_inv [OF assms(4)])
  from run_fromD [OF run_request_director [OF assms(1) inv] assms(2,3,5)]
  obtain t where t: "disk R st' = Some t" "steps seat_step s t"
    "case bt_get (release_rotations s) (req_action_id q) of
       Some r \<Rightarrow> request_replay_post R q r s (Inl e) t | None \<Rightarrow> request_new_post d q s (Inl e) t" by auto
  then have post: "t = s \<or> bt_get (release_rotations s) (req_action_id q) = None \<and> may_rotate d q s"
    "blocked_ok (req_action_id q) e t"
    by (auto simp: request_new_post_def request_replay_post_def rotation_post_def split: option.splits)
  have re: "seat_reachable t" by (rule reach_steps [OF t(2) assms(4)])
  have "active_release_rotation t = Some (req_action_id q) \<and> seat_holder t release_seat \<noteq> Some (rr_predecessor_cutex_session r)"
    if "bt_get (release_rotations t) (req_action_id q) = Some r" "rr_status r = Blocked" for r
    using unfinished_predecessor_unseated [OF seat_runs.reach_inv [OF re] that(1)] that(2) by simp
  with t(1) post re show ?thesis
    by (auto simp: blocked_ok_def)
qed

definition ex_life_down :: "nat lifecycle" where
  "ex_life_down = ex_life\<lparr>offline_predecessor := (\<lambda>p w. (Inl ''Bearer s3cret'', w))\<rparr>"

definition ex_blocked_record :: ReleaseRotationRecord where
  "ex_blocked_record = (ex_record SeatRevoked None)\<lparr>rr_status := Blocked,
     rr_blocked_reason := Some RELEASE_ROTATION_EXTERNAL_STEP_FAILED\<rparr>"

definition ex_blocked_doc :: SeatOccupancySnapshot where
  "ex_blocked_doc = (ex_doc 6 SeatRevoked None)\<lparr>release_rotations := [(''r1'', ex_blocked_record)]\<rparr>"

definition ex_down_env :: rot_env where
  "ex_down_env = ex_rot_env\<lparr>re_seat_codec := (let docs = [SeatOccupancySnapshot_empty, ex_s1, ex_s2, ex_s3,
       ex_doc 4 SeatRevoked None, ex_doc 5 SeatRevoked (Some OfflinePredecessor), ex_blocked_doc]
     in \<lparr>seat_to_vec = revision_enc docs, seat_from_slice = revision_dec docs\<rparr>)\<rparr>"

definition ex_down_result where
  "ex_down_result = request_director ex_down_env ex_life_down ''dir2'' ex_rotation False ex_rot_state"

lemma ex_down_blocked:
  "case fst ex_down_result of Inl (Rot_Blocked rc) \<Rightarrow> rc = ReleaseRotationReceipt_from ex_blocked_record | _ \<Rightarrow> False"
  by code_simp

lemma ex_down_run:
  "request_director ex_down_env ex_life_down ''dir2'' ex_rotation False ex_rot_state =
     (Inl (Rot_Blocked (ReleaseRotationReceipt_from ex_blocked_record)), snd ex_down_result)"
proof -
  have "fst ex_down_result = Inl (Rot_Blocked (ReleaseRotationReceipt_from ex_blocked_record))"
    using ex_down_blocked by (auto split: sum.splits ReleaseRotationError.splits)
  then have "ex_down_result = (Inl (Rot_Blocked (ReleaseRotationReceipt_from ex_blocked_record)), snd ex_down_result)"
    by (metis prod.collapse)
  then show ?thesis unfolding ex_down_result_def .
qed

lemma ex_down_env_ok: "rot_env_ok ex_down_env"
  by (simp add: rot_env_ok_def doc_roundtrip_def seat_doc_def ex_down_env_def ex_rot_env_def Let_def
      revision_roundtrip)

lemma ex_down_start: "disk ex_down_env ex_rot_state = Some ex_s3"
  by (simp add: seat_doc_def ex_down_env_def ex_rot_env_def Let_def disk_def doc_state_def
      ex_rot_state_def revision_dec_def)

theorem rotation_failure_is_contained_witness:
  "\<exists>t r. disk ex_down_env (snd ex_down_result) = Some t \<and> bt_get (release_rotations t) ''r1'' = Some r
     \<and> rr_status r = Blocked \<and> rr_blocked_reason r \<in> Some ` set blocked_reasons"
proof -
  have a: "req_action_id ex_rotation = ''r1''" by (simp add: ex_rotation_def)
  from rotation_failure_is_contained [OF ex_down_env_ok ex_down_start ex_rot_start(2) ex_reachable(3)
      ex_down_run] show ?thesis
    unfolding a by blast
qed

text \<open>
  A management retry of an unfinished rotation ends as a rotation does. Whatever it answers, the
  document on disk is reachable from the one before; \<open>Ok\<close> means the record is complete and its
  successor seated at the next epoch, \<open>Blocked\<close> means the durable record is blocked for a fixed
  reason; and the rotation is still the one that was recorded: same request, predecessor and epoch.
\<close>

theorem rotation_retry_outcome:
  assumes "rot_env_ok R" and "disk R st = Some s" and "doc_wf (rs_seats st)" and "seat_reachable s"
    and "bt_get (release_rotations s) (retry_action_id q) = Some r" and "rr_status r \<noteq> Complete"
    and "retry_root R L q st = (res, st')"
  shows "\<exists>t r'. disk R st' = Some t \<and> seat_reachable t
    \<and> bt_get (release_rotations t) (retry_action_id q) = Some r' \<and> rotation_identity r' = rotation_identity r
    \<and> (\<forall>rc. res = Inr rc \<longrightarrow> rc = ReleaseRotationReceipt_from r' \<and> rr_status r' = Complete
         \<and> seat_holder t release_seat = rr_successor_cutex_session r'
         \<and> seat_epoch t release_seat = Suc (unat (rr_predecessor_seat_epoch r)))
    \<and> (\<forall>rc. res = Inl (Rot_Blocked rc) \<longrightarrow> rc = ReleaseRotationReceipt_from r' \<and> rr_status r' = Blocked
         \<and> rr_blocked_reason r' \<in> Some ` set blocked_reasons)"
proof -
  have inv: "seat_inv s" by (rule seat_runs.reach_inv [OF assms(4)])
  from run_fromD [OF run_retry_root [OF assms(1) inv assms(5,6)] assms(2,3,7)]
  obtain t where t: "disk R st' = Some t" "steps seat_step s t" "rotation_post (retry_action_id q) res t" by auto
  from steps_identity [OF t(2) assms(5)] obtain r' where
    r': "bt_get (release_rotations t) (retry_action_id q) = Some r'" "rotation_identity r' = rotation_identity r"
    by blast
  have "seat_reachable t" by (rule reach_steps [OF t(2) assms(4)])
  with t r' show ?thesis
    by (intro exI [of _ t] exI [of _ r'])
      (auto simp: rotation_post_def blocked_ok_def successor_seated_def seat_holder_def seat_epoch_def
        rotation_identity_def)
qed

definition ex_b4 :: SeatOccupancySnapshot where
  "ex_b4 = next_state (block_release_rotation_on ex_env ''r1'' zero_sha256 RELEASE_ROTATION_EXTERNAL_STEP_FAILED ex_s4) ex_s4"

lemma ex_block_commits:
  "case block_release_rotation_on ex_env ''r1'' zero_sha256 RELEASE_ROTATION_EXTERNAL_STEP_FAILED ex_s4 of
     Inl _ \<Rightarrow> False | Inr (_, _, w) \<Rightarrow> w"
  by code_simp

lemma ex_b4_reachable: "seat_reachable ex_b4"
  by (rule reach_step [OF ex_reachable(4) step_mutate [OF admissible_change_at [OF block_admissible]
        next_state_Inr [OF ex_block_commits [unfolded block_release_rotation_on_def], of ex_s4,
          folded block_release_rotation_on_def, folded ex_b4_def, unfolded block_release_rotation_on_def]]])

definition ex_retry :: RetryReleaseRotationRequest where
  "ex_retry = \<lparr>retry_action_id = ''r1'', retry_expected_request_sha256 = zero_sha256,
     retry_expected_completed_boundary = SeatRevoked, retry_expected_pending_external_step = None,
     retry_corrected_successor_cutex_session = None, retry_corrected_successor_thread_id = None\<rparr>"

definition ex_retry_env :: rot_env where
  "ex_retry_env = ex_rot_env\<lparr>re_seat_codec := \<lparr>seat_to_vec = table_enc [ex_b4], seat_from_slice = table_dec [ex_b4]\<rparr>\<rparr>"

definition ex_retry_state :: "nat rot_state" where
  "ex_retry_state = ex_rot_state\<lparr>rs_seats := \<lparr>lock_file = True, store_file = Some []\<rparr>\<rparr>"

theorem rotation_retry_outcome_witness:
  "\<exists>t r'. disk ex_retry_env (snd (retry_root ex_retry_env ex_life ex_retry ex_retry_state)) = Some t
     \<and> seat_reachable t \<and> bt_get (release_rotations t) ''r1'' = Some r' \<and> rr_predecessor_cutex_session r' = ''rel1''"
proof -
  have env: "rot_env_ok ex_retry_env"
    by (simp add: rot_env_ok_def doc_roundtrip_def seat_doc_def ex_retry_env_def ex_rot_env_def table_roundtrip)
  have "disk ex_retry_env ex_retry_state = Some ex_b4" "doc_wf (rs_seats ex_retry_state)"
    by (simp_all add: seat_doc_def ex_retry_env_def ex_rot_env_def disk_def doc_state_def
        ex_retry_state_def table_dec_def doc_wf_def)
  note ok = env this
  have r: "map_option (\<lambda>r. (rr_status r \<noteq> Complete, rr_predecessor_cutex_session r))
      (bt_get (release_rotations ex_b4) (retry_action_id ex_retry)) = Some (True, ''rel1'')"
    by code_simp
  then obtain r where r: "bt_get (release_rotations ex_b4) (retry_action_id ex_retry) = Some r"
    "rr_status r \<noteq> Complete" "rr_predecessor_cutex_session r = ''rel1''" by auto
  have a: "retry_action_id ex_retry = ''r1''" by (simp add: ex_retry_def)
  from rotation_retry_outcome [OF ok ex_b4_reachable r(1,2) prod.collapse [symmetric], of ex_life] r(3)
  show ?thesis unfolding a by (auto simp: rotation_identity_def)
qed

text \<open>
  C10: driving a rotation ends. From any record, the loop makes at most two store calls for each
  boundary still ahead, fourteen in all, whatever the lifecycle and the stores answer, and then
  returns.
\<close>

theorem rotation_loop_bound:
  "rs_tick (snd (execute R L r st)) \<le> rs_tick st + 2 * (7 - boundary_rank (rr_completed_boundary r))"
  by (rule calls_execute)

text \<open>
  Redaction looks for its markers one after the other and cuts the reason at the first marker
  of the list that occurs, not at the one that occurs first. A reason with a bearer token after a
  \<open>token=\<close> assignment keeps the assignment.
\<close>

theorem sanitize_reason_keeps_earlier_token:
  "sanitize_reason ''token=abc Bearer xyz'' = ''token=abc [redacted]''"
  by code_simp

end
