(* ===== verification/Task_Model.thy ===== *)
theory Task_Model
  imports Typed_Values Durable_Document
begin

text \<open>
  The data of the Task Service (\<open>task_service/model.rs\<close>): task specifications with their phases
  and attempts, the commands and envelopes of a transition, the receipts, the store that is the
  snapshot on disk, the journal records, the recovery intent, pages and subscriptions, and the
  validators of the values that come from outside.

  SHA-256, JSON and Base64 are not part of the program: \<open>task_env\<close> holds the functions the
  service calls. A digest is 32 raw bytes that the program writes in hexadecimal. A JSON writer
  answers \<open>None\<close> where \<open>serde_json::to_vec\<close> returns an error.
\<close>

section \<open>Specifications, attempts and tasks\<close>

definition MAX_SPECIFICATION_BYTES :: nat where
  "MAX_SPECIFICATION_BYTES = 1024 * 1024"

definition MAX_PAGE_LIMIT :: u16 where
  "MAX_PAGE_LIMIT = 1000"

datatype ValidationCode =
    InvalidAttemptToken | SpecificationTooLarge | SpecificationHashMismatch | KeyBodyMismatch
  | InvalidAttempt | InvalidPhaseAttemptShape | ActiveEarlierRevision | ReceiptKeyMismatch
  | ReceiptResponseMismatch | ReceiptAfterCheckpoint | InvalidCursor | InvalidSequence
  | InvalidEventHash | InvalidPreviousHash | InvalidStoreRevision | InvalidTransitionEvent
  | InvalidRecoveryIntent | InvalidPageLimit | InvalidSubscriptionCapacity | InvalidJson

definition AttemptToken_new :: "bytes \<Rightarrow> ValidationCode + bytes" where
  "AttemptToken_new v =
     (if v = [] \<or> length v > 256
        \<or> \<not> list_all (\<lambda>c. is_ascii_alphanumeric c \<or> c \<in> set ''-_.:/@'') v
      then Inl InvalidAttemptToken else Inr v)"

record TaskSpecification =
  spec_task_id :: id
  spec_task_revision :: u64
  spec_contract_sha256 :: Sha256
  spec_opaque_contract :: bytes

datatype TaskPhase =
    Draft | Published | Delivered | Accepted | Running | Waiting | Blocked | ReviewReady
  | Completed | Failed | Cancelled | Rejected

definition is_terminal :: "TaskPhase \<Rightarrow> bool" where
  "is_terminal p \<longleftrightarrow> p = Completed \<or> p = Failed \<or> p = Cancelled \<or> p = Rejected"

record AttemptFence =
  fence_task_id :: id
  fence_task_revision :: u64
  fence_attempt_number :: u64
  fence_attempt_token :: bytes
  fence_owner_session_id :: id
  fence_runtime_generation :: u64

record TaskAttempt =
  att_attempt_number :: u64
  att_attempt_token :: bytes
  att_owner_session_id :: id
  att_owner_durable_revision :: u64
  att_runtime_generation :: u64
  att_runtime_agent_id :: id
  att_publication_receipt_id :: id
  att_delivery_receipt_id :: "id option"
  att_acceptance_receipt_id :: "id option"
  att_start_receipt_id :: "id option"
  att_result_receipt_id :: "id option"

record TaskRecord =
  task_specification :: TaskSpecification
  task_phase :: TaskPhase
  task_attempt :: "TaskAttempt option"

section \<open>Commands, envelopes and receipts\<close>

record PublishCommand =
  pub_task_id :: id
  pub_task_revision :: u64
  pub_attempt_token :: bytes
  pub_owner_session_id :: id
  pub_owner_durable_revision :: u64
  pub_runtime_generation :: u64
  pub_runtime_agent_id :: id

record CancelDraftCommand =
  cd_task_id :: id
  cd_task_revision :: u64

record DeliveryCommand =
  dlv_external_delivery_receipt_id :: id
  dlv_observed_at :: "Rfc3339 option"

record TransitionEvidence =
  ev_external_receipt_id :: "id option"
  ev_observed_at :: "Rfc3339 option"
  ev_evidence_sha256 :: "Sha256 option"

datatype TaskCommand =
    CreateDraft TaskSpecification
  | Publish PublishCommand
  | CancelDraft CancelDraftCommand
  | RecordDelivery DeliveryCommand
  | CancelPublished TransitionEvidence
  | Accept TransitionEvidence
  | Reject TransitionEvidence
  | CancelDelivered TransitionEvidence
  | Start TransitionEvidence
  | CancelAccepted TransitionEvidence
  | EnterWaiting TransitionEvidence
  | EnterBlocked TransitionEvidence
  | MarkReviewReady TransitionEvidence
  | CompleteRunning TransitionEvidence
  | FailRunning TransitionEvidence
  | CancelRunning TransitionEvidence
  | ResumeWaiting TransitionEvidence
  | BlockWaiting TransitionEvidence
  | CancelWaiting TransitionEvidence
  | ResumeBlocked TransitionEvidence
  | CancelBlocked TransitionEvidence
  | CompleteReview TransitionEvidence
  | FailReview TransitionEvidence
  | CancelReview TransitionEvidence

record TransitionEnvelope =
  env_receipt_id :: id
  env_request_digest_sha256 :: Sha256
  env_expected_store_revision :: u64
  env_fence :: "AttemptFence option"
  env_command :: TaskCommand

record TransitionResponse =
  rsp_receipt_id :: id
  rsp_committed_store_revision :: u64
  rsp_task_id :: id
  rsp_task_revision :: u64
  rsp_attempt_number :: "u64 option"
  rsp_prior_phase :: "TaskPhase option"
  rsp_resulting_phase :: TaskPhase
  rsp_committed_at :: Rfc3339

record JournalCursor =
  cur_sequence :: u64
  cur_event_sha256 :: Sha256

definition genesis :: JournalCursor where
  "genesis = \<lparr>cur_sequence = 0, cur_event_sha256 = zero_sha256\<rparr>"

record ReceiptRecord =
  rec_receipt_id :: id
  rec_request_digest_sha256 :: Sha256
  rec_response :: TransitionResponse
  rec_event_cursor :: JournalCursor

type_synonym task_table = "(id, (u64, TaskRecord) btree) btree"

record TaskStore =
  ts_store_revision :: u64
  ts_journal_checkpoint :: JournalCursor
  ts_tasks :: task_table
  ts_receipts :: "(id, ReceiptRecord) btree"

definition empty_store :: TaskStore where
  "empty_store = \<lparr>ts_store_revision = 1, ts_journal_checkpoint = genesis, ts_tasks = [],
     ts_receipts = []\<rparr>"

section \<open>Journal, recovery, pages and subscriptions\<close>

record TransitionEvent =
  te_envelope :: TransitionEnvelope
  te_response :: TransitionResponse

record JournalTailRecovered =
  tail_discarded_byte_count :: u64
  tail_discarded_suffix_sha256 :: Sha256

datatype JournalEvent =
    Transition TransitionEvent
  | SystemJournalTailRecovered JournalTailRecovered

record JournalRecord =
  jr_sequence :: u64
  jr_previous_event_sha256 :: Sha256
  jr_event_sha256 :: Sha256
  jr_store_revision :: u64
  jr_event :: JournalEvent

definition record_cursor :: "JournalRecord \<Rightarrow> JournalCursor" where
  "record_cursor r = \<lparr>cur_sequence = jr_sequence r, cur_event_sha256 = jr_event_sha256 r\<rparr>"

definition record_task_id :: "JournalRecord \<Rightarrow> id option" where
  "record_task_id r = (case jr_event r of
     Transition e \<Rightarrow> Some (rsp_task_id (te_response e))
   | SystemJournalTailRecovered _ \<Rightarrow> None)"

record RecoveryIntent =
  ri_complete_prefix_length :: u64
  ri_suffix_byte_count :: u64
  ri_suffix_sha256 :: Sha256
  ri_suffix_base64 :: bytes
  ri_previous_event_sha256 :: Sha256
  ri_target_sequence :: u64

record EventPageRequest =
  pg_cursor :: JournalCursor
  pg_task_id :: "id option"
  pg_limit :: u16

record EventPage =
  page_events_list :: "JournalRecord list"
  page_continuation :: JournalCursor
  page_reached_head :: bool

record SubscriptionRequest =
  sub_page :: EventPageRequest
  sub_capacity :: u16

datatype ResyncReason =
    PersistenceUnknown | RepositoryReloaded | RecoveryApplied | Resync_RecoveryStopped
  | ReceiverFull | ReceiverDisconnected

datatype WatchItem = Event JournalRecord | ResyncRequired ResyncReason

datatype WatchReceiveError = Disconnected

section \<open>Errors and outcomes\<close>

datatype IoStage =
    InspectRoot | OpenLock | Lock | OpenSnapshot | ReadSnapshot | OpenJournal | ReadJournal
  | AppendJournal | SyncJournal | TruncateJournal | CreateTemp | WriteTemp | SyncTemp
  | ReplaceSnapshot | ReplaceRecoveryIntent | OpenRecoveryIntent | ReadRecoveryIntent
  | RemoveRecoveryIntent | SyncRoot

datatype PersistencePhase = JournalWrite | JournalSync | Persist_SnapshotReplace | SnapshotParentSync

datatype RecoveryPhase =
    IntentWrite | IntentParentSync | JournalTruncate | RecoveryRecordWrite | RecoveryRecordSync
  | SnapshotReplace | IntentRemoval | IntentRemovalParentSync

datatype TaskServiceError =
    UnsupportedPlatform | RootNotDirectory | RootOwnerMismatch | RootModeMismatch
  | RootBindingChanged | PrivateFileNotRegular | PrivateFileOwnerMismatch
  | PrivateFileModeMismatch
  | Io IoStage io_error_kind
  | Err_InvalidJson
  | Err_InvalidEnvelope ValidationCode
  | Err_InvalidStore ValidationCode
  | Err_InvalidJournal ValidationCode
  | Err_InvalidRecoveryIntent ValidationCode
  | RequestDigestMismatch
  | ReceiptConflict
  | StoreRevisionConflict u64 u64
  | StoreRevisionOverflow
  | RevisionConflict
  | RevisionNotIncreasing
  | ActiveRevisionExists
  | TaskNotFound
  | AttemptNotFound
  | StaleFence
  | FenceNotAllowed
  | FenceRequired
  | IllegalPhase TaskPhase
  | Serialization
  | SnapshotAheadOfJournal
  | RecoveryRequired
  | RecoveryStopped RecoveryPhase
  | Err_InvalidCursor
  | Err_InvalidPageLimit
  | Err_InvalidSubscriptionCapacity
  | InjectedDefiniteNoWrite

datatype TransitionOutcome =
    Committed TransitionResponse
  | NoWrite TaskServiceError
  | Outcome_PersistenceUnknown id PersistencePhase

datatype ReceiptLookup =
    Lookup_NotFound
  | Lookup_Committed TransitionResponse
  | Lookup_ReceiptConflict
  | Lookup_Unavailable TaskServiceError

section \<open>Outside functions and digests\<close>

type_synonym canonical_envelope = "id \<times> u64 \<times> AttemptFence option \<times> TaskCommand"
type_synonym canonical_event = "u64 \<times> Sha256 \<times> u64 \<times> JournalEvent"

record task_env =
  sha256_digest :: "bytes \<Rightarrow> bytes"
  json_envelope :: "canonical_envelope \<Rightarrow> bytes option"
  json_event :: "canonical_event \<Rightarrow> bytes option"
  json_record :: "JournalRecord \<Rightarrow> bytes option"
  parse_record :: "bytes \<Rightarrow> JournalRecord option"
  json_store :: "TaskStore \<Rightarrow> bytes option"
  parse_store :: "bytes \<Rightarrow> TaskStore option"
  json_intent :: "RecoveryIntent \<Rightarrow> bytes option"
  parse_intent :: "bytes \<Rightarrow> RecoveryIntent option"
  base64_encode :: "bytes \<Rightarrow> bytes"
  base64_decode :: "bytes \<Rightarrow> bytes option"

definition hex_digit :: "nat \<Rightarrow> char" where
  "hex_digit n = char_of (if n < 10 then 48 + n else 87 + n)"

definition hex_encode :: "bytes \<Rightarrow> bytes" where
  "hex_encode bs = concat (map (\<lambda>c. [hex_digit (code c div 16), hex_digit (code c mod 16)]) bs)"

definition sha256_bytes :: "task_env \<Rightarrow> bytes \<Rightarrow> Sha256" where
  "sha256_bytes E bs = hex_encode (sha256_digest E bs)"

section \<open>Validators\<close>

definition validate_specification :: "task_env \<Rightarrow> TaskSpecification \<Rightarrow> ValidationCode + unit" where
  "validate_specification E spec =
     (if length (spec_opaque_contract spec) > MAX_SPECIFICATION_BYTES then Inl SpecificationTooLarge
      else if sha256_bytes E (spec_opaque_contract spec) \<noteq> spec_contract_sha256 spec
      then Inl SpecificationHashMismatch
      else Inr ())"

definition validate_cursor_shape :: "JournalCursor \<Rightarrow> ValidationCode + unit" where
  "validate_cursor_shape c =
     (if cur_sequence c > MAX_JSON_SAFE_INTEGER then Inl InvalidCursor
      else if cur_sequence c = 0
      then (if cur_event_sha256 c \<noteq> zero_sha256 then Inl InvalidCursor else Inr ())
      else if cur_event_sha256 c = zero_sha256 then Inl InvalidCursor
      else Inr ())"

definition validate_attempt_shape :: "TaskRecord \<Rightarrow> ValidationCode + unit" where
  "validate_attempt_shape r =
     (case task_attempt r of
        None \<Rightarrow> if task_phase r = Draft \<or> task_phase r = Cancelled then Inr ()
                else Inl InvalidPhaseAttemptShape
      | Some a \<Rightarrow> if task_phase r = Draft then Inl InvalidPhaseAttemptShape
                  else if att_attempt_number a \<noteq> 1 then Inl InvalidAttempt
                  else Inr ())"

definition validate_task_record ::
  "task_env \<Rightarrow> id \<Rightarrow> u64 option \<Rightarrow> u64 \<times> TaskRecord \<Rightarrow> ValidationCode + unit" where
  "validate_task_record E task latest entry =
     (case entry of (revision, r) \<Rightarrow>
        res_bind (validate_specification E (task_specification r)) (\<lambda>_.
        if spec_task_id (task_specification r) \<noteq> task
           \<or> spec_task_revision (task_specification r) \<noteq> revision
        then Inl KeyBodyMismatch
        else if \<not> is_terminal (task_phase r) \<and> Some revision \<noteq> latest
        then Inl ActiveEarlierRevision
        else validate_attempt_shape r))"

definition validate_task ::
  "task_env \<Rightarrow> id \<times> (u64, TaskRecord) btree \<Rightarrow> ValidationCode + unit" where
  "validate_task E entry =
     (case entry of (task, revisions) \<Rightarrow>
        if revisions = [] then Inl KeyBodyMismatch
        else res_each (validate_task_record E task (map_option fst (bt_last revisions))) revisions)"

definition validate_receipt :: "TaskStore \<Rightarrow> id \<times> ReceiptRecord \<Rightarrow> ValidationCode + unit" where
  "validate_receipt s entry =
     (case entry of (receipt, r) \<Rightarrow>
        if receipt \<noteq> rec_receipt_id r \<or> receipt \<noteq> rsp_receipt_id (rec_response r)
        then Inl ReceiptKeyMismatch
        else if rsp_committed_store_revision (rec_response r) > ts_store_revision s
        then Inl ReceiptResponseMismatch
        else res_bind (validate_cursor_shape (rec_event_cursor r)) (\<lambda>_.
          if cur_sequence (rec_event_cursor r) > cur_sequence (ts_journal_checkpoint s)
          then Inl ReceiptAfterCheckpoint else Inr ()))"

definition validate_store :: "task_env \<Rightarrow> TaskStore \<Rightarrow> ValidationCode + unit" where
  "validate_store E s =
     res_bind (validate_cursor_shape (ts_journal_checkpoint s)) (\<lambda>_.
     res_bind (res_each (validate_task E) (ts_tasks s)) (\<lambda>_.
     res_each (validate_receipt s) (ts_receipts s)))"

definition validate_envelope :: "task_env \<Rightarrow> TransitionEnvelope \<Rightarrow> ValidationCode + unit" where
  "validate_envelope E e =
     (case env_command e of
        CreateDraft spec \<Rightarrow> validate_specification E spec
      | _ \<Rightarrow> Inr ())"

definition validate_page_request :: "EventPageRequest \<Rightarrow> TaskServiceError + unit" where
  "validate_page_request q =
     res_bind (map_err (\<lambda>_. Err_InvalidCursor) (validate_cursor_shape (pg_cursor q))) (\<lambda>_.
     if pg_limit q = 0 \<or> pg_limit q > MAX_PAGE_LIMIT then Inl Err_InvalidPageLimit else Inr ())"

definition validate_subscription_request :: "SubscriptionRequest \<Rightarrow> TaskServiceError + unit" where
  "validate_subscription_request q =
     res_bind (validate_page_request (sub_page q)) (\<lambda>_.
     if sub_capacity q = 0 \<or> sub_capacity q > MAX_PAGE_LIMIT
     then Inl Err_InvalidSubscriptionCapacity else Inr ())"

section \<open>What the validators accept\<close>

lemma validate_cursor_shape_Inr:
  "validate_cursor_shape c = Inr u \<longleftrightarrow>
     cur_sequence c \<le> MAX_JSON_SAFE_INTEGER \<and>
     (cur_sequence c = 0 \<longleftrightarrow> cur_event_sha256 c = zero_sha256)"
  by (auto simp: validate_cursor_shape_def)

lemma validate_specification_Inr:
  "validate_specification E spec = Inr u \<longleftrightarrow>
     length (spec_opaque_contract spec) \<le> MAX_SPECIFICATION_BYTES \<and>
     sha256_bytes E (spec_opaque_contract spec) = spec_contract_sha256 spec"
  by (auto simp: validate_specification_def)

lemma validate_attempt_shape_Inr:
  "validate_attempt_shape r = Inr u \<longleftrightarrow>
     (case task_attempt r of
        None \<Rightarrow> task_phase r = Draft \<or> task_phase r = Cancelled
      | Some a \<Rightarrow> task_phase r \<noteq> Draft \<and> att_attempt_number a = 1)"
  by (auto simp: validate_attempt_shape_def split: option.splits)

lemma validate_task_record_Inr:
  "validate_task_record E task latest (revision, r) = Inr u \<longleftrightarrow>
     validate_specification E (task_specification r) = Inr () \<and>
     spec_task_id (task_specification r) = task \<and>
     spec_task_revision (task_specification r) = revision \<and>
     (is_terminal (task_phase r) \<or> Some revision = latest) \<and>
     validate_attempt_shape r = Inr ()"
  by (auto simp: validate_task_record_def res_simps)

lemma validate_receipt_Inr:
  "validate_receipt s (receipt, r) = Inr u \<longleftrightarrow>
     rec_receipt_id r = receipt \<and> rsp_receipt_id (rec_response r) = receipt \<and>
     rsp_committed_store_revision (rec_response r) \<le> ts_store_revision s \<and>
     validate_cursor_shape (rec_event_cursor r) = Inr () \<and>
     cur_sequence (rec_event_cursor r) \<le> cur_sequence (ts_journal_checkpoint s)"
  by (auto simp: validate_receipt_def res_simps)

lemma validate_store_Inr:
  "validate_store E s = Inr u \<longleftrightarrow>
     validate_cursor_shape (ts_journal_checkpoint s) = Inr () \<and>
     (\<forall>e \<in> set (ts_tasks s). validate_task E e = Inr ()) \<and>
     (\<forall>e \<in> set (ts_receipts s). validate_receipt s e = Inr ())"
  by (auto simp: validate_store_def res_simps)

lemma validate_empty_store: "validate_store E empty_store = Inr ()"
  by (simp add: validate_store_Inr empty_store_def genesis_def validate_cursor_shape_Inr)

text \<open>The hexadecimal form of 32 bytes is a digest, and it is injective.\<close>

lemma length_hex_encode [simp]: "length (hex_encode bs) = 2 * length bs"
  by (induction bs) (auto simp: hex_encode_def)

lemma code_hex_digit: "n < 16 \<Longrightarrow> code (hex_digit n) = (if n < 10 then 48 + n else 87 + n)"
  by (simp add: hex_digit_def of_char_of)

lemma code_less_256: "code c < 256"
  by (cases c) (simp add: of_char_def horner_sum_simps)

lemma hex_digit_inj:
  assumes "m < 16" and "n < 16" and "hex_digit m = hex_digit n"
  shows "m = n"
proof -
  have "code (hex_digit m) = code (hex_digit n)"
    using assms(3) by simp
  then show ?thesis
    using assms(1,2) by (simp add: code_hex_digit split: if_splits)
qed

lemma hex_encode_valid:
  assumes "length bs = 32"
  shows "valid_sha256 (hex_encode bs)"
proof -
  have digit: "is_ascii_digit c \<or> 97 \<le> code c \<and> code c \<le> 102" if "c = hex_digit n" "n < 16" for c n
    using that code_hex_digit [of n] by (auto simp: is_ascii_digit_def)
  have "list_all (\<lambda>c. is_ascii_digit c \<or> 97 \<le> code c \<and> code c \<le> 102) (hex_encode xs)" for xs
  proof (induction xs)
    case (Cons x xs)
    have "code x div 16 < 16" "code x mod 16 < 16"
      using code_less_256 [of x] by (simp_all add: less_mult_imp_div_less)
    with Cons digit show ?case by (auto simp: hex_encode_def list_all_iff)
  qed (simp add: hex_encode_def)
  with assms show ?thesis
    by (simp add: valid_sha256_def sha256_new_def)
qed

end
