(* ===== verification/Task_Journal.thy ===== *)
theory Task_Journal
  imports Task_Model
begin

text \<open>
  The event journal of the Task Service: canonical digests (\<open>task_service/digest.rs\<close>) and the
  reading, paging and recovery arithmetic of the journal file (\<open>task_service/journal.rs\<close>). The
  part of \<open>journal.rs\<close> that writes files is in \<open>Task_Repository\<close>.

  A journal is a sequence of lines, one JSON record each; every record carries its sequence
  number, the hash of the previous record and its own hash, so that the file is a hash chain.
  A call of \<open>expect\<close> on a serialisation is a panic; \<open>tres\<close> is a result that may also be a panic.
\<close>

section \<open>Results that may panic\<close>

datatype 'a tres = Done 'a | Fails TaskServiceError | Panics

definition tres_of :: "TaskServiceError + 'a \<Rightarrow> 'a tres" where
  "tres_of r = (case r of Inl e \<Rightarrow> Fails e | Inr x \<Rightarrow> Done x)"

definition expect :: "'a option \<Rightarrow> 'a tres" where
  "expect v = (case v of None \<Rightarrow> Panics | Some x \<Rightarrow> Done x)"

lemma tres_of_simps [simp]: "tres_of (Inl e) = Fails e" "tres_of (Inr x) = Done x"
  by (simp_all add: tres_of_def)

lemma expect_simps [simp]: "expect None = Panics" "expect (Some x) = Done x"
  by (simp_all add: expect_def)

section \<open>Digests and records\<close>

definition COMMAND_DOMAIN :: bytes where
  "COMMAND_DOMAIN = ''cutex/task-service-transition/v1'' @ [CHR 0x00]"

definition EVENT_DOMAIN :: bytes where
  "EVENT_DOMAIN = ''cutex/task-service-event/v1'' @ [CHR 0x00]"

definition digest_serialized :: "task_env \<Rightarrow> bytes \<Rightarrow> bytes option \<Rightarrow> TaskServiceError + Sha256" where
  "digest_serialized E domain json =
     (case json of
        None \<Rightarrow> Inl Serialization
      | Some bs \<Rightarrow> Inr (hex_encode (sha256_digest E (domain @ bs))))"

definition canonical_command_digest ::
  "task_env \<Rightarrow> TransitionEnvelope \<Rightarrow> TaskServiceError + Sha256" where
  "canonical_command_digest E e =
     digest_serialized E COMMAND_DOMAIN
       (json_envelope E (env_receipt_id e, env_expected_store_revision e, env_fence e, env_command e))"

definition event_hash ::
  "task_env \<Rightarrow> u64 \<Rightarrow> Sha256 \<Rightarrow> u64 \<Rightarrow> JournalEvent \<Rightarrow> TaskServiceError + Sha256" where
  "event_hash E seq prev revision event =
     digest_serialized E EVENT_DOMAIN (json_event E (seq, prev, revision, event))"

definition make_record ::
  "task_env \<Rightarrow> u64 \<Rightarrow> Sha256 \<Rightarrow> u64 \<Rightarrow> JournalEvent \<Rightarrow> TaskServiceError + JournalRecord" where
  "make_record E seq prev revision event =
     res_bind (event_hash E seq prev revision event) (\<lambda>hash.
     Inr \<lparr>jr_sequence = seq, jr_previous_event_sha256 = prev, jr_event_sha256 = hash,
          jr_store_revision = revision, jr_event = event\<rparr>)"

definition compact_record_line :: "task_env \<Rightarrow> JournalRecord \<Rightarrow> bytes option" where
  "compact_record_line E r = map_option (\<lambda>bs. bs @ [newline]) (json_record E r)"

section \<open>Reading the journal\<close>

fun command_resulting_phase :: "TaskCommand \<Rightarrow> TaskPhase" where
  "command_resulting_phase (CreateDraft _) = Draft"
| "command_resulting_phase (Publish _) = Published"
| "command_resulting_phase (CancelDraft _) = Cancelled"
| "command_resulting_phase (CancelPublished _) = Cancelled"
| "command_resulting_phase (CancelDelivered _) = Cancelled"
| "command_resulting_phase (CancelAccepted _) = Cancelled"
| "command_resulting_phase (CancelRunning _) = Cancelled"
| "command_resulting_phase (CancelWaiting _) = Cancelled"
| "command_resulting_phase (CancelBlocked _) = Cancelled"
| "command_resulting_phase (CancelReview _) = Cancelled"
| "command_resulting_phase (RecordDelivery _) = Delivered"
| "command_resulting_phase (Accept _) = Accepted"
| "command_resulting_phase (Reject _) = Rejected"
| "command_resulting_phase (Start _) = Running"
| "command_resulting_phase (ResumeWaiting _) = Running"
| "command_resulting_phase (ResumeBlocked _) = Running"
| "command_resulting_phase (EnterWaiting _) = Waiting"
| "command_resulting_phase (EnterBlocked _) = Blocked"
| "command_resulting_phase (BlockWaiting _) = Blocked"
| "command_resulting_phase (MarkReviewReady _) = ReviewReady"
| "command_resulting_phase (CompleteRunning _) = Completed"
| "command_resulting_phase (CompleteReview _) = Completed"
| "command_resulting_phase (FailRunning _) = Failed"
| "command_resulting_phase (FailReview _) = Failed"

definition validate_record_body :: "task_env \<Rightarrow> JournalRecord \<Rightarrow> TaskServiceError + unit" where
  "validate_record_body E r =
     (case jr_event r of
        Transition event \<Rightarrow>
          (let envelope = te_envelope event; response = te_response event in
           res_bind (canonical_command_digest E envelope) (\<lambda>digest.
           if env_request_digest_sha256 envelope \<noteq> digest
              \<or> env_receipt_id envelope \<noteq> rsp_receipt_id response
              \<or> rsp_committed_store_revision response \<noteq> jr_store_revision r
              \<or> rsp_resulting_phase response \<noteq> command_resulting_phase (env_command envelope)
           then Inl (Err_InvalidJournal InvalidTransitionEvent)
           else Inr ()))
      | SystemJournalTailRecovered recovery \<Rightarrow>
          if tail_discarded_byte_count recovery = 0
             \<or> tail_discarded_byte_count recovery > MAX_JSON_SAFE_INTEGER
          then Inl (Err_InvalidJournal InvalidTransitionEvent)
          else Inr ())"

text \<open>The checks of one parsed record, after \<open>n\<close> earlier ones the last of which has hash \<open>prev\<close>.\<close>

definition check_record ::
  "task_env \<Rightarrow> nat \<Rightarrow> Sha256 \<Rightarrow> JournalRecord \<Rightarrow> TaskServiceError + unit" where
  "check_record E n prev r =
     (if jr_sequence r \<noteq> of_nat n + 1 \<or> jr_sequence r > MAX_JSON_SAFE_INTEGER
      then Inl (Err_InvalidJournal InvalidSequence)
      else if jr_previous_event_sha256 r \<noteq> prev then Inl (Err_InvalidJournal InvalidPreviousHash)
      else res_bind (event_hash E (jr_sequence r) (jr_previous_event_sha256 r)
                       (jr_store_revision r) (jr_event r)) (\<lambda>expected.
        if jr_event_sha256 r \<noteq> expected then Inl (Err_InvalidJournal InvalidEventHash)
        else validate_record_body E r))"

definition parse_line ::
  "task_env \<Rightarrow> nat \<Rightarrow> Sha256 \<Rightarrow> bytes \<Rightarrow> TaskServiceError + JournalRecord" where
  "parse_line E n prev line =
     (if line = [] then Inl (Err_InvalidJournal InvalidJson)
      else res_bind (ok_or (Err_InvalidJournal InvalidJson) (parse_record E line)) (\<lambda>r.
           res_bind (check_record E n prev r) (\<lambda>_. Inr r)))"

fun parse_lines ::
  "task_env \<Rightarrow> JournalRecord list \<Rightarrow> Sha256 \<Rightarrow> bytes list \<Rightarrow> TaskServiceError + JournalRecord list" where
  "parse_lines E records prev [] = Inr records"
| "parse_lines E records prev (terminated_line # lines) =
     res_bind (parse_line E (length records) prev (butlast terminated_line)) (\<lambda>r.
     parse_lines E (records @ [r]) (jr_event_sha256 r) lines)"

text \<open>\<open>Iterator::rposition\<close> and \<open>slice::split_inclusive\<close>.\<close>

fun rposition :: "('a \<Rightarrow> bool) \<Rightarrow> 'a list \<Rightarrow> nat option" where
  "rposition P [] = None"
| "rposition P (x # xs) =
     (case rposition P xs of Some i \<Rightarrow> Some (Suc i) | None \<Rightarrow> if P x then Some 0 else None)"

fun split_inclusive :: "('a \<Rightarrow> bool) \<Rightarrow> 'a list \<Rightarrow> 'a list list" where
  "split_inclusive P [] = []"
| "split_inclusive P (x # xs) =
     (if P x then [x] # split_inclusive P xs
      else case split_inclusive P xs of [] \<Rightarrow> [[x]] | l # ls \<Rightarrow> (x # l) # ls)"

record ParsedJournal =
  pj_records :: "JournalRecord list"
  pj_complete_prefix_length :: nat
  pj_suffix :: bytes

definition parse_journal :: "task_env \<Rightarrow> bytes \<Rightarrow> TaskServiceError + ParsedJournal" where
  "parse_journal E bs =
     (let n = (case rposition (\<lambda>b. b = newline) bs of None \<Rightarrow> 0 | Some i \<Rightarrow> i + 1) in
      res_bind (parse_lines E [] zero_sha256 (split_inclusive (\<lambda>b. b = newline) (take n bs))) (\<lambda>rs.
      Inr \<lparr>pj_records = rs, pj_complete_prefix_length = n, pj_suffix = drop n bs\<rparr>))"

section \<open>Paging\<close>

definition deliverable :: "JournalRecord \<Rightarrow> id option \<Rightarrow> bool" where
  "deliverable r task =
     (case (jr_event r, task) of
        (SystemJournalTailRecovered _, _) \<Rightarrow> True
      | (Transition _, None) \<Rightarrow> True
      | (Transition event, Some t) \<Rightarrow> rsp_task_id (te_response event) = t)"

definition validate_cursor :: "JournalRecord list \<Rightarrow> JournalCursor \<Rightarrow> TaskServiceError + unit" where
  "validate_cursor records c =
     res_bind (map_err (\<lambda>_. Err_InvalidCursor) (validate_cursor_shape c)) (\<lambda>_.
     if cur_sequence c = 0 then Inr ()
     else let index = unat (cur_sequence c - 1) in
       if index < length records
       then (if jr_event_sha256 (records ! index) \<noteq> cur_event_sha256 c
             then Inl Err_InvalidCursor else Inr ())
       else Inl Err_InvalidCursor)"

text \<open>The scanning loop: the records delivered so far and those not yet scanned.\<close>

fun page_scan ::
  "nat \<Rightarrow> id option \<Rightarrow> JournalRecord list \<Rightarrow> JournalRecord list \<Rightarrow> JournalRecord list \<times> JournalRecord list"
  where
  "page_scan limit task delivered [] = (delivered, [])"
| "page_scan limit task delivered (r # rest) =
     (if length delivered < limit
      then page_scan limit task (if deliverable r task then delivered @ [r] else delivered) rest
      else (delivered, r # rest))"

definition page_records ::
  "JournalRecord list \<Rightarrow> EventPageRequest \<Rightarrow> TaskServiceError + EventPage" where
  "page_records records q =
     res_bind (validate_cursor records (pg_cursor q)) (\<lambda>_.
     let (delivered, rest) =
           page_scan (unat (pg_limit q)) (pg_task_id q) [] (drop (unat (cur_sequence (pg_cursor q))) records)
     in Inr \<lparr>page_events_list = delivered,
             page_continuation =
               (if delivered = [] then pg_cursor q else record_cursor (last delivered)),
             page_reached_head = (\<not> list_ex (\<lambda>r. deliverable r (pg_task_id q)) rest)\<rparr>)"

section \<open>Recovery of a torn tail\<close>

definition invalid_recovery :: TaskServiceError where
  "invalid_recovery = Err_InvalidRecoveryIntent InvalidRecoveryIntent"

text \<open>\<open>u64::try_from\<close> on a length.\<close>

definition u64_try_from :: "nat \<Rightarrow> u64 option" where
  "u64_try_from n = (if int n < 2 ^ 64 then Some (of_nat n) else None)"

definition last_event_sha256 :: "JournalRecord list \<Rightarrow> Sha256" where
  "last_event_sha256 records = (if records = [] then zero_sha256 else jr_event_sha256 (last records))"

definition intent_from_suffix :: "task_env \<Rightarrow> ParsedJournal \<Rightarrow> TaskServiceError + RecoveryIntent" where
  "intent_from_suffix E p =
     res_bind (ok_or invalid_recovery (u64_try_from (pj_complete_prefix_length p))) (\<lambda>prefix.
     res_bind (ok_or invalid_recovery (u64_try_from (length (pj_suffix p)))) (\<lambda>count.
     let target = of_nat (length (pj_records p)) + 1 in
     if count = 0 \<or> count > MAX_JSON_SAFE_INTEGER \<or> prefix > MAX_JSON_SAFE_INTEGER
        \<or> target > MAX_JSON_SAFE_INTEGER
     then Inl invalid_recovery
     else Inr \<lparr>ri_complete_prefix_length = prefix, ri_suffix_byte_count = count,
       ri_suffix_sha256 = sha256_bytes E (pj_suffix p),
       ri_suffix_base64 = base64_encode E (pj_suffix p),
       ri_previous_event_sha256 = last_event_sha256 (pj_records p),
       ri_target_sequence = target\<rparr>))"

definition decode_intent_suffix :: "task_env \<Rightarrow> RecoveryIntent \<Rightarrow> TaskServiceError + bytes" where
  "decode_intent_suffix E i = ok_or invalid_recovery (base64_decode E (ri_suffix_base64 i))"

definition validate_recovery_intent :: "task_env \<Rightarrow> RecoveryIntent \<Rightarrow> TaskServiceError + unit" where
  "validate_recovery_intent E i =
     res_bind (decode_intent_suffix E i) (\<lambda>suffix.
     if ri_suffix_byte_count i = 0
        \<or> ri_suffix_byte_count i > MAX_JSON_SAFE_INTEGER
        \<or> ri_complete_prefix_length i > MAX_JSON_SAFE_INTEGER
        \<or> ri_target_sequence i = 0
        \<or> ri_target_sequence i > MAX_JSON_SAFE_INTEGER
        \<or> ri_suffix_byte_count i \<noteq> of_nat (length suffix)
        \<or> ri_suffix_sha256 i \<noteq> sha256_bytes E suffix
     then Inl invalid_recovery else Inr ())"

definition recovery_record ::
  "task_env \<Rightarrow> RecoveryIntent \<Rightarrow> u64 \<Rightarrow> TaskServiceError + JournalRecord" where
  "recovery_record E i revision =
     make_record E (ri_target_sequence i) (ri_previous_event_sha256 i) revision
       (SystemJournalTailRecovered
          \<lparr>tail_discarded_byte_count = ri_suffix_byte_count i,
           tail_discarded_suffix_sha256 = ri_suffix_sha256 i\<rparr>)"

definition recovery_record_is_complete ::
  "task_env \<Rightarrow> bytes \<Rightarrow> ParsedJournal \<Rightarrow> RecoveryIntent \<Rightarrow> bool tres" where
  "recovery_record_is_complete E bs p i =
     (if pj_records p = [] then Done False
      else let l = last (pj_records p) in
        if jr_sequence l \<noteq> ri_target_sequence i then Done False
        else case jr_event l of
          Transition _ \<Rightarrow> Fails invalid_recovery
        | SystemJournalTailRecovered body \<Rightarrow>
            if jr_previous_event_sha256 l \<noteq> ri_previous_event_sha256 i
               \<or> tail_discarded_byte_count body \<noteq> ri_suffix_byte_count i
               \<or> tail_discarded_suffix_sha256 body \<noteq> ri_suffix_sha256 i
               \<or> pj_suffix p \<noteq> []
            then Fails invalid_recovery
            else (case compact_record_line E l of
                None \<Rightarrow> Panics
              | Some expected \<Rightarrow>
                  if unat (ri_complete_prefix_length i) \<le> length bs
                     \<and> drop (unat (ri_complete_prefix_length i)) bs = expected
                  then Done True else Fails invalid_recovery))"

section \<open>Hash chains\<close>

text \<open>The records of a readable journal, after \<open>n\<close> records ending in the hash \<open>prev\<close>.\<close>

fun chained :: "task_env \<Rightarrow> nat \<Rightarrow> Sha256 \<Rightarrow> JournalRecord list \<Rightarrow> bool" where
  "chained E n prev [] = True"
| "chained E n prev (r # rs) =
     (check_record E n prev r = Inr () \<and> chained E (Suc n) (jr_event_sha256 r) rs)"

definition chain_end :: "Sha256 \<Rightarrow> JournalRecord list \<Rightarrow> Sha256" where
  "chain_end prev rs = (if rs = [] then prev else jr_event_sha256 (last rs))"

lemma chain_end_simps [simp]:
  "chain_end prev [] = prev" "chain_end prev (rs @ [r]) = jr_event_sha256 r"
  "chain_end prev (r # rs) = chain_end (jr_event_sha256 r) rs"
  by (simp_all add: chain_end_def)

lemma last_event_sha256_chain: "last_event_sha256 rs = chain_end zero_sha256 rs"
  by (simp add: last_event_sha256_def chain_end_def)

lemma chained_append:
  "chained E n prev (rs @ ts) \<longleftrightarrow>
     chained E n prev rs \<and> chained E (n + length rs) (chain_end prev rs) ts"
  by (induction rs arbitrary: n prev) auto

lemma check_record_Inr:
  "check_record E n prev r = Inr u \<longleftrightarrow>
     jr_sequence r = of_nat n + 1 \<and> jr_sequence r \<le> MAX_JSON_SAFE_INTEGER \<and>
     jr_previous_event_sha256 r = prev \<and>
     event_hash E (jr_sequence r) prev (jr_store_revision r) (jr_event r) = Inr (jr_event_sha256 r) \<and>
     validate_record_body E r = Inr ()"
  by (auto simp: check_record_def res_simps)

text \<open>The sequence numbers of a chain count up from one.\<close>

lemma chained_sequence:
  assumes "chained E 0 prev rs" and "i < length rs"
  shows "unat (jr_sequence (rs ! i)) = Suc i \<and> Suc i \<le> 9007199254740991"
  using assms(2)
proof (induction i)
  case 0
  then have "rs = rs ! 0 # tl rs"
    by (cases rs) auto
  then have "check_record E 0 prev (rs ! 0) = Inr ()"
    using assms(1) chained.simps(2) by metis
  then show ?case
    by (simp add: check_record_Inr)
next
  case (Suc i)
  have "rs = take (Suc i) rs @ rs ! Suc i # drop (Suc (Suc i)) rs"
    using Suc.prems by (simp add: id_take_nth_drop)
  then have "check_record E (Suc i) (chain_end prev (take (Suc i) rs)) (rs ! Suc i) = Inr ()"
    using assms(1) Suc.prems chained_append [of E 0 prev "take (Suc i) rs"]
    by (metis add_0 chained.simps(2) length_take less_imp_le min.absorb2)
  then have s: "jr_sequence (rs ! Suc i) = of_nat (Suc i) + 1"
      "jr_sequence (rs ! Suc i) \<le> MAX_JSON_SAFE_INTEGER"
    unfolding check_record_Inr by blast+
  have i: "Suc i \<le> 9007199254740991"
    using Suc by simp
  then have "unat (of_nat (Suc i) + 1 :: u64) = Suc (Suc i)"
    by (simp add: unat_word_ariths unat_of_nat)
  with s show ?case
    by (simp add: word_le_nat_alt)
qed

lemma chained_length: "chained E 0 prev rs \<Longrightarrow> length rs \<le> 9007199254740991"
  using chained_sequence [of E prev rs "length rs - 1"] by (cases rs) auto

section \<open>Printing and parsing the journal\<close>

text \<open>
  What the journal relies on of the JSON of a record: it is not empty, it has no line feed
  (\<open>serde_json\<close> escapes control characters) and it parses back to the record.
\<close>

definition record_codec :: "task_env \<Rightarrow> bool" where
  "record_codec E \<longleftrightarrow> (\<forall>r bs. json_record E r = Some bs \<longrightarrow>
     bs \<noteq> [] \<and> newline \<notin> set bs \<and> parse_record E bs = Some r)"

fun journal_bytes :: "task_env \<Rightarrow> JournalRecord list \<Rightarrow> bytes option" where
  "journal_bytes E [] = Some []"
| "journal_bytes E (r # rs) =
     (case compact_record_line E r of
        None \<Rightarrow> None
      | Some line \<Rightarrow> map_option (\<lambda>bs. line @ bs) (journal_bytes E rs))"

lemma compact_record_line_Some:
  assumes "record_codec E" and "compact_record_line E r = Some line"
  obtains bs where "line = bs @ [newline]" "bs \<noteq> []" "newline \<notin> set bs" "parse_record E bs = Some r"
  using assms by (auto simp: compact_record_line_def record_codec_def)

lemma journal_bytes_append:
  "journal_bytes E (rs @ ts) =
     (case journal_bytes E rs of
        None \<Rightarrow> None
      | Some bs \<Rightarrow> map_option (\<lambda>cs. bs @ cs) (journal_bytes E ts))"
  by (induction rs) (cases "journal_bytes E ts"; auto split: option.splits)+

lemma journal_bytes_snoc:
  assumes "journal_bytes E rs = Some bs" and "compact_record_line E r = Some line"
  shows "journal_bytes E (rs @ [r]) = Some (bs @ line)"
  using assms by (simp add: journal_bytes_append)

lemma journal_bytes_take:
  assumes "journal_bytes E rs = Some bs"
  shows "\<exists>cs. journal_bytes E (take k rs) = Some cs"
proof -
  have "journal_bytes E (take k rs @ drop k rs) = Some bs"
    using assms by simp
  then show ?thesis
    by (simp only: journal_bytes_append split: option.splits) auto
qed

lemma journal_bytes_last:
  assumes "record_codec E" and "journal_bytes E rs = Some bs"
  shows "bs = [] \<or> last bs = newline"
  using assms(2)
proof (induction rs arbitrary: bs)
  case (Cons r rs)
  then obtain line cs where l: "compact_record_line E r = Some line"
      and cs: "journal_bytes E rs = Some cs" and bs: "bs = line @ cs"
    by (auto split: option.splits)
  from l have "last line = newline"
    using compact_record_line_Some [OF assms(1)] by (metis last_snoc)
  with Cons.IH [OF cs] bs show ?case
    by (auto simp: last_append)
qed simp

lemma rposition_absent: "newline \<notin> set bs \<Longrightarrow> rposition (\<lambda>b. b = newline) bs = None"
  by (induction bs) auto

lemma rposition_append_newline:
  "newline \<notin> set suffix \<Longrightarrow>
     rposition (\<lambda>b. b = newline) (bs @ newline # suffix) = Some (length bs)"
  by (induction bs) (auto simp: rposition_absent)

lemma complete_prefix:
  assumes "bs = [] \<or> last bs = newline" and "newline \<notin> set suffix"
  shows "(case rposition (\<lambda>b. b = newline) (bs @ suffix) of None \<Rightarrow> 0 | Some i \<Rightarrow> i + 1) = length bs"
proof (cases "bs = []")
  case True
  then show ?thesis
    by (simp add: rposition_absent [OF assms(2)])
next
  case False
  then have "bs = butlast bs @ [newline]"
    using assms(1) by (metis append_butlast_last_id)
  then have "rposition (\<lambda>b. b = newline) (bs @ suffix) = Some (length (butlast bs))"
    using rposition_append_newline [OF assms(2), of "butlast bs"] by (metis append.assoc append_Cons append_Nil)
  with False show ?thesis
    by simp
qed

lemma split_inclusive_line:
  "newline \<notin> set bs \<Longrightarrow>
     split_inclusive (\<lambda>b. b = newline) (bs @ newline # cs) =
       (bs @ [newline]) # split_inclusive (\<lambda>b. b = newline) cs"
  by (induction bs) auto

lemma parse_lines_chained:
  assumes "record_codec E"
  shows "journal_bytes E rs = Some bs \<Longrightarrow> chained E (length done) prev rs \<Longrightarrow>
    parse_lines E done prev (split_inclusive (\<lambda>b. b = newline) bs) = Inr (done @ rs)"
proof (induction rs arbitrary: bs "done" prev)
  case (Cons r rs)
  then obtain line cs where l: "compact_record_line E r = Some line"
      and cs: "journal_bytes E rs = Some cs" and bs: "bs = line @ cs"
    by (auto split: option.splits)
  obtain b where b: "line = b @ [newline]" "b \<noteq> []" "newline \<notin> set b" "parse_record E b = Some r"
    using compact_record_line_Some [OF assms l] .
  have "split_inclusive (\<lambda>b. b = newline) bs = line # split_inclusive (\<lambda>b. b = newline) cs"
    using split_inclusive_line [OF b(3), of cs] bs b(1) by simp
  moreover have "parse_line E (length done) prev b = Inr r"
    using b Cons.prems by (simp add: parse_line_def)
  moreover have "parse_lines E (done @ [r]) (jr_event_sha256 r) (split_inclusive (\<lambda>b. b = newline) cs)
      = Inr ((done @ [r]) @ rs)"
    using Cons.IH [OF cs, of "done @ [r]"] Cons.prems by simp
  ultimately show ?case
    using b(1) by simp
qed simp

lemma parse_journal_printed:
  assumes "record_codec E" and "journal_bytes E rs = Some bs" and "chained E 0 zero_sha256 rs"
    and "newline \<notin> set suffix"
  shows "parse_journal E (bs @ suffix) =
    Inr \<lparr>pj_records = rs, pj_complete_prefix_length = length bs, pj_suffix = suffix\<rparr>"
proof -
  have "(case rposition (\<lambda>b. b = newline) (bs @ suffix) of None \<Rightarrow> 0 | Some i \<Rightarrow> i + 1) = length bs"
    using complete_prefix [OF journal_bytes_last [OF assms(1,2)] assms(4)] .
  moreover have "parse_lines E [] zero_sha256 (split_inclusive (\<lambda>b. b = newline) bs) = Inr rs"
    using parse_lines_chained [OF assms(1,2), of "[]"] assms(3) by simp
  ultimately show ?thesis
    by (simp add: parse_journal_def)
qed

text \<open>Conversely, whatever a journal file holds, the records read from it form a hash chain.\<close>

lemma parse_lines_Inr:
  "parse_lines E recs prev ls = Inr out \<Longrightarrow>
     \<exists>rs. out = recs @ rs \<and> chained E (length recs) prev rs \<and> length rs = length ls"
proof (induction ls arbitrary: recs prev)
  case (Cons l ls)
  then obtain r where r: "parse_line E (length recs) prev (butlast l) = Inr r"
      and rest: "parse_lines E (recs @ [r]) (jr_event_sha256 r) ls = Inr out"
    by (auto simp: res_simps)
  obtain rs where "out = (recs @ [r]) @ rs" "chained E (length (recs @ [r])) (jr_event_sha256 r) rs"
      "length rs = length ls"
    using Cons.IH [OF rest] by blast
  moreover have "check_record E (length recs) prev r = Inr ()"
    using r by (auto simp: parse_line_def res_simps split: if_splits)
  ultimately show ?case
    by (intro exI [of _ "r # rs"]) simp
qed simp

lemma parse_journal_chained:
  "parse_journal E bs = Inr p \<Longrightarrow>
     chained E 0 zero_sha256 (pj_records p) \<and> newline \<notin> set (pj_suffix p) \<and>
     pj_complete_prefix_length p \<le> length bs \<and> pj_suffix p = drop (pj_complete_prefix_length p) bs"
proof -
  have tail: "newline \<notin> set (drop (case rposition (\<lambda>b. b = newline) bs of None \<Rightarrow> 0 | Some i \<Rightarrow> i + 1) bs)
      \<and> (case rposition (\<lambda>b. b = newline) bs of None \<Rightarrow> 0 | Some i \<Rightarrow> i + 1) \<le> length bs"
    by (induction bs) (auto split: option.splits)
  assume "parse_journal E bs = Inr p"
  then show ?thesis
    using tail by (auto simp: parse_journal_def Let_def res_simps dest!: parse_lines_Inr)
qed

end
