(* ===== verification/Task_Plan.thy ===== *)
theory Task_Plan
  imports Task_Journal
begin

text \<open>
  The deterministic core of \<open>task_service/store.rs\<close>: planning a transition against the store,
  the response, journal record and next store it gives, and the reconstruction of the store from
  the journal. Nothing here touches a file.
\<close>

definition tres_bind :: "'a tres \<Rightarrow> ('a \<Rightarrow> 'b tres) \<Rightarrow> 'b tres" where
  "tres_bind r f = (case r of Done x \<Rightarrow> f x | Fails e \<Rightarrow> Fails e | Panics \<Rightarrow> Panics)"

lemma tres_bind_simps [simp]:
  "tres_bind (Done x) f = f x" "tres_bind (Fails e) f = Fails e" "tres_bind Panics f = Panics"
  by (simp_all add: tres_bind_def)

lemma tres_bind_eq_Done [res_simps]:
  "tres_bind r f = Done y \<longleftrightarrow> (\<exists>x. r = Done x \<and> f x = Done y)"
  by (cases r) auto

lemma tres_bind_eq_Panics [res_simps]:
  "tres_bind r f = Panics \<longleftrightarrow> r = Panics \<or> (\<exists>x. r = Done x \<and> f x = Panics)"
  by (cases r) auto

lemma tres_of_eq [res_simps]:
  "tres_of r = Done x \<longleftrightarrow> r = Inr x" "tres_of r \<noteq> Panics"
  by (cases r; auto)+

lemma expect_eq [res_simps]:
  "expect v = Done x \<longleftrightarrow> v = Some x" "expect v = Panics \<longleftrightarrow> v = None" "expect v \<noteq> Fails e"
  by (cases v; auto)+

section \<open>Planning\<close>

record PlannedTransition =
  plan_tasks :: task_table
  plan_task_id :: id
  plan_task_revision :: u64
  plan_attempt_number :: "u64 option"
  plan_prior_phase :: "TaskPhase option"
  plan_resulting_phase :: TaskPhase

text \<open>The nested map seen as one table, and \<open>get_mut\<close> followed by an assignment.\<close>

definition task_get :: "task_table \<Rightarrow> id \<Rightarrow> u64 \<Rightarrow> TaskRecord option" where
  "task_get tasks task revision =
     (case bt_get tasks task of None \<Rightarrow> None | Some revisions \<Rightarrow> bt_get revisions revision)"

definition task_put :: "task_table \<Rightarrow> id \<Rightarrow> u64 \<Rightarrow> TaskRecord \<Rightarrow> task_table" where
  "task_put tasks task revision r =
     (case bt_get tasks task of
        None \<Rightarrow> bt_insert task [(revision, r)] tasks
      | Some revisions \<Rightarrow> bt_insert task (bt_insert revision r revisions) tasks)"

definition task_record_mut :: "task_table \<Rightarrow> id \<Rightarrow> u64 \<Rightarrow> TaskRecord tres" where
  "task_record_mut tasks task revision =
     tres_of (ok_or TaskNotFound (task_get tasks task revision))"

definition require_no_fence :: "TransitionEnvelope \<Rightarrow> unit tres" where
  "require_no_fence e = (if env_fence e \<noteq> None then Fails FenceNotAllowed else Done ())"

definition require_phase :: "TaskPhase \<Rightarrow> TaskPhase \<Rightarrow> unit tres" where
  "require_phase actual expected = (if actual = expected then Done () else Fails (IllegalPhase actual))"

definition fence_matches :: "AttemptFence \<Rightarrow> TaskAttempt \<Rightarrow> bool" where
  "fence_matches f a \<longleftrightarrow>
     fence_attempt_number f = att_attempt_number a
     \<and> fence_attempt_token f = att_attempt_token a
     \<and> fence_owner_session_id f = att_owner_session_id a
     \<and> fence_runtime_generation f = att_runtime_generation a"

text \<open>The edge of a fenced command; \<open>None\<close> is the \<open>unreachable!\<close> of the three unfenced ones.\<close>

fun command_edge :: "TaskCommand \<Rightarrow> (TaskPhase \<times> TaskPhase) option" where
  "command_edge (RecordDelivery _) = Some (Published, Delivered)"
| "command_edge (CancelPublished _) = Some (Published, Cancelled)"
| "command_edge (Accept _) = Some (Delivered, Accepted)"
| "command_edge (Reject _) = Some (Delivered, Rejected)"
| "command_edge (CancelDelivered _) = Some (Delivered, Cancelled)"
| "command_edge (Start _) = Some (Accepted, Running)"
| "command_edge (CancelAccepted _) = Some (Accepted, Cancelled)"
| "command_edge (EnterWaiting _) = Some (Running, Waiting)"
| "command_edge (EnterBlocked _) = Some (Running, Blocked)"
| "command_edge (MarkReviewReady _) = Some (Running, ReviewReady)"
| "command_edge (CompleteRunning _) = Some (Running, Completed)"
| "command_edge (FailRunning _) = Some (Running, Failed)"
| "command_edge (CancelRunning _) = Some (Running, Cancelled)"
| "command_edge (ResumeWaiting _) = Some (Waiting, Running)"
| "command_edge (BlockWaiting _) = Some (Waiting, Blocked)"
| "command_edge (CancelWaiting _) = Some (Waiting, Cancelled)"
| "command_edge (ResumeBlocked _) = Some (Blocked, Running)"
| "command_edge (CancelBlocked _) = Some (Blocked, Cancelled)"
| "command_edge (CompleteReview _) = Some (ReviewReady, Completed)"
| "command_edge (FailReview _) = Some (ReviewReady, Failed)"
| "command_edge (CancelReview _) = Some (ReviewReady, Cancelled)"
| "command_edge (CreateDraft _) = None"
| "command_edge (Publish _) = None"
| "command_edge (CancelDraft _) = None"

text \<open>The receipt a fenced command leaves in the attempt.\<close>

definition note_receipt :: "TransitionEnvelope \<Rightarrow> TaskCommand \<Rightarrow> TaskAttempt \<Rightarrow> TaskAttempt" where
  "note_receipt e command a =
     (case command of
        RecordDelivery d \<Rightarrow> a\<lparr>att_delivery_receipt_id := Some (dlv_external_delivery_receipt_id d)\<rparr>
      | Accept _ \<Rightarrow> a\<lparr>att_acceptance_receipt_id := Some (env_receipt_id e)\<rparr>
      | Start _ \<Rightarrow> a\<lparr>att_start_receipt_id := Some (env_receipt_id e)\<rparr>
      | CompleteRunning _ \<Rightarrow> a\<lparr>att_result_receipt_id := Some (env_receipt_id e)\<rparr>
      | FailRunning _ \<Rightarrow> a\<lparr>att_result_receipt_id := Some (env_receipt_id e)\<rparr>
      | CancelRunning _ \<Rightarrow> a\<lparr>att_result_receipt_id := Some (env_receipt_id e)\<rparr>
      | CompleteReview _ \<Rightarrow> a\<lparr>att_result_receipt_id := Some (env_receipt_id e)\<rparr>
      | FailReview _ \<Rightarrow> a\<lparr>att_result_receipt_id := Some (env_receipt_id e)\<rparr>
      | CancelReview _ \<Rightarrow> a\<lparr>att_result_receipt_id := Some (env_receipt_id e)\<rparr>
      | _ \<Rightarrow> a)"

definition plan_attempt_transition ::
  "task_table \<Rightarrow> TransitionEnvelope \<Rightarrow> TaskCommand \<Rightarrow> PlannedTransition tres" where
  "plan_attempt_transition tasks e command =
     tres_bind (tres_of (ok_or FenceRequired (env_fence e))) (\<lambda>fence.
     tres_bind (tres_of (ok_or StaleFence
       (task_get tasks (fence_task_id fence) (fence_task_revision fence)))) (\<lambda>r.
     tres_bind (tres_of (ok_or AttemptNotFound (task_attempt r))) (\<lambda>attempt.
     if \<not> fence_matches fence attempt then Fails StaleFence
     else tres_bind (expect (command_edge command)) (\<lambda>(expected, resulting).
       tres_bind (require_phase (task_phase r) expected) (\<lambda>_.
       Done \<lparr>plan_tasks = task_put tasks (fence_task_id fence) (fence_task_revision fence)
               (r\<lparr>task_phase := resulting, task_attempt := Some (note_receipt e command attempt)\<rparr>),
             plan_task_id = fence_task_id fence,
             plan_task_revision = fence_task_revision fence,
             plan_attempt_number = Some (fence_attempt_number fence),
             plan_prior_phase = Some (task_phase r),
             plan_resulting_phase = resulting\<rparr>)))))"

definition attempt_token_taken :: "task_table \<Rightarrow> bytes \<Rightarrow> bool" where
  "attempt_token_taken tasks token \<longleftrightarrow>
     list_ex (\<lambda>r. case task_attempt r of None \<Rightarrow> False | Some a \<Rightarrow> att_attempt_token a = token)
       (concat (map bt_values (bt_values tasks)))"

definition plan_create_draft :: "task_table \<Rightarrow> TaskSpecification \<Rightarrow> PlannedTransition tres" where
  "plan_create_draft tasks spec =
     (let revisions = (case bt_get tasks (spec_task_id spec) of None \<Rightarrow> [] | Some m \<Rightarrow> m) in
      if bt_get revisions (spec_task_revision spec) \<noteq> None then Fails RevisionConflict
      else tres_bind (case bt_last revisions of
          None \<Rightarrow> Done ()
        | Some (latest_revision, latest) \<Rightarrow>
            if \<not> is_terminal (task_phase latest) then Fails ActiveRevisionExists
            else if spec_task_revision spec \<le> latest_revision then Fails RevisionNotIncreasing
            else Done ()) (\<lambda>_.
        Done \<lparr>plan_tasks = task_put tasks (spec_task_id spec) (spec_task_revision spec)
                \<lparr>task_specification = spec, task_phase = Draft, task_attempt = None\<rparr>,
              plan_task_id = spec_task_id spec,
              plan_task_revision = spec_task_revision spec,
              plan_attempt_number = None,
              plan_prior_phase = None,
              plan_resulting_phase = Draft\<rparr>))"

definition plan_publish ::
  "task_table \<Rightarrow> id \<Rightarrow> PublishCommand \<Rightarrow> PlannedTransition tres" where
  "plan_publish tasks receipt c =
     (if attempt_token_taken tasks (pub_attempt_token c) then Fails StaleFence
      else tres_bind (task_record_mut tasks (pub_task_id c) (pub_task_revision c)) (\<lambda>r.
        tres_bind (require_phase (task_phase r) Draft) (\<lambda>_.
        Done \<lparr>plan_tasks = task_put tasks (pub_task_id c) (pub_task_revision c)
                (r\<lparr>task_phase := Published,
                   task_attempt := Some
                     \<lparr>att_attempt_number = 1,
                      att_attempt_token = pub_attempt_token c,
                      att_owner_session_id = pub_owner_session_id c,
                      att_owner_durable_revision = pub_owner_durable_revision c,
                      att_runtime_generation = pub_runtime_generation c,
                      att_runtime_agent_id = pub_runtime_agent_id c,
                      att_publication_receipt_id = receipt,
                      att_delivery_receipt_id = None,
                      att_acceptance_receipt_id = None,
                      att_start_receipt_id = None,
                      att_result_receipt_id = None\<rparr>\<rparr>),
              plan_task_id = pub_task_id c,
              plan_task_revision = pub_task_revision c,
              plan_attempt_number = Some 1,
              plan_prior_phase = Some Draft,
              plan_resulting_phase = Published\<rparr>)))"

definition plan_cancel_draft :: "task_table \<Rightarrow> CancelDraftCommand \<Rightarrow> PlannedTransition tres" where
  "plan_cancel_draft tasks c =
     tres_bind (task_record_mut tasks (cd_task_id c) (cd_task_revision c)) (\<lambda>r.
     tres_bind (require_phase (task_phase r) Draft) (\<lambda>_.
     Done \<lparr>plan_tasks = task_put tasks (cd_task_id c) (cd_task_revision c)
             (r\<lparr>task_phase := Cancelled\<rparr>),
           plan_task_id = cd_task_id c,
           plan_task_revision = cd_task_revision c,
           plan_attempt_number = None,
           plan_prior_phase = Some Draft,
           plan_resulting_phase = Cancelled\<rparr>))"

definition plan_transition :: "TaskStore \<Rightarrow> TransitionEnvelope \<Rightarrow> PlannedTransition tres" where
  "plan_transition current e =
     (case env_command e of
        CreateDraft spec \<Rightarrow>
          tres_bind (require_no_fence e) (\<lambda>_. plan_create_draft (ts_tasks current) spec)
      | Publish c \<Rightarrow>
          tres_bind (require_no_fence e) (\<lambda>_. plan_publish (ts_tasks current) (env_receipt_id e) c)
      | CancelDraft c \<Rightarrow>
          tres_bind (require_no_fence e) (\<lambda>_. plan_cancel_draft (ts_tasks current) c)
      | command \<Rightarrow> plan_attempt_transition (ts_tasks current) e command)"

section \<open>Finalising and reconstructing\<close>

definition finalize_transition ::
  "task_env \<Rightarrow> TaskStore \<Rightarrow> PlannedTransition \<Rightarrow> TransitionEnvelope \<Rightarrow> Sha256 \<Rightarrow> u64 \<Rightarrow> Rfc3339 \<Rightarrow>
     (TransitionResponse \<times> JournalRecord \<times> TaskStore) tres" where
  "finalize_transition E current planned e digest next_revision committed_at =
     (let response = \<lparr>rsp_receipt_id = env_receipt_id e,
            rsp_committed_store_revision = next_revision,
            rsp_task_id = plan_task_id planned,
            rsp_task_revision = plan_task_revision planned,
            rsp_attempt_number = plan_attempt_number planned,
            rsp_prior_phase = plan_prior_phase planned,
            rsp_resulting_phase = plan_resulting_phase planned,
            rsp_committed_at = committed_at\<rparr> in
      case make_record E (cur_sequence (ts_journal_checkpoint current) + 1)
             (cur_event_sha256 (ts_journal_checkpoint current)) next_revision
             (Transition \<lparr>te_envelope = e, te_response = response\<rparr>) of
        Inl _ \<Rightarrow> Panics
      | Inr r \<Rightarrow> Done (response, r,
          current\<lparr>ts_store_revision := next_revision,
                  ts_tasks := plan_tasks planned,
                  ts_journal_checkpoint := record_cursor r,
                  ts_receipts := bt_insert (env_receipt_id e)
                    \<lparr>rec_receipt_id = env_receipt_id e, rec_request_digest_sha256 = digest,
                     rec_response = response, rec_event_cursor = record_cursor r\<rparr>
                    (ts_receipts current)\<rparr>))"

definition response_matches_plan :: "TransitionResponse \<Rightarrow> PlannedTransition \<Rightarrow> bool" where
  "response_matches_plan r p \<longleftrightarrow>
     rsp_task_id r = plan_task_id p
     \<and> rsp_task_revision r = plan_task_revision p
     \<and> rsp_attempt_number r = plan_attempt_number p
     \<and> rsp_prior_phase r = plan_prior_phase p
     \<and> rsp_resulting_phase r = plan_resulting_phase p"

definition reconstruct_step :: "task_env \<Rightarrow> TaskStore \<Rightarrow> JournalRecord \<Rightarrow> TaskStore tres" where
  "reconstruct_step E store r =
     tres_bind
       (case jr_event r of
          Transition event \<Rightarrow>
            if bt_get (ts_receipts store) (env_receipt_id (te_envelope event)) \<noteq> None
               \<or> env_expected_store_revision (te_envelope event) \<noteq> ts_store_revision store
            then Fails (Err_InvalidJournal InvalidTransitionEvent)
            else tres_bind (tres_of (map_err (\<lambda>_. StoreRevisionOverflow)
                   (checked_next (ts_store_revision store)))) (\<lambda>expected_revision.
              if expected_revision \<noteq> jr_store_revision r
                 \<or> rsp_committed_store_revision (te_response event) \<noteq> jr_store_revision r
              then Fails (Err_InvalidJournal InvalidStoreRevision)
              else tres_bind (plan_transition store (te_envelope event)) (\<lambda>planned.
                if \<not> response_matches_plan (te_response event) planned
                then Fails (Err_InvalidJournal InvalidTransitionEvent)
                else Done (store\<lparr>ts_tasks := plan_tasks planned,
                       ts_store_revision := jr_store_revision r,
                       ts_journal_checkpoint := record_cursor r,
                       ts_receipts := bt_insert (env_receipt_id (te_envelope event))
                         \<lparr>rec_receipt_id = env_receipt_id (te_envelope event),
                          rec_request_digest_sha256 = env_request_digest_sha256 (te_envelope event),
                          rec_response = te_response event,
                          rec_event_cursor = record_cursor r\<rparr> (ts_receipts store)\<rparr>)))
        | SystemJournalTailRecovered _ \<Rightarrow>
            if jr_store_revision r \<noteq> ts_store_revision store
            then Fails (Err_InvalidJournal InvalidStoreRevision)
            else Done (store\<lparr>ts_journal_checkpoint := record_cursor r\<rparr>))
       (\<lambda>next. tres_bind (tres_of (map_err Err_InvalidStore (validate_store E next))) (\<lambda>_. Done next))"

fun reconstruct_from :: "task_env \<Rightarrow> TaskStore \<Rightarrow> JournalRecord list \<Rightarrow> TaskStore tres" where
  "reconstruct_from E store [] = Done store"
| "reconstruct_from E store (r # rs) =
     tres_bind (reconstruct_step E store r) (\<lambda>next. reconstruct_from E next rs)"

definition reconstruct_store :: "task_env \<Rightarrow> JournalRecord list \<Rightarrow> TaskStore tres" where
  "reconstruct_store E records = reconstruct_from E empty_store records"

definition validate_loaded_prefix ::
  "task_env \<Rightarrow> TaskStore \<Rightarrow> JournalRecord list \<Rightarrow> unit tres" where
  "validate_loaded_prefix E loaded records =
     (if cur_sequence (ts_journal_checkpoint loaded) > of_nat (length records)
      then Fails SnapshotAheadOfJournal
      else tres_bind
        (reconstruct_store E (take (unat (cur_sequence (ts_journal_checkpoint loaded))) records))
        (\<lambda>at_checkpoint.
         if loaded \<noteq> at_checkpoint then Fails (Err_InvalidStore InvalidStoreRevision) else Done ()))"

definition preflight_empty_transition ::
  "task_env \<Rightarrow> TaskStore \<Rightarrow> TransitionEnvelope \<Rightarrow> unit tres" where
  "preflight_empty_transition E current e =
     (if ts_store_revision current \<noteq> env_expected_store_revision e
      then Fails (StoreRevisionConflict (env_expected_store_revision e) (ts_store_revision current))
      else tres_bind (tres_of (map_err (\<lambda>_. StoreRevisionOverflow)
             (checked_next (ts_store_revision current)))) (\<lambda>next_revision.
        tres_bind (plan_transition current e) (\<lambda>planned.
        tres_of (map_err Err_InvalidStore (validate_store E
          (current\<lparr>ts_store_revision := next_revision, ts_tasks := plan_tasks planned\<rparr>))))))"

end
