(* ===== verification/Task_Persist.thy ===== *)
theory Task_Persist
  imports Task_Plan
begin

unbundle bit_operations_syntax

text \<open>
  The private files of the Task Service (\<open>task_service/persist.rs\<close>, on Unix): a lock file, the
  journal, the snapshot and the recovery intent, all under one directory that must keep its
  identity, owner and mode.

  The directory is a map from names to contents. Every system call asks \<open>os_answers\<close> for what the
  operating system does at that point: an error, what a failing write had already stored, what
  the metadata are. So a run covers every failure at every call, and the injected faults of
  \<open>FaultController\<close> as well. A file handle is the name of the file; the name of a temporary file
  comes from \<open>os_unique\<close>, which stands for the process id and a fresh UUID.
\<close>

section \<open>Operating system\<close>

record metadata =
  md_is_file :: bool
  md_is_dir :: bool
  md_uid :: "32 word"
  md_mode :: "32 word"
  md_dev :: u64
  md_ino :: u64

record os_answer =
  os_error :: "io_error_kind option"
  os_eloop_or_enotdir :: bool
  os_stored :: nat
  os_root_meta :: metadata
  os_file_meta :: metadata

record task_os =
  os_answers :: "nat \<Rightarrow> os_answer"
  os_unique :: "nat \<Rightarrow> bytes"
  geteuid :: "32 word"

record RootHandle =
  root_path :: bytes
  root_device :: u64
  root_inode :: u64

type_synonym directory = "bytes \<Rightarrow> bytes option"

datatype FaultPoint =
    BeforeJournalAppend | PartialJournalWrite | AfterJournalWrite | AfterJournalSync
  | BeforeSnapshotRename | AfterSnapshotRename | AfterSnapshotParentSync
  | AfterRecoveryIntentRename | AfterRecoveryIntentParentSync | AfterRecoveryTruncate
  | PartialRecoveryRecordWrite | AfterRecoveryRecordSync | AfterRecoverySnapshotRename
  | AfterRecoveryIntentRemove

record persist_state =
  ps_dir :: directory
  ps_tick :: nat
  ps_fault :: "FaultPoint option"

definition LOCK_FILE :: bytes where "LOCK_FILE = ''task-service-v1.lock''"
definition JOURNAL_FILE :: bytes where "JOURNAL_FILE = ''task-service-v1.events.jsonl''"
definition SNAPSHOT_FILE :: bytes where "SNAPSHOT_FILE = ''task-service-v1.json''"
definition RECOVERY_FILE :: bytes where "RECOVERY_FILE = ''task-service-v1.recovery''"

section \<open>Sequencing\<close>

text \<open>A computation on a state; the state of this theory is \<open>persist_state\<close>.\<close>

type_synonym ('s, 'a) tm = "'s \<Rightarrow> 'a tres \<times> 's"
type_synonym 'a pm = "(persist_state, 'a) tm"

definition pm_return :: "'a \<Rightarrow> ('s, 'a) tm" where
  "pm_return x st = (Done x, st)"

definition pm_fail :: "TaskServiceError \<Rightarrow> ('s, 'a) tm" where
  "pm_fail e st = (Fails e, st)"

definition pm_lift :: "'a tres \<Rightarrow> ('s, 'a) tm" where
  "pm_lift r st = (r, st)"

definition pm_bind :: "('s, 'a) tm \<Rightarrow> ('a \<Rightarrow> ('s, 'b) tm) \<Rightarrow> ('s, 'b) tm" where
  "pm_bind m f st = (case m st of
     (Done x, st') \<Rightarrow> f x st'
   | (Fails e, st') \<Rightarrow> (Fails e, st')
   | (Panics, st') \<Rightarrow> (Panics, st'))"

text \<open>A call whose \<open>Result\<close> is matched instead of passed on.\<close>

definition pm_try :: "('s, 'a) tm \<Rightarrow> ('s, TaskServiceError + 'a) tm" where
  "pm_try m st = (case m st of
     (Done x, st') \<Rightarrow> (Done (Inr x), st')
   | (Fails e, st') \<Rightarrow> (Done (Inl e), st')
   | (Panics, st') \<Rightarrow> (Panics, st'))"

definition pm_map_err :: "(TaskServiceError \<Rightarrow> TaskServiceError) \<Rightarrow> ('s, 'a) tm \<Rightarrow> ('s, 'a) tm" where
  "pm_map_err f m = pm_bind (pm_try m) (\<lambda>r. case r of Inl e \<Rightarrow> pm_fail (f e) | Inr x \<Rightarrow> pm_return x)"

definition pm_dir :: "directory pm" where
  "pm_dir st = (Done (ps_dir st), st)"

definition pm_set :: "bytes \<Rightarrow> bytes option \<Rightarrow> unit pm" where
  "pm_set name content st = (Done (), st\<lparr>ps_dir := (ps_dir st)(name := content)\<rparr>)"

text \<open>One system call: the answer for it, and the state in which the call has been made.\<close>

definition sys :: "task_os \<Rightarrow> (os_answer \<Rightarrow> 'a pm) \<Rightarrow> 'a pm" where
  "sys os f st = f (os_answers os (ps_tick st)) (st\<lparr>ps_tick := Suc (ps_tick st)\<rparr>)"

text \<open>A call that succeeds with \<open>f\<close> or reports an error kind.\<close>

definition sys_or :: "task_os \<Rightarrow> (io_error_kind \<Rightarrow> TaskServiceError) \<Rightarrow> (os_answer \<Rightarrow> 'a pm) \<Rightarrow> 'a pm" where
  "sys_or os err f = sys os (\<lambda>a. case os_error a of Some k \<Rightarrow> pm_fail (err k) | None \<Rightarrow> f a)"

definition hit :: "FaultPoint \<Rightarrow> bool pm" where
  "hit point st =
     (if ps_fault st = Some point then (Done True, st\<lparr>ps_fault := None\<rparr>) else (Done False, st))"

section \<open>Directory and files\<close>

text \<open>The mode bits are \<open>0o7777\<close> (\<open>0xFFF\<close>), \<open>0o700\<close> (\<open>0x1C0\<close>) and \<open>0o600\<close> (\<open>0x180\<close>).\<close>

definition open_validated_root :: "task_os \<Rightarrow> unit pm" where
  "open_validated_root os =
     sys os (\<lambda>a. case os_error a of
       Some k \<Rightarrow> pm_fail (if os_eloop_or_enotdir a then RootNotDirectory else Io InspectRoot k)
     | None \<Rightarrow> sys_or os (Io InspectRoot) (\<lambda>b.
         if \<not> md_is_dir (os_root_meta b) then pm_fail RootNotDirectory
         else if md_uid (os_root_meta b) \<noteq> geteuid os then pm_fail RootOwnerMismatch
         else if md_mode (os_root_meta b) AND 0xFFF \<noteq> 0x1C0 then pm_fail RootModeMismatch
         else pm_return ()))"

definition validate_root :: "task_os \<Rightarrow> bytes \<Rightarrow> RootHandle pm" where
  "validate_root os path =
     pm_bind (open_validated_root os) (\<lambda>_.
     sys_or os (Io InspectRoot) (\<lambda>a.
     pm_return \<lparr>root_path = path, root_device = md_dev (os_root_meta a),
                root_inode = md_ino (os_root_meta a)\<rparr>))"

definition validate_binding :: "task_os \<Rightarrow> RootHandle \<Rightarrow> unit pm" where
  "validate_binding os root =
     pm_bind (pm_map_err (\<lambda>_. RootBindingChanged) (open_validated_root os)) (\<lambda>_.
     sys_or os (\<lambda>_. RootBindingChanged) (\<lambda>a.
     if md_dev (os_root_meta a) \<noteq> root_device root \<or> md_ino (os_root_meta a) \<noteq> root_inode root
     then pm_fail RootBindingChanged else pm_return ()))"

definition validate_private_file :: "task_os \<Rightarrow> unit pm" where
  "validate_private_file os =
     sys_or os (Io InspectRoot) (\<lambda>a.
       if \<not> md_is_file (os_file_meta a) then pm_fail PrivateFileNotRegular
       else if md_uid (os_file_meta a) \<noteq> geteuid os then pm_fail PrivateFileOwnerMismatch
       else if md_mode (os_file_meta a) AND 0xFFF \<noteq> 0x180 then pm_fail PrivateFileModeMismatch
       else pm_return ())"

text \<open>\<open>openat\<close> with the flags \<open>O_CREAT\<close> and \<open>O_EXCL\<close>.\<close>

definition open_child :: "task_os \<Rightarrow> bytes \<Rightarrow> bool \<Rightarrow> bool \<Rightarrow> IoStage \<Rightarrow> unit pm" where
  "open_child os name creat excl stage =
     (if CHR 0x00 \<in> set name then pm_fail (Io stage InvalidInput)
      else sys_or os (Io stage) (\<lambda>_.
        pm_bind pm_dir (\<lambda>d.
        case d name of
          None \<Rightarrow> if creat then pm_set name (Some []) else pm_fail (Io stage NotFound)
        | Some _ \<Rightarrow> if creat \<and> excl then pm_fail (Io stage AlreadyExists) else pm_return ())))"

definition rename_child :: "task_os \<Rightarrow> bytes \<Rightarrow> bytes \<Rightarrow> IoStage \<Rightarrow> unit pm" where
  "rename_child os source target stage =
     (if CHR 0x00 \<in> set source \<or> CHR 0x00 \<in> set target then pm_fail (Io stage InvalidInput)
      else sys_or os (Io stage) (\<lambda>_.
        pm_bind pm_dir (\<lambda>d.
        case d source of
          None \<Rightarrow> pm_fail (Io stage NotFound)
        | Some content \<Rightarrow> pm_bind (pm_set source None) (\<lambda>_. pm_set target (Some content)))))"

definition unlink_child :: "task_os \<Rightarrow> bytes \<Rightarrow> IoStage \<Rightarrow> unit pm" where
  "unlink_child os name stage =
     (if CHR 0x00 \<in> set name then pm_fail (Io stage InvalidInput)
      else sys_or os (Io stage) (\<lambda>_.
        pm_bind pm_dir (\<lambda>d.
        if d name = None then pm_fail (Io stage NotFound) else pm_set name None)))"

text \<open>\<open>write_all\<close> at the end of a file; a failing call may have stored a part.\<close>

definition write_all ::
  "task_os \<Rightarrow> (io_error_kind \<Rightarrow> TaskServiceError) \<Rightarrow> bytes \<Rightarrow> bytes \<Rightarrow> unit pm" where
  "write_all os err name bs =
     sys os (\<lambda>a. pm_bind pm_dir (\<lambda>d.
       case os_error a of
         None \<Rightarrow> pm_set name (map_option (\<lambda>c. c @ bs) (d name))
       | Some k \<Rightarrow> pm_bind (pm_set name (map_option (\<lambda>c. c @ take (os_stored a) bs) (d name)))
                     (\<lambda>_. pm_fail (err k))))"

definition sync_all :: "task_os \<Rightarrow> (io_error_kind \<Rightarrow> TaskServiceError) \<Rightarrow> unit pm" where
  "sync_all os err = sys_or os err (\<lambda>_. pm_return ())"

definition set_len ::
  "task_os \<Rightarrow> (io_error_kind \<Rightarrow> TaskServiceError) \<Rightarrow> bytes \<Rightarrow> u64 \<Rightarrow> unit pm" where
  "set_len os err name n =
     sys_or os err (\<lambda>_. pm_bind pm_dir (\<lambda>d.
       pm_set name (map_option (\<lambda>c. take (unat n) c @ replicate (unat n - length c) (CHR 0x00)) (d name))))"

definition read_to_end :: "task_os \<Rightarrow> (io_error_kind \<Rightarrow> TaskServiceError) \<Rightarrow> bytes \<Rightarrow> bytes pm" where
  "read_to_end os err name =
     sys_or os err (\<lambda>_. pm_bind pm_dir (\<lambda>d. pm_return (case d name of None \<Rightarrow> [] | Some c \<Rightarrow> c)))"

definition sync_root :: "task_os \<Rightarrow> RootHandle \<Rightarrow> unit pm" where
  "sync_root os root = pm_bind (validate_binding os root) (\<lambda>_. sync_all os (Io SyncRoot))"

text \<open>The arms \<open>Err(Io { kind: NotFound, .. })\<close>.\<close>

definition is_not_found :: "TaskServiceError \<Rightarrow> bool" where
  "is_not_found e = (case e of Io _ k \<Rightarrow> k = NotFound | _ \<Rightarrow> False)"

definition open_lock :: "task_os \<Rightarrow> RootHandle \<Rightarrow> bool \<Rightarrow> bool pm" where
  "open_lock os root creat =
     pm_bind (validate_binding os root) (\<lambda>_.
     pm_bind (pm_try (open_child os LOCK_FILE creat False OpenLock)) (\<lambda>r.
     case r of
       Inr _ \<Rightarrow> pm_bind (validate_private_file os) (\<lambda>_. pm_return True)
     | Inl e \<Rightarrow> if is_not_found e \<and> \<not> creat then pm_return False else pm_fail e))"

definition read_private ::
  "task_os \<Rightarrow> RootHandle \<Rightarrow> bytes \<Rightarrow> IoStage \<Rightarrow> IoStage \<Rightarrow> bytes option pm" where
  "read_private os root name open_stage read_stage =
     pm_bind (validate_binding os root) (\<lambda>_.
     pm_bind (pm_try (open_child os name False False open_stage)) (\<lambda>r.
     case r of
       Inl e \<Rightarrow> if is_not_found e then pm_return None else pm_fail e
     | Inr _ \<Rightarrow>
         pm_bind (validate_private_file os) (\<lambda>_.
         pm_bind (read_to_end os (Io read_stage) name) (\<lambda>bs. pm_return (Some bs)))))"

definition private_exists :: "task_os \<Rightarrow> RootHandle \<Rightarrow> bytes \<Rightarrow> IoStage \<Rightarrow> bool pm" where
  "private_exists os root name stage =
     pm_bind (validate_binding os root) (\<lambda>_.
     pm_bind (pm_try (open_child os name False False stage)) (\<lambda>r.
     case r of
       Inr _ \<Rightarrow> pm_bind (validate_private_file os) (\<lambda>_. pm_return True)
     | Inl e \<Rightarrow> if is_not_found e then pm_return False else pm_fail e))"

section \<open>Reading\<close>

definition load_snapshot :: "task_env \<Rightarrow> task_os \<Rightarrow> RootHandle \<Rightarrow> TaskStore option pm" where
  "load_snapshot E os root =
     pm_bind (read_private os root SNAPSHOT_FILE OpenSnapshot ReadSnapshot) (\<lambda>content.
     case content of
       None \<Rightarrow> pm_return None
     | Some bs \<Rightarrow>
         pm_bind (pm_lift (tres_of (ok_or Err_InvalidJson (parse_store E bs)))) (\<lambda>store.
         pm_bind (pm_lift (tres_of (map_err Err_InvalidStore (validate_store E store)))) (\<lambda>_.
         pm_return (Some store))))"

definition read_journal :: "task_os \<Rightarrow> RootHandle \<Rightarrow> bytes option pm" where
  "read_journal os root = read_private os root JOURNAL_FILE OpenJournal ReadJournal"

definition load_recovery :: "task_env \<Rightarrow> task_os \<Rightarrow> RootHandle \<Rightarrow> RecoveryIntent option pm" where
  "load_recovery E os root =
     pm_bind (read_private os root RECOVERY_FILE OpenRecoveryIntent ReadRecoveryIntent) (\<lambda>content.
     case content of
       None \<Rightarrow> pm_return None
     | Some bs \<Rightarrow> pm_lift (tres_of (ok_or invalid_recovery (map_option Some (parse_intent E bs)))))"

section \<open>Appending to the journal\<close>

definition open_journal_append :: "task_os \<Rightarrow> RootHandle \<Rightarrow> unit pm" where
  "open_journal_append os root =
     pm_bind (validate_binding os root) (\<lambda>_.
     pm_bind (open_child os JOURNAL_FILE True False OpenJournal) (\<lambda>_.
     pm_bind (validate_private_file os) (\<lambda>_.
     sys_or os (Io OpenJournal) (\<lambda>_. pm_return ()))))"

definition prepare_journal_append :: "task_os \<Rightarrow> RootHandle \<Rightarrow> unit pm" where
  "prepare_journal_append os root = open_journal_append os root"

definition partial_count :: "bytes \<Rightarrow> nat" where
  "partial_count line = min (max (length line div 2) 1) (length line - 1)"

text \<open>
  The answer is \<open>Inl phase\<close> for \<open>AppendFailure::Unknown(phase)\<close>. Every error of a call inside is
  replaced by the phase, so the errors passed to the calls do not matter.
\<close>

definition append_transition ::
  "task_os \<Rightarrow> RootHandle \<Rightarrow> bytes \<Rightarrow> (PersistencePhase + unit) pm" where
  "append_transition os root line =
     pm_bind (pm_try (validate_binding os root)) (\<lambda>bound.
     case bound of Inl _ \<Rightarrow> pm_return (Inl JournalWrite) | Inr _ \<Rightarrow>
     pm_bind (hit PartialJournalWrite) (\<lambda>torn.
     if torn then
       pm_bind (pm_try (write_all os (Io AppendJournal) JOURNAL_FILE (take (partial_count line) line)))
         (\<lambda>_. pm_return (Inl JournalWrite))
     else
       pm_bind (pm_try (write_all os (Io AppendJournal) JOURNAL_FILE line)) (\<lambda>written.
       case written of Inl _ \<Rightarrow> pm_return (Inl JournalWrite) | Inr _ \<Rightarrow>
       pm_bind (hit AfterJournalWrite) (\<lambda>stop.
       if stop then pm_return (Inl JournalWrite)
       else pm_bind (pm_try (sync_all os (Io SyncJournal))) (\<lambda>synced.
         case synced of Inl _ \<Rightarrow> pm_return (Inl JournalSync) | Inr _ \<Rightarrow>
         pm_bind (hit AfterJournalSync) (\<lambda>stop.
         if stop then pm_return (Inl JournalSync) else pm_return (Inr ())))))))"

section \<open>Replacing a file\<close>

definition temp_name :: "task_os \<Rightarrow> nat \<Rightarrow> bytes" where
  "temp_name os n = ''.task-service-v1.tmp-'' @ os_unique os n"

definition hit_opt :: "FaultPoint option \<Rightarrow> bool pm" where
  "hit_opt p = (case p of None \<Rightarrow> pm_return False | Some point \<Rightarrow> hit point)"

definition replace_body ::
  "task_os \<Rightarrow> RootHandle \<Rightarrow> bytes \<Rightarrow> bytes \<Rightarrow> bytes \<Rightarrow> FaultPoint option \<Rightarrow> FaultPoint option \<Rightarrow>
     IoStage \<Rightarrow> unit pm" where
  "replace_body os root temp target bs before_rename after_rename stage =
     pm_bind (validate_binding os root) (\<lambda>_.
     pm_bind (open_child os temp True True CreateTemp) (\<lambda>_.
     pm_bind (validate_private_file os) (\<lambda>_.
     pm_bind (write_all os (Io WriteTemp) temp bs) (\<lambda>_.
     pm_bind (sync_all os (Io SyncTemp)) (\<lambda>_.
     pm_bind (hit_opt before_rename) (\<lambda>stop.
     if stop then pm_fail InjectedDefiniteNoWrite
     else pm_bind (validate_binding os root) (\<lambda>_.
       pm_bind (rename_child os temp target stage) (\<lambda>_.
       pm_bind (hit_opt after_rename) (\<lambda>stop.
       if stop then pm_fail InjectedDefiniteNoWrite else pm_return ())))))))))"

definition atomic_replace_without_root_sync_with_faults ::
  "task_os \<Rightarrow> RootHandle \<Rightarrow> bytes \<Rightarrow> bytes \<Rightarrow> FaultPoint option \<Rightarrow> FaultPoint option \<Rightarrow> IoStage \<Rightarrow> unit pm"
  where
  "atomic_replace_without_root_sync_with_faults os root target bs before_rename after_rename stage st =
     (let temp = temp_name os (ps_tick st) in
      pm_bind (pm_try (replace_body os root temp target bs before_rename after_rename stage)) (\<lambda>r.
      case r of
        Inr _ \<Rightarrow> pm_return ()
      | Inl e \<Rightarrow> pm_bind (pm_try (unlink_child os temp RemoveRecoveryIntent)) (\<lambda>_. pm_fail e)) st)"

definition atomic_replace_without_root_sync ::
  "task_os \<Rightarrow> RootHandle \<Rightarrow> bytes \<Rightarrow> bytes \<Rightarrow> IoStage \<Rightarrow> unit pm" where
  "atomic_replace_without_root_sync os root target bs stage =
     atomic_replace_without_root_sync_with_faults os root target bs None None stage"

definition atomic_replace ::
  "task_os \<Rightarrow> RootHandle \<Rightarrow> bytes \<Rightarrow> bytes \<Rightarrow> FaultPoint option \<Rightarrow> FaultPoint option \<Rightarrow> IoStage \<Rightarrow> unit pm"
  where
  "atomic_replace os root target bs before_rename after_rename stage =
     pm_bind (atomic_replace_without_root_sync_with_faults os root target bs before_rename after_rename
       stage) (\<lambda>_. sync_root os root)"

text \<open>The answer is \<open>Inl phase\<close> for \<open>Err(phase)\<close>.\<close>

definition replace_snapshot_after_transition ::
  "task_os \<Rightarrow> RootHandle \<Rightarrow> bytes \<Rightarrow> (PersistencePhase + unit) pm" where
  "replace_snapshot_after_transition os root bs =
     pm_bind (pm_try (atomic_replace os root SNAPSHOT_FILE bs (Some BeforeSnapshotRename)
       (Some AfterSnapshotRename) ReplaceSnapshot)) (\<lambda>r.
     case r of
       Inl _ \<Rightarrow> pm_return (Inl Persist_SnapshotReplace)
     | Inr _ \<Rightarrow> pm_bind (hit AfterSnapshotParentSync) (\<lambda>stop.
         if stop then pm_return (Inl SnapshotParentSync) else pm_return (Inr ())))"

definition persist_replayed_snapshot :: "task_os \<Rightarrow> RootHandle \<Rightarrow> bytes \<Rightarrow> unit pm" where
  "persist_replayed_snapshot os root bs =
     atomic_replace os root SNAPSHOT_FILE bs None None ReplaceSnapshot"

section \<open>Recovery\<close>

definition stop_if_hit :: "FaultPoint \<Rightarrow> RecoveryPhase \<Rightarrow> unit pm" where
  "stop_if_hit point phase =
     pm_bind (hit point) (\<lambda>stop. if stop then pm_fail (RecoveryStopped phase) else pm_return ())"

definition persist_recovery_intent ::
  "task_env \<Rightarrow> task_os \<Rightarrow> RootHandle \<Rightarrow> RecoveryIntent \<Rightarrow> unit pm" where
  "persist_recovery_intent E os root intent =
     pm_bind (private_exists os root RECOVERY_FILE OpenRecoveryIntent) (\<lambda>exists.
     if exists then pm_fail invalid_recovery
     else pm_bind (pm_lift (tres_of (ok_or Serialization (json_intent E intent)))) (\<lambda>bs.
       pm_bind (atomic_replace_without_root_sync os root RECOVERY_FILE bs ReplaceRecoveryIntent) (\<lambda>_.
       pm_bind (stop_if_hit AfterRecoveryIntentRename IntentParentSync) (\<lambda>_.
       pm_bind (sync_root os root) (\<lambda>_.
       stop_if_hit AfterRecoveryIntentParentSync IntentParentSync)))))"

definition truncate_for_recovery :: "task_os \<Rightarrow> RootHandle \<Rightarrow> u64 \<Rightarrow> unit pm" where
  "truncate_for_recovery os root n =
     pm_bind (validate_binding os root) (\<lambda>_.
     pm_bind (open_child os JOURNAL_FILE False False TruncateJournal) (\<lambda>_.
     pm_bind (validate_private_file os) (\<lambda>_.
     pm_bind (validate_binding os root) (\<lambda>_.
     pm_bind (set_len os (Io TruncateJournal) JOURNAL_FILE n) (\<lambda>_.
     pm_bind (sync_all os (Io TruncateJournal)) (\<lambda>_.
     stop_if_hit AfterRecoveryTruncate JournalTruncate))))))"

definition append_recovery_record :: "task_os \<Rightarrow> RootHandle \<Rightarrow> bytes \<Rightarrow> unit pm" where
  "append_recovery_record os root line =
     pm_bind (open_journal_append os root) (\<lambda>_.
     pm_bind (validate_binding os root) (\<lambda>_.
     pm_bind (hit PartialRecoveryRecordWrite) (\<lambda>torn.
     if torn then
       pm_bind (write_all os (Io AppendJournal) JOURNAL_FILE (take (partial_count line) line)) (\<lambda>_.
       pm_fail (RecoveryStopped RecoveryRecordWrite))
     else
       pm_bind (write_all os (Io SyncJournal) JOURNAL_FILE line) (\<lambda>_.
       pm_bind (sync_all os (Io SyncJournal)) (\<lambda>_.
       stop_if_hit AfterRecoveryRecordSync RecoveryRecordSync)))))"

definition persist_recovery_snapshot :: "task_os \<Rightarrow> RootHandle \<Rightarrow> bytes \<Rightarrow> unit pm" where
  "persist_recovery_snapshot os root bs =
     pm_bind (atomic_replace_without_root_sync os root SNAPSHOT_FILE bs ReplaceSnapshot) (\<lambda>_.
     pm_bind (stop_if_hit AfterRecoverySnapshotRename SnapshotReplace) (\<lambda>_.
     sync_root os root))"

definition remove_recovery_intent :: "task_os \<Rightarrow> RootHandle \<Rightarrow> unit pm" where
  "remove_recovery_intent os root =
     pm_bind (validate_binding os root) (\<lambda>_.
     pm_bind (unlink_child os RECOVERY_FILE RemoveRecoveryIntent) (\<lambda>_.
     pm_bind (stop_if_hit AfterRecoveryIntentRemove IntentRemovalParentSync) (\<lambda>_.
     sync_root os root)))"

end
