(* ===== verification/Task_Properties.thy ===== *)
theory Task_Properties
  imports Task_Plan
begin

text \<open>
  Facts about the deterministic core of the Task Service: the shape of a planned transition, the
  phase machine, the well-formedness of the task table and of the store, and the agreement of
  \<open>finalize_transition\<close> with \<open>reconstruct_store\<close>.
\<close>

named_theorems table_simps \<open>lookups in updated task tables\<close>

section \<open>The task table\<close>

definition table_ok :: "task_table \<Rightarrow> bool" where
  "table_ok tasks \<longleftrightarrow> bt_ok tasks \<and> (\<forall>t m. bt_get tasks t = Some m \<longrightarrow> bt_ok m \<and> m \<noteq> [])"

lemma table_ok_Nil [simp]: "table_ok []"
  by (simp add: table_ok_def)

lemma task_get_put [table_simps]:
  "task_get (task_put tasks t n r) t' n' = (if t' = t \<and> n' = n then Some r else task_get tasks t' n')"
  by (auto simp: task_get_def task_put_def bt_simps split: option.splits)

lemma task_get_Some:
  "task_get tasks t n = Some r \<longleftrightarrow> (\<exists>m. bt_get tasks t = Some m \<and> bt_get m n = Some r)"
  by (auto simp: task_get_def split: option.splits)

lemma task_get_fun: "bt_get tasks t = Some m \<Longrightarrow> task_get tasks t = bt_get m"
  by (simp add: task_get_def fun_eq_iff)

lemma task_put_cases:
  assumes "task_get (task_put tasks t n r) t' n' = Some x"
  obtains (new) "t' = t" "n' = n" "x = r" | (old) "task_get tasks t' n' = Some x" "t' \<noteq> t \<or> n' \<noteq> n"
proof (cases "t' = t \<and> n' = n")
  case True
  with assms show ?thesis by (intro new) (simp_all add: task_get_put)
next
  case False
  with assms show ?thesis by (intro old) (auto simp: task_get_put)
qed

lemma table_ok_insert:
  "table_ok tasks \<Longrightarrow> bt_ok m \<Longrightarrow> m \<noteq> [] \<Longrightarrow> table_ok (bt_insert t m tasks)"
  by (simp add: table_ok_def bt_simps)

lemma table_ok_put: "table_ok tasks \<Longrightarrow> table_ok (task_put tasks t n r)"
proof (cases "bt_get tasks t")
  case (Some m)
  moreover assume "table_ok tasks"
  moreover from calculation have "bt_ok m" by (simp add: table_ok_def)
  ultimately show ?thesis by (simp add: task_put_def table_ok_insert)
qed (simp add: task_put_def table_ok_insert bt_ok_def [of "[_]"])

lemma task_get_in_values:
  assumes "table_ok tasks"
  shows "r \<in> set (concat (map bt_values (bt_values tasks))) \<longleftrightarrow> (\<exists>t n. task_get tasks t n = Some r)"
proof -
  have ok: "bt_ok tasks" and oks: "\<And>t m. bt_get tasks t = Some m \<Longrightarrow> bt_ok m"
    using assms by (auto simp: table_ok_def)
  have "r \<in> set (concat (map bt_values (bt_values tasks))) \<longleftrightarrow>
      (\<exists>t m. bt_get tasks t = Some m \<and> r \<in> set (bt_values m))"
    using bt_values_iff [OF ok] by (simp add: Bex_def) blast
  also have "\<dots> \<longleftrightarrow> (\<exists>t m n. bt_get tasks t = Some m \<and> bt_get m n = Some r)"
    using bt_values_iff [OF oks] by blast
  also have "\<dots> \<longleftrightarrow> (\<exists>t n. task_get tasks t n = Some r)"
    unfolding task_get_Some by blast
  finally show ?thesis .
qed

lemma attempt_token_taken_iff:
  assumes "table_ok tasks"
  shows "attempt_token_taken tasks token \<longleftrightarrow>
     (\<exists>t n r a. task_get tasks t n = Some r \<and> task_attempt r = Some a \<and> att_attempt_token a = token)"
proof -
  have "attempt_token_taken tasks token \<longleftrightarrow>
      (\<exists>r \<in> set (concat (map bt_values (bt_values tasks))).
         \<exists>a. task_attempt r = Some a \<and> att_attempt_token a = token)"
    unfolding attempt_token_taken_def list_ex_iff
    by (intro bex_cong refl) (auto split: option.splits)
  then show ?thesis
    unfolding Bex_def task_get_in_values [OF assms] by blast
qed

section \<open>The shape of a plan\<close>

text \<open>
  The successor of a task record under a plan: either a fresh draft, or the same specification in
  the phase the command leads to.
\<close>

definition plan_replaces :: "task_table \<Rightarrow> PlannedTransition \<Rightarrow> TaskRecord \<Rightarrow> bool" where
  "plan_replaces tasks p r' \<longleftrightarrow>
     plan_tasks p = task_put tasks (plan_task_id p) (plan_task_revision p) r' \<and>
     task_phase r' = plan_resulting_phase p \<and>
     (case plan_prior_phase p of
        None \<Rightarrow> task_get tasks (plan_task_id p) (plan_task_revision p) = None
      | Some phase \<Rightarrow> (\<exists>r. task_get tasks (plan_task_id p) (plan_task_revision p) = Some r \<and>
          task_phase r = phase \<and> task_specification r' = task_specification r))"

lemmas plan_defs = plan_transition_def plan_attempt_transition_def plan_create_draft_def
  plan_publish_def plan_cancel_draft_def require_no_fence_def require_phase_def task_record_mut_def

lemma note_receipt_keeps [simp]:
  "att_attempt_number (note_receipt e c a) = att_attempt_number a"
  "att_attempt_token (note_receipt e c a) = att_attempt_token a"
  "att_owner_session_id (note_receipt e c a) = att_owner_session_id a"
  "att_owner_durable_revision (note_receipt e c a) = att_owner_durable_revision a"
  "att_runtime_generation (note_receipt e c a) = att_runtime_generation a"
  "att_runtime_agent_id (note_receipt e c a) = att_runtime_agent_id a"
  "att_publication_receipt_id (note_receipt e c a) = att_publication_receipt_id a"
  by (simp_all add: note_receipt_def split: TaskCommand.split)

text \<open>The three unfenced commands are the only ones without an edge.\<close>

definition unfenced :: "TaskCommand \<Rightarrow> bool" where
  "unfenced c \<longleftrightarrow> (case c of CreateDraft _ \<Rightarrow> True | Publish _ \<Rightarrow> True | CancelDraft _ \<Rightarrow> True | _ \<Rightarrow> False)"

lemma command_edge_None: "command_edge c = None \<longleftrightarrow> unfenced c"
  by (cases c) (simp_all add: unfenced_def)

lemma command_edge_resulting: "command_edge c = Some (a, b) \<Longrightarrow> b = command_resulting_phase c"
  by (cases c) auto

lemma command_edge_live: "command_edge c = Some (a, b) \<Longrightarrow> \<not> is_terminal a \<and> a \<noteq> Draft \<and> b \<noteq> Draft"
  by (cases c) (auto simp: is_terminal_def)

lemma plan_transition_fenced:
  "\<not> unfenced (env_command e) \<Longrightarrow>
     plan_transition s e = plan_attempt_transition (ts_tasks s) e (env_command e)"
  by (cases "env_command e") (simp_all add: plan_transition_def unfenced_def)

lemma plan_attempt_Done:
  assumes "plan_attempt_transition tasks e c = Done p"
  obtains f r a x y where "env_fence e = Some f"
    "task_get tasks (fence_task_id f) (fence_task_revision f) = Some r"
    "task_attempt r = Some a" "fence_matches f a" "command_edge c = Some (x, y)" "task_phase r = x"
    "p = \<lparr>plan_tasks = task_put tasks (fence_task_id f) (fence_task_revision f)
             (r\<lparr>task_phase := y, task_attempt := Some (note_receipt e c a)\<rparr>),
          plan_task_id = fence_task_id f, plan_task_revision = fence_task_revision f,
          plan_attempt_number = Some (fence_attempt_number f), plan_prior_phase = Some x,
          plan_resulting_phase = y\<rparr>"
  using assms
  by (auto simp: plan_attempt_transition_def require_phase_def res_simps split: if_splits prod.splits)

text \<open>A plan is one of the four shapes.\<close>

lemma plan_Done_cases:
  assumes "plan_transition s e = Done p"
  obtains (create) spec where "env_command e = CreateDraft spec" "env_fence e = None"
      "plan_create_draft (ts_tasks s) spec = Done p"
  | (publish) c where "env_command e = Publish c" "env_fence e = None"
      "plan_publish (ts_tasks s) (env_receipt_id e) c = Done p"
  | (cancel) c where "env_command e = CancelDraft c" "env_fence e = None"
      "plan_cancel_draft (ts_tasks s) c = Done p"
  | (fenced) "\<not> unfenced (env_command e)"
      "plan_attempt_transition (ts_tasks s) e (env_command e) = Done p"
proof (cases "unfenced (env_command e)")
  case True
  with assms show ?thesis
    by (cases "env_command e")
      (auto simp: plan_transition_def unfenced_def require_no_fence_def split: if_splits
        intro: create publish cancel)
next
  case False
  with assms show ?thesis
    using fenced plan_transition_fenced by metis
qed

lemma plan_never_panics: "plan_transition s e \<noteq> Panics"
proof (cases "unfenced (env_command e)")
  case True
  then show ?thesis
    by (cases "env_command e")
      (auto simp: unfenced_def plan_defs res_simps Let_def split: if_splits option.splits)
next
  case False
  then have "command_edge (env_command e) \<noteq> None"
    by (simp add: command_edge_None)
  with False show ?thesis
    by (auto simp: plan_transition_fenced plan_attempt_transition_def require_phase_def res_simps
        split: if_splits prod.splits)
qed

lemma plan_create_Done:
  assumes "plan_create_draft tasks spec = Done p"
  shows "task_get tasks (spec_task_id spec) (spec_task_revision spec) = None
    \<and> (\<forall>m k r. bt_get tasks (spec_task_id spec) = Some m \<longrightarrow> bt_last m = Some (k, r) \<longrightarrow>
         is_terminal (task_phase r) \<and> k < spec_task_revision spec)
    \<and> p = \<lparr>plan_tasks = task_put tasks (spec_task_id spec) (spec_task_revision spec)
             \<lparr>task_specification = spec, task_phase = Draft, task_attempt = None\<rparr>,
           plan_task_id = spec_task_id spec, plan_task_revision = spec_task_revision spec,
           plan_attempt_number = None, plan_prior_phase = None, plan_resulting_phase = Draft\<rparr>"
  using assms
  by (auto simp: plan_create_draft_def task_get_def Let_def res_simps
      split: if_splits option.splits prod.splits)

lemma plan_publish_Done:
  assumes "plan_publish tasks receipt c = Done p"
  obtains r where "\<not> attempt_token_taken tasks (pub_attempt_token c)"
    "task_get tasks (pub_task_id c) (pub_task_revision c) = Some r" "task_phase r = Draft"
    "p = \<lparr>plan_tasks = task_put tasks (pub_task_id c) (pub_task_revision c)
           (r\<lparr>task_phase := Published,
              task_attempt := Some
                \<lparr>att_attempt_number = 1, att_attempt_token = pub_attempt_token c,
                 att_owner_session_id = pub_owner_session_id c,
                 att_owner_durable_revision = pub_owner_durable_revision c,
                 att_runtime_generation = pub_runtime_generation c,
                 att_runtime_agent_id = pub_runtime_agent_id c,
                 att_publication_receipt_id = receipt, att_delivery_receipt_id = None,
                 att_acceptance_receipt_id = None, att_start_receipt_id = None,
                 att_result_receipt_id = None\<rparr>\<rparr>),
         plan_task_id = pub_task_id c, plan_task_revision = pub_task_revision c,
         plan_attempt_number = Some 1, plan_prior_phase = Some Draft,
         plan_resulting_phase = Published\<rparr>"
  using assms
  by (auto simp: plan_publish_def task_record_mut_def require_phase_def res_simps split: if_splits)

lemma plan_cancel_Done:
  assumes "plan_cancel_draft tasks c = Done p"
  obtains r where "task_get tasks (cd_task_id c) (cd_task_revision c) = Some r" "task_phase r = Draft"
    "p = \<lparr>plan_tasks = task_put tasks (cd_task_id c) (cd_task_revision c) (r\<lparr>task_phase := Cancelled\<rparr>),
         plan_task_id = cd_task_id c, plan_task_revision = cd_task_revision c,
         plan_attempt_number = None, plan_prior_phase = Some Draft,
         plan_resulting_phase = Cancelled\<rparr>"
  using assms
  by (auto simp: plan_cancel_draft_def task_record_mut_def require_phase_def res_simps split: if_splits)

lemma plan_replaces_one:
  assumes "plan_transition s e = Done p"
  shows "\<exists>r'. plan_replaces (ts_tasks s) p r'"
  using assms
proof (cases rule: plan_Done_cases)
  case (create spec)
  from plan_create_Done [OF create(3)] show ?thesis
    by (auto simp: plan_replaces_def)
next
  case (publish c)
  from publish(3) show ?thesis
    by (rule plan_publish_Done) (auto simp: plan_replaces_def)
next
  case (cancel c)
  from cancel(3) show ?thesis
    by (rule plan_cancel_Done) (auto simp: plan_replaces_def)
next
  case fenced
  from fenced(2) show ?thesis
    by (rule plan_attempt_Done) (auto simp: plan_replaces_def)
qed

lemma plan_resulting:
  assumes "plan_transition s e = Done p"
  shows "plan_resulting_phase p = command_resulting_phase (env_command e)"
  using assms
proof (cases rule: plan_Done_cases)
  case (create spec)
  with plan_create_Done [OF create(3)] show ?thesis by auto
next
  case (publish c)
  from publish(3) show ?thesis
    by (rule plan_publish_Done) (simp add: publish(1))
next
  case (cancel c)
  from cancel(3) show ?thesis
    by (rule plan_cancel_Done) (simp add: cancel(1))
next
  case fenced
  from fenced(2) show ?thesis
    by (rule plan_attempt_Done) (auto dest: command_edge_resulting)
qed

lemma plan_prior_live:
  assumes "plan_transition s e = Done p" and "plan_prior_phase p = Some phase"
  shows "\<not> is_terminal phase"
  using assms(1)
proof (cases rule: plan_Done_cases)
  case (create spec)
  with plan_create_Done [OF create(3)] assms(2) show ?thesis by auto
next
  case (publish c)
  from publish(3) show ?thesis
    by (rule plan_publish_Done) (use assms(2) in \<open>auto simp: is_terminal_def\<close>)
next
  case (cancel c)
  from cancel(3) show ?thesis
    by (rule plan_cancel_Done) (use assms(2) in \<open>auto simp: is_terminal_def\<close>)
next
  case fenced
  from fenced(2) show ?thesis
    by (rule plan_attempt_Done) (use assms(2) in \<open>auto dest: command_edge_live\<close>)
qed

section \<open>Validity of the task table\<close>

definition record_ok :: "task_env \<Rightarrow> id \<Rightarrow> u64 \<Rightarrow> TaskRecord \<Rightarrow> bool" where
  "record_ok E t n r \<longleftrightarrow>
     validate_specification E (task_specification r) = Inr () \<and>
     spec_task_id (task_specification r) = t \<and> spec_task_revision (task_specification r) = n \<and>
     validate_attempt_shape r = Inr ()"

text \<open>
  Every record is filed under its own key with a matching contract, a record that is not terminal
  is the latest revision of its task, and no two attempts share a token.
\<close>

definition table_valid :: "task_env \<Rightarrow> task_table \<Rightarrow> bool" where
  "table_valid E tasks \<longleftrightarrow> (\<forall>t n r. task_get tasks t n = Some r \<longrightarrow>
     record_ok E t n r \<and>
     (is_terminal (task_phase r) \<or> (\<forall>n' r'. task_get tasks t n' = Some r' \<longrightarrow> n' \<le> n)))"

definition tokens_unique :: "task_table \<Rightarrow> bool" where
  "tokens_unique tasks \<longleftrightarrow>
     (\<forall>t n r a t' n' r' a'. task_get tasks t n = Some r \<longrightarrow> task_attempt r = Some a \<longrightarrow>
        task_get tasks t' n' = Some r' \<longrightarrow> task_attempt r' = Some a' \<longrightarrow>
        att_attempt_token a = att_attempt_token a' \<longrightarrow> t = t' \<and> n = n')"

lemma latest_iff:
  assumes "bt_ok m" and "bt_get m n = Some r"
  shows "Some n = map_option fst (bt_last m) \<longleftrightarrow> (\<forall>n' r'. bt_get m n' = Some r' \<longrightarrow> n' \<le> n)"
proof -
  obtain k v where kv: "bt_last m = Some (k, v)"
    using assms(2) by (cases "bt_last m") (auto simp: bt_last_None)
  then have k: "bt_get m k = Some v" "\<And>n' r'. bt_get m n' = Some r' \<Longrightarrow> n' \<le> k"
    using bt_last_Some [OF assms(1)] by auto
  show ?thesis
  proof
    assume "Some n = map_option fst (bt_last m)"
    with kv k show "\<forall>n' r'. bt_get m n' = Some r' \<longrightarrow> n' \<le> n" by auto
  next
    assume "\<forall>n' r'. bt_get m n' = Some r' \<longrightarrow> n' \<le> n"
    with k assms(2) have "k = n" by (metis antisym)
    with kv show "Some n = map_option fst (bt_last m)" by simp
  qed
qed

lemma validate_task_iff:
  assumes "bt_ok m"
  shows "validate_task E (t, m) = Inr () \<longleftrightarrow> m \<noteq> [] \<and> (\<forall>n r. bt_get m n = Some r \<longrightarrow>
    record_ok E t n r \<and> (is_terminal (task_phase r) \<or> (\<forall>n' r'. bt_get m n' = Some r' \<longrightarrow> n' \<le> n)))"
proof -
  have "(\<forall>x \<in> set m. validate_task_record E t (map_option fst (bt_last m)) x = Inr ()) \<longleftrightarrow>
      (\<forall>n r. bt_get m n = Some r \<longrightarrow>
         validate_task_record E t (map_option fst (bt_last m)) (n, r) = Inr ())"
    using bt_get_iff [OF assms] by force
  also have "\<dots> \<longleftrightarrow> (\<forall>n r. bt_get m n = Some r \<longrightarrow> record_ok E t n r \<and>
      (is_terminal (task_phase r) \<or> (\<forall>n' r'. bt_get m n' = Some r' \<longrightarrow> n' \<le> n)))"
    by (intro all_cong1 imp_cong refl)
      (use latest_iff [OF assms] in \<open>simp only: validate_task_record_Inr record_ok_def; blast\<close>)
  finally show ?thesis
    by (auto simp: validate_task_def res_simps)
qed

lemma validate_tasks_iff:
  assumes "table_ok tasks"
  shows "(\<forall>e \<in> set tasks. validate_task E e = Inr ()) \<longleftrightarrow> table_valid E tasks"
proof -
  have ok: "bt_ok tasks" and oks: "\<And>t m. bt_get tasks t = Some m \<Longrightarrow> bt_ok m \<and> m \<noteq> []"
    using assms by (auto simp: table_ok_def)
  have "(\<forall>e \<in> set tasks. validate_task E e = Inr ()) \<longleftrightarrow>
      (\<forall>t m. bt_get tasks t = Some m \<longrightarrow> validate_task E (t, m) = Inr ())"
    using bt_get_iff [OF ok] by force
  also have "\<dots> \<longleftrightarrow> (\<forall>t m. bt_get tasks t = Some m \<longrightarrow> (\<forall>n r. bt_get m n = Some r \<longrightarrow>
      record_ok E t n r \<and> (is_terminal (task_phase r) \<or> (\<forall>n' r'. bt_get m n' = Some r' \<longrightarrow> n' \<le> n))))"
    by (intro all_cong1 imp_cong refl) (simp add: validate_task_iff oks)
  also have "\<dots> \<longleftrightarrow> table_valid E tasks"
    unfolding table_valid_def
  proof (intro iffI allI impI, goal_cases)
    case (1 t n r)
    from 1(2) obtain m where "bt_get tasks t = Some m" "bt_get m n = Some r"
      unfolding task_get_Some by blast
    with 1(1) show ?case
      by (simp add: task_get_fun)
  next
    case (2 t m n r)
    then show ?case
      by (metis task_get_fun)
  qed
  finally show ?thesis .
qed

text \<open>The two ways a plan changes a table, each of which keeps it valid.\<close>

lemma table_valid_new_latest:
  assumes "table_valid E tasks" and "record_ok E t n r"
    and "\<And>n' r'. task_get tasks t n' = Some r' \<Longrightarrow> n' < n \<and> is_terminal (task_phase r')"
  shows "table_valid E (task_put tasks t n r)"
  unfolding table_valid_def
proof (intro allI impI)
  fix t1 n1 r1
  assume "task_get (task_put tasks t n r) t1 n1 = Some r1"
  then show "record_ok E t1 n1 r1 \<and> (is_terminal (task_phase r1) \<or>
      (\<forall>n' r''. task_get (task_put tasks t n r) t1 n' = Some r'' \<longrightarrow> n' \<le> n1))"
  proof (cases rule: task_put_cases)
    case new
    with assms(2,3) show ?thesis by (auto simp: task_get_put less_imp_le)
  next
    case old
    with assms(1) have "record_ok E t1 n1 r1" "is_terminal (task_phase r1) \<or>
        (\<forall>n' r''. task_get tasks t1 n' = Some r'' \<longrightarrow> n' \<le> n1)"
      unfolding table_valid_def by blast+
    moreover have "is_terminal (task_phase r1)" if "t1 = t"
      using assms(3) old(1) that by blast
    ultimately show ?thesis
      by (cases "t1 = t") (simp_all add: task_get_put)
  qed
qed

lemma table_valid_replace:
  assumes "table_valid E tasks" and "task_get tasks t n = Some r" and "\<not> is_terminal (task_phase r)"
    and "record_ok E t n r'"
  shows "table_valid E (task_put tasks t n r')"
proof -
  have latest: "n' \<le> n" if "task_get tasks t n' = Some x" for n' x
    using assms(1-3) that unfolding table_valid_def by blast
  show ?thesis
    unfolding table_valid_def
  proof (intro allI impI)
    fix t1 n1 r1
    assume "task_get (task_put tasks t n r') t1 n1 = Some r1"
    then show "record_ok E t1 n1 r1 \<and> (is_terminal (task_phase r1) \<or>
        (\<forall>n' r''. task_get (task_put tasks t n r') t1 n' = Some r'' \<longrightarrow> n' \<le> n1))"
    proof (cases rule: task_put_cases)
      case new
      with assms(4) latest show ?thesis by (auto simp: task_get_put)
    next
      case old
      have "record_ok E t1 n1 r1" "is_terminal (task_phase r1) \<or>
          (\<forall>n' r''. task_get tasks t1 n' = Some r'' \<longrightarrow> n' \<le> n1)"
        using assms(1) old(1) unfolding table_valid_def by blast+
      moreover have "t1 \<noteq> t" if "\<not> is_terminal (task_phase r1)"
        using calculation(2) that latest old assms(2) by (metis antisym)
      ultimately show ?thesis
        by (cases "is_terminal (task_phase r1)") (simp_all add: task_get_put)
    qed
  qed
qed

lemma record_ok_live:
  "record_ok E t n r \<Longrightarrow> task_attempt r = Some a \<Longrightarrow> att_attempt_number a' = att_attempt_number a \<Longrightarrow>
     phase \<noteq> Draft \<Longrightarrow> record_ok E t n (r\<lparr>task_phase := phase, task_attempt := Some a'\<rparr>)"
  by (simp add: record_ok_def validate_attempt_shape_Inr)

lemma record_ok_draft:
  "record_ok E t n r \<Longrightarrow> task_phase r = Draft \<Longrightarrow> task_attempt r = None"
  by (auto simp: record_ok_def validate_attempt_shape_Inr split: option.splits)

lemma table_valid_get: "table_valid E tasks \<Longrightarrow> task_get tasks t n = Some r \<Longrightarrow> record_ok E t n r"
  by (simp add: table_valid_def)

lemma plan_table_ok:
  "table_ok (ts_tasks s) \<Longrightarrow> plan_transition s e = Done p \<Longrightarrow> table_ok (plan_tasks p)"
  by (drule plan_replaces_one) (auto simp: plan_replaces_def table_ok_put)

lemma plan_create_latest:
  assumes ok: "table_ok tasks" and valid: "table_valid E tasks"
    and plan: "plan_create_draft tasks spec = Done p"
    and get: "task_get tasks (spec_task_id spec) n = Some r"
  shows "n < spec_task_revision spec \<and> is_terminal (task_phase r)"
proof -
  obtain m where m: "bt_get tasks (spec_task_id spec) = Some m" "bt_get m n = Some r"
    using get by (auto simp: task_get_def split: option.splits)
  then have "bt_ok m" using ok by (auto simp: table_ok_def)
  obtain k v where kv: "bt_last m = Some (k, v)"
    using m(2) by (cases "bt_last m") (auto simp: bt_last_None)
  then have k: "bt_get m k = Some v" "n \<le> k"
    using bt_last_Some [OF \<open>bt_ok m\<close>] m(2) by auto
  have new: "is_terminal (task_phase v)" "k < spec_task_revision spec"
    using plan_create_Done [OF plan] m(1) kv by blast+
  have "is_terminal (task_phase r) \<or> k \<le> n"
    using valid get k(1) m(1) unfolding table_valid_def task_get_def by fastforce
  then show ?thesis
    using new k m(2) by (metis antisym le_less_trans option.inject)
qed

lemma plan_table_valid:
  assumes ok: "table_ok (ts_tasks s)" and valid: "table_valid E (ts_tasks s)"
    and env: "validate_envelope E e = Inr ()" and plan: "plan_transition s e = Done p"
  shows "table_valid E (plan_tasks p)"
  using plan
proof (cases rule: plan_Done_cases)
  case (create spec)
  have "record_ok E (spec_task_id spec) (spec_task_revision spec)
      \<lparr>task_specification = spec, task_phase = Draft, task_attempt = None\<rparr>"
    using env create(1) by (simp add: record_ok_def validate_envelope_def validate_attempt_shape_Inr)
  then show ?thesis
    using plan_create_Done [OF create(3)] table_valid_new_latest [OF valid]
      plan_create_latest [OF ok valid create(3)] by auto
next
  case (publish c)
  from publish(3) show ?thesis
  proof (rule plan_publish_Done, goal_cases)
    case (1 r)
    then have "\<not> is_terminal (task_phase r)" by (simp add: is_terminal_def)
    then show ?case
      unfolding 1(4) using table_valid_replace [OF valid 1(2)] table_valid_get [OF valid 1(2)]
      by (simp add: record_ok_def validate_attempt_shape_Inr)
  qed
next
  case (cancel c)
  from cancel(3) show ?thesis
  proof (rule plan_cancel_Done, goal_cases)
    case (1 r)
    then have "\<not> is_terminal (task_phase r)" by (simp add: is_terminal_def)
    then show ?case
      unfolding 1(3) using table_valid_replace [OF valid 1(1)] table_valid_get [OF valid 1(1)]
        record_ok_draft [OF table_valid_get [OF valid 1(1)] 1(2)]
      by (simp add: record_ok_def validate_attempt_shape_Inr)
  qed
next
  case fenced
  from fenced(2) show ?thesis
  proof (rule plan_attempt_Done, goal_cases)
    case (1 f r a x y)
    have "\<not> is_terminal (task_phase r)" "y \<noteq> Draft"
      using command_edge_live [OF 1(5)] 1(6) by auto
    then show ?case
      unfolding 1(7) using table_valid_replace [OF valid 1(2)]
        record_ok_live [OF table_valid_get [OF valid 1(2)] 1(3)] by simp
  qed
qed

lemma tokens_unique_put:
  assumes "tokens_unique tasks"
    and "\<And>a t' n' r' a'. task_attempt r = Some a \<Longrightarrow> task_get tasks t' n' = Some r' \<Longrightarrow>
      task_attempt r' = Some a' \<Longrightarrow> att_attempt_token a = att_attempt_token a' \<Longrightarrow> t' = t \<and> n' = n"
  shows "tokens_unique (task_put tasks t n r)"
  unfolding tokens_unique_def
proof (intro allI impI)
  fix t1 n1 r1 a1 t2 n2 r2 a2
  assume get: "task_get (task_put tasks t n r) t1 n1 = Some r1" "task_get (task_put tasks t n r) t2 n2 = Some r2"
    and att: "task_attempt r1 = Some a1" "task_attempt r2 = Some a2"
    and same: "att_attempt_token a1 = att_attempt_token a2"
  from get(1) show "t1 = t2 \<and> n1 = n2"
  proof (cases rule: task_put_cases)
    case new
    from get(2) show ?thesis
      by (cases rule: task_put_cases) (use new att same assms(2) [of a1 t2 n2 r2 a2] in simp_all)
  next
    case old
    from get(2) show ?thesis
    proof (cases rule: task_put_cases)
      case new
      then show ?thesis
        using old att same assms(2) [of a2 t1 n1 r1 a1] by simp
    next
      case old2: old
      show ?thesis
        using assms(1) [unfolded tokens_unique_def, rule_format, OF old(1) att(1) old2(1) att(2) same] .
    qed
  qed
qed

lemma plan_tokens_unique:
  assumes ok: "table_ok (ts_tasks s)" and uniq: "tokens_unique (ts_tasks s)"
    and valid: "table_valid E (ts_tasks s)" and plan: "plan_transition s e = Done p"
  shows "tokens_unique (plan_tasks p)"
  using plan
proof (cases rule: plan_Done_cases)
  case (create spec)
  have "tokens_unique (task_put (ts_tasks s) (spec_task_id spec) (spec_task_revision spec)
      \<lparr>task_specification = spec, task_phase = Draft, task_attempt = None\<rparr>)"
    by (rule tokens_unique_put [OF uniq]) simp
  then show ?thesis
    using plan_create_Done [OF create(3)] by simp
next
  case (publish c)
  from publish(3) show ?thesis
  proof (rule plan_publish_Done, goal_cases)
    case (1 r)
    have "att_attempt_token a' \<noteq> pub_attempt_token c"
      if "task_get (ts_tasks s) t' n' = Some r'" "task_attempt r' = Some a'" for t' n' r' a'
      using 1(1) that unfolding attempt_token_taken_iff [OF ok] by blast
    then show ?case
      unfolding 1(4) by simp (rule tokens_unique_put [OF uniq], fastforce)
  qed
next
  case (cancel c)
  from cancel(3) show ?thesis
  proof (rule plan_cancel_Done, goal_cases)
    case (1 r)
    have "task_attempt r = None"
      using record_ok_draft [OF table_valid_get [OF valid 1(1)] 1(2)] .
    then show ?case
      unfolding 1(3) by simp (rule tokens_unique_put [OF uniq], auto)
  qed
next
  case fenced
  from fenced(2) show ?thesis
  proof (rule plan_attempt_Done, goal_cases)
    case (1 f r a x y)
    have "t' = fence_task_id f \<and> n' = fence_task_revision f"
      if "task_get (ts_tasks s) t' n' = Some r'" "task_attempt r' = Some a'"
        "att_attempt_token a = att_attempt_token a'" for t' n' r' a'
      using uniq [unfolded tokens_unique_def, rule_format, OF 1(2,3) that] by simp
    then show ?case
      unfolding 1(7) by simp (rule tokens_unique_put [OF uniq], auto)
  qed
qed

section \<open>Validity of the store\<close>

definition store_inv :: "task_env \<Rightarrow> TaskStore \<Rightarrow> bool" where
  "store_inv E s \<longleftrightarrow> table_ok (ts_tasks s) \<and> bt_ok (ts_receipts s) \<and> tokens_unique (ts_tasks s)
     \<and> valid_positive (ts_store_revision s) \<and> validate_store E s = Inr ()"

lemma store_inv_empty: "store_inv E empty_store"
  using validate_empty_store [of E]
  by (simp add: store_inv_def empty_store_def tokens_unique_def task_get_def valid_positive_iff)

lemma validate_store_iff:
  "table_ok (ts_tasks s) \<Longrightarrow> validate_store E s = Inr () \<longleftrightarrow>
     validate_cursor_shape (ts_journal_checkpoint s) = Inr () \<and> table_valid E (ts_tasks s) \<and>
     (\<forall>e \<in> set (ts_receipts s). validate_receipt s e = Inr ())"
  by (simp add: validate_store_Inr validate_tasks_iff)

lemma store_inv_table: "store_inv E s \<Longrightarrow> table_valid E (ts_tasks s)"
  unfolding store_inv_def using validate_store_iff by blast

lemma store_inv_cursor:
  "store_inv E s \<Longrightarrow> cur_sequence (ts_journal_checkpoint s) \<le> MAX_JSON_SAFE_INTEGER"
  by (auto simp: store_inv_def validate_store_iff validate_cursor_shape_Inr)

text \<open>Receipts stay valid when the revision and the checkpoint only grow.\<close>

lemma validate_receipt_mono:
  "validate_receipt s x = Inr () \<Longrightarrow> ts_store_revision s \<le> ts_store_revision s' \<Longrightarrow>
     cur_sequence (ts_journal_checkpoint s) \<le> cur_sequence (ts_journal_checkpoint s') \<Longrightarrow>
     validate_receipt s' x = Inr ()"
  by (cases x) (auto simp: validate_receipt_Inr)

lemma set_bt_insert_subset: "set (bt_insert k v m) \<subseteq> insert (k, v) (set m)"
  by (induction k v m rule: bt_insert.induct) auto

lemma checked_next_le: "checked_next a = Inr b \<Longrightarrow> a \<le> b"
  unfolding word_le_nat_alt by (drule checked_next_Inr) linarith

lemma u64_succ_le: "a < MAX_JSON_SAFE_INTEGER \<Longrightarrow> (a :: u64) \<le> a + 1 \<and> a + 1 \<le> MAX_JSON_SAFE_INTEGER \<and> a + 1 \<noteq> 0"
  using json_safe_succ_exists [of a] json_safe_succ_Some [of a "a + 1"]
  by (auto simp: word_le_nat_alt)

section \<open>Finalising\<close>

lemma make_record_Inr:
  "make_record E seq prev revision event = Inr r \<Longrightarrow>
     jr_sequence r = seq \<and> jr_previous_event_sha256 r = prev \<and> jr_store_revision r = revision \<and>
     jr_event r = event \<and> event_hash E seq prev revision event = Inr (jr_event_sha256 r)"
  by (auto simp: make_record_def res_simps)

lemma finalize_Done:
  assumes "finalize_transition E s p e digest next_revision at = Done (response, r, next)"
  shows "response = \<lparr>rsp_receipt_id = env_receipt_id e, rsp_committed_store_revision = next_revision,
      rsp_task_id = plan_task_id p, rsp_task_revision = plan_task_revision p,
      rsp_attempt_number = plan_attempt_number p, rsp_prior_phase = plan_prior_phase p,
      rsp_resulting_phase = plan_resulting_phase p, rsp_committed_at = at\<rparr>"
    and "jr_sequence r = cur_sequence (ts_journal_checkpoint s) + 1"
    and "jr_previous_event_sha256 r = cur_event_sha256 (ts_journal_checkpoint s)"
    and "jr_store_revision r = next_revision"
    and "jr_event r = Transition \<lparr>te_envelope = e, te_response = response\<rparr>"
    and "event_hash E (jr_sequence r) (jr_previous_event_sha256 r) (jr_store_revision r) (jr_event r)
           = Inr (jr_event_sha256 r)"
    and "next = s\<lparr>ts_store_revision := next_revision, ts_tasks := plan_tasks p,
           ts_journal_checkpoint := record_cursor r,
           ts_receipts := bt_insert (env_receipt_id e)
             \<lparr>rec_receipt_id = env_receipt_id e, rec_request_digest_sha256 = digest,
              rec_response = response, rec_event_cursor = record_cursor r\<rparr> (ts_receipts s)\<rparr>"
  using assms
  by (auto simp: finalize_transition_def Let_def split: sum.splits dest: make_record_Inr)

text \<open>
  A plan against a valid store always finalises to a valid store, as long as the sequence number
  is in range and the new hash is not the hash reserved for the empty journal.
\<close>

lemma finalize_store_inv:
  assumes inv: "store_inv E s" and env: "validate_envelope E e = Inr ()"
    and plan: "plan_transition s e = Done p" and rev: "checked_next (ts_store_revision s) = Inr n"
    and fin: "finalize_transition E s p e digest n at = Done (response, r, next)"
    and seq: "cur_sequence (ts_journal_checkpoint s) < MAX_JSON_SAFE_INTEGER"
    and hash: "jr_event_sha256 r \<noteq> zero_sha256"
  shows "store_inv E next"
proof -
  note f = finalize_Done [OF fin]
  have tasks: "table_ok (ts_tasks s)" "table_valid E (ts_tasks s)" "tokens_unique (ts_tasks s)"
    using inv store_inv_table by (auto simp: store_inv_def)
  have cursor: "validate_cursor_shape (record_cursor r) = Inr ()"
    using u64_succ_le [OF seq] hash f(2) by (simp add: validate_cursor_shape_Inr record_cursor_def)
  have old: "validate_receipt next x = Inr ()" if "x \<in> set (ts_receipts s)" for x
  proof -
    have "validate_receipt s x = Inr ()"
      using inv that by (auto simp: store_inv_def validate_store_iff)
    then show ?thesis
      by (rule validate_receipt_mono)
        (use checked_next_le [OF rev] u64_succ_le [OF seq] f in \<open>simp_all add: record_cursor_def\<close>)
  qed
  have new: "validate_receipt next (env_receipt_id e, \<lparr>rec_receipt_id = env_receipt_id e,
      rec_request_digest_sha256 = digest, rec_response = response, rec_event_cursor = record_cursor r\<rparr>)
      = Inr ()"
    using cursor f(1,7) by (simp add: validate_receipt_Inr)
  have receipts: "\<forall>x \<in> set (ts_receipts next). validate_receipt next x = Inr ()"
    using old new set_bt_insert_subset f(7) by fastforce
  have "table_ok (plan_tasks p)" "table_valid E (plan_tasks p)" "tokens_unique (plan_tasks p)"
    using plan_table_ok [OF tasks(1) plan] plan_table_valid [OF tasks(1,2) env plan]
      plan_tokens_unique [OF tasks(1,3,2) plan] .
  moreover have "valid_positive n"
    using checked_next_Inr [OF rev] by blast
  ultimately show ?thesis
    using cursor receipts inv f(7)
    unfolding store_inv_def by (simp add: validate_store_iff)
qed

section \<open>Reconstruction\<close>

lemma reconstruct_append:
  "reconstruct_from E s (rs @ ts) =
     tres_bind (reconstruct_from E s rs) (\<lambda>s'. reconstruct_from E s' ts)"
proof (induction rs arbitrary: s)
  case (Cons r rs)
  then show ?case by (cases "reconstruct_step E s r") simp_all
qed simp

lemma reconstruct_snoc:
  "reconstruct_store E (rs @ [r]) =
     tres_bind (reconstruct_store E rs) (\<lambda>s. reconstruct_step E s r)"
  by (cases "reconstruct_from E empty_store rs"; cases "reconstruct_step E (case reconstruct_from E empty_store rs of Done s \<Rightarrow> s | _ \<Rightarrow> empty_store) r")
    (simp_all add: reconstruct_store_def reconstruct_append)

lemma reconstruct_step_valid:
  "reconstruct_step E s r = Done s' \<Longrightarrow>
     validate_store E s' = Inr () \<and> ts_journal_checkpoint s' = record_cursor r \<and>
     ts_store_revision s' = jr_store_revision r"
  by (auto simp: reconstruct_step_def res_simps split: JournalEvent.splits if_splits)

lemma reconstruct_step_inv:
  assumes inv: "store_inv E s" and step: "reconstruct_step E s r = Done s'"
  shows "store_inv E s'"
proof (cases "jr_event r")
  case (Transition event)
  then obtain p where p: "plan_transition s (te_envelope event) = Done p"
      and rev: "checked_next (ts_store_revision s) = Inr (jr_store_revision r)"
      and s': "ts_tasks s' = plan_tasks p" "bt_ok (ts_receipts s) \<Longrightarrow> bt_ok (ts_receipts s')"
    using step by (auto simp: reconstruct_step_def res_simps split: if_splits)
  have tasks: "table_ok (ts_tasks s)" "table_valid E (ts_tasks s)" "tokens_unique (ts_tasks s)"
    using inv store_inv_table by (auto simp: store_inv_def)
  have "table_ok (ts_tasks s')" "tokens_unique (ts_tasks s')"
    unfolding s'(1) using plan_table_ok [OF tasks(1) p] plan_tokens_unique [OF tasks(1,3,2) p] .
  then show ?thesis
    using reconstruct_step_valid [OF step] checked_next_Inr [OF rev] s'(2) inv
    by (auto simp: store_inv_def)
next
  case (SystemJournalTailRecovered x)
  then have "ts_tasks s' = ts_tasks s \<and> ts_receipts s' = ts_receipts s \<and> ts_store_revision s' = ts_store_revision s"
    using step by (auto simp: reconstruct_step_def res_simps split: if_splits)
  then show ?thesis
    using inv reconstruct_step_valid [OF step] by (simp add: store_inv_def)
qed

lemma reconstruct_inv: "reconstruct_store E rs = Done s \<Longrightarrow> store_inv E s"
proof (induction rs arbitrary: s rule: rev_induct)
  case Nil
  then show ?case by (simp add: reconstruct_store_def store_inv_empty)
next
  case (snoc r rs)
  then show ?case
    by (auto simp: reconstruct_snoc res_simps intro: reconstruct_step_inv)
qed

lemma reconstruct_prefix:
  "reconstruct_store E (rs @ ts) = Done s \<Longrightarrow> \<exists>s'. reconstruct_store E rs = Done s'"
  by (auto simp: reconstruct_store_def reconstruct_append res_simps)

lemma reconstruct_checkpoint:
  assumes "reconstruct_store E rs = Done s" and "chained E 0 zero_sha256 rs"
  shows "ts_journal_checkpoint s = \<lparr>cur_sequence = of_nat (length rs), cur_event_sha256 = chain_end zero_sha256 rs\<rparr>"
proof (cases rs rule: rev_cases)
  case Nil
  with assms(1) show ?thesis
    by (auto simp: reconstruct_store_def empty_store_def genesis_def)
next
  case (snoc ts r)
  then obtain s0 where "reconstruct_step E s0 r = Done s"
    using assms(1) by (auto simp: reconstruct_snoc res_simps)
  moreover have "check_record E (length ts) (chain_end zero_sha256 ts) r = Inr ()"
    using assms(2) snoc by (simp add: chained_append)
  ultimately show ?thesis
    using reconstruct_step_valid [of E s0 r s] snoc by (simp add: record_cursor_def check_record_Inr)
qed

text \<open>
  The store that a transition computes is the store that the journal with its record
  reconstructs to, and that journal is again a hash chain.
\<close>

lemma finalize_reconstruct:
  assumes rec: "reconstruct_store E rs = Done s" and chain: "chained E 0 zero_sha256 rs"
    and fresh: "bt_get (ts_receipts s) (env_receipt_id e) = None"
    and cas: "env_expected_store_revision e = ts_store_revision s"
    and digest: "canonical_command_digest E e = Inr (env_request_digest_sha256 e)"
    and plan: "plan_transition s e = Done p" and rev: "checked_next (ts_store_revision s) = Inr n"
    and fin: "finalize_transition E s p e (env_request_digest_sha256 e) n at = Done (response, r, next)"
    and valid: "validate_store E next = Inr ()"
  shows "reconstruct_store E (rs @ [r]) = Done next" and "chained E 0 zero_sha256 (rs @ [r])"
proof -
  note f = finalize_Done [OF fin]
  have "response_matches_plan response p"
    using f(1) by (simp add: response_matches_plan_def)
  moreover have "next = s\<lparr>ts_tasks := plan_tasks p, ts_store_revision := n,
      ts_journal_checkpoint := record_cursor r,
      ts_receipts := bt_insert (env_receipt_id e)
        \<lparr>rec_receipt_id = env_receipt_id e, rec_request_digest_sha256 = env_request_digest_sha256 e,
         rec_response = response, rec_event_cursor = record_cursor r\<rparr> (ts_receipts s)\<rparr>"
    using f(7) by simp
  moreover have "rsp_committed_store_revision response = n"
    using f(1) by simp
  ultimately have "reconstruct_step E s r = Done next"
    using fresh cas rev plan f(4,5) valid by (simp add: reconstruct_step_def)
  then show "reconstruct_store E (rs @ [r]) = Done next"
    using rec by (simp add: reconstruct_snoc)
  have seq: "jr_sequence r = of_nat (length rs) + 1" "jr_previous_event_sha256 r = chain_end zero_sha256 rs"
    using f(2,3) reconstruct_checkpoint [OF rec chain] by simp_all
  have "validate_cursor_shape (record_cursor r) = Inr ()"
    using valid f(7) by (simp add: validate_store_Inr)
  then have "jr_sequence r \<le> MAX_JSON_SAFE_INTEGER"
    by (simp add: validate_cursor_shape_Inr record_cursor_def)
  moreover have "validate_record_body E r = Inr ()"
    using digest f(1,4,5) plan_resulting [OF plan] by (simp add: validate_record_body_def)
  ultimately have "check_record E (length rs) (chain_end zero_sha256 rs) r = Inr ()"
    using seq f(6) by (simp add: check_record_Inr)
  with chain show "chained E 0 zero_sha256 (rs @ [r])"
    by (simp add: chained_append)
qed

text \<open>Reconstruction never panics: its only source would be the planner.\<close>

lemma reconstruct_never_panics: "reconstruct_store E rs \<noteq> Panics"
proof -
  have step: "reconstruct_step E s r \<noteq> Panics" for s r
    by (auto simp: reconstruct_step_def res_simps plan_never_panics split: JournalEvent.splits if_splits)
  show ?thesis
  proof (induction rs rule: rev_induct)
    case Nil
    show ?case by (simp add: reconstruct_store_def)
  next
    case (snoc r rs)
    with step show ?case by (auto simp: reconstruct_snoc res_simps)
  qed
qed

end
