(* ===== verification/Task_Disk.thy ===== *)
theory Task_Disk
  imports Task_Persist Task_Properties
begin

text \<open>
  A program logic for the file operations of the Task Service. \<open>triple P m Q R\<close> says that a run of
  \<open>m\<close> from a state in \<open>P\<close> ends in \<open>Q\<close> when it succeeds and in \<open>R\<close> when it stops with an error or a
  panic, whatever the operating system answers; \<open>R\<close> is therefore what a crash may leave behind.
  The specifications of the operations of \<open>Task_Persist\<close> speak about the four files of the service
  only: \<open>files\<close> forgets the temporary ones.
\<close>

named_theorems keeps \<open>operations that leave the directory as it is\<close>

section \<open>Triples\<close>

fun ends :: "('a \<Rightarrow> 's \<Rightarrow> bool) \<Rightarrow> ('s \<Rightarrow> bool) \<Rightarrow> 'a tres \<times> 's \<Rightarrow> bool" where
  "ends Q R (Done x, st) = Q x st"
| "ends Q R (Fails e, st) = R st"
| "ends Q R (Panics, st) = R st"

lemma ends_mono:
  "ends Q R out \<Longrightarrow> (\<And>x st. Q x st \<Longrightarrow> Q' x st) \<Longrightarrow> (\<And>st. R st \<Longrightarrow> R' st) \<Longrightarrow> ends Q' R' out"
  by (cases "(Q, R, out)" rule: ends.cases) simp_all

lemma ends_bind: "ends Q R (m st) \<Longrightarrow> (\<And>x st'. Q x st' \<Longrightarrow> ends S R (f x st')) \<Longrightarrow> ends S R (pm_bind m f st)"
  by (cases "(Q, R, m st)" rule: ends.cases) (simp_all add: pm_bind_def)

lemma ends_try:
  "ends Q R (m st) \<Longrightarrow> ends (\<lambda>r st. case r of Inr x \<Rightarrow> Q x st | Inl _ \<Rightarrow> R st) R (pm_try m st)"
  by (cases "(Q, R, m st)" rule: ends.cases) (simp_all add: pm_try_def)

definition triple ::
  "('s \<Rightarrow> bool) \<Rightarrow> ('s, 'a) tm \<Rightarrow> ('a \<Rightarrow> 's \<Rightarrow> bool) \<Rightarrow> ('s \<Rightarrow> bool) \<Rightarrow> bool" where
  "triple P m Q R \<longleftrightarrow> (\<forall>st. P st \<longrightarrow> ends Q R (m st))"

lemma triple_run:
  assumes "triple P m Q R" and "P st" and "m st = (r, st')"
  shows "(\<exists>x. r = Done x \<and> Q x st') \<or> ((\<forall>x. r \<noteq> Done x) \<and> R st')"
  using assms by (cases r) (auto simp: triple_def)

lemma triple_conseq:
  assumes "triple P m Q R" and "\<And>st. P' st \<Longrightarrow> P st" and "\<And>x st. Q x st \<Longrightarrow> Q' x st"
    and "\<And>st. R st \<Longrightarrow> R' st"
  shows "triple P' m Q' R'"
  unfolding triple_def using assms(1) [unfolded triple_def] by (blast intro: ends_mono assms(2-4))

lemma triple_post: "triple P m Q R \<Longrightarrow> (\<And>x st. Q x st \<Longrightarrow> Q' x st) \<Longrightarrow> triple P m Q' R"
  by (rule triple_conseq)

lemma triple_crash: "triple P m Q R \<Longrightarrow> (\<And>st. R st \<Longrightarrow> R' st) \<Longrightarrow> triple P m Q R'"
  by (rule triple_conseq)

lemma triple_pre: "triple P m Q R \<Longrightarrow> (\<And>st. P' st \<Longrightarrow> P st) \<Longrightarrow> triple P' m Q R"
  by (rule triple_conseq)

lemma triple_return: "(\<And>st. P st \<Longrightarrow> Q x st) \<Longrightarrow> triple P (pm_return x) Q R"
  by (simp add: triple_def pm_return_def)

lemma triple_fail: "(\<And>st. P st \<Longrightarrow> R st) \<Longrightarrow> triple P (pm_fail e) Q R"
  by (simp add: triple_def pm_fail_def)

lemma triple_lift:
  "(\<And>x st. r = Done x \<Longrightarrow> P st \<Longrightarrow> Q x st) \<Longrightarrow> (\<And>st. P st \<Longrightarrow> R st) \<Longrightarrow> triple P (pm_lift r) Q R"
  by (cases r) (simp_all add: triple_def pm_lift_def)

lemma triple_bind:
  "triple P m Q R \<Longrightarrow> (\<And>x. triple (Q x) (f x) S R) \<Longrightarrow> triple P (pm_bind m f) S R"
  unfolding triple_def by (blast intro: ends_bind)

lemma triple_lift_bind:
  "(\<And>x. r = Done x \<Longrightarrow> triple P (f x) Q R) \<Longrightarrow> (\<And>st. P st \<Longrightarrow> R st) \<Longrightarrow> triple P (pm_bind (pm_lift r) f) Q R"
  by (cases r) (auto simp: triple_def pm_bind_def pm_lift_def)

lemma triple_try:
  "triple P m Q R \<Longrightarrow>
     triple P (pm_try m) (\<lambda>r st. case r of Inr x \<Rightarrow> Q x st | Inl _ \<Rightarrow> R st) R"
  unfolding triple_def by (blast intro: ends_try)

lemma triple_if:
  "(b \<Longrightarrow> triple P m Q R) \<Longrightarrow> (\<not> b \<Longrightarrow> triple P m' Q R) \<Longrightarrow> triple P (if b then m else m') Q R"
  by simp

lemma triple_map_err: "triple P m Q R \<Longrightarrow> triple P (pm_map_err f m) Q R"
  unfolding pm_map_err_def
  by (rule triple_bind [OF triple_try])
    (auto split: sum.splits intro: triple_return triple_fail)

text \<open>A precondition that does not depend on the state can be assumed.\<close>

lemma triple_assume: "(A \<Longrightarrow> triple P m Q R) \<Longrightarrow> triple (\<lambda>st. A \<and> P st) m Q R"
  unfolding triple_def by blast

lemma triple_ex: "(\<And>y. triple (P y) m Q R) \<Longrightarrow> triple (\<lambda>st. \<exists>y. P y st) m Q R"
  unfolding triple_def by blast

section \<open>Operations that keep the directory\<close>

type_synonym assertion = "directory \<Rightarrow> bool"

abbreviation dtriple :: "assertion \<Rightarrow> 'a pm \<Rightarrow> ('a \<Rightarrow> assertion) \<Rightarrow> assertion \<Rightarrow> bool" where
  "dtriple P m Q R \<equiv> triple (\<lambda>st. P (ps_dir st)) m (\<lambda>x st. Q x (ps_dir st)) (\<lambda>st. R (ps_dir st))"

definition keeps_dir :: "'a pm \<Rightarrow> bool" where
  "keeps_dir m \<longleftrightarrow> (\<forall>st. ps_dir (snd (m st)) = ps_dir st)"

lemma keeps_return [keeps]: "keeps_dir (pm_return x)"
  and keeps_fail [keeps]: "keeps_dir (pm_fail e)"
  and keeps_lift [keeps]: "keeps_dir (pm_lift r)"
  and keeps_pm_dir [keeps]: "keeps_dir pm_dir"
  and keeps_hit [keeps]: "keeps_dir (hit point)"
  by (simp_all add: keeps_dir_def pm_return_def pm_fail_def pm_lift_def pm_dir_def hit_def)

lemma keeps_bind [keeps]: "keeps_dir m \<Longrightarrow> (\<And>x. keeps_dir (f x)) \<Longrightarrow> keeps_dir (pm_bind m f)"
proof -
  assume m: "keeps_dir m" and f: "\<And>x. keeps_dir (f x)"
  have "ps_dir (snd (pm_bind m f st)) = ps_dir st" for st
  proof (cases "m st")
    case (Pair r st')
    then have "ps_dir st' = ps_dir st" using m by (metis keeps_dir_def snd_conv)
    with Pair f show ?thesis by (cases r) (simp_all add: pm_bind_def keeps_dir_def)
  qed
  then show ?thesis by (simp add: keeps_dir_def)
qed

lemma keeps_try [keeps]: "keeps_dir m \<Longrightarrow> keeps_dir (pm_try m)"
proof -
  assume m: "keeps_dir m"
  have "ps_dir (snd (pm_try m st)) = ps_dir st" for st
  proof (cases "m st")
    case (Pair r st')
    then have "ps_dir st' = ps_dir st" using m by (metis keeps_dir_def snd_conv)
    with Pair show ?thesis by (cases r) (simp_all add: pm_try_def)
  qed
  then show ?thesis by (simp add: keeps_dir_def)
qed

lemma keeps_sys [keeps]: "(\<And>a. keeps_dir (f a)) \<Longrightarrow> keeps_dir (sys os f)"
  by (simp add: keeps_dir_def sys_def)

lemma keeps_if [keeps]: "keeps_dir m \<Longrightarrow> keeps_dir m' \<Longrightarrow> keeps_dir (if b then m else m')"
  by simp

lemma keeps_case_option [keeps]:
  "keeps_dir m \<Longrightarrow> (\<And>x. keeps_dir (f x)) \<Longrightarrow> keeps_dir (case v of None \<Rightarrow> m | Some x \<Rightarrow> f x)"
  by (cases v) simp_all

lemma keeps_case_sum [keeps]:
  "(\<And>x. keeps_dir (f x)) \<Longrightarrow> (\<And>x. keeps_dir (g x)) \<Longrightarrow> keeps_dir (case v of Inl x \<Rightarrow> f x | Inr x \<Rightarrow> g x)"
  by (cases v) simp_all

lemma keeps_sys_or [keeps]: "(\<And>a. keeps_dir (f a)) \<Longrightarrow> keeps_dir (sys_or os err f)"
  unfolding sys_or_def by (intro keeps)

lemma keeps_checks [keeps]:
  "keeps_dir (open_validated_root os)" "keeps_dir (validate_binding os root)"
  "keeps_dir (validate_private_file os)" "keeps_dir (sync_all os err)" "keeps_dir (sync_root os root)"
  "keeps_dir (hit_opt p)" "keeps_dir (stop_if_hit point phase)" "keeps_dir (read_to_end os err name)"
  unfolding sync_root_def validate_binding_def pm_map_err_def open_validated_root_def
    validate_private_file_def sync_all_def hit_opt_def stop_if_hit_def read_to_end_def
  by (intro keeps)+

lemma keeps_open_existing [keeps]: "keeps_dir (open_child os name False excl stage)"
proof -
  have "open_child os name False excl stage =
      (if CHR 0x00 \<in> set name then pm_fail (Io stage InvalidInput)
       else sys_or os (Io stage) (\<lambda>_. pm_bind pm_dir (\<lambda>d.
         case d name of None \<Rightarrow> pm_fail (Io stage NotFound) | Some _ \<Rightarrow> pm_return ())))"
    by (simp add: open_child_def)
  then show ?thesis
    by (simp only:) (intro keeps)
qed

lemma keeps_reads [keeps]:
  "keeps_dir (read_private os root name s s')" "keeps_dir (read_journal os root)"
  "keeps_dir (load_snapshot E os root)" "keeps_dir (load_recovery E os root)"
  "keeps_dir (private_exists os root name s)" "keeps_dir (open_lock os root False)"
  unfolding read_journal_def load_snapshot_def load_recovery_def read_private_def private_exists_def
    open_lock_def
  by (intro keeps)+

lemma triple_keeps: "keeps_dir m \<Longrightarrow> dtriple P m (\<lambda>_. P) P"
  unfolding triple_def
proof (intro allI impI)
  fix st :: persist_state
  assume "keeps_dir m" and "P (ps_dir st)"
  then have "P (ps_dir (snd (m st)))" by (simp add: keeps_dir_def)
  then show "ends (\<lambda>_ st. P (ps_dir st)) (\<lambda>st. P (ps_dir st)) (m st)"
    by (cases "m st" rule: prod.exhaust; cases "fst (m st)") simp_all
qed

text \<open>The form in which it is used: a keeping operation before the rest.\<close>

lemma triple_keeps_bind:
  "keeps_dir m \<Longrightarrow> (\<And>d. P d \<Longrightarrow> R d) \<Longrightarrow> (\<And>x. dtriple P (f x) Q R) \<Longrightarrow> dtriple P (pm_bind m f) Q R"
  by (rule triple_bind [OF triple_crash [OF triple_keeps]])

lemma triple_keeps_only:
  "keeps_dir m \<Longrightarrow> (\<And>x d. P d \<Longrightarrow> Q x d) \<Longrightarrow> (\<And>d. P d \<Longrightarrow> R d) \<Longrightarrow> dtriple P m Q R"
  by (rule triple_conseq [OF triple_keeps])

section \<open>The four files\<close>

record task_files =
  tf_lock :: "bytes option"
  tf_journal :: "bytes option"
  tf_snapshot :: "bytes option"
  tf_recovery :: "bytes option"

definition files :: "directory \<Rightarrow> task_files" where
  "files d = \<lparr>tf_lock = d LOCK_FILE, tf_journal = d JOURNAL_FILE, tf_snapshot = d SNAPSHOT_FILE,
     tf_recovery = d RECOVERY_FILE\<rparr>"

lemmas file_names = LOCK_FILE_def JOURNAL_FILE_def SNAPSHOT_FILE_def RECOVERY_FILE_def

lemma file_names_distinct [simp]:
  "LOCK_FILE \<noteq> JOURNAL_FILE" "LOCK_FILE \<noteq> SNAPSHOT_FILE" "LOCK_FILE \<noteq> RECOVERY_FILE"
  "JOURNAL_FILE \<noteq> LOCK_FILE" "JOURNAL_FILE \<noteq> SNAPSHOT_FILE" "JOURNAL_FILE \<noteq> RECOVERY_FILE"
  "SNAPSHOT_FILE \<noteq> LOCK_FILE" "SNAPSHOT_FILE \<noteq> JOURNAL_FILE" "SNAPSHOT_FILE \<noteq> RECOVERY_FILE"
  "RECOVERY_FILE \<noteq> LOCK_FILE" "RECOVERY_FILE \<noteq> JOURNAL_FILE" "RECOVERY_FILE \<noteq> SNAPSHOT_FILE"
  by (simp_all add: file_names)

lemma temp_name_distinct [simp]:
  "temp_name os n \<noteq> LOCK_FILE" "temp_name os n \<noteq> JOURNAL_FILE" "temp_name os n \<noteq> SNAPSHOT_FILE"
  "temp_name os n \<noteq> RECOVERY_FILE"
  by (simp_all add: temp_name_def file_names)

lemma file_names_no_nul [simp]:
  "CHR 0x00 \<notin> set LOCK_FILE" "CHR 0x00 \<notin> set JOURNAL_FILE" "CHR 0x00 \<notin> set SNAPSHOT_FILE"
  "CHR 0x00 \<notin> set RECOVERY_FILE"
  by (simp_all add: file_names)

lemma files_update [simp]:
  "files (d(LOCK_FILE := c)) = (files d)\<lparr>tf_lock := c\<rparr>"
  "files (d(JOURNAL_FILE := c)) = (files d)\<lparr>tf_journal := c\<rparr>"
  "files (d(SNAPSHOT_FILE := c)) = (files d)\<lparr>tf_snapshot := c\<rparr>"
  "files (d(RECOVERY_FILE := c)) = (files d)\<lparr>tf_recovery := c\<rparr>"
  by (simp_all add: files_def)

lemma files_fields:
  "tf_lock (files d) = d LOCK_FILE" "tf_journal (files d) = d JOURNAL_FILE"
  "tf_snapshot (files d) = d SNAPSHOT_FILE" "tf_recovery (files d) = d RECOVERY_FILE"
  by (simp_all add: files_def)

definition scratch :: "bytes \<Rightarrow> bool" where
  "scratch name \<longleftrightarrow> name \<notin> {LOCK_FILE, JOURNAL_FILE, SNAPSHOT_FILE, RECOVERY_FILE}"

lemma scratch_temp [simp]: "scratch (temp_name os n)"
  by (simp add: scratch_def)

lemma files_scratch: "scratch name \<Longrightarrow> files (d(name := c)) = files d"
  by (auto simp: scratch_def files_def)

text \<open>\<open>ftriple f m Q C\<close>: started on the files \<open>f\<close>, the run ends in \<open>Q\<close>, or stops with files in \<open>C\<close>.\<close>

definition ftriple ::
  "task_files \<Rightarrow> 'a pm \<Rightarrow> ('a \<Rightarrow> task_files \<Rightarrow> bool) \<Rightarrow> (task_files \<Rightarrow> bool) \<Rightarrow> bool" where
  "ftriple f m Q C \<longleftrightarrow>
     dtriple (\<lambda>d. files d = f) m (\<lambda>x d. Q x (files d)) (\<lambda>d. C (files d))"

lemma ftriple_return: "Q x f \<Longrightarrow> ftriple f (pm_return x) Q C"
  unfolding ftriple_def by (rule triple_return) simp

lemma ftriple_fail: "C f \<Longrightarrow> ftriple f (pm_fail e) Q C"
  unfolding ftriple_def by (rule triple_fail) simp

lemma ftriple_bind:
  "ftriple f m Q C \<Longrightarrow> (\<And>x f'. Q x f' \<Longrightarrow> ftriple f' (g x) S C) \<Longrightarrow> ftriple f (pm_bind m g) S C"
  unfolding ftriple_def triple_def by (blast intro: ends_bind)

lemma ftriple_try:
  "ftriple f m Q C \<Longrightarrow> ftriple f (pm_try m) (\<lambda>r f'. case r of Inr x \<Rightarrow> Q x f' | Inl _ \<Rightarrow> C f') C"
  unfolding ftriple_def by (rule triple_post [OF triple_try]) (auto split: sum.splits)

lemma ftriple_conseq:
  "ftriple f m Q C \<Longrightarrow> (\<And>x f'. Q x f' \<Longrightarrow> Q' x f') \<Longrightarrow> (\<And>f'. C f' \<Longrightarrow> C' f') \<Longrightarrow> ftriple f m Q' C'"
  unfolding ftriple_def by (erule triple_conseq) simp_all

lemma ftriple_lift_bind:
  "(\<And>x. r = Done x \<Longrightarrow> ftriple f (g x) Q C) \<Longrightarrow> C f \<Longrightarrow> ftriple f (pm_bind (pm_lift r) g) Q C"
  unfolding ftriple_def by (rule triple_lift_bind) simp_all

lemma ftriple_keeps: "keeps_dir m \<Longrightarrow> (\<And>x. Q x f) \<Longrightarrow> C f \<Longrightarrow> ftriple f m Q C"
  unfolding ftriple_def by (rule triple_keeps_only) auto

lemma ftriple_keeps_bind:
  "keeps_dir m \<Longrightarrow> C f \<Longrightarrow> (\<And>x. ftriple f (g x) Q C) \<Longrightarrow> ftriple f (pm_bind m g) Q C"
  unfolding ftriple_def by (rule triple_keeps_bind) auto

lemma ftriple_if:
  "(b \<Longrightarrow> ftriple f m Q C) \<Longrightarrow> (\<not> b \<Longrightarrow> ftriple f m' Q C) \<Longrightarrow> ftriple f (if b then m else m') Q C"
  by simp

section \<open>Specifications of the file operations\<close>

lemmas pm_run = triple_def sys_or_def sys_def pm_bind_def pm_dir_def pm_set_def pm_fail_def
  pm_return_def pm_try_def

lemma write_all_spec:
  "dtriple (\<lambda>d. d = d0) (write_all os err name bs)
     (\<lambda>_ d. d = d0(name := map_option (\<lambda>c. c @ bs) (d0 name)))
     (\<lambda>d. \<exists>k. d = d0(name := map_option (\<lambda>c. c @ take k bs) (d0 name)))"
  unfolding write_all_def pm_run by (auto split: option.splits)

lemma open_child_spec:
  "dtriple (\<lambda>d. d = d0) (open_child os name creat excl stage)
     (\<lambda>_ d. d = d0(name := Some (case d0 name of None \<Rightarrow> [] | Some c \<Rightarrow> c))
        \<and> (creat \<and> excl \<longrightarrow> d0 name = None))
     (\<lambda>d. d = d0)"
  unfolding open_child_def pm_run by (auto split: option.splits simp: fun_upd_idem)

lemma rename_child_spec:
  "dtriple (\<lambda>d. d = d0) (rename_child os source target stage)
     (\<lambda>_ d. \<exists>c. d0 source = Some c \<and> d = d0(source := None, target := Some c))
     (\<lambda>d. d = d0)"
  unfolding rename_child_def pm_run by (auto split: option.splits)

lemma unlink_child_spec:
  "dtriple (\<lambda>d. d = d0) (unlink_child os name stage) (\<lambda>_ d. d = d0(name := None)) (\<lambda>d. d = d0)"
  unfolding unlink_child_def pm_run by (auto split: option.splits)

lemma set_len_spec:
  "dtriple (\<lambda>d. d = d0) (set_len os err name n)
     (\<lambda>_ d. d = d0(name := map_option
        (\<lambda>c. take (unat n) c @ replicate (unat n - length c) (CHR 0x00)) (d0 name)))
     (\<lambda>d. d = d0)"
  unfolding set_len_def pm_run by (auto split: option.splits)

text \<open>From a fixed directory to a property of directories.\<close>

lemma dtriple_from:
  "(\<And>d0. P d0 \<Longrightarrow> dtriple (\<lambda>d. d = d0) m Q R) \<Longrightarrow> dtriple P m Q R"
  unfolding triple_def by blast

lemma dtriple_step:
  assumes "\<And>d0. dtriple (\<lambda>d. d = d0) m (Q d0) (R d0)"
    and "\<And>d0 d. P d0 \<Longrightarrow> R d0 d \<Longrightarrow> R' d"
    and "\<And>x. dtriple (\<lambda>d. \<exists>d0. P d0 \<and> Q d0 x d) (g x) S R'"
  shows "dtriple P (pm_bind m g) S R'"
proof (rule triple_bind)
  show "dtriple P m (\<lambda>x d. \<exists>d0. P d0 \<and> Q d0 x d) R'"
    by (rule dtriple_from, rule triple_conseq [OF assms(1)]) (auto intro: assms(2))
qed (rule assms(3))

section \<open>Replacing a file atomically\<close>

text \<open>
  Whatever happens, the target has the old or the new content and no other file of the service
  has changed; after a success it has the new one.
\<close>

lemma replace_body_spec:
  assumes "scratch temp"
  shows "dtriple (\<lambda>d. files d = f) (replace_body os root temp target bs b a stage)
    (\<lambda>_ d. \<exists>d0. files d0 = f \<and> files d = files (d0(target := Some bs)))
    (\<lambda>d. files d = f \<or> (\<exists>d0. files d0 = f \<and> files d = files (d0(target := Some bs))))"
    (is "dtriple _ _ _ ?R")
proof -
  let ?new = "\<lambda>d. \<exists>d0. files d0 = f \<and> files d = files (d0(target := Some bs))"
  have tail: "dtriple ?new (pm_bind (hit_opt a) (\<lambda>stop. if stop then pm_fail InjectedDefiniteNoWrite else pm_return ()))
      (\<lambda>_. ?new) ?R"
    by (intro triple_keeps_bind triple_if triple_fail triple_return keeps) auto
  have "dtriple (\<lambda>d. files d = f \<and> d temp = Some bs)
      (pm_bind (rename_child os temp target stage) (\<lambda>_.
        pm_bind (hit_opt a) (\<lambda>stop. if stop then pm_fail InjectedDefiniteNoWrite else pm_return ())))
      (\<lambda>_. ?new) ?R"
  proof (rule dtriple_step [OF rename_child_spec])
    show "dtriple (\<lambda>d. \<exists>d0. (files d0 = f \<and> d0 temp = Some bs) \<and>
        (\<exists>c. d0 temp = Some c \<and> d = d0(temp := None, target := Some c)))
        (pm_bind (hit_opt a) (\<lambda>stop. if stop then pm_fail InjectedDefiniteNoWrite else pm_return ()))
        (\<lambda>_. ?new) ?R"
    proof (rule triple_pre [OF tail])
      fix st :: persist_state
      assume "\<exists>d0. (files d0 = f \<and> d0 temp = Some bs) \<and>
        (\<exists>c. d0 temp = Some c \<and> ps_dir st = d0(temp := None, target := Some c))"
      then obtain d0 where "files d0 = f" "ps_dir st = (d0(temp := None))(target := Some bs)"
        by auto
      then show "?new (ps_dir st)"
        using files_scratch [OF assms] by metis
    qed
  qed auto
  note renamed = this
  have late: "dtriple (\<lambda>d. files d = f \<and> d temp = Some bs)
      (pm_bind (sync_all os (Io SyncTemp)) (\<lambda>_.
       pm_bind (hit_opt b) (\<lambda>stop.
       if stop then pm_fail InjectedDefiniteNoWrite
       else pm_bind (validate_binding os root) (\<lambda>_.
         pm_bind (rename_child os temp target stage) (\<lambda>_.
         pm_bind (hit_opt a) (\<lambda>stop.
         if stop then pm_fail InjectedDefiniteNoWrite else pm_return ()))))))
      (\<lambda>_. ?new) ?R"
    by (rule triple_keeps_bind [OF keeps_checks(4)], simp, rule triple_keeps_bind [OF keeps_checks(6)], simp,
      rule triple_if, rule triple_fail, simp, rule triple_keeps_bind [OF keeps_checks(2)], simp, rule renamed)
  have written: "dtriple (\<lambda>d. files d = f \<and> d temp = Some [])
      (pm_bind (write_all os (Io WriteTemp) temp bs) (\<lambda>_.
       pm_bind (sync_all os (Io SyncTemp)) (\<lambda>_.
       pm_bind (hit_opt b) (\<lambda>stop.
       if stop then pm_fail InjectedDefiniteNoWrite
       else pm_bind (validate_binding os root) (\<lambda>_.
         pm_bind (rename_child os temp target stage) (\<lambda>_.
         pm_bind (hit_opt a) (\<lambda>stop.
         if stop then pm_fail InjectedDefiniteNoWrite else pm_return ())))))))
      (\<lambda>_. ?new) ?R"
  proof (rule dtriple_step [where P = "\<lambda>d. files d = f \<and> d temp = Some []", OF write_all_spec], goal_cases)
    case (1 d0 d)
    then show ?case
      using files_scratch [OF assms] by blast
  next
    case (2 x)
    show ?case
    proof (rule triple_pre [OF late], elim exE conjE)
      fix st :: persist_state and d0
      assume "files d0 = f" "d0 temp = Some []" "ps_dir st = d0(temp := map_option (\<lambda>c. c @ bs) (d0 temp))"
      then show "files (ps_dir st) = f \<and> ps_dir st temp = Some bs"
        by (simp add: files_scratch [OF assms])
    qed
  qed
  have opened: "dtriple (\<lambda>d. files d = f \<and> d temp = Some [])
      (pm_bind (validate_private_file os) (\<lambda>_.
       pm_bind (write_all os (Io WriteTemp) temp bs) (\<lambda>_.
       pm_bind (sync_all os (Io SyncTemp)) (\<lambda>_.
       pm_bind (hit_opt b) (\<lambda>stop.
       if stop then pm_fail InjectedDefiniteNoWrite
       else pm_bind (validate_binding os root) (\<lambda>_.
         pm_bind (rename_child os temp target stage) (\<lambda>_.
         pm_bind (hit_opt a) (\<lambda>stop.
         if stop then pm_fail InjectedDefiniteNoWrite else pm_return ()))))))))
      (\<lambda>_. ?new) ?R"
    by (rule triple_keeps_bind [OF keeps_checks(3)], blast, rule written)
  show ?thesis
    unfolding replace_body_def
  proof (rule triple_keeps_bind [OF keeps_checks(2)], blast,
      rule dtriple_step [where P = "\<lambda>d. files d = f", OF open_child_spec], blast,
      rule triple_pre [OF opened], elim exE conjE)
    fix st :: persist_state and d0
    assume "files d0 = f" "ps_dir st = d0(temp := Some (case d0 temp of None \<Rightarrow> [] | Some c \<Rightarrow> c))"
      "True \<and> True \<longrightarrow> d0 temp = None"
    then show "files (ps_dir st) = f \<and> ps_dir st temp = Some []"
      by (simp add: files_scratch [OF assms])
  qed
qed

text \<open>The specification of the target's new content, by name.\<close>

lemma replace_spec:
  fixes f :: task_files
  assumes put: "\<And>d. files (d(target := Some bs)) = g (files d)"
  shows "ftriple f (atomic_replace_without_root_sync_with_faults os root target bs b a stage)
    (\<lambda>_ f'. f' = g f) (\<lambda>f'. f' = f \<or> f' = g f)"
  unfolding ftriple_def triple_def
proof (intro allI impI)
  fix st :: persist_state
  assume f: "files (ps_dir st) = f"
  define temp where "temp = temp_name os (ps_tick st)"
  have body: "dtriple (\<lambda>d. files d = f) (replace_body os root temp target bs b a stage)
      (\<lambda>_ d. files d = g f) (\<lambda>d. files d = f \<or> files d = g f)"
    by (rule triple_conseq [OF replace_body_spec]) (auto simp: temp_def put)
  have unlink: "dtriple (\<lambda>d. files d = f \<or> files d = g f) (pm_try (unlink_child os temp RemoveRecoveryIntent))
      (\<lambda>_ d. files d = f \<or> files d = g f) (\<lambda>d. files d = f \<or> files d = g f)"
    by (rule dtriple_from, rule triple_conseq [OF triple_try [OF unlink_child_spec]])
      (auto simp: temp_def files_scratch split: sum.splits)
  have "dtriple (\<lambda>d. files d = f)
      (pm_bind (pm_try (replace_body os root temp target bs b a stage)) (\<lambda>r.
       case r of
         Inr _ \<Rightarrow> pm_return ()
       | Inl e \<Rightarrow> pm_bind (pm_try (unlink_child os temp RemoveRecoveryIntent)) (\<lambda>_. pm_fail e)))
      (\<lambda>_ d. files d = g f) (\<lambda>d. files d = f \<or> files d = g f)"
    by (rule triple_bind [OF triple_try [OF body]])
      (auto split: sum.splits intro!: triple_return triple_fail triple_bind [OF unlink])
  with f show "ends (\<lambda>x st. files (ps_dir st) = g f) (\<lambda>st. files (ps_dir st) = f \<or> files (ps_dir st) = g f)
      (atomic_replace_without_root_sync_with_faults os root target bs b a stage st)"
    unfolding atomic_replace_without_root_sync_with_faults_def Let_def temp_def triple_def by blast
qed

lemmas replace_snapshot_spec = replace_spec [where target = SNAPSHOT_FILE and g = "\<lambda>f. f\<lparr>tf_snapshot := Some bs\<rparr>" for bs, simplified]
lemmas replace_recovery_spec = replace_spec [where target = RECOVERY_FILE and g = "\<lambda>f. f\<lparr>tf_recovery := Some bs\<rparr>" for bs, simplified]

lemma ftriple_then_keeps:
  "ftriple f m (\<lambda>_ f'. f' = h) C \<Longrightarrow> C h \<Longrightarrow> (\<And>x. keeps_dir (g x)) \<Longrightarrow> ftriple f (pm_bind m g) (\<lambda>_ f'. f' = h) C"
  by (erule ftriple_bind) (auto intro: ftriple_keeps)

lemma persist_replayed_snapshot_spec:
  "ftriple f (persist_replayed_snapshot os root bs) (\<lambda>_ f'. f' = f\<lparr>tf_snapshot := Some bs\<rparr>)
     (\<lambda>f'. f' = f \<or> f' = f\<lparr>tf_snapshot := Some bs\<rparr>)"
  unfolding persist_replayed_snapshot_def atomic_replace_def
  by (rule ftriple_then_keeps [OF replace_snapshot_spec]) (auto intro: keeps)

lemma persist_recovery_snapshot_spec:
  "ftriple f (persist_recovery_snapshot os root bs) (\<lambda>_ f'. f' = f\<lparr>tf_snapshot := Some bs\<rparr>)
     (\<lambda>f'. f' = f \<or> f' = f\<lparr>tf_snapshot := Some bs\<rparr>)"
  unfolding persist_recovery_snapshot_def atomic_replace_without_root_sync_def
  by (rule ftriple_then_keeps [OF replace_snapshot_spec]) (auto intro!: keeps)

text \<open>A failure to replace the snapshot after a transition is reported as a phase, not an error.\<close>

lemma replace_snapshot_after_transition_spec:
  "ftriple f (replace_snapshot_after_transition os root bs)
     (\<lambda>r f'. (f' = f \<or> f' = f\<lparr>tf_snapshot := Some bs\<rparr>) \<and> (r = Inr () \<longrightarrow> f' = f\<lparr>tf_snapshot := Some bs\<rparr>))
     (\<lambda>f'. f' = f \<or> f' = f\<lparr>tf_snapshot := Some bs\<rparr>)"
proof -
  have "ftriple f (atomic_replace os root SNAPSHOT_FILE bs (Some BeforeSnapshotRename)
      (Some AfterSnapshotRename) ReplaceSnapshot) (\<lambda>_ f'. f' = f\<lparr>tf_snapshot := Some bs\<rparr>)
      (\<lambda>f'. f' = f \<or> f' = f\<lparr>tf_snapshot := Some bs\<rparr>)"
    unfolding atomic_replace_def by (rule ftriple_then_keeps [OF replace_snapshot_spec]) (auto intro: keeps)
  from ftriple_try [OF this] show ?thesis
    unfolding replace_snapshot_after_transition_def
    by (rule ftriple_bind) (auto split: sum.splits intro!: ftriple_return ftriple_keeps_bind ftriple_if keeps)
qed

lemma persist_recovery_intent_spec:
  "ftriple f (persist_recovery_intent E os root intent)
     (\<lambda>_ f'. \<exists>bs. json_intent E intent = Some bs \<and> f' = f\<lparr>tf_recovery := Some bs\<rparr>)
     (\<lambda>f'. f' = f \<or> (\<exists>bs. json_intent E intent = Some bs \<and> f' = f\<lparr>tf_recovery := Some bs\<rparr>))"
    (is "ftriple f _ ?Q ?C")
proof -
  have body: "ftriple f (pm_bind (atomic_replace_without_root_sync os root RECOVERY_FILE bs ReplaceRecoveryIntent) (\<lambda>_.
       pm_bind (stop_if_hit AfterRecoveryIntentRename IntentParentSync) (\<lambda>_.
       pm_bind (sync_root os root) (\<lambda>_.
       stop_if_hit AfterRecoveryIntentParentSync IntentParentSync)))) ?Q ?C"
    if "json_intent E intent = Some bs" for bs
    unfolding atomic_replace_without_root_sync_def
    by (rule ftriple_conseq [OF ftriple_then_keeps [OF replace_recovery_spec [where bs = bs]]])
      (use that in \<open>auto intro!: keeps\<close>)
  show ?thesis
    unfolding persist_recovery_intent_def
    by (intro ftriple_keeps_bind ftriple_if ftriple_fail ftriple_lift_bind keeps body)
      (auto simp: res_simps)
qed

section \<open>Journal, lock and intent\<close>

lemma ftriple_dir:
  assumes "\<And>d0. files d0 = f \<Longrightarrow> dtriple (\<lambda>d. d = d0) m (\<lambda>x d. Q x (files d)) (\<lambda>d. C (files d))"
  shows "ftriple f m Q C"
  unfolding ftriple_def by (rule dtriple_from [OF assms])

definition journal_touch :: "task_files \<Rightarrow> task_files" where
  "journal_touch f = f\<lparr>tf_journal := Some (case tf_journal f of None \<Rightarrow> [] | Some c \<Rightarrow> c)\<rparr>"

lemma open_journal_append_spec:
  "ftriple f (open_journal_append os root) (\<lambda>_ f'. f' = journal_touch f)
     (\<lambda>f'. f' = f \<or> f' = journal_touch f)"
proof -
  have "ftriple f (open_child os JOURNAL_FILE True False OpenJournal) (\<lambda>_ f'. f' = journal_touch f)
      (\<lambda>f'. f' = f \<or> f' = journal_touch f)"
    by (rule ftriple_dir, rule triple_conseq [OF open_child_spec]) (auto simp: journal_touch_def files_fields)
  then show ?thesis
    unfolding open_journal_append_def
    by (intro ftriple_keeps_bind keeps ftriple_then_keeps) auto
qed

definition journal_append :: "bytes \<Rightarrow> task_files \<Rightarrow> task_files" where
  "journal_append bs f = f\<lparr>tf_journal := map_option (\<lambda>c. c @ bs) (tf_journal f)\<rparr>"

lemma write_journal_spec:
  "ftriple f (write_all os err JOURNAL_FILE bs) (\<lambda>_ f'. f' = journal_append bs f)
     (\<lambda>f'. \<exists>k. f' = journal_append (take k bs) f)"
  by (rule ftriple_dir, rule triple_conseq [OF write_all_spec]) (auto simp: journal_append_def files_fields)

lemma journal_append_Nil [simp]: "journal_append [] f = f"
  by (simp add: journal_append_def option.map_ident)

text \<open>
  Appending a transition leaves a prefix of the line behind; \<open>Inr ()\<close> means the whole line.
\<close>

lemma append_transition_spec:
  "ftriple f (append_transition os root line)
     (\<lambda>r f'. (\<exists>k. f' = journal_append (take k line) f) \<and> (r = Inr () \<longrightarrow> f' = journal_append line f))
     (\<lambda>f'. \<exists>k. f' = journal_append (take k line) f)"
    (is "ftriple f _ ?Q ?C")
proof -
  have none: "?C f"
    by (rule exI [of _ 0]) simp
  have all: "?C (journal_append line f)"
    by (rule exI [of _ "length line"]) simp
  have torn: "ftriple f (pm_try (write_all os (Io AppendJournal) JOURNAL_FILE (take n line))) (\<lambda>_. ?C) ?C" for n
    by (rule ftriple_conseq [OF ftriple_try [OF write_journal_spec]])
      (auto simp: take_take split: sum.splits)
  have wrote: "ftriple f (pm_try (write_all os (Io AppendJournal) JOURNAL_FILE line))
      (\<lambda>r f'. case r of Inr _ \<Rightarrow> f' = journal_append line f | Inl _ \<Rightarrow> ?C f') ?C"
    by (rule ftriple_conseq [OF ftriple_try [OF write_journal_spec]]) (auto split: sum.splits)
  have after: "ftriple (journal_append line f) (pm_bind (hit AfterJournalWrite) (\<lambda>stop.
       if stop then pm_return (Inl JournalWrite)
       else pm_bind (pm_try (sync_all os (Io SyncJournal))) (\<lambda>synced.
         case synced of Inl _ \<Rightarrow> pm_return (Inl JournalSync) | Inr _ \<Rightarrow>
         pm_bind (hit AfterJournalSync) (\<lambda>stop.
         if stop then pm_return (Inl JournalSync) else pm_return (Inr ()))))) ?Q ?C"
    by (rule ftriple_keeps) (intro keeps, use all in auto)
  show ?thesis
    unfolding append_transition_def
    apply (rule ftriple_keeps_bind [OF keeps_try [OF keeps_checks(2)]], rule none)
    apply (auto split: sum.split intro!: ftriple_return none)
    apply (rule ftriple_keeps_bind [OF keeps_hit], rule none)
    apply (rule ftriple_if)
    apply (rule ftriple_bind [OF torn], rule ftriple_return, simp)
    apply (rule ftriple_bind [OF wrote])
    apply (auto split: sum.splits intro!: ftriple_return after)
    done
qed

definition journal_truncate :: "u64 \<Rightarrow> task_files \<Rightarrow> task_files" where
  "journal_truncate n f = f\<lparr>tf_journal := map_option
     (\<lambda>c. take (unat n) c @ replicate (unat n - length c) (CHR 0x00)) (tf_journal f)\<rparr>"

lemma truncate_for_recovery_spec:
  "ftriple f (truncate_for_recovery os root n) (\<lambda>_ f'. f' = journal_truncate n f)
     (\<lambda>f'. f' = f \<or> f' = journal_truncate n f)"
proof -
  have cut: "ftriple f (set_len os err JOURNAL_FILE n) (\<lambda>_ f'. f' = journal_truncate n f)
      (\<lambda>f'. f' = f \<or> f' = journal_truncate n f)" for err
    by (rule ftriple_dir, rule triple_conseq [OF set_len_spec]) (auto simp: journal_truncate_def files_fields)
  show ?thesis
    unfolding truncate_for_recovery_def
    by (rule ftriple_keeps_bind [OF keeps_checks(2)], simp,
      rule ftriple_keeps_bind [OF keeps_open_existing], simp,
      rule ftriple_keeps_bind [OF keeps_checks(3)], simp,
      rule ftriple_keeps_bind [OF keeps_checks(2)], simp,
      rule ftriple_then_keeps [OF cut], simp, intro keeps)
qed

text \<open>
  Appending the recovery record opens the journal, which may create it, and leaves a prefix of
  the line behind when it stops.
\<close>

lemma append_recovery_record_spec:
  "ftriple f (append_recovery_record os root line)
     (\<lambda>_ f'. f' = journal_append line (journal_touch f))
     (\<lambda>f'. f' = f \<or> (\<exists>k. f' = journal_append (take k line) (journal_touch f)))"
    (is "ftriple f _ ?Q ?C")
proof -
  let ?t = "journal_touch f"
  have none: "?C ?t"
    by (rule disjI2, rule exI [of _ 0]) simp
  have all: "?C (journal_append line ?t)"
    by (rule disjI2, rule exI [of _ "length line"]) simp
  have wrote: "ftriple ?t (write_all os err JOURNAL_FILE (take n line))
      (\<lambda>_ f'. f' = journal_append (take n line) ?t) ?C" for err n
    by (rule ftriple_conseq [OF write_journal_spec]) (auto simp: take_take)
  have full: "ftriple ?t (pm_bind (write_all os (Io SyncJournal) JOURNAL_FILE line) (\<lambda>_.
       pm_bind (sync_all os (Io SyncJournal)) (\<lambda>_.
       stop_if_hit AfterRecoveryRecordSync RecoveryRecordSync))) ?Q ?C"
    by (rule ftriple_then_keeps [OF wrote [of _ "length line", simplified]], rule all, intro keeps)
  show ?thesis
    unfolding append_recovery_record_def
    apply (rule ftriple_bind [OF ftriple_conseq [OF open_journal_append_spec]], assumption)
    apply (use none in blast)
    apply (simp only:)
    apply (rule ftriple_keeps_bind [OF keeps_checks(2)], rule none)
    apply (rule ftriple_keeps_bind [OF keeps_hit], rule none)
    apply (rule ftriple_if)
    apply (rule ftriple_bind [OF wrote], rule ftriple_fail, blast)
    apply (rule full)
    done
qed

lemma remove_recovery_intent_spec:
  "ftriple f (remove_recovery_intent os root) (\<lambda>_ f'. f' = f\<lparr>tf_recovery := None\<rparr>)
     (\<lambda>f'. f' = f \<or> f' = f\<lparr>tf_recovery := None\<rparr>)"
proof -
  have "ftriple f (unlink_child os RECOVERY_FILE stage) (\<lambda>_ f'. f' = f\<lparr>tf_recovery := None\<rparr>)
      (\<lambda>f'. f' = f \<or> f' = f\<lparr>tf_recovery := None\<rparr>)" for stage
    by (rule ftriple_dir, rule triple_conseq [OF unlink_child_spec]) auto
  then show ?thesis
    unfolding remove_recovery_intent_def
    by (intro ftriple_keeps_bind keeps ftriple_then_keeps) auto
qed

lemma open_lock_spec:
  "ftriple f (open_lock os root creat)
     (\<lambda>r f'. if creat then r \<and> f' = f\<lparr>tf_lock := Some (case tf_lock f of None \<Rightarrow> [] | Some c \<Rightarrow> c)\<rparr>
             else f' = f \<and> (r \<longrightarrow> tf_lock f \<noteq> None))
     (\<lambda>f'. f' = f \<or> creat \<and> f' = f\<lparr>tf_lock := Some (case tf_lock f of None \<Rightarrow> [] | Some c \<Rightarrow> c)\<rparr>)"
    (is "ftriple f _ ?Q ?C")
proof -
  have opened: "ftriple f (pm_try (open_child os LOCK_FILE creat False OpenLock))
      (\<lambda>r f'. case r of
         Inr _ \<Rightarrow> (if creat then f' = f\<lparr>tf_lock := Some (case tf_lock f of None \<Rightarrow> [] | Some c \<Rightarrow> c)\<rparr>
                  else f' = f \<and> tf_lock f \<noteq> None)
       | Inl _ \<Rightarrow> f' = f) (\<lambda>f'. f' = f)"
    by (rule ftriple_dir)
      (auto simp: open_child_def pm_run files_fields split: option.splits)
  show ?thesis
    unfolding open_lock_def
    apply (rule ftriple_keeps_bind [OF keeps_checks(2)], simp)
    apply (rule ftriple_bind [OF ftriple_conseq [OF opened]], assumption, simp)
    apply (auto split: sum.splits if_splits intro!: ftriple_fail ftriple_return ftriple_keeps_bind keeps)
    done
qed

section \<open>Reading\<close>

text \<open>The operating system reports \<open>NotFound\<close> only for a file that is absent.\<close>

definition honest :: "task_os \<Rightarrow> bool" where
  "honest os \<longleftrightarrow> (\<forall>n. os_error (os_answers os n) \<noteq> Some NotFound)"

lemma open_existing_spec:
  assumes "honest os"
  shows "dtriple (\<lambda>d. d = d0) (pm_try (open_child os name False False stage))
    (\<lambda>r d. d = d0 \<and> (case r of Inr _ \<Rightarrow> d0 name \<noteq> None | Inl e \<Rightarrow> is_not_found e \<longrightarrow> d0 name = None))
    (\<lambda>d. d = d0)"
  using assms
  by (auto simp: open_child_def pm_run is_not_found_def honest_def split: option.splits)

lemma read_to_end_spec:
  "dtriple (\<lambda>d. d = d0) (read_to_end os err name)
     (\<lambda>c d. d = d0 \<and> c = (case d0 name of None \<Rightarrow> [] | Some c \<Rightarrow> c)) (\<lambda>d. d = d0)"
  by (auto simp: read_to_end_def pm_run split: option.splits)

lemma read_private_spec:
  assumes "honest os"
  shows "dtriple (\<lambda>d. d = d0) (read_private os root name s s') (\<lambda>c d. d = d0 \<and> c = d0 name) (\<lambda>d. d = d0)"
proof -
  have found: "dtriple (\<lambda>d. d = d0)
      (pm_bind (validate_private_file os) (\<lambda>_.
       pm_bind (read_to_end os (Io s') name) (\<lambda>bs. pm_return (Some bs))))
      (\<lambda>c d. d = d0 \<and> c = d0 name) (\<lambda>d. d = d0)" if "d0 name \<noteq> None"
    by (rule triple_keeps_bind [OF keeps_checks(3)], simp, rule triple_bind [OF read_to_end_spec],
      rule triple_return) (use that in auto)
  show ?thesis
    unfolding read_private_def
  proof (rule triple_keeps_bind [OF keeps_checks(2)], simp, rule triple_bind [OF open_existing_spec [OF assms]])
    fix r
    show "dtriple (\<lambda>d. d = d0 \<and> (case r of Inr _ \<Rightarrow> d0 name \<noteq> None | Inl e \<Rightarrow> is_not_found e \<longrightarrow> d0 name = None))
        (case r of
           Inl e \<Rightarrow> if is_not_found e then pm_return None else pm_fail e
         | Inr _ \<Rightarrow> pm_bind (validate_private_file os) (\<lambda>_.
             pm_bind (read_to_end os (Io s') name) (\<lambda>bs. pm_return (Some bs))))
        (\<lambda>c d. d = d0 \<and> c = d0 name) (\<lambda>d. d = d0)"
    proof (cases r)
      case (Inr x)
      show ?thesis
      proof (cases "d0 name = None")
        case True
        with Inr show ?thesis by (simp add: triple_def)
      next
        case False
        show ?thesis
          unfolding Inr sum.case by (rule triple_pre [OF found [OF False]]) simp
      qed
    qed (auto intro!: triple_return triple_fail)
  qed
qed

lemma read_journal_spec:
  "honest os \<Longrightarrow> ftriple f (read_journal os root) (\<lambda>c f'. f' = f \<and> c = tf_journal f) (\<lambda>f'. f' = f)"
  unfolding read_journal_def
  by (rule ftriple_dir, rule triple_conseq [OF read_private_spec]) (auto simp: files_fields)

lemma load_snapshot_spec:
  assumes "honest os"
  shows "ftriple f (load_snapshot E os root)
    (\<lambda>c f'. f' = f \<and> (case tf_snapshot f of
        None \<Rightarrow> c = None
      | Some bs \<Rightarrow> \<exists>s. c = Some s \<and> parse_store E bs = Some s \<and> validate_store E s = Inr ()))
    (\<lambda>f'. f' = f)"
proof -
  have "ftriple f (read_private os root SNAPSHOT_FILE OpenSnapshot ReadSnapshot)
      (\<lambda>c f'. f' = f \<and> c = tf_snapshot f) (\<lambda>f'. f' = f)"
    by (rule ftriple_dir, rule triple_conseq [OF read_private_spec [OF assms]]) (auto simp: files_fields)
  then show ?thesis
    unfolding load_snapshot_def
    by (rule ftriple_bind) (auto split: option.split simp: res_simps intro!: ftriple_return ftriple_lift_bind)
qed

lemma load_recovery_spec:
  assumes "honest os"
  shows "ftriple f (load_recovery E os root)
    (\<lambda>c f'. f' = f \<and> (case tf_recovery f of
        None \<Rightarrow> c = None | Some bs \<Rightarrow> \<exists>i. c = Some i \<and> parse_intent E bs = Some i))
    (\<lambda>f'. f' = f)"
proof -
  have "ftriple f (read_private os root RECOVERY_FILE OpenRecoveryIntent ReadRecoveryIntent)
      (\<lambda>c f'. f' = f \<and> c = tf_recovery f) (\<lambda>f'. f' = f)"
    by (rule ftriple_dir, rule triple_conseq [OF read_private_spec [OF assms]]) (auto simp: files_fields)
  then show ?thesis
    unfolding load_recovery_def
    apply (rule ftriple_bind)
    apply (auto split: option.split intro!: ftriple_return)
    apply (unfold ftriple_def)
    apply (rule triple_lift)
     apply (auto simp: res_simps)
    done
qed

end
