(* ===== verification/Task_Repository.thy ===== *)
theory Task_Repository
  imports Task_Persist
begin

text \<open>
  The Task Service repository: recovery of a torn journal tail (\<open>recover_journal\<close> of
  \<open>task_service/journal.rs\<close>), the locked load, transitions, queries, paging and subscriptions
  (\<open>task_service/store.rs\<close>).

  A repository is the disk, the checkpoint it has last seen, and the watch hub: the list of weak
  references \<open>rp_hub\<close> and the subscriptions that are still alive, each under a number. A weak
  reference upgrades exactly when its subscription has not been dropped.
\<close>

section \<open>Recovering the journal\<close>

record RecoveredJournal =
  rj_records :: "JournalRecord list"
  rj_recovery_applied :: bool
  rj_cleanup_intent :: bool

definition recovery_intent ::
  "task_env \<Rightarrow> task_os \<Rightarrow> RootHandle \<Rightarrow> ParsedJournal \<Rightarrow> RecoveryIntent option \<Rightarrow> RecoveryIntent pm" where
  "recovery_intent E os root parsed recovery =
     (case recovery of
        Some intent \<Rightarrow>
          pm_bind (pm_lift (tres_of (validate_recovery_intent E intent))) (\<lambda>_. pm_return intent)
      | None \<Rightarrow>
          if pj_suffix parsed = [] then pm_fail invalid_recovery
          else pm_bind (pm_lift (tres_of (intent_from_suffix E parsed))) (\<lambda>intent.
            pm_bind (persist_recovery_intent E os root intent) (\<lambda>_. pm_return intent)))"

definition last_store_revision :: "JournalRecord list \<Rightarrow> u64" where
  "last_store_revision records = (if records = [] then 1 else jr_store_revision (last records))"

definition finish_recovery ::
  "task_env \<Rightarrow> task_os \<Rightarrow> RootHandle \<Rightarrow> bytes \<Rightarrow> ParsedJournal \<Rightarrow> RecoveryIntent \<Rightarrow> RecoveredJournal pm" where
  "finish_recovery E os root bs parsed intent =
     (if of_nat (pj_complete_prefix_length parsed) \<noteq> ri_complete_prefix_length intent
      then pm_fail invalid_recovery
      else if last_event_sha256 (pj_records parsed) \<noteq> ri_previous_event_sha256 intent
         \<or> ri_target_sequence intent \<noteq> of_nat (length (pj_records parsed)) + 1
      then pm_fail invalid_recovery
      else
        pm_bind (pm_lift (tres_of (recovery_record E intent (last_store_revision (pj_records parsed))))) (\<lambda>r.
        pm_bind (pm_lift (expect (compact_record_line E r))) (\<lambda>line.
        let remainder = drop (pj_complete_prefix_length parsed) bs in
        pm_bind (pm_lift (tres_of (decode_intent_suffix E intent))) (\<lambda>original_suffix.
        if \<not> (remainder = original_suffix \<or> remainder = []
              \<or> (length remainder < length line \<and> starts_with line remainder))
        then pm_fail invalid_recovery
        else
          pm_bind (if remainder \<noteq> []
                   then truncate_for_recovery os root (ri_complete_prefix_length intent)
                   else pm_return ()) (\<lambda>_.
          pm_bind (append_recovery_record os root line) (\<lambda>_.
          pm_bind (read_journal os root) (\<lambda>content.
          pm_bind (pm_lift (tres_of (ok_or (Err_InvalidJournal InvalidSequence) content))) (\<lambda>durable_bytes.
          pm_bind (pm_lift (tres_of (parse_journal E durable_bytes))) (\<lambda>durable.
          if pj_suffix durable \<noteq> []
             \<or> pj_records durable = [] \<or> last (pj_records durable) \<noteq> r
             \<or> pj_complete_prefix_length durable \<noteq> length durable_bytes
          then pm_fail invalid_recovery
          else pm_return \<lparr>rj_records = pj_records durable, rj_recovery_applied = True,
                          rj_cleanup_intent = True\<rparr>))))))))) "

definition recover_journal ::
  "task_env \<Rightarrow> task_os \<Rightarrow> RootHandle \<Rightarrow> bytes \<Rightarrow> RecoveryIntent option \<Rightarrow> RecoveredJournal pm" where
  "recover_journal E os root bs recovery =
     pm_bind (pm_lift (tres_of (parse_journal E bs))) (\<lambda>parsed.
     if pj_suffix parsed = [] \<and> recovery = None
     then pm_return \<lparr>rj_records = pj_records parsed, rj_recovery_applied = False,
                     rj_cleanup_intent = False\<rparr>
     else
       pm_bind (recovery_intent E os root parsed recovery) (\<lambda>intent.
       pm_bind (pm_lift (recovery_record_is_complete E bs parsed intent)) (\<lambda>complete.
       if complete
       then pm_return \<lparr>rj_records = pj_records parsed, rj_recovery_applied = True,
                       rj_cleanup_intent = True\<rparr>
       else finish_recovery E os root bs parsed intent)))"

section \<open>Watchers\<close>

record SubscriptionInner =
  si_cursor :: JournalCursor
  si_task_id :: "id option"
  si_capacity :: nat
  si_queue :: "JournalRecord list"
  si_terminal :: "ResyncReason option"
  si_terminal_delivered :: bool
  si_alive :: bool

type_synonym subscriptions = "nat \<Rightarrow> SubscriptionInner option"

definition get_or_insert :: "'a option \<Rightarrow> 'a \<Rightarrow> 'a option" where
  "get_or_insert v x = (case v of None \<Rightarrow> Some x | Some y \<Rightarrow> Some y)"

text \<open>\<open>retain\<close> over the hub: the references kept and the subscriptions after the visit.\<close>

fun hub_retain ::
  "(SubscriptionInner \<Rightarrow> SubscriptionInner) \<Rightarrow> nat list \<Rightarrow> subscriptions \<Rightarrow> nat list \<times> subscriptions" where
  "hub_retain f [] subs = ([], subs)"
| "hub_retain f (i # hub) subs =
     (case subs i of
        None \<Rightarrow> hub_retain f hub subs
      | Some inner \<Rightarrow>
          if \<not> si_alive inner then hub_retain f hub subs
          else let (hub', subs') = hub_retain f hub (subs(i := Some (f inner))) in (i # hub', subs'))"

definition broadcast_one :: "JournalRecord \<Rightarrow> SubscriptionInner \<Rightarrow> SubscriptionInner" where
  "broadcast_one r inner =
     (if si_terminal inner = None \<and> deliverable r (si_task_id inner)
      then (if length (si_queue inner) < si_capacity inner
            then inner\<lparr>si_queue := si_queue inner @ [r]\<rparr>
            else inner\<lparr>si_terminal := Some ReceiverFull\<rparr>)
      else inner)"

definition mark_one :: "ResyncReason \<Rightarrow> SubscriptionInner \<Rightarrow> SubscriptionInner" where
  "mark_one reason inner = inner\<lparr>si_terminal := get_or_insert (si_terminal inner) reason\<rparr>"

definition receive_ready ::
  "SubscriptionInner \<Rightarrow> (WatchReceiveError + WatchItem option) \<times> SubscriptionInner" where
  "receive_ready inner =
     (case si_queue inner of
        r # queue \<Rightarrow> (Inr (Some (Event r)), inner\<lparr>si_queue := queue, si_cursor := record_cursor r\<rparr>)
      | [] \<Rightarrow> (case si_terminal inner of
          Some reason \<Rightarrow>
            if si_terminal_delivered inner then (Inl Disconnected, inner)
            else (Inr (Some (ResyncRequired reason)), inner\<lparr>si_terminal_delivered := True\<rparr>)
        | None \<Rightarrow> (Inr None, inner)))"

section \<open>The repository\<close>

record repo_state =
  rp_disk :: persist_state
  rp_observed :: JournalCursor
  rp_hub :: "nat list"
  rp_subs :: subscriptions
  rp_next :: nat

type_synonym 'a rm = "(repo_state, 'a) tm"

definition on_disk :: "'a pm \<Rightarrow> 'a rm" where
  "on_disk m st = (let (r, disk) = m (rp_disk st) in (r, st\<lparr>rp_disk := disk\<rparr>))"

definition TaskRepository_new :: "task_os \<Rightarrow> bytes \<Rightarrow> persist_state \<Rightarrow> (RootHandle \<times> repo_state) tres" where
  "TaskRepository_new os path disk =
     (case validate_root os path disk of
        (Done root, disk') \<Rightarrow> Done (root, \<lparr>rp_disk = disk', rp_observed = genesis, rp_hub = [],
          rp_subs = (\<lambda>_. None), rp_next = 0\<rparr>)
      | (Fails e, _) \<Rightarrow> Fails e
      | (Panics, _) \<Rightarrow> Panics)"

definition visit_hub :: "(SubscriptionInner \<Rightarrow> SubscriptionInner) \<Rightarrow> unit rm" where
  "visit_hub f st = (let (hub, subs) = hub_retain f (rp_hub st) (rp_subs st) in
     (Done (), st\<lparr>rp_hub := hub, rp_subs := subs\<rparr>))"

definition broadcast :: "JournalRecord \<Rightarrow> unit rm" where
  "broadcast r = visit_hub (broadcast_one r)"

definition mark_all :: "ResyncReason \<Rightarrow> unit rm" where
  "mark_all reason = visit_hub (mark_one reason)"

definition install :: "JournalCursor \<Rightarrow> id option \<Rightarrow> nat \<Rightarrow> nat rm" where
  "install cursor task capacity st =
     (Done (rp_next st),
      st\<lparr>rp_subs := (rp_subs st)(rp_next st \<mapsto>
           \<lparr>si_cursor = cursor, si_task_id = task, si_capacity = capacity, si_queue = [],
            si_terminal = None, si_terminal_delivered = False, si_alive = True\<rparr>),
         rp_hub := rp_hub st @ [rp_next st], rp_next := Suc (rp_next st)\<rparr>)"

text \<open>\<open>EventSubscription::try_recv\<close>, and its \<open>Drop\<close>, after which no reference upgrades.\<close>

definition try_recv :: "nat \<Rightarrow> repo_state \<Rightarrow> ((WatchReceiveError + WatchItem option) \<times> repo_state) option" where
  "try_recv i st = (case rp_subs st i of
     None \<Rightarrow> None
   | Some inner \<Rightarrow> (let (r, inner') = receive_ready inner in
       Some (r, st\<lparr>rp_subs := (rp_subs st)(i \<mapsto> inner')\<rparr>)))"

definition subscription_cursor :: "nat \<Rightarrow> repo_state \<Rightarrow> JournalCursor option" where
  "subscription_cursor i st = map_option si_cursor (rp_subs st i)"

definition drop_subscription :: "nat \<Rightarrow> repo_state \<Rightarrow> repo_state" where
  "drop_subscription i st = st\<lparr>rp_subs := (rp_subs st)(i := None)\<rparr>"

definition observe_committed :: "JournalCursor \<Rightarrow> unit rm" where
  "observe_committed checkpoint st = (Done (), st\<lparr>rp_observed := checkpoint\<rparr>)"

record LoadEffects =
  le_replayed :: bool
  le_recovered :: bool

record LockedState =
  ls_store :: TaskStore
  ls_records :: "JournalRecord list"
  ls_effects :: LoadEffects

definition mark_load_effects :: "LoadEffects \<Rightarrow> JournalCursor \<Rightarrow> unit rm" where
  "mark_load_effects effects checkpoint st =
     (let externally_changed = (rp_observed st \<noteq> checkpoint);
          st' = st\<lparr>rp_observed := checkpoint\<rparr> in
      if le_recovered effects then mark_all RecoveryApplied st'
      else if le_replayed effects \<or> externally_changed then mark_all RepositoryReloaded st'
      else (Done (), st'))"

definition mark_load_error :: "TaskServiceError \<Rightarrow> unit rm" where
  "mark_load_error e =
     mark_all (case e of
         RecoveryStopped _ \<Rightarrow> Resync_RecoveryStopped
       | Err_InvalidRecoveryIntent _ \<Rightarrow> Resync_RecoveryStopped
       | _ \<Rightarrow> RepositoryReloaded)"

section \<open>Loading\<close>

definition load_without_lock :: "task_env \<Rightarrow> task_os \<Rightarrow> RootHandle \<Rightarrow> TaskStore pm" where
  "load_without_lock E os root =
     pm_bind (load_snapshot E os root) (\<lambda>snapshot.
     pm_bind (read_journal os root) (\<lambda>journal.
     pm_bind (load_recovery E os root) (\<lambda>recovery.
     if snapshot = None \<and> journal = None \<and> recovery = None then pm_return empty_store
     else pm_fail (Err_InvalidStore InvalidStoreRevision))))"

text \<open>What both locked loads read and check first.\<close>

definition read_locked ::
  "task_env \<Rightarrow> task_os \<Rightarrow> RootHandle \<Rightarrow> (TaskStore \<times> bytes \<times> ParsedJournal \<times> RecoveryIntent option) pm" where
  "read_locked E os root =
     pm_bind (load_snapshot E os root) (\<lambda>snapshot.
     let loaded = (case snapshot of None \<Rightarrow> empty_store | Some s \<Rightarrow> s) in
     pm_bind (read_journal os root) (\<lambda>journal.
     let bs = (case journal of None \<Rightarrow> [] | Some bs \<Rightarrow> bs) in
     pm_bind (pm_lift (tres_of (parse_journal E bs))) (\<lambda>parsed.
     pm_bind (pm_lift (validate_loaded_prefix E loaded (pj_records parsed))) (\<lambda>_.
     pm_bind (load_recovery E os root) (\<lambda>recovery.
     if recovery \<noteq> None \<and> journal = None then pm_fail invalid_recovery
     else pm_return (loaded, bs, parsed, recovery))))))"

text \<open>The disk part of \<open>load_locked_recovering\<close> after the recovered journal is known.\<close>

definition settle_store ::
  "task_env \<Rightarrow> task_os \<Rightarrow> RootHandle \<Rightarrow> TaskStore \<Rightarrow> RecoveredJournal \<Rightarrow> LockedState pm" where
  "settle_store E os root loaded recovered =
     pm_bind (pm_lift (reconstruct_store E (rj_records recovered))) (\<lambda>final_store.
     let replayed = (final_store \<noteq> loaded) in
     pm_bind (if replayed
              then pm_bind (pm_lift (expect (json_store E final_store))) (\<lambda>bs.
                if rj_recovery_applied recovered then persist_recovery_snapshot os root bs
                else persist_replayed_snapshot os root bs)
              else pm_return ()) (\<lambda>_.
     pm_bind (if rj_cleanup_intent recovered then remove_recovery_intent os root else pm_return ()) (\<lambda>_.
     pm_return \<lparr>ls_store = final_store, ls_records = rj_records recovered,
       ls_effects = \<lparr>le_replayed = replayed, le_recovered = rj_recovery_applied recovered\<rparr>\<rparr>)))"

definition load_locked_recovering :: "task_env \<Rightarrow> task_os \<Rightarrow> RootHandle \<Rightarrow> LockedState rm" where
  "load_locked_recovering E os root =
     pm_bind (on_disk (read_locked E os root)) (\<lambda>(loaded, bs, parsed, recovery).
     let recovery_needed = (recovery \<noteq> None \<or> pj_suffix parsed \<noteq> []) in
     pm_bind (pm_try (on_disk (recover_journal E os root bs recovery))) (\<lambda>r.
     case r of
       Inl e \<Rightarrow> pm_bind (if recovery_needed then mark_all Resync_RecoveryStopped else pm_return ())
                  (\<lambda>_. pm_fail e)
     | Inr recovered \<Rightarrow> on_disk (settle_store E os root loaded recovered)))"

definition load_locked_read_only :: "task_env \<Rightarrow> task_os \<Rightarrow> RootHandle \<Rightarrow> LockedState pm" where
  "load_locked_read_only E os root =
     pm_bind (read_locked E os root) (\<lambda>(loaded, bs, parsed, recovery).
     if recovery \<noteq> None \<or> pj_suffix parsed \<noteq> [] then pm_fail RecoveryRequired
     else pm_bind (pm_lift (reconstruct_store E (pj_records parsed))) (\<lambda>final_store.
       pm_return \<lparr>ls_store = final_store, ls_records = pj_records parsed,
         ls_effects = \<lparr>le_replayed = (final_store \<noteq> loaded), le_recovered = False\<rparr>\<rparr>))"

text \<open>A load whose error is shown to the watchers before it is passed on.\<close>

definition or_mark_load_error :: "'a rm \<Rightarrow> 'a rm" where
  "or_mark_load_error m =
     pm_bind (pm_try m) (\<lambda>r. case r of
       Inl e \<Rightarrow> pm_bind (mark_load_error e) (\<lambda>_. pm_fail e)
     | Inr x \<Rightarrow> pm_return x)"

definition lock_exclusive :: "task_os \<Rightarrow> unit pm" where
  "lock_exclusive os = sys_or os (Io Lock) (\<lambda>_. pm_return ())"

definition load :: "task_env \<Rightarrow> task_os \<Rightarrow> RootHandle \<Rightarrow> TaskStore rm" where
  "load E os root =
     pm_bind (on_disk (validate_binding os root)) (\<lambda>_.
     pm_bind (on_disk (open_lock os root False)) (\<lambda>locked.
     if \<not> locked then on_disk (load_without_lock E os root)
     else pm_bind (on_disk (lock_exclusive os)) (\<lambda>_.
       pm_bind (or_mark_load_error (load_locked_recovering E os root)) (\<lambda>state.
       pm_bind (mark_load_effects (ls_effects state) (ts_journal_checkpoint (ls_store state))) (\<lambda>_.
       pm_return (ls_store state))))))"

section \<open>Transitions\<close>

definition preflight_time :: Rfc3339 where
  "preflight_time = ''1970-01-01T00:00:00Z''"

definition lock_for_transition ::
  "task_env \<Rightarrow> task_os \<Rightarrow> RootHandle \<Rightarrow> TransitionEnvelope \<Rightarrow> unit pm" where
  "lock_for_transition E os root e =
     pm_bind (open_lock os root False) (\<lambda>locked.
     pm_bind (if locked then pm_return ()
              else pm_bind (load_without_lock E os root) (\<lambda>empty.
                pm_bind (pm_lift (preflight_empty_transition E empty e)) (\<lambda>_.
                pm_bind (open_lock os root True) (\<lambda>created.
                if created then pm_return () else pm_lift Panics)))) (\<lambda>_.
     lock_exclusive os))"

text \<open>Appending the record and replacing the snapshot, after the plan is complete.\<close>

definition commit_transition ::
  "task_env \<Rightarrow> task_os \<Rightarrow> RootHandle \<Rightarrow> TransitionEnvelope \<Rightarrow> TransitionResponse \<Rightarrow> JournalRecord \<Rightarrow>
     TaskStore \<Rightarrow> TransitionOutcome rm" where
  "commit_transition E os root e response r next =
     pm_bind (pm_lift (expect (compact_record_line E r))) (\<lambda>line.
     pm_bind (pm_lift (expect (json_store E next))) (\<lambda>snapshot.
     pm_bind (on_disk (append_transition os root line)) (\<lambda>appended.
     case appended of
       Inl phase \<Rightarrow> pm_bind (mark_all PersistenceUnknown) (\<lambda>_.
         pm_return (Outcome_PersistenceUnknown (env_receipt_id e) phase))
     | Inr _ \<Rightarrow>
         pm_bind (on_disk (replace_snapshot_after_transition os root snapshot)) (\<lambda>replaced.
         case replaced of
           Inl phase \<Rightarrow> pm_bind (mark_all PersistenceUnknown) (\<lambda>_.
             pm_return (Outcome_PersistenceUnknown (env_receipt_id e) phase))
         | Inr _ \<Rightarrow>
             pm_bind (observe_committed (record_cursor r)) (\<lambda>_.
             pm_bind (broadcast r) (\<lambda>_.
             pm_return (Committed response)))))))"

text \<open>The transition against the loaded store; \<open>Fails e\<close> is the return of \<open>NoWrite(e)\<close>.\<close>

definition apply_transition ::
  "task_env \<Rightarrow> task_os \<Rightarrow> RootHandle \<Rightarrow> TransitionEnvelope \<Rightarrow> Sha256 \<Rightarrow> Rfc3339 \<Rightarrow> TaskStore \<Rightarrow>
     TransitionOutcome rm" where
  "apply_transition E os root e digest now current =
     (case bt_get (ts_receipts current) (env_receipt_id e) of
        Some r \<Rightarrow>
          if rec_request_digest_sha256 r \<noteq> digest then pm_fail ReceiptConflict
          else pm_return (Committed (rec_response r))
      | None \<Rightarrow>
          if ts_store_revision current \<noteq> env_expected_store_revision e
          then pm_fail (StoreRevisionConflict (env_expected_store_revision e) (ts_store_revision current))
          else
            pm_bind (pm_lift (tres_of (map_err (\<lambda>_. StoreRevisionOverflow)
              (checked_next (ts_store_revision current))))) (\<lambda>next_revision.
            pm_bind (pm_lift (plan_transition current e)) (\<lambda>planned.
            pm_bind (pm_lift (finalize_transition E current planned e digest next_revision
              preflight_time)) (\<lambda>(_, _, preflight_store).
            pm_bind (pm_lift (tres_of (map_err Err_InvalidStore (validate_store E preflight_store)))) (\<lambda>_.
            pm_bind (pm_lift (expect (json_store E preflight_store))) (\<lambda>_.
            pm_bind (on_disk (hit BeforeJournalAppend)) (\<lambda>stop.
            if stop then pm_fail InjectedDefiniteNoWrite
            else
              pm_bind (on_disk (prepare_journal_append os root)) (\<lambda>_.
              pm_bind (pm_lift (finalize_transition E current planned e digest next_revision now))
                (\<lambda>(response, r, next). commit_transition E os root e response r next)))))))))"

definition transition_body ::
  "task_env \<Rightarrow> task_os \<Rightarrow> RootHandle \<Rightarrow> Rfc3339 \<Rightarrow> TransitionEnvelope \<Rightarrow> TransitionOutcome rm" where
  "transition_body E os root now e =
     pm_bind (pm_lift (tres_of (map_err Err_InvalidEnvelope (validate_envelope E e)))) (\<lambda>_.
     pm_bind (pm_lift (tres_of (canonical_command_digest E e))) (\<lambda>digest.
     if digest \<noteq> env_request_digest_sha256 e then pm_fail RequestDigestMismatch
     else
       pm_bind (on_disk (validate_binding os root)) (\<lambda>_.
       pm_bind (on_disk (lock_for_transition E os root e)) (\<lambda>_.
       pm_bind (or_mark_load_error (load_locked_recovering E os root)) (\<lambda>current.
       pm_bind (mark_load_effects (ls_effects current) (ts_journal_checkpoint (ls_store current))) (\<lambda>_.
       apply_transition E os root e digest now (ls_store current)))))))"

definition transition ::
  "task_env \<Rightarrow> task_os \<Rightarrow> RootHandle \<Rightarrow> Rfc3339 \<Rightarrow> TransitionEnvelope \<Rightarrow> TransitionOutcome rm" where
  "transition E os root now e =
     pm_bind (pm_try (transition_body E os root now e)) (\<lambda>r.
     pm_return (case r of Inl error \<Rightarrow> NoWrite error | Inr outcome \<Rightarrow> outcome))"

section \<open>Queries\<close>

definition get_task :: "task_env \<Rightarrow> task_os \<Rightarrow> RootHandle \<Rightarrow> id \<Rightarrow> u64 option \<Rightarrow> TaskRecord option rm" where
  "get_task E os root task revision =
     pm_bind (load E os root) (\<lambda>store.
     pm_return (case bt_get (ts_tasks store) task of
         None \<Rightarrow> None
       | Some revisions \<Rightarrow> (case revision of
           Some n \<Rightarrow> bt_get revisions n
         | None \<Rightarrow> map_option snd (bt_last revisions))))"

definition get_attempt :: "task_env \<Rightarrow> task_os \<Rightarrow> RootHandle \<Rightarrow> AttemptFence \<Rightarrow> TaskAttempt option rm" where
  "get_attempt E os root fence =
     pm_bind (get_task E os root (fence_task_id fence) (Some (fence_task_revision fence))) (\<lambda>r.
     case r of
       None \<Rightarrow> pm_return None
     | Some t \<Rightarrow> (case task_attempt t of
         None \<Rightarrow> pm_return None
       | Some a \<Rightarrow> if \<not> fence_matches fence a then pm_fail StaleFence else pm_return (Some a)))"

definition checkpoint :: "task_env \<Rightarrow> task_os \<Rightarrow> RootHandle \<Rightarrow> JournalCursor rm" where
  "checkpoint E os root = pm_bind (load E os root) (\<lambda>s. pm_return (ts_journal_checkpoint s))"

definition get_receipt :: "task_env \<Rightarrow> task_os \<Rightarrow> RootHandle \<Rightarrow> TransitionEnvelope \<Rightarrow> ReceiptLookup rm" where
  "get_receipt E os root e =
     (case canonical_command_digest E e of
        Inl error \<Rightarrow> pm_return (Lookup_Unavailable error)
      | Inr digest \<Rightarrow>
          if digest \<noteq> env_request_digest_sha256 e then pm_return Lookup_ReceiptConflict
          else pm_bind (pm_try (load E os root)) (\<lambda>r.
            pm_return (case r of
                Inl error \<Rightarrow> Lookup_Unavailable error
              | Inr store \<Rightarrow> (case bt_get (ts_receipts store) (env_receipt_id e) of
                  None \<Rightarrow> Lookup_NotFound
                | Some x \<Rightarrow> if rec_request_digest_sha256 x \<noteq> digest then Lookup_ReceiptConflict
                            else Lookup_Committed (rec_response x)))))"

definition get_receipt_record :: "task_env \<Rightarrow> task_os \<Rightarrow> RootHandle \<Rightarrow> id \<Rightarrow> ReceiptRecord option rm" where
  "get_receipt_record E os root receipt =
     pm_bind (load E os root) (\<lambda>s. pm_return (bt_get (ts_receipts s) receipt))"

definition page_events :: "task_env \<Rightarrow> task_os \<Rightarrow> RootHandle \<Rightarrow> EventPageRequest \<Rightarrow> EventPage rm" where
  "page_events E os root q =
     pm_bind (pm_lift (tres_of (validate_page_request q))) (\<lambda>_.
     pm_bind (on_disk (validate_binding os root)) (\<lambda>_.
     pm_bind (on_disk (open_lock os root False)) (\<lambda>locked.
     if \<not> locked
     then pm_bind (on_disk (load_without_lock E os root)) (\<lambda>_. pm_lift (tres_of (page_records [] q)))
     else pm_bind (on_disk (lock_exclusive os)) (\<lambda>_.
       pm_bind (or_mark_load_error (on_disk (load_locked_read_only E os root))) (\<lambda>state.
       pm_bind (mark_load_effects (ls_effects state) (ts_journal_checkpoint (ls_store state))) (\<lambda>_.
       pm_lift (tres_of (page_records (ls_records state) q))))))))"

definition page_and_subscribe ::
  "task_env \<Rightarrow> task_os \<Rightarrow> RootHandle \<Rightarrow> SubscriptionRequest \<Rightarrow> (EventPage \<times> nat option) rm" where
  "page_and_subscribe E os root q =
     pm_bind (pm_lift (tres_of (validate_subscription_request q))) (\<lambda>_.
     pm_bind (on_disk (validate_binding os root)) (\<lambda>_.
     pm_bind (on_disk (open_lock os root False)) (\<lambda>locked.
     pm_bind (if locked then on_disk (lock_exclusive os) else pm_return ()) (\<lambda>_.
     pm_bind
       (if locked
        then pm_bind (or_mark_load_error (on_disk (load_locked_read_only E os root))) (\<lambda>state.
          pm_return (ls_records state, ls_effects state))
        else pm_bind (on_disk (load_without_lock E os root)) (\<lambda>_.
          pm_return ([], \<lparr>le_replayed = False, le_recovered = False\<rparr>))) (\<lambda>(records, effects).
     pm_bind (mark_load_effects effects
       (if records = [] then genesis else record_cursor (last records))) (\<lambda>_.
     pm_bind (pm_lift (tres_of (page_records records (sub_page q)))) (\<lambda>page.
     if page_reached_head page
     then pm_bind (install (page_continuation page) (pg_task_id (sub_page q)) (unat (sub_capacity q)))
            (\<lambda>i. pm_return (page, Some i))
     else pm_return (page, None))))))))"

end
