(* ===== verification/Task_Recovery.thy ===== *)
theory Task_Recovery
  imports Task_Disk Task_Repository
begin

text \<open>
  Crash safety of the Task Service repository. \<open>disk_at E f rs\<close> says that the files \<open>f\<close> hold the
  journal records \<open>rs\<close>: the journal is their lines followed by a torn line or nothing, the
  snapshot is absent or the store of a prefix of \<open>rs\<close>, and an intent file, when there is one,
  belongs to a recovery of this journal that was interrupted. Every operation of the repository,
  stopped anywhere, leads from such a state to such a state.
\<close>

section \<open>What the repository relies on\<close>

definition store_codec :: "task_env \<Rightarrow> bool" where
  "store_codec E \<longleftrightarrow> (\<forall>s bs. json_store E s = Some bs \<longrightarrow> parse_store E bs = Some s)"

definition intent_codec :: "task_env \<Rightarrow> bool" where
  "intent_codec E \<longleftrightarrow> (\<forall>i bs. json_intent E i = Some bs \<longrightarrow> parse_intent E bs = Some i)"

definition base64_codec :: "task_env \<Rightarrow> bool" where
  "base64_codec E \<longleftrightarrow> (\<forall>bs. base64_decode E (base64_encode E bs) = Some bs)"

text \<open>No event hashes to the all-zero digest, which stands for the empty journal.\<close>

definition hash_nonzero :: "task_env \<Rightarrow> bool" where
  "hash_nonzero E \<longleftrightarrow> (\<forall>bs. hex_encode (sha256_digest E (EVENT_DOMAIN @ bs)) \<noteq> zero_sha256)"

definition task_env_ok :: "task_env \<Rightarrow> bool" where
  "task_env_ok E \<longleftrightarrow>
     record_codec E \<and> store_codec E \<and> intent_codec E \<and> base64_codec E \<and> hash_nonzero E"

lemma event_hash_nonzero: "hash_nonzero E \<Longrightarrow> event_hash E a b c d = Inr h \<Longrightarrow> h \<noteq> zero_sha256"
  by (auto simp: hash_nonzero_def event_hash_def digest_serialized_def split: option.splits)

section \<open>States of the disk\<close>

definition journal_at :: "task_env \<Rightarrow> task_files \<Rightarrow> JournalRecord list \<Rightarrow> bytes \<Rightarrow> bool" where
  "journal_at E f rs sfx \<longleftrightarrow> chained E 0 zero_sha256 rs \<and> newline \<notin> set sfx \<and>
     (\<exists>bs. journal_bytes E rs = Some bs \<and>
        (tf_journal f = Some (bs @ sfx) \<or> (tf_journal f = None \<and> bs @ sfx = [])))"

definition snapshot_at :: "task_env \<Rightarrow> task_files \<Rightarrow> JournalRecord list \<Rightarrow> bool" where
  "snapshot_at E f rs \<longleftrightarrow> (\<forall>b. tf_snapshot f = Some b \<longrightarrow>
     (\<exists>k s. k \<le> length rs \<and> reconstruct_store E (take k rs) = Done s \<and> json_store E s = Some b))"

definition intent_of :: "task_env \<Rightarrow> JournalRecord list \<Rightarrow> bytes \<Rightarrow> RecoveryIntent \<Rightarrow> bool" where
  "intent_of E rs sfx i \<longleftrightarrow> (\<exists>bs. journal_bytes E rs = Some bs \<and> newline \<notin> set sfx \<and>
     intent_from_suffix E \<lparr>pj_records = rs, pj_complete_prefix_length = length bs, pj_suffix = sfx\<rparr> = Inr i)"

definition recovery_of :: "task_env \<Rightarrow> JournalRecord list \<Rightarrow> RecoveryIntent \<Rightarrow> JournalRecord \<Rightarrow> bytes \<Rightarrow> bool" where
  "recovery_of E rs i r line \<longleftrightarrow>
     recovery_record E i (last_store_revision rs) = Inr r \<and> compact_record_line E r = Some line"

text \<open>No recovery has been started.\<close>

definition torn :: "task_env \<Rightarrow> task_files \<Rightarrow> JournalRecord list \<Rightarrow> bytes \<Rightarrow> bool" where
  "torn E f rs sfx \<longleftrightarrow> tf_recovery f = None \<and> journal_at E f rs sfx"

text \<open>The intent is on disk, the recovery record is not complete.\<close>

definition recovering :: "task_env \<Rightarrow> task_files \<Rightarrow> JournalRecord list \<Rightarrow> RecoveryIntent \<Rightarrow> bytes \<Rightarrow> bool" where
  "recovering E f rs i sfx \<longleftrightarrow>
     (\<exists>ib. tf_recovery f = Some ib \<and> parse_intent E ib = Some i) \<and> tf_journal f \<noteq> None \<and>
     journal_at E f rs sfx \<and>
     (\<exists>sfx0. intent_of E rs sfx0 i \<and>
        (sfx = sfx0 \<or> sfx = [] \<or> (\<exists>r line k. recovery_of E rs i r line \<and> sfx = take k line \<and> k < length line)))"

text \<open>The recovery record is complete, the intent is still there.\<close>

definition recovered :: "task_env \<Rightarrow> task_files \<Rightarrow> JournalRecord list \<Rightarrow> RecoveryIntent \<Rightarrow> JournalRecord \<Rightarrow> bool" where
  "recovered E f rs i r \<longleftrightarrow>
     (\<exists>ib. tf_recovery f = Some ib \<and> parse_intent E ib = Some i) \<and>
     (\<exists>sfx0 line. intent_of E rs sfx0 i \<and> recovery_of E rs i r line) \<and>
     journal_at E f (rs @ [r]) []"

definition disk_base :: "task_env \<Rightarrow> task_files \<Rightarrow> JournalRecord list \<Rightarrow> bool" where
  "disk_base E f rs \<longleftrightarrow>
     (tf_lock f = None \<longrightarrow> tf_journal f = None \<and> tf_snapshot f = None \<and> tf_recovery f = None) \<and>
     (\<exists>s. reconstruct_store E rs = Done s) \<and> snapshot_at E f rs"

definition disk_at :: "task_env \<Rightarrow> task_files \<Rightarrow> JournalRecord list \<Rightarrow> bool" where
  "disk_at E f rs \<longleftrightarrow> disk_base E f rs \<and>
     ((\<exists>sfx. torn E f rs sfx) \<or> (\<exists>i sfx. recovering E f rs i sfx) \<or>
      (\<exists>rs0 i r. rs = rs0 @ [r] \<and> recovered E f rs0 i r))"

definition clean :: "task_env \<Rightarrow> task_files \<Rightarrow> JournalRecord list \<Rightarrow> bool" where
  "clean E f rs \<longleftrightarrow> disk_base E f rs \<and> torn E f rs []"

lemma clean_disk_at: "clean E f rs \<Longrightarrow> disk_at E f rs"
  by (auto simp: clean_def disk_at_def)

text \<open>The records a load may add: one record of a recovered tail.\<close>

definition is_system :: "JournalRecord \<Rightarrow> bool" where
  "is_system r \<longleftrightarrow> (case jr_event r of SystemJournalTailRecovered _ \<Rightarrow> True | Transition _ \<Rightarrow> False)"

definition system_ext :: "JournalRecord list \<Rightarrow> JournalRecord list \<Rightarrow> bool" where
  "system_ext rs rs' \<longleftrightarrow> rs' = rs \<or> (\<exists>r. rs' = rs @ [r] \<and> is_system r)"

lemma system_ext_refl [simp]: "system_ext rs rs"
  by (simp add: system_ext_def)

section \<open>Facts about the states\<close>

lemma unat_of_nat_u64: "int n < 2 ^ 64 \<Longrightarrow> unat (of_nat n :: u64) = n"
  by (simp add: unat_of_nat)

lemma u64_try_from_Some: "u64_try_from n = Some w \<longleftrightarrow> int n < 2 ^ 64 \<and> w = of_nat n"
  by (auto simp: u64_try_from_def)

lemma intent_from_suffix_Inr:
  "intent_from_suffix E p = Inr i \<Longrightarrow>
     unat (ri_complete_prefix_length i) = pj_complete_prefix_length p \<and>
     ri_complete_prefix_length i = of_nat (pj_complete_prefix_length p) \<and>
     ri_suffix_byte_count i = of_nat (length (pj_suffix p)) \<and>
     ri_suffix_sha256 i = sha256_bytes E (pj_suffix p) \<and>
     ri_suffix_base64 i = base64_encode E (pj_suffix p) \<and>
     ri_previous_event_sha256 i = last_event_sha256 (pj_records p) \<and>
     ri_target_sequence i = of_nat (length (pj_records p)) + 1 \<and>
     ri_suffix_byte_count i \<noteq> 0 \<and> ri_suffix_byte_count i \<le> MAX_JSON_SAFE_INTEGER \<and>
     ri_complete_prefix_length i \<le> MAX_JSON_SAFE_INTEGER \<and>
     ri_target_sequence i \<le> MAX_JSON_SAFE_INTEGER"
  by (auto simp: intent_from_suffix_def Let_def res_simps u64_try_from_Some unat_of_nat_u64 split: if_splits)

lemma intent_of_facts:
  assumes "intent_of E rs sfx i"
  obtains bs where "journal_bytes E rs = Some bs"
    "unat (ri_complete_prefix_length i) = length bs" "ri_complete_prefix_length i = of_nat (length bs)"
    "ri_suffix_byte_count i = of_nat (length sfx)" "ri_suffix_sha256 i = sha256_bytes E sfx"
    "ri_suffix_base64 i = base64_encode E sfx" "ri_previous_event_sha256 i = chain_end zero_sha256 rs"
    "ri_target_sequence i = of_nat (length rs) + 1" "ri_suffix_byte_count i \<noteq> 0"
    "ri_suffix_byte_count i \<le> MAX_JSON_SAFE_INTEGER" "ri_complete_prefix_length i \<le> MAX_JSON_SAFE_INTEGER"
    "ri_target_sequence i \<le> MAX_JSON_SAFE_INTEGER"
proof -
  obtain bs where bs: "journal_bytes E rs = Some bs" and
    i: "intent_from_suffix E \<lparr>pj_records = rs, pj_complete_prefix_length = length bs, pj_suffix = sfx\<rparr> = Inr i"
    using assms by (auto simp: intent_of_def)
  have "last_event_sha256 rs = chain_end zero_sha256 rs"
    by (rule last_event_sha256_chain)
  with intent_from_suffix_Inr [OF i, simplified] show ?thesis
    by (intro that [OF bs]) metis+
qed

lemma recovery_of_facts:
  assumes "recovery_of E rs i r line"
  shows "jr_sequence r = ri_target_sequence i" "jr_previous_event_sha256 r = ri_previous_event_sha256 i"
    "jr_store_revision r = last_store_revision rs"
    "jr_event r = SystemJournalTailRecovered \<lparr>tail_discarded_byte_count = ri_suffix_byte_count i,
       tail_discarded_suffix_sha256 = ri_suffix_sha256 i\<rparr>"
    "event_hash E (jr_sequence r) (jr_previous_event_sha256 r) (jr_store_revision r) (jr_event r)
       = Inr (jr_event_sha256 r)"
    "compact_record_line E r = Some line" "is_system r"
  using assms by (auto simp: recovery_of_def recovery_record_def is_system_def dest: make_record_Inr)

lemma reconstruct_revision: "reconstruct_store E rs = Done s \<Longrightarrow> ts_store_revision s = last_store_revision rs"
proof (cases rs rule: rev_cases)
  case (snoc ys y)
  moreover assume "reconstruct_store E rs = Done s"
  ultimately obtain s0 where "reconstruct_step E s0 y = Done s"
    by (auto simp: reconstruct_snoc res_simps)
  with snoc show ?thesis
    using reconstruct_step_valid by (simp add: last_store_revision_def)
qed (auto simp: last_store_revision_def reconstruct_store_def empty_store_def)

lemma chained_next_target:
  assumes "chained E 0 zero_sha256 rs" and "(of_nat (length rs) + 1 :: u64) \<le> MAX_JSON_SAFE_INTEGER"
  shows "(of_nat (length rs) :: u64) < MAX_JSON_SAFE_INTEGER"
proof -
  have "length rs \<le> 9007199254740991"
    using chained_length [OF assms(1)] .
  then have "unat (of_nat (length rs) :: u64) = length rs" "unat (of_nat (length rs) + 1 :: u64) = Suc (length rs)"
    by (simp_all add: unat_of_nat unat_word_ariths)
  with assms(2) show ?thesis
    by (simp add: word_le_nat_alt word_less_nat_alt)
qed

text \<open>The recovery record extends the chain and the reconstruction.\<close>

lemma recovery_extends:
  assumes env: "hash_nonzero E" and rec: "reconstruct_store E rs = Done s"
    and chain: "chained E 0 zero_sha256 rs" and i: "intent_of E rs sfx i" and r: "recovery_of E rs i r line"
  shows "chained E 0 zero_sha256 (rs @ [r])" and "\<exists>s'. reconstruct_store E (rs @ [r]) = Done s'"
proof -
  note f = recovery_of_facts [OF r]
  from i show "chained E 0 zero_sha256 (rs @ [r])"
    by (rule intent_of_facts)
      (use chain f in \<open>simp add: chained_append check_record_Inr validate_record_body_def\<close>)
  have cp: "ts_journal_checkpoint s = \<lparr>cur_sequence = of_nat (length rs), cur_event_sha256 = chain_end zero_sha256 rs\<rparr>"
    by (rule reconstruct_checkpoint [OF rec chain])
  have seq: "jr_sequence r = of_nat (length rs) + 1" "jr_sequence r \<le> MAX_JSON_SAFE_INTEGER"
    using i f(1) by (auto elim!: intent_of_facts)
  have less: "(of_nat (length rs) :: u64) < MAX_JSON_SAFE_INTEGER"
    using chained_next_target [OF chain] seq by simp
  have inv: "store_inv E s" by (rule reconstruct_inv [OF rec])
  let ?s = "s\<lparr>ts_journal_checkpoint := record_cursor r\<rparr>"
  have cursor: "validate_cursor_shape (record_cursor r) = Inr ()"
    using event_hash_nonzero [OF env f(5)] seq u64_succ_le [OF less]
    by (simp add: validate_cursor_shape_Inr record_cursor_def)
  have receipts: "\<forall>x \<in> set (ts_receipts ?s). validate_receipt ?s x = Inr ()"
  proof
    fix x
    assume "x \<in> set (ts_receipts ?s)"
    then have "validate_receipt s x = Inr ()"
      using inv by (auto simp: store_inv_def validate_store_iff)
    then show "validate_receipt ?s x = Inr ()"
      by (rule validate_receipt_mono)
        (use cp seq u64_succ_le [OF less] in \<open>simp_all add: record_cursor_def\<close>)
  qed
  have "validate_store E ?s = Inr ()"
    using cursor receipts inv store_inv_table [OF inv] by (simp add: validate_store_iff store_inv_def)
  then have "reconstruct_step E s r = Done ?s"
    using f(3,4) reconstruct_revision [OF rec] by (simp add: reconstruct_step_def)
  with rec show "\<exists>s'. reconstruct_store E (rs @ [r]) = Done s'"
    by (simp add: reconstruct_snoc)
qed

lemma journal_at_parse:
  assumes "record_codec E" and "journal_at E f rs sfx"
  obtains bs where "journal_bytes E rs = Some bs" "chained E 0 zero_sha256 rs"
    "(case tf_journal f of None \<Rightarrow> [] | Some c \<Rightarrow> c) = bs @ sfx"
    "parse_journal E (bs @ sfx) = Inr \<lparr>pj_records = rs, pj_complete_prefix_length = length bs, pj_suffix = sfx\<rparr>"
proof -
  obtain bs where bs: "journal_bytes E rs = Some bs" "chained E 0 zero_sha256 rs" "newline \<notin> set sfx"
      "tf_journal f = Some (bs @ sfx) \<or> (tf_journal f = None \<and> bs @ sfx = [])"
    using assms(2) by (auto simp: journal_at_def)
  have "(case tf_journal f of None \<Rightarrow> [] | Some c \<Rightarrow> c) = bs @ sfx"
    using bs(4) by auto
  with parse_journal_printed [OF assms(1) bs(1,2,3)] bs show ?thesis
    by (intro that) auto
qed

lemma journal_at_unique:
  assumes "record_codec E" and "journal_at E f rs sfx"
    and "parse_journal E (case tf_journal f of None \<Rightarrow> [] | Some c \<Rightarrow> c) = Inr p"
  obtains bs where "journal_bytes E rs = Some bs" "chained E 0 zero_sha256 rs"
    "(case tf_journal f of None \<Rightarrow> [] | Some c \<Rightarrow> c) = bs @ sfx"
    "p = \<lparr>pj_records = rs, pj_complete_prefix_length = length bs, pj_suffix = sfx\<rparr>"
  using assms(1,2)
proof (rule journal_at_parse)
  fix bs
  assume bs: "journal_bytes E rs = Some bs" "chained E 0 zero_sha256 rs"
    "(case tf_journal f of None \<Rightarrow> [] | Some c \<Rightarrow> c) = bs @ sfx"
    "parse_journal E (bs @ sfx) = Inr \<lparr>pj_records = rs, pj_complete_prefix_length = length bs, pj_suffix = sfx\<rparr>"
  then show thesis
    using assms(3) by (intro that [OF bs(1,2,3)]) simp
qed

text \<open>A proper prefix of a line has no line feed.\<close>

lemma line_prefix_no_newline:
  assumes "record_codec E" and "compact_record_line E r = Some line" and "k < length line"
  shows "newline \<notin> set (take k line)"
  using assms(1,2)
proof (rule compact_record_line_Some)
  fix bs
  assume "line = bs @ [newline]" "newline \<notin> set bs"
  moreover from this assms(3) have "take k line = take k bs" by simp
  ultimately show ?thesis
    by (metis in_set_takeD)
qed

lemma line_nonempty: "compact_record_line E r = Some line \<Longrightarrow> line \<noteq> []"
  by (auto simp: compact_record_line_def)

lemma snapshot_at_append: "snapshot_at E f rs \<Longrightarrow> snapshot_at E f (rs @ ts)"
  unfolding snapshot_at_def by (auto) (metis le_Suc_ex take_append trans_le_add1 append_Nil2 diff_is_0_eq take_0)

section \<open>Finishing an interrupted recovery\<close>

lemma ftriple_check:
  "C f \<Longrightarrow> (\<And>x. r = Done x \<Longrightarrow> ftriple f (g x) Q C) \<Longrightarrow> ftriple f (pm_bind (pm_lift r) g) Q C"
  by (rule ftriple_lift_bind)

lemma recovering_incomplete:
  assumes "chained E 0 zero_sha256 rs" and "intent_of E rs sfx0 i"
  shows "recovery_record_is_complete E bs \<lparr>pj_records = rs, pj_complete_prefix_length = n, pj_suffix = sfx\<rparr> i
    = Done False"
proof (cases rs rule: rev_cases)
  case (snoc ys y)
  have "jr_sequence y = of_nat (length rs)"
    using assms(1) snoc by (simp add: chained_append check_record_Inr add.commute)
  moreover have "ri_target_sequence i = of_nat (length rs) + 1"
    using assms(2) by (rule intent_of_facts)
  ultimately have "jr_sequence y \<noteq> ri_target_sequence i" by simp
  with snoc show ?thesis by (simp add: recovery_record_is_complete_def)
qed (simp add: recovery_record_is_complete_def)

lemma recovered_complete:
  assumes "intent_of E rs sfx0 i" and "recovery_of E rs i r line" and "journal_bytes E rs = Some bs"
  shows "recovery_record_is_complete E (bs @ line)
    \<lparr>pj_records = rs @ [r], pj_complete_prefix_length = n, pj_suffix = []\<rparr> i = Done True"
  using assms(1)
  by (rule intent_of_facts)
    (use recovery_of_facts [OF assms(2)] assms(3) in \<open>simp add: recovery_record_is_complete_def\<close>)

text \<open>The journal is at \<open>bs\<close> followed by part of the recovery line.\<close>

lemma journal_at_line:
  assumes env: "record_codec E" and chain: "chained E 0 zero_sha256 rs" and bs: "journal_bytes E rs = Some bs"
    and line: "compact_record_line E r = Some line" and ext: "chained E 0 zero_sha256 (rs @ [r])"
    and j: "tf_journal f = Some (bs @ take k line)"
  shows "if k < length line then journal_at E f rs (take k line) else journal_at E f (rs @ [r]) []"
proof (cases "k < length line")
  case True
  with assms line_prefix_no_newline [OF env line True] show ?thesis
    by (simp add: journal_at_def)
next
  case False
  with assms journal_bytes_snoc [OF bs line] show ?thesis
    by (simp add: journal_at_def)
qed

definition in_recovery :: "task_env \<Rightarrow> task_files \<Rightarrow> JournalRecord list \<Rightarrow> RecoveryIntent \<Rightarrow> task_files \<Rightarrow> bool" where
  "in_recovery E f rs i f' \<longleftrightarrow> f' = f\<lparr>tf_journal := tf_journal f'\<rparr> \<and>
     ((\<exists>sfx. recovering E f' rs i sfx) \<or> (\<exists>r. recovered E f' rs i r))"

lemma recovering_part:
  assumes env: "record_codec E" "hash_nonzero E" and rec: "reconstruct_store E rs = Done s"
    and old: "recovering E f rs i sfx" and bs: "journal_bytes E rs = Some bs"
    and r: "recovery_of E rs i r line"
  shows "in_recovery E f rs i (f\<lparr>tf_journal := Some (bs @ take k line)\<rparr>)"
    and "recovered E (f\<lparr>tf_journal := Some (bs @ line)\<rparr>) rs i r"
proof -
  obtain sfx0 where i: "intent_of E rs sfx0 i" and chain: "chained E 0 zero_sha256 rs"
    using old by (auto simp: recovering_def journal_at_def)
  have ext: "chained E 0 zero_sha256 (rs @ [r])"
    by (rule recovery_extends(1) [OF env(2) rec chain i r])
  note line = recovery_of_facts(6) [OF r]
  have at: "if k < length line then journal_at E (f\<lparr>tf_journal := Some (bs @ take k line)\<rparr>) rs (take k line)
      else journal_at E (f\<lparr>tf_journal := Some (bs @ take k line)\<rparr>) (rs @ [r]) []" for k
    by (rule journal_at_line [OF env(1) chain bs line ext]) simp
  show full: "recovered E (f\<lparr>tf_journal := Some (bs @ line)\<rparr>) rs i r"
    using at [of "length line"] old i r by (auto simp: recovered_def recovering_def)
  show "in_recovery E f rs i (f\<lparr>tf_journal := Some (bs @ take k line)\<rparr>)"
  proof (cases "k < length line")
    case True
    with at [of k] old i r have "recovering E (f\<lparr>tf_journal := Some (bs @ take k line)\<rparr>) rs i (take k line)"
      unfolding recovering_def by auto
    then show ?thesis by (auto simp: in_recovery_def)
  next
    case False
    with full show ?thesis by (auto simp: in_recovery_def)
  qed
qed

lemma finish_recovery_spec:
  assumes env: "record_codec E" "hash_nonzero E" and os: "honest os"
    and rec: "reconstruct_store E rs = Done s" and old: "recovering E f rs i sfx"
    and bs: "journal_bytes E rs = Some bs" and j: "tf_journal f = Some (bs @ sfx)"
  shows "ftriple f (finish_recovery E os root (bs @ sfx)
      \<lparr>pj_records = rs, pj_complete_prefix_length = length bs, pj_suffix = sfx\<rparr> i)
    (\<lambda>rj f'. \<exists>r. f' = f\<lparr>tf_journal := tf_journal f'\<rparr> \<and> recovered E f' rs i r \<and>
       rj = \<lparr>rj_records = rs @ [r], rj_recovery_applied = True, rj_cleanup_intent = True\<rparr>)
    (in_recovery E f rs i)"
    (is "ftriple f _ ?Q ?C")
proof -
  obtain sfx0 where i: "intent_of E rs sfx0 i" and chain: "chained E 0 zero_sha256 rs"
    using old by (auto simp: recovering_def journal_at_def)
  have here: "?C f"
    using old by (auto simp: in_recovery_def)
  let ?cut = "f\<lparr>tf_journal := Some bs\<rparr>"
  have wrote: "ftriple ?cut (pm_bind (append_recovery_record os root line) (\<lambda>_.
      pm_bind (read_journal os root) (\<lambda>content.
      pm_bind (pm_lift (tres_of (ok_or (Err_InvalidJournal InvalidSequence) content))) (\<lambda>durable_bytes.
      pm_bind (pm_lift (tres_of (parse_journal E durable_bytes))) (\<lambda>durable.
      if pj_suffix durable \<noteq> [] \<or> pj_records durable = [] \<or> last (pj_records durable) \<noteq> r
         \<or> pj_complete_prefix_length durable \<noteq> length durable_bytes
      then pm_fail invalid_recovery
      else pm_return \<lparr>rj_records = pj_records durable, rj_recovery_applied = True,
             rj_cleanup_intent = True\<rparr>))))) ?Q ?C"
    if r: "recovery_of E rs i r line" for r line
  proof -
    note part = recovering_part [OF env rec old bs r]
    have cut: "?C ?cut" using part(1) [of 0] by simp
    have parse: "parse_journal E (bs @ line) =
        Inr \<lparr>pj_records = rs @ [r], pj_complete_prefix_length = length (bs @ line), pj_suffix = []\<rparr>"
      using parse_journal_printed [OF env(1) journal_bytes_snoc [OF bs recovery_of_facts(6) [OF r]]
        recovery_extends(1) [OF env(2) rec chain i r], of "[]"] by simp
    have append: "ftriple ?cut (append_recovery_record os root line)
        (\<lambda>_ f'. f' = f\<lparr>tf_journal := Some (bs @ line)\<rparr>) ?C"
      by (rule ftriple_conseq [OF append_recovery_record_spec])
        (auto simp: journal_append_def journal_touch_def part(1) cut)
    have C_full: "?C (f\<lparr>tf_journal := Some (bs @ line)\<rparr>)"
      using part(1) [of "length line"] by simp
    have finish: "ftriple (f\<lparr>tf_journal := Some (bs @ line)\<rparr>) (pm_bind (read_journal os root) (\<lambda>content.
        pm_bind (pm_lift (tres_of (ok_or (Err_InvalidJournal InvalidSequence) content))) (\<lambda>durable_bytes.
        pm_bind (pm_lift (tres_of (parse_journal E durable_bytes))) (\<lambda>durable.
        if pj_suffix durable \<noteq> [] \<or> pj_records durable = [] \<or> last (pj_records durable) \<noteq> r
           \<or> pj_complete_prefix_length durable \<noteq> length durable_bytes
        then pm_fail invalid_recovery
        else pm_return \<lparr>rj_records = pj_records durable, rj_recovery_applied = True,
               rj_cleanup_intent = True\<rparr>)))) ?Q ?C"
      apply (rule ftriple_bind [OF ftriple_conseq [OF read_journal_spec [OF os]]], assumption)
       apply (simp add: C_full)
      apply (elim conjE, hypsubst)
      apply (rule ftriple_check, rule C_full, simp)
      apply (rule ftriple_check, rule C_full)
      apply (simp add: parse)
      apply (rule ftriple_return)
      using part(2) apply auto
      done
    show ?thesis
      by (rule ftriple_bind [OF append]) (simp only: finish)
  qed
  have cut: "ftriple f (if sfx \<noteq> [] then truncate_for_recovery os root (ri_complete_prefix_length i) else pm_return ())
      (\<lambda>_ f'. f' = ?cut) ?C" if r: "recovery_of E rs i r line" for r line
  proof -
    have "unat (ri_complete_prefix_length i) = length bs"
      using i by (rule intent_of_facts) (use bs in simp)
    then have "journal_truncate (ri_complete_prefix_length i) f = ?cut"
      using j by (simp add: journal_truncate_def)
    moreover have "?C ?cut"
      using recovering_part(1) [OF env rec old bs r, of 0] by simp
    moreover have "f = ?cut" if "sfx = []"
      using j that by (cases f) simp
    ultimately show ?thesis
      using here by (auto intro!: ftriple_return ftriple_conseq [OF truncate_for_recovery_spec])
  qed
  have rest: "drop (length bs) (bs @ sfx) = sfx" by simp
  have write_after_cut: "ftriple f (pm_bind
      (if sfx \<noteq> [] then truncate_for_recovery os root (ri_complete_prefix_length i) else pm_return ())
      (\<lambda>_. pm_bind (append_recovery_record os root line) (\<lambda>_.
      pm_bind (read_journal os root) (\<lambda>content.
      pm_bind (pm_lift (tres_of (ok_or (Err_InvalidJournal InvalidSequence) content))) (\<lambda>durable_bytes.
      pm_bind (pm_lift (tres_of (parse_journal E durable_bytes))) (\<lambda>durable.
      if pj_suffix durable \<noteq> [] \<or> pj_records durable = [] \<or> last (pj_records durable) \<noteq> r
         \<or> pj_complete_prefix_length durable \<noteq> length durable_bytes
      then pm_fail invalid_recovery
      else pm_return \<lparr>rj_records = pj_records durable, rj_recovery_applied = True,
             rj_cleanup_intent = True\<rparr>)))))) ?Q ?C"
    if "recovery_of E rs i r line" for r line
    by (rule ftriple_bind [OF cut [OF that]]) (simp only: wrote [OF that])
  show ?thesis
    unfolding finish_recovery_def Let_def ParsedJournal.select_convs rest
    apply (intro ftriple_if ftriple_fail here)
    apply (rule ftriple_check, rule here, rule ftriple_check, rule here, rule ftriple_check, rule here)
    apply (rule ftriple_if, rule ftriple_fail, rule here)
    apply (rule write_after_cut)
    apply (simp add: recovery_of_def res_simps)
    done
qed

section \<open>Recovering the journal\<close>

definition disk_from :: "task_env \<Rightarrow> JournalRecord list \<Rightarrow> task_files \<Rightarrow> bool" where
  "disk_from E rs f \<longleftrightarrow> (\<exists>rs'. system_ext rs rs' \<and> disk_at E f rs')"

lemma disk_fromI: "system_ext rs rs' \<Longrightarrow> disk_at E f rs' \<Longrightarrow> disk_from E rs f"
  unfolding disk_from_def by blast

lemma disk_from_refl: "disk_at E f rs \<Longrightarrow> disk_from E rs f"
  by (rule disk_fromI [OF system_ext_refl])

lemma recovered_extends:
  assumes "hash_nonzero E" and "recovered E f rs i r" and "reconstruct_store E rs = Done s"
  shows "\<exists>s'. reconstruct_store E (rs @ [r]) = Done s'" and "is_system r"
proof -
  obtain sfx0 line where x: "intent_of E rs sfx0 i" "recovery_of E rs i r line"
      and chain: "chained E 0 zero_sha256 (rs @ [r])"
    using assms(2) by (auto simp: recovered_def journal_at_def)
  have "chained E 0 zero_sha256 rs"
    using chain by (simp add: chained_append)
  from recovery_extends(2) [OF assms(1,3) this x] show "\<exists>s'. reconstruct_store E (rs @ [r]) = Done s'" .
  show "is_system r" by (rule recovery_of_facts(7) [OF x(2)])
qed

lemma disk_base_upto:
  assumes "disk_base E f rs" and "tf_lock f' = tf_lock f" and "tf_snapshot f' = tf_snapshot f"
    and "tf_lock f \<noteq> None"
  shows "disk_base E f' rs"
  using assms by (auto simp: disk_base_def snapshot_at_def)

lemma disk_base_snoc:
  assumes "disk_base E f rs" and "\<exists>s'. reconstruct_store E (rs @ ts) = Done s'"
  shows "disk_base E f (rs @ ts)"
  using assms snapshot_at_append by (auto simp: disk_base_def)

lemma recovering_disk: "disk_base E f rs \<Longrightarrow> recovering E f rs i sfx \<Longrightarrow> disk_at E f rs"
  by (auto simp: disk_at_def)

lemma recovered_disk:
  assumes "hash_nonzero E" and "disk_base E f rs" and "recovered E f rs i r"
  shows "disk_at E f (rs @ [r])" and "system_ext rs (rs @ [r])"
proof -
  obtain s where "reconstruct_store E rs = Done s"
    using assms(2) by (auto simp: disk_base_def)
  note ext = recovered_extends [OF assms(1,3) this]
  show "disk_at E f (rs @ [r])"
    using disk_base_snoc [OF assms(2) ext(1)] assms(3) by (auto simp: disk_at_def)
  show "system_ext rs (rs @ [r])"
    using ext(2) by (simp add: system_ext_def)
qed

lemma in_recovery_disk:
  assumes "hash_nonzero E" and "disk_base E f rs" and "tf_recovery f \<noteq> None" and "in_recovery E f rs i f'"
  shows "disk_from E rs f'"
proof -
  have f': "f' = f\<lparr>tf_journal := tf_journal f'\<rparr>" using assms(4) by (simp add: in_recovery_def)
  then have "tf_lock f' = tf_lock f" "tf_snapshot f' = tf_snapshot f"
    by (metis task_files.select_convs task_files.surjective task_files.update_convs(2))+
  moreover have "tf_lock f \<noteq> None"
    using assms(2,3) by (auto simp: disk_base_def)
  ultimately have base: "disk_base E f' rs"
    by (intro disk_base_upto [OF assms(2)])
  from assms(4) consider i sfx where "recovering E f' rs i sfx" | i r where "recovered E f' rs i r"
    by (auto simp: in_recovery_def)
  then show ?thesis
  proof cases
    case 1
    with base show ?thesis by (auto intro: disk_from_refl recovering_disk)
  next
    case 2
    from recovered_disk [OF assms(1) base 2] show ?thesis by (blast intro: disk_fromI)
  qed
qed

definition after_recover ::
  "task_env \<Rightarrow> task_files \<Rightarrow> JournalRecord list \<Rightarrow> RecoveredJournal \<Rightarrow> task_files \<Rightarrow> bool" where
  "after_recover E f rs rj f' \<longleftrightarrow>
     (rj = \<lparr>rj_records = rs, rj_recovery_applied = False, rj_cleanup_intent = False\<rparr> \<and> f' = f \<and> torn E f rs []) \<or>
     (\<exists>rs0 i r. rj = \<lparr>rj_records = rs0 @ [r], rj_recovery_applied = True, rj_cleanup_intent = True\<rparr> \<and>
        (rs = rs0 \<or> rs = rs0 @ [r]) \<and> is_system r \<and> disk_base E f' (rs0 @ [r]) \<and> recovered E f' rs0 i r)"

text \<open>From a state with an intent, whether it was on disk already or has just been written.\<close>

lemma finish_from_recovering:
  assumes env: "task_env_ok E" and os: "honest os" and base: "disk_base E f rs"
    and old: "recovering E f rs i sfx" and bs: "journal_bytes E rs = Some bs"
    and j: "tf_journal f = Some (bs @ sfx)"
  shows "ftriple f (pm_bind (pm_lift (recovery_record_is_complete E (bs @ sfx)
        \<lparr>pj_records = rs, pj_complete_prefix_length = length bs, pj_suffix = sfx\<rparr> i)) (\<lambda>complete.
      if complete
      then pm_return \<lparr>rj_records = rs, rj_recovery_applied = True, rj_cleanup_intent = True\<rparr>
      else finish_recovery E os root (bs @ sfx)
        \<lparr>pj_records = rs, pj_complete_prefix_length = length bs, pj_suffix = sfx\<rparr> i))
    (after_recover E f0 rs) (disk_from E rs)"
proof -
  have codec: "record_codec E" "hash_nonzero E" using env by (auto simp: task_env_ok_def)
  obtain s where rec: "reconstruct_store E rs = Done s" using base by (auto simp: disk_base_def)
  obtain sfx0 where "intent_of E rs sfx0 i" "chained E 0 zero_sha256 rs"
    using old by (auto simp: recovering_def journal_at_def)
  then have inc: "recovery_record_is_complete E (bs @ sfx)
      \<lparr>pj_records = rs, pj_complete_prefix_length = length bs, pj_suffix = sfx\<rparr> i = Done False"
    by (rule recovering_incomplete [rotated])
  have intent: "tf_recovery f \<noteq> None" using old by (auto simp: recovering_def)
  then have lock: "tf_lock f \<noteq> None" using base by (auto simp: disk_base_def)
  have base': "disk_base E f' rs" if "f' = f\<lparr>tf_journal := tf_journal f'\<rparr>" for f'
    using that by (intro disk_base_upto [OF base _ _ lock])
      (metis task_files.select_convs task_files.surjective task_files.update_convs(2))+
  have done_state: "after_recover E f0 rs rj f'" if "\<exists>r. f' = f\<lparr>tf_journal := tf_journal f'\<rparr> \<and> recovered E f' rs i r \<and>
      rj = \<lparr>rj_records = rs @ [r], rj_recovery_applied = True, rj_cleanup_intent = True\<rparr>" for rj f'
  proof -
    from that obtain r where r: "f' = f\<lparr>tf_journal := tf_journal f'\<rparr>" "recovered E f' rs i r"
        "rj = \<lparr>rj_records = rs @ [r], rj_recovery_applied = True, rj_cleanup_intent = True\<rparr>" by blast
    note ext = recovered_extends [OF codec(2) r(2) rec]
    have "disk_base E f' (rs @ [r])"
      by (rule disk_base_snoc [OF base' [OF r(1)] ext(1)])
    with r ext(2) show ?thesis
      unfolding after_recover_def by blast
  qed
  have here: "disk_from E rs f"
    using recovering_disk [OF base old] by (rule disk_from_refl)
  show ?thesis
    apply (rule ftriple_check, rule here)
    apply (simp add: inc)
    apply (rule ftriple_conseq [OF finish_recovery_spec [OF codec os rec old bs j]])
     apply (use done_state in \<open>blast\<close>)
    apply (erule in_recovery_disk [OF codec(2) base intent])
    done
qed

lemma recover_journal_spec:
  assumes env: "task_env_ok E" and os: "honest os" and disk: "disk_at E f rs"
    and bs: "bs = (case tf_journal f of None \<Rightarrow> [] | Some c \<Rightarrow> c)"
    and recovery: "case tf_recovery f of None \<Rightarrow> recovery = None
      | Some b \<Rightarrow> \<exists>i. recovery = Some i \<and> parse_intent E b = Some i"
  shows "ftriple f (recover_journal E os root bs recovery) (after_recover E f rs) (disk_from E rs)"
proof -
  have codec: "record_codec E" "intent_codec E" "hash_nonzero E" using env by (auto simp: task_env_ok_def)
  have here: "disk_from E rs f" using disk by (rule disk_from_refl)
  have base: "disk_base E f rs" using disk by (simp add: disk_at_def)
  from disk consider sfx where "torn E f rs sfx" | i sfx where "recovering E f rs i sfx"
    | rs0 i r where "rs = rs0 @ [r]" "recovered E f rs0 i r"
    by (auto simp: disk_at_def)
  then show ?thesis
  proof cases
    case 1
    then have none: "recovery = None" using recovery by (simp add: torn_def)
    have "journal_at E f rs sfx" using 1 by (simp add: torn_def)
    with codec(1) show ?thesis
    proof (rule journal_at_parse)
      fix jb
      assume jb: "journal_bytes E rs = Some jb" "chained E 0 zero_sha256 rs"
        "(case tf_journal f of None \<Rightarrow> [] | Some c \<Rightarrow> c) = jb @ sfx"
        "parse_journal E (jb @ sfx) = Inr \<lparr>pj_records = rs, pj_complete_prefix_length = length jb, pj_suffix = sfx\<rparr>"
      show ?thesis
      proof (cases "sfx = []")
        case True
        then show ?thesis
          unfolding recover_journal_def
          by (intro ftriple_check here) (use 1 jb bs none in \<open>auto simp: after_recover_def intro!: ftriple_return\<close>)
      next
        case False
        have j: "tf_journal f = Some (jb @ sfx)"
          using jb(3) False by (cases "tf_journal f") auto
        have start: "ftriple f (pm_bind (pm_lift (tres_of (intent_from_suffix E
              \<lparr>pj_records = rs, pj_complete_prefix_length = length jb, pj_suffix = sfx\<rparr>))) (\<lambda>i.
              pm_bind (persist_recovery_intent E os root i) (\<lambda>_. pm_return i)))
            (\<lambda>i f'. \<exists>b. f' = f\<lparr>tf_recovery := Some b\<rparr> \<and> recovering E f' rs i sfx) (disk_from E rs)"
        proof (rule ftriple_check, rule here)
          fix i
          assume "tres_of (intent_from_suffix E
              \<lparr>pj_records = rs, pj_complete_prefix_length = length jb, pj_suffix = sfx\<rparr>) = Done i"
          then have i: "intent_of E rs sfx i"
            using jb(1) 1 by (auto simp: intent_of_def res_simps torn_def journal_at_def)
          have rec: "recovering E (f\<lparr>tf_recovery := Some b\<rparr>) rs i sfx" if "json_intent E i = Some b" for b
            using 1 i j that codec(2) unfolding recovering_def
            by (auto simp: torn_def journal_at_def intent_codec_def)
          have lock: "tf_lock f \<noteq> None" using base j by (auto simp: disk_base_def)
          have "disk_base E (f\<lparr>tf_recovery := Some b\<rparr>) rs" for b
            by (rule disk_base_upto [OF base _ _ lock]) simp_all
          with rec have at: "disk_from E rs (f\<lparr>tf_recovery := Some b\<rparr>)" if "json_intent E i = Some b" for b
            using that by (blast intro: disk_from_refl recovering_disk)
          show "ftriple f (pm_bind (persist_recovery_intent E os root i) (\<lambda>_. pm_return i))
              (\<lambda>i f'. \<exists>b. f' = f\<lparr>tf_recovery := Some b\<rparr> \<and> recovering E f' rs i sfx) (disk_from E rs)"
            apply (rule ftriple_bind [OF ftriple_conseq [OF persist_recovery_intent_spec]], assumption)
            using here at apply blast
            using rec apply (auto intro!: ftriple_return)
            done
        qed
        have next_step: "ftriple f' (pm_bind (pm_lift (recovery_record_is_complete E (jb @ sfx)
              \<lparr>pj_records = rs, pj_complete_prefix_length = length jb, pj_suffix = sfx\<rparr> i)) (\<lambda>complete.
            if complete
            then pm_return \<lparr>rj_records = rs, rj_recovery_applied = True, rj_cleanup_intent = True\<rparr>
            else finish_recovery E os root (jb @ sfx)
              \<lparr>pj_records = rs, pj_complete_prefix_length = length jb, pj_suffix = sfx\<rparr> i))
            (after_recover E f rs) (disk_from E rs)"
          if "\<exists>b. f' = f\<lparr>tf_recovery := Some b\<rparr> \<and> recovering E f' rs i sfx" for f' i
        proof -
          have "tf_lock f \<noteq> None" using base j by (auto simp: disk_base_def)
          then have "disk_base E f' rs"
            using that disk_base_upto [OF base] by auto
          with that j show ?thesis
            by (intro finish_from_recovering [OF env os _ _ jb(1)]) auto
        qed
        show ?thesis
          unfolding recover_journal_def
          apply (rule ftriple_check, rule here)
          using False jb bs none apply (simp add: recovery_intent_def)
          apply (rule ftriple_bind [OF start])
          apply (simp only: bs jb(3) ParsedJournal.select_convs)
          apply (rule next_step, assumption)
          done
      qed
    qed
  next
    case 2
    then have j: "journal_at E f rs sfx" "tf_journal f \<noteq> None" by (auto simp: recovering_def)
    obtain b where b: "tf_recovery f = Some b" "recovery = Some i"
      using 2 recovery by (auto simp: recovering_def)
    from codec(1) j(1) show ?thesis
    proof (rule journal_at_parse)
      fix jb
      assume jb: "journal_bytes E rs = Some jb" "(case tf_journal f of None \<Rightarrow> [] | Some c \<Rightarrow> c) = jb @ sfx"
        "parse_journal E (jb @ sfx) = Inr \<lparr>pj_records = rs, pj_complete_prefix_length = length jb, pj_suffix = sfx\<rparr>"
      have jf: "tf_journal f = Some (jb @ sfx)" using jb(2) j(2) by auto
      show ?thesis
        unfolding recover_journal_def
        apply (rule ftriple_check, rule here)
        using jb bs b apply (simp add: recovery_intent_def)
        apply (rule ftriple_bind [where Q = "\<lambda>x f'. x = i \<and> f' = f"])
         apply (rule ftriple_check, rule here, rule ftriple_return, simp)
        apply (elim conjE, simp only: bs jb(2) ParsedJournal.select_convs)
        apply (rule finish_from_recovering [OF env os base 2 jb(1) jf])
        done
    qed
  next
    case 3
    obtain b where b: "tf_recovery f = Some b" "recovery = Some i"
      using 3 recovery by (auto simp: recovered_def)
    have sys: "is_system r"
      using 3(2) by (auto simp: recovered_def dest: recovery_of_facts(7))
    have j: "journal_at E f rs []" using 3 by (simp add: recovered_def)
    obtain sfx0 line jb0 where i: "intent_of E rs0 sfx0 i" "recovery_of E rs0 i r line"
        "journal_bytes E rs0 = Some jb0"
      using 3 by (auto simp: recovered_def intent_of_def)
    from codec(1) j show ?thesis
    proof (rule journal_at_parse)
      fix jb
      assume jb: "journal_bytes E rs = Some jb" "(case tf_journal f of None \<Rightarrow> [] | Some c \<Rightarrow> c) = jb @ []"
        "parse_journal E (jb @ []) = Inr \<lparr>pj_records = rs, pj_complete_prefix_length = length jb, pj_suffix = []\<rparr>"
      have "jb = jb0 @ line"
        using jb(1) journal_bytes_snoc [OF i(3) recovery_of_facts(6) [OF i(2)]] 3(1) by simp
      then have complete: "recovery_record_is_complete E bs \<lparr>pj_records = rs, pj_complete_prefix_length = length jb, pj_suffix = []\<rparr> i
          = Done True"
        using recovered_complete [OF i] 3(1) bs jb(2) by simp
      have parse: "parse_journal E bs = Inr \<lparr>pj_records = rs, pj_complete_prefix_length = length jb, pj_suffix = []\<rparr>"
        using jb(2,3) bs by simp
      show ?thesis
        unfolding recover_journal_def
        apply (rule ftriple_check, rule here)
        using parse b apply (simp add: recovery_intent_def)
        apply (rule ftriple_bind [where Q = "\<lambda>x f'. x = i \<and> f' = f"])
         apply (rule ftriple_check, rule here, rule ftriple_return, simp)
        apply (elim conjE, hypsubst)
        apply (rule ftriple_check, rule here)
        apply (simp add: complete)
        apply (rule ftriple_return)
        unfolding after_recover_def
        using 3 base sys apply blast
        done
    qed
  qed
qed

section \<open>The locked load\<close>

lemma read_locked_spec:
  assumes os: "honest os"
  shows "ftriple f (read_locked E os root)
    (\<lambda>(loaded, bs, parsed, recovery) f'. f' = f \<and>
       bs = (case tf_journal f of None \<Rightarrow> [] | Some c \<Rightarrow> c) \<and> parse_journal E bs = Inr parsed \<and>
       (case tf_recovery f of None \<Rightarrow> recovery = None
        | Some b \<Rightarrow> \<exists>i. recovery = Some i \<and> parse_intent E b = Some i))
    (\<lambda>f'. f' = f)"
  unfolding read_locked_def Let_def
  apply (rule ftriple_bind [OF load_snapshot_spec [OF os]])
  apply (elim conjE, hypsubst)
  apply (rule ftriple_bind [OF read_journal_spec [OF os]])
  apply (elim conjE, hypsubst)
  apply (rule ftriple_check, rule refl)
  apply (rule ftriple_check, rule refl)
  apply (rule ftriple_bind [OF load_recovery_spec [OF os]])
  apply (elim conjE, hypsubst)
  apply (rule ftriple_if, rule ftriple_fail, rule refl)
  apply (rule ftriple_return)
  apply (simp add: res_simps)
  done

lemma journal_at_other: "tf_journal f' = tf_journal f \<Longrightarrow> journal_at E f' rs sfx = journal_at E f rs sfx"
  by (simp add: journal_at_def)

lemma recovered_other:
  "tf_journal f' = tf_journal f \<Longrightarrow> tf_recovery f' = tf_recovery f \<Longrightarrow> recovered E f' rs i r = recovered E f rs i r"
  by (simp add: recovered_def journal_at_def)

text \<open>Writing the store of all records as the snapshot.\<close>

lemma disk_base_snapshot:
  assumes "disk_base E f rs" and "tf_lock f \<noteq> None" and "reconstruct_store E rs = Done s" and "json_store E s = Some b"
  shows "disk_base E (f\<lparr>tf_snapshot := Some b\<rparr>) rs"
  using assms by (auto simp: disk_base_def snapshot_at_def intro!: exI [of _ "length rs"])

lemma settle_store_spec:
  assumes env: "task_env_ok E" and base: "disk_base E f rs" and lock: "tf_lock f \<noteq> None"
    and state: "rj_records rj = rs"
      "(rj_recovery_applied rj = False \<and> rj_cleanup_intent rj = False \<and> torn E f rs []) \<or>
       (rj_recovery_applied rj = True \<and> rj_cleanup_intent rj = True \<and>
          (\<exists>rs0 i r. rs = rs0 @ [r] \<and> recovered E f rs0 i r))"
  shows "ftriple f (settle_store E os root loaded rj)
    (\<lambda>ls f'. clean E f' rs \<and> tf_lock f' \<noteq> None \<and> ls_records ls = rs \<and> reconstruct_store E rs = Done (ls_store ls))
    (\<lambda>f'. disk_at E f' rs)"
    (is "ftriple f _ ?Q ?C")
proof -
  obtain s where s: "reconstruct_store E rs = Done s" using base by (auto simp: disk_base_def)
  define same where "same f' \<longleftrightarrow> disk_base E f' rs \<and> tf_lock f' \<noteq> None \<and> tf_journal f' = tf_journal f \<and>
    tf_recovery f' = tf_recovery f" for f'
  have here: "same f" using base lock by (simp add: same_def)
  have at: "disk_at E f' rs" if "same f'" for f'
    using that state(2) recovered_other [of f' f E] journal_at_other [of f' f E rs "[]"]
    unfolding disk_at_def same_def torn_def by metis
  have snap: "same (f\<lparr>tf_snapshot := Some b\<rparr>)" if "json_store E s = Some b" for b
    using disk_base_snapshot [OF base lock s that] lock by (simp add: same_def)
  have first: "ftriple f (if s \<noteq> loaded
      then pm_bind (pm_lift (expect (json_store E s))) (\<lambda>bs.
        if rj_recovery_applied rj then persist_recovery_snapshot os root bs
        else persist_replayed_snapshot os root bs)
      else pm_return ()) (\<lambda>_. same) ?C"
    apply (rule ftriple_if)
     apply (rule ftriple_check, rule at [OF here])
     apply (rule ftriple_if)
      apply (rule ftriple_conseq [OF persist_recovery_snapshot_spec])
       apply (use snap at here in \<open>auto simp: res_simps\<close>) [2]
     apply (rule ftriple_conseq [OF persist_replayed_snapshot_spec])
      apply (use snap at here in \<open>auto simp: res_simps\<close>) [2]
    apply (rule ftriple_return, rule here)
    done
  have journal: "journal_at E f rs []"
    using state(2) by (auto simp: torn_def recovered_def)
  have cleaned: "clean E (f'\<lparr>tf_recovery := None\<rparr>) rs" if "same f'" for f'
    using that journal unfolding clean_def same_def torn_def
    by (auto simp: disk_base_def snapshot_at_def journal_at_def)
  have second: "ftriple f' (if rj_cleanup_intent rj then remove_recovery_intent os root else pm_return ())
      (\<lambda>_ f''. clean E f'' rs \<and> tf_lock f'' \<noteq> None) ?C" if "same f'" for f'
  proof (cases "rj_cleanup_intent rj")
    case True
    have "tf_lock f' \<noteq> None" using that by (simp add: same_def)
    then show ?thesis
      using True at [OF that] cleaned [OF that] clean_disk_at
      by (auto intro!: ftriple_conseq [OF remove_recovery_intent_spec])
  next
    case False
    then have "tf_recovery f = None" using state(2) by (auto simp: torn_def)
    then have "f'\<lparr>tf_recovery := None\<rparr> = f'" using that by (cases f') (simp add: same_def)
    with False cleaned [OF that] that show ?thesis by (auto intro!: ftriple_return simp: same_def)
  qed
  show ?thesis
    unfolding settle_store_def state(1)
    apply (rule ftriple_check, rule at [OF here])
    apply (simp only: s tres.inject)
    apply (hypsubst, unfold Let_def)
    apply (rule ftriple_bind [OF first])
    apply (rule ftriple_bind [OF second], assumption)
    apply (rule ftriple_return)
    apply (simp add: s)
    done
qed

end
