(* ===== verification/Task_Safety.thy ===== *)
theory Task_Safety
  imports Task_Recovery
begin

text \<open>
  Crash safety of whole repository operations: the specifications of \<open>load\<close> and \<open>transition\<close>, for
  every behaviour of the operating system and every injected fault.
\<close>

named_theorems no_panic_rules \<open>operations that do not panic\<close>
named_theorems returns_rules \<open>operations that always succeed\<close>

section \<open>Operations that always return\<close>

definition no_panic :: "('s, 'a) tm \<Rightarrow> bool" where
  "no_panic m \<longleftrightarrow> (\<forall>st. fst (m st) \<noteq> Panics)"

definition returns :: "('s, 'a) tm \<Rightarrow> bool" where
  "returns m \<longleftrightarrow> (\<forall>st. \<exists>x. fst (m st) = Done x)"

lemma no_panic_simple [no_panic_rules]:
  "no_panic (pm_return x)" "no_panic (pm_fail e)" "no_panic pm_dir" "no_panic (pm_set name c)" "no_panic (hit p)"
  by (simp_all add: no_panic_def pm_return_def pm_fail_def pm_dir_def pm_set_def hit_def)

lemma no_panic_bind [no_panic_rules]: "no_panic m \<Longrightarrow> (\<And>x. no_panic (f x)) \<Longrightarrow> no_panic (pm_bind m f)"
  unfolding no_panic_def
proof
  fix st
  assume m: "\<forall>st. fst (m st) \<noteq> Panics" and f: "\<And>x. \<forall>st. fst (f x st) \<noteq> Panics"
  show "fst (pm_bind m f st) \<noteq> Panics"
  proof (cases "m st")
    case (Pair r st')
    with m have "r \<noteq> Panics" by (metis fst_conv)
    with Pair f show ?thesis by (cases r) (simp_all add: pm_bind_def)
  qed
qed

lemma no_panic_if [no_panic_rules]: "no_panic m \<Longrightarrow> no_panic m' \<Longrightarrow> no_panic (if b then m else m')"
  by simp

lemma no_panic_case_option [no_panic_rules]:
  "no_panic m \<Longrightarrow> (\<And>x. no_panic (f x)) \<Longrightarrow> no_panic (case v of None \<Rightarrow> m | Some x \<Rightarrow> f x)"
  by (cases v) simp_all

lemma no_panic_sys [no_panic_rules]: "(\<And>a. no_panic (f a)) \<Longrightarrow> no_panic (sys os f)"
  by (simp add: no_panic_def sys_def)

lemma no_panic_sys_or [no_panic_rules]: "(\<And>a. no_panic (f a)) \<Longrightarrow> no_panic (sys_or os err f)"
  unfolding sys_or_def by (intro no_panic_rules)

lemma returns_try: "no_panic m \<Longrightarrow> returns (pm_try m)"
  unfolding returns_def no_panic_def
proof
  fix st
  assume m: "\<forall>st. fst (m st) \<noteq> Panics"
  show "\<exists>x. fst (pm_try m st) = Done x"
  proof (cases "m st")
    case (Pair r st')
    with m have "r \<noteq> Panics" by (metis fst_conv)
    with Pair show ?thesis by (cases r) (simp_all add: pm_try_def)
  qed
qed

lemma returns_no_panic: "returns m \<Longrightarrow> no_panic m"
  unfolding returns_def no_panic_def by (metis tres.distinct(3))

lemma no_panic_try [no_panic_rules]: "no_panic m \<Longrightarrow> no_panic (pm_try m)"
  by (rule returns_no_panic [OF returns_try])

lemma no_panic_case_sum [no_panic_rules]:
  "(\<And>x. no_panic (f x)) \<Longrightarrow> (\<And>x. no_panic (g x)) \<Longrightarrow> no_panic (case v of Inl x \<Rightarrow> f x | Inr x \<Rightarrow> g x)"
  by (cases v) simp_all

lemma no_panic_ops [no_panic_rules]:
  "no_panic (open_validated_root os)" "no_panic (validate_binding os root)" "no_panic (validate_private_file os)"
  "no_panic (sync_all os err)" "no_panic (sync_root os root)" "no_panic (hit_opt p)"
  "no_panic (open_child os name creat excl stage)" "no_panic (rename_child os a b stage)"
  "no_panic (unlink_child os name stage)" "no_panic (write_all os err name bs)"
  unfolding sync_root_def validate_binding_def pm_map_err_def open_validated_root_def
    validate_private_file_def sync_all_def hit_opt_def open_child_def rename_child_def unlink_child_def
    write_all_def
  by (intro no_panic_rules)+

lemma no_panic_replace [no_panic_rules]:
  "no_panic (atomic_replace_without_root_sync_with_faults os root target bs b a stage)"
proof -
  have "no_panic (\<lambda>st'. pm_bind (pm_try (replace_body os root temp target bs b a stage)) (\<lambda>r.
      case r of Inr _ \<Rightarrow> pm_return ()
      | Inl e \<Rightarrow> pm_bind (pm_try (unlink_child os temp RemoveRecoveryIntent)) (\<lambda>_. pm_fail e)) st')" for temp
    unfolding replace_body_def by (intro no_panic_rules)
  then show ?thesis
    unfolding no_panic_def atomic_replace_without_root_sync_with_faults_def Let_def by blast
qed

lemma no_panic_atomic [no_panic_rules]: "no_panic (atomic_replace os root target bs b a stage)"
  unfolding atomic_replace_def by (intro no_panic_rules)

lemma returns_simple [returns_rules]: "returns (pm_return x)" "returns (hit p)"
  by (auto simp: returns_def pm_return_def hit_def)

lemma returns_bind [returns_rules]: "returns m \<Longrightarrow> (\<And>x. returns (f x)) \<Longrightarrow> returns (pm_bind m f)"
  unfolding returns_def
proof
  fix st
  assume m: "\<forall>st. \<exists>x. fst (m st) = Done x" and f: "\<And>x. \<forall>st. \<exists>y. fst (f x st) = Done y"
  obtain x st' where "m st = (Done x, st')" using m by (metis prod.collapse)
  with f show "\<exists>x. fst (pm_bind m f st) = Done x" by (simp add: pm_bind_def)
qed

lemma returns_if [returns_rules]: "returns m \<Longrightarrow> returns m' \<Longrightarrow> returns (if b then m else m')"
  by simp

lemma returns_case_sum [returns_rules]:
  "(\<And>x. returns (f x)) \<Longrightarrow> (\<And>x. returns (g x)) \<Longrightarrow> returns (case v of Inl x \<Rightarrow> f x | Inr x \<Rightarrow> g x)"
  by (cases v) simp_all

lemma append_transition_returns: "returns (append_transition os root line)"
  unfolding append_transition_def by (intro returns_rules returns_try no_panic_rules)

lemma replace_snapshot_returns: "returns (replace_snapshot_after_transition os root bs)"
  unfolding replace_snapshot_after_transition_def by (intro returns_rules returns_try no_panic_rules)

lemma ftriple_returns: "ftriple f m Q C \<Longrightarrow> returns m \<Longrightarrow> ftriple f m Q C'"
  unfolding ftriple_def triple_def returns_def
proof (intro allI impI)
  fix st :: persist_state
  assume a: "\<forall>st. files (ps_dir st) = f \<longrightarrow>
      ends (\<lambda>x st. Q x (files (ps_dir st))) (\<lambda>st. C (files (ps_dir st))) (m st)"
    and r: "\<forall>st. \<exists>x. fst (m st) = Done x" and f: "files (ps_dir st) = f"
  obtain x st' where "m st = (Done x, st')" using r by (metis prod.collapse)
  with a f show "ends (\<lambda>x st. Q x (files (ps_dir st))) (\<lambda>st. C' (files (ps_dir st))) (m st)"
    by (metis ends.simps(1))
qed

section \<open>Triples of repository operations\<close>

definition disk_files :: "repo_state \<Rightarrow> task_files" where
  "disk_files st = files (ps_dir (rp_disk st))"

definition rtriple ::
  "task_files \<Rightarrow> 'a rm \<Rightarrow> ('a \<Rightarrow> task_files \<Rightarrow> bool) \<Rightarrow> (task_files \<Rightarrow> bool) \<Rightarrow> bool" where
  "rtriple f m Q C \<longleftrightarrow> triple (\<lambda>st. disk_files st = f) m (\<lambda>x st. Q x (disk_files st)) (\<lambda>st. C (disk_files st))"

lemma rtriple_return: "Q x f \<Longrightarrow> rtriple f (pm_return x) Q C"
  unfolding rtriple_def by (rule triple_return) simp

lemma rtriple_fail: "C f \<Longrightarrow> rtriple f (pm_fail e) Q C"
  unfolding rtriple_def by (rule triple_fail) simp

lemma rtriple_lift: "C f \<Longrightarrow> (\<And>x. r = Done x \<Longrightarrow> Q x f) \<Longrightarrow> rtriple f (pm_lift r) Q C"
  unfolding rtriple_def by (rule triple_lift) auto

lemma rtriple_bind:
  "rtriple f m Q C \<Longrightarrow> (\<And>x f'. Q x f' \<Longrightarrow> rtriple f' (g x) S C) \<Longrightarrow> rtriple f (pm_bind m g) S C"
  unfolding rtriple_def triple_def by (blast intro: ends_bind)

lemma rtriple_try:
  "rtriple f m Q C \<Longrightarrow> rtriple f (pm_try m) (\<lambda>r f'. case r of Inr x \<Rightarrow> Q x f' | Inl _ \<Rightarrow> C f') C"
  unfolding rtriple_def by (rule triple_post [OF triple_try]) (auto split: sum.splits)

lemma rtriple_conseq:
  "rtriple f m Q C \<Longrightarrow> (\<And>x f'. Q x f' \<Longrightarrow> Q' x f') \<Longrightarrow> (\<And>f'. C f' \<Longrightarrow> C' f') \<Longrightarrow> rtriple f m Q' C'"
  unfolding rtriple_def by (erule triple_conseq) simp_all

lemma rtriple_check:
  "C f \<Longrightarrow> (\<And>x. r = Done x \<Longrightarrow> rtriple f (g x) Q C) \<Longrightarrow> rtriple f (pm_bind (pm_lift r) g) Q C"
  unfolding rtriple_def by (rule triple_lift_bind) simp_all

lemma rtriple_if:
  "(b \<Longrightarrow> rtriple f m Q C) \<Longrightarrow> (\<not> b \<Longrightarrow> rtriple f m' Q C) \<Longrightarrow> rtriple f (if b then m else m') Q C"
  by simp

lemma rtriple_on_disk: "ftriple f m Q C \<Longrightarrow> rtriple f (on_disk m) Q C"
  unfolding ftriple_def rtriple_def triple_def
proof (intro allI impI)
  fix st :: repo_state
  assume a: "\<forall>st. files (ps_dir st) = f \<longrightarrow>
      ends (\<lambda>x st. Q x (files (ps_dir st))) (\<lambda>st. C (files (ps_dir st))) (m st)"
    and "disk_files st = f"
  then have "ends (\<lambda>x st. Q x (files (ps_dir st))) (\<lambda>st. C (files (ps_dir st))) (m (rp_disk st))"
    by (simp add: disk_files_def)
  then show "ends (\<lambda>x st. Q x (disk_files st)) (\<lambda>st. C (disk_files st)) (on_disk m st)"
    by (cases "m (rp_disk st)"; cases "fst (m (rp_disk st))") (simp_all add: on_disk_def disk_files_def)
qed

text \<open>Operations on the watchers only.\<close>

definition keeps_disk :: "'a rm \<Rightarrow> bool" where
  "keeps_disk m \<longleftrightarrow> (\<forall>st. rp_disk (snd (m st)) = rp_disk st)"

lemma keeps_disk_hub [simp]: "keeps_disk (visit_hub h)" "keeps_disk (mark_all reason)"
  "keeps_disk (broadcast r)" "keeps_disk (observe_committed c)" "keeps_disk (mark_load_error e)"
  "keeps_disk (install c t n)"
  by (simp_all add: keeps_disk_def visit_hub_def mark_all_def broadcast_def observe_committed_def
      mark_load_error_def install_def split_def Let_def)

lemma keeps_disk_effects [simp]: "keeps_disk (mark_load_effects effects c)"
  using keeps_disk_hub(2) unfolding keeps_disk_def
  by (simp add: mark_load_effects_def Let_def)

lemma rtriple_keeps:
  assumes "keeps_disk m" and "\<And>x. Q x f" and "C f"
  shows "rtriple f m Q C"
  unfolding rtriple_def triple_def
proof (intro allI impI)
  fix st :: repo_state
  assume "disk_files st = f"
  then have "disk_files (snd (m st)) = f"
    using assms(1) by (simp add: keeps_disk_def disk_files_def)
  then show "ends (\<lambda>x st. Q x (disk_files st)) (\<lambda>st. C (disk_files st)) (m st)"
    using assms(2,3) by (cases "m st"; cases "fst (m st)") simp_all
qed

lemma rtriple_keeps_bind:
  assumes "keeps_disk m" and "C f" and "\<And>x. rtriple f (g x) Q C"
  shows "rtriple f (pm_bind m g) Q C"
  by (rule rtriple_bind [OF rtriple_keeps [OF assms(1), where Q = "\<lambda>_ f'. f' = f"]]) (use assms in auto)

lemma returns_on_disk: "returns m \<Longrightarrow> returns (on_disk m)"
  unfolding returns_def on_disk_def by (simp add: split_def Let_def)

lemma returns_hub: "returns (visit_hub h)" "returns (mark_all reason)" "returns (broadcast r)"
  "returns (observe_committed c)"
  by (simp_all add: returns_def visit_hub_def mark_all_def broadcast_def observe_committed_def split_def Let_def)

lemma rtriple_returns: "rtriple f m Q C \<Longrightarrow> returns m \<Longrightarrow> rtriple f m Q C'"
  unfolding rtriple_def triple_def returns_def
proof (intro allI impI)
  fix st :: repo_state
  assume a: "\<forall>st. disk_files st = f \<longrightarrow> ends (\<lambda>x st. Q x (disk_files st)) (\<lambda>st. C (disk_files st)) (m st)"
    and r: "\<forall>st. \<exists>x. fst (m st) = Done x" and f: "disk_files st = f"
  obtain x st' where "m st = (Done x, st')" using r by (metis prod.collapse)
  with a f show "ends (\<lambda>x st. Q x (disk_files st)) (\<lambda>st. C' (disk_files st)) (m st)"
    by (metis ends.simps(1))
qed

lemma rtriple_checks:
  assumes "keeps_dir m" and "C f" and "\<And>x. rtriple f (g x) Q C"
  shows "rtriple f (pm_bind (on_disk m) g) Q C"
  by (rule rtriple_bind [OF rtriple_on_disk [OF ftriple_keeps [OF assms(1), where Q = "\<lambda>_ f'. f' = f"]]])
    (use assms in auto)

lemma open_lock_existing:
  "ftriple f (open_lock os root False) (\<lambda>r f'. f' = f \<and> (r \<longrightarrow> tf_lock f \<noteq> None)) (\<lambda>f'. f' = f)"
  by (rule ftriple_conseq [OF open_lock_spec]) auto

lemma keeps_lock_exclusive: "keeps_dir (lock_exclusive os)"
  unfolding lock_exclusive_def by (intro keeps)

lemma or_mark_load_error_spec:
  assumes "rtriple f m Q C"
  shows "rtriple f (or_mark_load_error m) Q C"
  unfolding or_mark_load_error_def
  by (rule rtriple_bind [OF rtriple_try [OF assms]])
    (auto split: sum.splits intro!: rtriple_return rtriple_keeps_bind rtriple_fail)

section \<open>Loading\<close>

definition loaded_from :: "task_env \<Rightarrow> JournalRecord list \<Rightarrow> LockedState \<Rightarrow> task_files \<Rightarrow> bool" where
  "loaded_from E rs ls f \<longleftrightarrow> (\<exists>rs'. system_ext rs rs' \<and> clean E f rs' \<and> tf_lock f \<noteq> None \<and>
     ls_records ls = rs' \<and> reconstruct_store E rs' = Done (ls_store ls))"

lemma load_locked_recovering_spec:
  assumes env: "task_env_ok E" and os: "honest os" and disk: "disk_at E f rs" and lock: "tf_lock f \<noteq> None"
  shows "rtriple f (load_locked_recovering E os root) (loaded_from E rs) (disk_from E rs)"
proof -
  have here: "disk_from E rs f" using disk by (rule disk_from_refl)
  have settle: "ftriple f' (settle_store E os root loaded rj) (loaded_from E rs) (disk_from E rs)"
    if after: "after_recover E f rs rj f'" and l: "tf_lock f' \<noteq> None" for loaded rj f'
  proof -
    from after consider
      "rj = \<lparr>rj_records = rs, rj_recovery_applied = False, rj_cleanup_intent = False\<rparr>" "f' = f" "torn E f rs []"
    | rs0 i r where "rj = \<lparr>rj_records = rs0 @ [r], rj_recovery_applied = True, rj_cleanup_intent = True\<rparr>"
        "rs = rs0 \<or> rs = rs0 @ [r]" "is_system r" "disk_base E f' (rs0 @ [r])" "recovered E f' rs0 i r"
      unfolding after_recover_def by blast
    then show ?thesis
    proof cases
      case 1
      have base: "disk_base E f rs" using disk by (simp add: disk_at_def)
      show ?thesis
        by (rule ftriple_conseq [OF settle_store_spec [OF env, of f' rs]])
          (use 1 base l in \<open>auto simp: loaded_from_def intro: disk_from_refl\<close>)
    next
      case 2
      have ext: "system_ext rs (rs0 @ [r])" using 2(2,3) by (auto simp: system_ext_def)
      show ?thesis
        by (rule ftriple_conseq [OF settle_store_spec [OF env 2(4) l]])
          (use 2 ext in \<open>auto simp: loaded_from_def intro: disk_fromI\<close>)
    qed
  qed
  have lock_kept: "ftriple f (recover_journal E os root bs recovery)
      (\<lambda>rj f'. after_recover E f rs rj f' \<and> tf_lock f' \<noteq> None) (disk_from E rs)"
    if "bs = (case tf_journal f of None \<Rightarrow> [] | Some c \<Rightarrow> c)"
      "case tf_recovery f of None \<Rightarrow> recovery = None | Some b \<Rightarrow> \<exists>i. recovery = Some i \<and> parse_intent E b = Some i"
    for bs recovery
    by (rule ftriple_conseq [OF recover_journal_spec [OF env os disk that]])
      (use lock in \<open>auto simp: after_recover_def recovered_def disk_base_def\<close>)
  have rest: "rtriple f (pm_bind (pm_try (on_disk (recover_journal E os root bs recovery))) (\<lambda>r.
      case r of
        Inl e \<Rightarrow> pm_bind (if needed then mark_all Resync_RecoveryStopped else pm_return ()) (\<lambda>_. pm_fail e)
      | Inr rj \<Rightarrow> on_disk (settle_store E os root loaded rj)))
      (loaded_from E rs) (disk_from E rs)"
    if "bs = (case tf_journal f of None \<Rightarrow> [] | Some c \<Rightarrow> c)"
      "case tf_recovery f of None \<Rightarrow> recovery = None | Some b \<Rightarrow> \<exists>i. recovery = Some i \<and> parse_intent E b = Some i"
    for bs recovery needed loaded
  proof (rule rtriple_bind [OF rtriple_try [OF rtriple_on_disk [OF lock_kept [OF that]]]])
    fix r :: "TaskServiceError + RecoveredJournal" and f'
    assume r: "case r of Inl _ \<Rightarrow> disk_from E rs f' | Inr x \<Rightarrow> after_recover E f rs x f' \<and> tf_lock f' \<noteq> None"
    show "rtriple f' (case r of
        Inl e \<Rightarrow> pm_bind (if needed then mark_all Resync_RecoveryStopped else pm_return ()) (\<lambda>_. pm_fail e)
      | Inr rj \<Rightarrow> on_disk (settle_store E os root loaded rj)) (loaded_from E rs) (disk_from E rs)"
    proof (cases r)
      case (Inl e)
      have "keeps_disk (if needed then mark_all Resync_RecoveryStopped else pm_return ())"
        by (simp add: keeps_disk_def [of "pm_return ()"] pm_return_def)
      with Inl r show ?thesis
        by (simp only: sum.case) (intro rtriple_keeps_bind rtriple_fail)
    next
      case (Inr x)
      with r show ?thesis
        by (simp only: sum.case) (intro rtriple_on_disk settle; simp)
    qed
  qed
  show ?thesis
    unfolding load_locked_recovering_def
    apply (rule rtriple_bind [OF rtriple_on_disk [OF ftriple_conseq [OF read_locked_spec [OF os]]]], assumption)
     apply (simp add: here)
    apply (simp only: split_paired_all prod.case Let_def)
    apply (elim conjE, hypsubst)
    apply (rule rest, rule refl, assumption)
    done
qed

text \<open>Without a lock file there is no journal, and the store is empty.\<close>

lemma journal_bytes_Nil:
  assumes "journal_bytes E rs = Some []"
  shows "rs = []"
proof (cases rs)
  case (Cons r rs')
  with assms show ?thesis by (auto split: option.splits dest: line_nonempty)
qed

lemma no_journal_records: "disk_at E f rs \<Longrightarrow> tf_journal f = None \<Longrightarrow> rs = []"
  by (auto simp: disk_at_def torn_def recovering_def recovered_def journal_at_def dest: journal_bytes_Nil)

lemma load_without_lock_spec:
  assumes "honest os"
  shows "ftriple f (load_without_lock E os root)
    (\<lambda>s f'. f' = f \<and> s = empty_store \<and> tf_snapshot f = None \<and> tf_journal f = None \<and> tf_recovery f = None)
    (\<lambda>f'. f' = f)"
  unfolding load_without_lock_def
  apply (rule ftriple_bind [OF load_snapshot_spec [OF assms]])
  apply (elim conjE, hypsubst)
  apply (rule ftriple_bind [OF read_journal_spec [OF assms]])
  apply (elim conjE, hypsubst)
  apply (rule ftriple_bind [OF load_recovery_spec [OF assms]])
  apply (elim conjE, hypsubst)
  apply (rule ftriple_if)
   apply (rule ftriple_return)
   apply (auto split: option.splits)[1]
  apply (rule ftriple_fail, rule refl)
  done

lemma load_spec:
  assumes env: "task_env_ok E" and os: "honest os" and disk: "disk_at E f rs"
  shows "rtriple f (load E os root)
    (\<lambda>s f'. \<exists>rs'. system_ext rs rs' \<and> clean E f' rs' \<and> reconstruct_store E rs' = Done s)
    (disk_from E rs)"
proof -
  have here: "disk_from E rs f" using disk by (rule disk_from_refl)
  have absent: "rtriple f (on_disk (load_without_lock E os root))
      (\<lambda>s f'. \<exists>rs'. system_ext rs rs' \<and> clean E f' rs' \<and> reconstruct_store E rs' = Done s) (disk_from E rs)"
  proof (rule rtriple_on_disk, rule ftriple_conseq [OF load_without_lock_spec [OF os]])
    fix s f'
    assume a: "f' = f \<and> s = empty_store \<and> tf_snapshot f = None \<and> tf_journal f = None \<and> tf_recovery f = None"
    then have rs: "rs = []" using no_journal_records [OF disk] by blast
    then have "clean E f' []"
      using a disk by (auto simp: clean_def disk_at_def torn_def journal_at_def)
    with rs a show "\<exists>rs'. system_ext rs rs' \<and> clean E f' rs' \<and> reconstruct_store E rs' = Done s"
      by (intro exI [of _ "[]"]) (simp add: reconstruct_store_def)
  qed (simp add: here)
  show ?thesis
    unfolding load_def
    apply (rule rtriple_checks [OF keeps_checks(2)], rule here)
    apply (rule rtriple_bind [OF rtriple_on_disk [OF ftriple_conseq [OF open_lock_existing]]], assumption)
     apply (simp add: here)
    apply (elim conjE, hypsubst)
    apply (rule rtriple_if, rule absent)
    apply (rule rtriple_checks [OF keeps_lock_exclusive], rule here)
    apply (rule rtriple_bind [OF or_mark_load_error_spec [OF load_locked_recovering_spec [OF env os disk]]], simp)
    apply (rule rtriple_keeps_bind, simp)
     apply (auto simp: loaded_from_def intro: disk_fromI clean_disk_at)[1]
    apply (rule rtriple_return)
    apply (auto simp: loaded_from_def)
    done
qed

section \<open>Transitions\<close>

definition transition_ext :: "TransitionEnvelope \<Rightarrow> JournalRecord list \<Rightarrow> JournalRecord list \<Rightarrow> bool" where
  "transition_ext e rs rs' \<longleftrightarrow>
     rs' = rs \<or> (\<exists>r response. rs' = rs @ [r] \<and> jr_event r = Transition \<lparr>te_envelope = e, te_response = response\<rparr>)"

text \<open>The journal holds the receipt of the envelope with this response.\<close>

definition receipt_of :: "task_env \<Rightarrow> JournalRecord list \<Rightarrow> TransitionEnvelope \<Rightarrow> TransitionResponse \<Rightarrow> bool" where
  "receipt_of E rs e response \<longleftrightarrow> (\<exists>s x. reconstruct_store E rs = Done s \<and>
     bt_get (ts_receipts s) (env_receipt_id e) = Some x \<and> rec_response x = response \<and>
     rec_request_digest_sha256 x = env_request_digest_sha256 e)"

definition transition_done ::
  "task_env \<Rightarrow> TransitionEnvelope \<Rightarrow> JournalRecord list \<Rightarrow> TransitionOutcome \<Rightarrow> task_files \<Rightarrow> bool" where
  "transition_done E e rs outcome f \<longleftrightarrow> (\<exists>rs'. transition_ext e rs rs' \<and> disk_at E f rs' \<and>
     (\<forall>response. outcome = Committed response \<longrightarrow> receipt_of E rs' e response) \<and>
     (\<forall>error. outcome = NoWrite error \<longrightarrow> rs' = rs))"

lemma clean_journal:
  assumes "clean E f rs"
  obtains bs where "journal_bytes E rs = Some bs" "chained E 0 zero_sha256 rs"
    "(case tf_journal f of None \<Rightarrow> [] | Some c \<Rightarrow> c) = bs" "tf_recovery f = None"
  using assms by (auto simp: clean_def torn_def journal_at_def)

lemma clean_touch: "clean E f rs \<Longrightarrow> tf_lock f \<noteq> None \<Longrightarrow> clean E (journal_touch f) rs"
  by (auto simp: clean_def torn_def journal_at_def journal_touch_def disk_base_def snapshot_at_def)

lemma next_sequence_less: "(a :: u64) \<le> MAX_JSON_SAFE_INTEGER \<Longrightarrow> a + 1 \<le> MAX_JSON_SAFE_INTEGER \<Longrightarrow> a < MAX_JSON_SAFE_INTEGER"
proof (rule ccontr)
  assume a: "a \<le> MAX_JSON_SAFE_INTEGER" "a + 1 \<le> MAX_JSON_SAFE_INTEGER" "\<not> a < MAX_JSON_SAFE_INTEGER"
  then have "a = MAX_JSON_SAFE_INTEGER" by simp
  with a(2) show False by (simp add: MAX_JSON_SAFE_INTEGER_def)
qed

text \<open>What the checks of \<open>transition\<close> guarantee for the record that is appended.\<close>

lemma checked_transition:
  assumes env: "hash_nonzero E" and rec: "reconstruct_store E rs = Done s" and chain: "chained E 0 zero_sha256 rs"
    and fresh: "bt_get (ts_receipts s) (env_receipt_id e) = None"
    and cas: "ts_store_revision s = env_expected_store_revision e"
    and valid: "validate_envelope E e = Inr ()"
    and digest: "canonical_command_digest E e = Inr (env_request_digest_sha256 e)"
    and plan: "plan_transition s e = Done p" and rev: "checked_next (ts_store_revision s) = Inr n"
    and pre: "finalize_transition E s p e (env_request_digest_sha256 e) n t0 = Done (response0, r0, next0)"
    and pre_ok: "validate_store E next0 = Inr ()"
    and fin: "finalize_transition E s p e (env_request_digest_sha256 e) n t = Done (response, r, next)"
  shows "reconstruct_store E (rs @ [r]) = Done next" and "chained E 0 zero_sha256 (rs @ [r])"
    and "receipt_of E (rs @ [r]) e response"
    and "jr_event r = Transition \<lparr>te_envelope = e, te_response = response\<rparr>"
proof -
  have inv: "store_inv E s" by (rule reconstruct_inv [OF rec])
  note f = finalize_Done [OF fin]
  note f0 = finalize_Done [OF pre]
  have "cur_sequence (ts_journal_checkpoint s) + 1 \<le> MAX_JSON_SAFE_INTEGER"
    using pre_ok f0(2,7) by (simp add: validate_store_Inr validate_cursor_shape_Inr record_cursor_def)
  then have seq: "cur_sequence (ts_journal_checkpoint s) < MAX_JSON_SAFE_INTEGER"
    by (rule next_sequence_less [OF store_inv_cursor [OF inv]])
  have "store_inv E next"
    using event_hash_nonzero [OF env f(6)] by (rule finalize_store_inv [OF inv valid plan rev fin seq])
  then have ok: "validate_store E next = Inr ()" by (simp add: store_inv_def)
  show nxt: "reconstruct_store E (rs @ [r]) = Done next" and "chained E 0 zero_sha256 (rs @ [r])"
    by (rule finalize_reconstruct [OF rec chain fresh cas [symmetric] digest plan rev fin ok])+
  show "receipt_of E (rs @ [r]) e response"
    using nxt f(7) by (simp add: receipt_of_def bt_simps)
  show "jr_event r = Transition \<lparr>te_envelope = e, te_response = response\<rparr>" by (rule f(5))
qed

lemma appended_disk:
  assumes env: "record_codec E" and clean: "clean E f rs" and j: "tf_journal f = Some bs"
    and line: "compact_record_line E r = Some line" and ext: "chained E 0 zero_sha256 (rs @ [r])"
    and rec: "reconstruct_store E (rs @ [r]) = Done next"
  shows "disk_at E (journal_append (take k line) f) (if k < length line then rs else rs @ [r])"
    and "clean E (journal_append line f) (rs @ [r])"
proof -
  have bs: "journal_bytes E rs = Some bs" "chained E 0 zero_sha256 rs" "tf_recovery f = None"
    using clean j by (auto simp: clean_def torn_def journal_at_def)
  have base: "disk_base E f rs" "tf_lock f \<noteq> None"
    using clean j by (auto simp: clean_def disk_base_def)
  have app: "journal_append c f = f\<lparr>tf_journal := Some (bs @ c)\<rparr>" for c
    using j by (simp add: journal_append_def)
  have base': "disk_base E (f\<lparr>tf_journal := x\<rparr>) rs" for x
    by (rule disk_base_upto [OF base(1) _ _ base(2)]) simp_all
  then have base'': "disk_base E (f\<lparr>tf_journal := x\<rparr>) (rs @ [r])" for x
    using rec by (intro disk_base_snoc) auto
  have at: "if k < length line then journal_at E (f\<lparr>tf_journal := Some (bs @ take k line)\<rparr>) rs (take k line)
      else journal_at E (f\<lparr>tf_journal := Some (bs @ take k line)\<rparr>) (rs @ [r]) []" for k
    by (rule journal_at_line [OF env bs(2,1) line ext]) simp
  show "clean E (journal_append line f) (rs @ [r])"
    using at [of "length line"] base'' bs(3) by (simp add: clean_def torn_def app)
  show "disk_at E (journal_append (take k line) f) (if k < length line then rs else rs @ [r])"
  proof (cases "k < length line")
    case True
    then have "torn E (journal_append (take k line) f) rs (take k line)"
      using at [of k] bs(3) by (simp add: torn_def app)
    with True base' show ?thesis by (auto simp: disk_at_def app)
  next
    case False
    with \<open>clean E (journal_append line f) (rs @ [r])\<close> show ?thesis
      by (simp add: clean_disk_at)
  qed
qed

lemma clean_snapshot:
  assumes "clean E f rs" and "tf_lock f \<noteq> None" and "reconstruct_store E rs = Done s" and "json_store E s = Some b"
  shows "clean E (f\<lparr>tf_snapshot := Some b\<rparr>) rs"
  using assms disk_base_snapshot [of E f rs s b] by (auto simp: clean_def torn_def journal_at_def)

lemma commit_transition_spec:
  assumes env: "record_codec E" and clean: "clean E f rs" and j: "tf_journal f = Some bs"
    and ext: "chained E 0 zero_sha256 (rs @ [r])" and rec: "reconstruct_store E (rs @ [r]) = Done next"
    and receipt: "receipt_of E (rs @ [r]) e response"
    and event: "jr_event r = Transition \<lparr>te_envelope = e, te_response = response\<rparr>"
  shows "rtriple f (commit_transition E os root e response r next)
    (\<lambda>outcome f'. transition_done E e rs outcome f' \<and> (\<forall>error. outcome \<noteq> NoWrite error)) (\<lambda>f'. disk_at E f' rs)"
    (is "rtriple f _ ?Q ?C")
proof -
  have here: "?C f" using clean by (rule clean_disk_at)
  have ext': "transition_ext e rs (if k < length line then rs else rs @ [r])" for k and line :: bytes
    using event by (auto simp: transition_ext_def)
  have unknown: "?Q (Outcome_PersistenceUnknown x phase) f'"
    if "disk_at E f' (if k < length line then rs else rs @ [r])" for x phase f' k and line :: bytes
    using that ext' unfolding transition_done_def by blast
  show ?thesis
    unfolding commit_transition_def
  proof (rule rtriple_check, rule here, rule rtriple_check, rule here)
    fix line snapshot
    assume "expect (compact_record_line E r) = Done line" "expect (json_store E next) = Done snapshot"
    then have line: "compact_record_line E r = Some line" and snapshot: "json_store E next = Some snapshot"
      by (auto simp: res_simps)
    note at = appended_disk [OF env clean j line ext rec]
    let ?f = "journal_append line f"
    have lock: "tf_lock ?f \<noteq> None"
      using clean j by (auto simp: clean_def disk_base_def journal_append_def)
    have snap: "clean E (?f\<lparr>tf_snapshot := Some snapshot\<rparr>) (rs @ [r])"
      by (rule clean_snapshot [OF at(2) lock rec snapshot])
    have append: "ftriple f (append_transition os root line)
        (\<lambda>x f'. (\<exists>k. f' = journal_append (take k line) f) \<and> (x = Inr () \<longrightarrow> f' = ?f)) ?C"
      by (rule ftriple_returns [OF append_transition_spec append_transition_returns])
    have replace: "ftriple ?f (replace_snapshot_after_transition os root snapshot)
        (\<lambda>_ f'. f' = ?f \<or> f' = ?f\<lparr>tf_snapshot := Some snapshot\<rparr>) ?C"
      by (rule ftriple_conseq [OF ftriple_returns [OF replace_snapshot_after_transition_spec replace_snapshot_returns]])
        auto
    have full: "?Q (Outcome_PersistenceUnknown x phase) f'" "?Q (Committed response) f'"
      if "f' = ?f \<or> f' = ?f\<lparr>tf_snapshot := Some snapshot\<rparr>" for x phase f'
    proof -
      have d: "disk_at E f' (rs @ [r])" using that at(2) snap by (auto intro: clean_disk_at)
      then show "?Q (Outcome_PersistenceUnknown x phase) f'"
        using unknown [of f' "length line" line] by simp
      show "?Q (Committed response) f'"
        unfolding transition_done_def
        using d receipt ext' [of "length line" line] by (intro conjI exI [of _ "rs @ [r]"]) auto
    qed
    have after: "rtriple ?f (pm_bind (on_disk (replace_snapshot_after_transition os root snapshot)) (\<lambda>replaced.
         case replaced of
           Inl phase \<Rightarrow> pm_bind (mark_all PersistenceUnknown) (\<lambda>_.
             pm_return (Outcome_PersistenceUnknown (env_receipt_id e) phase))
         | Inr _ \<Rightarrow>
             pm_bind (observe_committed (record_cursor r)) (\<lambda>_.
             pm_bind (broadcast r) (\<lambda>_.
             pm_return (Committed response))))) ?Q (\<lambda>_. True)"
    proof (rule rtriple_bind [OF rtriple_on_disk [OF ftriple_conseq [OF replace]]], assumption, simp)
      fix x f'
      assume f': "f' = ?f \<or> f' = ?f\<lparr>tf_snapshot := Some snapshot\<rparr>"
      show "rtriple f' (case x of
           Inl phase \<Rightarrow> pm_bind (mark_all PersistenceUnknown) (\<lambda>_.
             pm_return (Outcome_PersistenceUnknown (env_receipt_id e) phase))
         | Inr _ \<Rightarrow>
             pm_bind (observe_committed (record_cursor r)) (\<lambda>_.
             pm_bind (broadcast r) (\<lambda>_.
             pm_return (Committed response)))) ?Q (\<lambda>_. True)"
        using full [OF f']
        by (cases x) (auto intro!: rtriple_keeps_bind rtriple_return simp del: split_paired_All)
    qed
    show "rtriple f (pm_bind (on_disk (append_transition os root line)) (\<lambda>appended.
     case appended of
       Inl phase \<Rightarrow> pm_bind (mark_all PersistenceUnknown) (\<lambda>_.
         pm_return (Outcome_PersistenceUnknown (env_receipt_id e) phase))
     | Inr _ \<Rightarrow>
         pm_bind (on_disk (replace_snapshot_after_transition os root snapshot)) (\<lambda>replaced.
         case replaced of
           Inl phase \<Rightarrow> pm_bind (mark_all PersistenceUnknown) (\<lambda>_.
             pm_return (Outcome_PersistenceUnknown (env_receipt_id e) phase))
         | Inr _ \<Rightarrow>
             pm_bind (observe_committed (record_cursor r)) (\<lambda>_.
             pm_bind (broadcast r) (\<lambda>_.
             pm_return (Committed response)))))) ?Q ?C"
    proof (rule rtriple_bind [OF rtriple_on_disk [OF append]])
      fix x :: "PersistencePhase + unit" and f'
      assume x: "(\<exists>k. f' = journal_append (take k line) f) \<and> (x = Inr () \<longrightarrow> f' = ?f)"
      show "rtriple f' (case x of
       Inl phase \<Rightarrow> pm_bind (mark_all PersistenceUnknown) (\<lambda>_.
         pm_return (Outcome_PersistenceUnknown (env_receipt_id e) phase))
     | Inr _ \<Rightarrow>
         pm_bind (on_disk (replace_snapshot_after_transition os root snapshot)) (\<lambda>replaced.
         case replaced of
           Inl phase \<Rightarrow> pm_bind (mark_all PersistenceUnknown) (\<lambda>_.
             pm_return (Outcome_PersistenceUnknown (env_receipt_id e) phase))
         | Inr _ \<Rightarrow>
             pm_bind (observe_committed (record_cursor r)) (\<lambda>_.
             pm_bind (broadcast r) (\<lambda>_.
             pm_return (Committed response))))) ?Q ?C"
      proof (cases x)
        case (Inl phase)
        obtain k where "f' = journal_append (take k line) f" using x by blast
        with at(1) [of k] have "?Q (Outcome_PersistenceUnknown (env_receipt_id e) phase) f'"
          using unknown by blast
        then have "rtriple f' (pm_bind (mark_all PersistenceUnknown) (\<lambda>_.
            pm_return (Outcome_PersistenceUnknown (env_receipt_id e) phase))) ?Q (\<lambda>_. True)"
          by (intro rtriple_keeps_bind rtriple_return) simp_all
        then show ?thesis
          unfolding Inl sum.case by (rule rtriple_returns) (intro returns_rules returns_hub)
      next
        case (Inr u)
        with x have "f' = ?f" by simp
        then show ?thesis
          unfolding Inr sum.case using after
          by (auto elim!: rtriple_returns intro!: returns_rules returns_hub returns_on_disk replace_snapshot_returns)
      qed
    qed
  qed
qed

lemma apply_transition_spec:
  assumes env: "task_env_ok E" and clean: "clean E f rs" and lock: "tf_lock f \<noteq> None"
    and rec: "reconstruct_store E rs = Done s" and valid: "validate_envelope E e = Inr ()"
    and digest: "canonical_command_digest E e = Inr (env_request_digest_sha256 e)"
  shows "rtriple f (apply_transition E os root e (env_request_digest_sha256 e) now s)
    (\<lambda>outcome f'. transition_done E e rs outcome f' \<and> (\<forall>error. outcome \<noteq> NoWrite error)) (\<lambda>f'. disk_at E f' rs)"
    (is "rtriple f _ ?Q ?C")
proof (cases "bt_get (ts_receipts s) (env_receipt_id e)")
  case (Some x)
  have "?Q (Committed (rec_response x)) f" if "rec_request_digest_sha256 x = env_request_digest_sha256 e"
    unfolding transition_done_def using clean_disk_at [OF clean] rec Some that
    by (intro conjI exI [of _ rs]) (auto simp: transition_ext_def receipt_of_def)
  with Some clean_disk_at [OF clean] show ?thesis
    unfolding apply_transition_def by (auto intro!: rtriple_fail rtriple_return)
next
  case None
  have here: "?C f" using clean by (rule clean_disk_at)
  have codec: "record_codec E" "hash_nonzero E" using env by (auto simp: task_env_ok_def)
  have chain: "chained E 0 zero_sha256 rs" using clean by (auto elim: clean_journal)
  obtain bs where j: "tf_journal (journal_touch f) = Some bs" by (simp add: journal_touch_def)
  have touched: "clean E (journal_touch f) rs" by (rule clean_touch [OF clean lock])
  have prepare: "ftriple f (prepare_journal_append os root) (\<lambda>_ f'. f' = journal_touch f) ?C"
    unfolding prepare_journal_append_def
    by (rule ftriple_conseq [OF open_journal_append_spec])
      (use here clean_disk_at [OF touched] in auto)
  have commit: "rtriple f (pm_bind (on_disk (prepare_journal_append os root)) (\<lambda>_.
      pm_bind (pm_lift (finalize_transition E s p e (env_request_digest_sha256 e) n now))
        (\<lambda>(response, r, next). commit_transition E os root e response r next))) ?Q ?C"
    if cas: "ts_store_revision s = env_expected_store_revision e"
      and p: "plan_transition s e = Done p" "checked_next (ts_store_revision s) = Inr n"
      "finalize_transition E s p e (env_request_digest_sha256 e) n preflight_time = Done (response0, r0, next0)"
      "validate_store E next0 = Inr ()" for p n response0 r0 next0
  proof (rule rtriple_bind [OF rtriple_on_disk [OF prepare]], simp only:, rule rtriple_check,
      rule clean_disk_at [OF touched])
    fix x
    assume fin: "finalize_transition E s p e (env_request_digest_sha256 e) n now = Done x"
    obtain response r nx where x: "x = (response, r, nx)" by (cases x)
    note ok = checked_transition [OF codec(2) rec chain None cas valid digest p fin [unfolded x]]
    show "rtriple (journal_touch f) (case x of (response, r, next) \<Rightarrow>
        commit_transition E os root e response r next) ?Q ?C"
      unfolding x prod.case
      by (rule commit_transition_spec [OF codec(1) touched j ok(2) ok(1) ok(3) ok(4)])
  qed
  have stop: "keeps_dir (hit BeforeJournalAppend)" by (rule keeps_hit)
  show ?thesis
    unfolding apply_transition_def None option.case
    apply (rule rtriple_if, rule rtriple_fail, rule here)
    apply (rule rtriple_check, rule here)
    apply (rule rtriple_check, rule here)
    apply (rule rtriple_check, rule here)
    apply (simp only: split_paired_all prod.case)
    apply (rule rtriple_check, rule here)
    apply (rule rtriple_check, rule here)
    apply (rule rtriple_checks [OF stop], rule here)
    apply (rule rtriple_if, rule rtriple_fail, rule here)
    apply (rule commit)
    apply (auto simp: res_simps)
    done
qed

lemma disk_at_lock: "disk_at E f rs \<Longrightarrow> disk_at E (f\<lparr>tf_lock := Some c\<rparr>) rs"
  unfolding disk_at_def torn_def recovering_def recovered_def disk_base_def snapshot_at_def journal_at_def
  by simp

lemma lock_for_transition_spec:
  assumes os: "honest os" and disk: "disk_at E f rs"
  shows "ftriple f (lock_for_transition E os root e) (\<lambda>_ f'. disk_at E f' rs \<and> tf_lock f' \<noteq> None)
    (\<lambda>f'. disk_at E f' rs)"
proof -
  have created: "ftriple f (open_lock os root True) (\<lambda>r f'. r \<and> disk_at E f' rs \<and> tf_lock f' \<noteq> None)
      (\<lambda>f'. disk_at E f' rs)"
    by (rule ftriple_conseq [OF open_lock_spec]) (use disk disk_at_lock in auto)
  have make: "ftriple f (pm_bind (load_without_lock E os root) (\<lambda>empty.
      pm_bind (pm_lift (preflight_empty_transition E empty e)) (\<lambda>_.
      pm_bind (open_lock os root True) (\<lambda>created. if created then pm_return () else pm_lift Panics))))
      (\<lambda>_ f'. disk_at E f' rs \<and> tf_lock f' \<noteq> None) (\<lambda>f'. disk_at E f' rs)"
    apply (rule ftriple_bind [OF ftriple_conseq [OF load_without_lock_spec [OF os]]], assumption)
     apply (simp add: disk)
    apply (elim conjE, hypsubst)
    apply (rule ftriple_check, rule disk)
    apply (rule ftriple_bind [OF created])
    apply (auto intro: ftriple_return)
    done
  have first: "ftriple f (if locked then pm_return ()
      else pm_bind (load_without_lock E os root) (\<lambda>empty.
      pm_bind (pm_lift (preflight_empty_transition E empty e)) (\<lambda>_.
      pm_bind (open_lock os root True) (\<lambda>created. if created then pm_return () else pm_lift Panics))))
      (\<lambda>_ f'. disk_at E f' rs \<and> tf_lock f' \<noteq> None) (\<lambda>f'. disk_at E f' rs)"
    if "locked \<longrightarrow> tf_lock f \<noteq> None" for locked
    by (rule ftriple_if, rule ftriple_return) (use that disk make in auto)
  show ?thesis
    unfolding lock_for_transition_def
    apply (rule ftriple_bind [OF ftriple_conseq [OF open_lock_existing]], assumption)
     apply (simp add: disk)
    apply (elim conjE, hypsubst)
    apply (rule ftriple_bind [OF first], assumption)
    apply (rule ftriple_keeps [OF keeps_lock_exclusive])
    apply auto
    done
qed

text \<open>
  The crash specification of \<open>transition\<close>: from the records \<open>rs\<close>, a possible recovery of the tail,
  then at most the record of this envelope. The crash condition is that of a panic.
\<close>

definition transition_result ::
  "task_env \<Rightarrow> TransitionEnvelope \<Rightarrow> JournalRecord list \<Rightarrow> TransitionOutcome \<Rightarrow> task_files \<Rightarrow> bool" where
  "transition_result E e rs outcome f \<longleftrightarrow> (\<exists>rs'. system_ext rs rs' \<and> transition_done E e rs' outcome f)"

lemma disk_done: "disk_from E rs f \<Longrightarrow> transition_result E e rs (NoWrite error) f"
  unfolding disk_from_def transition_result_def transition_done_def transition_ext_def by blast

lemma transition_body_spec:
  assumes env: "task_env_ok E" and os: "honest os" and disk: "disk_at E f rs"
  shows "rtriple f (transition_body E os root now e)
    (\<lambda>outcome f'. transition_result E e rs outcome f' \<and> (\<forall>error. outcome \<noteq> NoWrite error)) (disk_from E rs)"
    (is "rtriple f _ ?Q ?C")
proof -
  have here: "?C f" using disk by (rule disk_from_refl)
  have apply_after: "rtriple f' (pm_bind (mark_load_effects (ls_effects ls) (ts_journal_checkpoint (ls_store ls))) (\<lambda>_.
      apply_transition E os root e (env_request_digest_sha256 e) now (ls_store ls))) ?Q ?C"
    if loaded: "loaded_from E rs ls f'" and e: "validate_envelope E e = Inr ()"
      "canonical_command_digest E e = Inr (env_request_digest_sha256 e)" for ls f'
  proof -
    obtain rs' where rs': "system_ext rs rs'" "clean E f' rs'" "tf_lock f' \<noteq> None"
        "reconstruct_store E rs' = Done (ls_store ls)"
      using loaded by (auto simp: loaded_from_def)
    have C: "?C f'" using rs' by (blast intro: disk_fromI clean_disk_at)
    show ?thesis
      by (rule rtriple_keeps_bind, simp, rule C,
        rule rtriple_conseq [OF apply_transition_spec [OF env rs'(2,3,4) e]])
        (use rs'(1) in \<open>auto simp: transition_result_def intro: disk_fromI\<close>)
  qed
  have locked: "rtriple f' (pm_bind (or_mark_load_error (load_locked_recovering E os root)) (\<lambda>ls.
      pm_bind (mark_load_effects (ls_effects ls) (ts_journal_checkpoint (ls_store ls))) (\<lambda>_.
      apply_transition E os root e (env_request_digest_sha256 e) now (ls_store ls)))) ?Q ?C"
    if "disk_at E f' rs" "tf_lock f' \<noteq> None" "validate_envelope E e = Inr ()"
      "canonical_command_digest E e = Inr (env_request_digest_sha256 e)" for f'
    by (rule rtriple_bind [OF or_mark_load_error_spec [OF load_locked_recovering_spec [OF env os that(1,2)]]],
      rule apply_after [OF _ that(3,4)])
  have checked: "rtriple f (pm_bind (on_disk (validate_binding os root)) (\<lambda>_.
      pm_bind (on_disk (lock_for_transition E os root e)) (\<lambda>_.
      pm_bind (or_mark_load_error (load_locked_recovering E os root)) (\<lambda>ls.
      pm_bind (mark_load_effects (ls_effects ls) (ts_journal_checkpoint (ls_store ls))) (\<lambda>_.
      apply_transition E os root e (env_request_digest_sha256 e) now (ls_store ls)))))) ?Q ?C"
    if "validate_envelope E e = Inr ()" "canonical_command_digest E e = Inr (env_request_digest_sha256 e)"
    apply (rule rtriple_checks [OF keeps_checks(2)], rule here)
    apply (rule rtriple_bind [OF rtriple_on_disk [OF ftriple_conseq [OF lock_for_transition_spec [OF os disk]]]], assumption)
     apply (erule disk_from_refl)
    apply (elim conjE)
    apply (rule locked [OF _ _ that], assumption, assumption)
    done
  show ?thesis
    unfolding transition_body_def
    apply (rule rtriple_check, rule here)
    apply (rule rtriple_check, rule here)
    apply (rule rtriple_if, rule rtriple_fail, rule here)
    apply (simp only: not_not, hypsubst)
    apply (rule checked)
     apply (auto simp: res_simps)
    done
qed

lemma transition_spec:
  assumes "task_env_ok E" and "honest os" and "disk_at E f rs"
  shows "rtriple f (transition E os root now e) (transition_result E e rs) (disk_from E rs)"
  unfolding transition_def
  by (rule rtriple_bind [OF rtriple_try [OF transition_body_spec [OF assms]]], rule rtriple_return)
    (auto split: sum.splits intro: disk_done)

end
