(* ===== verification/Task_Watch.thy ===== *)
theory Task_Watch
  imports Task_Safety
begin

text \<open>
  What readers of the journal see: pages (\<open>page_records\<close>) and subscriptions (the watch hub). A page
  is the next deliverable records after the cursor; walking the pages gives every deliverable
  record once and in order. A subscription hands out a prefix of the records broadcast to it,
  then says that the reader has to start again, then is disconnected.
\<close>

section \<open>Pages\<close>

abbreviation wanted :: "id option \<Rightarrow> JournalRecord list \<Rightarrow> JournalRecord list" where
  "wanted task \<equiv> filter (\<lambda>r. deliverable r task)"

lemma page_scan_spec:
  "page_scan limit task out rest = (out', rest') \<Longrightarrow>
     out' = out @ take (limit - length out) (wanted task rest) \<and>
     wanted task rest' = drop (limit - length out) (wanted task rest)"
proof (induction limit task out rest rule: page_scan.induct)
  case (2 limit task out r rest)
  moreover have "limit - length out = Suc (limit - Suc (length out))" if "length out < limit"
    using that by simp
  ultimately show ?case
    by (cases "length out < limit") (auto split: if_splits)
qed simp

text \<open>The \<open>k\<close>-th wanted record splits the journal where the next page goes on.\<close>

lemma filter_split:
  "k < length (filter P xs) \<Longrightarrow>
     \<exists>p < length xs. xs ! p = filter P xs ! k \<and> filter P (drop (Suc p) xs) = drop (Suc k) (filter P xs)"
proof (induction xs arbitrary: k)
  case (Cons x xs)
  show ?case
  proof (cases "P x \<and> k = 0")
    case True
    then show ?thesis by (intro exI [of _ 0]) simp
  next
    case False
    define k' where "k' = (if P x then k - 1 else k)"
    have "k' < length (filter P xs)" using Cons.prems False by (auto simp: k'_def)
    from Cons.IH [OF this] obtain p where "p < length xs" "xs ! p = filter P xs ! k'"
        "filter P (drop (Suc p) xs) = drop (Suc k') (filter P xs)" by blast
    then show ?thesis
      using False by (intro exI [of _ "Suc p"]) (cases k; auto simp: k'_def)
  qed
qed simp

lemma take_last_nth: "xs \<noteq> [] \<Longrightarrow> n > 0 \<Longrightarrow> last (take n xs) = xs ! (min n (length xs) - 1)"
  by (subst last_conv_nth) (auto simp: min_def)

text \<open>A cursor at a record of the journal.\<close>

lemma cursor_at_record:
  assumes "chained E 0 zero_sha256 rs" and "hash_nonzero E" and "i < length rs"
  shows "unat (cur_sequence (record_cursor (rs ! i))) = Suc i"
    and "validate_cursor rs (record_cursor (rs ! i)) = Inr ()"
proof -
  have seq: "unat (jr_sequence (rs ! i)) = Suc i" "Suc i \<le> 9007199254740991"
    using chained_sequence [OF assms(1,3)] by auto
  then show "unat (cur_sequence (record_cursor (rs ! i))) = Suc i" by (simp add: record_cursor_def)
  have "chained E 0 zero_sha256 (take i rs @ rs ! i # drop (Suc i) rs)"
    using assms(1,3) by (simp add: id_take_nth_drop [symmetric])
  then obtain prev where "check_record E (length (take i rs)) prev (rs ! i) = Inr ()"
    by (auto simp: chained_append)
  then have "event_hash E (jr_sequence (rs ! i)) prev (jr_store_revision (rs ! i)) (jr_event (rs ! i))
      = Inr (jr_event_sha256 (rs ! i))"
    unfolding check_record_Inr by blast
  then have "jr_event_sha256 (rs ! i) \<noteq> zero_sha256"
    by (rule event_hash_nonzero [OF assms(2)])
  moreover have "jr_sequence (rs ! i) \<noteq> 0" "jr_sequence (rs ! i) \<le> MAX_JSON_SAFE_INTEGER"
    using seq by (auto simp: word_le_nat_alt)
  moreover have "unat (jr_sequence (rs ! i) - 1) = i"
    using seq(1) \<open>jr_sequence (rs ! i) \<noteq> 0\<close> by (simp add: unat_minus_one)
  ultimately show "validate_cursor rs (record_cursor (rs ! i)) = Inr ()"
    using assms(3) by (simp add: validate_cursor_def record_cursor_def validate_cursor_shape_def)
qed

lemma page_records_Inr:
  assumes "page_records rs q = Inr page"
  defines "out \<equiv> wanted (pg_task_id q) (drop (unat (cur_sequence (pg_cursor q))) rs)"
  shows "page_events_list page = take (unat (pg_limit q)) out"
    and "page_reached_head page \<longleftrightarrow> length out \<le> unat (pg_limit q)"
    and "page_continuation page = (if take (unat (pg_limit q)) out = [] then pg_cursor q
           else record_cursor (last (take (unat (pg_limit q)) out)))"
    and "validate_cursor rs (pg_cursor q) = Inr ()"
proof -
  obtain out' rest where scan: "page_scan (unat (pg_limit q)) (pg_task_id q) []
      (drop (unat (cur_sequence (pg_cursor q))) rs) = (out', rest)"
    by fastforce
  have s: "out' = take (unat (pg_limit q)) out" "wanted (pg_task_id q) rest = drop (unat (pg_limit q)) out"
    using page_scan_spec [OF scan] by (simp_all add: out_def)
  have head: "\<not> list_ex (\<lambda>r. deliverable r (pg_task_id q)) rest \<longleftrightarrow> wanted (pg_task_id q) rest = []"
    by (auto simp: list_ex_iff filter_empty_conv)
  show "page_events_list page = take (unat (pg_limit q)) out"
    "page_reached_head page \<longleftrightarrow> length out \<le> unat (pg_limit q)"
    "page_continuation page = (if take (unat (pg_limit q)) out = [] then pg_cursor q
           else record_cursor (last (take (unat (pg_limit q)) out)))"
    "validate_cursor rs (pg_cursor q) = Inr ()"
    using assms(1) scan s head by (auto simp: page_records_def res_simps)
qed

lemma page_records_continues:
  assumes chain: "chained E 0 zero_sha256 rs" and hash: "hash_nonzero E"
    and page: "page_records rs q = Inr page" and limit: "pg_limit q \<noteq> 0"
  shows "validate_cursor rs (page_continuation page) = Inr ()"
    and "wanted (pg_task_id q) (drop (unat (cur_sequence (page_continuation page))) rs) =
      drop (unat (pg_limit q)) (wanted (pg_task_id q) (drop (unat (cur_sequence (pg_cursor q))) rs))"
proof -
  note p = page_records_Inr [OF page]
  let ?c = "unat (cur_sequence (pg_cursor q))" and ?n = "unat (pg_limit q)"
  let ?out = "wanted (pg_task_id q) (drop ?c rs)"
  have n: "?n > 0" using limit by (simp add: unat_gt_0)
  have "validate_cursor rs (page_continuation page) = Inr () \<and>
      wanted (pg_task_id q) (drop (unat (cur_sequence (page_continuation page))) rs) = drop ?n ?out"
  proof (cases "?out = []")
    case True
    with p show ?thesis by simp
  next
    case False
    define k where "k = min ?n (length ?out) - 1"
    have k: "k < length ?out" using False n by (cases ?out) (auto simp: k_def)
    obtain j where j: "j < length (drop ?c rs)" "drop ?c rs ! j = ?out ! k"
        "wanted (pg_task_id q) (drop (Suc j) (drop ?c rs)) = drop (Suc k) ?out"
      using filter_split [OF k] by blast
    have last: "last (take ?n ?out) = rs ! (?c + j)"
      using take_last_nth [OF False n] j by (simp add: k_def)
    have cont: "page_continuation page = record_cursor (rs ! (?c + j))"
      using p(3) False n last by simp
    have "drop (Suc k) ?out = drop ?n ?out"
      using False n by (cases "?n \<le> length ?out") (auto simp: k_def min_def)
    moreover have "?c + j < length rs" using j(1) by simp
    note at = cursor_at_record [OF chain hash this]
    moreover have "drop (Suc j) (drop ?c rs) = drop (Suc (?c + j)) rs"
      by (simp add: add.commute)
    ultimately show ?thesis
      using j(3) by (simp only: cont at simp_thms)
  qed
  then show "validate_cursor rs (page_continuation page) = Inr ()"
    "wanted (pg_task_id q) (drop (unat (cur_sequence (page_continuation page))) rs) = drop ?n ?out"
    by auto
qed

lemma page_records_valid: "validate_cursor rs (pg_cursor q) = Inr () \<Longrightarrow> \<exists>page. page_records rs q = Inr page"
  by (simp add: page_records_def split: prod.splits)

text \<open>A reader that asks for page after page until the head is reached.\<close>

fun page_walk :: "nat \<Rightarrow> JournalRecord list \<Rightarrow> EventPageRequest \<Rightarrow> (TaskServiceError + JournalRecord list) option"
  where
  "page_walk 0 rs q = None"
| "page_walk (Suc fuel) rs q =
     (case page_records rs q of
        Inl e \<Rightarrow> Some (Inl e)
      | Inr page \<Rightarrow>
          if page_reached_head page then Some (Inr (page_events_list page))
          else map_option (\<lambda>r. res_bind r (\<lambda>more. Inr (page_events_list page @ more)))
                 (page_walk fuel rs (q\<lparr>pg_cursor := page_continuation page\<rparr>)))"

lemma page_walk_complete:
  assumes "chained E 0 zero_sha256 rs" and "hash_nonzero E" and "pg_limit q \<noteq> 0"
    and "validate_cursor rs (pg_cursor q) = Inr ()"
    and "length (wanted (pg_task_id q) (drop (unat (cur_sequence (pg_cursor q))) rs)) < fuel"
  shows "page_walk fuel rs q =
    Some (Inr (wanted (pg_task_id q) (drop (unat (cur_sequence (pg_cursor q))) rs)))"
  using assms(3-5)
proof (induction fuel arbitrary: q)
  case (Suc fuel)
  let ?out = "wanted (pg_task_id q) (drop (unat (cur_sequence (pg_cursor q))) rs)"
  obtain page where page: "page_records rs q = Inr page"
    using page_records_valid [OF Suc.prems(2)] by blast
  note p = page_records_Inr [OF page]
    and next_page = page_records_continues [OF assms(1,2) page Suc.prems(1)]
  show ?case
  proof (cases "page_reached_head page")
    case True
    with page p(1,2) show ?thesis by simp
  next
    case False
    have "unat (pg_limit q) > 0" using Suc.prems(1) by (simp add: unat_gt_0)
    then have "page_walk fuel rs (q\<lparr>pg_cursor := page_continuation page\<rparr>) = Some (Inr (drop (unat (pg_limit q)) ?out))"
      using Suc.IH [of "q\<lparr>pg_cursor := page_continuation page\<rparr>"] Suc.prems next_page False p(2) by simp
    with False page p(1) show ?thesis by simp
  qed
qed simp

section \<open>Subscriptions\<close>

text \<open>The visits of the hub reach every live subscription that it references.\<close>

lemma hub_retain_Cons:
  "hub_retain f (i # hub) subs =
     (case subs i of
        None \<Rightarrow> hub_retain f hub subs
      | Some inner \<Rightarrow>
          if \<not> si_alive inner then hub_retain f hub subs
          else (i # fst (hub_retain f hub (subs(i \<mapsto> f inner))), snd (hub_retain f hub (subs(i \<mapsto> f inner)))))"
  by (simp add: Let_def split: option.splits prod.splits)

lemmas hub_retain_step = hub_retain_Cons hub_retain.simps(1)

lemma hub_retain_other: "i \<notin> set hub \<Longrightarrow> snd (hub_retain f hub subs) i = subs i"
  by (induction hub arbitrary: subs) (auto simp: hub_retain_step simp del: hub_retain.simps(2) split: option.splits)

lemma hub_retain_subset: "set (fst (hub_retain f hub subs)) \<subseteq> set hub"
proof (induction hub arbitrary: subs)
  case (Cons i hub)
  have "set (fst (hub_retain f hub (subs(i \<mapsto> f x)))) \<subseteq> set hub" for x by (rule Cons)
  with Cons [of subs] show ?case
    by (simp add: hub_retain_step subset_insertI2 del: hub_retain.simps split: option.splits)
qed simp

lemma hub_retain_distinct: "distinct hub \<Longrightarrow> distinct (fst (hub_retain f hub subs))"
proof (induction hub arbitrary: subs)
  case (Cons i hub)
  then show ?case
    using hub_retain_subset [of f hub "subs(i \<mapsto> f (the (subs i)))"]
    by (auto simp: hub_retain_step simp del: hub_retain.simps split: option.splits)
qed simp

lemma hub_retain_kept:
  "i \<in> set hub \<Longrightarrow> subs i = Some inner \<Longrightarrow> si_alive inner \<Longrightarrow> distinct hub \<Longrightarrow>
     snd (hub_retain f hub subs) i = Some (f inner) \<and> i \<in> set (fst (hub_retain f hub subs))"
proof (induction hub arbitrary: subs)
  case (Cons j hub)
  show ?case
  proof (cases "j = i")
    case True
    with Cons.prems show ?thesis
      by (simp add: hub_retain_step hub_retain_other del: hub_retain.simps)
  next
    case False
    have "snd (hub_retain f hub (subs(j \<mapsto> f x))) i = Some (f inner)
        \<and> i \<in> set (fst (hub_retain f hub (subs(j \<mapsto> f x))))" for x
      by (rule Cons.IH) (use Cons.prems False in auto)
    with Cons.prems Cons.IH [of subs] False show ?thesis
      by (auto simp: hub_retain_step simp del: hub_retain.simps split: option.splits)
  qed
qed simp

text \<open>What happens to the hub: what the repository calls, and what the subscribers call.\<close>

datatype watch_op =
    Broadcast JournalRecord
  | Mark ResyncReason
  | Install JournalCursor "id option" nat
  | Receive nat
  | Drop nat

fun watch_step :: "watch_op \<Rightarrow> repo_state \<Rightarrow> repo_state" where
  "watch_step (Broadcast r) st = snd (broadcast r st)"
| "watch_step (Mark reason) st = snd (mark_all reason st)"
| "watch_step (Install c task capacity) st = snd (install c task capacity st)"
| "watch_step (Receive i) st = (case try_recv i st of None \<Rightarrow> st | Some (_, st') \<Rightarrow> st')"
| "watch_step (Drop i) st = drop_subscription i st"

text \<open>The answers subscription \<open>i\<close> gets while the operations run, and the records broadcast.\<close>

fun answers :: "nat \<Rightarrow> watch_op list \<Rightarrow> repo_state \<Rightarrow> (WatchReceiveError + WatchItem option) list" where
  "answers i [] st = []"
| "answers i (op # ops) st =
     (case op of
        Receive j \<Rightarrow> if j = i then (case try_recv i st of None \<Rightarrow> [] | Some (r, _) \<Rightarrow> [r]) else []
      | _ \<Rightarrow> []) @ answers i ops (watch_step op st)"

definition events :: "(WatchReceiveError + WatchItem option) list \<Rightarrow> JournalRecord list" where
  "events as = List.map_filter (\<lambda>a. case a of Inr (Some (Event r)) \<Rightarrow> Some r | _ \<Rightarrow> None) as"

definition broadcasts :: "watch_op list \<Rightarrow> JournalRecord list" where
  "broadcasts ops = List.map_filter (\<lambda>op. case op of Broadcast r \<Rightarrow> Some r | _ \<Rightarrow> None) ops"

text \<open>
  The subscription \<open>i\<close> has the queue \<open>queue\<close> and the terminal notice \<open>notice\<close>, delivered or not.
\<close>

definition hub_ok :: "repo_state \<Rightarrow> bool" where
  "hub_ok st \<longleftrightarrow> distinct (rp_hub st) \<and> (\<forall>i \<in> set (rp_hub st). i < rp_next st)"

definition subscribed :: "nat \<Rightarrow> repo_state \<Rightarrow> SubscriptionInner \<Rightarrow> bool" where
  "subscribed i st inner \<longleftrightarrow> hub_ok st \<and> i \<in> set (rp_hub st) \<and> rp_subs st i = Some inner \<and> si_alive inner"

definition apply_op :: "nat \<Rightarrow> watch_op \<Rightarrow> SubscriptionInner \<Rightarrow> SubscriptionInner" where
  "apply_op i op inner =
     (case op of
        Broadcast r \<Rightarrow> broadcast_one r inner
      | Mark reason \<Rightarrow> mark_one reason inner
      | Receive j \<Rightarrow> if j = i then snd (receive_ready inner) else inner
      | _ \<Rightarrow> inner)"

lemma one_alive [simp]:
  "si_alive (broadcast_one r inner) = si_alive inner" "si_alive (mark_one reason inner) = si_alive inner"
  "si_alive (snd (receive_ready inner)) = si_alive inner"
  by (auto simp: broadcast_one_def mark_one_def receive_ready_def split: list.splits option.splits)

lemma subscribed_visit:
  assumes "subscribed i st inner" and "si_alive (f inner)"
  shows "subscribed i (snd (visit_hub f st)) (f inner)"
  using assms hub_retain_kept [of i "rp_hub st" "rp_subs st" inner f]
    hub_retain_distinct [of "rp_hub st" f "rp_subs st"] hub_retain_subset [of f "rp_hub st" "rp_subs st"]
  by (auto simp: subscribed_def hub_ok_def visit_hub_def split: prod.splits)

lemma subscribed_step:
  assumes "subscribed i st inner" and "op \<noteq> Drop i"
  shows "subscribed i (watch_step op st) (apply_op i op inner)"
proof (cases op)
  case (Broadcast r)
  with assms subscribed_visit [of i st inner "broadcast_one r"] show ?thesis
    by (simp add: broadcast_def apply_op_def subscribed_def)
next
  case (Mark reason)
  with assms subscribed_visit [of i st inner "mark_one reason"] show ?thesis
    by (simp add: mark_all_def apply_op_def subscribed_def)
next
  case (Install c task n)
  with assms show ?thesis
    by (auto simp: subscribed_def hub_ok_def install_def apply_op_def)
next
  case (Receive j)
  with assms show ?thesis
    by (auto simp: subscribed_def hub_ok_def try_recv_def apply_op_def split: option.splits prod.splits
      dest: arg_cong [where f = snd])
next
  case (Drop j)
  with assms show ?thesis
    by (auto simp: subscribed_def hub_ok_def drop_subscription_def apply_op_def)
qed

text \<open>What a subscription has seen of the records broadcast to it.\<close>

definition sees :: "JournalCursor \<Rightarrow> id option \<Rightarrow> nat \<Rightarrow> JournalRecord list \<Rightarrow> JournalRecord list \<Rightarrow>
    bool \<Rightarrow> SubscriptionInner \<Rightarrow> bool" where
  "sees c task capacity sent got told inner \<longleftrightarrow>
     si_task_id inner = task \<and> si_capacity inner = capacity \<and> length (si_queue inner) \<le> capacity \<and>
     si_cursor inner = (if got = [] then c else record_cursor (last got)) \<and>
     (\<exists>rest. wanted task sent = got @ si_queue inner @ rest \<and> (si_terminal inner = None \<longrightarrow> rest = [])) \<and>
     si_terminal_delivered inner = told \<and> (told \<longrightarrow> si_terminal inner \<noteq> None \<and> si_queue inner = [])"

lemma sees_broadcast:
  assumes "sees c task capacity sent got told inner"
  shows "sees c task capacity (sent @ [r]) got told (broadcast_one r inner)"
  using assms by (auto simp: sees_def broadcast_one_def)

lemma sees_mark:
  assumes "sees c task capacity sent got told inner"
  shows "sees c task capacity sent got told (mark_one reason inner)"
  using assms by (auto simp: sees_def mark_one_def get_or_insert_def split: option.splits)

lemma sees_receive:
  assumes "sees c task capacity sent got told inner" and "receive_ready inner = (a, inner')"
  obtains r where "a = Inr (Some (Event r))" "\<not> told" "sees c task capacity sent (got @ [r]) told inner'"
  | reason where "a = Inr (Some (ResyncRequired reason))" "\<not> told" "sees c task capacity sent got True inner'"
  | "a = Inl Disconnected" "told" "inner' = inner"
  | "a = Inr None" "\<not> told" "inner' = inner"
  using assms by (auto simp: sees_def receive_ready_def split: list.splits option.splits if_splits)

text \<open>The answers of one subscription: events, then one notice, then nothing but \<open>Disconnected\<close>.\<close>

fun well_told :: "bool \<Rightarrow> (WatchReceiveError + WatchItem option) list \<Rightarrow> bool" where
  "well_told told [] = True"
| "well_told told (a # as) =
     (case a of
        Inl Disconnected \<Rightarrow> told \<and> well_told told as
      | Inr None \<Rightarrow> \<not> told \<and> well_told told as
      | Inr (Some (Event _)) \<Rightarrow> \<not> told \<and> well_told told as
      | Inr (Some (ResyncRequired _)) \<Rightarrow> \<not> told \<and> well_told True as)"

lemma events_simps [simp]:
  "events [] = []" "events (Inr (Some (Event r)) # as) = r # events as"
  "events (Inr (Some (ResyncRequired reason)) # as) = events as"
  "events (Inl d # as) = events as" "events (Inr None # as) = events as"
  by (simp_all add: events_def List.map_filter_simps)

lemma broadcasts_simps [simp]:
  "broadcasts [] = []" "broadcasts (Broadcast r # ops) = r # broadcasts ops"
  "broadcasts (Mark reason # ops) = broadcasts ops" "broadcasts (Install c t n # ops) = broadcasts ops"
  "broadcasts (Receive i # ops) = broadcasts ops" "broadcasts (Drop i # ops) = broadcasts ops"
  by (simp_all add: broadcasts_def List.map_filter_simps)

fun watch_run :: "watch_op list \<Rightarrow> repo_state \<Rightarrow> repo_state" where
  "watch_run [] st = st"
| "watch_run (op # ops) st = watch_run ops (watch_step op st)"

lemma watch_sees:
  assumes "subscribed i st inner" and "sees c task capacity sent got told inner" and "Drop i \<notin> set ops"
  shows "\<exists>inner' told'. subscribed i (watch_run ops st) inner' \<and>
    sees c task capacity (sent @ broadcasts ops) (got @ events (answers i ops st)) told' inner' \<and>
    well_told told (answers i ops st)"
  using assms
proof (induction ops arbitrary: st inner sent got told)
  case (Cons op ops)
  have sub: "subscribed i (watch_step op st) (apply_op i op inner)"
    using subscribed_step [OF Cons.prems(1)] Cons.prems(3) by auto
  note IH = Cons.IH [OF sub]
  show ?case
  proof (cases "\<exists>j. op = Receive j \<and> j = i")
    case False
    then have s: "sees c task capacity (sent @ broadcasts [op]) got told (apply_op i op inner)"
      using Cons.prems(2)
      by (cases op) (auto simp: apply_op_def sees_broadcast sees_mark)
    have b: "sent @ broadcasts (op # ops) = (sent @ broadcasts [op]) @ broadcasts ops"
      by (cases op) simp_all
    have a: "answers i (op # ops) st = answers i ops (watch_step op st)"
      using False by (cases op) simp_all
    show ?thesis
      unfolding a b watch_run.simps using IH [OF s] Cons.prems(3) by simp
  next
    case True
    obtain a inner' where r: "receive_ready inner = (a, inner')" by fastforce
    have a: "answers i (op # ops) st = a # answers i ops (watch_step op st)"
      using True r Cons.prems(1) by (auto simp: try_recv_def subscribed_def)
    have i: "apply_op i op inner = inner'" using True r by (auto simp: apply_op_def)
    have b: "broadcasts (op # ops) = broadcasts ops" using True by auto
    show ?thesis
      using Cons.prems(2) r
    proof (cases rule: sees_receive)
      case (1 r)
      with IH [unfolded i, OF 1(3)] Cons.prems(3) show ?thesis unfolding a b watch_run.simps by simp
    next
      case (2 reason)
      with IH [unfolded i, OF 2(3)] Cons.prems(3) show ?thesis unfolding a b watch_run.simps by simp
    next
      case 3
      with IH [unfolded i, of sent got told] Cons.prems(2,3) show ?thesis unfolding a b watch_run.simps by simp
    next
      case 4
      with IH [unfolded i, of sent got told] Cons.prems(2,3) show ?thesis unfolding a b watch_run.simps by simp
    qed
  qed
qed auto

section \<open>Read-only calls\<close>

text \<open>A call that leaves the files as they are and the hub in order, with a fact about its answer.\<close>

definition reads :: "task_files \<Rightarrow> 'a rm \<Rightarrow> ('a \<Rightarrow> bool) \<Rightarrow> bool" where
  "reads f m Q \<longleftrightarrow> triple (\<lambda>st. disk_files st = f \<and> hub_ok st) m
     (\<lambda>x st. disk_files st = f \<and> hub_ok st \<and> Q x) (\<lambda>st. disk_files st = f \<and> hub_ok st)"

lemma reads_return: "Q x \<Longrightarrow> reads f (pm_return x) Q"
  unfolding reads_def by (rule triple_return) simp

lemma reads_fail: "reads f (pm_fail e) Q"
  unfolding reads_def by (rule triple_fail) simp

lemma reads_lift: "(\<And>x. r = Done x \<Longrightarrow> Q x) \<Longrightarrow> reads f (pm_lift r) Q"
  unfolding reads_def by (rule triple_lift) auto

lemma reads_bind: "reads f m Q \<Longrightarrow> (\<And>x. Q x \<Longrightarrow> reads f (g x) S) \<Longrightarrow> reads f (pm_bind m g) S"
  unfolding reads_def triple_def by (blast intro: ends_bind)

lemma reads_try: "reads f m Q \<Longrightarrow> reads f (pm_try m) (\<lambda>r. case r of Inr x \<Rightarrow> Q x | Inl _ \<Rightarrow> True)"
  unfolding reads_def
  by (rule triple_conseq, rule triple_try, assumption) (auto split: sum.splits)

lemma reads_if: "(b \<Longrightarrow> reads f m Q) \<Longrightarrow> (\<not> b \<Longrightarrow> reads f m' Q) \<Longrightarrow> reads f (if b then m else m') Q"
  by simp

lemma reads_weaken: "reads f m Q \<Longrightarrow> (\<And>x. Q x \<Longrightarrow> Q' x) \<Longrightarrow> reads f m Q'"
  unfolding reads_def by (rule triple_post, assumption) auto

lemma reads_on_disk:
  assumes "ftriple f m (\<lambda>x f'. f' = f \<and> Q x) (\<lambda>f'. f' = f)"
  shows "reads f (on_disk m) Q"
  unfolding reads_def triple_def
proof (intro allI impI)
  fix st
  assume st: "disk_files st = f \<and> hub_ok st"
  obtain r d where run: "m (rp_disk st) = (r, d)" by fastforce
  have "ends (\<lambda>x st. files (ps_dir st) = f \<and> Q x) (\<lambda>st. files (ps_dir st) = f) (m (rp_disk st))"
    using assms st unfolding ftriple_def triple_def disk_files_def by blast
  then show "ends (\<lambda>x st. disk_files st = f \<and> hub_ok st \<and> Q x) (\<lambda>st. disk_files st = f \<and> hub_ok st) (on_disk m st)"
    using st unfolding on_disk_def run by (cases r) (simp_all add: disk_files_def hub_ok_def)
qed

lemma reads_keeps: "keeps_dir m \<Longrightarrow> reads f (on_disk m) (\<lambda>_. True)"
  by (rule reads_on_disk, rule ftriple_keeps) simp_all

lemma hub_ok_visit: "hub_ok st \<Longrightarrow> hub_ok (snd (visit_hub h st))"
  using hub_retain_distinct [of "rp_hub st" h "rp_subs st"] hub_retain_subset [of h "rp_hub st" "rp_subs st"]
  by (auto simp: hub_ok_def visit_hub_def split: prod.splits)

lemma reads_visit: "reads f (visit_hub h) (\<lambda>_. True)"
proof -
  have "fst (visit_hub h st) = Done ()" "disk_files (snd (visit_hub h st)) = disk_files st" for st
    by (simp_all add: visit_hub_def disk_files_def split: prod.splits)
  then show ?thesis
    unfolding reads_def triple_def
    by (intro allI impI, subst prod.collapse [symmetric]) (simp add: hub_ok_visit)
qed

lemma reads_marks: "reads f (mark_all reason) (\<lambda>_. True)" "reads f (mark_load_error e) (\<lambda>_. True)"
  by (simp_all add: mark_all_def mark_load_error_def reads_visit)

lemma reads_effects: "reads f (mark_load_effects effects c) (\<lambda>_. True)"
  using reads_visit [of f] unfolding reads_def triple_def mark_load_effects_def mark_all_def
  by (simp add: Let_def disk_files_def hub_ok_def)

lemma reads_or_mark: "reads f m Q \<Longrightarrow> reads f (or_mark_load_error m) Q"
  unfolding or_mark_load_error_def
  by (rule reads_bind [OF reads_try], assumption)
    (auto split: sum.splits intro!: reads_return reads_bind [OF reads_marks(2)] reads_fail)

lemma no_intent_torn: "disk_at E f rs \<Longrightarrow> tf_recovery f = None \<Longrightarrow> \<exists>sfx. journal_at E f rs sfx"
  by (auto simp: disk_at_def torn_def recovering_def recovered_def)

lemma load_locked_read_only_spec:
  assumes env: "record_codec E" and os: "honest os" and disk: "disk_at E f rs"
  shows "ftriple f (load_locked_read_only E os root)
    (\<lambda>ls f'. f' = f \<and> ls_records ls = rs \<and> reconstruct_store E rs = Done (ls_store ls)) (\<lambda>f'. f' = f)"
proof -
  have records: "pj_records parsed = rs"
    if parsed: "parse_journal E (case tf_journal f of None \<Rightarrow> [] | Some c \<Rightarrow> c) = Inr parsed"
      and none: "tf_recovery f = None" for parsed
  proof -
    obtain sfx where "journal_at E f rs sfx" using no_intent_torn [OF disk none] by blast
    then show ?thesis by (rule journal_at_unique [OF env _ parsed]) simp
  qed
  have no_intent: "tf_recovery f = None"
    if "case tf_recovery f of None \<Rightarrow> recovery = None | Some b \<Rightarrow> \<exists>i. recovery = Some i \<and> parse_intent E b = Some i"
      "\<not> (recovery \<noteq> None \<or> sfx \<noteq> [])" for recovery :: "RecoveryIntent option" and sfx :: bytes
    using that by (auto split: option.splits)
  show ?thesis
    unfolding load_locked_read_only_def
    apply (rule ftriple_bind [OF read_locked_spec [OF os]])
    apply (simp only: split_paired_all prod.case)
    apply (elim conjE, hypsubst)
    apply (rule ftriple_if, rule ftriple_fail, rule refl)
    apply (rule ftriple_check, rule refl)
    apply (rule ftriple_return)
    apply (drule (1) no_intent, drule (1) records)
    apply simp
    done
qed

text \<open>What a page request without a lock file, or with one, answers.\<close>

lemma load_without_lock_reads:
  assumes "honest os" and "disk_at E f rs"
  shows "reads f (on_disk (load_without_lock E os root)) (\<lambda>_. rs = [])"
  by (rule reads_on_disk, rule ftriple_conseq [OF load_without_lock_spec [OF assms(1)]])
    (use no_journal_records [OF assms(2)] in auto)

lemma read_only_reads:
  assumes "record_codec E" and "honest os" and "disk_at E f rs"
  shows "reads f (or_mark_load_error (on_disk (load_locked_read_only E os root))) (\<lambda>ls. ls_records ls = rs)"
  by (rule reads_or_mark, rule reads_on_disk, rule ftriple_conseq [OF load_locked_read_only_spec [OF assms]]) auto

lemma open_lock_reads: "reads f (on_disk (open_lock os root False)) (\<lambda>_. True)"
  by (rule reads_on_disk, rule ftriple_conseq [OF open_lock_existing]) auto

lemma page_events_reads:
  assumes "record_codec E" and "honest os" and "disk_at E f rs"
  shows "reads f (page_events E os root q) (\<lambda>page. page_records rs q = Inr page \<and> validate_page_request q = Inr ())"
  unfolding page_events_def
  apply (rule reads_bind [OF reads_lift [where Q = "\<lambda>_. validate_page_request q = Inr ()"]])
   apply (simp add: res_simps)
  apply (rule reads_bind [OF reads_keeps [OF keeps_checks(2)]])
  apply (rule reads_bind [OF open_lock_reads])
  apply (rule reads_if)
   apply (rule reads_bind [OF load_without_lock_reads [OF assms(2,3)]])
   apply (rule reads_lift, simp add: res_simps)
  apply (rule reads_bind [OF reads_keeps [OF keeps_lock_exclusive]])
  apply (rule reads_bind [OF read_only_reads [OF assms]])
  apply (rule reads_bind [OF reads_effects])
  apply (rule reads_lift, simp add: res_simps)
  done

text \<open>The page of a subscription request, and the subscription itself.\<close>

definition subscription_page ::
  "task_env \<Rightarrow> task_os \<Rightarrow> RootHandle \<Rightarrow> SubscriptionRequest \<Rightarrow> EventPage rm" where
  "subscription_page E os root q =
     pm_bind (pm_lift (tres_of (validate_subscription_request q))) (\<lambda>_.
     pm_bind (on_disk (validate_binding os root)) (\<lambda>_.
     pm_bind (on_disk (open_lock os root False)) (\<lambda>locked.
     pm_bind (if locked then on_disk (lock_exclusive os) else pm_return ()) (\<lambda>_.
     pm_bind
       (if locked
        then pm_bind (or_mark_load_error (on_disk (load_locked_read_only E os root))) (\<lambda>state.
          pm_return (ls_records state, ls_effects state))
        else pm_bind (on_disk (load_without_lock E os root)) (\<lambda>_.
          pm_return ([], \<lparr>le_replayed = False, le_recovered = False\<rparr>))) (\<lambda>(records, effects).
     pm_bind (mark_load_effects effects
       (if records = [] then genesis else record_cursor (last records))) (\<lambda>_.
     pm_lift (tres_of (page_records records (sub_page q)))))))))"

lemma pm_bind_assoc: "pm_bind (pm_bind m f) g = pm_bind m (\<lambda>x. pm_bind (f x) g)"
  by (auto simp: pm_bind_def fun_eq_iff split: prod.splits tres.splits)

lemma page_and_subscribe_split:
  "page_and_subscribe E os root q =
     pm_bind (subscription_page E os root q) (\<lambda>page.
     if page_reached_head page
     then pm_bind (install (page_continuation page) (pg_task_id (sub_page q)) (unat (sub_capacity q)))
            (\<lambda>i. pm_return (page, Some i))
     else pm_return (page, None))"
  unfolding page_and_subscribe_def subscription_page_def pm_bind_assoc
  by (simp add: split_def pm_bind_assoc)

lemma subscription_page_reads:
  assumes "record_codec E" and "honest os" and "disk_at E f rs"
  shows "reads f (subscription_page E os root q)
    (\<lambda>page. page_records rs (sub_page q) = Inr page \<and> validate_subscription_request q = Inr ())"
proof -
  have records: "reads f (if locked
        then pm_bind (or_mark_load_error (on_disk (load_locked_read_only E os root))) (\<lambda>state.
          pm_return (ls_records state, ls_effects state))
        else pm_bind (on_disk (load_without_lock E os root)) (\<lambda>_.
          pm_return ([], \<lparr>le_replayed = False, le_recovered = False\<rparr>))) (\<lambda>(records, _). records = rs)" for locked
    by (rule reads_if, rule reads_bind [OF read_only_reads [OF assms]], rule reads_return, simp,
      rule reads_bind [OF load_without_lock_reads [OF assms(2,3)]], rule reads_return, simp)
  show ?thesis
    unfolding subscription_page_def
    apply (rule reads_bind [OF reads_lift [where Q = "\<lambda>_. validate_subscription_request q = Inr ()"]])
     apply (simp add: res_simps)
    apply (rule reads_bind [OF reads_keeps [OF keeps_checks(2)]])
    apply (rule reads_bind [OF open_lock_reads])
    apply (rule reads_bind [OF reads_if [where Q = "\<lambda>_. True"]])
      apply (rule reads_keeps [OF keeps_lock_exclusive])
     apply (rule reads_return, simp)
    apply (rule reads_bind [OF records])
    apply (simp only: split_paired_all prod.case)
    apply (rule reads_bind [OF reads_effects])
    apply (rule reads_lift, simp add: res_simps)
    done
qed

lemma page_and_subscribe_run:
  assumes "record_codec E" and "honest os" and "disk_at E (disk_files st) rs" and "hub_ok st"
    and "page_and_subscribe E os root q st = (Done (page, subscription), st')"
  shows "page_records rs (sub_page q) = Inr page \<and> validate_subscription_request q = Inr () \<and>
    disk_files st' = disk_files st \<and> (subscription = None \<longleftrightarrow> \<not> page_reached_head page) \<and>
    (\<forall>i. subscription = Some i \<longrightarrow> subscribed i st'
       \<lparr>si_cursor = page_continuation page, si_task_id = pg_task_id (sub_page q),
        si_capacity = unat (sub_capacity q), si_queue = [], si_terminal = None,
        si_terminal_delivered = False, si_alive = True\<rparr>)"
proof -
  obtain r st1 where run: "subscription_page E os root q st = (r, st1)" by fastforce
  from triple_run [OF subscription_page_reads [OF assms(1-3), unfolded reads_def, of root q] _ this] assms(4)
  have "(\<exists>p. r = Done p \<and> disk_files st1 = disk_files st \<and> hub_ok st1 \<and>
      page_records rs (sub_page q) = Inr p \<and> validate_subscription_request q = Inr ()) \<or> (\<forall>p. r \<noteq> Done p)"
    by auto
  then show ?thesis
    using assms(5) run
    by (cases r) (auto simp: page_and_subscribe_split pm_bind_def pm_return_def install_def disk_files_def
      subscribed_def hub_ok_def less_Suc_eq split: if_splits)
qed

end
