(* ===== verification/Task_History.thy ===== *)
theory Task_History
  imports Task_Watch
begin

text \<open>
  Histories of the Task Service. A history is a sequence of calls on one directory by any number
  of processes, under any behaviour of the operating system and with any injected fault: calls
  that return, calls whose answer nobody sees because the process stops, and calls that panic. A
  process that stops inside a call is a call in which every later system call fails. The lock file
  makes the calls follow each other.
\<close>

section \<open>What the journal keeps\<close>

lemma reconstruct_step_receipts:
  assumes "reconstruct_step E s r = Done s'" and "bt_get (ts_receipts s) k = Some x"
  shows "bt_get (ts_receipts s') k = Some x"
  using assms
  by (auto simp: reconstruct_step_def res_simps bt_get_insert split: JournalEvent.splits if_splits)

lemma reconstruct_from_receipts:
  "reconstruct_from E s rs = Done s' \<Longrightarrow> bt_get (ts_receipts s) k = Some x \<Longrightarrow> bt_get (ts_receipts s') k = Some x"
  by (induction rs arbitrary: s) (auto simp: res_simps dest: reconstruct_step_receipts)

lemma plan_keeps_terminal:
  assumes "plan_transition s e = Done p" and "task_get (ts_tasks s) t n = Some r" and "is_terminal (task_phase r)"
  shows "task_get (plan_tasks p) t n = Some r"
proof -
  obtain r' where r': "plan_replaces (ts_tasks s) p r'"
    using plan_replaces_one [OF assms(1)] by blast
  then have "\<not> (t = plan_task_id p \<and> n = plan_task_revision p)"
    using plan_prior_live [OF assms(1)] assms(2,3)
    by (auto simp: plan_replaces_def split: option.splits)
  with r' assms(2) show ?thesis
    by (auto simp: plan_replaces_def table_simps)
qed

lemma reconstruct_step_terminal:
  assumes "reconstruct_step E s r = Done s'" and "task_get (ts_tasks s) t n = Some x" and "is_terminal (task_phase x)"
  shows "task_get (ts_tasks s') t n = Some x"
  using assms
  by (auto simp: reconstruct_step_def res_simps split: JournalEvent.splits if_splits intro: plan_keeps_terminal)

lemma reconstruct_from_terminal:
  "reconstruct_from E s rs = Done s' \<Longrightarrow> task_get (ts_tasks s) t n = Some x \<Longrightarrow> is_terminal (task_phase x) \<Longrightarrow>
     task_get (ts_tasks s') t n = Some x"
  by (induction rs arbitrary: s) (auto simp: res_simps dest: reconstruct_step_terminal)

lemma reconstruct_append_from:
  assumes "reconstruct_store E (rs @ ts) = Done s'" and "reconstruct_store E rs = Done s"
  shows "reconstruct_from E s ts = Done s'"
  using assms by (simp add: reconstruct_store_def reconstruct_append)

text \<open>The receipts of the transition records, in journal order, are distinct.\<close>

definition journal_receipts :: "JournalRecord list \<Rightarrow> id list" where
  "journal_receipts rs = List.map_filter (\<lambda>r. case jr_event r of
     Transition t \<Rightarrow> Some (env_receipt_id (te_envelope t)) | SystemJournalTailRecovered _ \<Rightarrow> None) rs"

lemma journal_receipts_snoc:
  "journal_receipts (rs @ [r]) = journal_receipts rs @
     (case jr_event r of Transition t \<Rightarrow> [env_receipt_id (te_envelope t)] | SystemJournalTailRecovered _ \<Rightarrow> [])"
  by (simp add: journal_receipts_def List.map_filter_def split: JournalEvent.splits)

lemma journal_receipts_store:
  "reconstruct_store E rs = Done s \<Longrightarrow>
     distinct (journal_receipts rs) \<and> set (journal_receipts rs) = {k. bt_get (ts_receipts s) k \<noteq> None}"
proof (induction rs arbitrary: s rule: rev_induct)
  case Nil
  then show ?case
    by (auto simp: journal_receipts_def List.map_filter_simps reconstruct_store_def empty_store_def)
next
  case (snoc r rs)
  obtain s0 where s0: "reconstruct_store E rs = Done s0" "reconstruct_step E s0 r = Done s"
    using snoc.prems by (auto simp: reconstruct_snoc res_simps)
  show ?case
    using snoc.IH [OF s0(1)] s0(2)
    by (auto simp: journal_receipts_snoc reconstruct_step_def res_simps bt_get_insert
      split: JournalEvent.splits if_splits)
qed

section \<open>The store revision as a fence\<close>

inductive task_step :: "task_env \<Rightarrow> TaskStore \<Rightarrow> TaskStore \<Rightarrow> bool" for E where
  replayed: "reconstruct_step E s r = Done s' \<Longrightarrow> task_step E s s'"

inductive_cases task_stepE: "task_step E s s'"

lemma reconstruct_step_revision:
  assumes "store_inv E s" and "reconstruct_step E s r = Done s'"
  shows "(ts_tasks s', ts_receipts s') = (ts_tasks s, ts_receipts s) \<and> ts_store_revision s' = ts_store_revision s \<or>
    unat (ts_store_revision s) < unat (ts_store_revision s')"
  using assms(2)
  by (auto simp: reconstruct_step_def res_simps checked_next_def word_less_nat_alt [symmetric]
    split: JournalEvent.splits if_splits dest!: json_safe_succ_less)

lemma reconstruct_from_steps: "reconstruct_from E s rs = Done s' \<Longrightarrow> steps (task_step E) s s'"
proof (induction rs arbitrary: s)
  case (Cons r rs)
  then obtain s1 where "reconstruct_step E s r = Done s1" "reconstruct_from E s1 rs = Done s'"
    by (auto simp: res_simps)
  with Cons.IH show ?case
    by (blast intro: steps_trans steps_one task_step.replayed)
qed (auto intro: steps_refl)

interpretation task_runs: fenced_system "\<lambda>s. s = empty_store" "task_step E" "store_inv E"
  "\<lambda>s (_::unit). unat (ts_store_revision s)" "\<lambda>s _. (ts_tasks s, ts_receipts s)" for E
  using store_inv_empty reconstruct_step_revision
  by unfold_locales (blast intro: reconstruct_step_inv elim: task_stepE, blast intro: reconstruct_step_inv elim: task_stepE,
    fastforce elim: task_stepE, fastforce elim: task_stepE)

section \<open>Histories\<close>

inductive history :: "task_env \<Rightarrow> (TransitionEnvelope \<times> TransitionOutcome) list \<Rightarrow> task_files \<Rightarrow> bool"
  for E where
  fresh: "history E [] (files (\<lambda>_. None))"
| answered: "history E h (disk_files st) \<Longrightarrow> honest os \<Longrightarrow>
     transition E os root now e st = (Done outcome, st') \<Longrightarrow> history E (h @ [(e, outcome)]) (disk_files st')"
| unanswered: "history E h (disk_files st) \<Longrightarrow> honest os \<Longrightarrow>
     transition E os root now e st = (r, st') \<Longrightarrow> history E h (disk_files st')"
| loaded: "history E h (disk_files st) \<Longrightarrow> honest os \<Longrightarrow>
     load E os root st = (r', st') \<Longrightarrow> history E h (disk_files st')"

definition kept :: "task_env \<Rightarrow> (TransitionEnvelope \<times> TransitionOutcome) list \<Rightarrow> JournalRecord list \<Rightarrow> bool" where
  "kept E h rs \<longleftrightarrow> (\<forall>e response. (e, Committed response) \<in> set h \<longrightarrow> receipt_of E rs e response)"

lemma receipt_of_append:
  assumes "receipt_of E rs e response" and "reconstruct_store E (rs @ ts) = Done s"
  shows "receipt_of E (rs @ ts) e response"
proof -
  obtain s0 x where s0: "reconstruct_store E rs = Done s0" "bt_get (ts_receipts s0) (env_receipt_id e) = Some x"
      "rec_response x = response" "rec_request_digest_sha256 x = env_request_digest_sha256 e"
    using assms(1) by (auto simp: receipt_of_def)
  have "bt_get (ts_receipts s) (env_receipt_id e) = Some x"
    by (rule reconstruct_from_receipts [OF reconstruct_append_from [OF assms(2) s0(1)] s0(2)])
  with assms(2) s0 show ?thesis by (auto simp: receipt_of_def)
qed

lemma disk_at_store: "disk_at E f rs \<Longrightarrow> \<exists>s. reconstruct_store E rs = Done s"
  by (simp add: disk_at_def disk_base_def)

lemma kept_append: "kept E h rs \<Longrightarrow> disk_at E f (rs @ ts) \<Longrightarrow> kept E h (rs @ ts)"
  unfolding kept_def using disk_at_store receipt_of_append by blast

lemma system_ext_append: "system_ext rs rs' \<Longrightarrow> \<exists>ts. rs' = rs @ ts"
  by (auto simp: system_ext_def)

lemma transition_ext_append: "transition_ext e rs rs' \<Longrightarrow> \<exists>ts. rs' = rs @ ts"
  by (auto simp: transition_ext_def)

lemma transition_result_kept:
  assumes "transition_result E e rs outcome f" and "kept E h rs"
  shows "\<exists>rs'. disk_at E f rs' \<and> kept E (h @ [(e, outcome)]) rs'"
proof -
  obtain rs1 rs2 where r: "system_ext rs rs1" "transition_ext e rs1 rs2" "disk_at E f rs2"
      "\<forall>response. outcome = Committed response \<longrightarrow> receipt_of E rs2 e response"
    using assms(1) by (auto simp: transition_result_def transition_done_def)
  obtain ts where ts: "rs2 = rs @ ts"
    using system_ext_append [OF r(1)] transition_ext_append [OF r(2)] by auto
  have "kept E h rs2"
    using kept_append [OF assms(2)] r(3) unfolding ts by blast
  with r(3,4) show ?thesis
    by (intro exI [of _ rs2]) (auto simp: kept_def)
qed

lemma disk_from_kept: "disk_from E rs f \<Longrightarrow> kept E h rs \<Longrightarrow> \<exists>rs'. disk_at E f rs' \<and> kept E h rs'"
  unfolding disk_from_def using system_ext_append kept_append by metis

lemma disk_at_fresh: "disk_at E (files (\<lambda>_. None)) []"
  by (auto simp: disk_at_def disk_base_def snapshot_at_def torn_def journal_at_def files_def
    reconstruct_store_def)

lemma rtriple_run:
  assumes "rtriple (disk_files st) m Q C" and "m st = (r, st')"
  shows "(\<exists>x. r = Done x \<and> Q x (disk_files st')) \<or> ((\<forall>x. r \<noteq> Done x) \<and> C (disk_files st'))"
  using triple_run [OF assms(1) [unfolded rtriple_def] refl assms(2)] .

lemma history_disk:
  assumes "task_env_ok E" and "history E h f"
  shows "\<exists>rs. disk_at E f rs \<and> kept E h rs"
  using assms(2)
proof (induction rule: history.induct)
  case fresh
  show ?case using disk_at_fresh by (intro exI [of _ "[]"]) (simp add: kept_def)
next
  case (answered h st os root now e outcome st')
  then obtain rs where rs: "disk_at E (disk_files st) rs" "kept E h rs" by blast
  show ?case
    using rtriple_run [OF transition_spec [OF assms(1) answered(2) rs(1)] answered(3)]
      transition_result_kept [OF _ rs(2)] by blast
next
  case (unanswered h st os root now e r st')
  then obtain rs where rs: "disk_at E (disk_files st) rs" "kept E h rs" by blast
  have less: "kept E h rs'" if "kept E (h @ [(e, outcome)]) rs'" for rs' outcome
    using that by (auto simp: kept_def)
  show ?case
    using rtriple_run [OF transition_spec [OF assms(1) unanswered(2) rs(1)] unanswered(3)]
      transition_result_kept [OF _ rs(2)] disk_from_kept [OF _ rs(2)] less by blast
next
  case (loaded h st os root r' st')
  then obtain rs where rs: "disk_at E (disk_files st) rs" "kept E h rs" by blast
  have clean: "disk_from E rs f'" if "system_ext rs rs'" "clean E f' rs'" for rs' f'
    using that by (blast intro: disk_fromI clean_disk_at)
  show ?case
    using rtriple_run [OF load_spec [OF assms(1) loaded(2) rs(1)] loaded(3)] disk_from_kept [OF _ rs(2)] clean
    by blast
qed

end
