(* ===== verification/Task_Liveness.thy ===== *)
theory Task_Liveness
  imports Task_History
begin

text \<open>
  Progress of the Task Service: on a machine that works, every state a crash may have left behind
  is loaded again. \<open>runs os f m Q\<close> is total correctness: started on the files \<open>f\<close>, with no fault
  pending and no leftover under a name that a temporary file may get, \<open>m\<close> succeeds and ends in
  \<open>Q\<close>. Together with the specifications of \<open>Task_Disk\<close> and \<open>Task_Recovery\<close>, which say what a
  success means, only the success itself has to be shown here.
\<close>

section \<open>Total correctness\<close>

definition healthy :: "task_os \<Rightarrow> RootHandle \<Rightarrow> bool" where
  "healthy os root \<longleftrightarrow> (\<forall>n. let a = os_answers os n in
     os_error a = None \<and>
     md_is_dir (os_root_meta a) \<and> md_uid (os_root_meta a) = geteuid os \<and>
     and (md_mode (os_root_meta a)) 0xFFF = 0x1C0 \<and>
     md_dev (os_root_meta a) = root_device root \<and> md_ino (os_root_meta a) = root_inode root \<and>
     md_is_file (os_file_meta a) \<and> md_uid (os_file_meta a) = geteuid os \<and>
     and (md_mode (os_file_meta a)) 0xFFF = 0x180 \<and>
     CHR 0x00 \<notin> set (os_unique os n))"

lemma healthy_honest: "healthy os root \<Longrightarrow> honest os"
  by (simp add: healthy_def honest_def Let_def)

definition calm :: "task_os \<Rightarrow> persist_state \<Rightarrow> bool" where
  "calm os st \<longleftrightarrow> ps_fault st = None \<and> (\<forall>n. ps_dir st (temp_name os n) = None)"

lemma calm_tick [simp]: "calm os (st\<lparr>ps_tick := k\<rparr>) = calm os st"
  by (simp add: calm_def)

definition runs :: "task_os \<Rightarrow> task_files \<Rightarrow> 'a pm \<Rightarrow> ('a \<Rightarrow> task_files \<Rightarrow> bool) \<Rightarrow> bool" where
  "runs os f m Q \<longleftrightarrow> triple (\<lambda>st. calm os st \<and> files (ps_dir st) = f) m
     (\<lambda>x st. calm os st \<and> Q x (files (ps_dir st))) (\<lambda>_. False)"

lemma runs_return: "Q x f \<Longrightarrow> runs os f (pm_return x) Q"
  unfolding runs_def by (rule triple_return) simp

lemma runs_lift: "r = Done x \<Longrightarrow> Q x f \<Longrightarrow> runs os f (pm_lift r) Q"
  by (simp add: runs_def triple_def pm_lift_def)

lemma runs_bind:
  "runs os f m Q \<Longrightarrow> (\<And>x f'. Q x f' \<Longrightarrow> runs os f' (g x) S) \<Longrightarrow> runs os f (pm_bind m g) S"
  unfolding runs_def triple_def by (blast intro: ends_bind)

lemma runs_lift_bind: "r = Done x \<Longrightarrow> runs os f (g x) Q \<Longrightarrow> runs os f (pm_bind (pm_lift r) g) Q"
  by (simp add: runs_def triple_def pm_bind_def pm_lift_def)

lemma runs_if: "(b \<Longrightarrow> runs os f m Q) \<Longrightarrow> (\<not> b \<Longrightarrow> runs os f m' Q) \<Longrightarrow> runs os f (if b then m else m') Q"
  by simp

lemma runs_post: "runs os f m Q \<Longrightarrow> (\<And>x f'. Q x f' \<Longrightarrow> Q' x f') \<Longrightarrow> runs os f m Q'"
  unfolding runs_def by (rule triple_post, assumption) auto

text \<open>A run that succeeds, and what a success means.\<close>

lemma runs_and:
  assumes "runs os f m P" and "ftriple f m Q C"
  shows "runs os f m (\<lambda>x f'. P x f' \<and> Q x f')"
  unfolding runs_def triple_def
proof (intro allI impI)
  fix st
  assume st: "calm os st \<and> files (ps_dir st) = f"
  have "ends (\<lambda>x st. calm os st \<and> P x (files (ps_dir st))) (\<lambda>_. False) (m st)"
    using assms(1) st by (simp add: runs_def triple_def)
  moreover have "ends (\<lambda>x st. Q x (files (ps_dir st))) (\<lambda>st. C (files (ps_dir st))) (m st)"
    using assms(2) st by (simp add: ftriple_def triple_def)
  ultimately show "ends (\<lambda>x st. calm os st \<and> P x (files (ps_dir st)) \<and> Q x (files (ps_dir st))) (\<lambda>_. False) (m st)"
    by (cases "m st") (auto elim: ends.elims)
qed

lemma runs_spec:
  assumes "runs os f m (\<lambda>_ _. True)" and "ftriple f m Q C"
  shows "runs os f m Q"
  using runs_and [OF assms] by simp

lemma runs_spec_bind:
  assumes "runs os f m (\<lambda>_ _. True)" and "ftriple f m Q C" and "\<And>x f'. Q x f' \<Longrightarrow> runs os f' (g x) S"
  shows "runs os f (pm_bind m g) S"
  by (rule runs_bind [OF runs_spec [OF assms(1,2)] assms(3)])

lemma runs_quiet:
  assumes "\<And>st. calm os st \<Longrightarrow> \<exists>k. m st = (Done x, st\<lparr>ps_tick := k\<rparr>)" and "Q x f"
  shows "runs os f m Q"
  unfolding runs_def triple_def
proof (intro allI impI)
  fix st
  assume st: "calm os st \<and> files (ps_dir st) = f"
  then obtain k where "m st = (Done x, st\<lparr>ps_tick := k\<rparr>)" using assms(1) by blast
  with st assms(2) show "ends (\<lambda>x st. calm os st \<and> Q x (files (ps_dir st))) (\<lambda>_. False) (m st)"
    by simp
qed

lemma runs_quiet_bind:
  assumes "\<And>st. calm os st \<Longrightarrow> \<exists>k. m st = (Done x, st\<lparr>ps_tick := k\<rparr>)" and "runs os f (g x) Q"
  shows "runs os f (pm_bind m g) Q"
  by (rule runs_bind [OF runs_quiet [where Q = "\<lambda>y f'. y = x \<and> f' = f"]]) (use assms in auto)

section \<open>File operations on a healthy machine\<close>

lemma healthy_answer:
  assumes "healthy os root"
  shows "os_error (os_answers os n) = None" "md_is_dir (os_root_meta (os_answers os n))"
    "md_uid (os_root_meta (os_answers os n)) = geteuid os"
    "and (md_mode (os_root_meta (os_answers os n))) 0xFFF = 0x1C0"
    "md_dev (os_root_meta (os_answers os n)) = root_device root"
    "md_ino (os_root_meta (os_answers os n)) = root_inode root"
    "md_is_file (os_file_meta (os_answers os n))" "md_uid (os_file_meta (os_answers os n)) = geteuid os"
    "and (md_mode (os_file_meta (os_answers os n))) 0xFFF = 0x180" "CHR 0x00 \<notin> set (os_unique os n)"
  using assms by (simp_all add: healthy_def Let_def)

lemmas pm_exec = sys_or_def sys_def pm_bind_def pm_dir_def pm_set_def pm_fail_def pm_return_def pm_try_def
  pm_map_err_def

lemma quiet_checks:
  assumes "healthy os root"
  shows "\<exists>k. validate_binding os root st = (Done (), st\<lparr>ps_tick := k\<rparr>)"
    "\<exists>k. validate_private_file os st = (Done (), st\<lparr>ps_tick := k\<rparr>)"
    "\<exists>k. sync_all os err st = (Done (), st\<lparr>ps_tick := k\<rparr>)"
    "\<exists>k. sync_root os root st = (Done (), st\<lparr>ps_tick := k\<rparr>)"
    "\<exists>k. lock_exclusive os st = (Done (), st\<lparr>ps_tick := k\<rparr>)"
    "\<exists>k. sys_or os err (\<lambda>_. pm_return ()) st = (Done (), st\<lparr>ps_tick := k\<rparr>)"
  by (auto simp: validate_binding_def open_validated_root_def validate_private_file_def sync_all_def sync_root_def
    lock_exclusive_def pm_exec healthy_answer [OF assms])

lemma quiet_faults:
  assumes "calm os st"
  shows "\<exists>k. hit p st = (Done False, st\<lparr>ps_tick := k\<rparr>)" "\<exists>k. hit_opt q st = (Done False, st\<lparr>ps_tick := k\<rparr>)"
    "\<exists>k. stop_if_hit p phase st = (Done (), st\<lparr>ps_tick := k\<rparr>)"
proof -
  have "hit p st = (Done False, st)" for p using assms by (simp add: hit_def calm_def)
  moreover have "st = st\<lparr>ps_tick := ps_tick st\<rparr>" by simp
  ultimately show "\<exists>k. hit p st = (Done False, st\<lparr>ps_tick := k\<rparr>)" "\<exists>k. hit_opt q st = (Done False, st\<lparr>ps_tick := k\<rparr>)"
    "\<exists>k. stop_if_hit p phase st = (Done (), st\<lparr>ps_tick := k\<rparr>)"
    by (auto simp: hit_opt_def stop_if_hit_def pm_bind_def pm_return_def split: option.splits intro: exI [of _ "ps_tick st"])
qed

lemmas runs_check_bind = runs_quiet_bind [OF quiet_checks(1)] runs_quiet_bind [OF quiet_checks(2)]
  runs_quiet_bind [OF quiet_checks(3)] runs_quiet_bind [OF quiet_checks(4)] runs_quiet_bind [OF quiet_checks(5)]
lemmas runs_check = runs_quiet [OF quiet_checks(1)] runs_quiet [OF quiet_checks(2)]
  runs_quiet [OF quiet_checks(3)] runs_quiet [OF quiet_checks(4)] runs_quiet [OF quiet_checks(5)]
  runs_quiet [OF quiet_checks(6)]
lemmas runs_fault_bind = runs_quiet_bind [OF quiet_faults(1)] runs_quiet_bind [OF quiet_faults(2)]
  runs_quiet_bind [OF quiet_faults(3)]
lemmas runs_fault = runs_quiet [OF quiet_faults(3)]

text \<open>Updates of a file of the service keep the directory calm.\<close>

lemma calm_update:
  "calm os st \<Longrightarrow> c = None \<or> (\<forall>n. temp_name os n \<noteq> name) \<Longrightarrow> calm os (st\<lparr>ps_dir := (ps_dir st)(name := c)\<rparr>)"
  by (auto simp: calm_def)

lemma quiet_open_existing:
  assumes "healthy os root" and "CHR 0x00 \<notin> set name"
  shows "\<exists>k. pm_try (open_child os name False False stage) st =
    (Done (if ps_dir st name = None then Inl (Io stage NotFound) else Inr ()), st\<lparr>ps_tick := k\<rparr>)"
  using assms(2) by (auto simp: open_child_def pm_exec healthy_answer [OF assms(1)] split: option.splits)

lemma runs_read_private:
  assumes h: "healthy os root" and name: "CHR 0x00 \<notin> set name"
  shows "runs os f (read_private os root name s s') (\<lambda>_ _. True)"
  unfolding runs_def triple_def
proof (intro allI impI)
  fix st
  assume st: "calm os st \<and> files (ps_dir st) = f"
  obtain k where k: "validate_binding os root st = (Done (), st\<lparr>ps_tick := k\<rparr>)"
    using quiet_checks(1) [OF h] by blast
  obtain j where j: "pm_try (open_child os name False False s) (st\<lparr>ps_tick := k\<rparr>) =
      (Done (if ps_dir st name = None then Inl (Io s NotFound) else Inr ()), st\<lparr>ps_tick := j\<rparr>)"
    using quiet_open_existing [OF h name, of s "st\<lparr>ps_tick := k\<rparr>"] by auto
  obtain i where i: "validate_private_file os (st\<lparr>ps_tick := j\<rparr>) = (Done (), st\<lparr>ps_tick := i\<rparr>)"
    using quiet_checks(2) [OF h, of "st\<lparr>ps_tick := j\<rparr>"] by auto
  show "ends (\<lambda>x st. calm os st \<and> True) (\<lambda>_. False) (read_private os root name s s' st)"
    unfolding read_private_def pm_bind_def [of "validate_binding os root"] k prod.case tres.case
      pm_bind_def [of "pm_try _"] j
    using st i by (auto simp: pm_bind_def is_not_found_def pm_return_def read_to_end_def pm_exec healthy_answer [OF h])
qed

text \<open>Replacing a file: the temporary file is created, written and renamed.\<close>

lemma runs_direct:
  assumes "\<And>st. calm os st \<Longrightarrow> files (ps_dir st) = f \<Longrightarrow> \<exists>x st'. m st = (Done x, st') \<and> calm os st'"
  shows "runs os f m (\<lambda>_ _. True)"
  unfolding runs_def triple_def using assms by fastforce

lemma runs_replace:
  assumes h: "healthy os root" and target: "CHR 0x00 \<notin> set target" "\<forall>n. temp_name os n \<noteq> target"
  shows "runs os f (atomic_replace_without_root_sync_with_faults os root target bs b a stage) (\<lambda>_ _. True)"
proof (rule runs_direct)
  fix st
  assume calm: "calm os st"
  have t: "CHR 0x00 \<notin> set (temp_name os (ps_tick st))" "ps_dir st (temp_name os (ps_tick st)) = None"
    "temp_name os (ps_tick st) \<noteq> target"
    using healthy_answer(10) [OF h] calm target by (auto simp: temp_name_def calm_def)
  show "\<exists>x st'. atomic_replace_without_root_sync_with_faults os root target bs b a stage st = (Done x, st') \<and> calm os st'"
    unfolding atomic_replace_without_root_sync_with_faults_def replace_body_def Let_def
    using t target calm
    by (simp add: validate_binding_def open_validated_root_def validate_private_file_def open_child_def
      write_all_def sync_all_def rename_child_def hit_opt_def hit_def calm_def pm_exec healthy_answer [OF h]
      split: option.splits)
qed

text \<open>An operation that changes one of the files, or reads them.\<close>

lemma runs_open_journal:
  assumes "healthy os root" and "creat \<or> tf_journal f \<noteq> None"
  shows "runs os f (open_child os JOURNAL_FILE creat False stage) (\<lambda>_ _. True)"
  by (rule runs_direct)
    (use assms(2) in \<open>auto simp: open_child_def pm_exec healthy_answer [OF assms(1)] calm_def files_fields
      split: option.splits\<close>)

lemma runs_write_journal:
  assumes "healthy os root"
  shows "runs os f (write_all os err JOURNAL_FILE bs) (\<lambda>_ _. True)"
  by (rule runs_direct) (auto simp: write_all_def pm_exec healthy_answer [OF assms] calm_def)

lemma runs_set_len:
  assumes "healthy os root"
  shows "runs os f (set_len os err JOURNAL_FILE n) (\<lambda>_ _. True)"
  by (rule runs_direct) (auto simp: set_len_def pm_exec healthy_answer [OF assms] calm_def)

lemma runs_unlink:
  assumes "healthy os root" and "tf_recovery f \<noteq> None"
  shows "runs os f (unlink_child os RECOVERY_FILE stage) (\<lambda>_ _. True)"
  by (rule runs_direct)
    (use assms(2) in \<open>auto simp: unlink_child_def pm_exec healthy_answer [OF assms(1)] calm_def files_fields\<close>)

lemma runs_open_lock:
  assumes "healthy os root"
  shows "runs os f (open_lock os root creat) (\<lambda>r f'. if creat then r else f' = f \<and> (r \<longleftrightarrow> tf_lock f \<noteq> None))"
  unfolding runs_def triple_def
proof (intro allI impI)
  fix st
  assume st: "calm os st \<and> files (ps_dir st) = f"
  obtain k where k: "validate_binding os root st = (Done (), st\<lparr>ps_tick := k\<rparr>)"
    using quiet_checks(1) [OF assms] by blast
  show "ends (\<lambda>x st. calm os st \<and> (if creat then x else files (ps_dir st) = f \<and> (x \<longleftrightarrow> tf_lock f \<noteq> None))) (\<lambda>_. False)
      (open_lock os root creat st)"
    unfolding open_lock_def pm_bind_def [of "validate_binding os root"] k prod.case tres.case
    using st by (auto simp: open_child_def pm_exec is_not_found_def healthy_answer [OF assms] validate_private_file_def
      calm_def files_fields files_def split: option.splits)
qed

text \<open>The composed operations.\<close>

lemma runs_sync: "healthy os root \<Longrightarrow> runs os f (sync_root os root) (\<lambda>_ _. True)"
  by (rule runs_check(4), assumption, rule TrueI)

lemma runs_atomic_replace:
  assumes "healthy os root" and "CHR 0x00 \<notin> set target" and "\<forall>n. temp_name os n \<noteq> target"
  shows "runs os f (atomic_replace os root target bs b a stage) (\<lambda>_ _. True)"
  unfolding atomic_replace_def
  by (rule runs_bind [OF runs_replace [OF assms]], rule runs_sync [OF assms(1)])

lemma runs_persist:
  assumes h: "healthy os root"
  shows "runs os f (persist_replayed_snapshot os root bs) (\<lambda>_ _. True)"
    "runs os f (persist_recovery_snapshot os root bs) (\<lambda>_ _. True)"
    "runs os f (open_journal_append os root) (\<lambda>_ _. True)"
    "runs os f (append_recovery_record os root line) (\<lambda>_ _. True)"
proof -
  show "runs os f (persist_replayed_snapshot os root bs) (\<lambda>_ _. True)"
    unfolding persist_replayed_snapshot_def by (rule runs_atomic_replace [OF h]) simp_all
  show "runs os f (persist_recovery_snapshot os root bs) (\<lambda>_ _. True)"
    unfolding persist_recovery_snapshot_def atomic_replace_without_root_sync_def
    by (rule runs_bind [OF runs_replace [OF h]], simp, simp, rule runs_fault_bind(3), assumption, rule runs_sync [OF h])
  have journal: "runs os f (open_journal_append os root) (\<lambda>_ _. True)" for f
    unfolding open_journal_append_def
    by (rule runs_check_bind(1) [OF h], rule runs_bind [OF runs_open_journal [OF h]], simp,
      rule runs_check_bind(2) [OF h], rule runs_check(6) [OF h]) simp
  then show "runs os f (open_journal_append os root) (\<lambda>_ _. True)" .
  show "runs os f (append_recovery_record os root line) (\<lambda>_ _. True)"
    unfolding append_recovery_record_def
    by (rule runs_bind [OF journal], rule runs_check_bind(1) [OF h], rule runs_fault_bind(1), assumption, simp only: if_False,
      rule runs_bind [OF runs_write_journal [OF h]], rule runs_check_bind(3) [OF h], rule runs_fault, assumption, simp)
qed

lemma runs_remove_intent:
  assumes h: "healthy os root" and "tf_recovery f \<noteq> None"
  shows "runs os f (remove_recovery_intent os root) (\<lambda>_ _. True)"
  unfolding remove_recovery_intent_def
  by (rule runs_check_bind(1) [OF h], rule runs_bind [OF runs_unlink [OF assms]], rule runs_fault_bind(3), assumption,
    rule runs_sync [OF h])

lemma runs_truncate:
  assumes h: "healthy os root" and "tf_journal f \<noteq> None"
  shows "runs os f (truncate_for_recovery os root n) (\<lambda>_ _. True)"
  unfolding truncate_for_recovery_def
  by (rule runs_check_bind(1) [OF h], rule runs_bind [OF runs_open_journal [OF h]], rule disjI2, rule assms(2),
    rule runs_check_bind(2) [OF h], rule runs_check_bind(1) [OF h], rule runs_bind [OF runs_set_len [OF h]],
    rule runs_check_bind(3) [OF h], rule runs_fault, assumption, rule TrueI)

lemma runs_private_exists:
  assumes h: "healthy os root"
  shows "runs os f (private_exists os root RECOVERY_FILE stage) (\<lambda>r f'. f' = f \<and> (r \<longleftrightarrow> tf_recovery f \<noteq> None))"
  unfolding runs_def triple_def
proof (intro allI impI)
  fix st
  assume st: "calm os st \<and> files (ps_dir st) = f"
  obtain k where k: "validate_binding os root st = (Done (), st\<lparr>ps_tick := k\<rparr>)"
    using quiet_checks(1) [OF h] by blast
  show "ends (\<lambda>x st. calm os st \<and> files (ps_dir st) = f \<and> (x \<longleftrightarrow> tf_recovery f \<noteq> None)) (\<lambda>_. False)
      (private_exists os root RECOVERY_FILE stage st)"
    unfolding private_exists_def pm_bind_def [of "validate_binding os root"] k prod.case tres.case
    using st by (auto simp: open_child_def pm_exec is_not_found_def healthy_answer [OF h] validate_private_file_def
      files_fields split: option.splits)
qed

lemma runs_persist_intent:
  assumes h: "healthy os root" and none: "tf_recovery f = None" and json: "json_intent E i \<noteq> None"
  shows "runs os f (persist_recovery_intent E os root i) (\<lambda>_ _. True)"
proof -
  obtain bs where bs: "json_intent E i = Some bs" using json by blast
  show ?thesis
    unfolding persist_recovery_intent_def bs ok_or_simps tres_of_simps atomic_replace_without_root_sync_def
    apply (rule runs_bind [OF runs_private_exists [OF h]])
    apply (elim conjE, hypsubst)
    apply (rule runs_if, simp add: none)
    apply (rule runs_lift_bind [OF refl])
    apply (rule runs_bind [OF runs_replace [OF h]], simp, simp)
    apply (rule runs_fault_bind(3), assumption, rule runs_check_bind(4) [OF h], rule runs_fault, assumption, rule TrueI)
    done
qed

text \<open>Reading what a crash-safe disk holds.\<close>

lemma runs_read_journal:
  assumes "healthy os root"
  shows "runs os f (read_journal os root) (\<lambda>c f'. f' = f \<and> c = tf_journal f)"
  by (rule runs_spec [OF _ read_journal_spec [OF healthy_honest [OF assms]]])
    (simp add: read_journal_def runs_read_private [OF assms])

lemma runs_read_file:
  assumes "healthy os root" and "CHR 0x00 \<notin> set name" and "\<And>d. files d = f \<Longrightarrow> d name = c"
  shows "runs os f (read_private os root name s s') (\<lambda>x f'. f' = f \<and> x = c)"
proof (rule runs_spec [OF runs_read_private [OF assms(1,2)]])
  show "ftriple f (read_private os root name s s') (\<lambda>x f'. f' = f \<and> x = c) (\<lambda>f'. f' = f)"
    unfolding ftriple_def triple_def
  proof (intro allI impI)
    fix st :: persist_state
    assume "files (ps_dir st) = f"
    with assms(3) have d: "files (ps_dir st) = f" "ps_dir st name = c" by auto
    have "ends (\<lambda>x st'. ps_dir st' = ps_dir st \<and> x = ps_dir st name) (\<lambda>st'. ps_dir st' = ps_dir st)
        (read_private os root name s s' st)"
      using read_private_spec [OF healthy_honest [OF assms(1)], of "ps_dir st" root name s s'] by (simp add: triple_def)
    then show "ends (\<lambda>x st. files (ps_dir st) = f \<and> x = c) (\<lambda>st. files (ps_dir st) = f) (read_private os root name s s' st)"
      by (rule ends_mono) (use d in auto)
  qed
qed

lemma runs_load_snapshot:
  assumes h: "healthy os root" and env: "store_codec E" and snap: "snapshot_at E f rs"
  shows "runs os f (load_snapshot E os root) (\<lambda>c f'. f' = f \<and>
    (case c of None \<Rightarrow> True | Some s \<Rightarrow> \<exists>k \<le> length rs. reconstruct_store E (take k rs) = Done s))"
  unfolding load_snapshot_def
proof (rule runs_bind [OF runs_read_file [OF h, where c = "tf_snapshot f"]])
  fix x f'
  assume x: "f' = f \<and> x = tf_snapshot f"
  show "runs os f' (case x of None \<Rightarrow> pm_return None
      | Some bs \<Rightarrow> pm_bind (pm_lift (tres_of (ok_or Err_InvalidJson (parse_store E bs)))) (\<lambda>store.
          pm_bind (pm_lift (tres_of (map_err Err_InvalidStore (validate_store E store)))) (\<lambda>_. pm_return (Some store))))
      (\<lambda>c f'. f' = f \<and> (case c of None \<Rightarrow> True | Some s \<Rightarrow> \<exists>k \<le> length rs. reconstruct_store E (take k rs) = Done s))"
  proof (cases "tf_snapshot f")
    case None
    with x show ?thesis by (simp add: runs_return)
  next
    case (Some b)
    then obtain k s where s: "k \<le> length rs" "reconstruct_store E (take k rs) = Done s" "json_store E s = Some b"
      using snap by (auto simp: snapshot_at_def)
    have "parse_store E b = Some s" using env s(3) by (simp add: store_codec_def)
    moreover have "validate_store E s = Inr ()" using reconstruct_inv [OF s(2)] by (simp add: store_inv_def)
    ultimately show ?thesis
      using x Some s(1,2) by (auto intro!: runs_lift_bind runs_return)
  qed
qed (auto simp: files_fields)

lemma runs_load_recovery:
  assumes h: "healthy os root" and "\<And>b. tf_recovery f = Some b \<Longrightarrow> parse_intent E b \<noteq> None"
  shows "runs os f (load_recovery E os root) (\<lambda>c f'. f' = f \<and> (c = None \<longleftrightarrow> tf_recovery f = None))"
  unfolding load_recovery_def
proof (rule runs_bind [OF runs_read_file [OF h, where c = "tf_recovery f"]])
  fix x f'
  assume x: "f' = f \<and> x = tf_recovery f"
  show "runs os f' (case x of None \<Rightarrow> pm_return None
      | Some bs \<Rightarrow> pm_lift (tres_of (ok_or invalid_recovery (map_option Some (parse_intent E bs)))))
      (\<lambda>c f'. f' = f \<and> (c = None \<longleftrightarrow> tf_recovery f = None))"
  proof (cases "tf_recovery f")
    case (Some b)
    then obtain i where "parse_intent E b = Some i" using assms(2) by blast
    with x Some show ?thesis by (simp add: runs_lift)
  qed (use x in \<open>simp add: runs_return\<close>)
qed (auto simp: files_fields)

section \<open>Recovery succeeds\<close>

text \<open>The size of a journal bounds the number of its records.\<close>

lemma journal_bytes_length:
  assumes "record_codec E"
  shows "journal_bytes E rs = Some bs \<Longrightarrow> 2 * length rs \<le> length bs"
proof (induction rs arbitrary: bs)
  case (Cons r rs)
  then obtain line cs where l: "compact_record_line E r = Some line" "journal_bytes E rs = Some cs" "bs = line @ cs"
    by (auto split: option.splits)
  obtain b where "line = b @ [newline]" "b \<noteq> []"
    using compact_record_line_Some [OF assms l(1)] .
  then have "2 \<le> length line" by (cases b) auto
  with Cons.IH [OF l(2)] l(3) show ?case by simp
qed simp

lemma of_nat_le_max: "n \<le> 9007199254740991 \<Longrightarrow> (of_nat n :: u64) \<le> MAX_JSON_SAFE_INTEGER"
  by (simp add: word_le_nat_alt unat_of_nat)

lemma intent_exists:
  assumes "record_codec E" and "journal_bytes E rs = Some bs" and "newline \<notin> set sfx" and "sfx \<noteq> []"
    and "length (bs @ sfx) \<le> 9007199254740991"
  shows "\<exists>i. intent_of E rs sfx i \<and>
    intent_from_suffix E \<lparr>pj_records = rs, pj_complete_prefix_length = length bs, pj_suffix = sfx\<rparr> = Inr i"
proof -
  have n: "length bs \<le> 9007199254740991" "length sfx \<le> 9007199254740991" "Suc (length rs) \<le> 9007199254740991"
    using journal_bytes_length [OF assms(1,2)] assms(4,5) by (cases sfx; simp)+
  have "(of_nat (length sfx) :: u64) \<noteq> 0"
    using n(2) assms(4) by (simp add: unat_of_nat flip: unat_eq_zero)
  moreover have "(of_nat (length rs) + 1 :: u64) \<le> MAX_JSON_SAFE_INTEGER"
    using of_nat_le_max [OF n(3)] by (simp add: add.commute)
  ultimately show ?thesis
    using n of_nat_le_max [OF n(1)] of_nat_le_max [OF n(2)] assms(2,3)
    by (auto simp: intent_of_def intent_from_suffix_def Let_def u64_try_from_def)
qed

lemma intent_valid:
  assumes "base64_codec E" and "intent_of E rs sfx i" and "chained E 0 zero_sha256 rs"
  shows "validate_recovery_intent E i = Inr ()" and "decode_intent_suffix E i = Inr sfx"
proof -
  from assms(2) show dec: "decode_intent_suffix E i = Inr sfx"
    by (rule intent_of_facts) (use assms(1) in \<open>simp add: decode_intent_suffix_def base64_codec_def\<close>)
  have "(of_nat (length rs) + 1 :: u64) \<noteq> 0"
  proof -
    have "length rs \<le> 9007199254740991" using chained_length [OF assms(3)] .
    then have "unat (of_nat (length rs) + 1 :: u64) = Suc (length rs)"
      by (simp add: unat_word_ariths unat_of_nat)
    then show ?thesis by (metis Zero_not_Suc unat_0)
  qed
  with assms(2) show "validate_recovery_intent E i = Inr ()"
    by (rule_tac intent_of_facts [OF assms(2)]) (simp add: validate_recovery_intent_def dec linorder_not_less)
qed

lemma finish_recovery_runs:
  assumes h: "healthy os root" and env: "task_env_ok E" and rec: "reconstruct_store E rs = Done s"
    and old: "recovering E f rs i sfx" and bs: "journal_bytes E rs = Some bs" and j: "tf_journal f = Some (bs @ sfx)"
    and r: "recovery_of E rs i r line"
  shows "runs os f (finish_recovery E os root (bs @ sfx)
    \<lparr>pj_records = rs, pj_complete_prefix_length = length bs, pj_suffix = sfx\<rparr> i) (\<lambda>rj _. rj_records rj = rs @ [r])"
proof -
  have codec: "record_codec E" "hash_nonzero E" "base64_codec E" using env by (auto simp: task_env_ok_def)
  obtain sfx0 where i: "intent_of E rs sfx0 i" and chain: "chained E 0 zero_sha256 rs"
      and sfx: "sfx = sfx0 \<or> sfx = [] \<or> (\<exists>r line k. recovery_of E rs i r line \<and> sfx = take k line \<and> k < length line)"
    using old by (auto simp: recovering_def journal_at_def)
  have facts: "of_nat (length bs) = ri_complete_prefix_length i" "unat (ri_complete_prefix_length i) = length bs"
    "last_event_sha256 rs = ri_previous_event_sha256 i" "ri_target_sequence i = of_nat (length rs) + 1"
    using i by (rule intent_of_facts, use bs in \<open>simp add: last_event_sha256_chain\<close>)+
  have line: "recovery_record E i (last_store_revision rs) = Inr r" "compact_record_line E r = Some line"
    using r by (auto simp: recovery_of_def)
  have "recovery_of E rs i r' line' \<Longrightarrow> line' = line" for r' line'
    using line by (simp add: recovery_of_def)
  then have state: "sfx = sfx0 \<or> sfx = [] \<or> length sfx < length line \<and> starts_with line sfx"
    using sfx by (auto simp: starts_with_iff) (metis append_take_drop_id)
  let ?cut = "f\<lparr>tf_journal := Some bs\<rparr>"
  have parse: "parse_journal E (bs @ line) =
      Inr \<lparr>pj_records = rs @ [r], pj_complete_prefix_length = length (bs @ line), pj_suffix = []\<rparr>"
    using parse_journal_printed [OF codec(1) journal_bytes_snoc [OF bs line(2)]
      recovery_extends(1) [OF codec(2) rec chain i r], of "[]"] by simp
  have wrote: "runs os ?cut (append_recovery_record os root line) (\<lambda>_ f'. f' = f\<lparr>tf_journal := Some (bs @ line)\<rparr>)"
    by (rule runs_post [OF runs_spec [OF runs_persist(4) [OF h] append_recovery_record_spec]])
      (simp add: journal_append_def journal_touch_def)
  have cut: "runs os f (if sfx \<noteq> [] then truncate_for_recovery os root (ri_complete_prefix_length i) else pm_return ())
      (\<lambda>_ f'. f' = ?cut)"
  proof (rule runs_if)
    show "runs os f (truncate_for_recovery os root (ri_complete_prefix_length i)) (\<lambda>_ f'. f' = ?cut)"
      by (rule runs_post [OF runs_spec [OF runs_truncate [OF h] truncate_for_recovery_spec]])
        (use j facts(2) in \<open>auto simp: journal_truncate_def\<close>)
    show "runs os f (pm_return ()) (\<lambda>_ f'. f' = ?cut)" if "\<not> sfx \<noteq> []"
      by (rule runs_return) (use that j in \<open>cases f, simp\<close>)
  qed
  have rest: "drop (length bs) (bs @ sfx) = sfx" by simp
  show ?thesis
    unfolding finish_recovery_def Let_def ParsedJournal.select_convs rest facts(1) line(1)
      intent_valid(2) [OF codec(3) i chain] tres_of_simps
    apply (rule runs_if, simp)
    apply (rule runs_if, use facts(3,4) in simp)
    apply (rule runs_lift_bind [OF refl])
    apply (rule runs_lift_bind, simp add: line(2))
    apply (rule runs_lift_bind [OF refl])
    apply (rule runs_if, use state in blast)
    apply (rule runs_bind [OF cut], simp only:)
    apply (rule runs_bind [OF wrote], simp only:)
    apply (rule runs_bind [OF runs_read_journal [OF h]], elim conjE, hypsubst)
    apply (rule runs_lift_bind, simp)
    apply (rule runs_lift_bind, simp add: parse)
    apply (simp add: runs_return)
    done
qed

text \<open>
  The JSON writer accepts what a recovery writes: the intent and the record of the tail on disk, and
  the store before and after it.
\<close>

definition disk_intent :: "task_env \<Rightarrow> task_files \<Rightarrow> JournalRecord list \<Rightarrow> RecoveryIntent \<Rightarrow> bool" where
  "disk_intent E f rs i \<longleftrightarrow> (\<exists>sfx. intent_of E rs sfx i \<and>
     (case tf_recovery f of None \<Rightarrow> journal_at E f rs sfx | Some b \<Rightarrow> parse_intent E b = Some i))"

definition recovery_json :: "task_env \<Rightarrow> task_files \<Rightarrow> JournalRecord list \<Rightarrow> bool" where
  "recovery_json E f rs \<longleftrightarrow>
     (\<forall>s. reconstruct_store E rs = Done s \<longrightarrow> json_store E s \<noteq> None) \<and>
     (\<forall>i. disk_intent E f rs i \<longrightarrow> json_intent E i \<noteq> None \<and>
        (\<exists>r line. recovery_of E rs i r line \<and>
           (\<forall>s. reconstruct_store E (rs @ [r]) = Done s \<longrightarrow> json_store E s \<noteq> None)))"

definition journal_small :: "task_files \<Rightarrow> bool" where
  "journal_small f \<longleftrightarrow> (case tf_journal f of None \<Rightarrow> True | Some c \<Rightarrow> length c \<le> 9007199254740991)"

lemma pm_return_bind: "pm_bind (pm_return x) g = g x"
  by (simp add: fun_eq_iff pm_bind_def pm_return_def)

text \<open>Completing a recovery whose intent is known.\<close>

lemma known_intent_runs:
  assumes h: "healthy os root" and env: "task_env_ok E" and rec: "reconstruct_store E rs = Done s"
    and old: "recovering E f rs i sfx" and bs: "journal_bytes E rs = Some bs" and j: "tf_journal f = Some (bs @ sfx)"
    and r: "recovery_of E rs i r line"
  shows "runs os f (pm_bind (pm_lift (recovery_record_is_complete E (bs @ sfx)
        \<lparr>pj_records = rs, pj_complete_prefix_length = length bs, pj_suffix = sfx\<rparr> i)) (\<lambda>complete.
      if complete
      then pm_return \<lparr>rj_records = rs, rj_recovery_applied = True, rj_cleanup_intent = True\<rparr>
      else finish_recovery E os root (bs @ sfx)
        \<lparr>pj_records = rs, pj_complete_prefix_length = length bs, pj_suffix = sfx\<rparr> i)) (\<lambda>rj _. rj_records rj = rs @ [r])"
proof -
  obtain sfx0 where i: "intent_of E rs sfx0 i" and chain: "chained E 0 zero_sha256 rs"
    using old by (auto simp: recovering_def journal_at_def)
  show ?thesis
    by (rule runs_lift_bind [OF recovering_incomplete [OF chain i]])
      (simp add: finish_recovery_runs [OF assms])
qed

definition storable :: "task_env \<Rightarrow> RecoveredJournal \<Rightarrow> bool" where
  "storable E rj \<longleftrightarrow> (\<forall>s. reconstruct_store E (rj_records rj) = Done s \<longrightarrow> json_store E s \<noteq> None)"

lemma recover_journal_runs:
  assumes h: "healthy os root" and env: "task_env_ok E" and disk: "disk_at E f rs" and json: "recovery_json E f rs"
    and small: "journal_small f"
    and bs: "bs = (case tf_journal f of None \<Rightarrow> [] | Some c \<Rightarrow> c)"
    and recovery: "case tf_recovery f of None \<Rightarrow> recovery = None
      | Some b \<Rightarrow> \<exists>i. recovery = Some i \<and> parse_intent E b = Some i"
  shows "runs os f (recover_journal E os root bs recovery) (\<lambda>rj f'. storable E rj \<and> after_recover E f rs rj f')"
proof (rule runs_and [OF _ recover_journal_spec [OF env healthy_honest [OF h] disk bs recovery]])
  have codec: "record_codec E" "hash_nonzero E" "base64_codec E" "intent_codec E"
    using env by (auto simp: task_env_ok_def)
  obtain s where rec: "reconstruct_store E rs = Done s" using disk_at_store [OF disk] by blast
  from disk consider (torn) sfx where "torn E f rs sfx" | (recovering) i sfx where "recovering E f rs i sfx"
    | (recovered) rs0 i r where "rs = rs0 @ [r]" "recovered E f rs0 i r"
    by (auto simp: disk_at_def)
  note cases = this
  have keep: "storable E rj" if "rj_records rj = rs" for rj
    using json that by (simp add: storable_def recovery_json_def)
  from cases show "runs os f (recover_journal E os root bs recovery) (\<lambda>rj _. storable E rj)"
  proof cases
    case torn
    then have at: "journal_at E f rs sfx" and none: "tf_recovery f = None" by (auto simp: torn_def)
    then have rec_none: "recovery = None" using recovery by simp
    obtain b where b: "journal_bytes E rs = Some b" "chained E 0 zero_sha256 rs" "bs = b @ sfx"
        "parse_journal E (b @ sfx) = Inr \<lparr>pj_records = rs, pj_complete_prefix_length = length b, pj_suffix = sfx\<rparr>"
      using codec(1) at unfolding bs by (rule journal_at_parse)
    show ?thesis
    proof (cases "sfx = []")
      case True
      with b rec_none show ?thesis
        unfolding recover_journal_def by (auto intro!: runs_lift_bind runs_return keep)
    next
      case False
      have j: "tf_journal f = Some (b @ sfx)" and nl: "newline \<notin> set sfx"
        using at b(1) False by (auto simp: journal_at_def)
      have "length (b @ sfx) \<le> 9007199254740991" using small j by (simp add: journal_small_def)
      then obtain i where i: "intent_of E rs sfx i"
          "intent_from_suffix E \<lparr>pj_records = rs, pj_complete_prefix_length = length b, pj_suffix = sfx\<rparr> = Inr i"
        using intent_exists [OF codec(1) b(1) nl False] by blast
      have "disk_intent E f rs i" using i(1) at none by (auto simp: disk_intent_def)
      then obtain r line where ok: "json_intent E i \<noteq> None" "recovery_of E rs i r line"
          and new: "\<forall>s. reconstruct_store E (rs @ [r]) = Done s \<longrightarrow> json_store E s \<noteq> None"
        using json unfolding recovery_json_def by blast
      have next_state: "recovering E (f\<lparr>tf_recovery := Some ib\<rparr>) rs i sfx" if "json_intent E i = Some ib" for ib
        using that codec(4) at j i(1) by (auto simp: recovering_def intent_codec_def journal_at_def)
      show ?thesis
        unfolding recover_journal_def b(3) b(4) tres_of_simps rec_none
        apply (rule runs_lift_bind [OF refl])
        apply (rule runs_if, simp add: False)
        apply (simp only: recovery_intent_def option.case ParsedJournal.select_convs False if_False i(2) tres_of_simps pm_bind_assoc)
        apply (rule runs_lift_bind [OF refl])
        apply (rule runs_spec_bind [OF runs_persist_intent [OF h none ok(1)] persist_recovery_intent_spec])
        apply (elim exE conjE, hypsubst)
        apply (simp only: pm_return_bind)
        apply (rule runs_post [OF known_intent_runs [OF h env rec next_state b(1) _ ok(2)]], assumption)
         apply (simp add: j)
        apply (use new in \<open>simp add: storable_def\<close>)
        done
    qed
  next
    case recovering
    then obtain ib sfx0 where at: "journal_at E f rs sfx" and ib: "tf_recovery f = Some ib" "parse_intent E ib = Some i"
        and i: "intent_of E rs sfx0 i" and some: "tf_journal f \<noteq> None"
      by (auto simp: recovering_def)
    then have rec_some: "recovery = Some i" using recovery by simp
    obtain b where b: "journal_bytes E rs = Some b" "chained E 0 zero_sha256 rs" "bs = b @ sfx"
        "parse_journal E (b @ sfx) = Inr \<lparr>pj_records = rs, pj_complete_prefix_length = length b, pj_suffix = sfx\<rparr>"
      using codec(1) at unfolding bs by (rule journal_at_parse)
    have j: "tf_journal f = Some (b @ sfx)" using bs b(3) some by auto
    have "disk_intent E f rs i" using i ib by (auto simp: disk_intent_def)
    then obtain r line where ok: "recovery_of E rs i r line"
        and new: "\<forall>s. reconstruct_store E (rs @ [r]) = Done s \<longrightarrow> json_store E s \<noteq> None"
      using json unfolding recovery_json_def by blast
    show ?thesis
      unfolding recover_journal_def b(3) b(4) tres_of_simps rec_some
      apply (rule runs_lift_bind [OF refl])
      apply (rule runs_if, simp)
      apply (simp only: recovery_intent_def option.case intent_valid(1) [OF codec(3) i b(2)] tres_of_simps pm_bind_assoc)
      apply (rule runs_lift_bind [OF refl])
      apply (simp only: pm_return_bind ParsedJournal.select_convs)
      apply (rule runs_post [OF known_intent_runs [OF h env rec recovering b(1) j ok]])
      apply (use new in \<open>simp add: storable_def\<close>)
      done
  next
    case recovered
    then obtain ib sfx0 line where at: "journal_at E f (rs0 @ [r]) []"
        and ib: "tf_recovery f = Some ib" "parse_intent E ib = Some i"
        and i: "intent_of E rs0 sfx0 i" "recovery_of E rs0 i r line"
      by (auto simp: recovered_def)
    then have rec_some: "recovery = Some i" using recovery by simp
    obtain b where b: "journal_bytes E (rs0 @ [r]) = Some b" "chained E 0 zero_sha256 (rs0 @ [r])" "bs = b @ []"
        "parse_journal E (b @ []) = Inr \<lparr>pj_records = rs0 @ [r], pj_complete_prefix_length = length b, pj_suffix = []\<rparr>"
      using codec(1) at unfolding bs by (rule journal_at_parse)
    obtain b0 where b0: "journal_bytes E rs0 = Some b0" "b = b0 @ line"
      using b(1) recovery_of_facts(6) [OF i(2)] by (auto simp: journal_bytes_append split: option.splits)
    have "chained E 0 zero_sha256 rs0" using b(2) by (simp add: chained_append)
    note valid = intent_valid(1) [OF codec(3) i(1) this]
    have bs': "bs = b" "parse_journal E b = Inr \<lparr>pj_records = rs0 @ [r], pj_complete_prefix_length = length b, pj_suffix = []\<rparr>"
      using b(3,4) by simp_all
    show ?thesis
      unfolding recover_journal_def bs' tres_of_simps rec_some
      apply (rule runs_lift_bind [OF refl])
      apply (rule runs_if, simp)
      apply (simp only: recovery_intent_def option.case valid tres_of_simps pm_bind_assoc)
      apply (rule runs_lift_bind [OF refl])
      apply (simp only: pm_return_bind b0(2) recovered_complete [OF i b0(1)])
      apply (rule runs_lift_bind [OF refl])
      apply (simp add: runs_return keep recovered(1))
      done
  qed
qed

section \<open>Loading succeeds\<close>

lemma disk_at_journal: "disk_at E f rs \<Longrightarrow> \<exists>sfx. journal_at E f rs sfx"
  by (auto simp: disk_at_def torn_def recovering_def recovered_def)

lemma loaded_prefix:
  assumes "chained E 0 zero_sha256 rs" and "k \<le> length rs" and "reconstruct_store E (take k rs) = Done s"
  shows "validate_loaded_prefix E s rs = Done ()"
proof -
  have "chained E 0 zero_sha256 (take k rs @ drop k rs)" using assms(1) by simp
  then have "chained E 0 zero_sha256 (take k rs)" by (simp only: chained_append)
  from reconstruct_checkpoint [OF assms(3) this] assms(2)
  have seq: "cur_sequence (ts_journal_checkpoint s) = of_nat k" by simp
  have "length rs \<le> 9007199254740991" using chained_length [OF assms(1)] .
  then have u: "unat (of_nat k :: u64) = k" "unat (of_nat (length rs) :: u64) = length rs"
    using assms(2) by (simp_all add: unat_of_nat)
  show ?thesis
    using assms(2,3) by (simp add: validate_loaded_prefix_def seq u word_less_nat_alt)
qed

lemma read_locked_runs:
  assumes h: "healthy os root" and env: "task_env_ok E" and disk: "disk_at E f rs"
  shows "runs os f (read_locked E os root) (\<lambda>_ _. True)"
proof -
  have codec: "record_codec E" "store_codec E" using env by (auto simp: task_env_ok_def)
  have snap: "snapshot_at E f rs" using disk by (simp add: disk_at_def disk_base_def)
  obtain sfx where at: "journal_at E f rs sfx" using disk_at_journal [OF disk] by blast
  obtain b where b: "journal_bytes E rs = Some b" "chained E 0 zero_sha256 rs"
      "(case tf_journal f of None \<Rightarrow> [] | Some c \<Rightarrow> c) = b @ sfx"
      "parse_journal E (b @ sfx) = Inr \<lparr>pj_records = rs, pj_complete_prefix_length = length b, pj_suffix = sfx\<rparr>"
    using codec(1) at by (rule journal_at_parse)
  have intent: "parse_intent E ib \<noteq> None" if "tf_recovery f = Some ib" for ib
    using disk that by (auto simp: disk_at_def torn_def recovering_def recovered_def)
  have present: "tf_journal f \<noteq> None" if "tf_recovery f \<noteq> None"
  proof
    assume none: "tf_journal f = None"
    then have "rs = []" using no_journal_records [OF disk] by simp
    with disk that none show False
      by (auto simp: disk_at_def torn_def recovering_def)
  qed
  have prefix: "validate_loaded_prefix E (case c of None \<Rightarrow> empty_store | Some s \<Rightarrow> s) rs = Done ()"
    if "case c of None \<Rightarrow> True | Some s \<Rightarrow> \<exists>k \<le> length rs. reconstruct_store E (take k rs) = Done s" for c
  proof (cases c)
    case None
    then show ?thesis using loaded_prefix [OF b(2), of 0 empty_store] by (simp add: reconstruct_store_def)
  next
    case (Some s)
    with that loaded_prefix [OF b(2)] show ?thesis by auto
  qed
  show ?thesis
    unfolding read_locked_def Let_def
    apply (rule runs_bind [OF runs_load_snapshot [OF h codec(2) snap]], elim conjE, hypsubst)
    apply (rule runs_bind [OF runs_read_journal [OF h]], elim conjE, hypsubst)
    apply (simp only: b(3) b(4) tres_of_simps)
    apply (rule runs_lift_bind [OF refl])
    apply (rule runs_lift_bind, simp add: prefix)
    apply (rule runs_bind [OF runs_load_recovery [OF h intent]], assumption, elim conjE, hypsubst)
    apply (rule runs_if, use present in blast)
    apply (rule runs_return, rule TrueI)
    done
qed

lemma settle_store_runs:
  assumes h: "healthy os root" and rec: "reconstruct_store E (rj_records rj) = Done s" and json: "json_store E s \<noteq> None"
    and intent: "rj_cleanup_intent rj \<longrightarrow> tf_recovery f \<noteq> None"
  shows "runs os f (settle_store E os root loaded rj) (\<lambda>_ _. True)"
proof -
  obtain bs where bs: "json_store E s = Some bs" using json by blast
  have snapshot: "runs os f (if s \<noteq> loaded then pm_bind (pm_lift (expect (json_store E s))) (\<lambda>bs.
        if rj_recovery_applied rj then persist_recovery_snapshot os root bs else persist_replayed_snapshot os root bs)
      else pm_return ()) (\<lambda>_ f'. tf_recovery f' = tf_recovery f)"
    unfolding bs expect_simps
    by (rule runs_if, rule runs_lift_bind [OF refl], rule runs_if,
      rule runs_post [OF runs_spec [OF runs_persist(2) [OF h] persist_recovery_snapshot_spec]], simp,
      rule runs_post [OF runs_spec [OF runs_persist(1) [OF h] persist_replayed_snapshot_spec]], simp,
      rule runs_return, simp)
  show ?thesis
    unfolding settle_store_def Let_def rec
    apply (rule runs_lift_bind [OF refl])
    apply (rule runs_bind [OF snapshot])
    apply (rule runs_bind [where Q = "\<lambda>_ _. True"])
     apply (rule runs_if, rule runs_remove_intent [OF h], use intent in simp)
     apply (rule runs_return, rule TrueI)
    apply (rule runs_return, rule TrueI)
    done
qed

text \<open>The same for the repository, whose state is the disk and the watch hub.\<close>

definition rruns :: "task_os \<Rightarrow> task_files \<Rightarrow> 'a rm \<Rightarrow> ('a \<Rightarrow> task_files \<Rightarrow> bool) \<Rightarrow> bool" where
  "rruns os f m Q \<longleftrightarrow> triple (\<lambda>st. calm os (rp_disk st) \<and> disk_files st = f) m
     (\<lambda>x st. calm os (rp_disk st) \<and> Q x (disk_files st)) (\<lambda>_. False)"

lemma rruns_run:
  assumes "rruns os (disk_files st) m Q" and "calm os (rp_disk st)"
  shows "\<exists>x st'. m st = (Done x, st') \<and> calm os (rp_disk st') \<and> Q x (disk_files st')"
  using assms unfolding rruns_def triple_def by (cases "m st") (fastforce elim: ends.elims)

lemma rruns_return: "Q x f \<Longrightarrow> rruns os f (pm_return x) Q"
  unfolding rruns_def by (rule triple_return) simp

lemma rruns_bind:
  "rruns os f m Q \<Longrightarrow> (\<And>x f'. Q x f' \<Longrightarrow> rruns os f' (g x) S) \<Longrightarrow> rruns os f (pm_bind m g) S"
  unfolding rruns_def triple_def by (blast intro: ends_bind)

lemma rruns_if: "(b \<Longrightarrow> rruns os f m Q) \<Longrightarrow> (\<not> b \<Longrightarrow> rruns os f m' Q) \<Longrightarrow> rruns os f (if b then m else m') Q"
  by simp

lemma rruns_try:
  "rruns os f m Q \<Longrightarrow> rruns os f (pm_try m) (\<lambda>r f'. case r of Inr x \<Rightarrow> Q x f' | Inl _ \<Rightarrow> False)"
  unfolding rruns_def by (rule triple_post, rule triple_try, assumption) (auto split: sum.splits)

lemma runs_try: "runs os f m Q \<Longrightarrow> runs os f (pm_try m) (\<lambda>r f'. case r of Inr x \<Rightarrow> Q x f' | Inl _ \<Rightarrow> False)"
  unfolding runs_def by (rule triple_post, rule triple_try, assumption) (auto split: sum.splits)

lemma rruns_on_disk:
  assumes "runs os f m Q"
  shows "rruns os f (on_disk m) Q"
  unfolding rruns_def triple_def
proof (intro allI impI)
  fix st
  assume st: "calm os (rp_disk st) \<and> disk_files st = f"
  have "ends (\<lambda>x st. calm os st \<and> Q x (files (ps_dir st))) (\<lambda>_. False) (m (rp_disk st))"
    using assms st unfolding runs_def triple_def disk_files_def by blast
  then show "ends (\<lambda>x st. calm os (rp_disk st) \<and> Q x (disk_files st)) (\<lambda>_. False) (on_disk m st)"
    by (cases "m (rp_disk st)") (auto simp: on_disk_def disk_files_def elim: ends.elims)
qed

lemma rruns_keeps:
  assumes "keeps_disk m" and "returns m" and "\<And>x. Q x f"
  shows "rruns os f m Q"
  unfolding rruns_def triple_def
proof (intro allI impI)
  fix st
  assume st: "calm os (rp_disk st) \<and> disk_files st = f"
  obtain x st' where m: "m st = (Done x, st')"
    using assms(2) unfolding returns_def by (metis prod.collapse)
  then have "rp_disk st' = rp_disk st" using assms(1) unfolding keeps_disk_def by (metis snd_conv)
  with m st assms(3) show "ends (\<lambda>x st. calm os (rp_disk st) \<and> Q x (disk_files st)) (\<lambda>_. False) (m st)"
    by (simp add: disk_files_def)
qed

lemma rruns_or_mark:
  assumes "rruns os f m Q"
  shows "rruns os f (or_mark_load_error m) Q"
  unfolding or_mark_load_error_def
  by (rule rruns_bind [OF rruns_try [OF assms]]) (auto split: sum.splits intro: rruns_return)

lemma returns_effects: "returns (mark_load_effects effects c)"
  using returns_hub(2) by (simp add: mark_load_effects_def returns_def Let_def)

lemma load_locked_recovering_runs:
  assumes h: "healthy os root" and env: "task_env_ok E" and disk: "disk_at E f rs" and json: "recovery_json E f rs"
    and small: "journal_small f"
  shows "rruns os f (load_locked_recovering E os root) (\<lambda>_ _. True)"
proof -
  note os = healthy_honest [OF h]
  have settle: "runs os f' (settle_store E os root loaded rj) (\<lambda>_ _. True)"
    if "storable E rj" "after_recover E f rs rj f'" for loaded rj f'
  proof -
    have state: "(\<exists>s. reconstruct_store E (rj_records rj) = Done s) \<and> (rj_cleanup_intent rj \<longrightarrow> tf_recovery f' \<noteq> None)"
      using that(2) disk_at_store [OF disk] unfolding after_recover_def disk_base_def recovered_def
      by (elim disjE exE conjE) simp_all
    then obtain s where s: "reconstruct_store E (rj_records rj) = Done s" by blast
    with that(1) have "json_store E s \<noteq> None" by (simp add: storable_def)
    with s state show ?thesis by (intro settle_store_runs [OF h]) auto
  qed
  show ?thesis
    unfolding load_locked_recovering_def
    apply (rule rruns_bind [OF rruns_on_disk [OF runs_spec [OF read_locked_runs [OF h env disk] read_locked_spec [OF os]]]])
    apply (simp only: split_paired_all prod.case Let_def)
    apply (elim conjE, hypsubst)
    apply (rule rruns_bind [OF rruns_try [OF rruns_on_disk [OF recover_journal_runs [OF h env disk json small refl]]]], assumption)
    apply (simp add: rruns_on_disk settle split: sum.splits)
    done
qed

lemma load_without_lock_runs:
  assumes h: "healthy os root" and disk: "disk_at E f rs" and lock: "tf_lock f = None"
  shows "runs os f (load_without_lock E os root) (\<lambda>_ _. True)"
proof -
  have none: "tf_journal f = None" "tf_snapshot f = None" "tf_recovery f = None"
    using disk lock by (auto simp: disk_at_def disk_base_def)
  have snap: "runs os f (load_snapshot E os root) (\<lambda>c f'. f' = f \<and> c = None)"
    unfolding load_snapshot_def
    by (rule runs_bind [OF runs_read_file [OF h, where c = None]])
      (use none in \<open>auto simp: files_fields intro!: runs_return\<close>)
  show ?thesis
    unfolding load_without_lock_def
    apply (rule runs_bind [OF snap], elim conjE, hypsubst)
    apply (rule runs_bind [OF runs_read_journal [OF h]], elim conjE, hypsubst)
    apply (rule runs_bind [OF runs_load_recovery [OF h]], simp add: none, elim conjE, hypsubst)
    apply (simp add: none runs_return)
    done
qed

lemma load_runs:
  assumes h: "healthy os root" and env: "task_env_ok E" and disk: "disk_at E f rs" and json: "recovery_json E f rs"
    and small: "journal_small f"
  shows "rruns os f (load E os root) (\<lambda>_ _. True)"
proof -
  show ?thesis
    unfolding load_def
    apply (rule rruns_bind [OF rruns_on_disk [OF runs_check(1) [OF h, where Q = "\<lambda>_ f'. f' = f"]]], rule refl, simp only:)
    apply (rule rruns_bind [OF rruns_on_disk [OF runs_open_lock [OF h, of f False, unfolded if_False]]], elim conjE, hypsubst)
    apply (simp only: not_not)
    apply (rule rruns_if, rule rruns_on_disk, erule load_without_lock_runs [OF h disk])
    apply (rule rruns_bind [OF rruns_on_disk [OF runs_check(5) [OF h, where Q = "\<lambda>_ f'. f' = f"]]], rule refl, simp only:)
    apply (rule rruns_bind [OF rruns_or_mark [OF load_locked_recovering_runs [OF h env disk json small]]])
    apply (rule rruns_bind [OF rruns_keeps [where Q = "\<lambda>_ _. True"]], simp, rule returns_effects, rule TrueI)
    apply (rule rruns_return, rule TrueI)
    done
qed

end
