(* ===== verification/Task_Answer.thy ===== *)
theory Task_Answer
  imports Task_Liveness
begin

text \<open>
  What a transition answers when the machine works and no recovery is due: \<open>decide\<close>, a function of
  the stored tasks and receipts alone. \<open>rans os f m Q\<close> says that \<open>m\<close>, started on the files \<open>f\<close>, ends
  with a value or an error, and that \<open>Q\<close> holds of it.
\<close>

definition planned_response :: "TransitionEnvelope \<Rightarrow> PlannedTransition \<Rightarrow> u64 \<Rightarrow> Rfc3339 \<Rightarrow> TransitionResponse" where
  "planned_response e p n now = \<lparr>rsp_receipt_id = env_receipt_id e, rsp_committed_store_revision = n,
     rsp_task_id = plan_task_id p, rsp_task_revision = plan_task_revision p,
     rsp_attempt_number = plan_attempt_number p, rsp_prior_phase = plan_prior_phase p,
     rsp_resulting_phase = plan_resulting_phase p, rsp_committed_at = now\<rparr>"

definition decide :: "TaskStore \<Rightarrow> Rfc3339 \<Rightarrow> TransitionEnvelope \<Rightarrow> TaskServiceError + TransitionOutcome" where
  "decide s now e =
     (case bt_get (ts_receipts s) (env_receipt_id e) of
        Some x \<Rightarrow> if rec_request_digest_sha256 x \<noteq> env_request_digest_sha256 e then Inl ReceiptConflict
                  else Inr (Committed (rec_response x))
      | None \<Rightarrow>
          if ts_store_revision s \<noteq> env_expected_store_revision e
          then Inl (StoreRevisionConflict (env_expected_store_revision e) (ts_store_revision s))
          else case checked_next (ts_store_revision s) of
            Inl _ \<Rightarrow> Inl StoreRevisionOverflow
          | Inr n \<Rightarrow> (case plan_transition s e of
              Fails error \<Rightarrow> Inl error
            | Done p \<Rightarrow> Inr (Committed (planned_response e p n now))
            | Panics \<Rightarrow> Inl Serialization))"

text \<open>The JSON writer accepts what a transition writes.\<close>

definition transition_json :: "task_env \<Rightarrow> TaskStore \<Rightarrow> Rfc3339 \<Rightarrow> TransitionEnvelope \<Rightarrow> bool" where
  "transition_json E s now e \<longleftrightarrow> json_store E s \<noteq> None \<and>
     (\<forall>p n t. plan_transition s e = Done p \<longrightarrow> checked_next (ts_store_revision s) = Inr n \<longrightarrow>
        t \<in> {preflight_time, now} \<longrightarrow>
        (\<exists>response r nx. finalize_transition E s p e (env_request_digest_sha256 e) n t = Done (response, r, nx) \<and>
           json_store E nx \<noteq> None \<and> (t = now \<longrightarrow> json_record E r \<noteq> None)))"

section \<open>Runs that answer\<close>

definition rans :: "task_os \<Rightarrow> task_files \<Rightarrow> 'a rm \<Rightarrow> (TaskServiceError + 'a \<Rightarrow> bool) \<Rightarrow> bool" where
  "rans os f m Q \<longleftrightarrow> rruns os f (pm_try m) (\<lambda>r _. Q r)"

lemma rans_fail: "Q (Inl e) \<Longrightarrow> rans os f (pm_fail e) Q"
  by (simp add: rans_def rruns_def triple_def pm_try_def pm_fail_def)

lemma rans_return: "Q (Inr x) \<Longrightarrow> rans os f (pm_return x) Q"
  by (simp add: rans_def rruns_def triple_def pm_try_def pm_return_def)

lemma rans_if: "(b \<Longrightarrow> rans os f m Q) \<Longrightarrow> (\<not> b \<Longrightarrow> rans os f m' Q) \<Longrightarrow> rans os f (if b then m else m') Q"
  by simp

lemma pm_try_bind: "pm_try (pm_bind m g) = pm_bind (pm_try m) (\<lambda>r. case r of Inl e \<Rightarrow> pm_return (Inl e) | Inr x \<Rightarrow> pm_try (g x))"
  by (auto simp: fun_eq_iff pm_try_def pm_bind_def pm_return_def split: prod.splits tres.splits)

lemma rans_bind:
  assumes "rruns os f m P" and "\<And>x f'. P x f' \<Longrightarrow> rans os f' (g x) Q"
  shows "rans os f (pm_bind m g) Q"
  unfolding rans_def pm_try_bind
  by (rule rruns_bind [OF rruns_try [OF assms(1)]])
    (use assms(2) in \<open>auto simp: rans_def split: sum.splits\<close>)

lemma rans_lift_bind:
  assumes "r \<noteq> Panics" and "\<And>e. r = Fails e \<Longrightarrow> Q (Inl e)" and "\<And>x. r = Done x \<Longrightarrow> rans os f (g x) Q"
  shows "rans os f (pm_bind (pm_lift r) g) Q"
  using assms
  by (cases r) (auto simp: rans_def rruns_def triple_def pm_try_def pm_bind_def pm_lift_def)

lemma rans_done_bind: "r = Done x \<Longrightarrow> rans os f (g x) Q \<Longrightarrow> rans os f (pm_bind (pm_lift r) g) Q"
  by (rule rans_lift_bind) auto

lemma rans_quiet_bind:
  assumes "keeps_disk m" and "returns m" and "\<And>x. rans os f (g x) Q"
  shows "rans os f (pm_bind m g) Q"
  by (rule rans_bind [OF rruns_keeps [where Q = "\<lambda>_ f'. f' = f"]]) (use assms in auto)

lemma rans_post: "rans os f m Q \<Longrightarrow> (\<And>r. Q r \<Longrightarrow> Q' r) \<Longrightarrow> rans os f m Q'"
  unfolding rans_def rruns_def by (rule triple_post, assumption) auto

section \<open>The parts of a transition\<close>

lemma runs_append_transition:
  assumes h: "healthy os root"
  shows "runs os f (append_transition os root line) (\<lambda>r _. r = Inr ())"
  unfolding runs_def triple_def
proof (intro allI impI)
  fix st
  assume "calm os st \<and> files (ps_dir st) = f"
  then show "ends (\<lambda>x st. calm os st \<and> x = Inr ()) (\<lambda>_. False) (append_transition os root line st)"
    by (auto simp: append_transition_def validate_binding_def open_validated_root_def write_all_def sync_all_def hit_def
      calm_def pm_exec healthy_answer [OF h])
qed

lemma runs_replace_snapshot:
  assumes h: "healthy os root"
  shows "runs os f (replace_snapshot_after_transition os root bs) (\<lambda>r _. r = Inr ())"
proof -
  have tried: "runs os f (pm_try m) (\<lambda>r _. r = Inr ())" if "runs os f m (\<lambda>_ _. True)" for m :: "unit pm"
    by (rule runs_post [OF runs_try [OF that]]) (auto split: sum.splits)
  show ?thesis
    unfolding replace_snapshot_after_transition_def
    by (rule runs_bind [OF tried [OF runs_atomic_replace [OF h]]], simp, simp)
      (auto intro!: runs_fault_bind(1) runs_return)
qed

lemma commit_transition_answers:
  assumes h: "healthy os root" and json: "json_record E r \<noteq> None" "json_store E nx \<noteq> None"
  shows "rans os f (commit_transition E os root e response r nx) (\<lambda>a. a = Inr (Committed response))"
proof -
  obtain line bs where j: "compact_record_line E r = Some line" "json_store E nx = Some bs"
    using json by (auto simp: compact_record_line_def)
  show ?thesis
    unfolding commit_transition_def j expect_simps
    apply (rule rans_done_bind [OF refl])
    apply (rule rans_done_bind [OF refl])
    apply (rule rans_bind [OF rruns_on_disk [OF runs_append_transition [OF h]]], hypsubst, simp only: sum.case)
    apply (rule rans_bind [OF rruns_on_disk [OF runs_replace_snapshot [OF h]]], hypsubst, simp only: sum.case)
    apply (rule rans_quiet_bind, simp, simp add: returns_hub)
    apply (rule rans_quiet_bind, simp, simp add: returns_hub)
    apply (simp add: rans_return)
    done
qed


section \<open>The whole transition\<close>

lemma finalize_valid:
  assumes env: "hash_nonzero E" and inv: "store_inv E s" and valid: "validate_envelope E e = Inr ()"
    and seq: "cur_sequence (ts_journal_checkpoint s) < MAX_JSON_SAFE_INTEGER"
    and plan: "plan_transition s e = Done p" and rev: "checked_next (ts_store_revision s) = Inr n"
    and fin: "finalize_transition E s p e digest n t = Done (response, r, nx)"
  shows "validate_store E nx = Inr ()"
  using finalize_store_inv [OF inv valid plan rev fin seq] event_hash_nonzero [OF env finalize_Done(6) [OF fin]]
  by (simp add: store_inv_def)

lemma rruns_before_append:
  assumes h: "healthy os root"
  shows "rruns os f (on_disk (hit BeforeJournalAppend)) (\<lambda>stop f'. \<not> stop \<and> f' = f)"
    and "rruns os f (on_disk (prepare_journal_append os root)) (\<lambda>_ _. True)"
  by (rule rruns_on_disk, rule runs_quiet [OF quiet_faults(1)], assumption, simp)
    (simp add: prepare_journal_append_def rruns_on_disk runs_persist(3) [OF h])

lemma apply_transition_answers:
  assumes h: "healthy os root" and env: "hash_nonzero E" and inv: "store_inv E s" and valid: "validate_envelope E e = Inr ()"
    and seq: "cur_sequence (ts_journal_checkpoint s) < MAX_JSON_SAFE_INTEGER"
    and json: "transition_json E s now e"
  shows "rans os f (apply_transition E os root e (env_request_digest_sha256 e) now s) (\<lambda>a. a = decide s now e)"
proof (cases "bt_get (ts_receipts s) (env_receipt_id e)")
  case (Some x)
  then show ?thesis by (auto simp: apply_transition_def decide_def intro!: rans_fail rans_return)
next
  case None
  have planned: "rans os f (pm_bind (pm_lift (finalize_transition E s p e (env_request_digest_sha256 e) n preflight_time))
      (\<lambda>(_, _, nx).
        pm_bind (pm_lift (tres_of (map_err Err_InvalidStore (validate_store E nx)))) (\<lambda>_.
        pm_bind (pm_lift (expect (json_store E nx))) (\<lambda>_.
        pm_bind (on_disk (hit BeforeJournalAppend)) (\<lambda>stop.
        if stop then pm_fail InjectedDefiniteNoWrite
        else pm_bind (on_disk (prepare_journal_append os root)) (\<lambda>_.
          pm_bind (pm_lift (finalize_transition E s p e (env_request_digest_sha256 e) n now))
            (\<lambda>(response, r, next). commit_transition E os root e response r next)))))))
      (\<lambda>a. a = Inr (Committed (planned_response e p n now)))"
    if p: "plan_transition s e = Done p" and n: "checked_next (ts_store_revision s) = Inr n" for p n
  proof -
    have both: "\<exists>re r nx. finalize_transition E s p e (env_request_digest_sha256 e) n t = Done (re, r, nx) \<and>
        json_store E nx \<noteq> None \<and> (t = now \<longrightarrow> json_record E r \<noteq> None)" if "t \<in> {preflight_time, now}" for t
      using json p n that unfolding transition_json_def by blast
    obtain re0 r0 nx0 where pre: "finalize_transition E s p e (env_request_digest_sha256 e) n preflight_time = Done (re0, r0, nx0)"
        and pre_json: "json_store E nx0 \<noteq> None"
      using both [of preflight_time] by auto
    obtain re r nx where fin: "finalize_transition E s p e (env_request_digest_sha256 e) n now = Done (re, r, nx)"
        and fin_json: "json_store E nx \<noteq> None" "json_record E r \<noteq> None"
      using both [of now] by auto
    have re: "re = planned_response e p n now"
      using finalize_Done(1) [OF fin] by (simp add: planned_response_def)
    obtain b0 where b0: "json_store E nx0 = Some b0" using pre_json by blast
    note pre_ok = finalize_valid [OF env inv valid seq p n pre]
    show ?thesis
      unfolding pre fin
      apply (rule rans_done_bind [OF refl], simp only: prod.case pre_ok map_err_simps tres_of_simps b0 expect_simps)
      apply (rule rans_done_bind [OF refl])
      apply (rule rans_done_bind [OF refl])
      apply (rule rans_bind [OF rruns_before_append(1) [OF h]], elim conjE, simp only: if_False)
      apply (rule rans_bind [OF rruns_before_append(2) [OF h]])
      apply (rule rans_done_bind [OF refl], simp only: prod.case)
      apply (rule rans_post [OF commit_transition_answers [OF h fin_json(2,1)]], simp only: re)
      done
  qed
  show ?thesis
    unfolding apply_transition_def None option.case
    apply (rule rans_if, rule rans_fail, simp add: decide_def None)
    apply (rule rans_lift_bind)
      apply (simp add: tres_of_def split: sum.splits)
     apply (cases "checked_next (env_expected_store_revision e)"; simp add: decide_def None)
    apply (rule rans_lift_bind, rule plan_never_panics)
     apply (cases "checked_next (env_expected_store_revision e)"; simp add: decide_def None)
    apply (rule rans_post, rule planned, assumption)
     apply (simp add: res_simps)
    apply (cases "checked_next (env_expected_store_revision e)"; simp add: decide_def None)
    done
qed


lemma clean_load_runs:
  assumes h: "healthy os root" and env: "task_env_ok E" and clean: "clean E f rs" and lock: "tf_lock f \<noteq> None"
    and rec: "reconstruct_store E rs = Done s" and json: "json_store E s \<noteq> None"
  shows "rruns os f (load_locked_recovering E os root) (\<lambda>ls _. ls_store ls = s)"
proof -
  note os = healthy_honest [OF h]
  have codec: "record_codec E" using env by (simp add: task_env_ok_def)
  have at: "journal_at E f rs []" "tf_recovery f = None" and base: "disk_base E f rs" and torn: "torn E f rs []"
    using clean by (auto simp: clean_def torn_def)
  obtain b where b: "(case tf_journal f of None \<Rightarrow> [] | Some c \<Rightarrow> c) = b"
      "parse_journal E b = Inr \<lparr>pj_records = rs, pj_complete_prefix_length = length b, pj_suffix = []\<rparr>"
    using journal_at_parse [OF codec at(1)] by (metis append_Nil2)
  define rj where "rj = \<lparr>rj_records = rs, rj_recovery_applied = False, rj_cleanup_intent = False\<rparr>"
  have recover: "runs os f (recover_journal E os root b None) (\<lambda>x f'. f' = f \<and> x = rj)"
    unfolding recover_journal_def b(2) tres_of_simps
    by (rule runs_lift_bind [OF refl]) (simp add: runs_return rj_def)
  have settle: "runs os f (settle_store E os root loaded rj) (\<lambda>ls _. ls_store ls = s)" for loaded
    by (rule runs_post [OF runs_spec [OF settle_store_runs [OF h] settle_store_spec [OF env base lock]]])
      (use rec json torn in \<open>auto simp: rj_def\<close>)
  show ?thesis
    unfolding load_locked_recovering_def
    apply (rule rruns_bind [OF rruns_on_disk [OF runs_spec [OF read_locked_runs [OF h env clean_disk_at [OF clean]] read_locked_spec [OF os]]]])
    apply (simp only: split_paired_all prod.case Let_def at(2) b(1) option.case)
    apply (elim conjE, hypsubst)
    apply (rule rruns_bind [OF rruns_try [OF rruns_on_disk [OF recover]]])
    apply (auto simp: rruns_on_disk settle split: sum.splits)
    done
qed

lemma locked_transition_answers:
  assumes h: "healthy os root" and env: "task_env_ok E" and clean: "clean E f rs" and lock: "tf_lock f \<noteq> None"
    and rec: "reconstruct_store E rs = Done s" and valid: "validate_envelope E e = Inr ()"
    and seq: "cur_sequence (ts_journal_checkpoint s) < MAX_JSON_SAFE_INTEGER"
    and json: "transition_json E s now e"
  shows "rans os f (pm_bind (or_mark_load_error (load_locked_recovering E os root)) (\<lambda>current.
       pm_bind (mark_load_effects (ls_effects current) (ts_journal_checkpoint (ls_store current))) (\<lambda>_.
       apply_transition E os root e (env_request_digest_sha256 e) now (ls_store current)))) (\<lambda>a. a = decide s now e)"
proof -
  have "json_store E s \<noteq> None" "hash_nonzero E" using json env by (auto simp: transition_json_def task_env_ok_def)
  note answers = apply_transition_answers [OF h this(2) reconstruct_inv [OF rec] valid seq json]
  show ?thesis
    by (rule rans_bind [OF rruns_or_mark [OF clean_load_runs [OF h env clean lock rec \<open>json_store E s \<noteq> None\<close>]]],
      rule rans_quiet_bind, simp, rule returns_effects, simp only:, rule answers)
qed

text \<open>The first transition creates the lock file, after the checks that need no lock.\<close>

lemma try_on_disk: "pm_try (on_disk m) = on_disk (pm_try m)"
  by (auto simp: fun_eq_iff pm_try_def on_disk_def split: prod.splits tres.splits)

lemma rans_failed_bind: "runs os f (pm_try m) (\<lambda>r _. r = Inl e) \<Longrightarrow> Q (Inl e) \<Longrightarrow> rans os f (pm_bind (on_disk m) g) Q"
  unfolding rans_def pm_try_bind try_on_disk
  by (rule rruns_bind [OF rruns_on_disk], assumption) (simp add: rruns_return)

lemma preflight_empty_decides:
  assumes "validate_envelope E e = Inr ()"
  shows "preflight_empty_transition E empty_store e = (case decide empty_store now e of Inl error \<Rightarrow> Fails error | Inr _ \<Rightarrow> Done ())"
proof -
  have valid: "validate_store E (empty_store\<lparr>ts_store_revision := n, ts_tasks := plan_tasks p\<rparr>) = Inr ()"
    if "plan_transition empty_store e = Done p" "checked_next (ts_store_revision empty_store) = Inr n" for p n
  proof -
    have inv: "store_inv E empty_store" by (rule store_inv_empty)
    then have ok: "table_ok (ts_tasks empty_store)" "table_valid E (ts_tasks empty_store)"
        "validate_cursor_shape (ts_journal_checkpoint empty_store) = Inr ()" "ts_receipts empty_store = []"
      using validate_store_iff [of empty_store E] by (auto simp: store_inv_def empty_store_def)
    show ?thesis
      using plan_table_ok [OF ok(1) that(1)] plan_table_valid [OF ok(1,2) assms that(1)] ok(3,4)
      by (simp add: validate_store_iff)
  qed
  have fresh: "bt_get (ts_receipts empty_store) (env_receipt_id e) = None" by (simp add: empty_store_def)
  show ?thesis
    using plan_never_panics [of empty_store e] valid unfolding preflight_empty_transition_def decide_def fresh option.case
    by (cases "ts_store_revision empty_store = env_expected_store_revision e";
      cases "checked_next (env_expected_store_revision e)"; cases "plan_transition empty_store e") simp_all
qed


lemma lock_for_transition_runs:
  assumes h: "healthy os root" and none: "tf_lock f = None" and disk: "disk_at E f rs"
    and pre: "preflight_empty_transition E empty_store e = Done ()"
  shows "runs os f (lock_for_transition E os root e) (\<lambda>_ f'. f' = f\<lparr>tf_lock := Some []\<rparr>)"
proof -
  note os = healthy_honest [OF h]
  have empty: "runs os f (load_without_lock E os root) (\<lambda>s f'. f' = f \<and> s = empty_store)"
    by (rule runs_post [OF runs_spec [OF load_without_lock_runs [OF h disk none] load_without_lock_spec [OF os]]]) simp
  have create: "runs os f (open_lock os root True) (\<lambda>r f'. r \<and> f' = f\<lparr>tf_lock := Some []\<rparr>)"
    by (rule runs_post [OF runs_spec [OF runs_post [OF runs_open_lock [OF h]] open_lock_spec]]) (simp_all add: none)
  show ?thesis
    unfolding lock_for_transition_def
    apply (rule runs_bind [OF runs_open_lock [OF h, of f False, unfolded if_False]], elim conjE, hypsubst)
    apply (simp only: none if_False simp_thms)
    apply (rule runs_bind [where Q = "\<lambda>_ f'. f' = f\<lparr>tf_lock := Some []\<rparr>"])
     apply (rule runs_bind [OF empty], elim conjE, hypsubst)
     apply (rule runs_lift_bind [OF pre])
     apply (rule runs_bind [OF create], elim conjE, simp add: runs_return)
    apply (rule runs_check(5) [OF h], simp)
    done
qed

lemma lock_for_transition_refused:
  assumes h: "healthy os root" and none: "tf_lock f = None" and disk: "disk_at E f rs"
    and pre: "preflight_empty_transition E empty_store e = Fails error"
  shows "runs os f (pm_try (lock_for_transition E os root e)) (\<lambda>r _. r = Inl error)"
proof -
  have empty: "runs os f (load_without_lock E os root) (\<lambda>s f'. f' = f \<and> s = empty_store)"
    by (rule runs_post [OF runs_spec [OF load_without_lock_runs [OF h disk none] load_without_lock_spec [OF healthy_honest [OF h]]]]) simp
  have attempt: "runs os f m P \<Longrightarrow> (\<And>x f'. P x f' \<Longrightarrow> runs os f' (pm_try (g x)) (\<lambda>r _. r = Inl error)) \<Longrightarrow>
      runs os f (pm_try (pm_bind m g)) (\<lambda>r _. r = Inl error)" for m :: "'a pm" and g :: "'a \<Rightarrow> 'b pm" and P
    unfolding pm_try_bind by (rule runs_bind [OF runs_try], assumption) (auto split: sum.splits)
  show ?thesis
    unfolding lock_for_transition_def
    apply (rule attempt [OF runs_open_lock [OF h, of f False, unfolded if_False]], elim conjE, hypsubst)
    apply (simp only: none if_False simp_thms pm_bind_assoc)
    apply (rule attempt [OF empty], elim conjE, hypsubst)
    apply (simp add: pre runs_def triple_def pm_try_def pm_bind_def pm_lift_def)
    done
qed


lemma clean_without_lock:
  assumes env: "record_codec E" and clean: "clean E f rs" and none: "tf_lock f = None"
  shows "rs = []" and "clean E (f\<lparr>tf_lock := Some []\<rparr>) rs"
proof -
  have "tf_journal f = None" using clean none by (simp add: clean_def disk_base_def)
  then have "parse_journal E [] = Inr \<lparr>pj_records = rs, pj_complete_prefix_length = 0, pj_suffix = []\<rparr>"
    using clean journal_at_parse [OF env, of f rs "[]"] unfolding clean_def torn_def by (metis append_Nil2 list.size(3) option.case(1))
  then show "rs = []" by (simp add: parse_journal_def)
  show "clean E (f\<lparr>tf_lock := Some []\<rparr>) rs"
    using clean by (simp add: clean_def torn_def disk_base_def snapshot_at_def journal_at_def)
qed

lemma transition_body_answers:
  assumes h: "healthy os root" and env: "task_env_ok E" and clean: "clean E f rs"
    and rec: "reconstruct_store E rs = Done s" and valid: "validate_envelope E e = Inr ()"
    and digest: "canonical_command_digest E e = Inr (env_request_digest_sha256 e)"
    and seq: "cur_sequence (ts_journal_checkpoint s) < MAX_JSON_SAFE_INTEGER"
    and json: "transition_json E s now e"
  shows "rans os f (transition_body E os root now e) (\<lambda>a. a = decide s now e)"
proof -
  note locked = locked_transition_answers [OF h env _ _ rec valid seq json]
  have body: "rans os f (pm_bind (on_disk (lock_for_transition E os root e)) (\<lambda>_.
       pm_bind (or_mark_load_error (load_locked_recovering E os root)) (\<lambda>current.
       pm_bind (mark_load_effects (ls_effects current) (ts_journal_checkpoint (ls_store current))) (\<lambda>_.
       apply_transition E os root e (env_request_digest_sha256 e) now (ls_store current))))) (\<lambda>a. a = decide s now e)"
  proof (cases "tf_lock f = None")
    case False
    have "runs os f (lock_for_transition E os root e) (\<lambda>_ f'. f' = f)"
      unfolding lock_for_transition_def
      by (rule runs_bind [OF runs_open_lock [OF h, of f False, unfolded if_False]], elim conjE, hypsubst)
        (simp add: False pm_return_bind runs_check(5) [OF h])
    then show ?thesis
      by (rule rans_bind [OF rruns_on_disk], hypsubst) (rule locked [OF clean False])
  next
    case True
    have codec: "record_codec E" using env by (simp add: task_env_ok_def)
    note fresh = clean_without_lock [OF codec clean True]
    have s: "s = empty_store" using rec fresh(1) by (simp add: reconstruct_store_def)
    note pre = preflight_empty_decides [OF valid, of now]
    show ?thesis
    proof (cases "decide s now e")
      case (Inl error)
      then show ?thesis
        using pre s by (intro rans_failed_bind [OF lock_for_transition_refused [OF h True clean_disk_at [OF clean]]]) auto
    next
      case (Inr outcome)
      then have "preflight_empty_transition E empty_store e = Done ()" using pre s by simp
      from lock_for_transition_runs [OF h True clean_disk_at [OF clean] this] show ?thesis
        by (rule rans_bind [OF rruns_on_disk], hypsubst) (rule locked [OF fresh(2)], simp)
    qed
  qed
  show ?thesis
    unfolding transition_body_def valid digest
    apply (simp only: map_err_simps tres_of_simps)
    apply (rule rans_done_bind [OF refl])
    apply (rule rans_done_bind [OF refl])
    apply (rule rans_if, simp)
    apply (rule rans_bind [OF rruns_on_disk [OF runs_check(1) [OF h, where Q = "\<lambda>_ f'. f' = f"]]], rule refl, simp only:)
    apply (rule body)
    done
qed

lemma transition_answers:
  assumes "healthy os root" and "task_env_ok E" and "clean E f rs" and "reconstruct_store E rs = Done s"
    and "validate_envelope E e = Inr ()" and "canonical_command_digest E e = Inr (env_request_digest_sha256 e)"
    and "cur_sequence (ts_journal_checkpoint s) < MAX_JSON_SAFE_INTEGER" and "transition_json E s now e"
  shows "rruns os f (transition E os root now e)
    (\<lambda>outcome _. outcome = (case decide s now e of Inl error \<Rightarrow> NoWrite error | Inr outcome \<Rightarrow> outcome))"
  unfolding transition_def
  by (rule rruns_bind [OF transition_body_answers [OF assms, unfolded rans_def]], rule rruns_return) simp

end
