(* ===== verification/Task_Examples.thy ===== *)
theory Task_Examples
  imports Task_Answer
begin

text \<open>
  A small Task Service that runs: a task is drafted, published, cancelled, and drafted again. The
  JSON of the run is a table of the values that occur in it, the digest is a constant.
\<close>

section \<open>Code equations\<close>

lemma validate_specification_code [code]:
  "validate_specification E spec =
     (if int (length (spec_opaque_contract spec)) > 1048576 then Inl SpecificationTooLarge
      else if sha256_bytes E (spec_opaque_contract spec) \<noteq> spec_contract_sha256 spec
      then Inl SpecificationHashMismatch
      else Inr ())"
  by (simp add: validate_specification_def MAX_SPECIFICATION_BYTES_def)

lemma hex_encode_code [code]:
  "hex_encode [] = []"
  "hex_encode (c # cs) = (if c = CHR 0x01 then ''01''
     else [hex_digit (code c div 16), hex_digit (code c mod 16)]) @ hex_encode cs"
  by (simp_all add: hex_encode_def hex_digit_def char_of_def bit_iff_odd)

section \<open>Tables as codecs\<close>

definition line_enc :: "'a list \<Rightarrow> 'a \<Rightarrow> bytes option" where
  "line_enc xs x = map_option (\<lambda>n. replicate (Suc n) (CHR ''x'')) (table_index xs x)"

definition line_dec :: "'a list \<Rightarrow> bytes \<Rightarrow> 'a option" where
  "line_dec xs bs = (if bs \<noteq> [] \<and> length bs \<le> length xs then Some (xs ! (length bs - 1)) else None)"

lemma line_roundtrip: "line_enc xs x = Some bs \<Longrightarrow> bs \<noteq> [] \<and> newline \<notin> set bs \<and> line_dec xs bs = Some x"
  by (auto simp: line_enc_def line_dec_def newline_def dest: table_index_Some)

definition table_env :: "JournalRecord list \<Rightarrow> TaskStore list \<Rightarrow> RecoveryIntent list \<Rightarrow> task_env" where
  "table_env rs ss js = \<lparr>sha256_digest = (\<lambda>_. replicate 32 (CHR 0x01)), json_envelope = (\<lambda>_. Some []),
     json_event = (\<lambda>_. Some []), json_record = line_enc rs, parse_record = line_dec rs,
     json_store = line_enc ss, parse_store = line_dec ss, json_intent = line_enc js, parse_intent = line_dec js,
     base64_encode = (\<lambda>bs. bs), base64_decode = (\<lambda>bs. Some bs)\<rparr>"

lemma table_env_ok: "task_env_ok (table_env rs ss js)"
proof -
  have "hex_encode (replicate 32 (CHR 0x01)) \<noteq> zero_sha256" by code_simp
  then show ?thesis
    by (auto simp: task_env_ok_def record_codec_def store_codec_def intent_codec_def base64_codec_def
      hash_nonzero_def table_env_def dest: line_roundtrip)
qed

section \<open>A healthy operating system\<close>

definition tx_meta :: "bool \<Rightarrow> metadata" where
  "tx_meta dir = \<lparr>md_is_file = (\<not> dir), md_is_dir = dir, md_uid = 0,
     md_mode = (if dir then 0x1C0 else 0x180), md_dev = 1, md_ino = 1\<rparr>"

definition tx_os :: task_os where
  "tx_os = \<lparr>os_answers = (\<lambda>_. \<lparr>os_error = None, os_eloop_or_enotdir = False, os_stored = 0,
       os_root_meta = tx_meta True, os_file_meta = tx_meta False\<rparr>),
     os_unique = (\<lambda>n. replicate n (CHR ''u'')), geteuid = 0\<rparr>"

lemma tx_honest: "honest tx_os"
  by (simp add: honest_def tx_os_def)

definition tx_root :: RootHandle where
  "tx_root = \<lparr>root_path = ''/r'', root_device = 1, root_inode = 1\<rparr>"

definition tx_repo :: "directory \<Rightarrow> repo_state" where
  "tx_repo d = \<lparr>rp_disk = \<lparr>ps_dir = d, ps_tick = 0, ps_fault = None\<rparr>, rp_observed = genesis,
     rp_hub = [], rp_subs = (\<lambda>_. None), rp_next = 0\<rparr>"

section \<open>The run\<close>

definition tx_hash :: Sha256 where
  "tx_hash = hex_encode (replicate 32 (CHR 0x01))"

definition tx_spec :: "u64 \<Rightarrow> TaskSpecification" where
  "tx_spec n = \<lparr>spec_task_id = ''t1'', spec_task_revision = n, spec_contract_sha256 = tx_hash,
     spec_opaque_contract = ''do''\<rparr>"

definition tx_envelope :: "id \<Rightarrow> u64 \<Rightarrow> AttemptFence option \<Rightarrow> TaskCommand \<Rightarrow> TransitionEnvelope" where
  "tx_envelope k n f c = \<lparr>env_receipt_id = k, env_request_digest_sha256 = tx_hash,
     env_expected_store_revision = n, env_fence = f, env_command = c\<rparr>"

definition tx_create :: TransitionEnvelope where
  "tx_create = tx_envelope ''r1'' 1 None (CreateDraft (tx_spec 1))"

definition tx_publish :: TransitionEnvelope where
  "tx_publish = tx_envelope ''r2'' 2 None (Publish \<lparr>pub_task_id = ''t1'', pub_task_revision = 1,
     pub_attempt_token = ''tok'', pub_owner_session_id = ''s1'', pub_owner_durable_revision = 1,
     pub_runtime_generation = 1, pub_runtime_agent_id = ''a1''\<rparr>)"

definition tx_fence :: AttemptFence where
  "tx_fence = \<lparr>fence_task_id = ''t1'', fence_task_revision = 1, fence_attempt_number = 1,
     fence_attempt_token = ''tok'', fence_owner_session_id = ''s1'', fence_runtime_generation = 1\<rparr>"

definition tx_cancel :: TransitionEnvelope where
  "tx_cancel = tx_envelope ''r3'' 3 (Some tx_fence) (CancelPublished
     \<lparr>ev_external_receipt_id = None, ev_observed_at = None, ev_evidence_sha256 = None\<rparr>)"

definition tx_again :: TransitionEnvelope where
  "tx_again = tx_envelope ''r4'' 4 None (CreateDraft (tx_spec 2))"

definition tx_now :: Rfc3339 where "tx_now = ''2026-01-01T00:00:00Z''"

definition tx_step :: "Rfc3339 \<Rightarrow> TaskStore \<Rightarrow> TransitionEnvelope \<Rightarrow> (TransitionResponse \<times> JournalRecord \<times> TaskStore) option" where
  "tx_step now s e = (case plan_transition s e of
     Done p \<Rightarrow> (case finalize_transition (table_env [] [] []) s p e tx_hash (ts_store_revision s + 1) now of
       Done x \<Rightarrow> Some x | _ \<Rightarrow> None) | _ \<Rightarrow> None)"

definition tx_rec :: "TaskStore \<Rightarrow> TransitionEnvelope \<Rightarrow> JournalRecord" where
  "tx_rec s e = fst (snd (the (tx_step tx_now s e)))"

definition tx_next :: "Rfc3339 \<Rightarrow> TaskStore \<Rightarrow> TransitionEnvelope \<Rightarrow> TaskStore" where
  "tx_next now s e = snd (snd (the (tx_step now s e)))"

definition tx_s2 :: TaskStore where "tx_s2 = tx_next tx_now empty_store tx_create"
definition tx_s3 :: TaskStore where "tx_s3 = tx_next tx_now tx_s2 tx_publish"
definition tx_s4 :: TaskStore where "tx_s4 = tx_next tx_now tx_s3 tx_cancel"
definition tx_s5 :: TaskStore where "tx_s5 = tx_next tx_now tx_s4 tx_again"

definition tx_records :: "JournalRecord list" where
  "tx_records = [tx_rec empty_store tx_create, tx_rec tx_s2 tx_publish, tx_rec tx_s3 tx_cancel, tx_rec tx_s4 tx_again]"

definition tx_env :: task_env where
  "tx_env = table_env tx_records
     [empty_store, tx_next preflight_time empty_store tx_create, tx_s2, tx_next preflight_time tx_s2 tx_publish,
      tx_s3, tx_next preflight_time tx_s3 tx_cancel, tx_s4, tx_next preflight_time tx_s4 tx_again, tx_s5] []"

lemma tx_env_ok: "task_env_ok tx_env"
  unfolding tx_env_def by (rule table_env_ok)

lemma tx_reconstruct: "reconstruct_store tx_env tx_records = Done tx_s5"
  by code_simp

lemma tx_reconstruct_3: "reconstruct_store tx_env (take 3 tx_records) = Done tx_s4"
  by code_simp

lemma tx_reconstruct_2: "reconstruct_store tx_env (take 2 tx_records) = Done tx_s3"
  by code_simp

lemma tx_chained: "chained tx_env 0 zero_sha256 tx_records"
  by code_simp

lemma tx_transition:
  "fst (transition tx_env tx_os tx_root tx_now tx_create (tx_repo (\<lambda>_. None))) =
     Done (Committed (fst (the (tx_step tx_now empty_store tx_create))))"
  by code_simp

section \<open>Recovery of a torn journal\<close>

lemma tx_healthy: "healthy tx_os tx_root"
proof -
  have "and (0x1C0 :: 32 word) 0xFFF = 0x1C0" "and (0x180 :: 32 word) 0xFFF = 0x180" by code_simp+
  then show ?thesis by (auto simp: healthy_def tx_os_def tx_root_def tx_meta_def)
qed

lemma tx_calm: "(\<forall>n. d (temp_name tx_os n) = None) \<Longrightarrow> calm tx_os (rp_disk (tx_repo d))"
  by (simp add: calm_def tx_repo_def)

text \<open>A journal of one record, and the first byte of the next one.\<close>

definition tl_rs :: "JournalRecord list" where
  "tl_rs = [tx_rec empty_store tx_create]"

definition tl_intent :: RecoveryIntent where
  "tl_intent = (case intent_from_suffix (table_env [] [] [])
     \<lparr>pj_records = tl_rs, pj_complete_prefix_length = 2, pj_suffix = ''y''\<rparr> of Inr i \<Rightarrow> i)"

definition tl_record :: JournalRecord where
  "tl_record = (case recovery_record (table_env [] [] []) tl_intent (last_store_revision tl_rs) of Inr r \<Rightarrow> r)"

definition tl_store :: TaskStore where
  "tl_store = tx_s2\<lparr>ts_journal_checkpoint := record_cursor tl_record\<rparr>"

definition tl_env :: task_env where
  "tl_env = table_env (tl_rs @ [tl_record]) [tx_s2, tl_store] [tl_intent]"

definition tl_dir :: directory where
  "tl_dir = [LOCK_FILE \<mapsto> [], JOURNAL_FILE \<mapsto> [CHR ''x'', newline, CHR ''y'']]"

lemma tl_files: "disk_files (tx_repo tl_dir) =
    \<lparr>tf_lock = Some [], tf_journal = Some [CHR ''x'', newline, CHR ''y''], tf_snapshot = None, tf_recovery = None\<rparr>"
  by (simp add: disk_files_def tx_repo_def files_def tl_dir_def LOCK_FILE_def JOURNAL_FILE_def SNAPSHOT_FILE_def RECOVERY_FILE_def)

lemma tl_facts:
  "journal_bytes tl_env tl_rs = Some [CHR ''x'', newline]"
  "reconstruct_store tl_env tl_rs = Done tx_s2"
  "reconstruct_store tl_env (tl_rs @ [tl_record]) = Done tl_store"
  "chained tl_env 0 zero_sha256 tl_rs"
  "json_store tl_env tx_s2 \<noteq> None" "json_store tl_env tl_store \<noteq> None" "json_intent tl_env tl_intent \<noteq> None"
  "intent_from_suffix tl_env \<lparr>pj_records = tl_rs, pj_complete_prefix_length = 2, pj_suffix = ''y''\<rparr> = Inr tl_intent"
  "recovery_record tl_env tl_intent (last_store_revision tl_rs) = Inr tl_record"
  "compact_record_line tl_env tl_record \<noteq> None"
  by code_simp+

lemma tl_disk: "disk_at tl_env (disk_files (tx_repo tl_dir)) tl_rs"
  using tl_facts(1,2,4) by (auto simp: disk_at_def disk_base_def snapshot_at_def torn_def journal_at_def tl_files newline_def)

lemma tl_json: "recovery_json tl_env (disk_files (tx_repo tl_dir)) tl_rs"
proof -
  have only: "i = tl_intent" if i: "disk_intent tl_env (disk_files (tx_repo tl_dir)) tl_rs i" for i
  proof -
    obtain sfx where sfx: "intent_of tl_env tl_rs sfx i" "journal_at tl_env (disk_files (tx_repo tl_dir)) tl_rs sfx"
      using i by (auto simp: disk_intent_def tl_files)
    then have "sfx = ''y''" using tl_facts(1) by (auto simp: journal_at_def tl_files)
    with sfx(1) tl_facts(1,8) show ?thesis by (simp add: intent_of_def numeral_2_eq_2)
  qed
  have "json_intent tl_env tl_intent \<noteq> None \<and> (\<exists>r line. recovery_of tl_env tl_rs tl_intent r line \<and>
      (\<forall>s. reconstruct_store tl_env (tl_rs @ [r]) = Done s \<longrightarrow> json_store tl_env s \<noteq> None))"
    using tl_facts unfolding recovery_of_def by auto
  with only tl_facts(2,5) show ?thesis unfolding recovery_json_def by (metis tres.inject(1))
qed

section \<open>The JSON of a transition\<close>

definition json_checked :: "task_env \<Rightarrow> TaskStore \<Rightarrow> Rfc3339 \<Rightarrow> TransitionEnvelope \<Rightarrow> PlannedTransition \<Rightarrow> u64 \<Rightarrow> Rfc3339 \<Rightarrow> bool" where
  "json_checked E s now e p n t =
     (case finalize_transition E s p e (env_request_digest_sha256 e) n t of
        Done (re, r, nx) \<Rightarrow> json_store E nx \<noteq> None \<and> (t = now \<longrightarrow> json_record E r \<noteq> None) | _ \<Rightarrow> False)"

lemma transition_json_code [code]:
  "transition_json E s now e \<longleftrightarrow> json_store E s \<noteq> None \<and>
     (case plan_transition s e of
        Done p \<Rightarrow> (case checked_next (ts_store_revision s) of
          Inr n \<Rightarrow> json_checked E s now e p n preflight_time \<and> json_checked E s now e p n now | _ \<Rightarrow> True)
      | _ \<Rightarrow> True)"
proof -
  have "json_checked E s now e p n t \<longleftrightarrow> (\<exists>re r nx.
      finalize_transition E s p e (env_request_digest_sha256 e) n t = Done (re, r, nx) \<and>
      json_store E nx \<noteq> None \<and> (t = now \<longrightarrow> json_record E r \<noteq> None))" for p n t
    unfolding json_checked_def by (cases "finalize_transition E s p e (env_request_digest_sha256 e) n t") auto
  note checked = this [symmetric]
  show ?thesis
    unfolding transition_json_def checked
    by (cases "plan_transition s e"; cases "checked_next (ts_store_revision s)") auto
qed

lemma tx_json: "transition_json tx_env empty_store tx_now tx_create"
  by code_simp

end
