(* ===== verification/Task_Claims.thy ===== *)
theory Task_Claims
  imports Task_Examples
begin

text \<open>
  The properties of the Task Service: its phase machine and fences, the invariant of the store, the
  journal as a hash chain that determines the store, crash safety and exactly-once commits over
  whole histories, pages and subscriptions.
\<close>

lemma done_case: "(case r of Done x \<Rightarrow> P x | _ \<Rightarrow> False) \<Longrightarrow> \<exists>x. r = Done x \<and> P x"
  by (cases r) auto

lemma tx_plan_cancel:
  "case plan_transition tx_s3 tx_cancel of Done p \<Rightarrow> plan_prior_phase p = Some Published | _ \<Rightarrow> False"
  by code_simp

section \<open>The phase machine\<close>

text \<open>The lifecycle of one revision of a task, as a graph of phases.\<close>

fun phase_successors :: "TaskPhase \<Rightarrow> TaskPhase list" where
  "phase_successors Draft = [Published, Cancelled]"
| "phase_successors Published = [Delivered, Cancelled]"
| "phase_successors Delivered = [Accepted, Rejected, Cancelled]"
| "phase_successors Accepted = [Running, Cancelled]"
| "phase_successors Running = [Waiting, Blocked, ReviewReady, Completed, Failed, Cancelled]"
| "phase_successors Waiting = [Running, Blocked, Cancelled]"
| "phase_successors Blocked = [Running, Cancelled]"
| "phase_successors ReviewReady = [Completed, Failed, Cancelled]"
| "phase_successors Completed = []"
| "phase_successors Failed = []"
| "phase_successors Cancelled = []"
| "phase_successors Rejected = []"

lemma lifecycle_end: "phase_successors phase = [] \<longleftrightarrow> is_terminal phase"
  by (cases phase) (simp_all add: is_terminal_def)

lemma command_edge_lifecycle: "command_edge c = Some (a, b) \<Longrightarrow> b \<in> set (phase_successors a)"
  by (cases c) auto

lemma plan_lifecycle:
  assumes "plan_transition s e = Done p" and "plan_prior_phase p = Some phase"
  shows "plan_resulting_phase p \<in> set (phase_successors phase)"
  using assms(1)
proof (cases rule: plan_Done_cases)
  case (create spec)
  then show ?thesis using plan_create_Done [OF create(3)] assms(2) by auto
next
  case (publish c)
  then show ?thesis using assms(2) by (auto elim: plan_publish_Done)
next
  case (cancel c)
  then show ?thesis using assms(2) by (auto elim: plan_cancel_Done)
next
  case fenced
  then show ?thesis using assms(2) by (auto elim!: plan_attempt_Done dest: command_edge_lifecycle)
qed

text \<open>
  C23: A planned transition follows the lifecycle graph: the phase it results in is the one its
  command names, and a successor of the phase the task was in (or \<open>Draft\<close> for a revision that did
  not exist). It changes the record of that one task revision and no other.
\<close>

theorem task_phase_machine:
  assumes "plan_transition s e = Done p"
  shows "plan_resulting_phase p = command_resulting_phase (env_command e) \<and>
    (case plan_prior_phase p of
       None \<Rightarrow> task_get (ts_tasks s) (plan_task_id p) (plan_task_revision p) = None \<and> plan_resulting_phase p = Draft
     | Some phase \<Rightarrow>
         map_option task_phase (task_get (ts_tasks s) (plan_task_id p) (plan_task_revision p)) = Some phase \<and>
         plan_resulting_phase p \<in> set (phase_successors phase)) \<and>
    map_option task_phase (task_get (plan_tasks p) (plan_task_id p) (plan_task_revision p)) =
      Some (plan_resulting_phase p) \<and>
    (\<forall>t n. (t, n) \<noteq> (plan_task_id p, plan_task_revision p) \<longrightarrow>
       task_get (plan_tasks p) t n = task_get (ts_tasks s) t n)"
proof -
  obtain r' where r': "plan_replaces (ts_tasks s) p r'"
    using plan_replaces_one [OF assms] by blast
  have draft: "plan_resulting_phase p = Draft" if "plan_prior_phase p = None"
    using assms
    by (cases rule: plan_Done_cases)
      (use that in \<open>auto elim!: plan_publish_Done plan_cancel_Done plan_attempt_Done dest: plan_create_Done\<close>)
  show ?thesis
    using r' draft plan_lifecycle [OF assms] plan_resulting [OF assms]
    by (auto simp: plan_replaces_def table_simps split: option.splits)
qed

theorem task_phase_machine_witness:
  "\<exists>p. plan_transition tx_s3 tx_cancel = Done p \<and> plan_prior_phase p = Some Published \<and>
     plan_resulting_phase p = command_resulting_phase (env_command tx_cancel)"
proof -
  obtain p where p: "plan_transition tx_s3 tx_cancel = Done p" "plan_prior_phase p = Some Published"
    using done_case [OF tx_plan_cancel] by blast
  with task_phase_machine [OF p(1)] show ?thesis by blast
qed

text \<open>
  C24: Once a revision has an attempt, only the holder of that attempt moves it: a transition that
  is planned for it carries a fence with the number, token, owner and runtime generation of the
  attempt.
\<close>

theorem task_attempt_fenced:
  assumes "store_inv E s" and "plan_transition s e = Done p"
    and "task_get (ts_tasks s) (plan_task_id p) (plan_task_revision p) = Some r"
    and "task_attempt r = Some a"
  shows "\<exists>f. env_fence e = Some f \<and> fence_task_id f = plan_task_id p \<and>
    fence_task_revision f = plan_task_revision p \<and> fence_attempt_number f = att_attempt_number a \<and>
    fence_attempt_token f = att_attempt_token a \<and> fence_owner_session_id f = att_owner_session_id a \<and>
    fence_runtime_generation f = att_runtime_generation a"
  using assms(2)
proof (cases rule: plan_Done_cases)
  case (create spec)
  then show ?thesis using plan_create_Done [OF create(3)] assms(3) by auto
next
  case (publish c)
  then show ?thesis
    using assms(3,4) record_ok_draft [OF table_valid_get [OF store_inv_table [OF assms(1)]]]
    by (elim plan_publish_Done) fastforce
next
  case (cancel c)
  then show ?thesis
    using assms(3,4) record_ok_draft [OF table_valid_get [OF store_inv_table [OF assms(1)]]]
    by (elim plan_cancel_Done) fastforce
next
  case fenced
  then show ?thesis
    using assms(3,4) by (elim plan_attempt_Done) (auto simp: fence_matches_def)
qed

theorem task_attempt_fenced_witness:
  "\<exists>p r a f. plan_transition tx_s3 tx_cancel = Done p \<and>
     task_get (ts_tasks tx_s3) (plan_task_id p) (plan_task_revision p) = Some r \<and> task_attempt r = Some a \<and>
     env_fence tx_cancel = Some f \<and> fence_runtime_generation f = att_runtime_generation a"
proof -
  have "case plan_transition tx_s3 tx_cancel of
      Done p \<Rightarrow> (case task_get (ts_tasks tx_s3) (plan_task_id p) (plan_task_revision p) of
        Some r \<Rightarrow> task_attempt r \<noteq> None | None \<Rightarrow> False) | _ \<Rightarrow> False"
    by code_simp
  then obtain p r a where p: "plan_transition tx_s3 tx_cancel = Done p"
      "task_get (ts_tasks tx_s3) (plan_task_id p) (plan_task_revision p) = Some r" "task_attempt r = Some a"
    by (auto split: tres.splits option.splits)
  have "store_inv tx_env tx_s3"
    by (rule reconstruct_inv [OF tx_reconstruct_2])
  from task_attempt_fenced [OF this p] p show ?thesis by blast
qed

text \<open>
  C25: A task revision that has ended never changes again: whatever records follow in the journal,
  its record stays as it is.
\<close>

theorem task_terminal_absorbing:
  assumes "reconstruct_store E rs = Done s" and "reconstruct_store E (rs @ later) = Done s'"
    and "task_get (ts_tasks s) t n = Some r" and "is_terminal (task_phase r)"
  shows "task_get (ts_tasks s') t n = Some r"
  by (rule reconstruct_from_terminal [OF reconstruct_append_from [OF assms(2,1)] assms(3,4)])

theorem task_terminal_absorbing_witness:
  "\<exists>r. task_get (ts_tasks tx_s4) ''t1'' 1 = Some r \<and> task_phase r = Cancelled \<and>
     task_get (ts_tasks tx_s5) ''t1'' 1 = Some r"
proof -
  have "map_option task_phase (task_get (ts_tasks tx_s4) ''t1'' 1) = Some Cancelled" by code_simp
  then obtain r where r: "task_get (ts_tasks tx_s4) ''t1'' 1 = Some r" "task_phase r = Cancelled" by auto
  have "reconstruct_store tx_env (take 3 tx_records @ drop 3 tx_records) = Done tx_s5"
    using tx_reconstruct by simp
  from task_terminal_absorbing [OF tx_reconstruct_3 this r(1)] r show ?thesis
    by (auto simp: is_terminal_def)
qed

text \<open>
  Compare-and-swap on the store revision loses no update: while the revision is the same, the
  tasks and receipts are the same, whatever was recovered in between. So a transition, which is
  refused unless its expected revision is the current one, acts on the tasks its sender saw.
\<close>

theorem task_no_lost_update:
  assumes "reconstruct_store E rs = Done s" and "reconstruct_store E (rs @ later) = Done s'"
    and "ts_store_revision s = ts_store_revision s'"
  shows "ts_tasks s' = ts_tasks s \<and> ts_receipts s' = ts_receipts s"
  using task_runs.steps_holder [OF reconstruct_from_steps [OF reconstruct_append_from [OF assms(2,1)]]
    reconstruct_inv [OF assms(1)]] assms(3) by simp

definition tx_tail :: JournalRecord where
  "tx_tail = \<lparr>jr_sequence = 5, jr_previous_event_sha256 = tx_hash, jr_event_sha256 = tx_hash,
     jr_store_revision = 5, jr_event = SystemJournalTailRecovered
       \<lparr>tail_discarded_byte_count = 1, tail_discarded_suffix_sha256 = tx_hash\<rparr>\<rparr>"

theorem task_no_lost_update_witness:
  "\<exists>s'. reconstruct_store tx_env (tx_records @ [tx_tail]) = Done s' \<and> s' \<noteq> tx_s5 \<and>
     ts_store_revision s' = 5 \<and> ts_tasks s' = ts_tasks tx_s5 \<and> ts_receipts s' = ts_receipts tx_s5"
proof -
  have "case reconstruct_store tx_env (tx_records @ [tx_tail]) of
      Done s' \<Rightarrow> s' \<noteq> tx_s5 \<and> ts_store_revision s' = 5 \<and> ts_store_revision tx_s5 = ts_store_revision s' | _ \<Rightarrow> False"
    by code_simp
  then obtain s' where s': "reconstruct_store tx_env (tx_records @ [tx_tail]) = Done s'" "s' \<noteq> tx_s5"
      "ts_store_revision s' = 5" "ts_store_revision tx_s5 = ts_store_revision s'"
    using done_case [of "\<lambda>s'. s' \<noteq> tx_s5 \<and> ts_store_revision s' = 5 \<and> ts_store_revision tx_s5 = ts_store_revision s'"] by blast
  from task_no_lost_update [OF tx_reconstruct s'(1,4)] s' show ?thesis by blast
qed

section \<open>The store\<close>

text \<open>
  C22: Every store rebuilt from a journal is valid: it passes \<open>validate_store\<close>, a task has at most one
  revision that has not ended, and that one is the latest, and an attempt token belongs to one
  revision of one task.
\<close>

theorem task_store_invariant:
  assumes "reconstruct_store E rs = Done s"
  shows "validate_store E s = Inr () \<and>
    (\<forall>t n r n' r'. task_get (ts_tasks s) t n = Some r \<and> \<not> is_terminal (task_phase r) \<and>
       task_get (ts_tasks s) t n' = Some r' \<longrightarrow> n' \<le> n) \<and>
    (\<forall>t n r a t' n' r' a'. task_get (ts_tasks s) t n = Some r \<and> task_attempt r = Some a \<and>
       task_get (ts_tasks s) t' n' = Some r' \<and> task_attempt r' = Some a' \<and>
       att_attempt_token a = att_attempt_token a' \<longrightarrow> t = t' \<and> n = n')"
proof -
  note inv = reconstruct_inv [OF assms]
  have "table_valid E (ts_tasks s)" "tokens_unique (ts_tasks s)" "validate_store E s = Inr ()"
    using store_inv_table [OF inv] inv by (auto simp: store_inv_def)
  then show ?thesis
    unfolding table_valid_def tokens_unique_def by blast
qed

theorem task_store_invariant_witness:
  "validate_store tx_env tx_s5 = Inr () \<and> \<not> (\<exists>n r. task_get (ts_tasks tx_s5) ''t1'' n = Some r \<and> 2 < n)"
proof -
  have "map_option task_phase (task_get (ts_tasks tx_s5) ''t1'' 2) = Some Draft" by code_simp
  then obtain r where "task_get (ts_tasks tx_s5) ''t1'' 2 = Some r" "\<not> is_terminal (task_phase r)"
    by (auto simp: is_terminal_def)
  with task_store_invariant [OF tx_reconstruct] show ?thesis
    using leD by blast
qed

text \<open>
  C21: The incremental update and the replay agree: the store that \<open>finalize_transition\<close> computes is
  the one that \<open>reconstruct_store\<close> gives for the journal extended by the new record, and the
  extended journal is again a hash chain.
\<close>

theorem task_update_refines_replay:
  assumes "reconstruct_store E rs = Done s" and "chained E 0 zero_sha256 rs"
    and "bt_get (ts_receipts s) (env_receipt_id e) = None"
    and "env_expected_store_revision e = ts_store_revision s"
    and "canonical_command_digest E e = Inr (env_request_digest_sha256 e)"
    and "plan_transition s e = Done p" and "checked_next (ts_store_revision s) = Inr n"
    and "finalize_transition E s p e (env_request_digest_sha256 e) n at = Done (response, r, s')"
    and "validate_store E s' = Inr ()"
  shows "reconstruct_store E (rs @ [r]) = Done s' \<and> chained E 0 zero_sha256 (rs @ [r])"
  using finalize_reconstruct [OF assms] by blast

theorem task_update_refines_replay_witness:
  "\<exists>r s'. r = tx_rec tx_s4 tx_again \<and> s' = tx_s5 \<and>
     reconstruct_store tx_env (take 3 tx_records @ [r]) = Done s' \<and> chained tx_env 0 zero_sha256 (take 3 tx_records @ [r])"
proof -
  have plan: "case plan_transition tx_s4 tx_again of Done p \<Rightarrow>
      finalize_transition tx_env tx_s4 p tx_again (env_request_digest_sha256 tx_again) 5 tx_now
        = Done (fst (the (tx_step tx_now tx_s4 tx_again)), tx_rec tx_s4 tx_again, tx_s5) | _ \<Rightarrow> False"
    by code_simp
  have rest: "chained tx_env 0 zero_sha256 (take 3 tx_records)"
    "bt_get (ts_receipts tx_s4) (env_receipt_id tx_again) = None"
    "env_expected_store_revision tx_again = ts_store_revision tx_s4"
    "canonical_command_digest tx_env tx_again = Inr (env_request_digest_sha256 tx_again)"
    "checked_next (ts_store_revision tx_s4) = Inr 5" "validate_store tx_env tx_s5 = Inr ()"
    by code_simp+
  obtain p where p: "plan_transition tx_s4 tx_again = Done p"
      "finalize_transition tx_env tx_s4 p tx_again (env_request_digest_sha256 tx_again) 5 tx_now
        = Done (fst (the (tx_step tx_now tx_s4 tx_again)), tx_rec tx_s4 tx_again, tx_s5)"
    using done_case [OF plan] by blast
  from task_update_refines_replay [OF tx_reconstruct_3 rest(1-4) p(1) rest(5) p(2) rest(6)] show ?thesis by blast
qed

section \<open>The journal\<close>

lemma chained_links:
  assumes "chained E 0 zero_sha256 rs" and "i < length rs"
  shows "jr_previous_event_sha256 (rs ! i) = (if i = 0 then zero_sha256 else jr_event_sha256 (rs ! (i - 1))) \<and>
    event_hash E (jr_sequence (rs ! i)) (jr_previous_event_sha256 (rs ! i)) (jr_store_revision (rs ! i))
      (jr_event (rs ! i)) = Inr (jr_event_sha256 (rs ! i))"
proof -
  have "chained E 0 zero_sha256 (take i rs @ rs ! i # drop (Suc i) rs)"
    using assms by (simp add: id_take_nth_drop [symmetric])
  then have "check_record E (length (take i rs)) (chain_end zero_sha256 (take i rs)) (rs ! i) = Inr ()"
    by (simp only: chained_append chained.simps add_0)
  moreover have "chain_end zero_sha256 (take i rs) = (if i = 0 then zero_sha256 else jr_event_sha256 (rs ! (i - 1)))"
    using assms(2) by (auto simp: chain_end_def take_last_nth min_def)
  ultimately show ?thesis
    unfolding check_record_Inr by metis
qed

text \<open>
  C26: Reading a journal gives back what was written: the lines of a chain of records, followed by
  any torn line, parse to exactly these records, the length of the complete lines and the torn
  rest.
\<close>

theorem task_journal_roundtrip:
  assumes "record_codec E" and "journal_bytes E rs = Some bs" and "chained E 0 zero_sha256 rs"
    and "newline \<notin> set torn_line"
  shows "parse_journal E (bs @ torn_line) =
    Inr \<lparr>pj_records = rs, pj_complete_prefix_length = length bs, pj_suffix = torn_line\<rparr>"
  by (rule parse_journal_printed [OF assms])

theorem task_journal_roundtrip_witness:
  "\<exists>bs. journal_bytes tx_env tx_records = Some bs \<and> parse_journal tx_env (bs @ ''{'') =
     Inr \<lparr>pj_records = tx_records, pj_complete_prefix_length = length bs, pj_suffix = ''{''\<rparr>"
proof -
  have "journal_bytes tx_env tx_records \<noteq> None" by code_simp
  then obtain bs where bs: "journal_bytes tx_env tx_records = Some bs" by blast
  have "record_codec tx_env" using tx_env_ok by (simp add: task_env_ok_def)
  from task_journal_roundtrip [OF this bs tx_chained, of "''{''"] bs show ?thesis
    by (simp add: newline_def)
qed

text \<open>
  C27: Whatever bytes the journal file holds, if they parse then the records are numbered 1, 2, 3
  and so on up to at most $2^{53} - 1$, each carries the hash of its predecessor (the first one the
  zero hash) and the hash of its own content, and the rest of the file has no complete line.
\<close>

theorem task_journal_chain:
  assumes "parse_journal E bs = Inr p"
  shows "newline \<notin> set (pj_suffix p) \<and> (\<forall>i < length (pj_records p).
      unat (jr_sequence (pj_records p ! i)) = Suc i \<and> Suc i \<le> 9007199254740991 \<and>
      jr_previous_event_sha256 (pj_records p ! i) =
        (if i = 0 then zero_sha256 else jr_event_sha256 (pj_records p ! (i - 1))) \<and>
      event_hash E (jr_sequence (pj_records p ! i)) (jr_previous_event_sha256 (pj_records p ! i))
        (jr_store_revision (pj_records p ! i)) (jr_event (pj_records p ! i))
          = Inr (jr_event_sha256 (pj_records p ! i)))"
proof -
  have chain: "chained E 0 zero_sha256 (pj_records p)" and "newline \<notin> set (pj_suffix p)"
    using parse_journal_chained [OF assms] by auto
  with chained_sequence [OF chain] chained_links [OF chain] show ?thesis by blast
qed

theorem task_journal_chain_witness:
  "\<exists>bs p. journal_bytes tx_env tx_records = Some bs \<and> parse_journal tx_env bs = Inr p \<and>
     unat (jr_sequence (pj_records p ! 3)) = 4 \<and>
     jr_previous_event_sha256 (pj_records p ! 3) = jr_event_sha256 (pj_records p ! 2)"
proof -
  have "journal_bytes tx_env tx_records \<noteq> None" by code_simp
  then obtain bs where bs: "journal_bytes tx_env tx_records = Some bs" by blast
  have "record_codec tx_env" using tx_env_ok by (simp add: task_env_ok_def)
  from parse_journal_printed [OF this bs tx_chained, of "[]"]
  have p: "parse_journal tx_env bs = Inr \<lparr>pj_records = tx_records, pj_complete_prefix_length = length bs, pj_suffix = []\<rparr>"
    by simp
  have "3 < length tx_records" by code_simp
  with task_journal_chain [OF p] bs p show ?thesis by simp
qed

section \<open>Histories\<close>

lemma distinct_count_list: "distinct xs \<Longrightarrow> x \<in> set xs \<Longrightarrow> count_list xs x = 1"
  by (induction xs) (auto simp: count_list_0_iff)

text \<open>The first transition of the concrete run, answered twice, and a load after it.\<close>

definition tx_response :: TransitionResponse where
  "tx_response = fst (the (tx_step tx_now empty_store tx_create))"

definition tx_done :: repo_state where
  "tx_done = snd (transition tx_env tx_os tx_root tx_now tx_create (tx_repo (\<lambda>_. None)))"

lemma tx_committed:
  "transition tx_env tx_os tx_root tx_now tx_create (tx_repo (\<lambda>_. None)) = (Done (Committed tx_response), tx_done)"
  using tx_transition by (simp add: tx_done_def tx_response_def prod_eq_iff)

lemma tx_retry:
  "fst (transition tx_env tx_os tx_root ''later'' tx_create tx_done) = Done (Committed tx_response)"
  by code_simp

lemma tx_load: "fst (load tx_env tx_os tx_root tx_done) = Done tx_s2"
  by code_simp

lemma tx_history: "history tx_env [(tx_create, Committed tx_response)] (disk_files tx_done)"
proof -
  have "history tx_env [] (disk_files (tx_repo (\<lambda>_. None)))"
    using history.fresh by (simp add: disk_files_def tx_repo_def)
  from history.answered [OF this tx_honest tx_committed] show ?thesis by simp
qed

text \<open>
  C11: Crash safety. After any history of transitions and loads, by any processes, with any failures
  of the operating system, any injected fault and any process stopped anywhere, a load that
  succeeds returns the store that its journal determines; that store is valid, and it holds the
  receipt of every transition that was ever answered \<open>Committed\<close>, with the response that was
  given.
\<close>

theorem task_history_durable:
  assumes "task_env_ok E" and "history E h (disk_files st)" and "honest os"
    and "load E os root st = (Done s, st')"
  shows "validate_store E s = Inr () \<and> (\<exists>rs. reconstruct_store E rs = Done s \<and> clean E (disk_files st') rs) \<and>
    (\<forall>e response. (e, Committed response) \<in> set h \<longrightarrow>
       map_option rec_response (bt_get (ts_receipts s) (env_receipt_id e)) = Some response)"
proof -
  obtain rs where rs: "disk_at E (disk_files st) rs" "kept E h rs"
    using history_disk [OF assms(1,2)] by blast
  obtain rs' where rs': "system_ext rs rs'" "clean E (disk_files st') rs'" "reconstruct_store E rs' = Done s"
    using rtriple_run [OF load_spec [OF assms(1,3) rs(1)] assms(4)] by auto
  obtain ts where ts: "rs' = rs @ ts" using system_ext_append [OF rs'(1)] by blast
  have "kept E h rs'"
    using kept_append [OF rs(2)] clean_disk_at [OF rs'(2)] unfolding ts by blast
  then have "\<forall>e response. (e, Committed response) \<in> set h \<longrightarrow>
       map_option rec_response (bt_get (ts_receipts s) (env_receipt_id e)) = Some response"
    using rs'(3) by (fastforce simp: kept_def receipt_of_def)
  moreover have "validate_store E s = Inr ()"
    using reconstruct_inv [OF rs'(3)] by (simp add: store_inv_def)
  ultimately show ?thesis using rs'(2,3) by blast
qed

theorem task_history_durable_witness:
  "\<exists>st'. load tx_env tx_os tx_root tx_done = (Done tx_s2, st') \<and> validate_store tx_env tx_s2 = Inr () \<and>
     map_option rec_response (bt_get (ts_receipts tx_s2) (env_receipt_id tx_create)) = Some tx_response"
proof -
  obtain st' where run: "load tx_env tx_os tx_root tx_done = (Done tx_s2, st')"
    using tx_load by (metis prod.collapse)
  from task_history_durable [OF tx_env_ok tx_history tx_honest run] run show ?thesis by simp
qed

text \<open>
  C12: Exactly once. Two transitions of a history that were answered \<open>Committed\<close> under the same
  receipt were the same request and got the same response, and the journal has one record for the
  receipt.
\<close>

theorem task_history_exactly_once:
  assumes "task_env_ok E" and "history E h f"
    and "(e, Committed response) \<in> set h" and "(e', Committed response') \<in> set h"
    and "env_receipt_id e = env_receipt_id e'"
  shows "response = response' \<and> env_request_digest_sha256 e = env_request_digest_sha256 e' \<and>
    (\<exists>rs. disk_at E f rs \<and> count_list (journal_receipts rs) (env_receipt_id e) = 1)"
proof -
  obtain rs where rs: "disk_at E f rs" "kept E h rs"
    using history_disk [OF assms(1,2)] by blast
  have r: "receipt_of E rs e response" "receipt_of E rs e' response'"
    using rs(2) assms(3,4) by (auto simp: kept_def)
  then obtain s where s: "reconstruct_store E rs = Done s" "bt_get (ts_receipts s) (env_receipt_id e) \<noteq> None"
    by (auto simp: receipt_of_def)
  have "count_list (journal_receipts rs) (env_receipt_id e) = 1"
    using journal_receipts_store [OF s(1)] s(2) by (simp add: distinct_count_list)
  with r rs(1) assms(5) show ?thesis
    by (auto simp: receipt_of_def)
qed

theorem task_history_exactly_once_witness:
  "\<exists>f rs. history tx_env [(tx_create, Committed tx_response), (tx_create, Committed tx_response)] f \<and>
     disk_at tx_env f rs \<and> count_list (journal_receipts rs) (env_receipt_id tx_create) = 1"
proof -
  obtain st' where run: "transition tx_env tx_os tx_root ''later'' tx_create tx_done = (Done (Committed tx_response), st')"
    using tx_retry by (metis prod.collapse)
  have h: "history tx_env [(tx_create, Committed tx_response), (tx_create, Committed tx_response)] (disk_files st')"
    using history.answered [OF tx_history tx_honest run] by simp
  from task_history_exactly_once [OF tx_env_ok h, of tx_create tx_response tx_create tx_response] h
  show ?thesis by auto
qed

text \<open>
  C13: What the outcome of one transition means. From a disk that holds the records \<open>rs\<close>, a call
  never returns an error other than as an outcome. The disk then holds \<open>rs\<close>, possibly one record of
  a recovered tail, and after that at most the record of this envelope. \<open>Committed\<close> means that the
  receipt is on disk, \<open>NoWrite\<close> that no record of the envelope was written; a panic leaves at
  most the recovery behind.
\<close>

theorem task_transition_outcome:
  assumes "task_env_ok E" and "honest os" and "disk_at E (disk_files st) rs"
    and "transition E os root now e st = (r, st')"
  shows "case r of
      Done outcome \<Rightarrow> (\<exists>rs1 rs2. system_ext rs rs1 \<and> transition_ext e rs1 rs2 \<and> disk_at E (disk_files st') rs2 \<and>
        (case outcome of
           Committed response \<Rightarrow> receipt_of E rs2 e response
         | NoWrite _ \<Rightarrow> rs2 = rs1
         | Outcome_PersistenceUnknown _ _ \<Rightarrow> True))
    | Fails _ \<Rightarrow> False
    | Panics \<Rightarrow> (\<exists>rs1. system_ext rs rs1 \<and> disk_at E (disk_files st') rs1)"
proof -
  have never: "r \<noteq> Fails x" for x
    using assms(4) by (auto simp: transition_def pm_bind_def pm_try_def pm_return_def split: prod.splits tres.splits)
  show ?thesis
    using rtriple_run [OF transition_spec [OF assms(1-3)] assms(4)] never
    by (auto simp: transition_result_def transition_done_def disk_from_def
      split: tres.splits TransitionOutcome.splits)
qed

theorem task_transition_outcome_witness:
  "\<exists>rs1 rs2. system_ext [] rs1 \<and> transition_ext tx_create rs1 rs2 \<and> disk_at tx_env (disk_files tx_done) rs2 \<and>
     receipt_of tx_env rs2 tx_create tx_response"
proof -
  have "disk_at tx_env (disk_files (tx_repo (\<lambda>_. None))) []"
    using disk_at_fresh by (simp add: disk_files_def tx_repo_def)
  from task_transition_outcome [OF tx_env_ok tx_honest this tx_committed] show ?thesis by simp
qed

section \<open>Answers\<close>

text \<open>
  C20: Recovery succeeds: on a machine whose system calls succeed, a load of any disk that a crash or
  a fault can leave behind returns a store, even when the journal ends in a torn record or an earlier
  recovery was cut short. The store is that of the records on disk, extended at most by the record of
  the recovered tail, and the disk is consistent again. The JSON writer is assumed to accept what the
  recovery writes, and the journal to be shorter than \<open>MAX_JSON_SAFE_INTEGER\<close> bytes.
\<close>

theorem task_recovery_liveness:
  assumes "healthy os root" and "calm os (rp_disk st)" and "task_env_ok E" and "disk_at E (disk_files st) rs"
    and "recovery_json E (disk_files st) rs" and "journal_small (disk_files st)"
  shows "\<exists>s st' rs'. load E os root st = (Done s, st') \<and> calm os (rp_disk st') \<and> system_ext rs rs' \<and>
    clean E (disk_files st') rs' \<and> reconstruct_store E rs' = Done s"
proof -
  obtain s st' where run: "load E os root st = (Done s, st')" and calm: "calm os (rp_disk st')"
    using rruns_run [OF load_runs [OF assms(1,3,4,5,6)] assms(2)] by blast
  then show ?thesis
    using rtriple_run [OF load_spec [OF assms(3) healthy_honest [OF assms(1)] assms(4)] run] by auto
qed

theorem task_recovery_liveness_witness:
  "\<exists>s st' rs'. load tl_env tx_os tx_root (tx_repo tl_dir) = (Done s, st') \<and> calm tx_os (rp_disk st') \<and>
     system_ext tl_rs rs' \<and> clean tl_env (disk_files st') rs' \<and> reconstruct_store tl_env rs' = Done s"
proof (rule task_recovery_liveness [OF tx_healthy tx_calm _ tl_disk tl_json])
  show "\<forall>n. tl_dir (temp_name tx_os n) = None"
    by (simp add: tl_dir_def)
  show "task_env_ok tl_env" unfolding tl_env_def by (rule table_env_ok)
  show "journal_small (disk_files (tx_repo tl_dir))" by (simp add: journal_small_def tl_files)
qed

text \<open>
  C19: What a transition answers: on a machine whose system calls succeed, when no recovery is due,
  the outcome of a well-formed envelope is a function of the stored tasks and receipts alone. A
  receipt that is stored is answered with its response, or refused when its digest differs; a stale
  store revision, a revision overflow and every error of the plan are refusals without a write; in
  all other cases the planned transition is committed and its response returned.
\<close>

theorem task_transition_decides:
  assumes "healthy os root" and "calm os (rp_disk st)" and "task_env_ok E" and "clean E (disk_files st) rs"
    and "reconstruct_store E rs = Done s" and "validate_envelope E e = Inr ()"
    and "canonical_command_digest E e = Inr (env_request_digest_sha256 e)"
    and "cur_sequence (ts_journal_checkpoint s) < MAX_JSON_SAFE_INTEGER" and "transition_json E s now e"
  shows "\<exists>st'. transition E os root now e st =
    (Done (case decide s now e of Inl error \<Rightarrow> NoWrite error | Inr outcome \<Rightarrow> outcome), st')"
  using rruns_run [OF transition_answers [OF assms(1,3-9)] assms(2)] by blast

theorem task_transition_decides_witness:
  "\<exists>st'. transition tx_env tx_os tx_root tx_now tx_create (tx_repo (\<lambda>_. None)) =
    (Done (case decide empty_store tx_now tx_create of Inl error \<Rightarrow> NoWrite error | Inr outcome \<Rightarrow> outcome), st')"
proof (rule task_transition_decides [OF tx_healthy tx_calm tx_env_ok, where rs = "[]"])
  show "clean tx_env (disk_files (tx_repo (\<lambda>_. None))) []"
    by (simp add: clean_def disk_base_def torn_def journal_at_def snapshot_at_def disk_files_def tx_repo_def files_def
      reconstruct_store_def)
  show "validate_envelope tx_env tx_create = Inr ()" by code_simp
  show "canonical_command_digest tx_env tx_create = Inr (env_request_digest_sha256 tx_create)" by code_simp
  show "cur_sequence (ts_journal_checkpoint empty_store) < MAX_JSON_SAFE_INTEGER" by code_simp
qed (simp_all add: reconstruct_store_def tx_json)

section \<open>Readers\<close>

text \<open>
  C28: A page holds the next deliverable records after its cursor, in journal order and at most
  \<open>limit\<close> of them; it reports the head exactly when nothing deliverable remains; its continuation
  cursor is valid, and the deliverable records after it are those the page left out.
\<close>

theorem task_page_exact:
  assumes "chained E 0 zero_sha256 rs" and "hash_nonzero E"
    and "page_records rs q = Inr page" and "pg_limit q \<noteq> 0"
  defines "out \<equiv> filter (\<lambda>r. deliverable r (pg_task_id q)) (drop (unat (cur_sequence (pg_cursor q))) rs)"
  shows "page_events_list page = take (unat (pg_limit q)) out \<and>
    (page_reached_head page \<longleftrightarrow> length out \<le> unat (pg_limit q)) \<and>
    validate_cursor rs (page_continuation page) = Inr () \<and>
    filter (\<lambda>r. deliverable r (pg_task_id q)) (drop (unat (cur_sequence (page_continuation page))) rs)
      = drop (unat (pg_limit q)) out"
  unfolding out_def using page_records_Inr [OF assms(3)] page_records_continues [OF assms(1-4)] by simp

definition tx_page_request :: EventPageRequest where
  "tx_page_request = \<lparr>pg_cursor = genesis, pg_task_id = Some ''t1'', pg_limit = 3\<rparr>"

lemma tx_hash_nonzero: "hash_nonzero tx_env" "record_codec tx_env"
  using tx_env_ok by (simp_all add: task_env_ok_def)

theorem task_page_exact_witness:
  "\<exists>page. page_records tx_records tx_page_request = Inr page \<and> page_events_list page = take 3 tx_records \<and>
     \<not> page_reached_head page"
proof -
  obtain page where page: "page_records tx_records tx_page_request = Inr page"
    using page_records_valid [of tx_records tx_page_request]
    by (auto simp: tx_page_request_def validate_cursor_def validate_cursor_shape_def genesis_def)
  have out: "filter (\<lambda>r. deliverable r (pg_task_id tx_page_request))
      (drop (unat (cur_sequence (pg_cursor tx_page_request))) tx_records) = tx_records"
    by code_simp
  have l: "pg_limit tx_page_request \<noteq> 0" "unat (pg_limit tx_page_request) = 3" "length tx_records = 4"
    by code_simp+
  from task_page_exact [OF tx_chained tx_hash_nonzero(1) page l(1)] page show ?thesis
    unfolding out l by simp
qed

text \<open>
  C29: A reader that follows the continuation cursors reaches the head: with more requests than
  there are records left, it has received every deliverable record after its first cursor, once
  and in order.
\<close>

theorem task_paging_terminates:
  assumes "chained E 0 zero_sha256 rs" and "hash_nonzero E" and "validate_page_request q = Inr ()"
    and "validate_cursor rs (pg_cursor q) = Inr ()" and "length rs < fuel"
  shows "page_walk fuel rs q =
    Some (Inr (filter (\<lambda>r. deliverable r (pg_task_id q)) (drop (unat (cur_sequence (pg_cursor q))) rs)))"
proof (rule page_walk_complete [OF assms(1,2) _ assms(4)])
  show "pg_limit q \<noteq> 0"
    using assms(3) by (auto simp: validate_page_request_def res_simps split: if_splits)
  show "length (wanted (pg_task_id q) (drop (unat (cur_sequence (pg_cursor q))) rs)) < fuel"
    using assms(5) length_filter_le [of "\<lambda>r. deliverable r (pg_task_id q)" "drop (unat (cur_sequence (pg_cursor q))) rs"]
    by simp
qed

theorem task_paging_terminates_witness: "page_walk 5 tx_records tx_page_request = Some (Inr tx_records)"
proof -
  have out: "filter (\<lambda>r. deliverable r (pg_task_id tx_page_request))
      (drop (unat (cur_sequence (pg_cursor tx_page_request))) tx_records) = tx_records"
    "validate_page_request tx_page_request = Inr ()"
    "validate_cursor tx_records (pg_cursor tx_page_request) = Inr ()" "length tx_records < 5"
    by code_simp+
  from task_paging_terminates [OF tx_chained tx_hash_nonzero(1) out(2-4)] show ?thesis unfolding out(1) .
qed

text \<open>
  Reading events never writes: whatever the operating system does, a \<open>page_events\<close> call leaves
  the four files as they are, and when it answers, the page is the page of the records on disk.
\<close>

theorem task_page_events_read_only:
  assumes "record_codec E" and "honest os" and "disk_at E (disk_files st) rs" and "hub_ok st"
    and "page_events E os root q st = (r, st')"
  shows "disk_files st' = disk_files st \<and> (\<forall>page. r = Done page \<longrightarrow> page_records rs q = Inr page)"
  using triple_run [OF page_events_reads [OF assms(1-3), unfolded reads_def, of root q] _ assms(5)] assms(4)
  by auto

theorem task_page_events_read_only_witness:
  "\<exists>st'. page_events tx_env tx_os tx_root tx_page_request (tx_repo (\<lambda>_. None)) =
      (Done \<lparr>page_events_list = [], page_continuation = genesis, page_reached_head = True\<rparr>, st') \<and>
    disk_files st' = disk_files (tx_repo (\<lambda>_. None)) \<and>
    page_records [] tx_page_request = Inr \<lparr>page_events_list = [], page_continuation = genesis, page_reached_head = True\<rparr>"
proof -
  have "fst (page_events tx_env tx_os tx_root tx_page_request (tx_repo (\<lambda>_. None))) =
      Done \<lparr>page_events_list = [], page_continuation = genesis, page_reached_head = True\<rparr>"
    by code_simp
  then obtain st' where run: "page_events tx_env tx_os tx_root tx_page_request (tx_repo (\<lambda>_. None)) =
      (Done \<lparr>page_events_list = [], page_continuation = genesis, page_reached_head = True\<rparr>, st')"
    by (metis prod.collapse)
  have d: "disk_at tx_env (disk_files (tx_repo (\<lambda>_. None))) []" "hub_ok (tx_repo (\<lambda>_. None))"
    using disk_at_fresh by (simp_all add: disk_files_def tx_repo_def hub_ok_def)
  from task_page_events_read_only [OF tx_hash_nonzero(2) tx_honest d run] run show ?thesis by blast
qed

text \<open>
  C30: A subscription has no gap. When \<open>page_and_subscribe\<close> answers with a page and a subscription,
  the events of the page followed by the events received later are a prefix of the deliverable
  records after the cursor: those on disk, then those broadcast. While no resynchronisation is
  asked for, nothing is missing but what is still queued, and the queue stays within the
  capacity. The receiver is told once to resynchronise, and is disconnected from then on.
\<close>

theorem task_subscription_no_gap:
  assumes "record_codec E" and "honest os" and "disk_at E (disk_files st) rs" and "hub_ok st"
    and "page_and_subscribe E os root q st = (Done (page, Some i), st')" and "Drop i \<notin> set ops"
  shows "\<exists>inner rest.
    rp_subs (watch_run ops st') i = Some inner \<and> length (si_queue inner) \<le> unat (sub_capacity q) \<and>
    filter (\<lambda>r. deliverable r (pg_task_id (sub_page q)))
      (drop (unat (cur_sequence (pg_cursor (sub_page q)))) rs @ broadcasts ops) =
      page_events_list page @ events (answers i ops st') @ si_queue inner @ rest \<and>
    (si_terminal inner = None \<longrightarrow> rest = []) \<and>
    well_told False (answers i ops st')"
proof -
  let ?q = "sub_page q"
  have run: "page_records rs ?q = Inr page" "page_reached_head page"
    and sub: "subscribed i st' \<lparr>si_cursor = page_continuation page, si_task_id = pg_task_id ?q,
        si_capacity = unat (sub_capacity q), si_queue = [], si_terminal = None,
        si_terminal_delivered = False, si_alive = True\<rparr>" (is "subscribed i st' ?inner")
    using page_and_subscribe_run [OF assms(1-5)] by auto
  have fresh: "sees (page_continuation page) (pg_task_id ?q) (unat (sub_capacity q)) [] [] False ?inner"
    by (simp add: sees_def)
  obtain inner told where after: "subscribed i (watch_run ops st') inner"
      "sees (page_continuation page) (pg_task_id ?q) (unat (sub_capacity q)) (broadcasts ops)
         (events (answers i ops st')) told inner" "well_told False (answers i ops st')"
    using watch_sees [OF sub fresh assms(6)] by auto
  then obtain rest where rest: "wanted (pg_task_id ?q) (broadcasts ops) = events (answers i ops st') @ si_queue inner @ rest"
      "si_terminal inner = None \<longrightarrow> rest = []" "length (si_queue inner) \<le> unat (sub_capacity q)"
    by (auto simp: sees_def)
  have "page_events_list page = wanted (pg_task_id ?q) (drop (unat (cur_sequence (pg_cursor ?q))) rs)"
    using page_records_Inr [OF run(1)] run(2) by simp
  with rest after show ?thesis
    by (intro exI [of _ inner] exI [of _ rest]) (simp add: subscribed_def)
qed

definition tx_subscription :: SubscriptionRequest where
  "tx_subscription = \<lparr>sub_page = tx_page_request, sub_capacity = 2\<rparr>"

theorem task_subscription_no_gap_witness:
  "\<exists>page st' (inner :: SubscriptionInner) rest. page_and_subscribe tx_env tx_os tx_root tx_subscription (tx_repo (\<lambda>_. None))
      = (Done (page, Some 0), st') \<and>
    tx_records = page_events_list page @
      events (answers 0 (map Broadcast tx_records @ [Receive 0]) st') @ si_queue inner @ rest \<and>
    length (si_queue inner) \<le> 2"
proof -
  have "fst (page_and_subscribe tx_env tx_os tx_root tx_subscription (tx_repo (\<lambda>_. None))) =
      Done (\<lparr>page_events_list = [], page_continuation = genesis, page_reached_head = True\<rparr>, Some 0)"
    by code_simp
  then obtain page st' where run: "page_and_subscribe tx_env tx_os tx_root tx_subscription (tx_repo (\<lambda>_. None)) =
      (Done (page, Some 0), st')"
    by (metis prod.collapse)
  have d: "disk_at tx_env (disk_files (tx_repo (\<lambda>_. None))) []" "hub_ok (tx_repo (\<lambda>_. None))"
    using disk_at_fresh by (simp_all add: disk_files_def tx_repo_def hub_ok_def)
  have ops: "Drop 0 \<notin> set (map Broadcast tx_records @ [Receive 0])" by auto
  have sent: "filter (\<lambda>r. deliverable r (pg_task_id (sub_page tx_subscription)))
      (drop (unat (cur_sequence (pg_cursor (sub_page tx_subscription)))) [] @
        broadcasts (map Broadcast tx_records @ [Receive 0])) = tx_records"
    "unat (sub_capacity tx_subscription) = 2"
    by code_simp+
  from task_subscription_no_gap [OF tx_hash_nonzero(2) tx_honest d run ops] run show ?thesis
    unfolding sent by blast
qed

end
