(* ===== verification/Bus_Model.thy ===== *)
theory Bus_Model
  imports Release_Template Task_Model
begin

text \<open>
  The data of the agent bus: \<open>agent_bus/model.rs\<close>, \<open>delivery.rs\<close>, the identity helpers of
  \<open>identity.rs\<close> and the parts of a durable session record that routing reads
  (\<open>session/model.rs\<close>). JSON values and UUID parsing come from libraries: the printer of a JSON
  value, the conversion of the protected payloads into JSON and the UUID parser are the fields of
  \<open>bus_env\<close>.
\<close>

datatype Value =
    Value_Null
  | Value_Bool bool
  | Value_Number bytes
  | Value_String bytes
  | Value_Array "Value list"
  | Value_Object "(bytes \<times> Value) list"

section \<open>Delivery modes\<close>

datatype AgentDeliveryMode = AfterTurn | Soon | Passive | Delivery_Interrupt

definition delivery_triggers_turn :: "AgentDeliveryMode \<Rightarrow> bool" where
  "delivery_triggers_turn m \<longleftrightarrow> m \<noteq> Passive"

fun delivery_label :: "AgentDeliveryMode \<Rightarrow> bytes" where
  "delivery_label AfterTurn = ''after-turn''"
| "delivery_label Soon = ''soon''"
| "delivery_label Passive = ''passive''"
| "delivery_label Delivery_Interrupt = ''interrupt''"

text \<open>\<open>agent_delivery_mode_from_flags\<close>; \<open>None\<close> is the error.\<close>

definition agent_delivery_mode_from_flags :: "bool \<Rightarrow> bool \<Rightarrow> bool \<Rightarrow> AgentDeliveryMode option" where
  "agent_delivery_mode_from_flags queue_only soon interrupt =
     (if length (filter (\<lambda>selected. selected) [queue_only, soon, interrupt]) > 1 then None
      else if queue_only then Some Passive
      else if soon then Some Soon
      else if interrupt then Some Delivery_Interrupt
      else Some AfterTurn)"

section \<open>Kinds\<close>

datatype AgentMessageKind = Kind_Agent | Kind_User | Kind_Owner | Kind_TaskServiceSystem

datatype UserSubmitMode = Submit_Queue | NextToolCall | Submit_Interrupt

datatype AgentBusEnvelopeKind = Envelope_Message | Envelope_Control

datatype AgentGroupUpdateMode = Groups_Set | Groups_Add | Groups_Remove

text \<open>The derived \<open>Debug\<close> texts that enter the deduplication key.\<close>

fun envelope_kind_debug :: "AgentBusEnvelopeKind \<Rightarrow> bytes" where
  "envelope_kind_debug Envelope_Message = ''Message''"
| "envelope_kind_debug Envelope_Control = ''Control''"

fun message_kind_debug :: "AgentMessageKind \<Rightarrow> bytes" where
  "message_kind_debug Kind_Agent = ''Agent''"
| "message_kind_debug Kind_User = ''User''"
| "message_kind_debug Kind_Owner = ''Owner''"
| "message_kind_debug Kind_TaskServiceSystem = ''TaskServiceSystem''"

fun submit_mode_debug :: "UserSubmitMode \<Rightarrow> bytes" where
  "submit_mode_debug Submit_Queue = ''Queue''"
| "submit_mode_debug NextToolCall = ''NextToolCall''"
| "submit_mode_debug Submit_Interrupt = ''Interrupt''"

definition submit_mode_option_debug :: "UserSubmitMode option \<Rightarrow> bytes" where
  "submit_mode_option_debug m =
     (case m of None \<Rightarrow> ''None'' | Some m \<Rightarrow> ''Some('' @ submit_mode_debug m @ '')'')"

section \<open>Agents, messages and sends\<close>

record AgentBusAgent =
  ag_id :: bytes
  ag_name :: bytes
  ag_base_name :: "bytes option"
  ag_thread_name :: "bytes option"
  ag_path_key :: "bytes option"
  ag_session_id :: "bytes option"
  ag_cutex_session_id :: "bytes option"
  ag_profile :: bytes
  ag_cwd :: bytes
  ag_pid :: "32 word"
  ag_host_id :: "bytes option"
  ag_groups :: "bytes list"
  ag_registration_class :: AgentRegistrationClass
  ag_last_seen_epoch_secs :: u64

record AgentBusRegisterRequest =
  reg_id :: bytes
  reg_name :: bytes
  reg_base_name :: "bytes option"
  reg_thread_name :: "bytes option"
  reg_path_key :: "bytes option"
  reg_session_id :: "bytes option"
  reg_profile :: bytes
  reg_cwd :: bytes
  reg_pid :: "32 word"
  reg_host_id :: "bytes option"
  reg_groups :: "bytes list"
  reg_registration_class :: AgentRegistrationClass

record AgentBusMessage =
  msg_id :: bytes
  msg_kind :: AgentBusEnvelopeKind
  msg_from :: bytes
  msg_to :: bytes
  msg_from_cutex_session_id :: "bytes option"
  msg_to_cutex_session_id :: "bytes option"
  msg_content :: bytes
  msg_delivery_mode :: AgentDeliveryMode
  msg_trigger_turn :: bool
  msg_created_at_epoch_secs :: u64
  msg_sender_kind :: AgentMessageKind
  msg_display_source :: "bytes option"
  msg_submit_mode :: "UserSubmitMode option"
  msg_control_type :: "bytes option"
  msg_control_payload :: "Value option"
  msg_external_action_id :: "bytes option"
  msg_external_message_id :: "bytes option"

record AgentBusRecentSend =
  snd_id :: bytes
  snd_kind :: AgentBusEnvelopeKind
  snd_from :: bytes
  snd_to :: bytes
  snd_to_name :: bytes
  snd_delivery_mode :: AgentDeliveryMode
  snd_trigger_turn :: bool
  snd_queued :: bool
  snd_created_at_epoch_secs :: u64
  snd_sender_kind :: AgentMessageKind
  snd_display_source :: "bytes option"
  snd_submit_mode :: "UserSubmitMode option"
  snd_control_type :: "bytes option"
  snd_control_payload :: "Value option"
  snd_external_action_id :: "bytes option"
  snd_external_message_id :: "bytes option"

record AgentBusSendOutcome =
  out_record :: AgentBusRecentSend
  out_deduplicated :: bool

section \<open>Protected Task Service messages\<close>

definition TASK_SERVICE_ASSIGNMENT_CONTRACT_MAX_BYTES :: nat where
  "TASK_SERVICE_ASSIGNMENT_CONTRACT_MAX_BYTES = 256 * 1024"

datatype TaskServiceAssignmentContractError =
    Contract_Missing
  | Contract_Empty
  | Contract_TooLarge nat nat
  | Contract_DigestMismatch
  | SummaryDuplicatesContract

definition validate_task_service_assignment_contract ::
  "task_env \<Rightarrow> bytes \<Rightarrow> Sha256 \<Rightarrow> TaskServiceAssignmentContractError + unit" where
  "validate_task_service_assignment_contract E contract expected_sha256 =
     (if contract = [] then Inl Contract_Empty
      else if length contract > TASK_SERVICE_ASSIGNMENT_CONTRACT_MAX_BYTES
      then Inl (Contract_TooLarge (length contract) TASK_SERVICE_ASSIGNMENT_CONTRACT_MAX_BYTES)
      else if sha256_bytes E contract \<noteq> expected_sha256 then Inl Contract_DigestMismatch
      else Inr ())"

definition validate_task_service_assignment_summary ::
  "bytes \<Rightarrow> bytes \<Rightarrow> TaskServiceAssignmentContractError + unit" where
  "validate_task_service_assignment_summary summary contract =
     (if str_find summary contract \<noteq> None then Inl SummaryDuplicatesContract else Inr ())"

record TaskServiceAssignmentMetadata =
  am_schema :: bytes
  am_project_id :: "id option"
  am_coordinator_cutex_session :: "id option"
  am_assignment_id :: id
  am_task_id :: id
  am_task_revision :: u64
  am_contract_sha256 :: Sha256
  am_opaque_contract :: "bytes option"
  am_send_attempt_id :: id

definition validate_contract_if_present ::
  "task_env \<Rightarrow> TaskServiceAssignmentMetadata \<Rightarrow> TaskServiceAssignmentContractError + bytes option" where
  "validate_contract_if_present E m = (case am_opaque_contract m of
     None \<Rightarrow> Inr None
   | Some contract \<Rightarrow>
       res_bind (validate_task_service_assignment_contract E contract (am_contract_sha256 m)) (\<lambda>_.
       Inr (Some contract)))"

definition require_valid_contract ::
  "task_env \<Rightarrow> TaskServiceAssignmentMetadata \<Rightarrow> TaskServiceAssignmentContractError + bytes" where
  "require_valid_contract E m =
     res_bind (validate_contract_if_present E m) (\<lambda>contract. ok_or Contract_Missing contract)"

datatype CompletionNotificationKind =
    Notify_ReviewReady | Notify_Blocked | Notify_Declined | Notify_AttemptAborted | Notify_RetriesExhausted
  | Notify_OwnerActionRequired | Notify_TerminalClosure

record TaskServiceCompletionMetadata =
  cm_schema :: bytes
  cm_project_id :: "id option"
  cm_notification_id :: id
  cm_assignment_id :: id
  cm_task_id :: id
  cm_task_revision :: u64
  cm_attempt_number :: "u64 option"
  cm_transition_action_id :: id
  cm_kind :: CompletionNotificationKind
  cm_target_seat_id :: id

record TaskServiceWorkerFollowupMetadata =
  fm_schema :: bytes
  fm_project_id :: "id option"
  fm_notification_id :: id
  fm_assignment_id :: id
  fm_task_id :: id
  fm_task_revision :: u64
  fm_attempt_number :: u64
  fm_decision_reference :: bytes

datatype TaskWatchdogStage = FirstStale | DirectorEscalated

record TaskWatchdogMessageMetadata =
  wm_schema :: bytes
  wm_notification_id :: bytes
  wm_project_id :: "id option"
  wm_assignment_id :: bytes
  wm_attempt_number :: u64
  wm_stage :: TaskWatchdogStage

text \<open>What the libraries provide.\<close>

record bus_env =
  bus_tasks :: task_env
  uuid_parses :: "bytes \<Rightarrow> bool"
  value_text :: "Value \<Rightarrow> bytes"
  assignment_value :: "TaskServiceAssignmentMetadata \<Rightarrow> Value option"
  completion_value :: "TaskServiceCompletionMetadata \<Rightarrow> Value option"
  followup_value :: "TaskServiceWorkerFollowupMetadata \<Rightarrow> Value option"
  watchdog_value :: "TaskWatchdogMessageMetadata \<Rightarrow> Value option"

text \<open>Proof that a message comes from the Task Service.\<close>

definition TASK_SERVICE_PROVIDER_CONTRACT :: bytes where
  "TASK_SERVICE_PROVIDER_CONTRACT = ''cutex/task-service-provider/v2''"

definition TASK_WATCHDOG_MESSAGE_SCHEMA :: bytes where
  "TASK_WATCHDOG_MESSAGE_SCHEMA = ''cutex/task-watchdog-message/v1''"

record TaskServiceSystemPrincipal =
  principal_protocol :: bytes

definition task_service_system_principal :: TaskServiceSystemPrincipal where
  "task_service_system_principal = \<lparr>principal_protocol = TASK_SERVICE_PROVIDER_CONTRACT\<rparr>"

definition authenticate :: "TaskServiceSystemPrincipal \<Rightarrow> bool" where
  "authenticate p \<longleftrightarrow> principal_protocol p = TASK_SERVICE_PROVIDER_CONTRACT"

section \<open>Requests\<close>

record AgentBusSendRequest =
  req_to :: bytes
  req_all_groups :: bool
  req_all_hosts :: bool
  req_kind :: AgentBusEnvelopeKind
  req_from :: "bytes option"
  req_from_agent_id :: "bytes option"
  req_from_session_id :: "bytes option"
  req_to_session_id :: "bytes option"
  req_content :: bytes
  req_delivery_mode :: "AgentDeliveryMode option"
  req_queue_only :: "bool option"
  req_trigger_turn :: "bool option"
  req_sender_kind :: "AgentMessageKind option"
  req_display_source :: "bytes option"
  req_submit_mode :: "UserSubmitMode option"
  req_control_type :: "bytes option"
  req_control_payload :: "Value option"
  req_external_action_id :: "bytes option"
  req_external_message_id :: "bytes option"

definition resolved_delivery_mode :: "AgentBusSendRequest \<Rightarrow> AgentDeliveryMode" where
  "resolved_delivery_mode q = (case req_delivery_mode q of
     Some m \<Rightarrow> m
   | None \<Rightarrow>
       if req_queue_only q = Some True then Passive
       else (case req_trigger_turn q of Some False \<Rightarrow> Passive | _ \<Rightarrow> Soon))"

text \<open>\<open>Option::filter\<close> with the test that the trimmed text is not empty.\<close>

definition non_blank :: "bytes option \<Rightarrow> bytes option" where
  "non_blank v = (case v of None \<Rightarrow> None | Some s \<Rightarrow> if trim s = [] then None else Some s)"

definition canonical_recipient_label :: "bytes option \<Rightarrow> bytes \<Rightarrow> bytes \<Rightarrow> bytes" where
  "canonical_recipient_label base_name registration_name runtime_id =
     (case non_blank base_name of
        Some label \<Rightarrow> label
      | None \<Rightarrow> if trim registration_name \<noteq> [] then registration_name else runtime_id)"

section \<open>Identity\<close>

definition fnv1a_step :: "u64 \<Rightarrow> char \<Rightarrow> u64" where
  "fnv1a_step hash b = xor hash (of_nat (code b)) * 0x100000001b3"

definition fnv1a :: "bytes \<Rightarrow> u64" where
  "fnv1a s = foldl fnv1a_step 0xcbf29ce484222325 s"

text \<open>\<open>{:016x}\<close>: sixteen hexadecimal digits, the most significant first.\<close>

definition hex16 :: "u64 \<Rightarrow> bytes" where
  "hex16 w = map (\<lambda>i. hex_digit (unat (drop_bit (4 * i) w) mod 16)) (rev [0..<16])"

definition fnv1a_hex :: "bytes \<Rightarrow> bytes" where
  "fnv1a_hex s = hex16 (fnv1a s)"

definition default_agent_group_for :: "bytes option \<Rightarrow> bytes \<Rightarrow> bytes" where
  "default_agent_group_for path_key cwd =
     ''project:'' @ (case Option.bind path_key normalize_agent_group of
        Some key \<Rightarrow> if key = [] then take 8 (fnv1a_hex cwd) else key
      | None \<Rightarrow> take 8 (fnv1a_hex cwd))"

definition merge_agent_groups :: "bytes list \<Rightarrow> bytes list \<Rightarrow> bytes list" where
  "merge_agent_groups first second = normalize_agent_groups (first @ second)"

definition session_char :: "bytes \<Rightarrow> char" where
  "session_char g = (case g of
     [c] \<Rightarrow> if is_ascii_alphanumeric c then hd (to_ascii_lowercase [c])
            else if c \<in> set ''.-_'' then c else CHR ''-''
   | _ \<Rightarrow> CHR ''-'')"

fun sanitize_loop :: "bytes list \<Rightarrow> nat \<Rightarrow> bool \<Rightarrow> bytes \<Rightarrow> bytes" where
  "sanitize_loop [] max_len last_dash sanitized = sanitized"
| "sanitize_loop (g # gs) max_len last_dash sanitized =
     (let c = session_char g in
      if c = CHR ''-'' \<and> last_dash then sanitize_loop gs max_len last_dash sanitized
      else if length (sanitized @ [c]) \<ge> max_len then sanitized @ [c]
      else sanitize_loop gs max_len (c = CHR ''-'') (sanitized @ [c]))"

definition session_edge :: "char \<Rightarrow> bool" where
  "session_edge c \<longleftrightarrow> c \<in> set ''.-_''"

definition sanitize_session_component :: "bytes \<Rightarrow> nat \<Rightarrow> bytes \<Rightarrow> bytes" where
  "sanitize_session_component input max_len fallback =
     (let trimmed = rev (dropWhile session_edge (rev (dropWhile session_edge
            (sanitize_loop (utf8_chars input) max_len False []))))
      in if trimmed = [] then fallback else trimmed)"

section \<open>Durable sessions\<close>

datatype CutexSessionArchiveState = Session_Active | Session_Retired

text \<open>The fields of \<open>CutexSessionRecord\<close> that routing and delivery read.\<close>

record CutexSessionRecord =
  cs_cutex_session_id :: bytes
  cs_revision :: u64
  cs_archive_state :: CutexSessionArchiveState
  cs_codex_session_id :: "bytes option"
  cs_current_runtime_agent_id :: "bytes option"
  cs_runtime_generation :: u64

definition session_is_active :: "CutexSessionRecord \<Rightarrow> bool" where
  "session_is_active r \<longleftrightarrow> cs_archive_state r \<noteq> Session_Retired"

definition session_durable_revision :: "CutexSessionRecord \<Rightarrow> u64" where
  "session_durable_revision r = (if cs_revision r = 0 then 1 else cs_revision r)"

end
