(* ===== verification/Bus_Store.thy ===== *)
theory Bus_Store
  imports Bus_Model
begin

text \<open>
  The state of the agent bus and the operations on its roster: \<open>agent_bus/store.rs\<close>,
  \<open>agent_bus/groups.rs\<close> and the registration routes of \<open>agent_bus/server.rs\<close>.

  The state is behind one mutex that every operation holds while it reads and writes, so an
  operation is a function on the state; a poisoned mutex is not modelled. A \<open>HashMap\<close> is an
  association list with distinct keys; the model keeps it in key order, and \<open>Bus_Routing\<close> shows
  that no result depends on the order. Writing the registry file is the parameter \<open>persisted\<close> of
  the operations that do it.
\<close>

definition AGENT_BUS_DEDUPE_WINDOW_SECS :: u64 where
  "AGENT_BUS_DEDUPE_WINDOW_SECS = 30"

definition AGENT_BUS_STALE_HEARTBEAT_SECS :: u64 where
  "AGENT_BUS_STALE_HEARTBEAT_SECS = 120"

definition AGENT_BUS_PID_PRUNE_GRACE_SECS :: u64 where
  "AGENT_BUS_PID_PRUNE_GRACE_SECS = 15"

record AgentBusState =
  bus_agents :: "(bytes, AgentBusAgent) btree"
  bus_messages :: "(bytes, AgentBusMessage list) btree"
  bus_recent_sends :: "(bytes, AgentBusRecentSend) btree"
  bus_send_reservations :: "(bytes, bytes \<times> u64) btree"

definition empty_bus :: AgentBusState where
  "empty_bus = \<lparr>bus_agents = [], bus_messages = [], bus_recent_sends = [], bus_send_reservations = []\<rparr>"

datatype AgentTargetResolutionCode = NotFound_Target | Ambiguous_Target | TargetUnavailable

record AgentTargetResolutionError =
  res_code :: AgentTargetResolutionCode
  res_detail :: bytes

datatype BusError =
    Bus_AuthenticationFailed
  | Bus_Contract TaskServiceAssignmentContractError
  | Bus_Serialization
  | Bus_InvalidFollowup
  | Bus_InvalidWatchdog
  | Bus_Registration
  | Bus_Persist
  | Bus_AgentDisappeared bytes
  | Bus_Resolution AgentTargetResolutionError

text \<open>\<open>u64::saturating_sub\<close>.\<close>

definition saturating_sub :: "u64 \<Rightarrow> u64 \<Rightarrow> u64" where
  "saturating_sub a b = (if b \<le> a then a - b else 0)"

text \<open>\<open>HashMap::retain\<close>.\<close>

definition bt_retain :: "('k \<Rightarrow> 'v \<Rightarrow> bool) \<Rightarrow> ('k, 'v) btree \<Rightarrow> ('k, 'v) btree" where
  "bt_retain keep m = filter (\<lambda>(k, v). keep k v) m"

section \<open>The registry file\<close>

text \<open>\<open>None\<close> stands for a file that does not exist; the agents were last seen when they are loaded.\<close>

definition load_agent_bus_state_from_registry ::
  "(bytes, AgentBusAgent) btree option \<Rightarrow> u64 \<Rightarrow> AgentBusState" where
  "load_agent_bus_state_from_registry registry now = (case registry of
     None \<Rightarrow> empty_bus
   | Some agents \<Rightarrow> empty_bus\<lparr>bus_agents := bt_map_values (\<lambda>a. a\<lparr>ag_last_seen_epoch_secs := now\<rparr>) agents\<rparr>)"

section \<open>Pruning\<close>

definition within_window :: "u64 \<Rightarrow> u64 \<Rightarrow> bool" where
  "within_window now created \<longleftrightarrow> saturating_sub now created \<le> AGENT_BUS_DEDUPE_WINDOW_SECS"

definition prune_recent_agent_sends :: "u64 \<Rightarrow> AgentBusState \<Rightarrow> AgentBusState" where
  "prune_recent_agent_sends now s = s\<lparr>
     bus_recent_sends := bt_retain (\<lambda>_ recent. within_window now (snd_created_at_epoch_secs recent)) (bus_recent_sends s),
     bus_send_reservations := bt_retain (\<lambda>_ (_, created_at). within_window now created_at) (bus_send_reservations s)\<rparr>"

definition eq_ignore_ascii_case :: "bytes \<Rightarrow> bytes \<Rightarrow> bool" where
  "eq_ignore_ascii_case a b \<longleftrightarrow> to_ascii_lowercase a = to_ascii_lowercase b"

definition agent_is_local_to_bus :: "AgentBusAgent \<Rightarrow> bytes \<Rightarrow> bool" where
  "agent_is_local_to_bus a local_host = (case ag_host_id a of
     None \<Rightarrow> True | Some host \<Rightarrow> eq_ignore_ascii_case host local_host)"

definition agent_endpoint_is_usable_for_this_host :: "bytes \<Rightarrow> (32 word \<Rightarrow> bool) \<Rightarrow> AgentBusAgent \<Rightarrow> bool" where
  "agent_endpoint_is_usable_for_this_host local_host process_is_running a \<longleftrightarrow>
     \<not> agent_is_local_to_bus a local_host \<or> process_is_running (ag_pid a)"

definition agent_is_stale :: "u64 \<Rightarrow> bytes \<Rightarrow> (32 word \<Rightarrow> bool) \<Rightarrow> AgentBusAgent \<Rightarrow> bool" where
  "agent_is_stale now local_host process_is_running a \<longleftrightarrow>
     ag_last_seen_epoch_secs a < saturating_sub now AGENT_BUS_STALE_HEARTBEAT_SECS \<or>
     ag_last_seen_epoch_secs a < saturating_sub now AGENT_BUS_PID_PRUNE_GRACE_SECS \<and>
       agent_is_local_to_bus a local_host \<and> \<not> process_is_running (ag_pid a)"

definition remove_agent_and_queue :: "bytes \<Rightarrow> AgentBusState \<Rightarrow> AgentBusState" where
  "remove_agent_and_queue i s = s\<lparr>bus_agents := bt_remove i (bus_agents s), bus_messages := bt_remove i (bus_messages s)\<rparr>"

definition prune_stale_agents_with_checker ::
  "u64 \<Rightarrow> bytes \<Rightarrow> (32 word \<Rightarrow> bool) \<Rightarrow> AgentBusState \<Rightarrow> bool \<times> AgentBusState" where
  "prune_stale_agents_with_checker now local_host process_is_running s =
     (let stale = map fst (filter (\<lambda>(_, a). agent_is_stale now local_host process_is_running a) (bus_agents s))
      in (stale \<noteq> [], fold remove_agent_and_queue stale s))"

section \<open>Registration\<close>

definition normalize_registered_agent_groups :: "bytes list \<Rightarrow> bytes option \<Rightarrow> bytes \<Rightarrow> bytes list" where
  "normalize_registered_agent_groups groups path_key cwd =
     (let groups = normalize_agent_groups groups;
          default_group = default_agent_group_for path_key cwd
      in if groups = [] then [default_group]
         else if default_group \<in> set groups then groups else default_group # groups)"

definition agent_from_register_request :: "AgentBusRegisterRequest \<Rightarrow> u64 \<Rightarrow> AgentBusAgent" where
  "agent_from_register_request p now =
     (let path_key = non_blank (reg_path_key p) in
      \<lparr>ag_id = reg_id p, ag_name = reg_name p,
       ag_base_name = non_blank (reg_base_name p),
       ag_thread_name = non_blank (reg_thread_name p),
       ag_path_key = path_key,
       ag_session_id = non_blank (reg_session_id p),
       ag_cutex_session_id = None,
       ag_profile = reg_profile p, ag_cwd = reg_cwd p, ag_pid = reg_pid p,
       ag_host_id = (case map_option trim (reg_host_id p) of
          None \<Rightarrow> None | Some host \<Rightarrow> if host = [] then None else Some host),
       ag_groups = normalize_registered_agent_groups (reg_groups p) path_key (reg_cwd p),
       ag_registration_class = reg_registration_class p,
       ag_last_seen_epoch_secs = now\<rparr>)"

text \<open>
  The roster keeps an agent even when the registry file could not be written; the error is
  returned with the changed state.
\<close>

definition register_agent_with_reconciliation ::
  "bool \<Rightarrow> bool \<Rightarrow> AgentBusAgent \<Rightarrow> AgentBusState \<Rightarrow> (BusError + unit) \<times> AgentBusState" where
  "register_agent_with_reconciliation reconciled persisted agent s =
     (if \<not> reconciled then (Inl Bus_Registration, s)
      else let s' = s\<lparr>bus_agents := bt_insert (ag_id agent) agent (bus_agents s)\<rparr>
           in (if persisted then Inr () else Inl Bus_Persist, s'))"

definition heartbeat :: "bytes \<Rightarrow> u64 \<Rightarrow> AgentBusState \<Rightarrow> AgentBusState" where
  "heartbeat i now s = (case bt_get (bus_agents s) i of
     None \<Rightarrow> s
   | Some a \<Rightarrow> s\<lparr>bus_agents := bt_insert i (a\<lparr>ag_last_seen_epoch_secs := now\<rparr>) (bus_agents s)\<rparr>)"

definition unregister :: "bool \<Rightarrow> bytes \<Rightarrow> AgentBusState \<Rightarrow> (BusError + bool) \<times> AgentBusState" where
  "unregister persisted i s =
     (let s' = s\<lparr>bus_messages := bt_remove i (bus_messages s)\<rparr>;
          removed = (bt_get (bus_agents s') i \<noteq> None);
          s'' = s'\<lparr>bus_agents := bt_remove i (bus_agents s')\<rparr>
      in (if removed \<and> \<not> persisted then Inl Bus_Persist else Inr removed, s''))"

section \<open>Groups\<close>

definition apply_group_update :: "bytes list \<Rightarrow> bytes list \<Rightarrow> AgentGroupUpdateMode \<Rightarrow> bytes list" where
  "apply_group_update existing groups mode = (case mode of
     Groups_Set \<Rightarrow> groups
   | Groups_Add \<Rightarrow> normalize_agent_groups (existing @ groups)
   | Groups_Remove \<Rightarrow> filter (\<lambda>g. g \<notin> set groups) existing)"

definition resolve_agent_display_name :: "AgentBusState \<Rightarrow> bytes \<Rightarrow> bytes option" where
  "resolve_agent_display_name s i = map_option ag_name (bt_get (bus_agents s) i)"

definition agent_groups_for_id :: "AgentBusState \<Rightarrow> bytes \<Rightarrow> bytes list option" where
  "agent_groups_for_id s i = map_option ag_groups (bt_get (bus_agents s) i)"

section \<open>Lemmas\<close>

lemma bt_get_retain [bt_simps]:
  "distinct (map fst m) \<Longrightarrow>
     bt_get (bt_retain keep m) k = (case bt_get m k of None \<Rightarrow> None | Some v \<Rightarrow> if keep k v then Some v else None)"
proof (induction m)
  case (Cons e m)
  have "bt_get (bt_retain keep m) k = None" if "k \<notin> fst ` set m"
    using that by (auto simp: bt_get_def map_of_eq_None_iff bt_retain_def)
  with Cons show ?case
    by (cases e) (auto simp: bt_retain_def split: option.splits)
qed (simp add: bt_retain_def)

lemma bt_ok_retain [simp, intro]: "bt_ok m \<Longrightarrow> bt_ok (bt_retain keep m)"
  by (induction m) (auto simp: bt_retain_def bt_ok_Cons)

lemma bt_retain_get: "bt_ok m \<Longrightarrow>
    bt_get (bt_retain keep m) k = (case bt_get m k of None \<Rightarrow> None | Some v \<Rightarrow> if keep k v then Some v else None)"
  by (rule bt_get_retain [OF bt_ok_distinct])

lemma saturating_sub_le: "unat (saturating_sub a b) = unat a - unat b"
  by (simp add: saturating_sub_def word_le_nat_alt unat_sub)

lemma within_window_iff: "within_window now created \<longleftrightarrow> unat now \<le> unat created + 30"
  by (simp add: within_window_def AGENT_BUS_DEDUPE_WINDOW_SECS_def word_le_nat_alt saturating_sub_le) linarith

lemma fold_remove_agents:
  "bt_get (bus_agents (fold remove_agent_and_queue is s)) k = (if k \<in> set is then None else bt_get (bus_agents s) k)"
  "bt_get (bus_messages (fold remove_agent_and_queue is s)) k = (if k \<in> set is then None else bt_get (bus_messages s) k)"
  "bus_recent_sends (fold remove_agent_and_queue is s) = bus_recent_sends s"
  "bus_send_reservations (fold remove_agent_and_queue is s) = bus_send_reservations s"
  by (induction "is" arbitrary: s) (auto simp: remove_agent_and_queue_def bt_simps)

lemma stale_unat:
  "agent_is_stale now local_host running a \<longleftrightarrow>
     unat (ag_last_seen_epoch_secs a) + 120 < unat now \<or>
     unat (ag_last_seen_epoch_secs a) + 15 < unat now \<and> agent_is_local_to_bus a local_host \<and> \<not> running (ag_pid a)"
  unfolding agent_is_stale_def word_less_nat_alt saturating_sub_le
  by (auto simp: AGENT_BUS_STALE_HEARTBEAT_SECS_def AGENT_BUS_PID_PRUNE_GRACE_SECS_def)

lemma prune_stale_get:
  assumes ok: "bt_ok (bus_agents s)" and p: "prune_stale_agents_with_checker now host running s = (changed, s')"
  shows "bt_get (bus_agents s') k = (case bt_get (bus_agents s) k of
      None \<Rightarrow> None | Some a \<Rightarrow> if agent_is_stale now host running a then None else Some a)"
    and "bt_get (bus_messages s') k = (case bt_get (bus_agents s) k of
      Some a \<Rightarrow> if agent_is_stale now host running a then None else bt_get (bus_messages s) k
    | None \<Rightarrow> bt_get (bus_messages s) k)"
    and "changed \<longleftrightarrow> (\<exists>k a. bt_get (bus_agents s) k = Some a \<and> agent_is_stale now host running a)"
    and "bus_recent_sends s' = bus_recent_sends s" and "bus_send_reservations s' = bus_send_reservations s"
proof -
  define stale where "stale = map fst (filter (\<lambda>(_, a). agent_is_stale now host running a) (bus_agents s))"
  have stale: "k \<in> set stale \<longleftrightarrow> (\<exists>a. bt_get (bus_agents s) k = Some a \<and> agent_is_stale now host running a)" for k
    unfolding stale_def by (force simp: bt_get_iff [OF ok])
  have s': "s' = fold remove_agent_and_queue stale s" and changed: "changed \<longleftrightarrow> stale \<noteq> []"
    using p by (auto simp: prune_stale_agents_with_checker_def stale_def Let_def)
  show "bt_get (bus_agents s') k = (case bt_get (bus_agents s) k of
      None \<Rightarrow> None | Some a \<Rightarrow> if agent_is_stale now host running a then None else Some a)"
    "bt_get (bus_messages s') k = (case bt_get (bus_agents s) k of
      Some a \<Rightarrow> if agent_is_stale now host running a then None else bt_get (bus_messages s) k
    | None \<Rightarrow> bt_get (bus_messages s) k)"
    "bus_recent_sends s' = bus_recent_sends s" "bus_send_reservations s' = bus_send_reservations s"
    unfolding s' fold_remove_agents stale by (auto split: option.splits)
  show "changed \<longleftrightarrow> (\<exists>k a. bt_get (bus_agents s) k = Some a \<and> agent_is_stale now host running a)"
    unfolding changed using stale by (metis list.set_intros(1) neq_Nil_conv set_empty empty_iff)
qed

end
