(* ===== verification/Bus_Routing.thy ===== *)
theory Bus_Routing
  imports Bus_Store
begin

text \<open>
  Who sees whom and where a message goes: \<open>agent_bus/routing.rs\<close>, the list helpers of
  \<open>agent_bus/federation.rs\<close> and \<open>update_agent_groups\<close> of \<open>agent_bus/groups.rs\<close>. The session store is
  the list of its records, of which routing reads the values only.
\<close>

definition resolution_error :: "AgentTargetResolutionCode \<Rightarrow> bytes \<Rightarrow> AgentTargetResolutionError" where
  "resolution_error c detail = \<lparr>res_code = c, res_detail = detail\<rparr>"

definition agent_sender_label :: "AgentBusAgent \<Rightarrow> bytes" where
  "agent_sender_label a = (case non_blank (ag_base_name a) of
     Some label \<Rightarrow> label
   | None \<Rightarrow> if trim (ag_name a) \<noteq> [] then ag_name a else ag_id a)"

definition resolve_agent_message_sender_name :: "AgentBusState \<Rightarrow> AgentBusSendRequest \<Rightarrow> bytes" where
  "resolve_agent_message_sender_name s q = (case non_blank (req_from q) of
     Some name \<Rightarrow> name
   | None \<Rightarrow> (case non_blank (req_from_agent_id q) of
       Some i \<Rightarrow> (case bt_get (bus_agents s) i of Some a \<Rightarrow> ag_name a | None \<Rightarrow> i)
     | None \<Rightarrow> ''cutex''))"

section \<open>Visibility\<close>

definition groups_overlap :: "bytes list \<Rightarrow> bytes list \<Rightarrow> bool" where
  "groups_overlap left right =
     (if left = [] \<or> right = [] then False else list_ex (\<lambda>g. g \<in> set left) right)"

definition visible_agents_for_request ::
  "AgentBusState \<Rightarrow> bytes option \<Rightarrow> bool \<Rightarrow> AgentBusAgent list" where
  "visible_agents_for_request s requester all_groups =
     (if all_groups then bt_values (bus_agents s)
      else case requester of
        None \<Rightarrow> bt_values (bus_agents s)
      | Some i \<Rightarrow> (case bt_get (bus_agents s) i of
          None \<Rightarrow> []
        | Some r \<Rightarrow> filter (\<lambda>a. ag_id a = i \<or> groups_overlap (ag_groups a) (ag_groups r)) (bt_values (bus_agents s))))"

section \<open>Targets\<close>

definition no_agent_match_error :: "bytes \<Rightarrow> bool \<Rightarrow> bytes" where
  "no_agent_match_error target all_groups =
     (if all_groups then ''No registered cutex agent matches `'' @ target @ ''`''
      else ''No visible registered cutex agent matches `'' @ target
        @ ''`; use a full runtime id or pass --all-groups to search every registered group'')"

definition name_matches :: "bytes \<Rightarrow> AgentBusAgent \<Rightarrow> bool" where
  "name_matches target a \<longleftrightarrow> ag_base_name a = Some target \<or> ag_thread_name a = Some target \<or> ag_session_id a = Some target"

definition resolve_visible_agent_target ::
  "AgentBusAgent list \<Rightarrow> bytes \<Rightarrow> bool \<Rightarrow> bytes \<Rightarrow> AgentTargetResolutionError + AgentBusAgent" where
  "resolve_visible_agent_target visible target all_groups scope_label =
     (case filter (\<lambda>a. ag_name a = target) visible of
        [a] \<Rightarrow> Inr a
      | [] \<Rightarrow> (case filter (name_matches target) visible of
          [a] \<Rightarrow> Inr a
        | [] \<Rightarrow> Inl (resolution_error NotFound_Target (no_agent_match_error target all_groups))
        | _ \<Rightarrow> Inl (resolution_error Ambiguous_Target (''Agent name/session `'' @ target
            @ ''` is ambiguous in the '' @ scope_label
            @ ''; use `cutex agent list --all-groups` and send to the display name or full id'')))
      | _ \<Rightarrow> Inl (resolution_error Ambiguous_Target (''Agent name `'' @ target
          @ ''` is ambiguous in the '' @ scope_label
          @ ''; use `cutex agent list --all-groups` and send to a full id'')))"

definition is_full_durable_cutex_session_id :: "bus_env \<Rightarrow> bytes \<Rightarrow> bool" where
  "is_full_durable_cutex_session_id B target \<longleftrightarrow>
     starts_with target ''cutex.'' \<and> uuid_parses B (drop (length ''cutex.'') target)"

definition durable_target_requested :: "bus_env \<Rightarrow> bytes \<Rightarrow> CutexSessionRecord list option \<Rightarrow> bool" where
  "durable_target_requested B target sessions \<longleftrightarrow>
     (case sessions of None \<Rightarrow> False | Some rs \<Rightarrow> list_ex (\<lambda>r. cs_cutex_session_id r = target) rs)
     \<or> is_full_durable_cutex_session_id B target"

definition roster_agent_matches_session :: "AgentBusAgent \<Rightarrow> CutexSessionRecord \<Rightarrow> bool" where
  "roster_agent_matches_session a r \<longleftrightarrow>
     ag_session_id a = Some (cs_cutex_session_id r) \<or> cs_codex_session_id r = ag_session_id a"

text \<open>The endpoint of one durable record.\<close>

definition current_runtime_id :: "CutexSessionRecord \<Rightarrow> bytes option" where
  "current_runtime_id r = (case cs_current_runtime_agent_id r of
     None \<Rightarrow> None
   | Some i \<Rightarrow> if session_is_active r \<and> cs_runtime_generation r > 0 then Some i else None)"

definition resolve_durable_record ::
  "AgentBusState \<Rightarrow> AgentBusAgent list \<Rightarrow> bytes \<Rightarrow> CutexSessionRecord \<Rightarrow> bytes \<Rightarrow>
     AgentTargetResolutionError + AgentBusAgent" where
  "resolve_durable_record s visible target r scope_label =
     (case current_runtime_id r of
        None \<Rightarrow> Inl (resolution_error TargetUnavailable
          (''Durable cutex session `'' @ target @ ''` has no current online endpoint''))
      | Some i \<Rightarrow> (case bt_get (bus_agents s) i of
          None \<Rightarrow> Inl (resolution_error TargetUnavailable
            (''Durable cutex session `'' @ target @ ''` has no current online endpoint''))
        | Some a \<Rightarrow>
            if \<not> roster_agent_matches_session a r
            then Inl (resolution_error TargetUnavailable
              (''Durable cutex session `'' @ target @ ''` has a stale runtime endpoint''))
            else if \<not> list_ex (\<lambda>v. ag_id v = ag_id a) visible
            then Inl (resolution_error NotFound_Target
              (''No visible registered cutex agent matches `'' @ target @ ''` in the '' @ scope_label))
            else Inr a))"

definition resolve_projected_target ::
  "AgentBusAgent list \<Rightarrow> bytes \<Rightarrow> AgentTargetResolutionError + AgentBusAgent" where
  "resolve_projected_target visible target =
     (case filter (\<lambda>a. ag_cutex_session_id a = Some target) visible of
        [a] \<Rightarrow> Inr a
      | [] \<Rightarrow> Inl (resolution_error NotFound_Target (no_agent_match_error target False))
      | _ \<Rightarrow> Inl (resolution_error Ambiguous_Target
          (''Durable cutex session `'' @ target @ ''` has multiple current endpoints'')))"

definition resolve_durable_target ::
  "AgentBusState \<Rightarrow> AgentBusAgent list \<Rightarrow> bytes \<Rightarrow> CutexSessionRecord list option \<Rightarrow> bytes \<Rightarrow>
     AgentTargetResolutionError + AgentBusAgent" where
  "resolve_durable_target s visible target sessions scope_label =
     (case sessions of
        None \<Rightarrow> resolve_projected_target visible target
      | Some rs \<Rightarrow> (case filter (\<lambda>r. cs_cutex_session_id r = target) rs of
          [r] \<Rightarrow> resolve_durable_record s visible target r scope_label
        | [] \<Rightarrow> resolve_projected_target visible target
        | _ \<Rightarrow> Inl (resolution_error Ambiguous_Target
            (''Durable cutex session `'' @ target @ ''` has multiple current records''))))"

definition resolve_agent_target_for_sender_with_sessions ::
  "bus_env \<Rightarrow> AgentBusState \<Rightarrow> bytes \<Rightarrow> bytes option \<Rightarrow> bool \<Rightarrow> CutexSessionRecord list option \<Rightarrow>
     AgentTargetResolutionError + bytes" where
  "resolve_agent_target_for_sender_with_sessions B s target sender all_groups sessions =
     (let visible = visible_agents_for_request s sender all_groups;
          scope_label = (if all_groups then ''registered agent scope'' else ''visible group scope'')
      in if durable_target_requested B target sessions
         then res_bind (resolve_durable_target s visible target sessions scope_label) (\<lambda>a. Inr (ag_id a))
         else if bt_get (bus_agents s) target \<noteq> None then Inr target
         else res_bind (resolve_visible_agent_target visible target all_groups scope_label) (\<lambda>a. Inr (ag_id a)))"

definition resolve_agent_target_for_sender ::
  "bus_env \<Rightarrow> AgentBusState \<Rightarrow> bytes \<Rightarrow> bytes option \<Rightarrow> bool \<Rightarrow> AgentTargetResolutionError + bytes" where
  "resolve_agent_target_for_sender B s target sender all_groups =
     resolve_agent_target_for_sender_with_sessions B s target sender all_groups None"

definition resolve_agent_target :: "bus_env \<Rightarrow> AgentBusState \<Rightarrow> bytes \<Rightarrow> AgentTargetResolutionError + bytes" where
  "resolve_agent_target B s target = resolve_agent_target_for_sender B s target None True"

definition resolve_agent_target_from_agent_list ::
  "bus_env \<Rightarrow> AgentBusAgent list \<Rightarrow> bytes \<Rightarrow> bytes list option \<Rightarrow> bool \<Rightarrow>
     AgentTargetResolutionError + AgentBusAgent" where
  "resolve_agent_target_from_agent_list B agents target sender_groups all_groups =
     (case find (\<lambda>a. ag_id a = target) agents of
        Some a \<Rightarrow> Inr a
      | None \<Rightarrow>
          let visible = (if all_groups then agents
                else case sender_groups of
                  Some groups \<Rightarrow> filter (\<lambda>a. groups_overlap (ag_groups a) groups) agents
                | None \<Rightarrow> agents)
          in if durable_target_requested B target None
             then resolve_durable_target empty_bus visible target None ''peer bus scope''
             else resolve_visible_agent_target visible target all_groups ''peer bus scope'')"

section \<open>Durable identities of the roster\<close>

definition session_claims_agent :: "AgentBusAgent \<Rightarrow> CutexSessionRecord \<Rightarrow> bool" where
  "session_claims_agent a r \<longleftrightarrow> session_is_active r \<and> cs_runtime_generation r > 0
     \<and> cs_current_runtime_agent_id r = Some (ag_id a) \<and> roster_agent_matches_session a r"

definition project_durable_session_id :: "CutexSessionRecord list \<Rightarrow> AgentBusAgent \<Rightarrow> AgentBusAgent" where
  "project_durable_session_id sessions a =
     (let a = a\<lparr>ag_cutex_session_id := None\<rparr>
      in case filter (session_claims_agent a) sessions of
           [r] \<Rightarrow> if length (filter (\<lambda>c. cs_cutex_session_id c = cs_cutex_session_id r) sessions) = 1
                  then a\<lparr>ag_cutex_session_id := Some (cs_cutex_session_id r)\<rparr> else a
         | _ \<Rightarrow> a)"

definition project_current_durable_session_ids ::
  "AgentBusAgent list \<Rightarrow> CutexSessionRecord list \<Rightarrow> AgentBusAgent list" where
  "project_current_durable_session_ids agents sessions = map (project_durable_session_id sessions) agents"

definition normalize_agent_bus_session_id :: "bytes option \<Rightarrow> bytes option" where
  "normalize_agent_bus_session_id value = (case value of
     None \<Rightarrow> None
   | Some v \<Rightarrow> let v = trim v in
       if v = [] \<or> CHR ''/'' \<in> set v \<or> CHR 0x5C \<in> set v then None else Some v)"

definition agent_bus_agent_session_id :: "AgentBusAgent \<Rightarrow> bytes option" where
  "agent_bus_agent_session_id a = normalize_agent_bus_session_id (ag_session_id a)"

definition agent_bus_agent_session_id_by_id :: "AgentBusState \<Rightarrow> bytes \<Rightarrow> bytes option" where
  "agent_bus_agent_session_id_by_id s i = Option.bind (bt_get (bus_agents s) i) agent_bus_agent_session_id"

section \<open>Federated lists\<close>

definition filter_federated_agents_for_request ::
  "AgentBusAgent list \<Rightarrow> bytes option \<Rightarrow> bytes list option \<Rightarrow> bool \<Rightarrow> AgentBusAgent list" where
  "filter_federated_agents_for_request agents requester requester_groups all_groups =
     (if all_groups \<or> requester = None then agents
      else case requester_groups of
        None \<Rightarrow> []
      | Some groups \<Rightarrow> filter (\<lambda>a. groups_overlap (ag_groups a) groups) agents)"

fun dedupe_loop :: "AgentBusAgent list \<Rightarrow> bytes list \<Rightarrow> AgentBusAgent list" where
  "dedupe_loop [] seen = []"
| "dedupe_loop (a # agents) seen =
     (if ag_id a \<in> set seen then dedupe_loop agents seen else a # dedupe_loop agents (ag_id a # seen))"

definition dedupe_agents_by_id :: "AgentBusAgent list \<Rightarrow> AgentBusAgent list" where
  "dedupe_agents_by_id agents = dedupe_loop agents []"

section \<open>Group updates\<close>

text \<open>
  The target is resolved in the state \<open>s0\<close> and the groups are changed in the state \<open>s\<close>: the mutex is
  released between the two, so other requests may come between them.
\<close>

definition update_agent_groups ::
  "bus_env \<Rightarrow> AgentBusState \<Rightarrow> bytes \<Rightarrow> bytes list \<Rightarrow> AgentGroupUpdateMode \<Rightarrow> AgentBusState \<Rightarrow>
     (BusError + AgentBusAgent) \<times> AgentBusState" where
  "update_agent_groups B s0 target groups mode s =
     (case resolve_agent_target B s0 target of
        Inl e \<Rightarrow> (Inl (Bus_Resolution e), s)
      | Inr i \<Rightarrow> (case bt_get (bus_agents s) i of
          None \<Rightarrow> (Inl (Bus_AgentDisappeared i), s)
        | Some a \<Rightarrow>
            let a' = a\<lparr>ag_groups := apply_group_update (ag_groups a) groups mode\<rparr>
            in (Inr a', s\<lparr>bus_agents := bt_insert i a' (bus_agents s)\<rparr>)))"

end
