(* ===== verification/Bus_Queue.thy ===== *)
theory Bus_Queue
  imports Bus_Routing
begin

text \<open>
  The message queues of the agent bus, their acknowledgement and the deduplication of sends:
  \<open>agent_bus/queue.rs\<close>, and the withdrawal of notifications in \<open>agent_bus/server.rs\<close>. The parameters that every send has are the record \<open>Send\<close>, in the order of
  the source; a UUID that the source draws is the parameter \<open>uuid\<close>.
\<close>

record Send =
  s_from :: bytes
  s_to :: bytes
  s_to_name :: bytes
  s_content :: bytes
  s_kind :: AgentBusEnvelopeKind
  s_delivery_mode :: AgentDeliveryMode
  s_sender_kind :: AgentMessageKind
  s_display_source :: "bytes option"
  s_submit_mode :: "UserSubmitMode option"
  s_control_type :: "bytes option"
  s_control_payload :: "Value option"
  s_external_action_id :: "bytes option"
  s_external_message_id :: "bytes option"

section \<open>The deduplication key\<close>

definition unit_separator :: char where
  "unit_separator = CHR 0x1F"

definition unwrap_or_empty :: "bytes option \<Rightarrow> bytes" where
  "unwrap_or_empty v = (case v of None \<Rightarrow> [] | Some s \<Rightarrow> s)"

definition key_fields :: "bus_env \<Rightarrow> Send \<Rightarrow> bytes list" where
  "key_fields B d =
     [s_from d, s_to d, envelope_kind_debug (s_kind d), delivery_label (s_delivery_mode d),
      message_kind_debug (s_sender_kind d), unwrap_or_empty (s_display_source d),
      submit_mode_option_debug (s_submit_mode d), unwrap_or_empty (s_control_type d),
      unwrap_or_empty (map_option (value_text B) (s_control_payload d)),
      unwrap_or_empty (s_external_action_id d), unwrap_or_empty (s_external_message_id d)]"

fun join_fields :: "bytes list \<Rightarrow> bytes \<Rightarrow> bytes" where
  "join_fields [] content = content"
| "join_fields (f # fs) content = f @ unit_separator # join_fields fs content"

definition agent_bus_send_dedupe_key :: "bus_env \<Rightarrow> Send \<Rightarrow> bytes" where
  "agent_bus_send_dedupe_key B d = join_fields (key_fields B d) (s_content d)"

section \<open>Reservations\<close>

record AgentBusSendIdReservation =
  rsv_message_id :: bytes
  rsv_created_at_epoch_secs :: u64
  rsv_already_enqueued :: bool

definition reserve_agent_bus_message_id ::
  "bus_env \<Rightarrow> Send \<Rightarrow> bytes \<Rightarrow> u64 \<Rightarrow> AgentBusState \<Rightarrow> AgentBusSendIdReservation \<times> AgentBusState" where
  "reserve_agent_bus_message_id B d uuid now s =
     (let key = agent_bus_send_dedupe_key B d;
          s = prune_recent_agent_sends now s
      in case bt_get (bus_recent_sends s) key of
           Some r \<Rightarrow> (\<lparr>rsv_message_id = snd_id r, rsv_created_at_epoch_secs = snd_created_at_epoch_secs r,
                       rsv_already_enqueued = True\<rparr>, s)
         | None \<Rightarrow>
             let (entry, s') = (case bt_get (bus_send_reservations s) key of
                   Some e \<Rightarrow> (e, s)
                 | None \<Rightarrow> ((uuid, now),
                     s\<lparr>bus_send_reservations := bt_insert key (uuid, now) (bus_send_reservations s)\<rparr>))
             in (\<lparr>rsv_message_id = fst entry, rsv_created_at_epoch_secs = snd entry,
                  rsv_already_enqueued = False\<rparr>, s'))"

section \<open>Receiving\<close>

definition ack_agent_messages :: "bytes \<Rightarrow> bytes list \<Rightarrow> AgentBusState \<Rightarrow> nat \<times> AgentBusState" where
  "ack_agent_messages agent ids s =
     (if ids = [] then (0, s)
      else case bt_get (bus_messages s) agent of
        None \<Rightarrow> (0, s)
      | Some queue \<Rightarrow>
          let rest = filter (\<lambda>m. msg_id m \<notin> set ids) queue in
          (length queue - length rest,
           s\<lparr>bus_messages := (if rest = [] then bt_remove agent (bus_messages s)
                              else bt_insert agent rest (bus_messages s))\<rparr>))"

definition poll_agent_messages ::
  "bytes \<Rightarrow> bool \<Rightarrow> u64 \<Rightarrow> AgentBusState \<Rightarrow> (bytes \<times> AgentBusMessage list) \<times> AgentBusState" where
  "poll_agent_messages agent ack_mode now s =
     (let name = (case bt_get (bus_agents s) agent of Some a \<Rightarrow> ag_name a | None \<Rightarrow> agent);
          s = heartbeat agent now s;
          messages = (case bt_get (bus_messages s) agent of Some queue \<Rightarrow> queue | None \<Rightarrow> [])
      in ((name, messages),
          if ack_mode then s else s\<lparr>bus_messages := bt_remove agent (bus_messages s)\<rparr>))"

section \<open>Sending\<close>

definition send_message ::
  "Send \<Rightarrow> bytes option \<Rightarrow> bytes option \<Rightarrow> bytes \<Rightarrow> u64 \<Rightarrow> AgentBusMessage" where
  "send_message d from_session to_session i now =
     \<lparr>msg_id = i, msg_kind = s_kind d, msg_from = s_from d, msg_to = s_to d,
      msg_from_cutex_session_id = from_session, msg_to_cutex_session_id = to_session,
      msg_content = s_content d, msg_delivery_mode = s_delivery_mode d,
      msg_trigger_turn = delivery_triggers_turn (s_delivery_mode d),
      msg_created_at_epoch_secs = now, msg_sender_kind = s_sender_kind d,
      msg_display_source = s_display_source d, msg_submit_mode = s_submit_mode d,
      msg_control_type = s_control_type d, msg_control_payload = s_control_payload d,
      msg_external_action_id = s_external_action_id d, msg_external_message_id = s_external_message_id d\<rparr>"

definition send_record :: "Send \<Rightarrow> bytes \<Rightarrow> u64 \<Rightarrow> AgentBusRecentSend" where
  "send_record d i now =
     \<lparr>snd_id = i, snd_kind = s_kind d, snd_from = s_from d, snd_to = s_to d, snd_to_name = s_to_name d,
      snd_delivery_mode = s_delivery_mode d, snd_trigger_turn = delivery_triggers_turn (s_delivery_mode d),
      snd_queued = True, snd_created_at_epoch_secs = now, snd_sender_kind = s_sender_kind d,
      snd_display_source = s_display_source d, snd_submit_mode = s_submit_mode d,
      snd_control_type = s_control_type d, snd_control_payload = s_control_payload d,
      snd_external_action_id = s_external_action_id d, snd_external_message_id = s_external_message_id d\<rparr>"

text \<open>The record of a message that is still queued under the stable identity.\<close>

definition queued_record :: "bytes \<Rightarrow> AgentBusMessage \<Rightarrow> AgentBusRecentSend" where
  "queued_record target_name m =
     \<lparr>snd_id = msg_id m, snd_kind = msg_kind m, snd_from = msg_from m, snd_to = msg_to m,
      snd_to_name = target_name, snd_delivery_mode = msg_delivery_mode m,
      snd_trigger_turn = msg_trigger_turn m, snd_queued = True,
      snd_created_at_epoch_secs = msg_created_at_epoch_secs m, snd_sender_kind = msg_sender_kind m,
      snd_display_source = msg_display_source m, snd_submit_mode = msg_submit_mode m,
      snd_control_type = msg_control_type m, snd_control_payload = msg_control_payload m,
      snd_external_action_id = msg_external_action_id m,
      snd_external_message_id = msg_external_message_id m\<rparr>"

definition queue_of :: "AgentBusState \<Rightarrow> bytes \<Rightarrow> AgentBusMessage list" where
  "queue_of s agent = (case bt_get (bus_messages s) agent of None \<Rightarrow> [] | Some queue \<Rightarrow> queue)"

definition enqueue_agent_bus_message_once_with_id ::
  "bus_env \<Rightarrow> Send \<Rightarrow> bytes option \<Rightarrow> bytes option \<Rightarrow> bytes option \<Rightarrow> bytes \<Rightarrow> u64 \<Rightarrow> AgentBusState \<Rightarrow>
     AgentBusSendOutcome \<times> AgentBusState" where
  "enqueue_agent_bus_message_once_with_id B d from_session to_session stable_message_id uuid now s =
     (let key = agent_bus_send_dedupe_key B d;
          s = prune_recent_agent_sends now s
      in case bt_get (bus_recent_sends s) key of
           Some r \<Rightarrow> (\<lparr>out_record = r, out_deduplicated = True\<rparr>, s)
         | None \<Rightarrow>
             case Option.bind stable_message_id (\<lambda>i. find (\<lambda>m. msg_id m = i) (queue_of s (s_to d))) of
               Some m \<Rightarrow> (\<lparr>out_record = queued_record (s_to_name d) m, out_deduplicated = True\<rparr>, s)
             | None \<Rightarrow>
                 let i = (case stable_message_id of Some i \<Rightarrow> i | None \<Rightarrow> uuid);
                     r = send_record d i now
                 in (\<lparr>out_record = r, out_deduplicated = False\<rparr>,
                     s\<lparr>bus_messages := bt_insert (s_to d)
                         (queue_of s (s_to d) @ [send_message d from_session to_session i now]) (bus_messages s),
                       bus_recent_sends := bt_insert key r (bus_recent_sends s),
                       bus_send_reservations :=
                         bt_retain (\<lambda>_ (reserved, _). reserved \<noteq> i) (bus_send_reservations s)\<rparr>))"

definition enqueue_agent_bus_message_once_with_participants ::
  "bus_env \<Rightarrow> Send \<Rightarrow> bytes option \<Rightarrow> bytes option \<Rightarrow> bytes \<Rightarrow> u64 \<Rightarrow> AgentBusState \<Rightarrow>
     AgentBusSendOutcome \<times> AgentBusState" where
  "enqueue_agent_bus_message_once_with_participants B d from_session to_session uuid now s =
     enqueue_agent_bus_message_once_with_id B d from_session to_session None uuid now s"

definition enqueue_agent_bus_message_once ::
  "bus_env \<Rightarrow> Send \<Rightarrow> bytes \<Rightarrow> u64 \<Rightarrow> AgentBusState \<Rightarrow> AgentBusSendOutcome \<times> AgentBusState" where
  "enqueue_agent_bus_message_once B d uuid now s =
     enqueue_agent_bus_message_once_with_participants B d None None uuid now s"

section \<open>System messages\<close>

text \<open>The parameters that the messages of the Task Service share.\<close>

definition system_send ::
  "bytes \<Rightarrow> bytes \<Rightarrow> bytes \<Rightarrow> AgentDeliveryMode \<Rightarrow> bytes \<Rightarrow> Value \<Rightarrow> bytes \<Rightarrow> bytes \<Rightarrow> Send" where
  "system_send target_id target_name content mode control_type payload action external =
     \<lparr>s_from = ''cutex-task-service'', s_to = target_id, s_to_name = target_name, s_content = content,
      s_kind = Envelope_Message, s_delivery_mode = mode, s_sender_kind = Kind_TaskServiceSystem,
      s_display_source = Some ''Cutex Task Service'', s_submit_mode = None,
      s_control_type = Some control_type, s_control_payload = Some payload,
      s_external_action_id = Some action, s_external_message_id = Some external\<rparr>"

definition enqueue_task_service_system_message_once ::
  "bus_env \<Rightarrow> TaskServiceSystemPrincipal \<Rightarrow> bytes \<Rightarrow> bytes \<Rightarrow> bytes \<Rightarrow> TaskServiceAssignmentMetadata \<Rightarrow>
     bytes \<Rightarrow> bytes \<Rightarrow> bytes \<Rightarrow> u64 \<Rightarrow> AgentBusState \<Rightarrow> (BusError + AgentBusSendOutcome) \<times> AgentBusState" where
  "enqueue_task_service_system_message_once B caller target_id target_name content metadata
     action external uuid now s =
     (if \<not> authenticate caller then (Inl Bus_AuthenticationFailed, s)
      else case require_valid_contract (bus_tasks B) metadata of
        Inl e \<Rightarrow> (Inl (Bus_Contract e), s)
      | Inr contract \<Rightarrow> (case validate_task_service_assignment_summary content contract of
          Inl e \<Rightarrow> (Inl (Bus_Contract e), s)
        | Inr _ \<Rightarrow> (case assignment_value B metadata of
            None \<Rightarrow> (Inl Bus_Serialization, s)
          | Some payload \<Rightarrow>
              let (outcome, s') = enqueue_agent_bus_message_once_with_participants B
                    (system_send target_id target_name content Soon ''cutex.task_service.assignment.v2''
                       payload action external) None None uuid now s
              in (Inr outcome, s'))))"

definition enqueue_task_service_completion_message_once ::
  "bus_env \<Rightarrow> TaskServiceSystemPrincipal \<Rightarrow> bytes \<Rightarrow> bytes \<Rightarrow> bytes \<Rightarrow> TaskServiceCompletionMetadata \<Rightarrow>
     AgentDeliveryMode \<Rightarrow> bytes \<Rightarrow> bytes \<Rightarrow> bytes \<Rightarrow> u64 \<Rightarrow> AgentBusState \<Rightarrow>
     (BusError + AgentBusSendOutcome) \<times> AgentBusState" where
  "enqueue_task_service_completion_message_once B caller target_id target_name content metadata mode
     action external uuid now s =
     (if \<not> authenticate caller then (Inl Bus_AuthenticationFailed, s)
      else case completion_value B metadata of
        None \<Rightarrow> (Inl Bus_Serialization, s)
      | Some payload \<Rightarrow>
          let (outcome, s') = enqueue_agent_bus_message_once_with_id B
                (system_send target_id target_name content mode ''cutex.task_service.completion.v1''
                   payload action external) None None (Some (''tsc_'' @ cm_notification_id metadata)) uuid now s
          in (Inr outcome, s'))"

definition enqueue_task_service_worker_followup_message_once ::
  "bus_env \<Rightarrow> TaskServiceSystemPrincipal \<Rightarrow> bytes \<Rightarrow> bytes \<Rightarrow> bytes \<Rightarrow> TaskServiceWorkerFollowupMetadata \<Rightarrow>
     bytes \<Rightarrow> bytes \<Rightarrow> bytes \<Rightarrow> u64 \<Rightarrow> AgentBusState \<Rightarrow> (BusError + AgentBusSendOutcome) \<times> AgentBusState" where
  "enqueue_task_service_worker_followup_message_once B caller target_id target_name content metadata
     action external uuid now s =
     (if \<not> authenticate caller then (Inl Bus_AuthenticationFailed, s)
      else if content \<noteq> fm_decision_reference metadata \<or> trim content = [] then (Inl Bus_InvalidFollowup, s)
      else case followup_value B metadata of
        None \<Rightarrow> (Inl Bus_Serialization, s)
      | Some payload \<Rightarrow>
          let (outcome, s') = enqueue_agent_bus_message_once_with_id B
                (system_send target_id target_name content Soon ''cutex.task_service.worker_followup.v1''
                   payload action external) None None (Some (''tsf_'' @ fm_notification_id metadata)) uuid now s
          in (Inr outcome, s'))"

definition enqueue_task_service_watchdog_message_once ::
  "bus_env \<Rightarrow> TaskServiceSystemPrincipal \<Rightarrow> bytes \<Rightarrow> bytes \<Rightarrow> bytes \<Rightarrow> TaskWatchdogMessageMetadata \<Rightarrow>
     AgentDeliveryMode \<Rightarrow> bytes \<Rightarrow> bytes \<Rightarrow> u64 \<Rightarrow> AgentBusState \<Rightarrow>
     (BusError + AgentBusSendOutcome) \<times> AgentBusState" where
  "enqueue_task_service_watchdog_message_once B caller target_id target_name content metadata mode
     external uuid now s =
     (if \<not> authenticate caller then (Inl Bus_AuthenticationFailed, s)
      else if wm_schema metadata \<noteq> TASK_WATCHDOG_MESSAGE_SCHEMA \<or> wm_notification_id metadata \<noteq> external
        \<or> trim content = [] then (Inl Bus_InvalidWatchdog, s)
      else case watchdog_value B metadata of
        None \<Rightarrow> (Inl Bus_Serialization, s)
      | Some payload \<Rightarrow>
          let (outcome, s') = enqueue_agent_bus_message_once_with_id B
                (system_send target_id target_name content mode ''cutex.task_service.watchdog.v1''
                   payload (wm_notification_id metadata) external) None None
                (Some (''tsw_'' @ wm_notification_id metadata)) uuid now s
          in (Inr outcome, s'))"

section \<open>Withdrawn notifications\<close>

text \<open>
  The watchdog withdraws the notifications of an episode that has ended: the part of
  \<open>run_task_watchdog_once\<close> that changes the bus. A queue that becomes empty stays in the map. A
  remembered send is forgotten whoever sent it, a queued message only when it is a system message.
\<close>

definition withdrawn_message :: "bytes list \<Rightarrow> AgentBusMessage \<Rightarrow> bool" where
  "withdrawn_message cancelled m \<longleftrightarrow> msg_sender_kind m = Kind_TaskServiceSystem
     \<and> msg_control_type m = Some ''cutex.task_service.watchdog.v1''
     \<and> (case msg_external_message_id m of Some i \<Rightarrow> i \<in> set cancelled | None \<Rightarrow> False)"

definition withdrawn_send :: "bytes list \<Rightarrow> AgentBusRecentSend \<Rightarrow> bool" where
  "withdrawn_send cancelled r \<longleftrightarrow> snd_control_type r = Some ''cutex.task_service.watchdog.v1''
     \<and> (case snd_external_message_id r of Some i \<Rightarrow> i \<in> set cancelled | None \<Rightarrow> False)"

definition cancel_watchdog_notifications :: "bytes list \<Rightarrow> AgentBusState \<Rightarrow> AgentBusState" where
  "cancel_watchdog_notifications cancelled s =
     (if cancelled = [] then s
      else s\<lparr>bus_messages := bt_map_values (filter (\<lambda>m. \<not> withdrawn_message cancelled m)) (bus_messages s),
             bus_recent_sends := bt_retain (\<lambda>_ r. \<not> withdrawn_send cancelled r) (bus_recent_sends s)\<rparr>)"

end
