(* ===== verification/Bus_Properties.thy ===== *)
theory Bus_Properties
  imports Bus_Queue
begin

text \<open>
  Runs of the agent bus. Every request, and every withdrawal of notifications by the watchdog, which
  runs beside the requests, is a step labelled with what it does to the queues; the
  invariant of the state, the refinement of the queues to abstract mailboxes, and the window of the
  deduplication are proved over these steps.
\<close>

section \<open>Steps\<close>

datatype bus_event =
    Quiet
  | Sent Send "bytes option" "bytes option" u64 AgentBusSendOutcome
  | Reserved u64
  | Acked bytes "bytes list"
  | Polled bytes bool "AgentBusMessage list"
  | Removed "bytes list"
  | Withdrawn "bytes list"

text \<open>A UUID that is drawn is not the identity of a queued message.\<close>

definition fresh_for :: "AgentBusState \<Rightarrow> bytes \<Rightarrow> bytes \<Rightarrow> bool" where
  "fresh_for s agent i \<longleftrightarrow> i \<notin> msg_id ` set (queue_of s agent)"

inductive bus_step :: "bus_env \<Rightarrow> bus_event \<Rightarrow> AgentBusState \<Rightarrow> AgentBusState \<Rightarrow> bool" for B where
  registered: "register_agent_with_reconciliation reconciled persisted agent s = (r, s') \<Longrightarrow> bus_step B Quiet s s'"
| heartbeat: "bus_step B Quiet s (heartbeat i now s)"
| groups: "update_agent_groups B s0 target gs mode s = (r, s') \<Longrightarrow> bus_step B Quiet s s'"
| unregistered: "unregister persisted i s = (r, s') \<Longrightarrow> bus_step B (Removed [i]) s s'"
| pruned: "prune_stale_agents_with_checker now host running s = (changed, s') \<Longrightarrow>
    removed = map fst (filter (\<lambda>(_, a). agent_is_stale now host running a) (bus_agents s)) \<Longrightarrow>
    bus_step B (Removed removed) s s'"
| reserved: "reserve_agent_bus_message_id B d uuid now s = (r, s') \<Longrightarrow> bus_step B (Reserved now) s s'"
| sent: "enqueue_agent_bus_message_once_with_id B d from_session to_session stable_id uuid now s = (out, s') \<Longrightarrow>
    fresh_for s (s_to d) uuid \<Longrightarrow> bus_step B (Sent d from_session to_session now out) s s'"
| acked: "ack_agent_messages agent ids s = (n, s') \<Longrightarrow> bus_step B (Acked agent ids) s s'"
| polled: "poll_agent_messages agent ack_mode now s = ((name, messages), s') \<Longrightarrow>
    bus_step B (Polled agent ack_mode messages) s s'"
| withdrawn: "bus_step B (Withdrawn cancelled) s (cancel_watchdog_notifications cancelled s)"

inductive bus_run :: "bus_env \<Rightarrow> bus_event list \<Rightarrow> AgentBusState \<Rightarrow> AgentBusState \<Rightarrow> bool" for B where
  run_nil: "bus_run B [] s s"
| run_snoc: "bus_run B es s t \<Longrightarrow> bus_step B e t u \<Longrightarrow> bus_run B (es @ [e]) s u"

definition bus_init :: "AgentBusState \<Rightarrow> bool" where
  "bus_init s \<longleftrightarrow> (\<exists>registry now. s = load_agent_bus_state_from_registry registry now \<and>
     (\<forall>agents. registry = Some agents \<longrightarrow> bt_ok agents \<and> (\<forall>k a. bt_get agents k = Some a \<longrightarrow> ag_id a = k)))"

definition bus_next :: "bus_env \<Rightarrow> AgentBusState \<Rightarrow> AgentBusState \<Rightarrow> bool" where
  "bus_next B s s' \<longleftrightarrow> (\<exists>e. bus_step B e s s')"

lemma bus_run_reach: "bus_run B es s t \<Longrightarrow> reach bus_init (bus_next B) s \<Longrightarrow> reach bus_init (bus_next B) t"
proof (induction rule: bus_run.induct)
  case (run_snoc es s t e u)
  have "bus_next B t u" using run_snoc.hyps(2) unfolding bus_next_def by blast
  with run_snoc.IH [OF run_snoc.prems] show ?case by (rule reach_step)
qed

section \<open>What the operations do\<close>

lemma queue_of_simps [simp]:
  "queue_of (s\<lparr>bus_agents := x\<rparr>) a = queue_of s a"
  "queue_of (s\<lparr>bus_recent_sends := y\<rparr>) a = queue_of s a"
  "queue_of (s\<lparr>bus_send_reservations := z\<rparr>) a = queue_of s a"
  "queue_of (s\<lparr>bus_messages := bt_insert k q (bus_messages s)\<rparr>) a = (if a = k then q else queue_of s a)"
  "queue_of (s\<lparr>bus_messages := bt_remove k (bus_messages s)\<rparr>) a = (if a = k then [] else queue_of s a)"
  by (simp_all add: queue_of_def bt_simps)

lemma queue_of_prune [simp]: "queue_of (prune_recent_agent_sends now s) a = queue_of s a"
  by (simp add: prune_recent_agent_sends_def)

lemma queue_of_heartbeat [simp]: "queue_of (heartbeat i now s) a = queue_of s a"
  by (simp add: heartbeat_def split: option.splits)

lemma prune_fields [simp]:
  "bus_agents (prune_recent_agent_sends now s) = bus_agents s"
  "bus_messages (prune_recent_agent_sends now s) = bus_messages s"
  by (simp_all add: prune_recent_agent_sends_def)

lemma ack_queue:
  assumes "ack_agent_messages agent ids s = (n, s')"
  shows "queue_of s' a = (if a = agent then filter (\<lambda>m. msg_id m \<notin> set ids) (queue_of s a) else queue_of s a)"
    and "n = length (filter (\<lambda>m. msg_id m \<in> set ids) (queue_of s agent))"
proof -
  have split: "length q - length (filter (\<lambda>m. msg_id m \<notin> set ids) q) = length (filter (\<lambda>m. msg_id m \<in> set ids) q)" for q
    using sum_length_filter_compl [of "\<lambda>m. msg_id m \<in> set ids" q] by linarith
  consider "ids = []" "n = 0" "s' = s" | "bt_get (bus_messages s) agent = None" "n = 0" "s' = s"
    | q where "bt_get (bus_messages s) agent = Some q"
      "n = length q - length (filter (\<lambda>m. msg_id m \<notin> set ids) q)"
      "s' = s\<lparr>bus_messages := (if filter (\<lambda>m. msg_id m \<notin> set ids) q = [] then bt_remove agent (bus_messages s)
                 else bt_insert agent (filter (\<lambda>m. msg_id m \<notin> set ids) q) (bus_messages s))\<rparr>"
  proof (cases "ids = []")
    case True
    with assms show ?thesis by (intro that(1)) (simp_all add: ack_agent_messages_def)
  next
    case False
    show ?thesis
    proof (cases "bt_get (bus_messages s) agent")
      case None
      with assms False show ?thesis by (intro that(2)) (simp_all add: ack_agent_messages_def)
    next
      case (Some q)
      from assms False Some show ?thesis by (intro that(3) [of q]) (simp_all add: ack_agent_messages_def Let_def)
    qed
  qed
  then have "queue_of s' a = (if a = agent then filter (\<lambda>m. msg_id m \<notin> set ids) (queue_of s a) else queue_of s a) \<and>
      n = length (filter (\<lambda>m. msg_id m \<in> set ids) (queue_of s agent))"
  proof cases
    case (3 q)
    have q: "queue_of s agent = q" using 3(1) by (simp add: queue_of_def)
    show ?thesis
      unfolding 3(2,3) split q
      by (cases "filter (\<lambda>m. msg_id m \<notin> set ids) q = []") (simp_all add: q)
  qed (simp_all add: queue_of_def)
  then show "queue_of s' a = (if a = agent then filter (\<lambda>m. msg_id m \<notin> set ids) (queue_of s a) else queue_of s a)"
    and "n = length (filter (\<lambda>m. msg_id m \<in> set ids) (queue_of s agent))" by blast+
qed

lemma poll_queue:
  assumes "poll_agent_messages agent ack_mode now s = ((name, messages), s')"
  shows "messages = queue_of s agent" and "queue_of s' a = (if a = agent \<and> \<not> ack_mode then [] else queue_of s a)"
proof -
  have m: "bus_messages (heartbeat agent now s) = bus_messages s"
    by (simp add: heartbeat_def split: option.splits)
  show "messages = queue_of s agent"
    using assms by (simp add: poll_agent_messages_def queue_of_def m Let_def)
  show "queue_of s' a = (if a = agent \<and> \<not> ack_mode then [] else queue_of s a)"
    using assms by (auto simp: poll_agent_messages_def queue_of_def m Let_def bt_simps)
qed

lemma enqueue_cases:
  assumes "enqueue_agent_bus_message_once_with_id B d from_session to_session stable_id uuid now s = (out, s')"
  obtains
    (recent) "bt_get (bus_recent_sends (prune_recent_agent_sends now s)) (agent_bus_send_dedupe_key B d) = Some (out_record out)"
      "out_deduplicated out" "s' = prune_recent_agent_sends now s"
  | (queued) m where "bt_get (bus_recent_sends (prune_recent_agent_sends now s)) (agent_bus_send_dedupe_key B d) = None"
      "stable_id = Some (msg_id m)" "m \<in> set (queue_of s (s_to d))" "out_record out = queued_record (s_to_name d) m"
      "out_deduplicated out" "s' = prune_recent_agent_sends now s"
  | (posted) i where "bt_get (bus_recent_sends (prune_recent_agent_sends now s)) (agent_bus_send_dedupe_key B d) = None"
      "i = (case stable_id of Some i \<Rightarrow> i | None \<Rightarrow> uuid)" "stable_id = None \<or> fresh_for s (s_to d) i"
      "out_record out = send_record d i now" "\<not> out_deduplicated out"
      "s' = (prune_recent_agent_sends now s)\<lparr>
         bus_messages := bt_insert (s_to d) (queue_of s (s_to d) @ [send_message d from_session to_session i now]) (bus_messages s),
         bus_recent_sends := bt_insert (agent_bus_send_dedupe_key B d) (send_record d i now)
           (bus_recent_sends (prune_recent_agent_sends now s)),
         bus_send_reservations := bt_retain (\<lambda>_ (reserved, _). reserved \<noteq> i)
           (bus_send_reservations (prune_recent_agent_sends now s))\<rparr>"
proof (cases "bt_get (bus_recent_sends (prune_recent_agent_sends now s)) (agent_bus_send_dedupe_key B d)")
  case (Some r)
  then show ?thesis
    using assms by (intro recent) (auto simp: enqueue_agent_bus_message_once_with_id_def Let_def)
next
  case None
  show ?thesis
  proof (cases "Option.bind stable_id (\<lambda>i. find (\<lambda>m. msg_id m = i) (queue_of s (s_to d)))")
    case (Some m)
    then obtain i where i: "stable_id = Some i" "find (\<lambda>m. msg_id m = i) (queue_of s (s_to d)) = Some m"
      by (cases stable_id) auto
    then have "m \<in> set (queue_of s (s_to d))" "i = msg_id m"
      by (auto simp: find_Some_iff)
    with i None Some assms show ?thesis
      by (intro queued [of m]) (auto simp: enqueue_agent_bus_message_once_with_id_def Let_def)
  next
    case no: None
    have "stable_id = None \<or> fresh_for s (s_to d) (case stable_id of Some i \<Rightarrow> i | None \<Rightarrow> uuid)"
      using no by (cases stable_id) (auto simp: fresh_for_def find_None_iff)
    with no None assms show ?thesis
      by (intro posted [OF _ refl]) (auto simp: enqueue_agent_bus_message_once_with_id_def Let_def)
  qed
qed

lemma enqueue_queue:
  assumes "enqueue_agent_bus_message_once_with_id B d from_session to_session stable_id uuid now s = (out, s')"
  shows "queue_of s' a = (if a = s_to d \<and> \<not> out_deduplicated out
    then queue_of s a @ [send_message d from_session to_session (snd_id (out_record out)) now] else queue_of s a)"
  using assms
proof (cases rule: enqueue_cases)
  case (posted i)
  have "queue_of s' a = (if a = s_to d then queue_of s a @ [send_message d from_session to_session i now] else queue_of s a)"
    unfolding posted(6) by (simp add: queue_of_def bt_simps)
  with posted show ?thesis by (simp add: send_record_def)
qed (simp_all)

lemma reserve_queue [simp]:
  "reserve_agent_bus_message_id B d uuid now s = (r, s') \<Longrightarrow> queue_of s' a = queue_of s a"
  by (auto simp: reserve_agent_bus_message_id_def Let_def split: option.splits prod.splits)


lemma unregister_queue:
  "unregister persisted i s = (r, s') \<Longrightarrow> queue_of s' a = (if a = i then [] else queue_of s a)"
  by (auto simp: unregister_def Let_def queue_of_def bt_simps)

lemma prune_queue:
  assumes "prune_stale_agents_with_checker now host running s = (changed, s')"
    and "removed = map fst (filter (\<lambda>(_, a). agent_is_stale now host running a) (bus_agents s))"
  shows "queue_of s' a = (if a \<in> set removed then [] else queue_of s a)"
  using assms fold_remove_agents(2) [of removed s a]
  by (auto simp: prune_stale_agents_with_checker_def Let_def queue_of_def)

lemma register_queue: "register_agent_with_reconciliation b c agent s = (r, s') \<Longrightarrow> queue_of s' a = queue_of s a"
  by (auto simp: register_agent_with_reconciliation_def Let_def split: if_splits)

lemma groups_queue: "update_agent_groups B s0 target gs mode s = (r, s') \<Longrightarrow> queue_of s' a = queue_of s a"
  by (auto simp: update_agent_groups_def Let_def split: sum.splits option.splits)

lemma withdraw_queue:
  "queue_of (cancel_watchdog_notifications cancelled s) a = filter (\<lambda>m. \<not> withdrawn_message cancelled m) (queue_of s a)"
proof (cases "cancelled = []")
  case True
  then have "\<not> withdrawn_message cancelled m" for m by (simp add: withdrawn_message_def split: option.splits)
  with True show ?thesis by (simp add: cancel_watchdog_notifications_def)
next
  case False
  then show ?thesis by (simp add: cancel_watchdog_notifications_def queue_of_def bt_simps split: option.splits)
qed

section \<open>Mailboxes\<close>

text \<open>
  The abstract mailbox of an agent: a sequence of messages to which a send appends, from which an
  acknowledgement removes the named messages and a withdrawal the notifications of the watchdog that
  it names, and which a poll without acknowledgement or the removal of the agent empties.
\<close>

fun mail_effect :: "bus_event \<Rightarrow> bytes \<Rightarrow> AgentBusMessage list \<Rightarrow> AgentBusMessage list" where
  "mail_effect Quiet a q = q"
| "mail_effect (Reserved _) a q = q"
| "mail_effect (Sent d from_session to_session now out) a q =
     (if a = s_to d \<and> \<not> out_deduplicated out
      then q @ [send_message d from_session to_session (snd_id (out_record out)) now] else q)"
| "mail_effect (Acked agent ids) a q = (if a = agent then filter (\<lambda>m. msg_id m \<notin> set ids) q else q)"
| "mail_effect (Polled agent ack_mode _) a q = (if a = agent \<and> \<not> ack_mode then [] else q)"
| "mail_effect (Removed is) a q = (if a \<in> set is then [] else q)"
| "mail_effect (Withdrawn cancelled) a q = filter (\<lambda>m. \<not> withdrawn_message cancelled m) q"

lemma step_mail: "bus_step B e s s' \<Longrightarrow> queue_of s' a = mail_effect e a (queue_of s a)"
proof (induction rule: bus_step.induct)
  case (sent d from_session to_session stable_id uuid now s out s')
  then show ?case by (simp add: enqueue_queue)
qed (simp_all add: register_queue groups_queue unregister_queue prune_queue ack_queue poll_queue withdraw_queue)

text \<open>
  A system whose steps are simulated by a function on what is observed. The client's lemmas are
  those of a queue: what has been put in and not been removed is still there, in order.
\<close>

locale simulated =
  fixes step :: "'e \<Rightarrow> 's \<Rightarrow> 's \<Rightarrow> bool"
    and view :: "'s \<Rightarrow> 'a \<Rightarrow> 'v"
    and effect :: "'e \<Rightarrow> 'a \<Rightarrow> 'v \<Rightarrow> 'v"
    and run :: "'e list \<Rightarrow> 's \<Rightarrow> 's \<Rightarrow> bool"
  assumes simulates: "step e s s' \<Longrightarrow> view s' a = effect e a (view s a)"
    and run_induct: "run es s s' \<Longrightarrow> P [] s \<Longrightarrow> (\<And>es t e u. P es t \<Longrightarrow> step e t u \<Longrightarrow> P (es @ [e]) u) \<Longrightarrow> P es s'"
begin

lemma run_view: "run es s s' \<Longrightarrow> view s' a = fold (\<lambda>e. effect e a) es (view s a)"
  by (erule run_induct) (auto simp: simulates)

lemma run_unchanged:
  assumes "run es s s'" and "\<And>e. e \<in> set es \<Longrightarrow> effect e a (view s a) = view s a"
  shows "view s' a = view s a"
proof -
  have "fold (\<lambda>e. effect e a) es v = v" if "\<forall>e \<in> set es. effect e a v = v" for v
    using that by (induction es) auto
  with run_view [OF assms(1)] assms(2) show ?thesis by simp
qed

end

interpretation mail: simulated "bus_step B" queue_of mail_effect "bus_run B" for B
proof
  fix es s s' and P :: "bus_event list \<Rightarrow> AgentBusState \<Rightarrow> bool"
  assume "bus_run B es s s'" and "P [] s" and "\<And>es t e u. P es t \<Longrightarrow> bus_step B e t u \<Longrightarrow> P (es @ [e]) u"
  then show "P es s'" by (induction rule: bus_run.induct) auto
qed (rule step_mail)

text \<open>
  A message leaves its queue only by an acknowledgement, a draining poll, the removal of its agent, or,
  when it is a notification of the watchdog, by its withdrawal.
\<close>

definition releases :: "bus_event \<Rightarrow> bytes \<Rightarrow> AgentBusMessage \<Rightarrow> bool" where
  "releases e agent m \<longleftrightarrow> (case e of
     Acked a ids \<Rightarrow> a = agent \<and> msg_id m \<in> set ids
   | Polled a ack_mode _ \<Rightarrow> a = agent \<and> \<not> ack_mode
   | Removed is \<Rightarrow> agent \<in> set is
   | Withdrawn cancelled \<Rightarrow> withdrawn_message cancelled m
   | _ \<Rightarrow> False)"

lemma effect_keeps:
  "m \<in> set q \<Longrightarrow> \<not> releases e a m \<Longrightarrow> m \<in> set (mail_effect e a q)"
  by (cases e) (auto simp: releases_def)

lemma fold_effect_keeps:
  "m \<in> set q \<Longrightarrow> \<forall>e \<in> set es. \<not> releases e a m \<Longrightarrow> m \<in> set (fold (\<lambda>e. mail_effect e a) es q)"
  by (induction es arbitrary: q) (auto simp: effect_keeps)

text \<open>The relative order of two queued messages never changes.\<close>

lemma effect_filter:
  "\<exists>P new. mail_effect e a q = filter P q @ new"
proof (cases e)
  case (Sent d f t now out)
  then show ?thesis by (intro exI [of _ "\<lambda>_. True"]) auto
next
  case (Acked agent ids)
  then show ?thesis by (cases "a = agent") (auto intro: exI [of _ "\<lambda>_. True"] exI [of _ "[]"])
next
  case (Polled agent m ms)
  then show ?thesis
    by (cases "a = agent \<and> \<not> m") (auto intro: exI [of _ "\<lambda>_. True"] exI [of _ "\<lambda>_. False"] exI [of _ "[]"])
next
  case (Removed rs)
  then show ?thesis
    by (cases "a \<in> set rs") (auto intro: exI [of _ "\<lambda>_. True"] exI [of _ "\<lambda>_. False"] exI [of _ "[]"])
next
  case (Withdrawn cancelled)
  then show ?thesis by (auto intro: exI [of _ "[]"])
qed (auto intro: exI [of _ "\<lambda>_. True"] exI [of _ "[]"])


section \<open>The invariant\<close>

definition agents_ok :: "AgentBusState \<Rightarrow> bool" where
  "agents_ok s \<longleftrightarrow> bt_ok (bus_agents s) \<and> (\<forall>k a. bt_get (bus_agents s) k = Some a \<longrightarrow> ag_id a = k)"

definition message_ok :: "bytes \<Rightarrow> AgentBusMessage \<Rightarrow> bool" where
  "message_ok k m \<longleftrightarrow> msg_to m = k \<and> (msg_trigger_turn m \<longleftrightarrow> delivery_triggers_turn (msg_delivery_mode m))"

definition queue_ok :: "bytes \<Rightarrow> AgentBusMessage list \<Rightarrow> bool" where
  "queue_ok k q \<longleftrightarrow> distinct (map msg_id q) \<and> (\<forall>m \<in> set q. message_ok k m)"

definition queues_ok :: "AgentBusState \<Rightarrow> bool" where
  "queues_ok s \<longleftrightarrow> bt_ok (bus_messages s) \<and> (\<forall>k q. bt_get (bus_messages s) k = Some q \<longrightarrow> queue_ok k q)"

definition sends_ok :: "bus_env \<Rightarrow> AgentBusState \<Rightarrow> bool" where
  "sends_ok B s \<longleftrightarrow> bt_ok (bus_recent_sends s) \<and> bt_ok (bus_send_reservations s) \<and>
     (\<forall>k r. bt_get (bus_recent_sends s) k = Some r \<longrightarrow>
        (\<exists>d. k = agent_bus_send_dedupe_key B d \<and> r = send_record d (snd_id r) (snd_created_at_epoch_secs r)))"

definition bus_inv :: "bus_env \<Rightarrow> AgentBusState \<Rightarrow> bool" where
  "bus_inv B s \<longleftrightarrow> agents_ok s \<and> queues_ok s \<and> sends_ok B s"

lemma inv_fields [simp]:
  "agents_ok (s\<lparr>bus_messages := x\<rparr>) = agents_ok s" "agents_ok (s\<lparr>bus_recent_sends := y\<rparr>) = agents_ok s"
  "agents_ok (s\<lparr>bus_send_reservations := z\<rparr>) = agents_ok s"
  "queues_ok (s\<lparr>bus_agents := w\<rparr>) = queues_ok s" "queues_ok (s\<lparr>bus_recent_sends := y\<rparr>) = queues_ok s"
  "queues_ok (s\<lparr>bus_send_reservations := z\<rparr>) = queues_ok s"
  "sends_ok B (s\<lparr>bus_agents := w\<rparr>) = sends_ok B s" "sends_ok B (s\<lparr>bus_messages := x\<rparr>) = sends_ok B s"
  by (simp_all add: agents_ok_def queues_ok_def sends_ok_def)

lemma agents_ok_insert: "agents_ok s \<Longrightarrow> ag_id a = k \<Longrightarrow> agents_ok (s\<lparr>bus_agents := bt_insert k a (bus_agents s)\<rparr>)"
  by (auto simp: agents_ok_def bt_simps)

lemma agents_ok_remove: "agents_ok s \<Longrightarrow> agents_ok (s\<lparr>bus_agents := bt_remove k (bus_agents s)\<rparr>)"
  by (auto simp: agents_ok_def bt_simps)

lemma queues_ok_insert:
  "queues_ok s \<Longrightarrow> queue_ok k q \<Longrightarrow> queues_ok (s\<lparr>bus_messages := bt_insert k q (bus_messages s)\<rparr>)"
  by (auto simp: queues_ok_def bt_simps)

lemma queues_ok_remove: "queues_ok s \<Longrightarrow> queues_ok (s\<lparr>bus_messages := bt_remove k (bus_messages s)\<rparr>)"
  by (auto simp: queues_ok_def bt_simps)

lemma inv_heartbeat [simp]:
  "agents_ok s \<Longrightarrow> agents_ok (heartbeat i now s)" "queues_ok (heartbeat i now s) = queues_ok s"
  "sends_ok B (heartbeat i now s) = sends_ok B s"
  by (auto simp: heartbeat_def agents_ok_insert split: option.splits) (simp add: agents_ok_def bt_simps)

lemma inv_prune_sends [simp]:
  "agents_ok (prune_recent_agent_sends now s) = agents_ok s"
  "queues_ok (prune_recent_agent_sends now s) = queues_ok s"
  "sends_ok B s \<Longrightarrow> sends_ok B (prune_recent_agent_sends now s)"
  by (auto simp: prune_recent_agent_sends_def)
    (auto simp: sends_ok_def bt_retain_get split: option.splits if_splits)

lemma inv_remove_agents:
  "bus_inv B s \<Longrightarrow> bus_inv B (fold remove_agent_and_queue is s)"
proof (induction "is" arbitrary: s)
  case (Cons i "is")
  have "bus_inv B (remove_agent_and_queue i s)"
    using Cons.prems by (simp add: bus_inv_def remove_agent_and_queue_def agents_ok_remove queues_ok_remove)
      (auto simp: agents_ok_def queues_ok_def sends_ok_def bt_simps)
  then show ?case using Cons.IH by simp
qed simp

lemma queue_ok_get: "queues_ok s \<Longrightarrow> queue_ok a (queue_of s a)"
  by (auto simp: queues_ok_def queue_ok_def queue_of_def split: option.splits)

lemma queue_ok_filter: "queue_ok k q \<Longrightarrow> queue_ok k (filter P q)"
  by (auto simp: queue_ok_def distinct_map_filter)

lemma queue_ok_post:
  assumes "queues_ok s" and "fresh_for s (s_to d) i"
  shows "queue_ok (s_to d) (queue_of s (s_to d) @ [send_message d f t i now])"
proof -
  have m: "message_ok (s_to d) (send_message d f t i now)" "msg_id (send_message d f t i now) = i"
    by (simp_all add: message_ok_def send_message_def)
  show ?thesis
    using queue_ok_get [OF assms(1), of "s_to d"] assms(2) m by (auto simp: queue_ok_def fresh_for_def)
qed

lemma inv_enqueue:
  assumes inv: "bus_inv B s" and fresh: "fresh_for s (s_to d) uuid"
    and e: "enqueue_agent_bus_message_once_with_id B d f t stable_id uuid now s = (out, s')"
  shows "bus_inv B s'"
  using e
proof (cases rule: enqueue_cases)
  case (posted i)
  let ?s = "prune_recent_agent_sends now s"
  have pruned: "agents_ok ?s" "queues_ok ?s" "sends_ok B ?s" using inv by (auto simp: bus_inv_def)
  have i: "fresh_for s (s_to d) i" using posted(2,3) fresh by (cases stable_id) auto
  have q: "queue_ok (s_to d) (queue_of s (s_to d) @ [send_message d f t i now])"
    using inv i by (intro queue_ok_post) (auto simp: bus_inv_def)
  have r: "send_record d i now = send_record d (snd_id (send_record d i now)) (snd_created_at_epoch_secs (send_record d i now))"
    by (simp add: send_record_def)
  have sends: "sends_ok B (?s\<lparr>bus_recent_sends := bt_insert (agent_bus_send_dedupe_key B d) (send_record d i now) (bus_recent_sends ?s),
      bus_send_reservations := bt_retain (\<lambda>_ (reserved, _). reserved \<noteq> i) (bus_send_reservations ?s)\<rparr>)"
    using pruned(3) r unfolding sends_ok_def by (auto simp: bt_simps)
  have "queues_ok (?s\<lparr>bus_messages := bt_insert (s_to d) (queue_of s (s_to d) @ [send_message d f t i now]) (bus_messages s)\<rparr>)"
    using queues_ok_insert [OF pruned(2) q] by simp
  with sends pruned(1) show ?thesis
    unfolding posted(6) bus_inv_def by (simp add: agents_ok_def queues_ok_def sends_ok_def)
qed (use inv in \<open>auto simp: bus_inv_def\<close>)

lemma inv_ack:
  assumes inv: "bus_inv B s" and a: "ack_agent_messages agent ids s = (n, s')"
  shows "bus_inv B s'"
proof -
  have "queue_ok agent (filter (\<lambda>m. msg_id m \<notin> set ids) q)"
    if "bt_get (bus_messages s) agent = Some q" for q
    using that inv by (auto simp: bus_inv_def queues_ok_def queue_ok_filter)
  with inv a show ?thesis
    by (auto simp: ack_agent_messages_def bus_inv_def Let_def queues_ok_remove queues_ok_insert split: if_splits option.splits)
qed

lemma inv_withdraw:
  assumes "bus_inv B s"
  shows "bus_inv B (cancel_watchdog_notifications cancelled s)"
proof -
  have "queues_ok (s\<lparr>bus_messages := bt_map_values (filter P) (bus_messages s)\<rparr>)" for P
    using assms by (auto simp: bus_inv_def queues_ok_def bt_simps queue_ok_filter)
  moreover have "sends_ok B (s\<lparr>bus_recent_sends := bt_retain keep (bus_recent_sends s)\<rparr>)" for keep
    using assms by (auto simp: bus_inv_def sends_ok_def bt_retain_get split: option.splits if_splits)
  ultimately show ?thesis
    using assms by (auto simp: bus_inv_def cancel_watchdog_notifications_def queues_ok_def sends_ok_def)
qed

lemma sends_ok_reserve:
  "sends_ok B s \<Longrightarrow> sends_ok B (s\<lparr>bus_send_reservations := bt_insert k e (bus_send_reservations s)\<rparr>)"
  by (auto simp: sends_ok_def)

lemma inv_step: "bus_step B e s s' \<Longrightarrow> bus_inv B s \<Longrightarrow> bus_inv B s'"
proof (induction rule: bus_step.induct)
  case (registered reconciled persisted agent s r s')
  then show ?case
    by (auto simp: register_agent_with_reconciliation_def bus_inv_def Let_def agents_ok_insert split: if_splits)
next
  case (groups s0 target gs mode s r s')
  then show ?case
    by (auto simp: update_agent_groups_def bus_inv_def Let_def split: sum.splits option.splits)
      (intro agents_ok_insert, auto simp: agents_ok_def)
next
  case (unregistered persisted i s r s')
  then have "s' = s\<lparr>bus_messages := bt_remove i (bus_messages s), bus_agents := bt_remove i (bus_agents s)\<rparr>"
    by (auto simp: unregister_def Let_def)
  with unregistered(2) show ?case
    by (auto simp: bus_inv_def agents_ok_def queues_ok_def sends_ok_def bt_simps)
next
  case (pruned now host running s changed s' removed)
  then show ?case using inv_remove_agents by (auto simp: prune_stale_agents_with_checker_def Let_def)
next
  case (reserved d uuid now s r s')
  then show ?case
    by (auto simp: reserve_agent_bus_message_id_def bus_inv_def Let_def sends_ok_reserve split: option.splits prod.splits)
next
  case (sent d from_session to_session stable_id uuid now s out s')
  then show ?case using inv_enqueue by blast
next
  case (acked agent ids s n s')
  then show ?case using inv_ack by blast
next
  case (polled agent ack_mode now s name messages s')
  then show ?case
    by (auto simp: poll_agent_messages_def bus_inv_def Let_def queues_ok_remove split: if_splits)
next
  case (withdrawn cancelled s)
  then show ?case by (rule inv_withdraw)
qed (auto simp: bus_inv_def)

lemma inv_init: "bus_init s \<Longrightarrow> bus_inv B s"
  by (auto simp: bus_init_def load_agent_bus_state_from_registry_def empty_bus_def bus_inv_def agents_ok_def
    queues_ok_def sends_ok_def bt_simps split: option.splits)

interpretation bus: invariant_system bus_init "bus_next B" "bus_inv B" "\<lambda>_ _. 0" for B
  by unfold_locales (auto simp: bus_next_def intro: inv_init inv_step)


section \<open>The deduplication window\<close>

text \<open>The requests that forget sends do so by the time they are made; a withdrawal forgets what it names.\<close>

definition event_clock :: "bus_event \<Rightarrow> u64" where
  "event_clock e = (case e of Sent _ _ _ now _ \<Rightarrow> now | Reserved now \<Rightarrow> now | _ \<Rightarrow> 0)"

definition forgets :: "bus_event \<Rightarrow> AgentBusRecentSend \<Rightarrow> bool" where
  "forgets e r \<longleftrightarrow> (case e of Withdrawn cancelled \<Rightarrow> withdrawn_send cancelled r | _ \<Rightarrow> False)"

definition remembers :: "bus_env \<Rightarrow> AgentBusState \<Rightarrow> Send \<Rightarrow> AgentBusRecentSend \<Rightarrow> bool" where
  "remembers B s d r \<longleftrightarrow> bt_get (bus_recent_sends s) (agent_bus_send_dedupe_key B d) = Some r"

lemma remembers_prune:
  "sends_ok B s \<Longrightarrow> remembers B s d r \<Longrightarrow> within_window now (snd_created_at_epoch_secs r) \<Longrightarrow>
     remembers B (prune_recent_agent_sends now s) d r"
  by (simp add: remembers_def prune_recent_agent_sends_def sends_ok_def bt_retain_get)

lemma enqueue_remembered:
  assumes "remembers B (prune_recent_agent_sends now s) d r"
  shows "enqueue_agent_bus_message_once_with_id B d f t stable_id uuid now s =
    (\<lparr>out_record = r, out_deduplicated = True\<rparr>, prune_recent_agent_sends now s)"
  using assms by (simp add: enqueue_agent_bus_message_once_with_id_def remembers_def Let_def)

lemma reserve_remembered:
  assumes "remembers B (prune_recent_agent_sends now s) d r"
  shows "fst (reserve_agent_bus_message_id B d uuid now s) = \<lparr>rsv_message_id = snd_id r,
    rsv_created_at_epoch_secs = snd_created_at_epoch_secs r, rsv_already_enqueued = True\<rparr>"
  using assms by (simp add: reserve_agent_bus_message_id_def remembers_def Let_def)

lemma enqueue_remembers:
  assumes "enqueue_agent_bus_message_once_with_id B d f t stable_id uuid now s = (out, s')"
    and "\<not> out_deduplicated out"
  shows "remembers B s' d (out_record out)" and "snd_created_at_epoch_secs (out_record out) = now"
  using assms(1)
  by (cases rule: enqueue_cases; use assms(2) in \<open>simp add: remembers_def bt_simps send_record_def\<close>)+

lemma enqueue_keeps_memory:
  assumes inv: "sends_ok B s" and r: "remembers B s d r" and w: "within_window now (snd_created_at_epoch_secs r)"
    and e: "enqueue_agent_bus_message_once_with_id B d' f t stable_id uuid now s = (out, s')"
  shows "remembers B s' d r"
  using e
proof (cases rule: enqueue_cases)
  case (posted i)
  have "agent_bus_send_dedupe_key B d' \<noteq> agent_bus_send_dedupe_key B d"
    using posted(1) remembers_prune [OF inv r w] by (auto simp: remembers_def)
  then show ?thesis
    using remembers_prune [OF inv r w] unfolding posted(6) by (simp add: remembers_def bt_simps)
qed (use remembers_prune [OF inv r w] in simp_all)

lemma step_memory:
  assumes "bus_step B e s s'" and "bus_inv B s" and "remembers B s d r"
    and "within_window (event_clock e) (snd_created_at_epoch_secs r)" and "\<not> forgets e r"
  shows "remembers B s' d r"
  using assms
proof (induction rule: bus_step.induct)
  case (reserved d' uuid now s res s')
  have "remembers B (prune_recent_agent_sends now s) d r"
    using reserved by (intro remembers_prune) (auto simp: bus_inv_def event_clock_def)
  moreover have "bus_recent_sends s' = bus_recent_sends (prune_recent_agent_sends now s)"
    using reserved(1) by (auto simp: reserve_agent_bus_message_id_def Let_def split: option.splits prod.splits)
  ultimately show ?case by (simp add: remembers_def)
next
  case (sent d' from_session to_session stable_id uuid now s out s')
  then show ?case using enqueue_keeps_memory [of B s d r now] by (auto simp: bus_inv_def event_clock_def)
next
  case (acked agent ids s n s')
  then have "bus_recent_sends s' = bus_recent_sends s"
    by (auto simp: ack_agent_messages_def Let_def split: if_splits option.splits)
  with acked show ?case by (simp add: remembers_def)
next
  case (polled agent ack_mode now s name messages s')
  then have "bus_recent_sends s' = bus_recent_sends s"
    by (auto simp: poll_agent_messages_def heartbeat_def Let_def split: if_splits option.splits)
  with polled show ?case by (simp add: remembers_def)
next
  case (pruned now host running s changed s' removed)
  then have "bus_recent_sends s' = bus_recent_sends s"
    using fold_remove_agents(3) by (auto simp: prune_stale_agents_with_checker_def Let_def)
  with pruned show ?case by (simp add: remembers_def)
next
  case (withdrawn cancelled s)
  then show ?case
    by (auto simp: remembers_def cancel_watchdog_notifications_def forgets_def bus_inv_def sends_ok_def bt_retain_get)
qed (auto simp: remembers_def heartbeat_def unregister_def update_agent_groups_def register_agent_with_reconciliation_def
  Let_def split: if_splits option.splits sum.splits)

lemma run_memory:
  assumes "bus_run B es s s'" and "bus_inv B s" and "remembers B s d r"
    and "\<forall>e \<in> set es. within_window (event_clock e) (snd_created_at_epoch_secs r) \<and> \<not> forgets e r"
  shows "remembers B s' d r \<and> bus_inv B s'"
  using assms
proof (induction rule: bus_run.induct)
  case (run_snoc es s t e u)
  then show ?case using step_memory [of B e t u d r] inv_step by auto
qed simp

section \<open>The deduplication key\<close>

lemma separated_eq:
  "unit_separator \<notin> set f \<Longrightarrow> unit_separator \<notin> set g \<Longrightarrow>
     f @ unit_separator # x = g @ unit_separator # y \<longleftrightarrow> f = g \<and> x = y"
proof (induction f arbitrary: g)
  case Nil
  then show ?case by (cases g) auto
next
  case (Cons a f)
  then show ?case by (cases g) auto
qed

lemma join_fields_eq:
  assumes "length fs = length gs" and "\<forall>f \<in> set fs \<union> set gs. unit_separator \<notin> set f"
  shows "join_fields fs c = join_fields gs c' \<longleftrightarrow> fs = gs \<and> c = c'"
  using assms by (induction fs gs rule: list_induct2) (auto simp: separated_eq)

text \<open>The free texts of a send do not contain the separator.\<close>

definition separator_free :: "bus_env \<Rightarrow> Send \<Rightarrow> bool" where
  "separator_free B d \<longleftrightarrow> (\<forall>f \<in> set [s_from d, s_to d, unwrap_or_empty (s_display_source d),
     unwrap_or_empty (s_control_type d), unwrap_or_empty (map_option (value_text B) (s_control_payload d)),
     unwrap_or_empty (s_external_action_id d), unwrap_or_empty (s_external_message_id d)]. unit_separator \<notin> set f)"

text \<open>Two sends that agree in everything but the display name of the target.\<close>

definition same_send :: "bus_env \<Rightarrow> Send \<Rightarrow> Send \<Rightarrow> bool" where
  "same_send B d d' \<longleftrightarrow> s_from d = s_from d' \<and> s_to d = s_to d' \<and> s_content d = s_content d' \<and> s_kind d = s_kind d'
     \<and> s_delivery_mode d = s_delivery_mode d' \<and> s_sender_kind d = s_sender_kind d'
     \<and> unwrap_or_empty (s_display_source d) = unwrap_or_empty (s_display_source d')
     \<and> s_submit_mode d = s_submit_mode d' \<and> unwrap_or_empty (s_control_type d) = unwrap_or_empty (s_control_type d')
     \<and> unwrap_or_empty (map_option (value_text B) (s_control_payload d))
       = unwrap_or_empty (map_option (value_text B) (s_control_payload d'))
     \<and> unwrap_or_empty (s_external_action_id d) = unwrap_or_empty (s_external_action_id d')
     \<and> unwrap_or_empty (s_external_message_id d) = unwrap_or_empty (s_external_message_id d')"

lemma labels_inject:
  "envelope_kind_debug k = envelope_kind_debug k' \<longleftrightarrow> k = k'"
  "delivery_label m = delivery_label m' \<longleftrightarrow> m = m'"
  "message_kind_debug a = message_kind_debug a' \<longleftrightarrow> a = a'"
  "submit_mode_option_debug u = submit_mode_option_debug u' \<longleftrightarrow> u = u'"
proof -
  show "envelope_kind_debug k = envelope_kind_debug k' \<longleftrightarrow> k = k'" by (cases k; cases k') simp_all
  show "delivery_label m = delivery_label m' \<longleftrightarrow> m = m'" by (cases m; cases m') simp_all
  show "message_kind_debug a = message_kind_debug a' \<longleftrightarrow> a = a'" by (cases a; cases a') simp_all
  have "submit_mode_debug v = submit_mode_debug v' \<longleftrightarrow> v = v'" for v v' by (cases v; cases v') simp_all
  then show "submit_mode_option_debug u = submit_mode_option_debug u' \<longleftrightarrow> u = u'"
    by (auto simp: submit_mode_option_debug_def split: option.splits)
qed

lemma labels_separator_free:
  "unit_separator \<notin> set (envelope_kind_debug k)" "unit_separator \<notin> set (delivery_label m)"
  "unit_separator \<notin> set (message_kind_debug a)" "unit_separator \<notin> set (submit_mode_option_debug u)"
proof -
  show "unit_separator \<notin> set (envelope_kind_debug k)" by (cases k) (simp_all add: unit_separator_def)
  show "unit_separator \<notin> set (delivery_label m)" by (cases m) (simp_all add: unit_separator_def)
  show "unit_separator \<notin> set (message_kind_debug a)" by (cases a) (simp_all add: unit_separator_def)
  have "unit_separator \<notin> set (submit_mode_debug v)" for v by (cases v) (simp_all add: unit_separator_def)
  then show "unit_separator \<notin> set (submit_mode_option_debug u)"
    by (auto simp: submit_mode_option_debug_def unit_separator_def split: option.splits)
qed

lemma dedupe_key_eq:
  assumes "separator_free B d" and "separator_free B d'"
  shows "agent_bus_send_dedupe_key B d = agent_bus_send_dedupe_key B d' \<longleftrightarrow> same_send B d d'"
proof -
  have "\<forall>f \<in> set (key_fields B d) \<union> set (key_fields B d'). unit_separator \<notin> set f"
    using assms labels_separator_free by (auto simp: key_fields_def separator_free_def)
  then have "agent_bus_send_dedupe_key B d = agent_bus_send_dedupe_key B d' \<longleftrightarrow>
      key_fields B d = key_fields B d' \<and> s_content d = s_content d'"
    unfolding agent_bus_send_dedupe_key_def by (intro join_fields_eq) (simp_all add: key_fields_def)
  then show ?thesis by (auto simp: key_fields_def same_send_def labels_inject)
qed

end
