(* ===== verification/Routing_Properties.thy ===== *)
theory Routing_Properties
  imports Bus_Properties "HOL-Library.Multiset"
begin

text \<open>
  What the resolution of targets guarantees: it never depends on the order in which the hash maps
  are iterated, it answers with a registered agent, and a name resolves only when exactly one agent
  in the sender's scope bears it.
\<close>

section \<open>Order independence\<close>

lemma filter_alike:
  assumes "mset xs = mset ys"
  shows "filter P xs = filter P ys \<or> (\<exists>a b r a' b' r'. filter P xs = a # b # r \<and> filter P ys = a' # b' # r')"
proof -
  have m: "mset (filter P xs) = mset (filter P ys)" using assms by simp
  note same = mset_eq_length [OF m] mset_eq_setD [OF m]
  show ?thesis
  proof (cases "filter P xs")
    case Nil
    with same show ?thesis by simp
  next
    case (Cons a r)
    note xs = Cons
    show ?thesis
    proof (cases r)
      case Nil
      then have "filter P ys = [a]" using same xs by (cases "filter P ys") auto
      with xs Nil show ?thesis by simp
    next
      case (Cons b r')
      then have "\<exists>a' b' r''. filter P ys = a' # b' # r''" using same(1) xs by (metis length_Suc_conv)
      with xs Cons show ?thesis by blast
    qed
  qed
qed

lemma visible_target_order:
  assumes "mset visible = mset visible'"
  shows "resolve_visible_agent_target visible target all_groups scope = resolve_visible_agent_target visible' target all_groups scope"
  using filter_alike [OF assms, of "\<lambda>a. ag_name a = target"] filter_alike [OF assms, of "name_matches target"]
  unfolding resolve_visible_agent_target_def by (elim disjE exE conjE) (simp_all split: list.split)

lemma list_ex_mset: "mset xs = mset ys \<Longrightarrow> list_ex P xs = list_ex P ys"
  by (metis list_ex_iff mset_eq_setD)

lemma durable_target_order:
  assumes v: "mset visible = mset visible'" and r: "mset rs = mset rs'"
  shows "resolve_durable_target s visible target (Some rs) scope = resolve_durable_target s visible' target (Some rs') scope"
    and "resolve_durable_target s visible target None scope = resolve_durable_target s visible' target None scope"
proof -
  have projected: "resolve_projected_target visible target = resolve_projected_target visible' target"
    using filter_alike [OF v, of "\<lambda>a. ag_cutex_session_id a = Some target"]
    unfolding resolve_projected_target_def by (elim disjE exE conjE) simp_all
  have one: "resolve_durable_record s visible target q scope = resolve_durable_record s visible' target q scope" for q
    unfolding resolve_durable_record_def by (simp only: list_ex_mset [OF v])
  show "resolve_durable_target s visible target (Some rs) scope = resolve_durable_target s visible' target (Some rs') scope"
    using filter_alike [OF r, of "\<lambda>r. cs_cutex_session_id r = target"]
    unfolding resolve_durable_target_def option.case projected one by (elim disjE exE conjE) simp_all
  show "resolve_durable_target s visible target None scope = resolve_durable_target s visible' target None scope"
    unfolding resolve_durable_target_def option.case projected ..
qed

section \<open>What is resolved\<close>

text \<open>The only element of a list with a property.\<close>

definition only :: "('a \<Rightarrow> bool) \<Rightarrow> 'a list \<Rightarrow> 'a \<Rightarrow> bool" where
  "only P xs a \<longleftrightarrow> filter P xs = [a]"

lemma only_unique: "only P xs a \<Longrightarrow> a \<in> set xs \<and> P a \<and> (\<forall>b \<in> set xs. P b \<longrightarrow> b = a)"
proof -
  assume "only P xs a"
  then have "set (filter P xs) = {a}" by (simp add: only_def)
  then show ?thesis by auto
qed

lemma only_iff: "distinct xs \<Longrightarrow> only P xs a \<longleftrightarrow> a \<in> set xs \<and> P a \<and> (\<forall>b \<in> set xs. P b \<longrightarrow> b = a)"
proof
  assume d: "distinct xs" and a: "a \<in> set xs \<and> P a \<and> (\<forall>b \<in> set xs. P b \<longrightarrow> b = a)"
  then have "set (filter P xs) = {a}" and "distinct (filter P xs)" by auto
  then have "length (filter P xs) = 1" by (metis distinct_card is_singletonI is_singleton_altdef)
  then obtain b where "filter P xs = [b]" by (metis One_nat_def length_0_conv length_Suc_conv)
  with \<open>set (filter P xs) = {a}\<close> show "only P xs a" by (simp add: only_def)
qed (rule only_unique)

lemma resolve_visible_Inr:
  "resolve_visible_agent_target visible target all_groups scope = Inr a \<longleftrightarrow>
     only (\<lambda>a. ag_name a = target) visible a \<or>
     (\<forall>b \<in> set visible. ag_name b \<noteq> target) \<and> only (name_matches target) visible a"
proof -
  have none: "(\<forall>b \<in> set visible. ag_name b \<noteq> target) \<longleftrightarrow> filter (\<lambda>a. ag_name a = target) visible = []"
    by (simp add: filter_empty_conv)
  show ?thesis
    unfolding resolve_visible_agent_target_def none only_def by (auto split: list.splits)
qed

lemma visible_registered:
  assumes ok: "agents_ok s" and a: "a \<in> set (visible_agents_for_request s sender all_groups)"
  shows "bt_get (bus_agents s) (ag_id a) = Some a"
proof -
  have "a \<in> set (bt_values (bus_agents s))"
    using a by (auto simp: visible_agents_for_request_def split: if_splits option.splits)
  then obtain k where "bt_get (bus_agents s) k = Some a"
    using ok by (auto simp: agents_ok_def bt_values_iff)
  then show ?thesis using ok by (auto simp: agents_ok_def)
qed

lemma visible_distinct:
  assumes "agents_ok s"
  shows "distinct (visible_agents_for_request s sender all_groups)"
proof -
  have "distinct (map fst (bus_agents s))" using assms bt_ok_distinct by (auto simp: agents_ok_def)
  moreover have "map fst (bus_agents s) = map ag_id (bt_values (bus_agents s))"
    using assms by (auto simp: agents_ok_def bt_values_def bt_get_iff)
  ultimately have "distinct (bt_values (bus_agents s))" by (simp add: distinct_map)
  then show ?thesis by (auto simp: visible_agents_for_request_def split: option.splits)
qed

text \<open>Who is in the scope of a sender.\<close>

definition in_scope :: "AgentBusState \<Rightarrow> bytes option \<Rightarrow> bool \<Rightarrow> AgentBusAgent \<Rightarrow> bool" where
  "in_scope s sender all_groups a \<longleftrightarrow> bt_get (bus_agents s) (ag_id a) = Some a \<and>
     (all_groups \<or> (case sender of
        None \<Rightarrow> True
      | Some i \<Rightarrow> (\<exists>r. bt_get (bus_agents s) i = Some r \<and>
          (ag_id a = i \<or> set (ag_groups a) \<inter> set (ag_groups r) \<noteq> {}))))"

lemma groups_overlap_iff: "groups_overlap gs hs \<longleftrightarrow> set gs \<inter> set hs \<noteq> {}"
  by (auto simp: groups_overlap_def list_ex_iff)

lemma visible_iff:
  assumes "agents_ok s"
  shows "a \<in> set (visible_agents_for_request s sender all_groups) \<longleftrightarrow> in_scope s sender all_groups a"
proof -
  have registered: "a \<in> set (bt_values (bus_agents s)) \<longleftrightarrow> bt_get (bus_agents s) (ag_id a) = Some a"
    using assms by (auto simp: agents_ok_def bt_values_iff)
  show ?thesis
  proof (cases sender)
    case (Some i)
    then show ?thesis
      by (cases "bt_get (bus_agents s) i")
        (simp_all add: visible_agents_for_request_def in_scope_def registered groups_overlap_iff)
  qed (simp add: visible_agents_for_request_def in_scope_def registered)
qed

text \<open>The agent a durable session runs as now.\<close>

definition endpoint_of :: "CutexSessionRecord \<Rightarrow> AgentBusAgent \<Rightarrow> bool" where
  "endpoint_of r a \<longleftrightarrow> session_is_active r \<and> cs_runtime_generation r > 0 \<and>
     cs_current_runtime_agent_id r = Some (ag_id a) \<and> roster_agent_matches_session a r"

lemma resolve_record_Inr:
  assumes ok: "agents_ok s"
  shows "resolve_durable_record s (visible_agents_for_request s sender all_groups) target q scope = Inr a \<longleftrightarrow>
    endpoint_of q a \<and> in_scope s sender all_groups a"
proof
  assume r: "resolve_durable_record s (visible_agents_for_request s sender all_groups) target q scope = Inr a"
  obtain i where i: "current_runtime_id q = Some i" "bt_get (bus_agents s) i = Some a"
      "roster_agent_matches_session a q" "list_ex (\<lambda>v. ag_id v = ag_id a) (visible_agents_for_request s sender all_groups)"
    using r by (auto simp: resolve_durable_record_def split: option.splits if_splits)
  have a: "ag_id a = i" using ok i(2) by (auto simp: agents_ok_def)
  obtain v where v: "in_scope s sender all_groups v" "ag_id v = i"
    using i(4) a visible_iff [OF ok] by (auto simp: list_ex_iff)
  have "v = a" using v i(2) by (auto simp: in_scope_def)
  with i a v show "endpoint_of q a \<and> in_scope s sender all_groups a"
    by (auto simp: endpoint_of_def current_runtime_id_def split: option.splits if_splits)
next
  assume a: "endpoint_of q a \<and> in_scope s sender all_groups a"
  then have "list_ex (\<lambda>v. ag_id v = ag_id a) (visible_agents_for_request s sender all_groups)"
    using visible_iff [OF ok] by (auto simp: list_ex_iff)
  with a show "resolve_durable_record s (visible_agents_for_request s sender all_groups) target q scope = Inr a"
    by (auto simp: resolve_durable_record_def endpoint_of_def current_runtime_id_def in_scope_def)
qed

text \<open>
  The contract of the resolution: which agent \<open>a\<close> a target means. A durable session id means the
  current endpoint of its only record, or the only agent of the scope on which it is projected. A
  runtime id means its agent in any group. Any other text is a display name, or, when nobody in
  the scope has that display name, a base name, thread name or session id; it must be unique.
\<close>

definition sole_in_scope :: "AgentBusState \<Rightarrow> bytes option \<Rightarrow> bool \<Rightarrow> (AgentBusAgent \<Rightarrow> bool) \<Rightarrow> AgentBusAgent \<Rightarrow> bool" where
  "sole_in_scope s sender all_groups P a \<longleftrightarrow> in_scope s sender all_groups a \<and> P a \<and>
     (\<forall>b. in_scope s sender all_groups b \<and> P b \<longrightarrow> b = a)"

definition target_means ::
  "bus_env \<Rightarrow> AgentBusState \<Rightarrow> bytes \<Rightarrow> bytes option \<Rightarrow> bool \<Rightarrow> CutexSessionRecord list option \<Rightarrow> AgentBusAgent \<Rightarrow> bool" where
  "target_means B s target sender all_groups sessions a \<longleftrightarrow>
     (if durable_target_requested B target sessions
      then (let records = filter (\<lambda>r. cs_cutex_session_id r = target) (case sessions of None \<Rightarrow> [] | Some rs \<Rightarrow> rs)
            in if records = [] then sole_in_scope s sender all_groups (\<lambda>a. ag_cutex_session_id a = Some target) a
               else \<exists>q. records = [q] \<and> endpoint_of q a \<and> in_scope s sender all_groups a)
      else if bt_get (bus_agents s) target \<noteq> None then bt_get (bus_agents s) target = Some a
      else if \<exists>b. in_scope s sender all_groups b \<and> ag_name b = target
      then sole_in_scope s sender all_groups (\<lambda>a. ag_name a = target) a
      else sole_in_scope s sender all_groups (name_matches target) a)"

lemma only_visible:
  assumes "agents_ok s"
  shows "only P (visible_agents_for_request s sender all_groups) a \<longleftrightarrow> sole_in_scope s sender all_groups P a"
  unfolding only_iff [OF visible_distinct [OF assms]] sole_in_scope_def visible_iff [OF assms, symmetric] by blast

lemma resolve_projected_Inr: "resolve_projected_target visible target = Inr a \<longleftrightarrow> only (\<lambda>a. ag_cutex_session_id a = Some target) visible a"
  unfolding resolve_projected_target_def only_def by (auto split: list.splits)

lemma resolve_durable_Inr:
  assumes ok: "agents_ok s"
  shows "resolve_durable_target s (visible_agents_for_request s sender all_groups) target sessions scope = Inr a \<longleftrightarrow>
    (let records = filter (\<lambda>r. cs_cutex_session_id r = target) (case sessions of None \<Rightarrow> [] | Some rs \<Rightarrow> rs)
     in if records = [] then sole_in_scope s sender all_groups (\<lambda>a. ag_cutex_session_id a = Some target) a
        else \<exists>q. records = [q] \<and> endpoint_of q a \<and> in_scope s sender all_groups a)"
  unfolding resolve_durable_target_def Let_def
  by (auto simp: resolve_projected_Inr only_visible [OF ok] resolve_record_Inr [OF ok] split: option.splits list.splits)

lemma resolve_iff:
  assumes ok: "agents_ok s"
  shows "resolve_agent_target_for_sender_with_sessions B s target sender all_groups sessions = Inr i \<longleftrightarrow>
    (\<exists>a. ag_id a = i \<and> bt_get (bus_agents s) i = Some a \<and> target_means B s target sender all_groups sessions a)"
proof -
  let ?visible = "visible_agents_for_request s sender all_groups"
  have sole: "bt_get (bus_agents s) (ag_id a) = Some a" if "sole_in_scope s sender all_groups P a" for P a
    using that by (simp add: sole_in_scope_def in_scope_def)
  have scope: "bt_get (bus_agents s) (ag_id a) = Some a" if "in_scope s sender all_groups a" for a
    using that by (simp add: in_scope_def)
  show ?thesis
  proof (cases "durable_target_requested B target sessions")
    case True
    have "resolve_agent_target_for_sender_with_sessions B s target sender all_groups sessions = Inr i \<longleftrightarrow>
        (\<exists>a. ag_id a = i \<and> target_means B s target sender all_groups sessions a)"
      using True resolve_durable_Inr [OF ok]
      by (auto simp: resolve_agent_target_for_sender_with_sessions_def target_means_def res_simps Let_def)
    moreover have "bt_get (bus_agents s) (ag_id a) = Some a" if "target_means B s target sender all_groups sessions a" for a
      using that True sole scope by (auto simp: target_means_def Let_def split: if_splits)
    ultimately show ?thesis by blast
  next
    case False
    show ?thesis
    proof (cases "bt_get (bus_agents s) target")
      case (Some a)
      then have "ag_id a = target" using ok by (simp add: agents_ok_def)
      with Some False show ?thesis
        by (auto simp: resolve_agent_target_for_sender_with_sessions_def target_means_def Let_def)
    next
      case None
      have "resolve_agent_target_for_sender_with_sessions B s target sender all_groups sessions = Inr i \<longleftrightarrow>
          (\<exists>a. ag_id a = i \<and> (sole_in_scope s sender all_groups (\<lambda>a. ag_name a = target) a \<or>
            (\<forall>b. in_scope s sender all_groups b \<longrightarrow> ag_name b \<noteq> target) \<and> sole_in_scope s sender all_groups (name_matches target) a))"
        using False None
        by (auto simp: resolve_agent_target_for_sender_with_sessions_def res_simps Let_def resolve_visible_Inr
          only_visible [OF ok] visible_iff [OF ok])
      also have "\<dots> \<longleftrightarrow> (\<exists>a. ag_id a = i \<and> target_means B s target sender all_groups sessions a)"
        using False None by (auto simp: target_means_def sole_in_scope_def)
      finally show ?thesis
        using sole False None by (auto simp: target_means_def split: if_splits)
    qed
  qed
qed

end
