(* ===== verification/Bus_Claims.thy ===== *)
theory Bus_Claims
  imports Routing_Properties
begin

text \<open>
  The properties of the agent bus: its queues are mailboxes, sends are deduplicated within the
  window, targets are resolved as the contract says, and protected messages carry a valid contract.
\<close>

section \<open>A concrete bus\<close>

definition bx_env :: bus_env where
  "bx_env = \<lparr>bus_tasks = \<lparr>sha256_digest = (\<lambda>_. replicate 32 (CHR 0x01)), json_envelope = (\<lambda>_. None), json_event = (\<lambda>_. None),
       json_record = (\<lambda>_. None), parse_record = (\<lambda>_. None), json_store = (\<lambda>_. None), parse_store = (\<lambda>_. None),
       json_intent = (\<lambda>_. None), parse_intent = (\<lambda>_. None), base64_encode = (\<lambda>bs. bs), base64_decode = (\<lambda>bs. Some bs)\<rparr>,
     uuid_parses = (\<lambda>_. False), value_text = (\<lambda>_. ''v''), assignment_value = (\<lambda>_. Some Value_Null),
     completion_value = (\<lambda>_. Some Value_Null), followup_value = (\<lambda>_. Some Value_Null),
     watchdog_value = (\<lambda>_. Some Value_Null)\<rparr>"

definition bx_send :: "bytes \<Rightarrow> bytes option \<Rightarrow> bytes \<Rightarrow> Send" where
  "bx_send target external content = \<lparr>s_from = ''a'', s_to = target, s_to_name = ''n'', s_content = content,
     s_kind = Envelope_Message, s_delivery_mode = Soon, s_sender_kind = Kind_Agent, s_display_source = None,
     s_submit_mode = None, s_control_type = None, s_control_payload = None, s_external_action_id = None,
     s_external_message_id = external\<rparr>"

definition bx_agent :: "bytes \<Rightarrow> bytes \<Rightarrow> bytes list \<Rightarrow> AgentBusAgent" where
  "bx_agent i name groups = \<lparr>ag_id = i, ag_name = name, ag_base_name = None, ag_thread_name = None, ag_path_key = None,
     ag_session_id = None, ag_cutex_session_id = None, ag_profile = ''p'', ag_cwd = ''/'', ag_pid = 1,
     ag_host_id = None, ag_groups = groups, ag_registration_class = LocalOnly, ag_last_seen_epoch_secs = 0\<rparr>"

definition bx_bus :: AgentBusState where
  "bx_bus = empty_bus\<lparr>bus_agents := [(''x1'', bx_agent ''x1'' ''ann'' [''g'']), (''x2'', bx_agent ''x2'' ''bob'' [''g'']),
     (''x3'', bx_agent ''x3'' ''bob'' [''h''])]\<rparr>"

lemma bx_init: "bus_init bx_bus"
proof -
  have "bx_bus = load_agent_bus_state_from_registry (Some (bus_agents bx_bus)) 0" by code_simp
  moreover have "bt_ok (bus_agents bx_bus)" by (simp add: bx_bus_def bt_ok_def)
  moreover have "\<forall>k a. bt_get (bus_agents bx_bus) k = Some a \<longrightarrow> ag_id a = k" by (simp add: bx_bus_def bx_agent_def)
  ultimately show ?thesis unfolding bus_init_def by blast
qed

lemma bx_reach: "reach bus_init (bus_next bx_env) bx_bus"
  by (rule reach_init, rule bx_init)

definition bx_first :: "AgentBusSendOutcome \<times> AgentBusState" where
  "bx_first = enqueue_agent_bus_message_once bx_env (bx_send ''x2'' None ''hi'') ''u1'' 100 bx_bus"

lemma bx_posted: "bus_step bx_env (Sent (bx_send ''x2'' None ''hi'') None None 100 (fst bx_first)) bx_bus (snd bx_first)"
  by (rule bus_step.sent [where stable_id = None and uuid = "''u1''"])
    (simp_all add: bx_first_def enqueue_agent_bus_message_once_def enqueue_agent_bus_message_once_with_participants_def
      fresh_for_def queue_of_def bx_bus_def empty_bus_def)

lemma str_find_infix: "str_find (before @ p @ after) p \<noteq> None"
proof (induction before)
  case Nil
  show ?case by (cases "p @ after"; cases p) (auto simp: starts_with_iff)
qed simp

section \<open>The properties\<close>

text \<open>
  C34: The queues of the agent bus are mailboxes. After any run of requests and withdrawals by the
  watchdog the queue of an agent is what the abstract mailbox holds: sends that were not duplicates
  are appended, acknowledged messages and withdrawn notifications are removed, a poll without
  acknowledgement or the removal of the agent empties it. So a message stays queued until it is
  acknowledged, drained, lost with its agent, or, as a system message of the watchdog, withdrawn by its
  external id; and a poll returns exactly the queue.
\<close>

theorem bus_mailbox_refines:
  assumes "bus_run B es s s'"
  shows "queue_of s' a = fold (\<lambda>e. mail_effect e a) es (queue_of s a) \<and>
    (\<forall>m \<in> set (queue_of s a). (\<forall>e \<in> set es. \<not> releases e a m) \<longrightarrow> m \<in> set (queue_of s' a)) \<and>
    (\<forall>ack_mode messages u. bus_step B (Polled a ack_mode messages) s' u \<longrightarrow> messages = queue_of s' a)"
proof (intro conjI ballI allI impI)
  show view: "queue_of s' a = fold (\<lambda>e. mail_effect e a) es (queue_of s a)"
    by (rule mail.run_view [OF assms])
  fix m
  assume "m \<in> set (queue_of s a)" "\<forall>e \<in> set es. \<not> releases e a m"
  then show "m \<in> set (queue_of s' a)" unfolding view by (rule fold_effect_keeps)
next
  fix ack_mode messages u
  assume "bus_step B (Polled a ack_mode messages) s' u"
  then show "messages = queue_of s' a"
    by (cases rule: bus_step.cases) (auto dest: poll_queue(1))
qed

theorem bus_mailbox_refines_witness:
  "length (queue_of (snd bx_first) ''x2'') = 1 \<and>
   queue_of (snd bx_first) ''x2'' = fold (\<lambda>e. mail_effect e ''x2'')
     [Sent (bx_send ''x2'' None ''hi'') None None 100 (fst bx_first)] (queue_of bx_bus ''x2'')"
proof -
  have run: "bus_run bx_env [Sent (bx_send ''x2'' None ''hi'') None None 100 (fst bx_first)] bx_bus (snd bx_first)"
    using bus_run.run_snoc [OF bus_run.run_nil bx_posted] by simp
  have "length (queue_of (snd bx_first) ''x2'') = 1" by code_simp
  with bus_mailbox_refines [OF run, of "''x2''"] show ?thesis by blast
qed

text \<open>
  C35: A send is performed once within the window. When a send has been queued, then for thirty
  seconds the same send, under whatever message id, is answered with the first record and leaves
  every queue as it is, and a reservation for it returns the id of the queued message, no matter
  which requests come between, unless the watchdog withdraws this very notification, which only
  happens to a send of its own control type.
\<close>

theorem bus_send_once:
  assumes "reach bus_init (bus_next B) s"
    and "enqueue_agent_bus_message_once_with_id B d f t stable_id uuid now s = (out, s1)" and "\<not> out_deduplicated out"
    and "fresh_for s (s_to d) uuid" and "bus_run B es s1 s2"
    and "\<forall>e \<in> set es. unat (event_clock e) \<le> unat now + 30" and "unat later \<le> unat now + 30"
    and "\<forall>cancelled. Withdrawn cancelled \<in> set es \<longrightarrow> \<not> withdrawn_send cancelled (out_record out)"
  shows "(\<exists>s3. enqueue_agent_bus_message_once_with_id B d f' t' stable_id' uuid' later s2 =
      (\<lparr>out_record = out_record out, out_deduplicated = True\<rparr>, s3) \<and> (\<forall>a. queue_of s3 a = queue_of s2 a)) \<and>
    fst (reserve_agent_bus_message_id B d uuid' later s2) = \<lparr>rsv_message_id = snd_id (out_record out),
      rsv_created_at_epoch_secs = now, rsv_already_enqueued = True\<rparr>"
proof -
  have inv: "bus_inv B s" by (rule bus.reach_inv [OF assms(1)])
  have inv1: "bus_inv B s1" by (rule inv_enqueue [OF inv assms(4,2)])
  note r = enqueue_remembers [OF assms(2,3)]
  have w: "within_window later (snd_created_at_epoch_secs (out_record out))"
    "\<forall>e \<in> set es. within_window (event_clock e) (snd_created_at_epoch_secs (out_record out)) \<and> \<not> forgets e (out_record out)"
    using assms(6-8) unfolding r(2) within_window_iff by (auto simp: forgets_def split: bus_event.splits)
  have "remembers B s2 d (out_record out)" "bus_inv B s2"
    using run_memory [OF assms(5) inv1 r(1) w(2)] by blast+
  then have m: "remembers B (prune_recent_agent_sends later s2) d (out_record out)"
    using w(1) by (intro remembers_prune) (auto simp: bus_inv_def)
  show ?thesis
    using reserve_remembered [OF m, of uuid'] r(2) by (auto simp: enqueue_remembered [OF m])
qed

theorem bus_send_once_witness:
  "\<exists>s3. enqueue_agent_bus_message_once_with_id bx_env (bx_send ''x2'' None ''hi'') None None (Some ''other'') ''u2'' 130
       (snd bx_first) = (\<lparr>out_record = out_record (fst bx_first), out_deduplicated = True\<rparr>, s3) \<and>
     (\<forall>a. queue_of s3 a = queue_of (snd bx_first) a)"
proof -
  have out: "enqueue_agent_bus_message_once_with_id bx_env (bx_send ''x2'' None ''hi'') None None None ''u1'' 100 bx_bus =
      (fst bx_first, snd bx_first)"
    by (simp add: bx_first_def enqueue_agent_bus_message_once_def enqueue_agent_bus_message_once_with_participants_def)
  have new: "\<not> out_deduplicated (fst bx_first)" by code_simp
  have "fresh_for bx_bus (s_to (bx_send ''x2'' None ''hi'')) ''u1''"
    by (simp add: fresh_for_def queue_of_def bx_bus_def empty_bus_def)
  from bus_send_once [OF bx_reach out new this bus_run.run_nil, of 130] show ?thesis by simp
qed

text \<open>
  C37: The state of the agent bus is well formed in every reachable state: each agent is stored under
  its own id, a queue holds messages for its agent only and each id once, the turn flag of a message
  agrees with its delivery mode, and a remembered send is stored under the deduplication key of a
  send with these fields. (A queue may be empty: a withdrawal leaves emptied queues in the map.)
\<close>

theorem bus_state_well_formed:
  assumes "reach bus_init (bus_next B) s"
  shows "(\<forall>k a. bt_get (bus_agents s) k = Some a \<longrightarrow> ag_id a = k) \<and>
    (\<forall>k q. bt_get (bus_messages s) k = Some q \<longrightarrow> distinct (map msg_id q) \<and>
       (\<forall>m \<in> set q. msg_to m = k \<and> (msg_trigger_turn m \<longleftrightarrow> msg_delivery_mode m \<noteq> Passive))) \<and>
    (\<forall>k r. bt_get (bus_recent_sends s) k = Some r \<longrightarrow> (\<exists>d. k = agent_bus_send_dedupe_key B d \<and>
       r = send_record d (snd_id r) (snd_created_at_epoch_secs r)))"
  using bus.reach_inv [OF assms]
  by (auto simp: bus_inv_def agents_ok_def queues_ok_def queue_ok_def message_ok_def sends_ok_def delivery_triggers_turn_def)

theorem bus_state_well_formed_witness:
  "bt_get (bus_messages (snd bx_first)) ''x2'' = Some (queue_of (snd bx_first) ''x2'') \<and>
   list_all (\<lambda>m. msg_to m = ''x2'') (queue_of (snd bx_first) ''x2'')"
proof -
  have "bus_next bx_env bx_bus (snd bx_first)" using bx_posted unfolding bus_next_def by blast
  then have "reach bus_init (bus_next bx_env) (snd bx_first)" by (rule reach_step [OF bx_reach])
  moreover have "bt_get (bus_messages (snd bx_first)) ''x2'' = Some (queue_of (snd bx_first) ''x2'')" by code_simp
  ultimately show ?thesis unfolding list_all_iff using bus_state_well_formed by blast
qed

text \<open>
  Two sends have the same deduplication key exactly when they agree in all their parts, as long
  as no part but the content contains the unit separator; a missing part counts as an empty one.
\<close>

theorem bus_dedupe_key_exact:
  assumes "separator_free B d" and "separator_free B d'"
  shows "agent_bus_send_dedupe_key B d = agent_bus_send_dedupe_key B d' \<longleftrightarrow> same_send B d d'"
  by (rule dedupe_key_eq [OF assms])

theorem bus_dedupe_key_exact_witness:
  "agent_bus_send_dedupe_key bx_env (bx_send ''x2'' None ''hi'') \<noteq> agent_bus_send_dedupe_key bx_env (bx_send ''x2'' None ''ho'')"
proof -
  have "separator_free bx_env (bx_send ''x2'' None ''hi'')" "separator_free bx_env (bx_send ''x2'' None ''ho'')"
    by (simp_all add: separator_free_def bx_send_def unwrap_or_empty_def unit_separator_def)
  from bus_dedupe_key_exact [OF this] show ?thesis by (simp add: same_send_def bx_send_def)
qed

text \<open>
  The key is not injective when a part contains the separator: a message with an external id
  ending in a separator and one whose content starts with it share a key, so that the second,
  different message is answered as a duplicate and never queued.
\<close>

theorem bus_dedupe_key_collides:
  "let first = bx_send ''x2'' (Some [CHR ''m'', unit_separator, CHR ''n'']) ''hi'';
       second = bx_send ''x2'' (Some ''m'') [CHR ''n'', unit_separator, CHR ''h'', CHR ''i''];
       (out1, s1) = enqueue_agent_bus_message_once bx_env first ''u1'' 100 bx_bus;
       (out2, s2) = enqueue_agent_bus_message_once bx_env second ''u2'' 101 s1
   in s_content first \<noteq> s_content second \<and> \<not> out_deduplicated out1 \<and> out_deduplicated out2 \<and>
      map msg_content (queue_of s2 ''x2'') = [s_content first]"
  by code_simp

text \<open>
  C36: A target is resolved exactly as the contract \<open>target_means\<close> says, whatever the order of the
  roster: the answer is a registered agent, in the sender's scope unless the target is its full
  runtime id, and the only one there that the text can mean; a durable session id gives the current
  runtime endpoint of its only record. Everything else is refused.
\<close>

theorem bus_route_exact:
  assumes "reach bus_init (bus_next B) s"
  shows "resolve_agent_target_for_sender_with_sessions B s target sender all_groups sessions = Inr i \<longleftrightarrow>
    (\<exists>a. ag_id a = i \<and> bt_get (bus_agents s) i = Some a \<and> target_means B s target sender all_groups sessions a)"
  by (rule resolve_iff) (use bus.reach_inv [OF assms] in \<open>simp add: bus_inv_def\<close>)

theorem bus_route_exact_witness:
  "(\<exists>a. ag_id a = ''x2'' \<and> bt_get (bus_agents bx_bus) ''x2'' = Some a \<and>
     target_means bx_env bx_bus ''bob'' (Some ''x1'') False None a) \<and>
   \<not> (\<exists>i a. ag_id a = i \<and> bt_get (bus_agents bx_bus) i = Some a \<and> target_means bx_env bx_bus ''bob'' None True None a)"
proof -
  have "resolve_agent_target_for_sender_with_sessions bx_env bx_bus ''bob'' (Some ''x1'') False None = Inr ''x2''"
    by code_simp
  moreover have "\<not> isl (resolve_agent_target_for_sender_with_sessions bx_env bx_bus ''bob'' None True None) \<Longrightarrow> False"
    by code_simp
  ultimately show ?thesis
    using bus_route_exact [OF bx_reach] by (metis sum.disc(2))
qed

text \<open>
  C38: An assignment enters a queue only when the caller holds the system principal, the contract is
  present, not empty, at most 256 KiB long and matches its digest, and the summary does not repeat
  it; any other call is refused and changes nothing.
\<close>

theorem bus_assignment_protected:
  assumes "enqueue_task_service_system_message_once B caller target name content metadata action external uuid now s = (r, s')"
  shows "case r of
      Inl _ \<Rightarrow> s' = s
    | Inr _ \<Rightarrow> authenticate caller \<and> (\<exists>contract. am_opaque_contract metadata = Some contract \<and> contract \<noteq> [] \<and>
        length contract \<le> 262144 \<and> sha256_bytes (bus_tasks B) contract = am_contract_sha256 metadata \<and>
        (\<forall>before after. content \<noteq> before @ contract @ after))"
  using assms
  by (auto simp: str_find_infix enqueue_task_service_system_message_once_def require_valid_contract_def validate_contract_if_present_def
    validate_task_service_assignment_contract_def validate_task_service_assignment_summary_def res_simps
    TASK_SERVICE_ASSIGNMENT_CONTRACT_MAX_BYTES_def split: if_splits sum.splits option.splits prod.splits)

definition bx_metadata :: TaskServiceAssignmentMetadata where
  "bx_metadata = \<lparr>am_schema = ''s'', am_project_id = None, am_coordinator_cutex_session = None, am_assignment_id = ''as'',
     am_task_id = ''t'', am_task_revision = 1, am_contract_sha256 = sha256_bytes (bus_tasks bx_env) ''do it'',
     am_opaque_contract = Some ''do it'', am_send_attempt_id = ''sa''\<rparr>"

theorem bus_assignment_protected_witness:
  "\<exists>out s'. enqueue_task_service_system_message_once bx_env task_service_system_principal ''x2'' ''bob'' ''summary'' bx_metadata
      ''act'' ''ext'' ''u1'' 100 bx_bus = (Inr out, s') \<and> (\<forall>before after. ''summary'' \<noteq> before @ ''do it'' @ after)"
proof -
  have valid: "require_valid_contract (bus_tasks bx_env) bx_metadata = Inr ''do it''"
    by (simp add: require_valid_contract_def validate_contract_if_present_def bx_metadata_def
      validate_task_service_assignment_contract_def TASK_SERVICE_ASSIGNMENT_CONTRACT_MAX_BYTES_def)
  have payload: "assignment_value bx_env bx_metadata = Some Value_Null" by (simp add: bx_env_def)
  obtain out s' where sent: "enqueue_agent_bus_message_once_with_participants bx_env (system_send ''x2'' ''bob'' ''summary'' Soon
      ''cutex.task_service.assignment.v2'' Value_Null ''act'' ''ext'') None None ''u1'' 100 bx_bus = (out, s')"
    by fastforce
  have run: "enqueue_task_service_system_message_once bx_env task_service_system_principal ''x2'' ''bob''
      ''summary'' bx_metadata ''act'' ''ext'' ''u1'' 100 bx_bus = (Inr out, s')"
    by (simp add: enqueue_task_service_system_message_once_def valid payload sent authenticate_def task_service_system_principal_def
      validate_task_service_assignment_summary_def)
  from bus_assignment_protected [OF run] run show ?thesis by (auto simp: bx_metadata_def)
qed

end
