(* ===== verification/Task_Pilot.thy ===== *)
theory Task_Pilot
  imports Task_Repository Bus_Model
begin

text \<open>
  The delivery pilot: \<open>task_delivery/mod.rs\<close> and the checks of \<open>task_delivery/agent_bus_adapter.rs\<close>.
  It composes the Task Service with the agent bus: \<open>publish\<close> commits a draft and its publication,
  the adapter sends one message to the owner of the attempt, and \<open>deliver\<close> records the message.

  A method of the pilot returns \<open>Result\<close>, so it is a run of the repository that ends with a value
  of \<open>PilotError + 'a\<close>; the atomic flag \<open>recovered\<close> is a parameter that \<open>recover\<close> sets. JSON of the
  delivery envelope and the response, and the transport, are parameters.
\<close>

section \<open>Data\<close>

record PilotTaskSpecification =
  ps_task_id :: id
  ps_task_revision :: u64
  ps_contract_sha256 :: Sha256
  ps_opaque_contract :: bytes

record PilotOwnerSnapshot =
  po_cutex_session_id :: id
  po_durable_revision :: u64
  po_runtime_agent_id :: id
  po_runtime_generation :: u64

record PilotAttemptFence =
  pf_task_id :: id
  pf_task_revision :: u64
  pf_attempt_number :: u64
  pf_attempt_token :: bytes
  pf_owner :: PilotOwnerSnapshot

record PilotPublishRequest =
  pr_specification :: PilotTaskSpecification
  pr_create_receipt_id :: id
  pr_publish_receipt_id :: id
  pr_expected_store_revision :: u64
  pr_attempt_token :: bytes
  pr_owner :: PilotOwnerSnapshot

record PublishedTask =
  pt_specification :: PilotTaskSpecification
  pt_fence :: PilotAttemptFence
  pt_publication_receipt_id :: id
  pt_committed_store_revision :: u64

record PilotDeliveryRequest =
  dr_published :: PublishedTask
  dr_delivery_action_id :: id
  dr_transition_receipt_id :: id

datatype PilotDeliveryMode = Pilot_AfterTurn

record AgentBusDeliveryReceiptV1 =
  ad_delivery_action_id :: id
  ad_agent_bus_message_id :: bytes
  ad_target_cutex_session_id :: id
  ad_target_runtime_agent_id :: id
  ad_target_runtime_generation :: u64
  ad_delivery_mode :: PilotDeliveryMode
  ad_queued :: bool
  ad_deduplicated :: bool
  ad_envelope_sha256 :: Sha256

record DeliveredTask =
  dt_published :: PublishedTask
  dt_transition_receipt_id :: id
  dt_delivery_receipt :: AgentBusDeliveryReceiptV1
  dt_committed_store_revision :: u64

datatype PilotTaskPhase =
  Pilot_Draft | Pilot_Published | Pilot_Delivered | Pilot_Accepted | Pilot_Running | Pilot_Completed

record PilotTaskSnapshot =
  sn_specification :: PilotTaskSpecification
  sn_phase :: PilotTaskPhase
  sn_fence :: "PilotAttemptFence option"
  sn_agent_bus_message_id :: "id option"

record PilotReceipt =
  rp_receipt_id :: id
  rp_task_id :: id
  rp_task_revision :: u64
  rp_prior_phase :: "PilotTaskPhase option"
  rp_resulting_phase :: PilotTaskPhase
  rp_committed_store_revision :: u64

record PilotWorkerReceiptRecord =
  wr_request_digest_sha256 :: Sha256
  wr_receipt_id :: id
  wr_task_id :: id
  wr_task_revision :: u64
  wr_attempt_number :: u64
  wr_prior_phase :: PilotTaskPhase
  wr_resulting_phase :: PilotTaskPhase
  wr_committed_store_revision :: u64
  wr_committed_at :: Rfc3339
  wr_event_cursor :: JournalCursor
  wr_observed_store_revision :: u64
  wr_observed_journal_cursor :: JournalCursor

datatype PilotWorkerReceiptObservation =
    Observed_Committed PilotWorkerReceiptRecord
  | Observed_Absent u64 JournalCursor

datatype PilotValidationError =
    Pilot_SpecificationHashMismatch | InconsistentPublishedTask | DeliveryReceiptMismatch
  | InvalidAgentBusMessageId | DurableRequestRejected

datatype PilotError =
    Pilot_RecoveryRequired
  | Pilot_InvalidRequest PilotValidationError
  | Pilot_StoreRevisionConflict u64 u64
  | Pilot_ReceiptConflict id
  | Pilot_TaskNotFound
  | Pilot_StaleAttempt
  | IllegalPilotPhase
  | PersistenceUnavailable
  | ReconciliationRequired id

type_synonym 'a pilot = "(PilotError + 'a) rm"

section \<open>Conversions\<close>

definition map_service_error :: "TaskServiceError \<Rightarrow> PilotError" where
  "map_service_error e = (case e of
     StoreRevisionConflict expected actual \<Rightarrow> Pilot_StoreRevisionConflict expected actual
   | ReceiptConflict \<Rightarrow> Pilot_InvalidRequest DurableRequestRejected
   | TaskNotFound \<Rightarrow> Pilot_TaskNotFound
   | AttemptNotFound \<Rightarrow> Pilot_StaleAttempt
   | StaleFence \<Rightarrow> Pilot_StaleAttempt
   | IllegalPhase _ \<Rightarrow> IllegalPilotPhase
   | RecoveryRequired \<Rightarrow> Pilot_RecoveryRequired
   | Err_InvalidEnvelope _ \<Rightarrow> Pilot_InvalidRequest DurableRequestRejected
   | RequestDigestMismatch \<Rightarrow> Pilot_InvalidRequest DurableRequestRejected
   | FenceNotAllowed \<Rightarrow> Pilot_InvalidRequest DurableRequestRejected
   | FenceRequired \<Rightarrow> Pilot_InvalidRequest DurableRequestRejected
   | _ \<Rightarrow> PersistenceUnavailable)"

definition pilot_phase :: "TaskPhase \<Rightarrow> PilotError + PilotTaskPhase" where
  "pilot_phase p = (case p of
     TaskPhase.Draft \<Rightarrow> Inr Pilot_Draft
   | TaskPhase.Published \<Rightarrow> Inr Pilot_Published
   | TaskPhase.Delivered \<Rightarrow> Inr Pilot_Delivered
   | TaskPhase.Accepted \<Rightarrow> Inr Pilot_Accepted
   | TaskPhase.Running \<Rightarrow> Inr Pilot_Running
   | TaskPhase.Completed \<Rightarrow> Inr Pilot_Completed
   | _ \<Rightarrow> Inl IllegalPilotPhase)"

definition pilot_specification :: "TaskSpecification \<Rightarrow> PilotTaskSpecification" where
  "pilot_specification s = \<lparr>ps_task_id = spec_task_id s, ps_task_revision = spec_task_revision s,
     ps_contract_sha256 = spec_contract_sha256 s, ps_opaque_contract = spec_opaque_contract s\<rparr>"

definition task_specification_of :: "PilotTaskSpecification \<Rightarrow> TaskSpecification" where
  "task_specification_of s = \<lparr>spec_task_id = ps_task_id s, spec_task_revision = ps_task_revision s,
     spec_contract_sha256 = ps_contract_sha256 s, spec_opaque_contract = ps_opaque_contract s\<rparr>"

definition pilot_fence :: "PilotTaskSpecification \<Rightarrow> TaskAttempt \<Rightarrow> PilotAttemptFence" where
  "pilot_fence s a = \<lparr>pf_task_id = ps_task_id s, pf_task_revision = ps_task_revision s,
     pf_attempt_number = att_attempt_number a, pf_attempt_token = att_attempt_token a,
     pf_owner = \<lparr>po_cutex_session_id = att_owner_session_id a, po_durable_revision = att_owner_durable_revision a,
       po_runtime_agent_id = att_runtime_agent_id a, po_runtime_generation = att_runtime_generation a\<rparr>\<rparr>"

definition task_service_fence :: "PilotAttemptFence \<Rightarrow> AttemptFence" where
  "task_service_fence f = \<lparr>fence_task_id = pf_task_id f, fence_task_revision = pf_task_revision f,
     fence_attempt_number = pf_attempt_number f, fence_attempt_token = pf_attempt_token f,
     fence_owner_session_id = po_cutex_session_id (pf_owner f),
     fence_runtime_generation = po_runtime_generation (pf_owner f)\<rparr>"

definition published_from_record :: "TaskRecord \<Rightarrow> u64 \<Rightarrow> PilotError + PublishedTask" where
  "published_from_record r revision =
     (if task_phase r \<noteq> Published then Inl IllegalPilotPhase
      else let specification = pilot_specification (task_specification r) in
        res_bind (ok_or Pilot_StaleAttempt (task_attempt r)) (\<lambda>a.
        Inr \<lparr>pt_specification = specification, pt_fence = pilot_fence specification a,
             pt_publication_receipt_id = att_publication_receipt_id a, pt_committed_store_revision = revision\<rparr>))"

definition snapshot_from_record :: "TaskRecord \<Rightarrow> PilotError + PilotTaskSnapshot" where
  "snapshot_from_record r =
     (let specification = pilot_specification (task_specification r) in
      res_bind (pilot_phase (task_phase r)) (\<lambda>phase.
      Inr \<lparr>sn_specification = specification, sn_phase = phase,
           sn_fence = map_option (pilot_fence specification) (task_attempt r),
           sn_agent_bus_message_id = Option.bind (task_attempt r) att_delivery_receipt_id\<rparr>))"

section \<open>Envelopes and outcomes\<close>

definition signed_envelope ::
  "task_env \<Rightarrow> id \<Rightarrow> u64 \<Rightarrow> AttemptFence option \<Rightarrow> TaskCommand \<Rightarrow> PilotError + TransitionEnvelope" where
  "signed_envelope E receipt revision fence command =
     (let envelope = \<lparr>env_receipt_id = receipt, env_request_digest_sha256 = zero_sha256,
            env_expected_store_revision = revision, env_fence = fence, env_command = command\<rparr> in
      res_bind (map_err map_service_error (canonical_command_digest E envelope)) (\<lambda>digest.
      Inr (envelope\<lparr>env_request_digest_sha256 := digest\<rparr>)))"

definition committed_transition :: "TransitionOutcome \<Rightarrow> id \<Rightarrow> PilotError + TransitionResponse" where
  "committed_transition outcome operation = (case outcome of
     Committed response \<Rightarrow> Inr response
   | NoWrite ReceiptConflict \<Rightarrow> Inl (Pilot_ReceiptConflict operation)
   | NoWrite error \<Rightarrow> Inl (map_service_error error)
   | Outcome_PersistenceUnknown receipt _ \<Rightarrow> Inl (ReconciliationRequired receipt))"

section \<open>The envelope of a delivery\<close>

record TaskDeliveryEnvelopeV1 =
  de_task_id :: id
  de_task_revision :: u64
  de_opaque_contract :: bytes
  de_contract_sha256 :: Sha256
  de_attempt_fence :: PilotAttemptFence
  de_delivery_action_id :: id

datatype DeliveryPreconditionError =
    SessionNotFound | SessionIdentityMismatch | SessionInactive | DurableRevisionMismatch
  | RuntimeAgentMismatch | RuntimeGenerationMissing | RuntimeGenerationMismatch

datatype AgentBusDeliveryResponseError =
    Response_InvalidJson | DeduplicationStatusMissing | EmptyMessageId | InvalidMessageId | TargetMismatch
  | TargetSessionMismatch | DeliveryModeMismatch | TriggerBehaviorMismatch | NotQueued | DeliveryActionMismatch

datatype AgentBusDeliveryError =
    SessionSnapshotUnavailable
  | Precondition DeliveryPreconditionError
  | Delivery_Serialization
  | TransportRejected
  | ResponseRejected AgentBusDeliveryResponseError
  | Delivery_ReconciliationRequired

text \<open>
  The part of \<open>AgentBusSendResponse\<close> that the adapter reads. \<open>response_json\<close> stands for the JSON of a
  response: whether it parses, whether \<open>deduplicated\<close> is a boolean in it, and the typed response.
\<close>

record AgentBusSendResponse =
  asr_id :: bytes
  asr_to :: bytes
  asr_to_session_id :: "bytes option"
  asr_delivery_mode :: "AgentDeliveryMode option"
  asr_trigger_turn :: bool
  asr_queued :: bool
  asr_deduplicated :: bool
  asr_external_message_id :: "bytes option"

datatype response_json =
    Not_Json
  | Json bool "AgentBusSendResponse option"

datatype SessionSnapshotError = Snapshot_Unavailable | Snapshot_NotFound

datatype AgentBusBoundaryError = Boundary_Rejected | Boundary_Uncertain

record pilot_env =
  json_delivery :: "TaskDeliveryEnvelopeV1 \<Rightarrow> bytes option"
  json_send_request :: "AgentBusSendRequest \<Rightarrow> bytes option"
  parse_response :: "bytes \<Rightarrow> response_json"
  valid_utf8 :: "bytes \<Rightarrow> bool"
  env_agent_id :: "bytes option"

definition delivery_envelope_bytes :: "pilot_env \<Rightarrow> PublishedTask \<Rightarrow> id \<Rightarrow> AgentBusDeliveryError + bytes" where
  "delivery_envelope_bytes P t action =
     ok_or Delivery_Serialization (json_delivery P
       \<lparr>de_task_id = ps_task_id (pt_specification t), de_task_revision = ps_task_revision (pt_specification t),
        de_opaque_contract = ps_opaque_contract (pt_specification t),
        de_contract_sha256 = ps_contract_sha256 (pt_specification t),
        de_attempt_fence = pt_fence t, de_delivery_action_id = action\<rparr>)"

definition delivery_envelope_sha256 ::
  "task_env \<Rightarrow> pilot_env \<Rightarrow> PublishedTask \<Rightarrow> id \<Rightarrow> AgentBusDeliveryError + Sha256" where
  "delivery_envelope_sha256 E P t action =
     res_bind (delivery_envelope_bytes P t action) (\<lambda>bs. Inr (sha256_bytes E bs))"

section \<open>The agent bus adapter\<close>

definition validate_session_snapshot ::
  "PilotOwnerSnapshot \<Rightarrow> CutexSessionRecord \<Rightarrow> AgentBusDeliveryError + unit" where
  "validate_session_snapshot expected r =
     (if cs_cutex_session_id r \<noteq> po_cutex_session_id expected then Inl (Precondition SessionIdentityMismatch)
      else if cs_archive_state r \<noteq> Session_Active then Inl (Precondition SessionInactive)
      else if session_durable_revision r \<noteq> po_durable_revision expected
      then Inl (Precondition DurableRevisionMismatch)
      else if cs_current_runtime_agent_id r \<noteq> Some (po_runtime_agent_id expected)
      then Inl (Precondition RuntimeAgentMismatch)
      else if cs_runtime_generation r = 0 then Inl (Precondition RuntimeGenerationMissing)
      else if cs_runtime_generation r \<noteq> po_runtime_generation expected
      then Inl (Precondition RuntimeGenerationMismatch)
      else Inr ())"

definition validate_response ::
  "pilot_env \<Rightarrow> bytes \<Rightarrow> PilotOwnerSnapshot \<Rightarrow> id \<Rightarrow> Sha256 \<Rightarrow>
     AgentBusDeliveryError + AgentBusDeliveryReceiptV1" where
  "validate_response P bs target action envelope_sha256 = (case parse_response P bs of
     Not_Json \<Rightarrow> Inl (ResponseRejected Response_InvalidJson)
   | Json deduplicated_is_bool typed \<Rightarrow>
       if \<not> deduplicated_is_bool then Inl (ResponseRejected DeduplicationStatusMissing)
       else case typed of
         None \<Rightarrow> Inl (ResponseRejected Response_InvalidJson)
       | Some r \<Rightarrow>
           if trim (asr_id r) = [] then Inl (ResponseRejected EmptyMessageId)
           else if isl (string_id_new (asr_id r)) then Inl (ResponseRejected InvalidMessageId)
           else if asr_to r \<noteq> po_runtime_agent_id target then Inl (ResponseRejected TargetMismatch)
           else if asr_to_session_id r \<noteq> Some (po_cutex_session_id target)
           then Inl (ResponseRejected TargetSessionMismatch)
           else if asr_delivery_mode r \<noteq> Some AfterTurn then Inl (ResponseRejected DeliveryModeMismatch)
           else if \<not> asr_trigger_turn r then Inl (ResponseRejected TriggerBehaviorMismatch)
           else if \<not> asr_queued r then Inl (ResponseRejected NotQueued)
           else if asr_external_message_id r \<noteq> Some action then Inl (ResponseRejected DeliveryActionMismatch)
           else Inr \<lparr>ad_delivery_action_id = action, ad_agent_bus_message_id = asr_id r,
             ad_target_cutex_session_id = po_cutex_session_id target,
             ad_target_runtime_agent_id = po_runtime_agent_id target,
             ad_target_runtime_generation = po_runtime_generation target,
             ad_delivery_mode = Pilot_AfterTurn, ad_queued = asr_queued r,
             ad_deduplicated = asr_deduplicated r, ad_envelope_sha256 = envelope_sha256\<rparr>)"

definition delivery_send_request :: "pilot_env \<Rightarrow> PilotDeliveryRequest \<Rightarrow> bytes \<Rightarrow> AgentBusSendRequest" where
  "delivery_send_request P q content =
     (let owner = pf_owner (pt_fence (dr_published q)) in
      \<lparr>req_to = po_runtime_agent_id owner, req_all_groups = False, req_all_hosts = False,
       req_kind = Envelope_Message, req_from = Some ''cutex-task-delivery'',
       req_from_agent_id = non_blank (env_agent_id P), req_from_session_id = None,
       req_to_session_id = Some (po_cutex_session_id owner), req_content = content,
       req_delivery_mode = Some AfterTurn, req_queue_only = None, req_trigger_turn = Some True,
       req_sender_kind = Some Kind_Agent, req_display_source = None, req_submit_mode = None,
       req_control_type = None, req_control_payload = None, req_external_action_id = None,
       req_external_message_id = Some (dr_delivery_action_id q)\<rparr>)"

text \<open>
  \<open>AgentBusAdapter::send\<close>: \<open>load_session\<close> reads the session store, \<open>send_once\<close> is the one request to
  the bus. The second component says whether that request was made.
\<close>

definition adapter_send ::
  "task_env \<Rightarrow> pilot_env \<Rightarrow> (id \<Rightarrow> SessionSnapshotError + CutexSessionRecord) \<Rightarrow>
     (bytes \<Rightarrow> AgentBusBoundaryError + bytes) \<Rightarrow> PilotDeliveryRequest \<Rightarrow>
     (AgentBusDeliveryError + AgentBusDeliveryReceiptV1) \<times> bytes list" where
  "adapter_send E P load_session send_once q =
     (let published = dr_published q; fence = pt_fence published in
      if ps_task_id (pt_specification published) \<noteq> pf_task_id fence
        \<or> ps_task_revision (pt_specification published) \<noteq> pf_task_revision fence
      then (Inl (Precondition SessionIdentityMismatch), [])
      else case load_session (po_cutex_session_id (pf_owner fence)) of
        Inl Snapshot_Unavailable \<Rightarrow> (Inl SessionSnapshotUnavailable, [])
      | Inl Snapshot_NotFound \<Rightarrow> (Inl (Precondition SessionNotFound), [])
      | Inr r \<Rightarrow> (case validate_session_snapshot (pf_owner fence) r of
          Inl e \<Rightarrow> (Inl e, [])
        | Inr _ \<Rightarrow> (case delivery_envelope_bytes P published (dr_delivery_action_id q) of
            Inl e \<Rightarrow> (Inl e, [])
          | Inr bs \<Rightarrow>
              if \<not> valid_utf8 P bs then (Inl Delivery_Serialization, [])
              else case json_send_request P (delivery_send_request P q bs) of
                None \<Rightarrow> (Inl Delivery_Serialization, [])
              | Some body \<Rightarrow> (case send_once body of
                  Inl Boundary_Rejected \<Rightarrow> (Inl TransportRejected, [body])
                | Inl Boundary_Uncertain \<Rightarrow> (Inl Delivery_ReconciliationRequired, [body])
                | Inr response \<Rightarrow> (validate_response P response (pf_owner fence) (dr_delivery_action_id q)
                    (sha256_bytes E bs), [body])))))"

section \<open>Validation\<close>

definition validate_publish_request :: "task_env \<Rightarrow> PilotPublishRequest \<Rightarrow> PilotError + unit" where
  "validate_publish_request E q =
     ensure (Pilot_InvalidRequest Pilot_SpecificationHashMismatch)
       (sha256_bytes E (ps_opaque_contract (pr_specification q)) = ps_contract_sha256 (pr_specification q))"

definition validate_published :: "PublishedTask \<Rightarrow> PilotError + unit" where
  "validate_published t =
     ensure (Pilot_InvalidRequest InconsistentPublishedTask)
       (ps_task_id (pt_specification t) = pf_task_id (pt_fence t)
        \<and> ps_task_revision (pt_specification t) = pf_task_revision (pt_fence t))"

definition validate_delivery_receipt ::
  "task_env \<Rightarrow> pilot_env \<Rightarrow> PilotDeliveryRequest \<Rightarrow> AgentBusDeliveryReceiptV1 \<Rightarrow> PilotError + unit" where
  "validate_delivery_receipt E P q receipt =
     res_bind (map_err (\<lambda>_. Pilot_InvalidRequest DeliveryReceiptMismatch)
       (delivery_envelope_sha256 E P (dr_published q) (dr_delivery_action_id q))) (\<lambda>expected.
     let owner = pf_owner (pt_fence (dr_published q)) in
     ensure (Pilot_InvalidRequest DeliveryReceiptMismatch)
       (ad_delivery_action_id receipt = dr_delivery_action_id q
        \<and> ad_target_cutex_session_id receipt = po_cutex_session_id owner
        \<and> ad_target_runtime_agent_id receipt = po_runtime_agent_id owner
        \<and> ad_target_runtime_generation receipt = po_runtime_generation owner
        \<and> ad_delivery_mode receipt = Pilot_AfterTurn
        \<and> ad_queued receipt \<and> ad_envelope_sha256 receipt = expected))"

section \<open>The pilot\<close>

definition pilot_bind :: "'a pilot \<Rightarrow> ('a \<Rightarrow> 'b pilot) \<Rightarrow> 'b pilot" where
  "pilot_bind m f = pm_bind m (\<lambda>r. case r of Inl e \<Rightarrow> pm_return (Inl e) | Inr x \<Rightarrow> f x)"

definition pilot_try :: "PilotError + 'a \<Rightarrow> 'a pilot" where
  "pilot_try r = pm_return r"

text \<open>A call of the service whose error is mapped.\<close>

definition service :: "'a rm \<Rightarrow> 'a pilot" where
  "service m = pm_bind (pm_try m) (\<lambda>r. pm_return (map_err map_service_error r))"

definition commit :: "task_env \<Rightarrow> task_os \<Rightarrow> RootHandle \<Rightarrow> Rfc3339 \<Rightarrow> TransitionEnvelope \<Rightarrow> id \<Rightarrow> TransitionResponse pilot" where
  "commit E os root now e operation =
     pm_bind (transition E os root now e) (\<lambda>outcome. pm_return (committed_transition outcome operation))"

definition require_recovered :: "bool \<Rightarrow> PilotError + unit" where
  "require_recovered recovered = ensure Pilot_RecoveryRequired recovered"

text \<open>The value is the flag \<open>recovered\<close> after the call.\<close>

definition recover :: "task_env \<Rightarrow> task_os \<Rightarrow> RootHandle \<Rightarrow> bool pilot" where
  "recover E os root = pilot_bind (service (load E os root)) (\<lambda>_. pilot_try (Inr True))"

definition query_published ::
  "task_env \<Rightarrow> task_os \<Rightarrow> RootHandle \<Rightarrow> TransitionResponse \<Rightarrow> PublishedTask pilot" where
  "query_published E os root response =
     pilot_bind (service (get_task E os root (rsp_task_id response) (Some (rsp_task_revision response)))) (\<lambda>r.
     pilot_bind (pilot_try (ok_or Pilot_TaskNotFound r)) (\<lambda>r.
     pilot_try (published_from_record r (rsp_committed_store_revision response))))"

definition publish ::
  "task_env \<Rightarrow> task_os \<Rightarrow> RootHandle \<Rightarrow> bool \<Rightarrow> Rfc3339 \<Rightarrow> Rfc3339 \<Rightarrow> PilotPublishRequest \<Rightarrow> PublishedTask pilot" where
  "publish E os root recovered now now' q =
     pilot_bind (pilot_try (require_recovered recovered)) (\<lambda>_.
     pilot_bind (pilot_try (validate_publish_request E q)) (\<lambda>_.
     pilot_bind (pilot_try (signed_envelope E (pr_create_receipt_id q) (pr_expected_store_revision q) None
       (CreateDraft (task_specification_of (pr_specification q))))) (\<lambda>create.
     pilot_bind (commit E os root now create (pr_create_receipt_id q)) (\<lambda>created.
     if rsp_resulting_phase created \<noteq> Draft \<or> rsp_task_id created \<noteq> ps_task_id (pr_specification q)
       \<or> rsp_task_revision created \<noteq> ps_task_revision (pr_specification q)
     then pilot_try (Inl (Pilot_InvalidRequest DurableRequestRejected))
     else
       pilot_bind (pilot_try (signed_envelope E (pr_publish_receipt_id q) (rsp_committed_store_revision created) None
         (Publish \<lparr>pub_task_id = ps_task_id (pr_specification q), pub_task_revision = ps_task_revision (pr_specification q),
           pub_attempt_token = pr_attempt_token q, pub_owner_session_id = po_cutex_session_id (pr_owner q),
           pub_owner_durable_revision = po_durable_revision (pr_owner q),
           pub_runtime_generation = po_runtime_generation (pr_owner q),
           pub_runtime_agent_id = po_runtime_agent_id (pr_owner q)\<rparr>))) (\<lambda>publication.
       pilot_bind (commit E os root now' publication (pr_publish_receipt_id q)) (\<lambda>published.
       if rsp_resulting_phase published \<noteq> Published
       then pilot_try (Inl (Pilot_InvalidRequest DurableRequestRejected))
       else query_published E os root published))))))"

definition deliver ::
  "task_env \<Rightarrow> pilot_env \<Rightarrow> task_os \<Rightarrow> RootHandle \<Rightarrow> bool \<Rightarrow> Rfc3339 \<Rightarrow> PilotDeliveryRequest \<Rightarrow>
     AgentBusDeliveryReceiptV1 \<Rightarrow> DeliveredTask pilot" where
  "deliver E P os root recovered now q receipt =
     pilot_bind (pilot_try (require_recovered recovered)) (\<lambda>_.
     pilot_bind (pilot_try (validate_published (dr_published q))) (\<lambda>_.
     pilot_bind (pilot_try (validate_delivery_receipt E P q receipt)) (\<lambda>_.
     pilot_bind (pilot_try (map_err (\<lambda>_. Pilot_InvalidRequest InvalidAgentBusMessageId)
       (string_id_new (ad_agent_bus_message_id receipt)))) (\<lambda>external.
     pilot_bind (pilot_try (signed_envelope E (dr_transition_receipt_id q)
       (pt_committed_store_revision (dr_published q)) (Some (task_service_fence (pt_fence (dr_published q))))
       (RecordDelivery \<lparr>dlv_external_delivery_receipt_id = external, dlv_observed_at = None\<rparr>))) (\<lambda>envelope.
     pilot_bind (commit E os root now envelope (dr_transition_receipt_id q)) (\<lambda>response.
     if rsp_resulting_phase response \<noteq> Delivered
       \<or> rsp_task_id response \<noteq> ps_task_id (pt_specification (dr_published q))
       \<or> rsp_task_revision response \<noteq> ps_task_revision (pt_specification (dr_published q))
     then pilot_try (Inl (Pilot_InvalidRequest DurableRequestRejected))
     else pilot_try (Inr \<lparr>dt_published = dr_published q, dt_transition_receipt_id = dr_transition_receipt_id q,
       dt_delivery_receipt = receipt, dt_committed_store_revision = rsp_committed_store_revision response\<rparr>)))))))"

definition pilot_task ::
  "task_env \<Rightarrow> task_os \<Rightarrow> RootHandle \<Rightarrow> bool \<Rightarrow> id \<Rightarrow> u64 \<Rightarrow> PilotTaskSnapshot option pilot" where
  "pilot_task E os root recovered task revision =
     pilot_bind (pilot_try (require_recovered recovered)) (\<lambda>_.
     pilot_bind (service (get_task E os root task (Some revision))) (\<lambda>r.
     pilot_try (case r of None \<Rightarrow> Inr None | Some t \<Rightarrow> res_bind (snapshot_from_record t) (\<lambda>s. Inr (Some s)))))"

text \<open>\<open>Option::map(pilot_phase).transpose()\<close>.\<close>

definition prior_pilot_phase :: "TaskPhase option \<Rightarrow> PilotError + PilotTaskPhase option" where
  "prior_pilot_phase p = (case p of None \<Rightarrow> Inr None | Some p \<Rightarrow> res_bind (pilot_phase p) (\<lambda>p. Inr (Some p)))"

definition receipt_from_record :: "ReceiptRecord \<Rightarrow> PilotError + PilotReceipt" where
  "receipt_from_record r =
     res_bind (prior_pilot_phase (rsp_prior_phase (rec_response r))) (\<lambda>prior.
     res_bind (pilot_phase (rsp_resulting_phase (rec_response r))) (\<lambda>resulting.
     Inr \<lparr>rp_receipt_id = rec_receipt_id r, rp_task_id = rsp_task_id (rec_response r),
          rp_task_revision = rsp_task_revision (rec_response r), rp_prior_phase = prior,
          rp_resulting_phase = resulting,
          rp_committed_store_revision = rsp_committed_store_revision (rec_response r)\<rparr>))"

definition pilot_receipt :: "task_env \<Rightarrow> task_os \<Rightarrow> RootHandle \<Rightarrow> bool \<Rightarrow> id \<Rightarrow> PilotReceipt option pilot" where
  "pilot_receipt E os root recovered receipt =
     pilot_bind (pilot_try (require_recovered recovered)) (\<lambda>_.
     pilot_bind (service (get_receipt_record E os root receipt)) (\<lambda>r.
     pilot_try (case r of None \<Rightarrow> Inr None | Some x \<Rightarrow> res_bind (receipt_from_record x) (\<lambda>x. Inr (Some x)))))"

definition worker_receipt_of :: "TaskStore \<Rightarrow> id \<Rightarrow> PilotError + PilotWorkerReceiptObservation" where
  "worker_receipt_of store receipt = (case bt_get (ts_receipts store) receipt of
     None \<Rightarrow> Inr (Observed_Absent (ts_store_revision store) (ts_journal_checkpoint store))
   | Some r \<Rightarrow>
       if rec_receipt_id r \<noteq> receipt \<or> rsp_receipt_id (rec_response r) \<noteq> receipt
       then Inl (Pilot_InvalidRequest DurableRequestRejected)
       else
         res_bind (ok_or (Pilot_InvalidRequest DurableRequestRejected) (rsp_attempt_number (rec_response r))) (\<lambda>attempt.
         res_bind (ok_or (Pilot_InvalidRequest DurableRequestRejected) (rsp_prior_phase (rec_response r))) (\<lambda>prior.
         res_bind (pilot_phase prior) (\<lambda>prior.
         res_bind (pilot_phase (rsp_resulting_phase (rec_response r))) (\<lambda>resulting.
         Inr (Observed_Committed
           \<lparr>wr_request_digest_sha256 = rec_request_digest_sha256 r, wr_receipt_id = rec_receipt_id r,
            wr_task_id = rsp_task_id (rec_response r), wr_task_revision = rsp_task_revision (rec_response r),
            wr_attempt_number = attempt, wr_prior_phase = prior, wr_resulting_phase = resulting,
            wr_committed_store_revision = rsp_committed_store_revision (rec_response r),
            wr_committed_at = rsp_committed_at (rec_response r), wr_event_cursor = rec_event_cursor r,
            wr_observed_store_revision = ts_store_revision store,
            wr_observed_journal_cursor = ts_journal_checkpoint store\<rparr>))))))"

definition inspect_worker_receipt ::
  "task_env \<Rightarrow> task_os \<Rightarrow> RootHandle \<Rightarrow> bool \<Rightarrow> id \<Rightarrow> PilotWorkerReceiptObservation pilot" where
  "inspect_worker_receipt E os root recovered receipt =
     pilot_bind (pilot_try (require_recovered recovered)) (\<lambda>_.
     pilot_bind (service (load E os root)) (\<lambda>store.
     pilot_try (worker_receipt_of store receipt)))"

end
