(* ===== verification/Pilot_Properties.thy ===== *)
theory Pilot_Properties
  imports Task_Pilot Task_History
begin

text \<open>
  Facts about the delivery pilot: a Hoare triple for methods that return \<open>Result\<close>, the effect of a
  commit, a publication and a delivery on the journal on disk, and the agreement of the adapter with
  the checks of the pilot.
\<close>

section \<open>Triples for methods that return a result\<close>

text \<open>An error may leave any disk that extends the journal, as a panic may.\<close>

definition ptriple ::
  "task_files \<Rightarrow> 'a pilot \<Rightarrow> ('a \<Rightarrow> task_files \<Rightarrow> bool) \<Rightarrow> (task_files \<Rightarrow> bool) \<Rightarrow> bool" where
  "ptriple f m Q C \<longleftrightarrow> rtriple f m (\<lambda>r f'. case r of Inr x \<Rightarrow> Q x f' | Inl _ \<Rightarrow> C f') C"

definition grown :: "task_env \<Rightarrow> JournalRecord list \<Rightarrow> task_files \<Rightarrow> bool" where
  "grown E rs f \<longleftrightarrow> (\<exists>ts. disk_at E f (rs @ ts))"

lemma ptriple_bind:
  assumes "ptriple f m Q C" and "\<And>x f'. Q x f' \<Longrightarrow> ptriple f' (g x) S C"
  shows "ptriple f (pilot_bind m g) S C"
  unfolding ptriple_def pilot_bind_def
proof (rule rtriple_bind [OF assms(1) [unfolded ptriple_def]])
  fix r :: "PilotError + 'a" and f'
  assume "case r of Inr x \<Rightarrow> Q x f' | Inl _ \<Rightarrow> C f'"
  then show "rtriple f' (case r of Inl e \<Rightarrow> pm_return (Inl e) | Inr x \<Rightarrow> g x)
      (\<lambda>r f'. case r of Inr x \<Rightarrow> S x f' | Inl _ \<Rightarrow> C f') C"
    by (cases r) (use assms(2) in \<open>auto simp: ptriple_def intro: rtriple_return\<close>)
qed

lemma ptriple_try: "C f \<Longrightarrow> (\<And>x. r = Inr x \<Longrightarrow> Q x f) \<Longrightarrow> ptriple f (pilot_try r) Q C"
  unfolding ptriple_def pilot_try_def by (rule rtriple_return) (auto split: sum.splits)

lemma ptriple_try_bind:
  assumes "C f" and "\<And>x. r = Inr x \<Longrightarrow> ptriple f (g x) S C"
  shows "ptriple f (pilot_bind (pilot_try r) g) S C"
  by (rule ptriple_bind [OF ptriple_try [where Q = "\<lambda>x f'. r = Inr x \<and> f' = f"]]) (use assms in auto)

lemma ptriple_if:
  "(b \<Longrightarrow> ptriple f m Q C) \<Longrightarrow> (\<not> b \<Longrightarrow> ptriple f m' Q C) \<Longrightarrow> ptriple f (if b then m else m') Q C"
  by simp

lemma ptriple_service: "rtriple f m Q C \<Longrightarrow> ptriple f (service m) Q C"
  unfolding ptriple_def service_def
  by (rule rtriple_bind [OF rtriple_try], assumption) (auto split: sum.splits intro: rtriple_return)

lemma ptriple_conseq:
  "ptriple f m Q C \<Longrightarrow> (\<And>x f'. Q x f' \<Longrightarrow> Q' x f') \<Longrightarrow> (\<And>f'. C f' \<Longrightarrow> C' f') \<Longrightarrow> ptriple f m Q' C'"
  unfolding ptriple_def by (erule rtriple_conseq) (auto split: sum.splits)

lemma ptriple_run:
  assumes "ptriple (disk_files st) m Q C" and "m st = (Done r, st')"
  shows "case r of Inr x \<Rightarrow> Q x (disk_files st') | Inl _ \<Rightarrow> C (disk_files st')"
  using rtriple_run [OF assms(1) [unfolded ptriple_def] assms(2)] by simp

section \<open>Growth of the journal\<close>

lemma grown_refl: "disk_at E f rs \<Longrightarrow> grown E rs f"
  unfolding grown_def by (intro exI [of _ "[]"]) simp

lemma disk_from_grown: "disk_from E rs f \<Longrightarrow> grown E rs f"
  unfolding disk_from_def grown_def using system_ext_append by blast

lemma grown_trans: "grown E (rs @ ts) f \<Longrightarrow> grown E rs f"
  unfolding grown_def by auto

definition committed_on ::
  "task_env \<Rightarrow> JournalRecord list \<Rightarrow> TransitionEnvelope \<Rightarrow> TransitionResponse \<Rightarrow> task_files \<Rightarrow> bool" where
  "committed_on E rs e response f \<longleftrightarrow> (\<exists>ts. disk_at E f (rs @ ts) \<and> receipt_of E (rs @ ts) e response)"

lemma commit_spec:
  assumes "task_env_ok E" and "honest os" and "disk_at E f rs"
  shows "ptriple f (commit E os root now e operation) (committed_on E rs e) (grown E rs)"
proof -
  have settled: "case committed_transition outcome operation of
      Inr response \<Rightarrow> committed_on E rs e response f' | Inl _ \<Rightarrow> grown E rs f'"
    if result: "transition_result E e rs outcome f'" for outcome f'
  proof -
    obtain rs1 rs2 where r: "system_ext rs rs1" "transition_ext e rs1 rs2" "disk_at E f' rs2"
        "\<forall>response. outcome = Committed response \<longrightarrow> receipt_of E rs2 e response"
      using result by (auto simp: transition_result_def transition_done_def)
    obtain ts where "rs2 = rs @ ts"
      using system_ext_append [OF r(1)] transition_ext_append [OF r(2)] by auto
    with r show ?thesis
      by (cases outcome)
        (auto simp: committed_transition_def committed_on_def grown_def split: TaskServiceError.splits)
  qed
  show ?thesis
    unfolding ptriple_def commit_def
    by (rule rtriple_bind [OF rtriple_conseq [OF transition_spec [OF assms] _ disk_from_grown]], assumption,
      assumption, rule rtriple_return, erule settled)
qed

lemma load_grows:
  assumes "task_env_ok E" and "honest os" and "disk_at E f rs"
  shows "rtriple f (load E os root)
    (\<lambda>s f'. \<exists>ts. clean E f' (rs @ ts) \<and> reconstruct_store E (rs @ ts) = Done s) (grown E rs)"
  by (rule rtriple_conseq [OF load_spec [OF assms]]) (use system_ext_append in \<open>blast, blast intro: disk_from_grown\<close>)

lemma receipt_of_stored:
  assumes "receipt_of E rs e response" and "reconstruct_store E (rs @ ts) = Done s"
  shows "\<exists>x. bt_get (ts_receipts s) (env_receipt_id e) = Some x \<and> rec_response x = response
    \<and> rec_request_digest_sha256 x = env_request_digest_sha256 e"
  using receipt_of_append [OF assms] assms(2) by (auto simp: receipt_of_def)


section \<open>Publication\<close>

text \<open>
  What a successful publication leaves: a consistent disk whose store holds both receipts and, under
  the identity in the fence, the published record the result was made from.
\<close>

definition published_on ::
  "task_env \<Rightarrow> JournalRecord list \<Rightarrow> PilotPublishRequest \<Rightarrow> PublishedTask \<Rightarrow> task_files \<Rightarrow> bool" where
  "published_on E rs q t f \<longleftrightarrow> (\<exists>ts s r. clean E f (rs @ ts) \<and> reconstruct_store E (rs @ ts) = Done s \<and>
     bt_get (ts_receipts s) (pr_create_receipt_id q) \<noteq> None \<and>
     bt_get (ts_receipts s) (pr_publish_receipt_id q) \<noteq> None \<and>
     task_get (ts_tasks s) (pf_task_id (pt_fence t)) (pf_task_revision (pt_fence t)) = Some r \<and>
     published_from_record r (pt_committed_store_revision t) = Inr t)"

lemma signed_envelope_Inr:
  assumes "signed_envelope E receipt n fence command = Inr e"
  shows "env_receipt_id e = receipt \<and> env_expected_store_revision e = n \<and> env_fence e = fence
    \<and> env_command e = command \<and> canonical_command_digest E e = Inr (env_request_digest_sha256 e)"
  using assms by (auto simp: signed_envelope_def canonical_command_digest_def res_simps Let_def)

lemma published_from_record_Inr:
  assumes "published_from_record r n = Inr t"
  obtains a where "task_phase r = Published" "task_attempt r = Some a"
    "t = \<lparr>pt_specification = pilot_specification (task_specification r),
      pt_fence = pilot_fence (pilot_specification (task_specification r)) a,
      pt_publication_receipt_id = att_publication_receipt_id a, pt_committed_store_revision = n\<rparr>"
  using assms by (auto simp: published_from_record_def Let_def res_simps split: if_splits)

text \<open>The fence of a published task matches the attempt it was read from.\<close>

lemma published_fence_matches:
  assumes "published_from_record r n = Inr t" and "task_attempt r = Some a"
  shows "fence_matches (task_service_fence (pt_fence t)) a"
  using assms(1) by (rule published_from_record_Inr)
    (use assms(2) in \<open>simp add: fence_matches_def task_service_fence_def pilot_fence_def\<close>)

lemma published_deliverable:
  assumes "task_get (ts_tasks s) (pf_task_id (pt_fence t)) (pf_task_revision (pt_fence t)) = Some r"
    and "published_from_record r n = Inr t"
    and "env_fence e = Some (task_service_fence (pt_fence t))" and "env_command e = RecordDelivery d"
  shows "\<exists>p. plan_transition s e = Done p \<and> plan_resulting_phase p = Delivered
    \<and> plan_task_id p = ps_task_id (pt_specification t) \<and> plan_task_revision p = ps_task_revision (pt_specification t)"
proof -
  obtain a where a: "task_phase r = Published" "task_attempt r = Some a"
    "pt_specification t = pilot_specification (task_specification r)"
    "pt_fence t = pilot_fence (pilot_specification (task_specification r)) a"
    using assms(2) by (rule published_from_record_Inr) simp
  have "fence_matches (task_service_fence (pt_fence t)) a"
    by (rule published_fence_matches [OF assms(2) a(2)])
  with assms(1,3,4) a(1,2) show ?thesis
    by (simp add: plan_transition_def plan_attempt_transition_def require_phase_def a(3,4)
      task_service_fence_def pilot_fence_def)
qed

lemma get_task_spec:
  assumes "task_env_ok E" and "honest os" and "disk_at E f rs"
  shows "rtriple f (get_task E os root task (Some n))
    (\<lambda>r f'. \<exists>ts s. clean E f' (rs @ ts) \<and> reconstruct_store E (rs @ ts) = Done s \<and> r = task_get (ts_tasks s) task n)
    (grown E rs)"
proof -
  have looked_up: "(case bt_get tasks task of None \<Rightarrow> None | Some revisions \<Rightarrow> (case Some n of
      Some n \<Rightarrow> bt_get revisions n | None \<Rightarrow> map_option snd (bt_last revisions))) = task_get tasks task n" for tasks
    by (cases "bt_get tasks task") (simp_all add: task_get_def)
  show ?thesis
    unfolding get_task_def looked_up
    by (rule rtriple_bind [OF load_grows [OF assms]], rule rtriple_return) blast
qed

lemma reconstruct_filed:
  assumes "reconstruct_store E rs = Done s" and "task_get (ts_tasks s) t n = Some r"
  shows "spec_task_id (task_specification r) = t \<and> spec_task_revision (task_specification r) = n"
  using table_valid_get [OF store_inv_table [OF reconstruct_inv [OF assms(1)]] assms(2)]
  by (simp add: record_ok_def)

lemma query_published_spec:
  assumes "task_env_ok E" and "honest os" and "disk_at E f rs"
    and "receipt_of E rs e response" and "receipt_of E rs e' response'"
    and "env_receipt_id e = pr_create_receipt_id q" and "env_receipt_id e' = pr_publish_receipt_id q"
  shows "ptriple f (query_published E os root response'') (published_on E rs q) (grown E rs)"
proof -
  have here: "published_on E rs q t f'"
    if c: "clean E f' (rs @ ts)" "reconstruct_store E (rs @ ts) = Done s" "task_get (ts_tasks s) k n = Some r"
      and t: "published_from_record r m = Inr t" for f' ts s k n r m t
  proof -
    have "pf_task_id (pt_fence t) = k" "pf_task_revision (pt_fence t) = n" "pt_committed_store_revision t = m"
      using reconstruct_filed [OF c(2,3)] t
      by (auto elim!: published_from_record_Inr simp: pilot_fence_def pilot_specification_def)
    moreover have "bt_get (ts_receipts s) (pr_create_receipt_id q) \<noteq> None"
        "bt_get (ts_receipts s) (pr_publish_receipt_id q) \<noteq> None"
      using receipt_of_stored [OF assms(4) c(2)] receipt_of_stored [OF assms(5) c(2)] assms(6,7) by auto
    ultimately show ?thesis
      using c t unfolding published_on_def by blast
  qed
  show ?thesis
    unfolding query_published_def
    apply (rule ptriple_bind [OF ptriple_service [OF get_task_spec [OF assms(1-3)]]])
    apply (rule ptriple_try_bind)
     apply (auto simp: grown_def intro: clean_disk_at)[1]
    apply (rule ptriple_try)
     apply (auto simp: grown_def intro: clean_disk_at)[1]
    apply (auto simp: res_simps intro: here [OF _ _ sym])
    done
qed

lemma ptriple_grown:
  assumes "ptriple f m Q (grown E (rs @ ts))"
  shows "ptriple f m Q (grown E rs)"
  by (rule ptriple_conseq [OF assms]) (auto intro: grown_trans)

lemma published_on_prefix: "published_on E (rs @ ts) q t f \<Longrightarrow> published_on E rs q t f"
  unfolding published_on_def by auto

lemma publish_spec:
  assumes env: "task_env_ok E" and os: "honest os" and disk: "disk_at E f rs"
  shows "ptriple f (publish E os root ready now now' q)
    (\<lambda>t f'. ready \<and> published_on E rs q t f') (grown E rs)"
proof -
  note here = grown_refl [OF disk]
  have second: "ptriple f' (pilot_bind (commit E os root now' e' operation) (\<lambda>published.
      if rsp_resulting_phase published \<noteq> Published then pilot_try (Inl (Pilot_InvalidRequest DurableRequestRejected))
      else query_published E os root published)) (\<lambda>t f'. ready \<and> published_on E rs q t f') (grown E rs)"
    if ready and d: "disk_at E f' (rs @ ts)" and rc: "receipt_of E (rs @ ts) e response"
      and ids: "env_receipt_id e = pr_create_receipt_id q" "env_receipt_id e' = pr_publish_receipt_id q"
    for f' ts e e' response operation
  proof (rule ptriple_grown, rule ptriple_bind [OF commit_spec [OF env os d]])
    fix published f''
    assume "committed_on E (rs @ ts) e' published f''"
    then obtain us where us: "disk_at E f'' (rs @ ts @ us)" "receipt_of E (rs @ ts @ us) e' published"
      by (auto simp: committed_on_def)
    have first: "receipt_of E (rs @ ts @ us) e response"
      using receipt_of_append [OF rc, of us] disk_at_store [OF us(1)] by auto
    show "ptriple f'' (if rsp_resulting_phase published \<noteq> Published
        then pilot_try (Inl (Pilot_InvalidRequest DurableRequestRejected)) else query_published E os root published)
      (\<lambda>t f'. ready \<and> published_on E rs q t f') (grown E (rs @ ts))"
    proof (rule ptriple_if)
      show "ptriple f'' (pilot_try (Inl (Pilot_InvalidRequest DurableRequestRejected)))
          (\<lambda>t f'. ready \<and> published_on E rs q t f') (grown E (rs @ ts))"
        by (rule ptriple_try) (use us(1) in \<open>auto simp: grown_def\<close>)
      show "ptriple f'' (query_published E os root published)
          (\<lambda>t f'. ready \<and> published_on E rs q t f') (grown E (rs @ ts))"
        by (rule ptriple_conseq [OF query_published_spec [OF env os us(1) first us(2) ids]])
          (use \<open>ready\<close> in \<open>auto intro: published_on_prefix grown_trans [where ts = us]\<close>)
    qed
  qed
  show ?thesis
    unfolding publish_def
    apply (rule ptriple_try_bind, rule here)
    apply (rule ptriple_try_bind, rule here)
    apply (rule ptriple_try_bind, rule here)
    apply (rule ptriple_bind [OF commit_spec [OF env os disk]])
    apply (rule ptriple_if)
     apply (rule ptriple_try)
      apply (auto simp: committed_on_def grown_def)[2]
    apply (rule ptriple_try_bind)
     apply (auto simp: committed_on_def grown_def)[1]
    apply (unfold committed_on_def)
    apply (elim exE conjE)
    apply (rule second)
        apply (auto simp: require_recovered_def ensure_def dest: signed_envelope_Inr split: if_splits)
    done
qed


section \<open>Delivery\<close>

text \<open>A receipt of the adapter is for the owner in the fence and passes every check of the pilot.\<close>

lemma validate_response_Inr:
  assumes "validate_response P bs target action digest = Inr receipt"
  shows "ad_delivery_action_id receipt = action \<and> ad_target_cutex_session_id receipt = po_cutex_session_id target
    \<and> ad_target_runtime_agent_id receipt = po_runtime_agent_id target
    \<and> ad_target_runtime_generation receipt = po_runtime_generation target
    \<and> ad_delivery_mode receipt = Pilot_AfterTurn \<and> ad_queued receipt \<and> ad_envelope_sha256 receipt = digest
    \<and> \<not> isl (string_id_new (ad_agent_bus_message_id receipt))"
  using assms by (auto simp: validate_response_def split: response_json.splits if_splits option.splits)

lemma adapter_send_Inr:
  assumes "adapter_send E P load_session send_once q = (Inr receipt, sent)"
  shows "(\<exists>body. sent = [body]) \<and> validate_published (dr_published q) = Inr ()
    \<and> validate_delivery_receipt E P q receipt = Inr ()
    \<and> \<not> isl (string_id_new (ad_agent_bus_message_id receipt))"
proof -
  let ?fence = "pt_fence (dr_published q)"
  obtain bs response where r:
      "delivery_envelope_bytes P (dr_published q) (dr_delivery_action_id q) = Inr bs"
      "validate_response P response (pf_owner ?fence) (dr_delivery_action_id q) (sha256_bytes E bs) = Inr receipt"
      "\<exists>body. sent = [body]" "validate_published (dr_published q) = Inr ()"
    using assms
    by (auto simp: adapter_send_def Let_def validate_published_def ensure_def
      split: if_splits sum.splits option.splits SessionSnapshotError.splits AgentBusBoundaryError.splits)
  from r(1) validate_response_Inr [OF r(2)] r(3,4) show ?thesis
    by (simp add: validate_delivery_receipt_def delivery_envelope_sha256_def map_err_def Let_def ensure_def)
qed

text \<open>The envelope \<open>deliver\<close> sends to the service.\<close>

definition delivery_transition :: "PilotDeliveryRequest \<Rightarrow> AgentBusDeliveryReceiptV1 \<Rightarrow> TransitionEnvelope \<Rightarrow> bool" where
  "delivery_transition q receipt e \<longleftrightarrow> env_receipt_id e = dr_transition_receipt_id q
     \<and> env_expected_store_revision e = pt_committed_store_revision (dr_published q)
     \<and> env_fence e = Some (task_service_fence (pt_fence (dr_published q)))
     \<and> env_command e = RecordDelivery \<lparr>dlv_external_delivery_receipt_id = ad_agent_bus_message_id receipt,
          dlv_observed_at = None\<rparr>"

definition delivered_on ::
  "task_env \<Rightarrow> JournalRecord list \<Rightarrow> PilotDeliveryRequest \<Rightarrow> AgentBusDeliveryReceiptV1 \<Rightarrow> DeliveredTask \<Rightarrow> task_files \<Rightarrow> bool" where
  "delivered_on E rs q receipt d f \<longleftrightarrow> (\<exists>ts e response.
     disk_at E f (rs @ ts) \<and> delivery_transition q receipt e \<and> receipt_of E (rs @ ts) e response
     \<and> rsp_resulting_phase response = Delivered
     \<and> rsp_task_id response = ps_task_id (pt_specification (dr_published q))
     \<and> rsp_task_revision response = ps_task_revision (pt_specification (dr_published q))
     \<and> d = \<lparr>dt_published = dr_published q, dt_transition_receipt_id = dr_transition_receipt_id q,
          dt_delivery_receipt = receipt, dt_committed_store_revision = rsp_committed_store_revision response\<rparr>)"

lemma deliver_spec:
  assumes env: "task_env_ok E" and os: "honest os" and disk: "disk_at E f rs"
  shows "ptriple f (deliver E P os root ready now q receipt)
    (\<lambda>d f'. ready \<and> delivered_on E rs q receipt d f') (grown E rs)"
proof -
  note here = grown_refl [OF disk]
  have external: "x = ad_agent_bus_message_id receipt"
    if "map_err g (string_id_new (ad_agent_bus_message_id receipt)) = Inr x" for g :: "ValueError \<Rightarrow> PilotError" and x
    using that by (auto simp: string_id_new_def res_simps split: if_splits)
  show ?thesis
    unfolding deliver_def
    apply (rule ptriple_try_bind, rule here)
    apply (rule ptriple_try_bind, rule here)
    apply (rule ptriple_try_bind, rule here)
    apply (rule ptriple_try_bind, rule here)
    apply (rule ptriple_try_bind, rule here)
    apply (rule ptriple_bind [OF commit_spec [OF env os disk]])
    apply (rule ptriple_if)
     apply (rule ptriple_try)
      apply (auto simp: committed_on_def grown_def)[2]
    apply (rule ptriple_try)
     apply (auto simp: committed_on_def grown_def)[1]
    apply (drule signed_envelope_Inr)
    apply (auto simp: committed_on_def delivered_on_def delivery_transition_def require_recovered_def ensure_def
      dest: external split: if_splits)
    done
qed


text \<open>Beyond its own checks \<open>deliver\<close> gives one validation error only.\<close>

lemma pilot_bind_Done:
  "pilot_bind m g st = (Done r, st') \<longleftrightarrow> (\<exists>e. m st = (Done (Inl e), st') \<and> r = Inl e) \<or>
     (\<exists>x st1. m st = (Done (Inr x), st1) \<and> g x st1 = (Done r, st'))"
  by (auto simp: pilot_bind_def pm_bind_def pm_return_def split: prod.splits tres.splits sum.splits)

lemma pilot_try_Done: "pilot_try x st = (Done r, st') \<longleftrightarrow> r = x \<and> st' = st"
  by (auto simp: pilot_try_def pm_return_def)

lemma map_service_error_invalid: "map_service_error e = Pilot_InvalidRequest v \<Longrightarrow> v = DurableRequestRejected"
  by (auto simp: map_service_error_def split: TaskServiceError.splits)

lemma signed_envelope_invalid:
  "signed_envelope E receipt n fence command = Inl (Pilot_InvalidRequest v) \<Longrightarrow> v = DurableRequestRejected"
  by (auto simp: signed_envelope_def res_bind_def map_err_def Let_def dest: map_service_error_invalid split: sum.splits)

lemma commit_invalid:
  assumes "commit E os root now e operation st = (Done (Inl (Pilot_InvalidRequest v)), st')"
  shows "v = DurableRequestRejected"
  using assms
  by (auto simp: commit_def committed_transition_def pm_bind_def pm_return_def dest: map_service_error_invalid
    split: prod.splits tres.splits TransitionOutcome.splits TaskServiceError.splits)

lemma deliver_rejects:
  assumes "validate_published (dr_published q) = Inr ()" and "validate_delivery_receipt E P q receipt = Inr ()"
    and "\<not> isl (string_id_new (ad_agent_bus_message_id receipt))"
    and "deliver E P os root ready now q receipt st = (Done r, st')" and "r = Inl (Pilot_InvalidRequest v)"
  shows "v = DurableRequestRejected"
proof -
  obtain x where "string_id_new (ad_agent_bus_message_id receipt) = Inr x"
    using assms(3) by (cases "string_id_new (ad_agent_bus_message_id receipt)") auto
  with assms(1,2,4,5) show ?thesis
    by (auto simp: deliver_def pilot_bind_Done pilot_try_Done require_recovered_def ensure_def map_err_def
      dest: signed_envelope_invalid [OF sym] commit_invalid split: if_splits)
qed

end
