(* ===== verification/Pilot_Claims.thy ===== *)
theory Pilot_Claims
  imports Pilot_Properties Task_Examples
begin

text \<open>
  The properties of the delivery pilot, with a concrete run: a publication that is asked for again,
  the message of the adapter, and the delivery after it.
\<close>

section \<open>A concrete run\<close>

definition px_owner :: PilotOwnerSnapshot where
  "px_owner = \<lparr>po_cutex_session_id = ''s1'', po_durable_revision = 1, po_runtime_agent_id = ''a1'', po_runtime_generation = 1\<rparr>"

definition px_request :: PilotPublishRequest where
  "px_request = \<lparr>pr_specification = pilot_specification (tx_spec 1), pr_create_receipt_id = ''r1'',
     pr_publish_receipt_id = ''r2'', pr_expected_store_revision = 1, pr_attempt_token = ''tok'', pr_owner = px_owner\<rparr>"

definition px_published :: PublishedTask where
  "px_published = \<lparr>pt_specification = pilot_specification (tx_spec 1),
     pt_fence = \<lparr>pf_task_id = ''t1'', pf_task_revision = 1, pf_attempt_number = 1, pf_attempt_token = ''tok'', pf_owner = px_owner\<rparr>,
     pt_publication_receipt_id = ''r2'', pt_committed_store_revision = 3\<rparr>"

definition px_delivery :: PilotDeliveryRequest where
  "px_delivery = \<lparr>dr_published = px_published, dr_delivery_action_id = ''act'', dr_transition_receipt_id = ''r3''\<rparr>"

definition px_record_delivery :: TransitionEnvelope where
  "px_record_delivery = tx_envelope ''r3'' 3 (Some tx_fence) (RecordDelivery
     \<lparr>dlv_external_delivery_receipt_id = ''m1'', dlv_observed_at = None\<rparr>)"

definition px_records :: "JournalRecord list" where
  "px_records = [tx_rec empty_store tx_create, tx_rec tx_s2 tx_publish, tx_rec tx_s3 px_record_delivery]"

definition px_env :: task_env where
  "px_env = table_env px_records
     [empty_store, tx_next preflight_time empty_store tx_create, tx_s2, tx_next preflight_time tx_s2 tx_publish,
      tx_s3, tx_next preflight_time tx_s3 px_record_delivery, tx_next tx_now tx_s3 px_record_delivery] []"

text \<open>The disk after the publication: both records and the snapshot of their store.\<close>

definition px_dir :: directory where
  "px_dir = [LOCK_FILE \<mapsto> [], JOURNAL_FILE \<mapsto> ''x'' @ [newline] @ ''xx'' @ [newline], SNAPSHOT_FILE \<mapsto> ''xxxxx'']"

lemma px_env_ok: "task_env_ok px_env"
  unfolding px_env_def by (rule table_env_ok)

lemma px_files: "disk_files (tx_repo px_dir) = \<lparr>tf_lock = Some [],
    tf_journal = Some (''x'' @ [newline] @ ''xx'' @ [newline]), tf_snapshot = Some ''xxxxx'', tf_recovery = None\<rparr>"
  by (simp add: disk_files_def tx_repo_def files_def px_dir_def LOCK_FILE_def JOURNAL_FILE_def SNAPSHOT_FILE_def RECOVERY_FILE_def)

lemma px_facts:
  "journal_bytes px_env (take 2 px_records) = Some (''x'' @ [newline] @ ''xx'' @ [newline])"
  "reconstruct_store px_env (take 2 px_records) = Done tx_s3"
  "chained px_env 0 zero_sha256 (take 2 px_records)"
  "parse_store px_env ''xxxxx'' = Some tx_s3" "json_store px_env tx_s3 = Some ''xxxxx''"
  by code_simp+

lemma px_disk: "disk_at px_env (disk_files (tx_repo px_dir)) (take 2 px_records)"
proof -
  have "snapshot_at px_env (disk_files (tx_repo px_dir)) (take 2 px_records)"
    unfolding snapshot_at_def px_files using px_facts(2,5)
    by (auto intro!: exI [of _ 2] simp: px_records_def)
  with px_facts(1-3) show ?thesis
    by (auto simp: disk_at_def disk_base_def torn_def journal_at_def px_files newline_def)
qed

lemma px_publish:
  "fst (publish px_env tx_os tx_root True tx_now tx_now px_request (tx_repo px_dir)) = Done (Inr px_published)"
  by code_simp

text \<open>The session the adapter reads and the answer of the bus.\<close>

definition px_session :: CutexSessionRecord where
  "px_session = \<lparr>cs_cutex_session_id = ''s1'', cs_revision = 1, cs_archive_state = Session_Active,
     cs_codex_session_id = None, cs_current_runtime_agent_id = Some ''a1'', cs_runtime_generation = 1\<rparr>"

definition px_pilot :: pilot_env where
  "px_pilot = \<lparr>json_delivery = (\<lambda>_. Some ''envelope''), json_send_request = (\<lambda>_. Some ''body''),
     parse_response = (\<lambda>_. Json True (Some \<lparr>asr_id = ''m1'', asr_to = ''a1'', asr_to_session_id = Some ''s1'',
       asr_delivery_mode = Some AfterTurn, asr_trigger_turn = True, asr_queued = True, asr_deduplicated = False,
       asr_external_message_id = Some ''act''\<rparr>)),
     valid_utf8 = (\<lambda>_. True), env_agent_id = None\<rparr>"

definition px_receipt :: AgentBusDeliveryReceiptV1 where
  "px_receipt = \<lparr>ad_delivery_action_id = ''act'', ad_agent_bus_message_id = ''m1'', ad_target_cutex_session_id = ''s1'',
     ad_target_runtime_agent_id = ''a1'', ad_target_runtime_generation = 1, ad_delivery_mode = Pilot_AfterTurn,
     ad_queued = True, ad_deduplicated = False, ad_envelope_sha256 = tx_hash\<rparr>"

lemma px_send:
  "adapter_send px_env px_pilot (\<lambda>_. Inr px_session) (\<lambda>_. Inr ''ok'') px_delivery = (Inr px_receipt, [''body''])"
  by code_simp

definition px_delivered :: DeliveredTask where
  "px_delivered = \<lparr>dt_published = px_published, dt_transition_receipt_id = ''r3'', dt_delivery_receipt = px_receipt,
     dt_committed_store_revision = 4\<rparr>"

lemma px_deliver:
  "fst (deliver px_env px_pilot tx_os tx_root True tx_now px_delivery px_receipt (tx_repo px_dir)) = Done (Inr px_delivered)"
  by code_simp

section \<open>Claims\<close>

text \<open>
  C39: A successful \<open>publish\<close> can be delivered. Whatever the disk was and whatever failed before, if
  the pilot returns a published task, it had recovered, the disk is consistent and extends the
  journal it started from, both receipts are stored, and the store accepts a delivery under the
  fence of the returned task, whatever the receipt and the message: the transition is planned and
  moves exactly the revision of the returned specification to \<open>Delivered\<close>.
\<close>

theorem pilot_publish_deliverable:
  assumes "task_env_ok E" and "honest os" and "disk_at E (disk_files st) rs"
    and "publish E os root ready now now' q st = (Done (Inr t), st')"
  shows "ready \<and> (\<exists>ts s. clean E (disk_files st') (rs @ ts) \<and> reconstruct_store E (rs @ ts) = Done s
    \<and> bt_get (ts_receipts s) (pr_create_receipt_id q) \<noteq> None
    \<and> bt_get (ts_receipts s) (pr_publish_receipt_id q) \<noteq> None
    \<and> (\<forall>receipt digest n d. \<exists>p.
         plan_transition s \<lparr>env_receipt_id = receipt, env_request_digest_sha256 = digest, env_expected_store_revision = n,
           env_fence = Some (task_service_fence (pt_fence t)), env_command = RecordDelivery d\<rparr> = Done p
         \<and> plan_resulting_phase p = Delivered
         \<and> plan_task_id p = ps_task_id (pt_specification t)
         \<and> plan_task_revision p = ps_task_revision (pt_specification t)))"
proof -
  have "ready \<and> published_on E rs q t (disk_files st')"
    using ptriple_run [OF publish_spec [OF assms(1-3)] assms(4)] by simp
  then obtain ts s r where s: ready "clean E (disk_files st') (rs @ ts)" "reconstruct_store E (rs @ ts) = Done s"
      "bt_get (ts_receipts s) (pr_create_receipt_id q) \<noteq> None" "bt_get (ts_receipts s) (pr_publish_receipt_id q) \<noteq> None"
      "task_get (ts_tasks s) (pf_task_id (pt_fence t)) (pf_task_revision (pt_fence t)) = Some r"
      "published_from_record r (pt_committed_store_revision t) = Inr t"
    unfolding published_on_def by blast
  have "\<exists>p. plan_transition s e = Done p \<and> plan_resulting_phase p = Delivered
      \<and> plan_task_id p = ps_task_id (pt_specification t) \<and> plan_task_revision p = ps_task_revision (pt_specification t)"
    if "env_fence e = Some (task_service_fence (pt_fence t))" "env_command e = RecordDelivery d" for e d
    by (rule published_deliverable [OF s(6,7) that])
  with s(1-5) show ?thesis by (intro conjI exI [of _ ts] exI [of _ s] allI) simp_all
qed

theorem pilot_publish_deliverable_witness:
  "\<exists>ts s. reconstruct_store px_env (take 2 px_records @ ts) = Done s
    \<and> (\<exists>p. plan_transition s \<lparr>env_receipt_id = ''r3'', env_request_digest_sha256 = tx_hash,
         env_expected_store_revision = 3, env_fence = Some (task_service_fence (pt_fence px_published)),
         env_command = RecordDelivery \<lparr>dlv_external_delivery_receipt_id = ''m1'', dlv_observed_at = None\<rparr>\<rparr> = Done p
       \<and> plan_resulting_phase p = Delivered)"
proof -
  have "publish px_env tx_os tx_root True tx_now tx_now px_request (tx_repo px_dir) = (Done (Inr px_published),
      snd (publish px_env tx_os tx_root True tx_now tx_now px_request (tx_repo px_dir)))"
    using px_publish by (simp add: prod_eq_iff)
  from pilot_publish_deliverable [OF px_env_ok tx_honest px_disk this] show ?thesis by blast
qed


text \<open>
  C40: The adapter and the pilot agree. If the adapter returns a receipt, it made exactly one request
  to the bus, and \<open>deliver\<close> with this receipt never rejects it: no answer says that the published
  task is inconsistent, that the receipt does not match or that the message id is not valid. If it
  answers with a delivered task, it had recovered and the journal on disk extends the earlier one and
  holds, under the receipt of the request, a transition of the revision of the task to \<open>Delivered\<close>,
  with the committed revision of the answer. After any other answer the journal on disk still
  extends the earlier one.
\<close>

theorem pilot_delivery_recorded:
  assumes "task_env_ok E" and "honest os" and "disk_at E (disk_files st) rs"
    and "adapter_send E P load_session send_once q = (Inr receipt, sent)"
    and "deliver E P os root ready now q receipt st = (Done r, st')"
  shows "length sent = 1
    \<and> r \<notin> Inl ` Pilot_InvalidRequest ` {InconsistentPublishedTask, DeliveryReceiptMismatch, InvalidAgentBusMessageId}
    \<and> (\<exists>ts. disk_at E (disk_files st') (rs @ ts) \<and> (\<forall>d. r = Inr d \<longrightarrow>
         ready \<and> dt_published d = dr_published q \<and> dt_delivery_receipt d = receipt
         \<and> (\<exists>s x. reconstruct_store E (rs @ ts) = Done s
              \<and> bt_get (ts_receipts s) (dr_transition_receipt_id q) = Some x
              \<and> rsp_resulting_phase (rec_response x) = Delivered
              \<and> rsp_task_id (rec_response x) = ps_task_id (pt_specification (dr_published q))
              \<and> rsp_task_revision (rec_response x) = ps_task_revision (pt_specification (dr_published q))
              \<and> rsp_committed_store_revision (rec_response x) = dt_committed_store_revision d)))"
proof -
  note sent = adapter_send_Inr [OF assms(4)]
  have "r \<notin> Inl ` Pilot_InvalidRequest ` {InconsistentPublishedTask, DeliveryReceiptMismatch, InvalidAgentBusMessageId}"
    using deliver_rejects [OF _ _ _ assms(5)] sent by (auto simp: image_iff)
  moreover have "case r of Inr d \<Rightarrow> ready \<and> delivered_on E rs q receipt d (disk_files st')
      | Inl _ \<Rightarrow> grown E rs (disk_files st')"
    by (rule ptriple_run [OF deliver_spec [OF assms(1-3)] assms(5)])
  ultimately show ?thesis
    using sent by (cases r) (fastforce simp: delivered_on_def delivery_transition_def receipt_of_def grown_def)+
qed

theorem pilot_delivery_recorded_witness:
  "\<exists>ts s x. reconstruct_store px_env (take 2 px_records @ ts) = Done s
    \<and> bt_get (ts_receipts s) ''r3'' = Some x \<and> rsp_resulting_phase (rec_response x) = Delivered"
proof -
  have run: "deliver px_env px_pilot tx_os tx_root True tx_now px_delivery px_receipt (tx_repo px_dir) =
      (Done (Inr px_delivered), snd (deliver px_env px_pilot tx_os tx_root True tx_now px_delivery px_receipt (tx_repo px_dir)))"
    using px_deliver by (simp add: prod_eq_iff)
  have "dr_transition_receipt_id px_delivery = ''r3''" by (simp add: px_delivery_def)
  with pilot_delivery_recorded [OF px_env_ok tx_honest px_disk px_send run] show ?thesis by auto
qed

end
