(* ===== verification/Worker_Action.thy ===== *)
theory Worker_Action
  imports Task_Pilot
begin

text \<open>
  Worker actions: their data in \<open>agent_bus/model.rs\<close> and the adapter
  \<open>task_delivery/worker_action_adapter.rs\<close>, which checks who sends an action and turns it into one
  transition of the Task Service. The session store is a parameter; the schema tags, which have one
  value each, are left out.
\<close>

section \<open>Data\<close>

definition TASK_WORKER_RESULT_MAX_BYTES :: nat where
  "TASK_WORKER_RESULT_MAX_BYTES = 128 * 1024"

datatype TaskWorkerActionKind = Worker_Accept | Worker_Start | Worker_Complete

datatype TaskWorkerResult =
    Utf8 bytes Sha256
  | Base64 bytes Sha256

fun result_digest :: "TaskWorkerResult \<Rightarrow> Sha256" where
  "result_digest (Utf8 _ h) = h"
| "result_digest (Base64 _ h) = h"

record TaskWorkerActionRequest =
  wq_action :: TaskWorkerActionKind
  wq_task_id :: id
  wq_task_revision :: u64
  wq_attempt_fence :: PilotAttemptFence
  wq_expected_store_revision :: u64
  wq_action_id :: id
  wq_result :: "TaskWorkerResult option"

datatype TaskWorkerPhase = Phase_Delivered | Phase_Accepted | Phase_Running | Phase_Completed

record TaskWorkerActionReceipt =
  wa_action_id :: id
  wa_task_id :: id
  wa_task_revision :: u64
  wa_attempt_number :: u64
  wa_prior_phase :: TaskWorkerPhase
  wa_resulting_phase :: TaskWorkerPhase
  wa_committed_store_revision :: u64
  wa_committed_at :: Rfc3339
  wa_transport_record_id :: id
  wa_result_sha256 :: "Sha256 option"

record TaskWorkerReceiptAbsence =
  abs_observed_store_revision :: u64
  abs_observed_journal_cursor :: JournalCursor

record TaskWorkerCommittedReceiptEvidence =
  cev_receipt :: TaskWorkerActionReceipt
  cev_request_digest_sha256 :: Sha256
  cev_event_cursor :: JournalCursor
  cev_observed_store_revision :: u64
  cev_observed_journal_cursor :: JournalCursor

datatype TaskWorkerResolutionEvidence =
    Evidence_Committed TaskWorkerCommittedReceiptEvidence
  | Evidence_Absent TaskWorkerReceiptAbsence

record TaskWorkerResolution =
  res_resolution_id :: id
  res_resolution_sha256 :: Sha256
  res_resolved_at :: Rfc3339
  res_evidence :: TaskWorkerResolutionEvidence

datatype TaskWorkerActionNoWrite =
    NW_InvalidBody | NW_BodyTooLarge | NW_InvalidActionShape | NW_ResultTooLarge | NW_ResultHashMismatch
  | NW_SenderHeaderMissing | NW_SenderNotRegistered | NW_FederatedSenderRejected | NW_RosterSessionMissing
  | NW_SessionSnapshotUnavailable | NW_SessionNotFound | NW_SessionIdentityMismatch | NW_SessionInactive
  | NW_DurableRevisionMismatch | NW_RuntimeAgentMismatch | NW_RuntimeGenerationMissing
  | NW_RuntimeGenerationMismatch | NW_TaskNotFound | NW_StaleFence | NW_IllegalPhase | NW_ActionConflict
  | NW_UncertaintyBlocked | NW_StoreRevisionConflict u64 u64 | NW_RecoveryRequired
  | NW_PersistenceUnavailable | NW_DurableRequestRejected

datatype TaskWorkerActionOutcome =
    Action_Committed TaskWorkerActionReceipt
  | Action_NoWrite TaskWorkerActionNoWrite
  | Action_ReconciliationRequired id id

record TaskWorkerActionResponse =
  war_action_id :: "id option"
  war_outcome :: TaskWorkerActionOutcome

datatype TaskWorkerReconciliationOperation =
    Inspect id id
  | Ack id id id Sha256

datatype TaskWorkerReconciliationNoWrite = Reconcile_Rejected | Reconcile_PersistenceUnavailable

datatype TaskWorkerReconciliationOutcome =
    Reconcile_Unknown
  | Reconcile_Resolved TaskWorkerResolution
  | Reconcile_Acknowledged
  | Reconcile_NoWrite TaskWorkerReconciliationNoWrite

record TaskWorkerRosterSender =
  rs_runtime_agent_id :: id
  rs_roster_session_id :: bytes

record TaskWorkerAuthorizedOwner =
  ow_sender_runtime_agent_id :: id
  ow_sender_roster_session_id :: bytes
  ow_sender_cutex_session_id :: id
  ow_sender_durable_revision :: u64
  ow_sender_runtime_generation :: u64

record ValidatedTaskWorkerAction =
  va_request :: TaskWorkerActionRequest
  va_result_bytes :: "bytes option"

record TaskWorkerAuthorizedAction =
  au_request :: TaskWorkerActionRequest
  au_result_bytes :: "bytes option"
  au_owner :: TaskWorkerAuthorizedOwner

datatype TaskWorkerTransitionResult =
    Transition_Committed TaskWorkerActionReceipt
  | Transition_NoWrite TaskWorkerActionNoWrite
  | Transition_PersistenceUnknown

datatype WorkerSessionSnapshotError = Worker_Unavailable | Worker_NotFound

type_synonym worker_sessions = "bytes \<Rightarrow> WorkerSessionSnapshotError + CutexSessionRecord"

section \<open>Requests\<close>

definition decode_result :: "task_env \<Rightarrow> TaskWorkerResult \<Rightarrow> TaskWorkerActionNoWrite + bytes" where
  "decode_result E r = (case r of
     Utf8 text _ \<Rightarrow> Inr text
   | Base64 data _ \<Rightarrow>
       res_bind (ok_or NW_InvalidActionShape (base64_decode E data)) (\<lambda>decoded.
       if base64_encode E decoded \<noteq> data then Inl NW_InvalidActionShape else Inr decoded))"

definition validate_task_worker_action_request ::
  "task_env \<Rightarrow> TaskWorkerActionRequest \<Rightarrow> TaskWorkerActionNoWrite + ValidatedTaskWorkerAction" where
  "validate_task_worker_action_request E q =
     (if wq_task_id q \<noteq> pf_task_id (wq_attempt_fence q) \<or> wq_task_revision q \<noteq> pf_task_revision (wq_attempt_fence q)
      then Inl NW_StaleFence
      else res_bind (case (wq_action q, wq_result q) of
          (Worker_Complete, Some result) \<Rightarrow>
            res_bind (decode_result E result) (\<lambda>bs.
            if length bs > TASK_WORKER_RESULT_MAX_BYTES then Inl NW_ResultTooLarge
            else if sha256_bytes E bs \<noteq> result_digest result then Inl NW_ResultHashMismatch
            else Inr (Some bs))
        | (Worker_Accept, None) \<Rightarrow> Inr None
        | (Worker_Start, None) \<Rightarrow> Inr None
        | _ \<Rightarrow> Inl NW_InvalidActionShape) (\<lambda>result_bytes.
        Inr \<lparr>va_request = q, va_result_bytes = result_bytes\<rparr>))"

section \<open>Conversions\<close>

definition map_pilot_no_write :: "PilotError \<Rightarrow> TaskWorkerActionNoWrite" where
  "map_pilot_no_write e = (case e of
     Pilot_RecoveryRequired \<Rightarrow> NW_RecoveryRequired
   | Pilot_InvalidRequest _ \<Rightarrow> NW_DurableRequestRejected
   | Pilot_StoreRevisionConflict expected actual \<Rightarrow> NW_StoreRevisionConflict expected actual
   | Pilot_ReceiptConflict _ \<Rightarrow> NW_ActionConflict
   | Pilot_TaskNotFound \<Rightarrow> NW_TaskNotFound
   | Pilot_StaleAttempt \<Rightarrow> NW_StaleFence
   | IllegalPilotPhase \<Rightarrow> NW_IllegalPhase
   | PersistenceUnavailable \<Rightarrow> NW_PersistenceUnavailable
   | ReconciliationRequired _ \<Rightarrow> NW_PersistenceUnavailable)"

definition expected_edge :: "TaskWorkerActionKind \<Rightarrow> TaskPhase \<times> TaskPhase" where
  "expected_edge a = (case a of
     Worker_Accept \<Rightarrow> (Delivered, Accepted)
   | Worker_Start \<Rightarrow> (Accepted, TaskPhase.Running)
   | Worker_Complete \<Rightarrow> (TaskPhase.Running, Completed))"

definition worker_phase :: "TaskPhase \<Rightarrow> TaskWorkerActionNoWrite + TaskWorkerPhase" where
  "worker_phase p = (case p of
     TaskPhase.Delivered \<Rightarrow> Inr Phase_Delivered
   | TaskPhase.Accepted \<Rightarrow> Inr Phase_Accepted
   | TaskPhase.Running \<Rightarrow> Inr Phase_Running
   | TaskPhase.Completed \<Rightarrow> Inr Phase_Completed
   | _ \<Rightarrow> Inl NW_DurableRequestRejected)"

definition pilot_worker_phase :: "TaskPhase \<Rightarrow> TaskWorkerActionNoWrite + PilotTaskPhase" where
  "pilot_worker_phase p = (case p of
     TaskPhase.Delivered \<Rightarrow> Inr Pilot_Delivered
   | TaskPhase.Accepted \<Rightarrow> Inr Pilot_Accepted
   | TaskPhase.Running \<Rightarrow> Inr Pilot_Running
   | TaskPhase.Completed \<Rightarrow> Inr Pilot_Completed
   | _ \<Rightarrow> Inl NW_DurableRequestRejected)"

definition result_sha256 :: "TaskWorkerAuthorizedAction \<Rightarrow> Sha256 option" where
  "result_sha256 a = Option.bind (au_result_bytes a) (\<lambda>_. map_option result_digest (wq_result (au_request a)))"

definition action_envelope ::
  "task_env \<Rightarrow> TaskWorkerAuthorizedAction \<Rightarrow> id \<Rightarrow> TaskWorkerActionNoWrite + TransitionEnvelope" where
  "action_envelope E a transport_record_id =
     (let evidence = \<lparr>ev_external_receipt_id = Some transport_record_id, ev_observed_at = None,
            ev_evidence_sha256 = result_sha256 a\<rparr>;
          command = (case wq_action (au_request a) of
            Worker_Accept \<Rightarrow> Accept evidence
          | Worker_Start \<Rightarrow> Start evidence
          | Worker_Complete \<Rightarrow> CompleteRunning evidence)
      in map_err map_pilot_no_write (signed_envelope E (wq_action_id (au_request a))
           (wq_expected_store_revision (au_request a))
           (Some (task_service_fence (wq_attempt_fence (au_request a)))) command))"

definition worker_receipt_from_record ::
  "TaskWorkerAuthorizedAction \<Rightarrow> id \<Rightarrow> PilotWorkerReceiptRecord \<Rightarrow> TaskWorkerActionNoWrite + TaskWorkerActionReceipt" where
  "worker_receipt_from_record a transport_record_id r =
     (let expected = expected_edge (wq_action (au_request a)); q = au_request a in
      if wr_task_id r \<noteq> wq_task_id q \<or> wr_task_revision r \<noteq> wq_task_revision q
        \<or> wr_attempt_number r \<noteq> pf_attempt_number (wq_attempt_fence q)
      then Inl NW_ActionConflict
      else res_bind (pilot_worker_phase (fst expected)) (\<lambda>prior.
        if wr_prior_phase r \<noteq> prior then Inl NW_ActionConflict
        else res_bind (pilot_worker_phase (snd expected)) (\<lambda>resulting.
          if wr_resulting_phase r \<noteq> resulting then Inl NW_ActionConflict
          else res_bind (worker_phase (fst expected)) (\<lambda>prior.
            res_bind (worker_phase (snd expected)) (\<lambda>resulting.
            Inr \<lparr>wa_action_id = wr_receipt_id r, wa_task_id = wr_task_id r, wa_task_revision = wr_task_revision r,
                 wa_attempt_number = wr_attempt_number r, wa_prior_phase = prior, wa_resulting_phase = resulting,
                 wa_committed_store_revision = wr_committed_store_revision r, wa_committed_at = wr_committed_at r,
                 wa_transport_record_id = transport_record_id, wa_result_sha256 = result_sha256 a\<rparr>)))))"

section \<open>Who may act\<close>

definition validate_session ::
  "TaskWorkerRosterSender \<Rightarrow> TaskWorkerActionRequest \<Rightarrow> CutexSessionRecord \<Rightarrow> TaskWorkerActionNoWrite + unit" where
  "validate_session sender q r =
     (let owner = pf_owner (wq_attempt_fence q) in
      if cs_cutex_session_id r \<noteq> po_cutex_session_id owner then Inl NW_SessionIdentityMismatch
      else if cs_archive_state r \<noteq> Session_Active then Inl NW_SessionInactive
      else if session_durable_revision r \<noteq> po_durable_revision owner then Inl NW_DurableRevisionMismatch
      else if rs_runtime_agent_id sender \<noteq> po_runtime_agent_id owner
        \<or> cs_current_runtime_agent_id r \<noteq> Some (rs_runtime_agent_id sender)
      then Inl NW_RuntimeAgentMismatch
      else if cs_runtime_generation r = 0 then Inl NW_RuntimeGenerationMissing
      else if cs_runtime_generation r \<noteq> po_runtime_generation owner then Inl NW_RuntimeGenerationMismatch
      else Inr ())"

definition validate_task_attempt ::
  "TaskWorkerActionRequest \<Rightarrow> PilotTaskSnapshot \<Rightarrow> TaskWorkerActionNoWrite + unit" where
  "validate_task_attempt q t =
     (if ps_task_id (sn_specification t) \<noteq> wq_task_id q \<or> ps_task_revision (sn_specification t) \<noteq> wq_task_revision q
      then Inl NW_StaleFence
      else res_bind (ok_or NW_StaleFence (sn_fence t)) (\<lambda>current.
        if po_durable_revision (pf_owner current) \<noteq> po_durable_revision (pf_owner (wq_attempt_fence q))
        then Inl NW_DurableRevisionMismatch
        else if po_runtime_agent_id (pf_owner current) \<noteq> po_runtime_agent_id (pf_owner (wq_attempt_fence q))
        then Inl NW_RuntimeAgentMismatch
        else if po_runtime_generation (pf_owner current) \<noteq> po_runtime_generation (pf_owner (wq_attempt_fence q))
        then Inl NW_RuntimeGenerationMismatch
        else if current \<noteq> wq_attempt_fence q then Inl NW_StaleFence
        else Inr ()))"

definition load_and_validate_session ::
  "worker_sessions \<Rightarrow> TaskWorkerRosterSender \<Rightarrow> TaskWorkerActionRequest \<Rightarrow>
     TaskWorkerActionNoWrite + CutexSessionRecord" where
  "load_and_validate_session sessions sender q = (case sessions (rs_roster_session_id sender) of
     Inl Worker_Unavailable \<Rightarrow> Inl NW_SessionSnapshotUnavailable
   | Inl Worker_NotFound \<Rightarrow> Inl NW_SessionNotFound
   | Inr r \<Rightarrow> res_bind (validate_session sender q r) (\<lambda>_. Inr r))"

section \<open>The adapter\<close>

text \<open>
  The methods of the adapter run on the repository and end with a value of
  \<open>TaskWorkerActionNoWrite + 'a\<close>; \<open>recovered\<close> is the flag of the pilot.
\<close>

definition validate_current_attempt ::
  "task_env \<Rightarrow> task_os \<Rightarrow> RootHandle \<Rightarrow> bool \<Rightarrow> TaskWorkerActionRequest \<Rightarrow> (TaskWorkerActionNoWrite + unit) rm" where
  "validate_current_attempt E os root recovered q =
     pm_bind (pilot_task E os root recovered (wq_task_id q) (wq_task_revision q)) (\<lambda>r.
     pm_return (case r of
       Inr (Some t) \<Rightarrow> validate_task_attempt q t
     | Inr None \<Rightarrow> Inl NW_TaskNotFound
     | Inl e \<Rightarrow> Inl (map_pilot_no_write e)))"

definition authorize ::
  "task_env \<Rightarrow> task_os \<Rightarrow> RootHandle \<Rightarrow> bool \<Rightarrow> worker_sessions \<Rightarrow> TaskWorkerRosterSender \<Rightarrow>
     ValidatedTaskWorkerAction \<Rightarrow> (TaskWorkerActionNoWrite + TaskWorkerAuthorizedAction) rm" where
  "authorize E os root recovered sessions sender v =
     (case load_and_validate_session sessions sender (va_request v) of
        Inl e \<Rightarrow> pm_return (Inl e)
      | Inr session \<Rightarrow>
          pm_bind (validate_current_attempt E os root recovered (va_request v)) (\<lambda>r.
          pm_return (res_bind r (\<lambda>_.
            res_bind (map_err (\<lambda>_. NW_SessionIdentityMismatch) (string_id_new (cs_cutex_session_id session))) (\<lambda>cutex_session.
            res_bind (map_err (\<lambda>_. NW_DurableRevisionMismatch) (positive_new (session_durable_revision session))) (\<lambda>revision.
            res_bind (map_err (\<lambda>_. NW_RuntimeGenerationMissing) (positive_new (cs_runtime_generation session))) (\<lambda>generation.
            Inr \<lparr>au_request = va_request v, au_result_bytes = va_result_bytes v,
                 au_owner = \<lparr>ow_sender_runtime_agent_id = rs_runtime_agent_id sender,
                   ow_sender_roster_session_id = rs_roster_session_id sender,
                   ow_sender_cutex_session_id = cutex_session, ow_sender_durable_revision = revision,
                   ow_sender_runtime_generation = generation\<rparr>\<rparr>)))))))"

definition stored_owner_request :: "id \<Rightarrow> u64 \<Rightarrow> PilotAttemptFence \<Rightarrow> TaskWorkerActionRequest" where
  "stored_owner_request task revision fence = \<lparr>wq_action = Worker_Accept, wq_task_id = task, wq_task_revision = revision,
     wq_attempt_fence = fence, wq_expected_store_revision = 1, wq_action_id = ''stored-owner-validation'',
     wq_result = None\<rparr>"

definition authorize_stored_owner ::
  "task_env \<Rightarrow> task_os \<Rightarrow> RootHandle \<Rightarrow> bool \<Rightarrow> worker_sessions \<Rightarrow> TaskWorkerRosterSender \<Rightarrow>
     TaskWorkerAuthorizedOwner \<Rightarrow> id \<Rightarrow> u64 \<Rightarrow> PilotAttemptFence \<Rightarrow> (TaskWorkerActionNoWrite + unit) rm" where
  "authorize_stored_owner E os root recovered sessions sender owner task revision fence =
     (if rs_runtime_agent_id sender \<noteq> ow_sender_runtime_agent_id owner
        \<or> rs_roster_session_id sender \<noteq> ow_sender_roster_session_id owner
      then pm_return (Inl NW_UncertaintyBlocked)
      else let q = stored_owner_request task revision fence in
        case load_and_validate_session sessions sender q of
          Inl e \<Rightarrow> pm_return (Inl e)
        | Inr session \<Rightarrow>
            if cs_cutex_session_id session \<noteq> ow_sender_cutex_session_id owner
              \<or> session_durable_revision session \<noteq> ow_sender_durable_revision owner
              \<or> cs_runtime_generation session \<noteq> ow_sender_runtime_generation owner
            then pm_return (Inl NW_UncertaintyBlocked)
            else validate_current_attempt E os root recovered q)"

definition inspect_receipt ::
  "task_env \<Rightarrow> task_os \<Rightarrow> RootHandle \<Rightarrow> bool \<Rightarrow> id \<Rightarrow> (TaskWorkerActionNoWrite + PilotWorkerReceiptObservation) rm" where
  "inspect_receipt E os root recovered action_id =
     pm_bind (inspect_worker_receipt E os root recovered action_id) (\<lambda>r. pm_return (map_err map_pilot_no_write r))"

definition receipt_from_observation ::
  "task_env \<Rightarrow> TaskWorkerAuthorizedAction \<Rightarrow> id \<Rightarrow> PilotWorkerReceiptObservation \<Rightarrow>
     TaskWorkerActionNoWrite + TaskWorkerActionReceipt option" where
  "receipt_from_observation E a transport_record_id observation = (case observation of
     Observed_Absent _ _ \<Rightarrow> Inr None
   | Observed_Committed r \<Rightarrow>
       res_bind (action_envelope E a transport_record_id) (\<lambda>e.
       if wr_request_digest_sha256 r \<noteq> env_request_digest_sha256 e \<or> wr_receipt_id r \<noteq> wq_action_id (au_request a)
       then Inl NW_ActionConflict
       else res_bind (worker_receipt_from_record a transport_record_id r) (\<lambda>receipt. Inr (Some receipt))))"

text \<open>The receipt of a committed response; the phases of the edge are worker phases.\<close>

definition committed_receipt ::
  "TaskWorkerAuthorizedAction \<Rightarrow> id \<Rightarrow> TransitionResponse \<Rightarrow> TaskWorkerTransitionResult" where
  "committed_receipt a transport_record_id response =
     (let expected = expected_edge (wq_action (au_request a)); q = au_request a in
      if rsp_task_id response \<noteq> wq_task_id q \<or> rsp_task_revision response \<noteq> wq_task_revision q
        \<or> rsp_attempt_number response \<noteq> Some (pf_attempt_number (wq_attempt_fence q))
        \<or> rsp_prior_phase response \<noteq> Some (fst expected) \<or> rsp_resulting_phase response \<noteq> snd expected
      then Transition_NoWrite NW_DurableRequestRejected
      else case (worker_phase (fst expected), worker_phase (snd expected)) of
        (Inr prior, Inr resulting) \<Rightarrow> Transition_Committed
          \<lparr>wa_action_id = rsp_receipt_id response, wa_task_id = rsp_task_id response,
           wa_task_revision = rsp_task_revision response, wa_attempt_number = pf_attempt_number (wq_attempt_fence q),
           wa_prior_phase = prior, wa_resulting_phase = resulting,
           wa_committed_store_revision = rsp_committed_store_revision response,
           wa_committed_at = rsp_committed_at response, wa_transport_record_id = transport_record_id,
           wa_result_sha256 = result_sha256 a\<rparr>
      | _ \<Rightarrow> Transition_NoWrite NW_DurableRequestRejected)"

definition transition_once ::
  "task_env \<Rightarrow> task_os \<Rightarrow> RootHandle \<Rightarrow> Rfc3339 \<Rightarrow> TaskWorkerAuthorizedAction \<Rightarrow> id \<Rightarrow> TaskWorkerTransitionResult rm" where
  "transition_once E os root now a transport_record_id =
     (case action_envelope E a transport_record_id of
        Inl e \<Rightarrow> pm_return (Transition_NoWrite e)
      | Inr envelope \<Rightarrow>
          pm_bind (commit E os root now envelope (wq_action_id (au_request a))) (\<lambda>r.
          pm_return (case r of
            Inr response \<Rightarrow> committed_receipt a transport_record_id response
          | Inl (ReconciliationRequired _) \<Rightarrow> Transition_PersistenceUnknown
          | Inl e \<Rightarrow> Transition_NoWrite (map_pilot_no_write e))))"

end
