(* ===== verification/Worker_Evidence.thy ===== *)
theory Worker_Evidence
  imports Worker_Action
begin

unbundle bit_operations_syntax

text \<open>
  The evidence store of worker actions: \<open>agent_bus/server/task_action_store.rs\<close>. One document holds
  the transport record of every action that was ever prepared and at most one uncertainty fence. The
  fence is written before the Task Service is asked and removed when the outcome is known, so that
  a process that stops in between leaves the fence behind.

  Files and system calls are modelled as for the Task Service, on a directory of its own. An
  operation never panics; it ends with an \<open>EvidenceStoreError\<close> or a value. Fresh UUIDs, the clock and the
  listing of the directory are arguments, JSON and the recognition of a UUID are parameters. The
  injected faults exist in tests only: in the program their methods return \<open>false\<close>.
\<close>

section \<open>Data\<close>

definition EVIDENCE_SNAPSHOT_FILE :: bytes where
  "EVIDENCE_SNAPSHOT_FILE = ''task-worker-action-evidence-v1.json''"

definition EVIDENCE_LOCK_FILE :: bytes where
  "EVIDENCE_LOCK_FILE = ''task-worker-action-evidence-v1.lock''"

definition EVIDENCE_TEMP_PREFIX :: bytes where
  "EVIDENCE_TEMP_PREFIX = ''.task-worker-action-evidence-v1.tmp-''"

record TaskWorkerTransportRecordV1 =
  tr_record_id :: id
  tr_action_key_sha256 :: Sha256
  tr_canonical_request_sha256 :: Sha256
  tr_created_at :: Rfc3339
  tr_owner :: TaskWorkerAuthorizedOwner
  tr_action :: TaskWorkerActionKind
  tr_task_id :: id
  tr_task_revision :: u64
  tr_attempt_fence :: PilotAttemptFence
  tr_expected_store_revision :: u64
  tr_action_id :: id
  tr_result :: "TaskWorkerResult option"

datatype TaskWorkerUncertaintyState = Pending | Resolved

record TaskWorkerUncertaintyFenceV1 =
  uf_uncertainty_id :: id
  uf_state :: TaskWorkerUncertaintyState
  uf_transport_record_id :: id
  uf_canonical_request_sha256 :: Sha256
  uf_action_id :: id
  uf_action :: TaskWorkerActionKind
  uf_task_id :: id
  uf_task_revision :: u64
  uf_attempt_fence :: PilotAttemptFence
  uf_expected_store_revision :: u64
  uf_owner :: TaskWorkerAuthorizedOwner
  uf_began_at :: Rfc3339
  uf_resolution :: "TaskWorkerResolution option"

record TaskWorkerActionEvidenceStoreV1 =
  es_store_revision :: u64
  es_records_by_action_key :: "(Sha256 \<times> TaskWorkerTransportRecordV1) list"
  es_uncertainty :: "TaskWorkerUncertaintyFenceV1 option"

definition evidence_default :: TaskWorkerActionEvidenceStoreV1 where
  "evidence_default = \<lparr>es_store_revision = 1, es_records_by_action_key = [], es_uncertainty = None\<rparr>"

datatype ActionProbe =
    Probe_New
  | Probe_Existing TaskWorkerTransportRecordV1
  | Probe_ExactBlocked id id
  | Probe_Blocked
  | Probe_Conflict

record PreparedTaskWorkerAction =
  prep_record :: TaskWorkerTransportRecordV1
  prep_uncertainty :: TaskWorkerUncertaintyFenceV1

datatype EvidenceStoreError =
    InvalidRoot | InvalidPrivateFile | InvalidSnapshot | Evidence_RootBindingChanged | LockUnavailable
  | Evidence_Serialization | RevisionOverflow | DefiniteNoWrite | Evidence_PersistenceUnknown

datatype PersistFailure = Definite | Unknown_Failure

text \<open>What the store takes from its libraries: JSON and UUIDs.\<close>

record evidence_env =
  json_request :: "TaskWorkerAuthorizedOwner \<times> TaskWorkerActionRequest \<Rightarrow> bytes option"
  json_resolution :: "TaskWorkerUncertaintyFenceV1 \<times> TaskWorkerResolution \<Rightarrow> bytes option"
  json_evidence :: "TaskWorkerActionEvidenceStoreV1 \<Rightarrow> bytes option"
  parse_evidence :: "bytes \<Rightarrow> TaskWorkerActionEvidenceStoreV1 option"
  is_server_uuid :: "id \<Rightarrow> bool"

section \<open>Digests\<close>

definition domain_sha256 :: "task_env \<Rightarrow> bytes \<Rightarrow> bytes \<Rightarrow> Sha256" where
  "domain_sha256 E domain bs = sha256_bytes E (domain @ bs)"

definition canonical_request_sha256 ::
  "task_env \<Rightarrow> evidence_env \<Rightarrow> TaskWorkerAuthorizedAction \<Rightarrow> EvidenceStoreError + Sha256" where
  "canonical_request_sha256 E V a =
     res_bind (ok_or Evidence_Serialization (json_request V (au_owner a, au_request a))) (\<lambda>bs.
     Inr (domain_sha256 E (''cutex/agent-bus-task-worker-canonical-request/v1'' @ [CHR 0x00]) bs))"

definition action_key :: "task_env \<Rightarrow> id \<Rightarrow> Sha256" where
  "action_key E action_id = domain_sha256 E (''cutex/agent-bus-task-worker-action-id/v1'' @ [CHR 0x00]) action_id"

text \<open>
  The material of the digest has neither the digest field of the resolution nor the state, the start
  and the resolution of the fence.
\<close>

definition resolution_sha256 ::
  "task_env \<Rightarrow> evidence_env \<Rightarrow> TaskWorkerUncertaintyFenceV1 \<Rightarrow> TaskWorkerResolution \<Rightarrow> EvidenceStoreError + Sha256" where
  "resolution_sha256 E V u r =
     res_bind (ok_or Evidence_Serialization (json_resolution V
       (u\<lparr>uf_state := Pending, uf_began_at := [], uf_resolution := None\<rparr>,
        r\<lparr>res_resolution_sha256 := zero_sha256\<rparr>))) (\<lambda>bs.
     Inr (domain_sha256 E (''cutex/agent-bus-task-worker-resolution/v1'' @ [CHR 0x00]) bs))"

section \<open>Validation\<close>

definition validate_result_shape ::
  "TaskWorkerActionKind \<Rightarrow> TaskWorkerResult option \<Rightarrow> EvidenceStoreError + unit" where
  "validate_result_shape action result = (case (action, result) of
     (Worker_Accept, None) \<Rightarrow> Inr ()
   | (Worker_Start, None) \<Rightarrow> Inr ()
   | (Worker_Complete, Some _) \<Rightarrow> Inr ()
   | _ \<Rightarrow> Inl InvalidSnapshot)"

definition authorized_from_record ::
  "task_env \<Rightarrow> TaskWorkerTransportRecordV1 \<Rightarrow> EvidenceStoreError + TaskWorkerAuthorizedAction" where
  "authorized_from_record E r =
     res_bind (case tr_result r of
        None \<Rightarrow> Inr None
      | Some (Utf8 text h) \<Rightarrow> if sha256_bytes E text \<noteq> h then Inl InvalidSnapshot else Inr (Some text)
      | Some (Base64 data h) \<Rightarrow>
          res_bind (ok_or InvalidSnapshot (base64_decode E data)) (\<lambda>bs.
          if base64_encode E bs \<noteq> data \<or> sha256_bytes E bs \<noteq> h then Inl InvalidSnapshot else Inr (Some bs)))
     (\<lambda>result_bytes. Inr \<lparr>au_request = \<lparr>wq_action = tr_action r, wq_task_id = tr_task_id r,
         wq_task_revision = tr_task_revision r, wq_attempt_fence = tr_attempt_fence r,
         wq_expected_store_revision = tr_expected_store_revision r, wq_action_id = tr_action_id r,
         wq_result = tr_result r\<rparr>, au_result_bytes = result_bytes, au_owner = tr_owner r\<rparr>)"

definition validate_transport_record ::
  "task_env \<Rightarrow> evidence_env \<Rightarrow> Sha256 \<Rightarrow> TaskWorkerTransportRecordV1 \<Rightarrow> id list \<Rightarrow> EvidenceStoreError + unit" where
  "validate_transport_record E V key r record_ids =
     (if key \<noteq> tr_action_key_sha256 r \<or> key \<noteq> action_key E (tr_action_id r)
        \<or> \<not> is_server_uuid V (tr_record_id r) \<or> tr_record_id r \<in> set record_ids
        \<or> tr_task_id r \<noteq> pf_task_id (tr_attempt_fence r) \<or> tr_task_revision r \<noteq> pf_task_revision (tr_attempt_fence r)
        \<or> ow_sender_runtime_agent_id (tr_owner r) \<noteq> po_runtime_agent_id (pf_owner (tr_attempt_fence r))
        \<or> ow_sender_cutex_session_id (tr_owner r) \<noteq> po_cutex_session_id (pf_owner (tr_attempt_fence r))
        \<or> ow_sender_durable_revision (tr_owner r) \<noteq> po_durable_revision (pf_owner (tr_attempt_fence r))
        \<or> ow_sender_runtime_generation (tr_owner r) \<noteq> po_runtime_generation (pf_owner (tr_attempt_fence r))
      then Inl InvalidSnapshot
      else res_bind (validate_result_shape (tr_action r) (tr_result r)) (\<lambda>_.
        res_bind (authorized_from_record E r) (\<lambda>authorized.
        res_bind (canonical_request_sha256 E V authorized) (\<lambda>h.
        ensure InvalidSnapshot (h = tr_canonical_request_sha256 r)))))"

text \<open>The loop over the records; the value is the set of the record ids.\<close>

fun validate_transport_records ::
  "task_env \<Rightarrow> evidence_env \<Rightarrow> (Sha256 \<times> TaskWorkerTransportRecordV1) list \<Rightarrow> id list \<Rightarrow> EvidenceStoreError + id list" where
  "validate_transport_records E V [] ids = Inr ids"
| "validate_transport_records E V ((key, r) # rest) ids =
     res_bind (validate_transport_record E V key r ids) (\<lambda>_.
     validate_transport_records E V rest (tr_record_id r # ids))"

definition fence_agrees :: "TaskWorkerUncertaintyFenceV1 \<Rightarrow> TaskWorkerTransportRecordV1 \<Rightarrow> bool" where
  "fence_agrees u r \<longleftrightarrow> uf_transport_record_id u = tr_record_id r
     \<and> uf_canonical_request_sha256 u = tr_canonical_request_sha256 r \<and> uf_action u = tr_action r
     \<and> uf_task_id u = tr_task_id r \<and> uf_task_revision u = tr_task_revision r
     \<and> uf_attempt_fence u = tr_attempt_fence r \<and> uf_expected_store_revision u = tr_expected_store_revision r
     \<and> uf_owner u = tr_owner r"

definition evidence_agrees :: "TaskWorkerResolutionEvidence \<Rightarrow> TaskWorkerTransportRecordV1 \<Rightarrow> bool" where
  "evidence_agrees evidence r = (case evidence of
     Evidence_Committed c \<Rightarrow> wa_action_id (cev_receipt c) = tr_action_id r
       \<and> wa_task_id (cev_receipt c) = tr_task_id r \<and> wa_task_revision (cev_receipt c) = tr_task_revision r
       \<and> wa_transport_record_id (cev_receipt c) = tr_record_id r
       \<and> cur_sequence (cev_event_cursor c) \<le> cur_sequence (cev_observed_journal_cursor c)
       \<and> wa_committed_store_revision (cev_receipt c) \<le> cev_observed_store_revision c
   | Evidence_Absent _ \<Rightarrow> True)"

definition validate_uncertainty ::
  "task_env \<Rightarrow> evidence_env \<Rightarrow> (Sha256 \<times> TaskWorkerTransportRecordV1) list \<Rightarrow> id list \<Rightarrow>
     TaskWorkerUncertaintyFenceV1 \<Rightarrow> EvidenceStoreError + unit" where
  "validate_uncertainty E V records ids u =
     (if \<not> is_server_uuid V (uf_uncertainty_id u) \<or> uf_uncertainty_id u \<in> set ids then Inl InvalidSnapshot
      else res_bind (ok_or InvalidSnapshot (bt_get records (action_key E (uf_action_id u)))) (\<lambda>r.
        if \<not> fence_agrees u r then Inl InvalidSnapshot
        else case (uf_state u, uf_resolution u) of
          (Pending, None) \<Rightarrow> Inr ()
        | (Resolved, Some resolution) \<Rightarrow>
            if \<not> is_server_uuid V (res_resolution_id resolution)
              \<or> res_resolution_id resolution = uf_uncertainty_id u \<or> res_resolution_id resolution \<in> set ids
            then Inl InvalidSnapshot
            else res_bind (resolution_sha256 E V u resolution) (\<lambda>h.
              if h \<noteq> res_resolution_sha256 resolution then Inl InvalidSnapshot
              else ensure InvalidSnapshot (evidence_agrees (res_evidence resolution) r))
        | _ \<Rightarrow> Inl InvalidSnapshot))"

definition validate_evidence ::
  "task_env \<Rightarrow> evidence_env \<Rightarrow> TaskWorkerActionEvidenceStoreV1 \<Rightarrow> EvidenceStoreError + unit" where
  "validate_evidence E V s =
     res_bind (validate_transport_records E V (es_records_by_action_key s) []) (\<lambda>ids.
     case es_uncertainty s of
       None \<Rightarrow> Inr ()
     | Some u \<Rightarrow> validate_uncertainty E V (es_records_by_action_key s) ids u)"

section \<open>Files\<close>

record evidence_state =
  ev_dir :: directory
  ev_tick :: nat

type_synonym 'a em = "evidence_state \<Rightarrow> (EvidenceStoreError + 'a) \<times> evidence_state"

definition em_return :: "'a \<Rightarrow> 'a em" where
  "em_return x st = (Inr x, st)"

definition em_fail :: "EvidenceStoreError \<Rightarrow> 'a em" where
  "em_fail e st = (Inl e, st)"

definition em_lift :: "EvidenceStoreError + 'a \<Rightarrow> 'a em" where
  "em_lift r st = (r, st)"

definition em_bind :: "'a em \<Rightarrow> ('a \<Rightarrow> 'b em) \<Rightarrow> 'b em" where
  "em_bind m f st = (case m st of (Inr x, st') \<Rightarrow> f x st' | (Inl e, st') \<Rightarrow> (Inl e, st'))"

text \<open>A call whose result is matched instead of passed on.\<close>

definition em_try :: "'a em \<Rightarrow> (EvidenceStoreError + 'a) em" where
  "em_try m st = (case m st of (r, st') \<Rightarrow> (Inr r, st'))"

definition em_map_err :: "(EvidenceStoreError \<Rightarrow> EvidenceStoreError) \<Rightarrow> 'a em \<Rightarrow> 'a em" where
  "em_map_err f m st = (case m st of (r, st') \<Rightarrow> (map_err f r, st'))"

definition em_set :: "bytes \<Rightarrow> bytes option \<Rightarrow> unit em" where
  "em_set name content st = (Inr (), st\<lparr>ev_dir := (ev_dir st)(name := content)\<rparr>)"

definition em_dir :: "directory em" where
  "em_dir st = (Inr (ev_dir st), st)"

definition em_sys :: "task_os \<Rightarrow> (os_answer \<Rightarrow> 'a em) \<Rightarrow> 'a em" where
  "em_sys os f st = f (os_answers os (ev_tick st)) (st\<lparr>ev_tick := Suc (ev_tick st)\<rparr>)"

definition em_sys_or :: "task_os \<Rightarrow> EvidenceStoreError \<Rightarrow> (os_answer \<Rightarrow> 'a em) \<Rightarrow> 'a em" where
  "em_sys_or os err f = em_sys os (\<lambda>a. if os_error a \<noteq> None then em_fail err else f a)"

definition evidence_open_validated_root :: "task_os \<Rightarrow> unit em" where
  "evidence_open_validated_root os =
     em_sys_or os InvalidRoot (\<lambda>_. em_sys_or os InvalidRoot (\<lambda>b.
       if \<not> md_is_dir (os_root_meta b) \<or> md_uid (os_root_meta b) \<noteq> geteuid os
         \<or> md_mode (os_root_meta b) AND 0xFFF \<noteq> 0x1C0
       then em_fail InvalidRoot else em_return ()))"

definition evidence_validate_binding :: "task_os \<Rightarrow> RootHandle \<Rightarrow> unit em" where
  "evidence_validate_binding os root =
     em_bind (em_map_err (\<lambda>_. Evidence_RootBindingChanged) (evidence_open_validated_root os)) (\<lambda>_.
     em_sys_or os Evidence_RootBindingChanged (\<lambda>a.
     if md_dev (os_root_meta a) \<noteq> root_device root \<or> md_ino (os_root_meta a) \<noteq> root_inode root
     then em_fail Evidence_RootBindingChanged else em_return ()))"

definition evidence_validate_private_file :: "task_os \<Rightarrow> unit em" where
  "evidence_validate_private_file os =
     em_sys_or os InvalidPrivateFile (\<lambda>a.
       if \<not> md_is_file (os_file_meta a) \<or> md_uid (os_file_meta a) \<noteq> geteuid os
         \<or> md_mode (os_file_meta a) AND 0xFFF \<noteq> 0x180
       then em_fail InvalidPrivateFile else em_return ())"

definition evidence_open_child :: "task_os \<Rightarrow> bytes \<Rightarrow> bool \<Rightarrow> bool \<Rightarrow> unit em" where
  "evidence_open_child os name creat excl =
     (if CHR 0x00 \<in> set name then em_fail DefiniteNoWrite
      else em_sys os (\<lambda>a. case os_error a of
        Some NotFound \<Rightarrow> em_fail DefiniteNoWrite
      | Some _ \<Rightarrow> em_fail InvalidPrivateFile
      | None \<Rightarrow> em_bind em_dir (\<lambda>d. case d name of
          None \<Rightarrow> if creat then em_set name (Some []) else em_fail DefiniteNoWrite
        | Some _ \<Rightarrow> if creat \<and> excl then em_fail InvalidPrivateFile else em_return ())))"

definition evidence_rename_child :: "task_os \<Rightarrow> bytes \<Rightarrow> bytes \<Rightarrow> unit em" where
  "evidence_rename_child os source target =
     (if CHR 0x00 \<in> set source \<or> CHR 0x00 \<in> set target then em_fail DefiniteNoWrite
      else em_sys_or os InvalidPrivateFile (\<lambda>_. em_bind em_dir (\<lambda>d. case d source of
          None \<Rightarrow> em_fail InvalidPrivateFile
        | Some content \<Rightarrow> em_bind (em_set source None) (\<lambda>_. em_set target (Some content)))))"

definition evidence_unlink_child :: "task_os \<Rightarrow> bytes \<Rightarrow> unit em" where
  "evidence_unlink_child os name =
     (if CHR 0x00 \<in> set name then em_fail DefiniteNoWrite
      else em_sys os (\<lambda>a. case os_error a of
        Some NotFound \<Rightarrow> em_return ()
      | Some _ \<Rightarrow> em_fail InvalidPrivateFile
      | None \<Rightarrow> em_set name None))"

definition evidence_write_all :: "task_os \<Rightarrow> bytes \<Rightarrow> bytes \<Rightarrow> unit em" where
  "evidence_write_all os name bs =
     em_sys os (\<lambda>a. em_bind em_dir (\<lambda>d.
       if os_error a = None then em_set name (map_option (\<lambda>c. c @ bs) (d name))
       else em_bind (em_set name (map_option (\<lambda>c. c @ take (os_stored a) bs) (d name))) (\<lambda>_. em_fail DefiniteNoWrite)))"

definition evidence_sync_root :: "task_os \<Rightarrow> RootHandle \<Rightarrow> unit em" where
  "evidence_sync_root os root =
     em_bind (evidence_validate_binding os root) (\<lambda>_. em_sys_or os Evidence_PersistenceUnknown (\<lambda>_. em_return ()))"

definition evidence_open_lock :: "task_os \<Rightarrow> RootHandle \<Rightarrow> unit em" where
  "evidence_open_lock os root =
     em_bind (evidence_validate_binding os root) (\<lambda>_.
     em_bind (evidence_open_child os EVIDENCE_LOCK_FILE True False) (\<lambda>_.
     em_bind (evidence_validate_private_file os) (\<lambda>_. evidence_sync_root os root)))"

text \<open>\<open>entries\<close> is what \<open>read_dir\<close> yields: \<open>None\<close> for an entry that cannot be read.\<close>

fun remove_temps :: "task_os \<Rightarrow> bytes option list \<Rightarrow> bool \<Rightarrow> bool em" where
  "remove_temps os [] removed = em_return removed"
| "remove_temps os (None # rest) removed = em_fail InvalidRoot"
| "remove_temps os (Some name # rest) removed =
     (if take (length EVIDENCE_TEMP_PREFIX) name \<noteq> EVIDENCE_TEMP_PREFIX then remove_temps os rest removed
      else em_bind (evidence_open_child os name False False) (\<lambda>_.
        em_bind (evidence_validate_private_file os) (\<lambda>_.
        em_bind (evidence_unlink_child os name) (\<lambda>_. remove_temps os rest True))))"

definition cleanup_stale_temps :: "task_os \<Rightarrow> RootHandle \<Rightarrow> bytes option list \<Rightarrow> unit em" where
  "cleanup_stale_temps os root entries =
     em_bind (evidence_validate_binding os root) (\<lambda>_.
     em_bind (evidence_open_lock os root) (\<lambda>_.
     em_sys_or os LockUnavailable (\<lambda>_. em_sys_or os InvalidRoot (\<lambda>_.
     em_bind (remove_temps os entries False) (\<lambda>removed.
     if removed then evidence_sync_root os root else em_return ())))))"

definition evidence_load_snapshot ::
  "task_env \<Rightarrow> evidence_env \<Rightarrow> task_os \<Rightarrow> RootHandle \<Rightarrow> TaskWorkerActionEvidenceStoreV1 option em" where
  "evidence_load_snapshot E V os root =
     em_bind (evidence_validate_binding os root) (\<lambda>_.
     em_bind (em_try (evidence_open_child os EVIDENCE_SNAPSHOT_FILE False False)) (\<lambda>r. case r of
       Inl DefiniteNoWrite \<Rightarrow> em_return None
     | Inl e \<Rightarrow> em_fail e
     | Inr _ \<Rightarrow>
         em_bind (evidence_validate_private_file os) (\<lambda>_.
         em_sys_or os InvalidSnapshot (\<lambda>_. em_bind em_dir (\<lambda>d.
         let bs = (case d EVIDENCE_SNAPSHOT_FILE of None \<Rightarrow> [] | Some c \<Rightarrow> c) in
         em_bind (em_lift (ok_or InvalidSnapshot (parse_evidence V bs))) (\<lambda>s.
         em_bind (em_lift (validate_evidence E V s)) (\<lambda>_.
         em_bind (em_lift (ok_or Evidence_Serialization (json_evidence V s))) (\<lambda>written.
         if written \<noteq> bs then em_fail InvalidSnapshot else em_return (Some s)))))))))"

definition evidence_temp_name :: "task_os \<Rightarrow> nat \<Rightarrow> bytes" where
  "evidence_temp_name os n = EVIDENCE_TEMP_PREFIX @ os_unique os n"

text \<open>The steps up to the rename, each of which fails with \<open>Definite\<close>.\<close>

definition write_temp_and_rename :: "task_os \<Rightarrow> RootHandle \<Rightarrow> bytes \<Rightarrow> bytes \<Rightarrow> unit em" where
  "write_temp_and_rename os root temp bs =
     em_bind (evidence_validate_binding os root) (\<lambda>_.
     em_bind (evidence_open_child os temp True True) (\<lambda>_.
     em_bind (evidence_validate_private_file os) (\<lambda>_.
     em_bind (evidence_write_all os temp bs) (\<lambda>_.
     em_sys_or os DefiniteNoWrite (\<lambda>_.
     em_bind (evidence_validate_binding os root) (\<lambda>_.
     evidence_rename_child os temp EVIDENCE_SNAPSHOT_FILE))))))"

definition persist_snapshot :: "task_os \<Rightarrow> RootHandle \<Rightarrow> bytes \<Rightarrow> (PersistFailure + unit) em" where
  "persist_snapshot os root bs st =
     (let temp = evidence_temp_name os (ev_tick st) in
      em_bind (em_try (write_temp_and_rename os root temp bs)) (\<lambda>r. case r of
        Inl _ \<Rightarrow> em_bind (em_try (evidence_unlink_child os temp)) (\<lambda>_. em_return (Inl Definite))
      | Inr _ \<Rightarrow> em_bind (em_try (evidence_sync_root os root)) (\<lambda>r.
          em_return (map_err (\<lambda>_. Unknown_Failure) r))) st)"

section \<open>Reading and changing the store\<close>

definition load_or_default ::
  "task_env \<Rightarrow> evidence_env \<Rightarrow> task_os \<Rightarrow> RootHandle \<Rightarrow> TaskWorkerActionEvidenceStoreV1 em" where
  "load_or_default E V os root =
     em_bind (evidence_validate_binding os root) (\<lambda>_.
     em_bind (evidence_open_lock os root) (\<lambda>_.
     em_sys_or os LockUnavailable (\<lambda>_.
     em_bind (evidence_load_snapshot E V os root) (\<lambda>loaded.
     let current = (case loaded of None \<Rightarrow> evidence_default | Some s \<Rightarrow> s) in
     em_bind (em_lift (validate_evidence E V current)) (\<lambda>_. em_return current)))))"

definition evidence_snapshot ::
  "task_env \<Rightarrow> evidence_env \<Rightarrow> task_os \<Rightarrow> RootHandle \<Rightarrow> TaskWorkerActionEvidenceStoreV1 em" where
  "evidence_snapshot E V os root = load_or_default E V os root"

text \<open>The part of \<open>mutate\<close> after the mutator.\<close>

definition save_mutation ::
  "task_env \<Rightarrow> evidence_env \<Rightarrow> task_os \<Rightarrow> RootHandle \<Rightarrow> 'a \<Rightarrow> TaskWorkerActionEvidenceStoreV1 \<Rightarrow> 'a em" where
  "save_mutation E V os root result changed =
     em_bind (em_lift (map_err (\<lambda>_. RevisionOverflow) (checked_next (es_store_revision changed)))) (\<lambda>revision.
     em_bind (em_lift (validate_evidence E V (changed\<lparr>es_store_revision := revision\<rparr>))) (\<lambda>_.
     em_bind (em_lift (ok_or Evidence_Serialization (json_evidence V (changed\<lparr>es_store_revision := revision\<rparr>)))) (\<lambda>bs.
     em_bind (persist_snapshot os root bs) (\<lambda>r. case r of
       Inr _ \<Rightarrow> em_return result
     | Inl Definite \<Rightarrow> em_fail DefiniteNoWrite
     | Inl Unknown_Failure \<Rightarrow> em_fail Evidence_PersistenceUnknown))))"

definition mutate ::
  "task_env \<Rightarrow> evidence_env \<Rightarrow> task_os \<Rightarrow> RootHandle \<Rightarrow>
     (TaskWorkerActionEvidenceStoreV1 \<Rightarrow> EvidenceStoreError + 'a \<times> TaskWorkerActionEvidenceStoreV1) \<Rightarrow> 'a em" where
  "mutate E V os root mutator =
     em_bind (load_or_default E V os root) (\<lambda>current.
     em_bind (em_lift (mutator current)) (\<lambda>(result, changed). save_mutation E V os root result changed))"

definition evidence_open ::
  "task_env \<Rightarrow> evidence_env \<Rightarrow> task_os \<Rightarrow> bytes \<Rightarrow> bytes option list \<Rightarrow> RootHandle em" where
  "evidence_open E V os path entries =
     em_bind (evidence_open_validated_root os) (\<lambda>_.
     em_sys_or os InvalidRoot (\<lambda>a.
     let root = \<lparr>root_path = path, root_device = md_dev (os_root_meta a), root_inode = md_ino (os_root_meta a)\<rparr> in
     em_bind (cleanup_stale_temps os root entries) (\<lambda>_.
     em_bind (evidence_snapshot E V os root) (\<lambda>_. em_return root))))"

section \<open>Operations\<close>

definition probe_of ::
  "task_env \<Rightarrow> evidence_env \<Rightarrow> TaskWorkerAuthorizedAction \<Rightarrow> TaskWorkerActionEvidenceStoreV1 \<Rightarrow>
     EvidenceStoreError + ActionProbe" where
  "probe_of E V a s =
     res_bind (canonical_request_sha256 E V a) (\<lambda>canonical.
     let found = bt_get (es_records_by_action_key s) (action_key E (wq_action_id (au_request a))) in
     if (case found of None \<Rightarrow> False | Some r \<Rightarrow> tr_canonical_request_sha256 r \<noteq> canonical) then Inr Probe_Conflict
     else case es_uncertainty s of
       Some u \<Rightarrow>
         if (case found of None \<Rightarrow> False
             | Some r \<Rightarrow> uf_transport_record_id u = tr_record_id r \<and> uf_action_id u = wq_action_id (au_request a)
                 \<and> uf_canonical_request_sha256 u = canonical \<and> uf_owner u = au_owner a)
         then Inr (Probe_ExactBlocked (uf_uncertainty_id u) (uf_action_id u))
         else Inr Probe_Blocked
     | None \<Rightarrow> Inr (case found of Some r \<Rightarrow> Probe_Existing r | None \<Rightarrow> Probe_New))"

definition probe ::
  "task_env \<Rightarrow> evidence_env \<Rightarrow> task_os \<Rightarrow> RootHandle \<Rightarrow> TaskWorkerAuthorizedAction \<Rightarrow> ActionProbe em" where
  "probe E V os root a = em_bind (evidence_snapshot E V os root) (\<lambda>s. em_lift (probe_of E V a s))"

definition contains_action_id ::
  "task_env \<Rightarrow> evidence_env \<Rightarrow> task_os \<Rightarrow> RootHandle \<Rightarrow> id \<Rightarrow> bool em" where
  "contains_action_id E V os root action_id =
     em_bind (em_try (evidence_snapshot E V os root)) (\<lambda>r. em_return (case r of
       Inl _ \<Rightarrow> False
     | Inr s \<Rightarrow> bt_get (es_records_by_action_key s) (action_key E action_id) \<noteq> None))"

text \<open>The UUIDs and times that \<open>prepare\<close> draws, in their order.\<close>

record prepare_fresh =
  fr_record_id :: id
  fr_created_at :: Rfc3339
  fr_uncertainty_id :: id
  fr_began_at :: Rfc3339

definition new_record :: "task_env \<Rightarrow> prepare_fresh \<Rightarrow> Sha256 \<Rightarrow> TaskWorkerAuthorizedAction \<Rightarrow> TaskWorkerTransportRecordV1" where
  "new_record E fresh canonical a = \<lparr>tr_record_id = fr_record_id fresh,
     tr_action_key_sha256 = action_key E (wq_action_id (au_request a)), tr_canonical_request_sha256 = canonical,
     tr_created_at = fr_created_at fresh, tr_owner = au_owner a, tr_action = wq_action (au_request a),
     tr_task_id = wq_task_id (au_request a), tr_task_revision = wq_task_revision (au_request a),
     tr_attempt_fence = wq_attempt_fence (au_request a),
     tr_expected_store_revision = wq_expected_store_revision (au_request a),
     tr_action_id = wq_action_id (au_request a), tr_result = wq_result (au_request a)\<rparr>"

definition new_fence :: "prepare_fresh \<Rightarrow> TaskWorkerTransportRecordV1 \<Rightarrow> TaskWorkerUncertaintyFenceV1" where
  "new_fence fresh r = \<lparr>uf_uncertainty_id = fr_uncertainty_id fresh, uf_state = Pending,
     uf_transport_record_id = tr_record_id r, uf_canonical_request_sha256 = tr_canonical_request_sha256 r,
     uf_action_id = tr_action_id r, uf_action = tr_action r, uf_task_id = tr_task_id r,
     uf_task_revision = tr_task_revision r, uf_attempt_fence = tr_attempt_fence r,
     uf_expected_store_revision = tr_expected_store_revision r, uf_owner = tr_owner r,
     uf_began_at = fr_began_at fresh, uf_resolution = None\<rparr>"

definition prepare_on ::
  "task_env \<Rightarrow> evidence_env \<Rightarrow> prepare_fresh \<Rightarrow> TaskWorkerAuthorizedAction \<Rightarrow> TaskWorkerActionEvidenceStoreV1 \<Rightarrow>
     EvidenceStoreError + PreparedTaskWorkerAction \<times> TaskWorkerActionEvidenceStoreV1" where
  "prepare_on E V fresh a s =
     (if es_uncertainty s \<noteq> None then Inl DefiniteNoWrite
      else let key = action_key E (wq_action_id (au_request a)) in
        res_bind (canonical_request_sha256 E V a) (\<lambda>canonical.
        res_bind (case bt_get (es_records_by_action_key s) key of
            Some r \<Rightarrow> if tr_canonical_request_sha256 r = canonical then Inr (r, es_records_by_action_key s)
                      else Inl DefiniteNoWrite
          | None \<Rightarrow> let r = new_record E fresh canonical a in
              Inr (r, bt_insert key r (es_records_by_action_key s))) (\<lambda>(r, records).
        let u = new_fence fresh r in
        Inr (\<lparr>prep_record = r, prep_uncertainty = u\<rparr>,
             s\<lparr>es_records_by_action_key := records, es_uncertainty := Some u\<rparr>))))"

definition prepare ::
  "task_env \<Rightarrow> evidence_env \<Rightarrow> task_os \<Rightarrow> RootHandle \<Rightarrow> prepare_fresh \<Rightarrow> TaskWorkerAuthorizedAction \<Rightarrow>
     PreparedTaskWorkerAction em" where
  "prepare E V os root fresh a = mutate E V os root (prepare_on E V fresh a)"

definition clear_known_on ::
  "PreparedTaskWorkerAction \<Rightarrow> TaskWorkerActionEvidenceStoreV1 \<Rightarrow> EvidenceStoreError + unit \<times> TaskWorkerActionEvidenceStoreV1" where
  "clear_known_on prepared s = (case es_uncertainty s of
     None \<Rightarrow> Inl DefiniteNoWrite
   | Some u \<Rightarrow>
       if uf_uncertainty_id u \<noteq> uf_uncertainty_id (prep_uncertainty prepared) \<or> uf_state u \<noteq> Pending
         \<or> uf_transport_record_id u \<noteq> tr_record_id (prep_record prepared)
       then Inl DefiniteNoWrite else Inr ((), s\<lparr>es_uncertainty := None\<rparr>))"

definition clear_known ::
  "task_env \<Rightarrow> evidence_env \<Rightarrow> task_os \<Rightarrow> RootHandle \<Rightarrow> PreparedTaskWorkerAction \<Rightarrow> unit em" where
  "clear_known E V os root prepared = mutate E V os root (clear_known_on prepared)"

definition uncertainty ::
  "task_env \<Rightarrow> evidence_env \<Rightarrow> task_os \<Rightarrow> RootHandle \<Rightarrow> TaskWorkerUncertaintyFenceV1 option em" where
  "uncertainty E V os root = em_bind (evidence_snapshot E V os root) (\<lambda>s. em_return (es_uncertainty s))"

definition record_for_uncertainty ::
  "task_env \<Rightarrow> evidence_env \<Rightarrow> task_os \<Rightarrow> RootHandle \<Rightarrow> TaskWorkerUncertaintyFenceV1 \<Rightarrow> TaskWorkerTransportRecordV1 em" where
  "record_for_uncertainty E V os root u =
     em_bind (evidence_snapshot E V os root) (\<lambda>s. em_lift (ok_or InvalidSnapshot
       (case bt_get (es_records_by_action_key s) (action_key E (uf_action_id u)) of
          None \<Rightarrow> None
        | Some r \<Rightarrow> if tr_record_id r = uf_transport_record_id u then Some r else None)))"

definition resolve_on ::
  "task_env \<Rightarrow> evidence_env \<Rightarrow> id \<Rightarrow> Rfc3339 \<Rightarrow> id \<Rightarrow> id \<Rightarrow> TaskWorkerResolutionEvidence \<Rightarrow>
     TaskWorkerActionEvidenceStoreV1 \<Rightarrow> EvidenceStoreError + TaskWorkerResolution \<times> TaskWorkerActionEvidenceStoreV1" where
  "resolve_on E V uuid now uncertainty_id action_id evidence s = (case es_uncertainty s of
     None \<Rightarrow> Inl DefiniteNoWrite
   | Some u \<Rightarrow>
       if uf_uncertainty_id u \<noteq> uncertainty_id \<or> uf_action_id u \<noteq> action_id then Inl DefiniteNoWrite
       else case uf_resolution u of
         Some resolution \<Rightarrow> Inr (resolution, s)
       | None \<Rightarrow>
           if uf_state u \<noteq> Pending then Inl InvalidSnapshot
           else let draft = \<lparr>res_resolution_id = uuid, res_resolution_sha256 = zero_sha256, res_resolved_at = now,
                      res_evidence = evidence\<rparr> in
             res_bind (resolution_sha256 E V u draft) (\<lambda>h.
             let resolution = draft\<lparr>res_resolution_sha256 := h\<rparr> in
             Inr (resolution, s\<lparr>es_uncertainty := Some (u\<lparr>uf_state := Resolved, uf_resolution := Some resolution\<rparr>)\<rparr>)))"

definition resolve ::
  "task_env \<Rightarrow> evidence_env \<Rightarrow> task_os \<Rightarrow> RootHandle \<Rightarrow> id \<Rightarrow> Rfc3339 \<Rightarrow> id \<Rightarrow> id \<Rightarrow> TaskWorkerResolutionEvidence \<Rightarrow>
     TaskWorkerResolution em" where
  "resolve E V os root uuid now uncertainty_id action_id evidence =
     mutate E V os root (resolve_on E V uuid now uncertainty_id action_id evidence)"

definition ack_on ::
  "id \<Rightarrow> id \<Rightarrow> id \<Rightarrow> Sha256 \<Rightarrow> TaskWorkerActionEvidenceStoreV1 \<Rightarrow> EvidenceStoreError + unit \<times> TaskWorkerActionEvidenceStoreV1" where
  "ack_on uncertainty_id action_id resolution_id digest s = (case es_uncertainty s of
     None \<Rightarrow> Inl DefiniteNoWrite
   | Some u \<Rightarrow> (case uf_resolution u of
       None \<Rightarrow> Inl DefiniteNoWrite
     | Some resolution \<Rightarrow>
         if uf_state u \<noteq> Resolved \<or> uf_uncertainty_id u \<noteq> uncertainty_id \<or> uf_action_id u \<noteq> action_id
           \<or> res_resolution_id resolution \<noteq> resolution_id \<or> res_resolution_sha256 resolution \<noteq> digest
         then Inl DefiniteNoWrite else Inr ((), s\<lparr>es_uncertainty := None\<rparr>)))"

definition ack ::
  "task_env \<Rightarrow> evidence_env \<Rightarrow> task_os \<Rightarrow> RootHandle \<Rightarrow> id \<Rightarrow> id \<Rightarrow> id \<Rightarrow> Sha256 \<Rightarrow> unit em" where
  "ack E V os root uncertainty_id action_id resolution_id digest =
     mutate E V os root (ack_on uncertainty_id action_id resolution_id digest)"

definition record_by_id ::
  "task_env \<Rightarrow> evidence_env \<Rightarrow> task_os \<Rightarrow> RootHandle \<Rightarrow> id \<Rightarrow> TaskWorkerTransportRecordV1 option em" where
  "record_by_id E V os root record_id =
     em_bind (evidence_snapshot E V os root) (\<lambda>s.
     em_return (find (\<lambda>r. tr_record_id r = record_id) (bt_values (es_records_by_action_key s))))"

end
