(* ===== verification/Worker_Host.thy ===== *)
theory Worker_Host
  imports Worker_Evidence
begin

text \<open>
  The host of worker actions: \<open>execute\<close>, \<open>execute_authorized\<close> and \<open>reconcile\<close> of \<open>TaskWorkerActionHost\<close> in
  \<open>agent_bus/server.rs\<close>. An action is prepared in the evidence store, made a transition of the Task
  Service, and cleared; a reconciliation asks the Task Service what became of an action whose fence
  is still there. The state is the Task Service and the evidence store, each with its own
  directory and its own operating system calls. The mutex \<open>execution\<close> makes the calls follow each
  other; a poisoned mutex is not modelled.
\<close>

record host_state =
  hs_repo :: repo_state
  hs_evidence :: evidence_state

type_synonym 'a hm = "(host_state, 'a) tm"

definition on_repo :: "'a rm \<Rightarrow> 'a hm" where
  "on_repo m st = (let (r, repo) = m (hs_repo st) in (r, st\<lparr>hs_repo := repo\<rparr>))"

definition on_evidence :: "'a em \<Rightarrow> (EvidenceStoreError + 'a) hm" where
  "on_evidence m st = (let (r, evidence) = m (hs_evidence st) in (Done r, st\<lparr>hs_evidence := evidence\<rparr>))"

text \<open>The fixed parts of a host: libraries, operating systems, directories, sessions.\<close>

record host =
  h_task_env :: task_env
  h_evidence_env :: evidence_env
  h_task_os :: task_os
  h_evidence_os :: task_os
  h_task_root :: RootHandle
  h_evidence_root :: RootHandle
  h_recovered :: bool
  h_sessions :: worker_sessions

section \<open>Actions\<close>

definition reconciliation_required :: "PreparedTaskWorkerAction \<Rightarrow> TaskWorkerActionOutcome" where
  "reconciliation_required p = Action_ReconciliationRequired (uf_uncertainty_id (prep_uncertainty p)) (tr_action_id (prep_record p))"

definition reconciliation_after_prepare_unknown ::
  "host \<Rightarrow> TaskWorkerAuthorizedAction \<Rightarrow> TaskWorkerActionOutcome hm" where
  "reconciliation_after_prepare_unknown H a =
     pm_bind (on_evidence (probe (h_task_env H) (h_evidence_env H) (h_evidence_os H) (h_evidence_root H) a)) (\<lambda>r.
     pm_return (case r of
       Inr (Probe_ExactBlocked uncertainty_id action_id) \<Rightarrow> Action_ReconciliationRequired uncertainty_id action_id
     | _ \<Rightarrow> Action_NoWrite NW_PersistenceUnavailable))"

definition reconciliation_after_clear_unknown ::
  "host \<Rightarrow> PreparedTaskWorkerAction \<Rightarrow> TaskWorkerActionOutcome hm" where
  "reconciliation_after_clear_unknown H prepared =
     pm_bind (on_evidence (uncertainty (h_task_env H) (h_evidence_env H) (h_evidence_os H) (h_evidence_root H))) (\<lambda>r.
     pm_return (case r of
       Inr (Some u) \<Rightarrow>
         if uf_uncertainty_id u = uf_uncertainty_id (prep_uncertainty prepared) then reconciliation_required prepared
         else Action_NoWrite NW_PersistenceUnavailable
     | _ \<Rightarrow> Action_NoWrite NW_PersistenceUnavailable))"

text \<open>After the transition: the fence is cleared when the outcome is known.\<close>

definition clear_with :: "host \<Rightarrow> PreparedTaskWorkerAction \<Rightarrow> TaskWorkerActionOutcome \<Rightarrow> TaskWorkerActionOutcome hm" where
  "clear_with H prepared outcome =
     pm_bind (on_evidence (clear_known (h_task_env H) (h_evidence_env H) (h_evidence_os H) (h_evidence_root H) prepared)) (\<lambda>r.
     case r of Inr _ \<Rightarrow> pm_return outcome | Inl _ \<Rightarrow> reconciliation_after_clear_unknown H prepared)"

definition settle_transition ::
  "host \<Rightarrow> PreparedTaskWorkerAction \<Rightarrow> TaskWorkerTransitionResult \<Rightarrow> TaskWorkerActionOutcome hm" where
  "settle_transition H prepared t = (case t of
     Transition_PersistenceUnknown \<Rightarrow> pm_return (reconciliation_required prepared)
   | Transition_Committed receipt \<Rightarrow> clear_with H prepared (Action_Committed receipt)
   | Transition_NoWrite e \<Rightarrow> clear_with H prepared (Action_NoWrite e))"

definition run_prepared ::
  "host \<Rightarrow> prepare_fresh \<Rightarrow> Rfc3339 \<Rightarrow> TaskWorkerAuthorizedAction \<Rightarrow> TaskWorkerActionOutcome hm" where
  "run_prepared H fresh now a =
     pm_bind (on_evidence (prepare (h_task_env H) (h_evidence_env H) (h_evidence_os H) (h_evidence_root H) fresh a)) (\<lambda>r.
     case r of
       Inl Evidence_PersistenceUnknown \<Rightarrow> reconciliation_after_prepare_unknown H a
     | Inl _ \<Rightarrow> pm_return (Action_NoWrite NW_PersistenceUnavailable)
     | Inr prepared \<Rightarrow>
         pm_bind (on_repo (transition_once (h_task_env H) (h_task_os H) (h_task_root H) now a
           (tr_record_id (prep_record prepared)))) (\<lambda>t. settle_transition H prepared t))"

definition observed_outcome ::
  "host \<Rightarrow> TaskWorkerAuthorizedAction \<Rightarrow> TaskWorkerTransportRecordV1 option \<Rightarrow> PilotWorkerReceiptObservation \<Rightarrow>
     TaskWorkerActionOutcome" where
  "observed_outcome H a existing observation = (case existing of
     None \<Rightarrow> Action_NoWrite NW_ActionConflict
   | Some r \<Rightarrow> (case receipt_from_observation (h_task_env H) a (tr_record_id r) observation of
       Inr (Some receipt) \<Rightarrow> Action_Committed receipt
     | Inr None \<Rightarrow> Action_NoWrite NW_DurableRequestRejected
     | Inl e \<Rightarrow> Action_NoWrite e))"

definition execute_authorized ::
  "host \<Rightarrow> prepare_fresh \<Rightarrow> Rfc3339 \<Rightarrow> TaskWorkerAuthorizedAction \<Rightarrow> TaskWorkerActionOutcome hm" where
  "execute_authorized H fresh now a =
     pm_bind (on_evidence (probe (h_task_env H) (h_evidence_env H) (h_evidence_os H) (h_evidence_root H) a)) (\<lambda>r.
     let continue = (\<lambda>existing.
       pm_bind (on_repo (inspect_receipt (h_task_env H) (h_task_os H) (h_task_root H) (h_recovered H)
         (wq_action_id (au_request a)))) (\<lambda>r. case r of
         Inl e \<Rightarrow> pm_return (Action_NoWrite e)
       | Inr (Observed_Committed c) \<Rightarrow> pm_return (observed_outcome H a existing (Observed_Committed c))
       | Inr (Observed_Absent _ _) \<Rightarrow> run_prepared H fresh now a))
     in case r of
       Inl _ \<Rightarrow> pm_return (Action_NoWrite NW_PersistenceUnavailable)
     | Inr Probe_Conflict \<Rightarrow> pm_return (Action_NoWrite NW_ActionConflict)
     | Inr Probe_Blocked \<Rightarrow> pm_return (Action_NoWrite NW_UncertaintyBlocked)
     | Inr (Probe_ExactBlocked uncertainty_id action_id) \<Rightarrow>
         pm_return (Action_ReconciliationRequired uncertainty_id action_id)
     | Inr (Probe_Existing record) \<Rightarrow> continue (Some record)
     | Inr Probe_New \<Rightarrow> continue None)"

definition task_worker_action_no_write :: "id option \<Rightarrow> TaskWorkerActionNoWrite \<Rightarrow> TaskWorkerActionResponse" where
  "task_worker_action_no_write action_id e = \<lparr>war_action_id = action_id, war_outcome = Action_NoWrite e\<rparr>"

definition execute_action ::
  "host \<Rightarrow> prepare_fresh \<Rightarrow> Rfc3339 \<Rightarrow> TaskWorkerRosterSender \<Rightarrow> ValidatedTaskWorkerAction \<Rightarrow> TaskWorkerActionResponse hm" where
  "execute_action H fresh now sender v =
     (let action_id = wq_action_id (va_request v) in
      pm_bind (on_repo (authorize (h_task_env H) (h_task_os H) (h_task_root H) (h_recovered H) (h_sessions H) sender v)) (\<lambda>r.
      case r of
        Inl e \<Rightarrow>
          pm_bind (on_evidence (contains_action_id (h_task_env H) (h_evidence_env H) (h_evidence_os H) (h_evidence_root H) action_id)) (\<lambda>known.
          pm_return (task_worker_action_no_write (Some action_id) (if known = Inr True then NW_ActionConflict else e)))
      | Inr authorized \<Rightarrow>
          pm_bind (execute_authorized H fresh now authorized) (\<lambda>outcome.
          pm_return \<lparr>war_action_id = Some action_id, war_outcome = outcome\<rparr>)))"

section \<open>Reconciliation\<close>

abbreviation "reconciliation_rejected \<equiv> Reconcile_NoWrite Reconcile_Rejected"
abbreviation "reconciliation_persistence_unavailable \<equiv> Reconcile_NoWrite Reconcile_PersistenceUnavailable"

text \<open>The evidence an observation of the journal gives; \<open>Inl\<close> is the response of a refusal.\<close>

definition resolution_evidence ::
  "host \<Rightarrow> TaskWorkerTransportRecordV1 \<Rightarrow> PilotWorkerReceiptObservation \<Rightarrow>
     TaskWorkerReconciliationOutcome + TaskWorkerResolutionEvidence" where
  "resolution_evidence H r observation = (case observation of
     Observed_Absent revision cursor \<Rightarrow>
       Inr (Evidence_Absent \<lparr>abs_observed_store_revision = revision, abs_observed_journal_cursor = cursor\<rparr>)
   | Observed_Committed c \<Rightarrow> (case authorized_from_record (h_task_env H) r of
       Inl _ \<Rightarrow> Inl reconciliation_persistence_unavailable
     | Inr authorized \<Rightarrow> (case receipt_from_observation (h_task_env H) authorized (tr_record_id r) (Observed_Committed c) of
         Inr (Some receipt) \<Rightarrow> Inr (Evidence_Committed \<lparr>cev_receipt = receipt,
           cev_request_digest_sha256 = wr_request_digest_sha256 c, cev_event_cursor = wr_event_cursor c,
           cev_observed_store_revision = wr_observed_store_revision c,
           cev_observed_journal_cursor = wr_observed_journal_cursor c\<rparr>)
       | _ \<Rightarrow> Inl reconciliation_rejected)))"

text \<open>Storing the resolution, and reading the fence again when the outcome of the write is unknown.\<close>

definition record_resolution ::
  "host \<Rightarrow> id \<Rightarrow> Rfc3339 \<Rightarrow> id \<Rightarrow> id \<Rightarrow> TaskWorkerResolutionEvidence \<Rightarrow> TaskWorkerReconciliationOutcome hm" where
  "record_resolution H uuid now uncertainty_id action_id evidence =
     pm_bind (on_evidence (resolve (h_task_env H) (h_evidence_env H) (h_evidence_os H) (h_evidence_root H)
       uuid now uncertainty_id action_id evidence)) (\<lambda>saved.
     case saved of
       Inr resolution \<Rightarrow> pm_return (Reconcile_Resolved resolution)
     | Inl Evidence_PersistenceUnknown \<Rightarrow>
         pm_bind (on_evidence (uncertainty (h_task_env H) (h_evidence_env H) (h_evidence_os H) (h_evidence_root H))) (\<lambda>f.
         pm_return (case f of
           Inr (Some fence) \<Rightarrow> (case uf_resolution fence of
             Some resolution \<Rightarrow> Reconcile_Resolved resolution | None \<Rightarrow> Reconcile_Unknown)
         | _ \<Rightarrow> Reconcile_Unknown))
     | Inl _ \<Rightarrow> pm_return reconciliation_persistence_unavailable)"

definition reconcile_inspect ::
  "host \<Rightarrow> id \<Rightarrow> Rfc3339 \<Rightarrow> TaskWorkerUncertaintyFenceV1 \<Rightarrow> TaskWorkerTransportRecordV1 \<Rightarrow> id \<Rightarrow> id \<Rightarrow>
     TaskWorkerReconciliationOutcome hm" where
  "reconcile_inspect H uuid now u r uncertainty_id action_id = (case uf_resolution u of
     Some resolution \<Rightarrow> pm_return (Reconcile_Resolved resolution)
   | None \<Rightarrow>
       pm_bind (on_repo (inspect_receipt (h_task_env H) (h_task_os H) (h_task_root H) (h_recovered H) (tr_action_id r))) (\<lambda>seen.
       case seen of
         Inl _ \<Rightarrow> pm_return Reconcile_Unknown
       | Inr observation \<Rightarrow> (case resolution_evidence H r observation of
           Inl refusal \<Rightarrow> pm_return refusal
         | Inr evidence \<Rightarrow> record_resolution H uuid now uncertainty_id action_id evidence)))"

definition reconcile_ack ::
  "host \<Rightarrow> id \<Rightarrow> id \<Rightarrow> id \<Rightarrow> Sha256 \<Rightarrow> TaskWorkerReconciliationOutcome hm" where
  "reconcile_ack H uncertainty_id action_id resolution_id digest =
     pm_bind (on_evidence (ack (h_task_env H) (h_evidence_env H) (h_evidence_os H) (h_evidence_root H)
       uncertainty_id action_id resolution_id digest)) (\<lambda>r.
     case r of
       Inr _ \<Rightarrow> pm_return Reconcile_Acknowledged
     | Inl Evidence_PersistenceUnknown \<Rightarrow>
         pm_bind (on_evidence (uncertainty (h_task_env H) (h_evidence_env H) (h_evidence_os H) (h_evidence_root H))) (\<lambda>f.
         pm_return (if f = Inr None then Reconcile_Acknowledged else reconciliation_persistence_unavailable))
     | Inl DefiniteNoWrite \<Rightarrow> pm_return reconciliation_rejected
     | Inl _ \<Rightarrow> pm_return reconciliation_persistence_unavailable)"

fun operation_ids :: "TaskWorkerReconciliationOperation \<Rightarrow> id \<times> id" where
  "operation_ids (Inspect u a) = (u, a)"
| "operation_ids (Ack u a _ _) = (u, a)"

definition reconcile ::
  "host \<Rightarrow> id \<Rightarrow> Rfc3339 \<Rightarrow> TaskWorkerRosterSender \<Rightarrow> TaskWorkerReconciliationOperation \<Rightarrow>
     TaskWorkerReconciliationOutcome hm" where
  "reconcile H uuid now sender operation =
     (let (uncertainty_id, action_id) = operation_ids operation in
      pm_bind (on_evidence (uncertainty (h_task_env H) (h_evidence_env H) (h_evidence_os H) (h_evidence_root H))) (\<lambda>found.
      case found of
        Inl _ \<Rightarrow> pm_return reconciliation_persistence_unavailable
      | Inr None \<Rightarrow> pm_return reconciliation_rejected
      | Inr (Some u) \<Rightarrow>
          if uf_uncertainty_id u \<noteq> uncertainty_id \<or> uf_action_id u \<noteq> action_id
          then pm_return reconciliation_rejected
          else
            pm_bind (on_evidence (record_for_uncertainty (h_task_env H) (h_evidence_env H) (h_evidence_os H) (h_evidence_root H) u)) (\<lambda>found.
            case found of
              Inl _ \<Rightarrow> pm_return reconciliation_persistence_unavailable
            | Inr r \<Rightarrow>
                pm_bind (on_repo (authorize_stored_owner (h_task_env H) (h_task_os H) (h_task_root H) (h_recovered H)
                  (h_sessions H) sender (uf_owner u) (uf_task_id u) (uf_task_revision u) (uf_attempt_fence u))) (\<lambda>allowed.
                if isl allowed then pm_return reconciliation_rejected
                else case operation of
                  Inspect _ _ \<Rightarrow> reconcile_inspect H uuid now u r uncertainty_id action_id
                | Ack _ _ resolution_id digest \<Rightarrow> reconcile_ack H uncertainty_id action_id resolution_id digest))))"

end
