(* ===== verification/Evidence_Properties.thy ===== *)
theory Evidence_Properties
  imports Worker_Evidence Task_Disk
begin

text \<open>
  The evidence store on disk. \<open>espec d m Q\<close> says that \<open>m\<close>, started on the directory \<open>d\<close>, ends with a
  result and a directory in \<open>Q\<close>, whatever the operating system answers. The main facts: a read
  returns the document on disk, and a change either leaves the document as it was or replaces it by
  the changed one; only \<open>Evidence_PersistenceUnknown\<close> leaves open which.
\<close>

section \<open>Specifications of runs\<close>

definition espec :: "directory \<Rightarrow> 'a em \<Rightarrow> (EvidenceStoreError + 'a \<Rightarrow> directory \<Rightarrow> bool) \<Rightarrow> bool" where
  "espec d m Q \<longleftrightarrow> (\<forall>st. ev_dir st = d \<longrightarrow> Q (fst (m st)) (ev_dir (snd (m st))))"

lemma espec_run: "espec (ev_dir st) m Q \<Longrightarrow> m st = (r, st') \<Longrightarrow> Q r (ev_dir st')"
  by (auto simp: espec_def)

lemma espec_return: "Q (Inr x) d \<Longrightarrow> espec d (em_return x) Q"
  by (simp add: espec_def em_return_def)

lemma espec_fail: "Q (Inl e) d \<Longrightarrow> espec d (em_fail e) Q"
  by (simp add: espec_def em_fail_def)

lemma espec_lift: "Q r d \<Longrightarrow> espec d (em_lift r) Q"
  by (simp add: espec_def em_lift_def)

lemma espec_set: "Q (Inr ()) (d(name := c)) \<Longrightarrow> espec d (em_set name c) Q"
  by (simp add: espec_def em_set_def)

lemma espec_mono: "espec d m Q \<Longrightarrow> (\<And>r d'. Q r d' \<Longrightarrow> Q' r d') \<Longrightarrow> espec d m Q'"
  by (auto simp: espec_def)

lemma espec_bind:
  assumes "espec d m P" and "\<And>e d'. P (Inl e) d' \<Longrightarrow> Q (Inl e) d'" and "\<And>x d'. P (Inr x) d' \<Longrightarrow> espec d' (f x) Q"
  shows "espec d (em_bind m f) Q"
  using assms by (fastforce simp: espec_def em_bind_def split: prod.splits sum.splits)

lemma espec_dir_bind: "espec d (f d) Q \<Longrightarrow> espec d (em_bind em_dir f) Q"
  by (rule espec_bind [where P = "\<lambda>r d'. r = Inr d \<and> d' = d"]) (auto simp: espec_def em_dir_def)

lemma espec_lift_bind:
  "(\<And>e. r = Inl e \<Longrightarrow> Q (Inl e) d) \<Longrightarrow> (\<And>x. r = Inr x \<Longrightarrow> espec d (f x) Q) \<Longrightarrow> espec d (em_bind (em_lift r) f) Q"
  by (rule espec_bind [where P = "\<lambda>r' d'. r' = r \<and> d' = d"]) (auto simp: espec_def em_lift_def)

lemma espec_try_bind:
  assumes "espec d m P" and "\<And>r d'. P r d' \<Longrightarrow> espec d' (f r) Q"
  shows "espec d (em_bind (em_try m) f) Q"
  using assms by (auto simp: espec_def em_bind_def em_try_def split: prod.splits)

lemma espec_sys: "(\<And>n. espec d (f (os_answers os n)) Q) \<Longrightarrow> espec d (em_sys os f) Q"
  by (simp add: espec_def em_sys_def)

lemma espec_sys_or: "Q (Inl err) d \<Longrightarrow> (\<And>a. espec d (f a) Q) \<Longrightarrow> espec d (em_sys_or os err f) Q"
  unfolding em_sys_or_def by (rule espec_sys) (simp add: espec_fail)

section \<open>Operations that keep the document\<close>

abbreviation document :: "directory \<Rightarrow> bytes option" where
  "document d \<equiv> d EVIDENCE_SNAPSHOT_FILE"

definition keeps_directory :: "'a em \<Rightarrow> bool" where
  "keeps_directory m \<longleftrightarrow> (\<forall>st. ev_dir (snd (m st)) = ev_dir st)"

lemma keeps_directory_checks [simp]:
  "keeps_directory (evidence_validate_binding os root)" "keeps_directory (evidence_validate_private_file os)"
  "keeps_directory (evidence_sync_root os root)"
  by (simp_all add: keeps_directory_def evidence_validate_binding_def evidence_validate_private_file_def
    evidence_sync_root_def evidence_open_validated_root_def em_bind_def em_map_err_def em_sys_or_def em_sys_def
    em_fail_def em_return_def split: prod.splits sum.splits)

lemma espec_keeps: "keeps_directory m \<Longrightarrow> (\<And>r. Q r d) \<Longrightarrow> espec d m Q"
  by (auto simp: espec_def keeps_directory_def)

lemma espec_keeps_bind:
  assumes "keeps_directory m" and "\<And>e. Q (Inl e) d" and "\<And>x. espec d (f x) Q"
  shows "espec d (em_bind m f) Q"
  by (rule espec_bind [OF espec_keeps [OF assms(1), where Q = "\<lambda>_ d'. d' = d"]]) (use assms(2,3) in auto)

lemma lock_is_no_document: "EVIDENCE_LOCK_FILE \<noteq> EVIDENCE_SNAPSHOT_FILE"
  by (simp add: EVIDENCE_LOCK_FILE_def EVIDENCE_SNAPSHOT_FILE_def)

lemma temp_is_no_document: "evidence_temp_name os n \<noteq> EVIDENCE_SNAPSHOT_FILE"
  by (simp add: evidence_temp_name_def EVIDENCE_TEMP_PREFIX_def EVIDENCE_SNAPSHOT_FILE_def)

lemma evidence_open_child_spec:
  "espec d (evidence_open_child os name creat excl)
     (\<lambda>r d'. (isl r \<longrightarrow> d' = d) \<and> (\<not> isl r \<longrightarrow> d' = (if d name = None then d(name := Some []) else d) \<and> (creat \<and> excl \<longrightarrow> d name = None)))"
  unfolding evidence_open_child_def
  by (auto intro!: espec_fail espec_sys espec_dir_bind espec_set espec_return split: option.splits io_error_kind.splits if_splits)

lemma evidence_open_lock_spec: "espec d (evidence_open_lock os root) (\<lambda>r d'. document d' = document d)"
  unfolding evidence_open_lock_def
  apply (rule espec_keeps_bind, simp, simp)
  apply (rule espec_bind [OF evidence_open_child_spec], simp)
  apply (rule espec_keeps_bind, simp)
    apply (use lock_is_no_document in \<open>auto intro!: espec_keeps\<close>)
  done

section \<open>Reading\<close>

text \<open>The directory holds the document \<open>s\<close>; no file stands for the empty store.\<close>

definition holds :: "task_env \<Rightarrow> evidence_env \<Rightarrow> directory \<Rightarrow> TaskWorkerActionEvidenceStoreV1 \<Rightarrow> bool" where
  "holds E V d s \<longleftrightarrow> validate_evidence E V s = Inr () \<and>
     (case document d of None \<Rightarrow> s = evidence_default
      | Some b \<Rightarrow> parse_evidence V b = Some s \<and> json_evidence V s = Some b)"

definition evidence_codec :: "evidence_env \<Rightarrow> bool" where
  "evidence_codec V \<longleftrightarrow> (\<forall>s b. json_evidence V s = Some b \<longrightarrow> parse_evidence V b = Some s)"

lemma holds_default: "document d = None \<Longrightarrow> holds E V d evidence_default"
  by (simp add: holds_def validate_evidence_def evidence_default_def)

lemma holds_unique: "holds E V d s \<Longrightarrow> holds E V d s' \<Longrightarrow> s' = s"
  by (auto simp: holds_def split: option.splits)

lemma holds_document: "holds E V d s \<Longrightarrow> document d' = document d \<Longrightarrow> holds E V d' s"
  by (simp add: holds_def)

lemma evidence_load_snapshot_spec:
  assumes "honest os" and "holds E V d s"
  shows "espec d (evidence_load_snapshot E V os root)
    (\<lambda>r d'. d' = d \<and> (\<forall>x. r = Inr x \<longrightarrow> (case x of None \<Rightarrow> s = evidence_default | Some s' \<Rightarrow> s' = s)))"
proof -
  have opened: "espec d (evidence_open_child os EVIDENCE_SNAPSHOT_FILE False False)
      (\<lambda>r d'. d' = d \<and> (r = Inl DefiniteNoWrite \<longrightarrow> document d = None) \<and> (\<not> isl r \<longrightarrow> document d \<noteq> None))"
    using assms(1) unfolding evidence_open_child_def honest_def
    by (auto intro!: espec_fail espec_sys espec_dir_bind espec_return split: option.splits io_error_kind.splits if_splits
      simp: EVIDENCE_SNAPSHOT_FILE_def)
  have tail: "espec d (em_bind (evidence_validate_private_file os) (\<lambda>_.
         em_sys_or os InvalidSnapshot (\<lambda>_. em_bind em_dir (\<lambda>d.
         let bs = (case document d of None \<Rightarrow> [] | Some c \<Rightarrow> c) in
         em_bind (em_lift (ok_or InvalidSnapshot (parse_evidence V bs))) (\<lambda>s.
         em_bind (em_lift (validate_evidence E V s)) (\<lambda>_.
         em_bind (em_lift (ok_or Evidence_Serialization (json_evidence V s))) (\<lambda>written.
         if written \<noteq> bs then em_fail InvalidSnapshot else em_return (Some s))))))))
     (\<lambda>r d'. d' = d \<and> (\<forall>x. r = Inr x \<longrightarrow> (case x of None \<Rightarrow> s = evidence_default | Some s' \<Rightarrow> s' = s)))"
    if "document d \<noteq> None"
    apply (rule espec_keeps_bind, simp, simp)
    apply (rule espec_sys_or, simp)
    apply (rule espec_dir_bind)
    apply (simp only: Let_def)
    apply (rule espec_lift_bind, simp)
    apply (rule espec_lift_bind, simp)
    apply (rule espec_lift_bind, simp)
    using assms(2) that by (auto simp: holds_def res_simps intro: espec_fail espec_return)
  show ?thesis
    unfolding evidence_load_snapshot_def
    apply (rule espec_keeps_bind, simp, simp)
    apply (rule espec_try_bind [OF opened])
    subgoal for _ r d'
      using tail assms(2)
      by (cases r) (auto simp: holds_def isl_def split: EvidenceStoreError.splits intro!: espec_fail espec_return)
    done
qed

lemma load_or_default_spec:
  assumes "honest os" and "holds E V d s"
  shows "espec d (load_or_default E V os root) (\<lambda>r d'. document d' = document d \<and> (\<forall>s'. r = Inr s' \<longrightarrow> s' = s))"
  unfolding load_or_default_def
  apply (rule espec_keeps_bind, simp, simp)
  apply (rule espec_bind [OF evidence_open_lock_spec], simp)
  apply (rule espec_sys_or, simp)
  apply (rule espec_bind [OF evidence_load_snapshot_spec [OF assms(1) holds_document [OF assms(2)]]], assumption, simp)
  apply (simp only: Let_def)
  apply (rule espec_lift_bind, simp)
  apply (rule espec_return)
  apply (auto split: option.splits)
  done

section \<open>Writing\<close>

lemma write_temp_spec:
  assumes "temp \<noteq> EVIDENCE_SNAPSHOT_FILE"
  shows "espec d (write_temp_and_rename os root temp bs)
    (\<lambda>r d'. document d' = (if isl r then document d else Some bs))"
proof -
  have renamed: "espec d' (evidence_rename_child os temp EVIDENCE_SNAPSHOT_FILE)
      (\<lambda>r d''. document d'' = (if isl r then document d else Some bs))"
    if "d' = d(temp := Some bs)" for d'
    unfolding evidence_rename_child_def that
    using assms by (auto intro!: espec_fail espec_sys_or espec_dir_bind espec_set
      espec_bind [OF espec_set, where P = "\<lambda>r d''. r = Inr () \<and> document d'' = document d"])
  have written: "espec d' (evidence_write_all os temp bs)
      (\<lambda>r d''. (isl r \<longrightarrow> document d'' = document d) \<and> (\<not> isl r \<longrightarrow> d'' = d(temp := Some bs)))"
    if "d' = d(temp := Some [])" for d'
    unfolding evidence_write_all_def that
    using assms by (simp add: espec_def em_sys_def em_bind_def em_dir_def em_set_def em_fail_def)
  show ?thesis
    unfolding write_temp_and_rename_def
    apply (rule espec_keeps_bind, simp, simp)
    apply (rule espec_bind [OF evidence_open_child_spec], simp)
    apply (rule espec_keeps_bind, simp)
     apply (use assms in \<open>simp split: if_splits\<close>)
    apply (rule espec_bind [OF written], simp, simp)
    apply (rule espec_sys_or)
     apply (use assms in simp)
    apply (rule espec_keeps_bind, simp)
     apply (use assms in simp)
    apply (rule renamed, simp)
    done
qed

lemma persist_snapshot_spec:
  "espec d (persist_snapshot os root bs)
     (\<lambda>r d'. \<exists>y. r = Inr y \<and> document d' = (if y = Inl Definite then document d else Some bs))"
proof -
  have unlinked: "espec d' (evidence_unlink_child os temp) (\<lambda>r d''. document d'' = document d')"
    if "temp \<noteq> EVIDENCE_SNAPSHOT_FILE" for d' temp
    unfolding evidence_unlink_child_def
    using that by (auto intro!: espec_fail espec_sys espec_set espec_return split: option.splits io_error_kind.splits)
  have "espec d (em_bind (em_try (write_temp_and_rename os root temp bs)) (\<lambda>r. case r of
        Inl _ \<Rightarrow> em_bind (em_try (evidence_unlink_child os temp)) (\<lambda>_. em_return (Inl Definite))
      | Inr _ \<Rightarrow> em_bind (em_try (evidence_sync_root os root)) (\<lambda>r. em_return (map_err (\<lambda>_. Unknown_Failure) r))))
     (\<lambda>r d'. \<exists>y. r = Inr y \<and> document d' = (if y = Inl Definite then document d else Some bs))"
    if temp: "temp \<noteq> EVIDENCE_SNAPSHOT_FILE" for temp
  proof (rule espec_try_bind [OF write_temp_spec [OF temp]])
    fix r :: "EvidenceStoreError + unit" and d'
    assume d': "document d' = (if isl r then document d else Some bs)"
    show "espec d' (case r of
        Inl _ \<Rightarrow> em_bind (em_try (evidence_unlink_child os temp)) (\<lambda>_. em_return (Inl Definite))
      | Inr _ \<Rightarrow> em_bind (em_try (evidence_sync_root os root)) (\<lambda>r. em_return (map_err (\<lambda>_. Unknown_Failure) r)))
      (\<lambda>r d'. \<exists>y. r = Inr y \<and> document d' = (if y = Inl Definite then document d else Some bs))"
    proof (cases r)
      case (Inl e)
      show ?thesis
        unfolding Inl sum.case
        by (rule espec_try_bind [OF unlinked [OF temp]], rule espec_return) (use d' Inl in simp)
    next
      case (Inr u)
      show ?thesis
        unfolding Inr sum.case
        by (rule espec_try_bind [OF espec_keeps [where Q = "\<lambda>_ d''. d'' = d'"]], simp_all, rule espec_return)
          (use d' Inr in \<open>auto simp: map_err_def split: sum.splits\<close>)
    qed
  qed
  then show ?thesis
    using temp_is_no_document unfolding espec_def persist_snapshot_def Let_def by blast
qed

definition saved :: "TaskWorkerActionEvidenceStoreV1 \<Rightarrow> TaskWorkerActionEvidenceStoreV1 \<Rightarrow> bool" where
  "saved s s' \<longleftrightarrow> (\<exists>n. checked_next (es_store_revision s) = Inr n \<and> s' = s\<lparr>es_store_revision := n\<rparr>)"

text \<open>What a change of the store may end with.\<close>

definition mutated ::
  "task_env \<Rightarrow> evidence_env \<Rightarrow> (TaskWorkerActionEvidenceStoreV1 \<Rightarrow> EvidenceStoreError + 'a \<times> TaskWorkerActionEvidenceStoreV1) \<Rightarrow>
     TaskWorkerActionEvidenceStoreV1 \<Rightarrow> EvidenceStoreError + 'a \<Rightarrow> directory \<Rightarrow> bool" where
  "mutated E V f s r d \<longleftrightarrow> (isl r \<and> holds E V d s) \<or>
     (\<exists>x s1 s'. f s = Inr (x, s1) \<and> saved s1 s' \<and> holds E V d s' \<and> (r = Inr x \<or> r = Inl Evidence_PersistenceUnknown))"

lemma mutate_spec:
  assumes "honest os" and "evidence_codec V" and "holds E V d s"
  shows "espec d (mutate E V os root f) (mutated E V f s)"
proof -
  have same: "mutated E V f s (Inl e) d'" if "document d' = document d" for e d'
    using assms(3) that by (simp add: mutated_def holds_def)
  have stored: "espec d' (em_bind (persist_snapshot os root bs) (\<lambda>r. case r of
       Inr _ \<Rightarrow> em_return x
     | Inl Definite \<Rightarrow> em_fail DefiniteNoWrite
     | Inl Unknown_Failure \<Rightarrow> em_fail Evidence_PersistenceUnknown)) (mutated E V f s)"
    if d': "document d' = document d" and f: "f s = Inr (x, s1)" and n: "checked_next (es_store_revision s1) = Inr n"
      and v: "validate_evidence E V (s1\<lparr>es_store_revision := n\<rparr>) = Inr ()"
      and bs: "json_evidence V (s1\<lparr>es_store_revision := n\<rparr>) = Some bs" for d' x s1 n bs
  proof -
    have h: "holds E V d'' (s1\<lparr>es_store_revision := n\<rparr>)" if "document d'' = Some bs" for d''
      using v bs that assms(2) by (simp add: holds_def evidence_codec_def)
    have sv: "saved s1 (s1\<lparr>es_store_revision := n\<rparr>)" using n by (simp add: saved_def)
    have new: "mutated E V f s r d''" if "document d'' = Some bs" "r = Inr x \<or> r = Inl Evidence_PersistenceUnknown" for r d''
      using h sv f that unfolding mutated_def by blast
    show ?thesis
      by (rule espec_bind [OF persist_snapshot_spec])
        (auto simp: d' split: sum.splits PersistFailure.splits intro!: espec_return espec_fail new same [of _ DefiniteNoWrite])
  qed
  have changed: "espec d' (save_mutation E V os root x s1) (mutated E V f s)"
    if d': "document d' = document d" and f: "f s = Inr (x, s1)" for d' x s1
    unfolding save_mutation_def
    apply (rule espec_lift_bind)
     apply (simp add: same d')
    apply (rule espec_lift_bind)
     apply (simp add: same d')
    apply (rule espec_lift_bind)
     apply (simp add: same d')
    apply (rule stored)
        apply (use d' f in \<open>auto simp: res_simps\<close>)
    done
  show ?thesis
    unfolding mutate_def
  proof (rule espec_bind [OF load_or_default_spec [OF assms(1,3)]])
    fix current d'
    assume "document d' = document d \<and> (\<forall>s'. Inr current = Inr s' \<longrightarrow> s' = s)"
    then have d': "document d' = document d" and "current = s" by auto
    then show "espec d' (em_bind (em_lift (f current)) (\<lambda>(result, changed). save_mutation E V os root result changed))
        (mutated E V f s)"
      by (auto intro!: espec_lift_bind same changed)
  qed (simp add: same)
qed

section \<open>The operations on the document\<close>

definition records_kept :: "TaskWorkerActionEvidenceStoreV1 \<Rightarrow> TaskWorkerActionEvidenceStoreV1 \<Rightarrow> bool" where
  "records_kept s s' \<longleftrightarrow> (\<forall>k r. bt_get (es_records_by_action_key s) k = Some r \<longrightarrow> bt_get (es_records_by_action_key s') k = Some r)"

lemma records_kept_refl: "records_kept s s"
  by (simp add: records_kept_def)

lemma records_kept_trans: "records_kept s s' \<Longrightarrow> records_kept s' s'' \<Longrightarrow> records_kept s s''"
  by (simp add: records_kept_def)

lemma saved_fields: "saved s s' \<Longrightarrow> es_records_by_action_key s' = es_records_by_action_key s \<and> es_uncertainty s' = es_uncertainty s"
  by (auto simp: saved_def)

lemma prepare_on_Inr:
  assumes "prepare_on E V fresh a s = Inr (prepared, s')"
  shows "records_kept s s' \<and> es_uncertainty s = None \<and> es_uncertainty s' = Some (prep_uncertainty prepared)
    \<and> bt_get (es_records_by_action_key s') (action_key E (wq_action_id (au_request a))) = Some (prep_record prepared)
    \<and> prep_uncertainty prepared = new_fence fresh (prep_record prepared)"
proof -
  let ?key = "action_key E (wq_action_id (au_request a))"
  obtain canonical r records where r: "es_uncertainty s = None"
      "(case bt_get (es_records_by_action_key s) ?key of
          Some r \<Rightarrow> if tr_canonical_request_sha256 r = canonical then Inr (r, es_records_by_action_key s) else Inl DefiniteNoWrite
        | None \<Rightarrow> Inr (new_record E fresh canonical a, bt_insert ?key (new_record E fresh canonical a) (es_records_by_action_key s)))
       = Inr (r, records)"
      "prepared = \<lparr>prep_record = r, prep_uncertainty = new_fence fresh r\<rparr>"
      "s' = s\<lparr>es_records_by_action_key := records, es_uncertainty := Some (new_fence fresh r)\<rparr>"
    using assms unfolding prepare_on_def Let_def by (clarsimp simp: res_simps split: if_splits)
  have "bt_get records ?key = Some r \<and> (\<forall>k x. bt_get (es_records_by_action_key s) k = Some x \<longrightarrow> bt_get records k = Some x)"
    using r(2) by (auto simp: bt_get_insert split: option.splits if_splits)
  with r(1,3,4) show ?thesis by (simp add: records_kept_def)
qed

lemma clear_known_on_Inr:
  assumes "clear_known_on prepared s = Inr (x, s')"
  shows "s' = s\<lparr>es_uncertainty := None\<rparr> \<and> (\<exists>u. es_uncertainty s = Some u \<and> uf_state u = Pending \<and>
    uf_uncertainty_id u = uf_uncertainty_id (prep_uncertainty prepared) \<and>
    uf_transport_record_id u = tr_record_id (prep_record prepared))"
  using assms by (auto simp: clear_known_on_def split: if_splits option.splits)

lemma snapshot_spec:
  assumes "honest os" and "holds E V d s"
  shows "espec d (evidence_snapshot E V os root) (\<lambda>r d'. document d' = document d \<and> (\<forall>s'. r = Inr s' \<longrightarrow> s' = s))"
  unfolding evidence_snapshot_def by (rule load_or_default_spec [OF assms])

lemma probe_spec:
  assumes "honest os" and "holds E V d s"
  shows "espec d (probe E V os root a) (\<lambda>r d'. holds E V d' s \<and> (\<forall>p. r = Inr p \<longrightarrow> probe_of E V a s = Inr p))"
  unfolding probe_def
  by (rule espec_bind [OF snapshot_spec [OF assms]])
    (use assms(2) in \<open>auto simp: holds_def intro!: espec_lift\<close>)

lemma uncertainty_spec:
  assumes "honest os" and "holds E V d s"
  shows "espec d (uncertainty E V os root) (\<lambda>r d'. holds E V d' s \<and> (\<forall>u. r = Inr u \<longrightarrow> u = es_uncertainty s))"
  unfolding uncertainty_def
  by (rule espec_bind [OF snapshot_spec [OF assms]])
    (use assms(2) in \<open>auto simp: holds_def intro!: espec_return\<close>)

lemma resolve_on_Inr:
  assumes "resolve_on E V uuid now ui ai evidence s = Inr (resolution, s')" and "es_uncertainty s = Some u" and "uf_resolution u = None"
  shows "res_evidence resolution = evidence \<and>
    s' = s\<lparr>es_uncertainty := Some (u\<lparr>uf_state := Resolved, uf_resolution := Some resolution\<rparr>)\<rparr>"
  using assms by (auto simp: resolve_on_def Let_def res_simps split: if_splits)

lemma ack_on_Inr:
  assumes "ack_on ui ai ri digest s = Inr (x, s')"
  shows "s' = s\<lparr>es_uncertainty := None\<rparr> \<and> (\<exists>u resolution. es_uncertainty s = Some u \<and> uf_state u = Resolved \<and>
    uf_uncertainty_id u = ui \<and> uf_action_id u = ai \<and> uf_resolution u = Some resolution \<and>
    res_resolution_id resolution = ri \<and> res_resolution_sha256 resolution = digest)"
  using assms by (auto simp: ack_on_def split: if_splits option.splits)

end
