(* ===== verification/Host_Properties.thy ===== *)
theory Host_Properties
  imports Worker_Host Evidence_Properties Pilot_Properties
begin

text \<open>
  The host of worker actions on two disks: the journal of the Task Service and the document of the
  evidence store. \<open>htriple\<close> is a triple over both; the specifications say what an answer of the host
  means for the two disks, whatever the operating systems answer and wherever a process stops.
\<close>

section \<open>Triples over both disks\<close>

definition htriple ::
  "task_files \<Rightarrow> directory \<Rightarrow> 'a hm \<Rightarrow> ('a \<Rightarrow> task_files \<Rightarrow> directory \<Rightarrow> bool) \<Rightarrow> (task_files \<Rightarrow> directory \<Rightarrow> bool) \<Rightarrow> bool" where
  "htriple f d m Q R \<longleftrightarrow> triple (\<lambda>st. disk_files (hs_repo st) = f \<and> ev_dir (hs_evidence st) = d) m
     (\<lambda>x st. Q x (disk_files (hs_repo st)) (ev_dir (hs_evidence st)))
     (\<lambda>st. R (disk_files (hs_repo st)) (ev_dir (hs_evidence st)))"

lemma htriple_return: "Q x f d \<Longrightarrow> htriple f d (pm_return x) Q R"
  unfolding htriple_def by (rule triple_return) simp

lemma htriple_bind:
  "htriple f d m P R \<Longrightarrow> (\<And>x f' d'. P x f' d' \<Longrightarrow> htriple f' d' (g x) Q R) \<Longrightarrow> htriple f d (pm_bind m g) Q R"
  unfolding htriple_def triple_def by (blast intro: ends_bind)

lemma htriple_conseq:
  "htriple f d m Q R \<Longrightarrow> (\<And>x f' d'. Q x f' d' \<Longrightarrow> Q' x f' d') \<Longrightarrow> (\<And>f' d'. R f' d' \<Longrightarrow> R' f' d') \<Longrightarrow> htriple f d m Q' R'"
  unfolding htriple_def by (erule triple_conseq) simp_all

lemma htriple_evidence:
  "espec d m Q \<Longrightarrow> htriple f d (on_evidence m) (\<lambda>r f' d'. f' = f \<and> Q r d') R"
  by (auto simp: htriple_def triple_def espec_def on_evidence_def split: prod.splits)

lemma htriple_repo:
  assumes "rtriple f m Q C" and "\<And>f'. C f' \<Longrightarrow> R f' d"
  shows "htriple f d (on_repo m) (\<lambda>x f' d'. d' = d \<and> Q x f') R"
proof -
  have "ends (\<lambda>x st'. ev_dir (hs_evidence st') = ev_dir (hs_evidence st) \<and> Q x (disk_files (hs_repo st')))
      (\<lambda>st'. R (disk_files (hs_repo st')) (ev_dir (hs_evidence st'))) (on_repo m st)"
    if "disk_files (hs_repo st) = f" "ev_dir (hs_evidence st) = d" for st
    using assms that unfolding rtriple_def triple_def on_repo_def
    by (cases "m (hs_repo st)"; cases "fst (m (hs_repo st))") fastforce+
  then show ?thesis unfolding htriple_def triple_def by auto
qed

lemma htriple_run:
  assumes "htriple (disk_files (hs_repo st)) (ev_dir (hs_evidence st)) m Q R" and "m st = (r, st')"
  shows "(\<exists>x. r = Done x \<and> Q x (disk_files (hs_repo st')) (ev_dir (hs_evidence st'))) \<or>
    ((\<forall>x. r \<noteq> Done x) \<and> R (disk_files (hs_repo st')) (ev_dir (hs_evidence st')))"
  using triple_run [OF assms(1) [unfolded htriple_def] _ assms(2)] by simp

section \<open>The journal under an action\<close>

text \<open>Records that only note the recovery of a torn tail.\<close>

definition quiet :: "JournalRecord list \<Rightarrow> bool" where
  "quiet ts \<longleftrightarrow> (\<forall>r \<in> set ts. is_system r)"

lemma quiet_append [simp]: "quiet (ts @ us) \<longleftrightarrow> quiet ts \<and> quiet us" "quiet []"
  by (auto simp: quiet_def)

lemma system_ext_quiet: "system_ext rs rs' \<Longrightarrow> \<exists>ts. rs' = rs @ ts \<and> quiet ts"
  by (auto simp: system_ext_def quiet_def)

definition quietly :: "task_env \<Rightarrow> JournalRecord list \<Rightarrow> task_files \<Rightarrow> bool" where
  "quietly E rs f \<longleftrightarrow> (\<exists>ts. disk_at E f (rs @ ts) \<and> quiet ts)"

lemma disk_from_quietly: "disk_from E rs f \<Longrightarrow> quietly E rs f"
  unfolding disk_from_def quietly_def using system_ext_quiet by blast

lemma quietly_trans: "disk_at E f (rs @ ts) \<Longrightarrow> quiet ts \<Longrightarrow> quietly E rs f"
  unfolding quietly_def by blast

lemma transition_adds:
  assumes "task_env_ok E" and "honest os" and "disk_at E f rs"
  shows "rtriple f (transition E os root now e) (\<lambda>outcome f'. \<exists>ts. disk_at E f' (rs @ ts) \<and>
      (\<forall>response. outcome = Committed response \<longrightarrow> receipt_of E (rs @ ts) e response) \<and>
      (\<forall>error. outcome = NoWrite error \<longrightarrow> quiet ts)) (quietly E rs)"
proof (rule rtriple_conseq [OF transition_spec [OF assms] _ disk_from_quietly])
  fix outcome f'
  assume "transition_result E e rs outcome f'"
  then obtain rs1 rs2 where r: "system_ext rs rs1" "transition_ext e rs1 rs2" "disk_at E f' rs2"
      "\<forall>response. outcome = Committed response \<longrightarrow> receipt_of E rs2 e response"
      "\<forall>error. outcome = NoWrite error \<longrightarrow> rs2 = rs1"
    by (auto simp: transition_result_def transition_done_def)
  obtain ts where "rs1 = rs @ ts" "quiet ts" using system_ext_quiet [OF r(1)] by blast
  moreover obtain us where "rs2 = rs1 @ us" using transition_ext_append [OF r(2)] by blast
  ultimately show "\<exists>ts. disk_at E f' (rs @ ts) \<and>
      (\<forall>response. outcome = Committed response \<longrightarrow> receipt_of E (rs @ ts) e response) \<and>
      (\<forall>error. outcome = NoWrite error \<longrightarrow> quiet ts)"
    using r(3-5) by (intro exI [of _ "ts @ us"]) auto
qed

text \<open>The journal holds the transition of the action that the receipt describes.\<close>

definition action_on ::
  "task_env \<Rightarrow> JournalRecord list \<Rightarrow> TaskWorkerAuthorizedAction \<Rightarrow> TaskWorkerActionReceipt \<Rightarrow> bool" where
  "action_on E rs a receipt \<longleftrightarrow> (\<exists>s x e. reconstruct_store E rs = Done s \<and>
     bt_get (ts_receipts s) (wq_action_id (au_request a)) = Some x \<and>
     action_envelope E a (wa_transport_record_id receipt) = Inr e \<and>
     rec_request_digest_sha256 x = env_request_digest_sha256 e \<and>
     rsp_prior_phase (rec_response x) = Some (fst (expected_edge (wq_action (au_request a)))) \<and>
     rsp_resulting_phase (rec_response x) = snd (expected_edge (wq_action (au_request a))) \<and>
     rsp_task_id (rec_response x) = wq_task_id (au_request a) \<and>
     rsp_task_revision (rec_response x) = wq_task_revision (au_request a) \<and>
     rsp_committed_store_revision (rec_response x) = wa_committed_store_revision receipt)"

lemma action_envelope_receipt: "action_envelope E a i = Inr e \<Longrightarrow> env_receipt_id e = wq_action_id (au_request a)"
  by (auto simp: action_envelope_def Let_def res_simps dest!: signed_envelope_Inr)

lemma committed_receipt_Committed:
  assumes "committed_receipt a i response = Transition_Committed receipt"
  shows "wa_transport_record_id receipt = i \<and> wa_committed_store_revision receipt = rsp_committed_store_revision response
    \<and> rsp_prior_phase response = Some (fst (expected_edge (wq_action (au_request a))))
    \<and> rsp_resulting_phase response = snd (expected_edge (wq_action (au_request a)))
    \<and> rsp_task_id response = wq_task_id (au_request a) \<and> rsp_task_revision response = wq_task_revision (au_request a)"
  using assms by (auto simp: committed_receipt_def Let_def split: if_splits sum.splits prod.splits)

lemma committed_receipt_NoWrite:
  "committed_receipt a i response = Transition_NoWrite e \<Longrightarrow> e = NW_DurableRequestRejected"
  "committed_receipt a i response \<noteq> Transition_PersistenceUnknown"
  by (auto simp: committed_receipt_def Let_def split: if_splits sum.splits prod.splits)

definition transitioned ::
  "task_env \<Rightarrow> JournalRecord list \<Rightarrow> TaskWorkerAuthorizedAction \<Rightarrow> TaskWorkerTransitionResult \<Rightarrow> task_files \<Rightarrow> bool" where
  "transitioned E rs a t f \<longleftrightarrow> (\<exists>ts. disk_at E f (rs @ ts) \<and> (case t of
     Transition_Committed receipt \<Rightarrow> action_on E (rs @ ts) a receipt
   | Transition_NoWrite e \<Rightarrow> e \<noteq> NW_DurableRequestRejected \<longrightarrow> quiet ts
   | Transition_PersistenceUnknown \<Rightarrow> True))"

lemma transition_once_spec:
  assumes "task_env_ok E" and "honest os" and "disk_at E f rs"
  shows "rtriple f (transition_once E os root now a i) (transitioned E rs a) (quietly E rs)"
proof (cases "action_envelope E a i")
  case (Inl e)
  have "transitioned E rs a (Transition_NoWrite e) f"
    using assms(3) unfolding transitioned_def by (intro exI [of _ "[]"]) simp
  then show ?thesis by (simp add: transition_once_def Inl rtriple_return)
next
  case (Inr e)
  have known: "transitioned E rs a (case committed_transition outcome operation of
        Inr response \<Rightarrow> committed_receipt a i response
      | Inl (ReconciliationRequired _) \<Rightarrow> Transition_PersistenceUnknown
      | Inl e \<Rightarrow> Transition_NoWrite (map_pilot_no_write e)) f'"
    if d: "disk_at E f' (rs @ ts)" and c: "\<forall>response. outcome = Committed response \<longrightarrow> receipt_of E (rs @ ts) e response"
      and n: "\<forall>error. outcome = NoWrite error \<longrightarrow> quiet ts" for outcome operation f' ts
  proof (cases outcome)
    case (Committed response)
    then have "receipt_of E (rs @ ts) e response" using c by blast
    then show ?thesis
      using d Inr Committed action_envelope_receipt [OF Inr] committed_receipt_NoWrite
      unfolding transitioned_def receipt_of_def action_on_def committed_transition_def
      by (intro exI [of _ ts]) (fastforce dest: committed_receipt_Committed split: TaskWorkerTransitionResult.splits)
  next
    case (NoWrite error)
    then have q: "quiet ts" using n by blast
    have "\<exists>e. committed_transition outcome operation = Inl e \<and> (\<forall>r. e \<noteq> ReconciliationRequired r)"
      unfolding NoWrite by (cases error) (simp_all add: committed_transition_def map_service_error_def)
    then obtain e where "committed_transition outcome operation = Inl e" "\<forall>r. e \<noteq> ReconciliationRequired r" by blast
    then show ?thesis
      using d q unfolding transitioned_def by (cases e) (auto intro: exI [of _ ts])
  next
    case (Outcome_PersistenceUnknown receipt phase)
    then show ?thesis
      using d unfolding transitioned_def by (auto simp: committed_transition_def)
  qed
  show ?thesis
    unfolding transition_once_def Inr sum.case commit_def
    apply (rule rtriple_bind [OF rtriple_bind [OF transition_adds [OF assms]]])
     apply (elim exE)
     apply (rule rtriple_return [where Q = "\<lambda>r f'. transitioned E rs a (case r of
        Inr response \<Rightarrow> committed_receipt a i response
      | Inl (ReconciliationRequired _) \<Rightarrow> Transition_PersistenceUnknown
      | Inl e \<Rightarrow> Transition_NoWrite (map_pilot_no_write e)) f'"])
     apply (elim conjE)
     apply (rule known, assumption+)
    apply (rule rtriple_return, assumption)
    done
qed


section \<open>What an inspection sees\<close>

definition inspected ::
  "task_env \<Rightarrow> JournalRecord list \<Rightarrow> id \<Rightarrow> TaskWorkerActionNoWrite + PilotWorkerReceiptObservation \<Rightarrow> task_files \<Rightarrow> bool" where
  "inspected E rs i r f \<longleftrightarrow> (\<exists>ts. disk_at E f (rs @ ts) \<and> quiet ts \<and> (\<forall>seen. r = Inr seen \<longrightarrow>
     (\<exists>s. reconstruct_store E (rs @ ts) = Done s \<and> worker_receipt_of s i = Inr seen)))"

lemma load_quiet:
  assumes "task_env_ok E" and "honest os" and "disk_at E f rs"
  shows "rtriple f (load E os root)
    (\<lambda>s f'. \<exists>ts. disk_at E f' (rs @ ts) \<and> quiet ts \<and> reconstruct_store E (rs @ ts) = Done s) (quietly E rs)"
  by (rule rtriple_conseq [OF load_spec [OF assms] _ disk_from_quietly])
    (use system_ext_quiet clean_disk_at in blast)+

lemma inspect_receipt_spec:
  assumes "task_env_ok E" and "honest os" and "disk_at E f rs"
  shows "rtriple f (inspect_receipt E os root ready i) (inspected E rs i) (quietly E rs)"
proof -
  have here: "quietly E rs f" by (rule quietly_trans [of _ _ _ "[]"]) (simp_all add: assms(3))
  have run: "ptriple f (inspect_worker_receipt E os root ready i)
      (\<lambda>seen f'. \<exists>ts s. disk_at E f' (rs @ ts) \<and> quiet ts \<and> reconstruct_store E (rs @ ts) = Done s \<and>
         worker_receipt_of s i = Inr seen) (quietly E rs)"
    unfolding inspect_worker_receipt_def
    apply (rule ptriple_try_bind, rule here)
    apply (rule ptriple_bind [OF ptriple_service [OF load_quiet [OF assms]]])
    apply (rule ptriple_try)
     apply (auto simp: quietly_def)
    done
  show ?thesis
    unfolding inspect_receipt_def
    by (rule rtriple_bind [OF run [unfolded ptriple_def]], rule rtriple_return)
      (auto simp: inspected_def quietly_def map_err_def split: sum.splits)
qed

lemma pilot_phase_Inr: "pilot_phase p = Inr q \<Longrightarrow> pilot_worker_phase p' = Inr q \<Longrightarrow> p = p'"
  by (cases p; cases p') (auto simp: pilot_phase_def pilot_worker_phase_def)

lemma observed_receipt_on:
  assumes "reconstruct_store E rs = Done s" and "worker_receipt_of s (wq_action_id (au_request a)) = Inr (Observed_Committed c)"
    and "receipt_from_observation E a i (Observed_Committed c) = Inr (Some receipt)"
  shows "action_on E rs a receipt"
proof -
  obtain x prior where x: "bt_get (ts_receipts s) (wq_action_id (au_request a)) = Some x"
      "rsp_prior_phase (rec_response x) = Some prior" "pilot_phase prior = Inr (wr_prior_phase c)"
      "pilot_phase (rsp_resulting_phase (rec_response x)) = Inr (wr_resulting_phase c)"
      "wr_request_digest_sha256 c = rec_request_digest_sha256 x" "wr_task_id c = rsp_task_id (rec_response x)"
      "wr_task_revision c = rsp_task_revision (rec_response x)"
      "wr_committed_store_revision c = rsp_committed_store_revision (rec_response x)"
    using assms(2) by (auto simp: worker_receipt_of_def res_simps split: option.splits if_splits)
  obtain e where e: "action_envelope E a i = Inr e" "wr_request_digest_sha256 c = env_request_digest_sha256 e"
      "worker_receipt_from_record a i c = Inr receipt"
    using assms(3) by (auto simp: receipt_from_observation_def res_simps split: if_splits)
  have w: "pilot_worker_phase (fst (expected_edge (wq_action (au_request a)))) = Inr (wr_prior_phase c)"
      "pilot_worker_phase (snd (expected_edge (wq_action (au_request a)))) = Inr (wr_resulting_phase c)"
      "wr_task_id c = wq_task_id (au_request a)" "wr_task_revision c = wq_task_revision (au_request a)"
      "wa_committed_store_revision receipt = wr_committed_store_revision c" "wa_transport_record_id receipt = i"
    using e(3) by (auto simp: worker_receipt_from_record_def Let_def res_simps split: if_splits)
  have "prior = fst (expected_edge (wq_action (au_request a)))"
      "rsp_resulting_phase (rec_response x) = snd (expected_edge (wq_action (au_request a)))"
    using pilot_phase_Inr x(3,4) w(1,2) by blast+
  with x e w assms(1) show ?thesis unfolding action_on_def by auto
qed

section \<open>What an answer means\<close>

definition outcome_true ::
  "task_env \<Rightarrow> JournalRecord list \<Rightarrow> JournalRecord list \<Rightarrow> TaskWorkerActionEvidenceStoreV1 \<Rightarrow>
     TaskWorkerAuthorizedAction \<Rightarrow> TaskWorkerActionOutcome \<Rightarrow> bool" where
  "outcome_true E rs ts s' a outcome = (case outcome of
     Action_Committed receipt \<Rightarrow> action_on E (rs @ ts) a receipt
   | Action_ReconciliationRequired u i \<Rightarrow>
       (\<exists>fence. es_uncertainty s' = Some fence \<and> uf_uncertainty_id fence = u \<and> uf_action_id fence = i)
   | Action_NoWrite e \<Rightarrow> e \<noteq> NW_DurableRequestRejected \<and> e \<noteq> NW_PersistenceUnavailable \<longrightarrow> quiet ts)"

definition evidence_first ::
  "task_env \<Rightarrow> TaskWorkerActionEvidenceStoreV1 \<Rightarrow> JournalRecord list \<Rightarrow> TaskWorkerActionEvidenceStoreV1 \<Rightarrow>
     TaskWorkerAuthorizedAction \<Rightarrow> bool" where
  "evidence_first E s ts s' a \<longleftrightarrow> records_kept s s' \<and>
     (quiet ts \<or> bt_get (es_records_by_action_key s') (action_key E (wq_action_id (au_request a))) \<noteq> None)"

definition answered ::
  "task_env \<Rightarrow> evidence_env \<Rightarrow> JournalRecord list \<Rightarrow> TaskWorkerActionEvidenceStoreV1 \<Rightarrow> TaskWorkerAuthorizedAction \<Rightarrow>
     TaskWorkerActionOutcome \<Rightarrow> task_files \<Rightarrow> directory \<Rightarrow> bool" where
  "answered E V rs s a outcome f d \<longleftrightarrow> (\<exists>ts s'. disk_at E f (rs @ ts) \<and> holds E V d s' \<and>
     evidence_first E s ts s' a \<and> outcome_true E rs ts s' a outcome)"

definition stopped ::
  "task_env \<Rightarrow> evidence_env \<Rightarrow> JournalRecord list \<Rightarrow> TaskWorkerActionEvidenceStoreV1 \<Rightarrow> task_files \<Rightarrow> directory \<Rightarrow> bool" where
  "stopped E V rs s f d \<longleftrightarrow> quietly E rs f \<and> (\<exists>s'. holds E V d s' \<and> records_kept s s')"

lemma answeredI:
  "disk_at E f (rs @ ts) \<Longrightarrow> holds E V d s' \<Longrightarrow> evidence_first E s ts s' a \<Longrightarrow> outcome_true E rs ts s' a outcome \<Longrightarrow>
     answered E V rs s a outcome f d"
  unfolding answered_def by blast

lemma after_clear_unknown_spec:
  assumes "honest (h_evidence_os H)" and "holds (h_task_env H) (h_evidence_env H) d s"
  shows "htriple f d (reconciliation_after_clear_unknown H prepared)
    (\<lambda>outcome f' d'. f' = f \<and> holds (h_task_env H) (h_evidence_env H) d' s \<and> (outcome = Action_NoWrite NW_PersistenceUnavailable \<or>
       (outcome = reconciliation_required prepared \<and> (\<exists>u. es_uncertainty s = Some u \<and>
          uf_uncertainty_id u = uf_uncertainty_id (prep_uncertainty prepared))))) R"
  unfolding reconciliation_after_clear_unknown_def
  by (rule htriple_bind [OF htriple_evidence [OF uncertainty_spec [OF assms]]], rule htriple_return)
    (auto split: sum.splits option.splits)

lemma settle_transition_spec:
  assumes "honest (h_evidence_os H)" and "evidence_codec (h_evidence_env H)"
    and d: "holds (h_task_env H) (h_evidence_env H) d s1" and kept: "records_kept s s1"
    and fence: "es_uncertainty s1 = Some (prep_uncertainty prepared)"
    and ids: "uf_action_id (prep_uncertainty prepared) = tr_action_id (prep_record prepared)"
    and stored: "bt_get (es_records_by_action_key s1) (action_key (h_task_env H) (wq_action_id (au_request a))) = Some (prep_record prepared)"
    and t: "transitioned (h_task_env H) (rs @ us) a t f" and us: "quiet us"
  shows "htriple f d (settle_transition H prepared t) (answered (h_task_env H) (h_evidence_env H) rs s a) R"
proof -
  let ?E = "h_task_env H" and ?V = "h_evidence_env H"
  obtain ts where ts: "disk_at ?E f (rs @ us @ ts)" and what: "case t of
      Transition_Committed receipt \<Rightarrow> action_on ?E (rs @ us @ ts) a receipt
    | Transition_NoWrite e \<Rightarrow> e \<noteq> NW_DurableRequestRejected \<longrightarrow> quiet ts | Transition_PersistenceUnknown \<Rightarrow> True"
    using t unfolding transitioned_def append_assoc by blast
  let ?cleared = "s1\<lparr>es_uncertainty := None\<rparr>"
  have first: "evidence_first ?E s (us @ ts) s' a" if "es_records_by_action_key s' = es_records_by_action_key s1" for s'
    using kept stored that by (simp add: evidence_first_def records_kept_def)
  have yes: "answered ?E ?V rs s a outcome f d'"
    if "holds ?E ?V d' s'" "es_records_by_action_key s' = es_records_by_action_key s1"
      "outcome_true ?E rs (us @ ts) s' a outcome" for d' s' outcome
    by (rule answeredI [OF ts that(1) first [OF that(2)] that(3)])
  have required: "outcome_true ?E rs (us @ ts) s1 a (reconciliation_required prepared)"
    using fence ids by (simp add: outcome_true_def reconciliation_required_def)
  have unavailable: "outcome_true ?E rs (us @ ts) s' a (Action_NoWrite NW_PersistenceUnavailable)" for s'
    by (simp add: outcome_true_def)
  have unknown: "htriple f d' (reconciliation_after_clear_unknown H prepared) (answered ?E ?V rs s a) R"
    if h: "holds ?E ?V d' s'" and s': "es_records_by_action_key s' = es_records_by_action_key s1"
      "es_uncertainty s' = es_uncertainty s1 \<or> es_uncertainty s' = None" for d' s'
    apply (rule htriple_conseq [OF after_clear_unknown_spec [OF assms(1) h]])
     apply (elim conjE disjE; hypsubst)
      apply (rule yes [OF _ s'(1) unavailable], assumption)
     apply (rule yes [OF _ s'(1)], assumption)
     apply (use s'(2) fence ids in \<open>auto simp: outcome_true_def reconciliation_required_def\<close>)
    done
  have clear: "htriple f d (clear_with H prepared outcome) (answered ?E ?V rs s a) R"
    if true: "\<And>s'. outcome_true ?E rs (us @ ts) s' a outcome" for outcome
    unfolding clear_with_def clear_known_def
  proof (rule htriple_bind [OF htriple_evidence [OF mutate_spec [OF assms(1,2) d]]])
    fix r :: "EvidenceStoreError + unit" and f' d'
    assume "f' = f \<and> mutated ?E ?V (clear_known_on prepared) s1 r d'"
    then consider (same) "f' = f" "isl r" "holds ?E ?V d' s1"
      | (cleared) x s2 s' where "f' = f" "clear_known_on prepared s1 = Inr (x, s2)" "saved s2 s'" "holds ?E ?V d' s'"
      unfolding mutated_def by blast
    then show "htriple f' d' (case r of Inr _ \<Rightarrow> pm_return outcome | Inl _ \<Rightarrow> reconciliation_after_clear_unknown H prepared)
        (answered ?E ?V rs s a) R"
    proof cases
      case same
      then show ?thesis using unknown [OF same(3)] by (cases r) auto
    next
      case cleared
      have s': "es_records_by_action_key s' = es_records_by_action_key s1" "es_uncertainty s' = None"
        using saved_fields [OF cleared(3)] clear_known_on_Inr [OF cleared(2)] by auto
      show ?thesis
        using cleared(1) unknown [OF cleared(4) s'(1)] s'(2) yes [OF cleared(4) s'(1) true]
        by (cases r) (auto intro: htriple_return)
    qed
  qed
  show ?thesis
    using what us clear yes [OF d refl required]
    by (cases t) (auto simp: settle_transition_def outcome_true_def intro: htriple_return)
qed


lemma probe_of_ExactBlocked:
  assumes "probe_of E V a s = Inr (Probe_ExactBlocked u i)"
  shows "\<exists>fence. es_uncertainty s = Some fence \<and> uf_uncertainty_id fence = u \<and> uf_action_id fence = i"
  using assms by (auto simp: probe_of_def Let_def res_simps split: if_splits option.splits)

lemma probe_of_fenced:
  assumes "probe_of E V a s = Inr p" and "es_uncertainty s \<noteq> None"
  shows "p = Probe_Conflict \<or> p = Probe_Blocked \<or> (\<exists>u i. p = Probe_ExactBlocked u i)"
  using assms by (auto simp: probe_of_def Let_def res_simps split: if_splits option.splits)

lemma probe_of_Existing:
  assumes "probe_of E V a s = Inr (Probe_Existing r)"
  shows "bt_get (es_records_by_action_key s) (action_key E (wq_action_id (au_request a))) = Some r"
  using assms by (auto simp: probe_of_def Let_def res_simps split: if_splits option.splits)

lemma evidence_first_quiet: "records_kept s s' \<Longrightarrow> quiet ts \<Longrightarrow> evidence_first E s ts s' a"
  by (simp add: evidence_first_def)

lemma blocked_true:
  assumes "probe_of E V a s = Inr (Probe_ExactBlocked u i)"
  shows "outcome_true E rs ts s a (Action_ReconciliationRequired u i)"
  using probe_of_ExactBlocked [OF assms] by (simp add: outcome_true_def)

lemma quiet_true: "quiet ts \<Longrightarrow> outcome_true E rs ts s a (Action_NoWrite e)"
  by (simp add: outcome_true_def)

lemma after_prepare_unknown_spec:
  assumes "honest (h_evidence_os H)" and d: "holds (h_task_env H) (h_evidence_env H) d s'"
    and "disk_at (h_task_env H) f (rs @ us)" and "quiet us" and "records_kept s s'"
  shows "htriple f d (reconciliation_after_prepare_unknown H a) (answered (h_task_env H) (h_evidence_env H) rs s a) R"
proof -
  have yes: "answered (h_task_env H) (h_evidence_env H) rs s a outcome f d'"
    if "holds (h_task_env H) (h_evidence_env H) d' s'" and "outcome_true (h_task_env H) rs us s' a outcome" for d' outcome
    by (rule answeredI [OF assms(3) that(1) evidence_first_quiet [OF assms(5,4)] that(2)])
  show ?thesis
    unfolding reconciliation_after_prepare_unknown_def
    by (intro htriple_bind [OF htriple_evidence [OF probe_spec [OF assms(1) d]]] htriple_return)
      (auto intro: yes blocked_true quiet_true [OF assms(4)] split: sum.splits ActionProbe.splits)
qed

lemma run_prepared_spec:
  assumes env: "task_env_ok (h_task_env H)" and os: "honest (h_task_os H)" "honest (h_evidence_os H)"
    and codec: "evidence_codec (h_evidence_env H)" and disk: "disk_at (h_task_env H) f (rs @ us)" and us: "quiet us"
    and d: "holds (h_task_env H) (h_evidence_env H) d s"
  shows "htriple f d (run_prepared H fresh now a) (answered (h_task_env H) (h_evidence_env H) rs s a)
    (stopped (h_task_env H) (h_evidence_env H) rs s)"
  unfolding run_prepared_def prepare_def
proof (rule htriple_bind [OF htriple_evidence [OF mutate_spec [OF os(2) codec d]]])
  let ?E = "h_task_env H" and ?V = "h_evidence_env H"
  fix r :: "EvidenceStoreError + PreparedTaskWorkerAction" and f' d'
  assume r: "f' = f \<and> mutated ?E ?V (prepare_on ?E ?V fresh a) s r d'"
  have kept: "\<exists>s'. holds ?E ?V d' s' \<and> records_kept s s'"
    using r saved_fields prepare_on_Inr unfolding mutated_def records_kept_def by fastforce
  have failed: "htriple f d' (pm_return (Action_NoWrite NW_PersistenceUnavailable)) (answered ?E ?V rs s a) (stopped ?E ?V rs s)"
    using kept answeredI [OF disk _ evidence_first_quiet [OF _ us]]
    by (auto simp: outcome_true_def intro!: htriple_return)
  have went: "htriple f d' (pm_bind (on_repo (transition_once ?E (h_task_os H) (h_task_root H) now a
      (tr_record_id (prep_record prepared)))) (\<lambda>t. settle_transition H prepared t)) (answered ?E ?V rs s a) (stopped ?E ?V rs s)"
    if inr: "r = Inr prepared" for prepared
  proof -
    obtain s1 s' where s': "prepare_on ?E ?V fresh a s = Inr (prepared, s1)" "saved s1 s'" "holds ?E ?V d' s'"
      using r unfolding inr mutated_def by auto
    have p: "records_kept s s'" "es_uncertainty s' = Some (prep_uncertainty prepared)"
        "uf_action_id (prep_uncertainty prepared) = tr_action_id (prep_record prepared)"
        "bt_get (es_records_by_action_key s') (action_key ?E (wq_action_id (au_request a))) = Some (prep_record prepared)"
      using prepare_on_Inr [OF s'(1)] saved_fields [OF s'(2)] by (auto simp: records_kept_def new_fence_def)
    have crash: "stopped ?E ?V rs s f'' d'" if q: "quietly ?E (rs @ us) f''" for f''
    proof -
      obtain ts where "disk_at ?E f'' (rs @ us @ ts)" "quiet ts" using q by (auto simp: quietly_def)
      then have "quietly ?E rs f''" using us by (intro quietly_trans [of _ _ _ "us @ ts"]) simp_all
      with kept show ?thesis by (simp add: stopped_def)
    qed
    show ?thesis
      by (rule htriple_bind [OF htriple_repo [where R = "stopped ?E ?V rs s" and d = d', OF transition_once_spec [OF env os(1) disk] crash]], assumption)
        (use s'(3) p us in \<open>auto intro: settle_transition_spec [OF os(2) codec]\<close>)
  qed
  show "htriple f' d' (case r of
       Inl Evidence_PersistenceUnknown \<Rightarrow> reconciliation_after_prepare_unknown H a
     | Inl _ \<Rightarrow> pm_return (Action_NoWrite NW_PersistenceUnavailable)
     | Inr prepared \<Rightarrow> pm_bind (on_repo (transition_once ?E (h_task_os H) (h_task_root H) now a
           (tr_record_id (prep_record prepared)))) (\<lambda>t. settle_transition H prepared t))
     (answered ?E ?V rs s a) (stopped ?E ?V rs s)"
  proof (cases r)
    case (Inl e)
    have "htriple f d' (reconciliation_after_prepare_unknown H a) (answered ?E ?V rs s a) (stopped ?E ?V rs s)"
      using kept after_prepare_unknown_spec [OF os(2) _ disk us] by blast
    then show ?thesis using r failed by (cases e) (simp_all add: Inl)
  next
    case (Inr prepared)
    then show ?thesis using r went by simp
  qed
qed

lemma execute_authorized_spec:
  assumes env: "task_env_ok (h_task_env H)" and os: "honest (h_task_os H)" "honest (h_evidence_os H)"
    and codec: "evidence_codec (h_evidence_env H)" and disk: "disk_at (h_task_env H) f rs"
    and d: "holds (h_task_env H) (h_evidence_env H) d s"
  shows "htriple f d (execute_authorized H fresh now a) (answered (h_task_env H) (h_evidence_env H) rs s a)
    (stopped (h_task_env H) (h_evidence_env H) rs s)"
  unfolding execute_authorized_def
proof (rule htriple_bind [OF htriple_evidence [OF probe_spec [OF os(2) d]]])
  let ?E = "h_task_env H" and ?V = "h_evidence_env H"
  let ?A = "answered ?E ?V rs s a" and ?S = "stopped ?E ?V rs s"
  fix r f' d'
  assume r: "f' = f \<and> holds ?E ?V d' s \<and> (\<forall>p. r = Inr p \<longrightarrow> probe_of ?E ?V a s = Inr p)"
  have d': "holds ?E ?V d' s" using r by simp
  have here: "?A outcome f d'" if "outcome_true ?E rs [] s a outcome" for outcome
    by (rule answeredI [of _ _ _ "[]"]) (use disk d' that in \<open>auto intro: evidence_first_quiet records_kept_refl\<close>)
  have crash: "?S f'' d'" if "quietly ?E rs f''" for f''
    using that d' records_kept_refl by (auto simp: stopped_def)
  have on: "htriple f d' (pm_bind (on_repo (inspect_receipt ?E (h_task_os H) (h_task_root H) (h_recovered H)
         (wq_action_id (au_request a)))) (\<lambda>r. case r of
         Inl e \<Rightarrow> pm_return (Action_NoWrite e)
       | Inr (Observed_Committed c) \<Rightarrow> pm_return (observed_outcome H a existing (Observed_Committed c))
       | Inr (Observed_Absent _ _) \<Rightarrow> run_prepared H fresh now a)) ?A ?S" for existing
  proof (rule htriple_bind [OF htriple_repo [where R = ?S and d = d', OF inspect_receipt_spec [OF env os(1) disk] crash]], assumption)
    fix seen f'' d''
    assume "d'' = d' \<and> inspected ?E rs (wq_action_id (au_request a)) seen f''"
    then obtain ts where ts: "d'' = d'" "disk_at ?E f'' (rs @ ts)" "quiet ts"
        "\<forall>o'. seen = Inr o' \<longrightarrow> (\<exists>s. reconstruct_store ?E (rs @ ts) = Done s \<and> worker_receipt_of s (wq_action_id (au_request a)) = Inr o')"
      unfolding inspected_def by blast
    have true: "?A outcome f'' d''" if "outcome_true ?E rs ts s a outcome" for outcome
      using answeredI [OF ts(2) d' evidence_first_quiet [OF records_kept_refl ts(3)] that] ts(1) by simp
    have seen: "outcome_true ?E rs ts s a (observed_outcome H a existing (Observed_Committed c))" if "seen = Inr (Observed_Committed c)" for c
      using ts(3,4) that observed_receipt_on
      by (auto simp: outcome_true_def observed_outcome_def split: option.splits sum.splits)
    show "htriple f'' d'' (case seen of
         Inl e \<Rightarrow> pm_return (Action_NoWrite e)
       | Inr (Observed_Committed c) \<Rightarrow> pm_return (observed_outcome H a existing (Observed_Committed c))
       | Inr (Observed_Absent _ _) \<Rightarrow> run_prepared H fresh now a) ?A ?S"
      using true seen ts(1,3) run_prepared_spec [OF env os codec ts(2,3) d', of fresh now a]
      by (auto simp: outcome_true_def intro!: htriple_return split: sum.splits PilotWorkerReceiptObservation.splits)
  qed
  have f': "f' = f" using r by simp
  show "htriple f' d' (let continue = \<lambda>existing.
       pm_bind (on_repo (inspect_receipt ?E (h_task_os H) (h_task_root H) (h_recovered H)
         (wq_action_id (au_request a)))) (\<lambda>r. case r of
         Inl e \<Rightarrow> pm_return (Action_NoWrite e)
       | Inr (Observed_Committed c) \<Rightarrow> pm_return (observed_outcome H a existing (Observed_Committed c))
       | Inr (Observed_Absent _ _) \<Rightarrow> run_prepared H fresh now a)
     in case r of
       Inl _ \<Rightarrow> pm_return (Action_NoWrite NW_PersistenceUnavailable)
     | Inr Probe_Conflict \<Rightarrow> pm_return (Action_NoWrite NW_ActionConflict)
     | Inr Probe_Blocked \<Rightarrow> pm_return (Action_NoWrite NW_UncertaintyBlocked)
     | Inr (Probe_ExactBlocked uncertainty_id action_id) \<Rightarrow>
         pm_return (Action_ReconciliationRequired uncertainty_id action_id)
     | Inr (Probe_Existing record) \<Rightarrow> continue (Some record)
     | Inr Probe_New \<Rightarrow> continue None) ?A ?S"
    unfolding f' Let_def using on r
    by (auto intro!: htriple_return here blocked_true quiet_true split: sum.splits ActionProbe.splits)
qed


section \<open>A fence blocks\<close>

lemma on_evidence_run:
  assumes "on_evidence m st = (r, st')"
  obtains x where "r = Done x" "hs_repo st' = hs_repo st" "m (hs_evidence st) = (x, hs_evidence st')"
  using assms by (auto simp: on_evidence_def split: prod.splits)

lemma execute_fenced:
  assumes os: "honest (h_evidence_os H)"
    and d: "holds (h_task_env H) (h_evidence_env H) (ev_dir (hs_evidence st)) s" and u: "es_uncertainty s = Some u"
    and run: "execute_authorized H fresh now a st = (r, st')"
  shows "hs_repo st' = hs_repo st \<and> holds (h_task_env H) (h_evidence_env H) (ev_dir (hs_evidence st')) s \<and>
    r \<in> {Done (Action_NoWrite NW_PersistenceUnavailable), Done (Action_NoWrite NW_ActionConflict),
      Done (Action_NoWrite NW_UncertaintyBlocked),
      Done (Action_ReconciliationRequired (uf_uncertainty_id u) (uf_action_id u))}"
proof -
  let ?probe = "probe (h_task_env H) (h_evidence_env H) (h_evidence_os H) (h_evidence_root H) a"
  obtain p st1 where p: "on_evidence ?probe st = (Done p, st1)" "hs_repo st1 = hs_repo st"
      "?probe (hs_evidence st) = (p, hs_evidence st1)"
    by (metis on_evidence_run prod.collapse)
  have after: "holds (h_task_env H) (h_evidence_env H) (ev_dir (hs_evidence st1)) s"
      "\<forall>x. p = Inr x \<longrightarrow> probe_of (h_task_env H) (h_evidence_env H) a s = Inr x"
    using espec_run [OF probe_spec [OF os d] p(3)] by auto
  have blocked: "\<forall>x. p = Inr x \<longrightarrow> x = Probe_Conflict \<or> x = Probe_Blocked \<or>
      x = Probe_ExactBlocked (uf_uncertainty_id u) (uf_action_id u)"
    using after(2) probe_of_fenced [of "h_task_env H" "h_evidence_env H" a s] u probe_of_ExactBlocked by fastforce
  from run p(1) blocked have "st' = st1 \<and> r \<in> {Done (Action_NoWrite NW_PersistenceUnavailable), Done (Action_NoWrite NW_ActionConflict),
      Done (Action_NoWrite NW_UncertaintyBlocked), Done (Action_ReconciliationRequired (uf_uncertainty_id u) (uf_action_id u))}"
    by (cases p) (auto simp: execute_authorized_def pm_bind_def pm_return_def Let_def)
  with p(2) after(1) show ?thesis by blast
qed

text \<open>The whole handler behind a fence: the Task Service is read by the authorization and by nothing else.\<close>

lemma contains_action_id_spec:
  assumes "honest os" and "holds E V d s"
  shows "espec d (contains_action_id E V os root i) (\<lambda>r d'. holds E V d' s)"
  unfolding contains_action_id_def
  by (rule espec_try_bind [OF snapshot_spec [OF assms]], rule espec_return) (use assms(2) in \<open>simp add: holds_def\<close>)

lemma execute_action_fenced:
  assumes os: "honest (h_evidence_os H)"
    and d: "holds (h_task_env H) (h_evidence_env H) (ev_dir (hs_evidence st)) s" and u: "es_uncertainty s = Some u"
    and auth: "authorize (h_task_env H) (h_task_os H) (h_task_root H) (h_recovered H) (h_sessions H) sender v (hs_repo st) = (ra, repo)"
    and run: "execute_action H fresh now sender v st = (r, st')"
  shows "hs_repo st' = repo \<and> holds (h_task_env H) (h_evidence_env H) (ev_dir (hs_evidence st')) s \<and>
    (case ra of
      Done (Inl e) \<Rightarrow> \<exists>e' \<in> {e, NW_ActionConflict}. r = Done \<lparr>war_action_id = Some (wq_action_id (va_request v)), war_outcome = Action_NoWrite e'\<rparr>
    | Done (Inr a) \<Rightarrow> \<exists>x \<in> {Action_NoWrite NW_PersistenceUnavailable, Action_NoWrite NW_ActionConflict,
        Action_NoWrite NW_UncertaintyBlocked, Action_ReconciliationRequired (uf_uncertainty_id u) (uf_action_id u)}.
          r = Done \<lparr>war_action_id = Some (wq_action_id (va_request v)), war_outcome = x\<rparr>
    | _ \<Rightarrow> \<forall>x. r \<noteq> Done x)"
proof (cases "\<exists>x. ra = Done x")
  case False
  with auth run d show ?thesis
    by (cases ra) (auto simp: execute_action_def Let_def pm_bind_def on_repo_def)
next
  case True
  then obtain x where x: "ra = Done x" by blast
  let ?st = "st\<lparr>hs_repo := repo\<rparr>"
  have first: "on_repo (authorize (h_task_env H) (h_task_os H) (h_task_root H) (h_recovered H) (h_sessions H) sender v) st = (Done x, ?st)"
    using auth x by (simp add: on_repo_def)
  have d': "holds (h_task_env H) (h_evidence_env H) (ev_dir (hs_evidence ?st)) s" using d by simp
  show ?thesis
  proof (cases x)
    case (Inl e)
    let ?known = "contains_action_id (h_task_env H) (h_evidence_env H) (h_evidence_os H) (h_evidence_root H) (wq_action_id (va_request v))"
    obtain k0 st1 where k0: "on_evidence ?known ?st = (k0, st1)" by fastforce
    obtain k where k: "k0 = Done k" "hs_repo st1 = repo" "?known (hs_evidence ?st) = (k, hs_evidence st1)"
      by (rule on_evidence_run [OF k0]) simp
    have "holds (h_task_env H) (h_evidence_env H) (ev_dir (hs_evidence st1)) s"
      using espec_run [OF contains_action_id_spec [OF os d'] k(3)] .
    with run first k0 k(1,2) Inl x show ?thesis
      by (auto simp: execute_action_def Let_def pm_bind_def pm_return_def task_worker_action_no_write_def split: if_splits)
  next
    case (Inr a)
    obtain w st1 where w: "execute_authorized H fresh now a ?st = (w, st1)" by fastforce
    from execute_fenced [OF os d' u w] run first w Inr x show ?thesis
      by (auto simp: execute_action_def Let_def pm_bind_def pm_return_def)
  qed
qed

section \<open>What a reconciliation means\<close>

definition evidence_true ::
  "task_env \<Rightarrow> JournalRecord list \<Rightarrow> id \<Rightarrow> TaskWorkerResolutionEvidence \<Rightarrow> bool" where
  "evidence_true E rs i evidence \<longleftrightarrow> (\<exists>s. reconstruct_store E rs = Done s \<and> (case evidence of
     Evidence_Absent _ \<Rightarrow> bt_get (ts_receipts s) i = None
   | Evidence_Committed c \<Rightarrow> (\<exists>x. bt_get (ts_receipts s) i = Some x \<and>
       rec_request_digest_sha256 x = cev_request_digest_sha256 c \<and>
       rsp_committed_store_revision (rec_response x) = wa_committed_store_revision (cev_receipt c))))"

lemma worker_receipt_Absent: "worker_receipt_of s i = Inr (Observed_Absent n c) \<Longrightarrow> bt_get (ts_receipts s) i = None"
  by (auto simp: worker_receipt_of_def res_simps split: option.splits if_splits)

lemma worker_receipt_Committed:
  assumes "worker_receipt_of s i = Inr (Observed_Committed c)"
  shows "\<exists>x. bt_get (ts_receipts s) i = Some x \<and> wr_request_digest_sha256 c = rec_request_digest_sha256 x
    \<and> wr_committed_store_revision c = rsp_committed_store_revision (rec_response x)"
  using assms by (auto simp: worker_receipt_of_def res_simps split: option.splits if_splits)

lemma resolution_evidence_true:
  assumes "reconstruct_store E rs = Done s" and "worker_receipt_of s (tr_action_id r) = Inr seen"
    and "resolution_evidence H r seen = Inr evidence"
  shows "evidence_true E rs (tr_action_id r) evidence"
proof (cases seen)
  case (Observed_Absent n c)
  then show ?thesis
    using assms worker_receipt_Absent by (auto simp: evidence_true_def resolution_evidence_def)
next
  case (Observed_Committed c)
  obtain receipt where e: "evidence = Evidence_Committed \<lparr>cev_receipt = receipt,
      cev_request_digest_sha256 = wr_request_digest_sha256 c, cev_event_cursor = wr_event_cursor c,
      cev_observed_store_revision = wr_observed_store_revision c, cev_observed_journal_cursor = wr_observed_journal_cursor c\<rparr>"
      "wa_committed_store_revision receipt = wr_committed_store_revision c"
    using assms(3) unfolding Observed_Committed
    by (auto simp: resolution_evidence_def receipt_from_observation_def worker_receipt_from_record_def Let_def res_simps
      split: sum.splits option.splits if_splits)
  then show ?thesis
    using assms(1) worker_receipt_Committed assms(2) unfolding Observed_Committed evidence_true_def by fastforce
qed

text \<open>The operation acknowledges the resolution that the fence holds.\<close>

definition exact_ack :: "TaskWorkerActionEvidenceStoreV1 \<Rightarrow> TaskWorkerReconciliationOperation \<Rightarrow> bool" where
  "exact_ack s operation \<longleftrightarrow> (\<exists>u resolution. es_uncertainty s = Some u \<and> uf_resolution u = Some resolution \<and>
     operation = Ack (uf_uncertainty_id u) (uf_action_id u) (res_resolution_id resolution) (res_resolution_sha256 resolution))"

definition reconciliation_true ::
  "task_env \<Rightarrow> JournalRecord list \<Rightarrow> TaskWorkerActionEvidenceStoreV1 \<Rightarrow> TaskWorkerActionEvidenceStoreV1 \<Rightarrow>
     TaskWorkerReconciliationOperation \<Rightarrow> TaskWorkerReconciliationOutcome \<Rightarrow> bool" where
  "reconciliation_true E rs s s' operation outcome \<longleftrightarrow>
     (es_uncertainty s' = None \<longrightarrow> es_uncertainty s = None \<or> exact_ack s operation) \<and> (case outcome of
     Reconcile_Resolved resolution \<Rightarrow> (\<exists>u' r. es_uncertainty s' = Some u' \<and> uf_resolution u' = Some resolution \<and>
       bt_get (es_records_by_action_key s') (action_key E (uf_action_id u')) = Some r \<and>
       (\<forall>u. es_uncertainty s = Some u \<and> uf_resolution u = None \<longrightarrow> evidence_true E rs (tr_action_id r) (res_evidence resolution)))
   | Reconcile_Acknowledged \<Rightarrow> es_uncertainty s' = None \<and> exact_ack s operation
   | _ \<Rightarrow> True)"

definition reconciled ::
  "task_env \<Rightarrow> evidence_env \<Rightarrow> JournalRecord list \<Rightarrow> TaskWorkerActionEvidenceStoreV1 \<Rightarrow>
     TaskWorkerReconciliationOperation \<Rightarrow> TaskWorkerReconciliationOutcome \<Rightarrow> task_files \<Rightarrow> directory \<Rightarrow> bool" where
  "reconciled E V rs s operation outcome f d \<longleftrightarrow> (\<exists>ts s'. disk_at E f (rs @ ts) \<and> quiet ts \<and> holds E V d s' \<and>
     es_records_by_action_key s' = es_records_by_action_key s \<and> reconciliation_true E (rs @ ts) s s' operation outcome)"

lemma reconciledI:
  "disk_at E f (rs @ ts) \<Longrightarrow> quiet ts \<Longrightarrow> holds E V d s' \<Longrightarrow> es_records_by_action_key s' = es_records_by_action_key s \<Longrightarrow>
     reconciliation_true E (rs @ ts) s s' operation outcome \<Longrightarrow> reconciled E V rs s operation outcome f d"
  unfolding reconciled_def by blast

lemma refusal_true:
  "outcome \<in> {Reconcile_Unknown, Reconcile_NoWrite e} \<Longrightarrow> es_uncertainty s' = es_uncertainty s \<or> es_uncertainty s' \<noteq> None \<Longrightarrow>
     reconciliation_true E rs s s' operation outcome"
  by (auto simp: reconciliation_true_def)

lemma quiet_ends:
  assumes "disk_at E f (rs @ ts)" and "quiet ts" and "quietly E (rs @ ts) f'"
  shows "quietly E rs f'"
  using assms unfolding quietly_def by (metis append_assoc quiet_append(1))

text \<open>A task as an authorization reads it.\<close>

definition task_seen ::
  "task_env \<Rightarrow> JournalRecord list \<Rightarrow> id \<Rightarrow> u64 \<Rightarrow> TaskRecord option \<Rightarrow> task_files \<Rightarrow> bool" where
  "task_seen E rs k n r f \<longleftrightarrow> (\<exists>ts s. disk_at E f (rs @ ts) \<and> quiet ts \<and> reconstruct_store E (rs @ ts) = Done s \<and>
     r = task_get (ts_tasks s) k n)"

lemma task_seen_quietly: "task_seen E rs k n r f \<Longrightarrow> quietly E rs f"
  by (auto simp: task_seen_def quietly_def)

lemma get_task_seen:
  assumes "task_env_ok E" and "honest os" and "disk_at E f rs"
  shows "rtriple f (get_task E os root k (Some n)) (task_seen E rs k n) (quietly E rs)"
proof -
  have looked_up: "(case bt_get tasks k of None \<Rightarrow> None | Some revisions \<Rightarrow> (case Some n of
      Some n \<Rightarrow> bt_get revisions n | None \<Rightarrow> map_option snd (bt_last revisions))) = task_get tasks k n" for tasks
    by (cases "bt_get tasks k") (simp_all add: task_get_def)
  show ?thesis
    unfolding get_task_def looked_up
    by (rule rtriple_bind [OF load_quiet [OF assms]], rule rtriple_return) (auto simp: task_seen_def)
qed

text \<open>The current attempt of the task in the store of the journal is the one the request names.\<close>

definition current_attempt :: "task_env \<Rightarrow> JournalRecord list \<Rightarrow> TaskWorkerActionRequest \<Rightarrow> bool" where
  "current_attempt E rs q \<longleftrightarrow> (\<exists>s t a. reconstruct_store E rs = Done s \<and>
     task_get (ts_tasks s) (wq_task_id q) (wq_task_revision q) = Some t \<and> task_attempt t = Some a \<and>
     wq_attempt_fence q = pilot_fence (pilot_specification (task_specification t)) a)"

lemma validate_task_attempt_Inr:
  assumes "snapshot_from_record t = Inr p" and "validate_task_attempt q p = Inr ()"
  shows "\<exists>a. task_attempt t = Some a \<and> wq_attempt_fence q = pilot_fence (pilot_specification (task_specification t)) a"
  using assms by (auto simp: validate_task_attempt_def snapshot_from_record_def Let_def res_simps split: if_splits)

lemma validate_current_attempt_spec:
  assumes "task_env_ok E" and "honest os" and "disk_at E f rs"
  shows "rtriple f (validate_current_attempt E os root ready q) (\<lambda>r f'. \<exists>ts. disk_at E f' (rs @ ts) \<and> quiet ts \<and>
    (r = Inr () \<longrightarrow> current_attempt E (rs @ ts) q)) (quietly E rs)"
proof -
  let ?Q = "\<lambda>p f'. \<exists>ts s. disk_at E f' (rs @ ts) \<and> quiet ts \<and> reconstruct_store E (rs @ ts) = Done s \<and>
    (\<forall>x. p = Some x \<longrightarrow> (\<exists>t. task_get (ts_tasks s) (wq_task_id q) (wq_task_revision q) = Some t \<and> snapshot_from_record t = Inr x))"
  have here: "quietly E rs f" by (rule quietly_trans [of _ _ _ "[]"]) (simp_all add: assms(3))
  have run: "ptriple f (pilot_task E os root ready (wq_task_id q) (wq_task_revision q)) ?Q (quietly E rs)"
    unfolding pilot_task_def
    apply (rule ptriple_try_bind, rule here)
    apply (rule ptriple_bind [OF ptriple_service [OF get_task_seen [OF assms]]])
    apply (rule ptriple_try, erule task_seen_quietly)
    apply (fastforce simp: task_seen_def res_simps split: option.splits)
    done
  show ?thesis
    unfolding validate_current_attempt_def
    by (rule rtriple_bind [OF run [unfolded ptriple_def]], rule rtriple_return)
      (fastforce simp: quietly_def current_attempt_def split: sum.splits option.splits dest: validate_task_attempt_Inr)
qed

text \<open>The session of the sender owns the attempt the request names.\<close>

definition session_owns :: "CutexSessionRecord \<Rightarrow> TaskWorkerRosterSender \<Rightarrow> PilotOwnerSnapshot \<Rightarrow> bool" where
  "session_owns r sender owner \<longleftrightarrow> cs_cutex_session_id r = po_cutex_session_id owner \<and> cs_archive_state r = Session_Active
     \<and> session_durable_revision r = po_durable_revision owner \<and> rs_runtime_agent_id sender = po_runtime_agent_id owner
     \<and> cs_current_runtime_agent_id r = Some (rs_runtime_agent_id sender)
     \<and> cs_runtime_generation r = po_runtime_generation owner \<and> cs_runtime_generation r \<noteq> 0"

lemma load_and_validate_session_Inr:
  assumes "load_and_validate_session sessions sender q = Inr r"
  shows "sessions (rs_roster_session_id sender) = Inr r \<and> session_owns r sender (pf_owner (wq_attempt_fence q))"
  using assms by (auto simp: load_and_validate_session_def validate_session_def session_owns_def Let_def res_simps
    split: sum.splits WorkerSessionSnapshotError.splits if_splits)

lemma authorize_spec:
  assumes "task_env_ok E" and "honest os" and "disk_at E f rs"
  shows "rtriple f (authorize E os root ready sessions sender v) (\<lambda>r f'. \<exists>ts. disk_at E f' (rs @ ts) \<and> quiet ts \<and>
    (\<forall>a. r = Inr a \<longrightarrow> current_attempt E (rs @ ts) (va_request v) \<and>
      (\<exists>session. sessions (rs_roster_session_id sender) = Inr session \<and>
         session_owns session sender (pf_owner (wq_attempt_fence (va_request v)))))) (quietly E rs)"
proof (cases "load_and_validate_session sessions sender (va_request v)")
  case (Inl e)
  then show ?thesis
    unfolding authorize_def using assms(3)
    by (auto intro!: rtriple_return exI [of _ "[]"])
next
  case (Inr session)
  show ?thesis
    unfolding authorize_def Inr sum.case
    by (rule rtriple_bind [OF validate_current_attempt_spec [OF assms]], rule rtriple_return)
      (use load_and_validate_session_Inr [OF Inr] in \<open>auto simp: res_simps\<close>)
qed

lemma authorize_stored_owner_quiet:
  assumes "task_env_ok E" and "honest os" and "disk_at E f rs"
  shows "rtriple f (authorize_stored_owner E os root ready sessions sender owner task revision fence)
    (\<lambda>_. quietly E rs) (quietly E rs)"
proof -
  have here: "quietly E rs f" by (rule quietly_trans [of _ _ _ "[]"]) (simp_all add: assms(3))
  have "rtriple f (validate_current_attempt E os root ready q) (\<lambda>_. quietly E rs) (quietly E rs)" for q
    by (rule rtriple_conseq [OF validate_current_attempt_spec [OF assms]]) (auto simp: quietly_def)
  then show ?thesis
    unfolding authorize_stored_owner_def Let_def
    using here by (auto intro!: rtriple_return split: sum.splits)
qed

lemma record_for_uncertainty_spec:
  assumes "honest os" and "holds E V d s"
  shows "espec d (record_for_uncertainty E V os root u) (\<lambda>r d'. holds E V d' s \<and> (\<forall>x. r = Inr x \<longrightarrow>
    bt_get (es_records_by_action_key s) (action_key E (uf_action_id u)) = Some x))"
  unfolding record_for_uncertainty_def
  by (rule espec_bind [OF snapshot_spec [OF assms]])
    (use assms(2) in \<open>auto simp: holds_def res_simps intro!: espec_lift split: option.splits if_splits\<close>)

text \<open>Both operations, after the checks: the fence is \<open>u\<close> and \<open>r\<close> is its record.\<close>

lemma reconcile_ack_spec:
  assumes os: "honest (h_evidence_os H)" and codec: "evidence_codec (h_evidence_env H)"
    and d: "holds (h_task_env H) (h_evidence_env H) d s" and u: "es_uncertainty s = Some u"
    and disk: "disk_at (h_task_env H) f (rs @ ts)" and ts: "quiet ts"
  shows "htriple f d (reconcile_ack H ui ai ri digest)
    (reconciled (h_task_env H) (h_evidence_env H) rs s (Ack ui ai ri digest)) R"
  unfolding reconcile_ack_def ack_def
proof (rule htriple_bind [OF htriple_evidence [OF mutate_spec [OF os codec d]]])
  let ?E = "h_task_env H" and ?V = "h_evidence_env H" and ?op = "Ack ui ai ri digest"
  let ?look = "pm_bind (on_evidence (uncertainty ?E ?V (h_evidence_os H) (h_evidence_root H))) (\<lambda>f.
      pm_return (if f = Inr None then Reconcile_Acknowledged else reconciliation_persistence_unavailable))"
  fix r :: "EvidenceStoreError + unit" and f' d'
  assume r: "f' = f \<and> mutated ?E ?V (ack_on ui ai ri digest) s r d'"
  have refused: "reconciled ?E ?V rs s ?op (Reconcile_NoWrite e) f d''"
    if "holds ?E ?V d'' s'" "es_records_by_action_key s' = es_records_by_action_key s" "s' = s \<or> exact_ack s ?op" for e d'' s'
    by (rule reconciledI [OF disk ts that(1,2)]) (use that(3) in \<open>auto simp: reconciliation_true_def\<close>)
  from r consider (same) "isl r" "holds ?E ?V d' s"
    | (cleared) x s1 s' where "ack_on ui ai ri digest s = Inr (x, s1)" "saved s1 s'" "holds ?E ?V d' s'"
        "r = Inr x \<or> r = Inl Evidence_PersistenceUnknown"
    unfolding mutated_def by blast
  then show "htriple f' d' (case r of
       Inr _ \<Rightarrow> pm_return Reconcile_Acknowledged
     | Inl Evidence_PersistenceUnknown \<Rightarrow> ?look
     | Inl DefiniteNoWrite \<Rightarrow> pm_return reconciliation_rejected
     | Inl _ \<Rightarrow> pm_return reconciliation_persistence_unavailable) (reconciled ?E ?V rs s ?op) R"
  proof cases
    case same
    have "htriple f d' ?look (reconciled ?E ?V rs s ?op) R"
      by (rule htriple_bind [OF htriple_evidence [OF uncertainty_spec [OF os same(2)]]], rule htriple_return)
        (use u refused in auto)
    moreover have "htriple f d' (pm_return (Reconcile_NoWrite e)) (reconciled ?E ?V rs s ?op) R" for e
      by (rule htriple_return) (rule refused [OF same(2) refl], simp)
    ultimately show ?thesis using same(1) r by (auto simp: isl_def split: EvidenceStoreError.splits)
  next
    case cleared
    have fields: "es_records_by_action_key s' = es_records_by_action_key s" "es_uncertainty s' = None"
      using ack_on_Inr [OF cleared(1)] saved_fields [OF cleared(2)] by auto
    have exact: "exact_ack s ?op" using ack_on_Inr [OF cleared(1)] by (auto simp: exact_ack_def)
    have true: "reconciled ?E ?V rs s ?op Reconcile_Acknowledged f d''" if "holds ?E ?V d'' s'" for d''
      by (rule reconciledI [OF disk ts that fields(1)])
        (use exact fields(2) in \<open>simp add: reconciliation_true_def\<close>)
    have "htriple f d' ?look (reconciled ?E ?V rs s ?op) R"
      by (rule htriple_bind [OF htriple_evidence [OF uncertainty_spec [OF os cleared(3)]]], rule htriple_return)
        (use true refused fields exact in auto)
    moreover have "htriple f d' (pm_return Reconcile_Acknowledged) (reconciled ?E ?V rs s ?op) R"
      by (rule htriple_return, rule true [OF cleared(3)])
    ultimately show ?thesis using cleared(4) r by auto
  qed
qed

lemma reconcile_inspect_spec:
  assumes env: "task_env_ok (h_task_env H)" and os: "honest (h_task_os H)" "honest (h_evidence_os H)"
    and codec: "evidence_codec (h_evidence_env H)" and d: "holds (h_task_env H) (h_evidence_env H) d s"
    and u: "es_uncertainty s = Some u"
    and stored: "bt_get (es_records_by_action_key s) (action_key (h_task_env H) (uf_action_id u)) = Some r"
    and disk: "disk_at (h_task_env H) f (rs @ ts)" and ts: "quiet ts"
  shows "htriple f d (reconcile_inspect H uuid now u r ui ai)
    (reconciled (h_task_env H) (h_evidence_env H) rs s (Inspect ui ai))
    (\<lambda>f d. quietly (h_task_env H) rs f \<and> holds (h_task_env H) (h_evidence_env H) d s)"
    (is "htriple f d _ ?Q ?R")
proof -
  let ?E = "h_task_env H" and ?V = "h_evidence_env H" and ?op = "Inspect ui ai"
  have refused: "?Q outcome f' d'" if "disk_at ?E f' (rs @ ts')" "quiet ts'" "holds ?E ?V d' s"
    "outcome \<in> {Reconcile_Unknown, Reconcile_NoWrite e}" for outcome e f' d' ts'
    by (rule reconciledI [OF that(1-3) refl refusal_true [OF that(4)]]) simp
  have crash: "?R f' d" if "quietly ?E (rs @ ts) f'" for f'
    using quiet_ends [OF disk ts that] d by simp
  have resolving: "htriple f' d (record_resolution H uuid now ui ai evidence) ?Q ?R"
    if f': "disk_at ?E f' (rs @ ts')" "quiet ts'" and true: "evidence_true ?E (rs @ ts') (tr_action_id r) evidence"
      and open': "uf_resolution u = None" for f' ts' evidence
    unfolding record_resolution_def resolve_def
  proof (rule htriple_bind [OF htriple_evidence [OF mutate_spec [OF os(2) codec d]]])
    let ?look = "pm_bind (on_evidence (uncertainty ?E ?V (h_evidence_os H) (h_evidence_root H))) (\<lambda>f.
        pm_return (case f of
          Inr (Some fence) \<Rightarrow> (case uf_resolution fence of
            Some resolution \<Rightarrow> Reconcile_Resolved resolution | None \<Rightarrow> Reconcile_Unknown)
        | _ \<Rightarrow> Reconcile_Unknown))"
    fix w :: "EvidenceStoreError + TaskWorkerResolution" and f'' d'
    assume w: "f'' = f' \<and> mutated ?E ?V (resolve_on ?E ?V uuid now ui ai evidence) s w d'"
    then consider (same) "isl w" "holds ?E ?V d' s"
      | (resolved) resolution s1 s' where "resolve_on ?E ?V uuid now ui ai evidence s = Inr (resolution, s1)" "saved s1 s'"
          "holds ?E ?V d' s'" "w = Inr resolution \<or> w = Inl Evidence_PersistenceUnknown"
      unfolding mutated_def by blast
    then show "htriple f'' d' (case w of
           Inr resolution \<Rightarrow> pm_return (Reconcile_Resolved resolution)
         | Inl Evidence_PersistenceUnknown \<Rightarrow> ?look
         | Inl _ \<Rightarrow> pm_return reconciliation_persistence_unavailable) ?Q ?R"
    proof cases
      case same
      have "htriple f' d' ?look ?Q ?R"
        by (rule htriple_bind [OF htriple_evidence [OF uncertainty_spec [OF os(2) same(2)]]], rule htriple_return)
          (use u open' refused [OF f'] in \<open>auto split: sum.splits option.splits\<close>)
      moreover have "htriple f' d' (pm_return (Reconcile_NoWrite e)) ?Q ?R" for e
        by (rule htriple_return, rule refused [OF f' same(2)]) simp
      ultimately show ?thesis using same(1) w by (auto simp: isl_def split: EvidenceStoreError.splits)
    next
      case resolved
      have fields: "es_records_by_action_key s' = es_records_by_action_key s"
          "es_uncertainty s' = Some (u\<lparr>uf_state := Resolved, uf_resolution := Some resolution\<rparr>)" "res_evidence resolution = evidence"
        using resolve_on_Inr [OF resolved(1) u open'] saved_fields [OF resolved(2)] by auto
      have yes: "?Q (Reconcile_Resolved resolution) f' d''" if "holds ?E ?V d'' s'" for d''
        by (rule reconciledI [OF f' that fields(1)])
          (use fields stored true in \<open>simp add: reconciliation_true_def\<close>)
      have no: "?Q Reconcile_Unknown f' d''" if "holds ?E ?V d'' s'" for d''
        by (rule reconciledI [OF f' that fields(1)]) (use fields in \<open>simp add: reconciliation_true_def\<close>)
      have "htriple f' d' ?look ?Q ?R"
        by (rule htriple_bind [OF htriple_evidence [OF uncertainty_spec [OF os(2) resolved(3)]]], rule htriple_return)
          (use yes no fields(2) in \<open>auto split: sum.splits option.splits\<close>)
      moreover have "htriple f' d' (pm_return (Reconcile_Resolved resolution)) ?Q ?R"
        by (rule htriple_return, rule yes [OF resolved(3)])
      ultimately show ?thesis using resolved(4) w by auto
    qed
  qed
  have refusal: "refusal = Reconcile_NoWrite Reconcile_Rejected \<or> refusal = Reconcile_NoWrite Reconcile_PersistenceUnavailable"
    if "resolution_evidence H r seen = Inl refusal" for seen refusal
    using that by (auto simp: resolution_evidence_def split: PilotWorkerReceiptObservation.splits sum.splits option.splits)
  have unresolved: "htriple f d (pm_bind (on_repo (inspect_receipt ?E (h_task_os H) (h_task_root H) (h_recovered H) (tr_action_id r))) (\<lambda>seen.
       case seen of
         Inl _ \<Rightarrow> pm_return Reconcile_Unknown
       | Inr observation \<Rightarrow> (case resolution_evidence H r observation of
           Inl refusal \<Rightarrow> pm_return refusal
         | Inr evidence \<Rightarrow> record_resolution H uuid now ui ai evidence))) ?Q ?R"
    if open': "uf_resolution u = None"
  proof (rule htriple_bind [OF htriple_repo [where R = ?R and d = d, OF inspect_receipt_spec [OF env os(1) disk] crash]], assumption)
    fix seen f' d'
    assume "d' = d \<and> inspected ?E (rs @ ts) (tr_action_id r) seen f'"
    then obtain us where us: "d' = d" "disk_at ?E f' (rs @ ts @ us)" "quiet us"
        "\<forall>x. seen = Inr x \<longrightarrow> (\<exists>s. reconstruct_store ?E (rs @ ts @ us) = Done s \<and> worker_receipt_of s (tr_action_id r) = Inr x)"
      unfolding inspected_def append_assoc by blast
    have q: "quiet (ts @ us)" using ts us(3) by simp
    have "htriple f' d (case resolution_evidence H r x of Inl refusal \<Rightarrow> pm_return refusal
        | Inr evidence \<Rightarrow> record_resolution H uuid now ui ai evidence) ?Q ?R" if "seen = Inr x" for x
    proof (cases "resolution_evidence H r x")
      case (Inl e)
      from refusal [OF Inl] obtain w where w: "e = Reconcile_NoWrite w" by blast
      have "?Q e f' d" by (rule refused [where e = w, OF us(2) q d]) (simp add: w)
      then show ?thesis using Inl by (simp add: htriple_return)
    next
      case (Inr evidence)
      have "evidence_true ?E (rs @ ts @ us) (tr_action_id r) evidence"
        using us(4) that resolution_evidence_true [OF _ _ Inr] by blast
      then show ?thesis using resolving [OF us(2) q _ open'] Inr by simp
    qed
    then show "htriple f' d' (case seen of
         Inl _ \<Rightarrow> pm_return Reconcile_Unknown
       | Inr observation \<Rightarrow> (case resolution_evidence H r observation of
           Inl refusal \<Rightarrow> pm_return refusal
         | Inr evidence \<Rightarrow> record_resolution H uuid now ui ai evidence)) ?Q ?R"
      using us(1) by (cases seen) (auto intro!: htriple_return refused [OF us(2) q d])
  qed
  have "?Q (Reconcile_Resolved resolution) f d" if "uf_resolution u = Some resolution" for resolution
    by (rule reconciledI [OF disk ts d refl]) (use that u stored in \<open>simp add: reconciliation_true_def\<close>)
  then show ?thesis
    unfolding reconcile_inspect_def using unresolved by (auto intro!: htriple_return split: option.splits)
qed

text \<open>The whole reconciliation.\<close>

lemma reconcile_spec:
  assumes env: "task_env_ok (h_task_env H)" and os: "honest (h_task_os H)" "honest (h_evidence_os H)"
    and codec: "evidence_codec (h_evidence_env H)" and disk: "disk_at (h_task_env H) f rs"
    and d: "holds (h_task_env H) (h_evidence_env H) d s"
  shows "htriple f d (reconcile H uuid now sender operation)
    (reconciled (h_task_env H) (h_evidence_env H) rs s operation)
    (\<lambda>f d. quietly (h_task_env H) rs f \<and> holds (h_task_env H) (h_evidence_env H) d s)"
    (is "htriple f d _ ?Q ?R")
proof -
  let ?E = "h_task_env H" and ?V = "h_evidence_env H"
  have refused: "htriple f' d' (pm_return (Reconcile_NoWrite e)) ?Q ?R"
    if "disk_at ?E f' (rs @ ts)" "quiet ts" "holds ?E ?V d' s" for f' d' ts e
    by (rule htriple_return, rule reconciledI [OF that refl refusal_true]) auto
  have here: "htriple f d' (pm_return (Reconcile_NoWrite e)) ?Q ?R" if "holds ?E ?V d' s" for d' e
    by (rule refused [of _ "[]"]) (use disk that in simp_all)
  have fenced: "htriple f d' (pm_bind (on_repo (authorize_stored_owner ?E (h_task_os H) (h_task_root H) (h_recovered H)
        (h_sessions H) sender (uf_owner u) (uf_task_id u) (uf_task_revision u) (uf_attempt_fence u))) (\<lambda>allowed.
      if isl allowed then pm_return reconciliation_rejected
      else case operation of
        Inspect _ _ \<Rightarrow> reconcile_inspect H uuid now u r ui ai
      | Ack _ _ resolution_id digest \<Rightarrow> reconcile_ack H ui ai resolution_id digest)) ?Q ?R"
    if u: "es_uncertainty s = Some u" and r: "bt_get (es_records_by_action_key s) (action_key ?E (uf_action_id u)) = Some r"
      and ids: "operation_ids operation = (ui, ai)" and d': "holds ?E ?V d' s" for d' u r ui ai
  proof (rule htriple_bind [OF htriple_repo [where R = ?R and d = d', OF authorize_stored_owner_quiet [OF env os(1) disk]]])
    show "?R f' d'" if "quietly ?E rs f'" for f' using that d' by simp
    fix allowed :: "TaskWorkerActionNoWrite + unit" and f' d''
    assume "d'' = d' \<and> quietly ?E rs f'"
    then obtain ts where ts: "d'' = d'" "disk_at ?E f' (rs @ ts)" "quiet ts" by (auto simp: quietly_def)
    show "htriple f' d'' (if isl allowed then pm_return reconciliation_rejected
      else case operation of
        Inspect _ _ \<Rightarrow> reconcile_inspect H uuid now u r ui ai
      | Ack _ _ resolution_id digest \<Rightarrow> reconcile_ack H ui ai resolution_id digest) ?Q ?R"
      using ids ts(1) refused [OF ts(2,3) d'] reconcile_inspect_spec [OF env os codec d' u r ts(2,3)]
        reconcile_ack_spec [OF os(2) codec d' u ts(2,3)]
      by (cases operation) auto
  qed
  show ?thesis
    unfolding reconcile_def Let_def
    apply (simp only: split: prod.split, intro allI impI)
    apply (rule htriple_bind [OF htriple_evidence [OF uncertainty_spec [OF os(2) d]]])
    subgoal for ui ai found f' d'
      apply (auto split: sum.splits option.splits intro!: here)
      apply (rule htriple_bind [OF htriple_evidence [OF record_for_uncertainty_spec [OF os(2)]]], assumption)
      apply (auto split: sum.splits intro!: here fenced)
      done
    done
qed

section \<open>The whole handler\<close>

lemma execute_action_spec:
  assumes env: "task_env_ok (h_task_env H)" and os: "honest (h_task_os H)" "honest (h_evidence_os H)"
    and codec: "evidence_codec (h_evidence_env H)" and disk: "disk_at (h_task_env H) f rs"
    and d: "holds (h_task_env H) (h_evidence_env H) d s"
  shows "htriple f d (execute_action H fresh now sender v) (\<lambda>_ f' _. \<exists>us vs. disk_at (h_task_env H) f' (rs @ us @ vs) \<and> quiet us \<and>
      (quiet vs \<or> current_attempt (h_task_env H) (rs @ us) (va_request v) \<and>
        (\<exists>session. h_sessions H (rs_roster_session_id sender) = Inr session \<and>
           session_owns session sender (pf_owner (wq_attempt_fence (va_request v))))))
    (\<lambda>f' _. quietly (h_task_env H) rs f')"
    (is "htriple f d _ ?Q ?R")
proof -
  let ?E = "h_task_env H" and ?V = "h_evidence_env H"
  show ?thesis
    unfolding execute_action_def Let_def
  proof (rule htriple_bind [OF htriple_repo [where R = ?R and d = d, OF authorize_spec [OF env os(1) disk]]], assumption)
    fix r :: "TaskWorkerActionNoWrite + TaskWorkerAuthorizedAction" and f' d'
    assume "d' = d \<and> (\<exists>ts. disk_at ?E f' (rs @ ts) \<and> quiet ts \<and>
      (\<forall>a. r = Inr a \<longrightarrow> current_attempt ?E (rs @ ts) (va_request v) \<and>
        (\<exists>session. h_sessions H (rs_roster_session_id sender) = Inr session \<and>
          session_owns session sender (pf_owner (wq_attempt_fence (va_request v))))))"
    then obtain us where us: "d' = d" "disk_at ?E f' (rs @ us)" "quiet us"
      "\<forall>a. r = Inr a \<longrightarrow> current_attempt ?E (rs @ us) (va_request v) \<and>
        (\<exists>session. h_sessions H (rs_roster_session_id sender) = Inr session \<and>
          session_owns session sender (pf_owner (wq_attempt_fence (va_request v))))" by blast
    have quietly: "?R f'' d''" if "quietly ?E (rs @ us) f''" for f'' d''
      using quiet_ends [OF us(2,3) that] .
    show "htriple f' d' (case r of
        Inl e \<Rightarrow>
          pm_bind (on_evidence (contains_action_id ?E ?V (h_evidence_os H) (h_evidence_root H) (wq_action_id (va_request v)))) (\<lambda>known.
          pm_return (task_worker_action_no_write (Some (wq_action_id (va_request v))) (if known = Inr True then NW_ActionConflict else e)))
      | Inr authorized \<Rightarrow>
          pm_bind (execute_authorized H fresh now authorized) (\<lambda>outcome.
          pm_return \<lparr>war_action_id = Some (wq_action_id (va_request v)), war_outcome = outcome\<rparr>)) ?Q ?R"
    proof (cases r)
      case (Inl e)
      have refused: "?Q x f' d''" for x d''
        using us(2,3) by (intro exI [of _ us] exI [of _ "[]"]) simp
      have known: "espec d (contains_action_id ?E ?V (h_evidence_os H) (h_evidence_root H) (wq_action_id (va_request v))) (\<lambda>_ _. True)"
        by (simp add: espec_def)
      show ?thesis
        unfolding Inl sum.case us(1)
        by (rule htriple_bind [OF htriple_evidence [OF known]], rule htriple_return, elim conjE, hypsubst, rule refused)
    next
      case (Inr a)
      show ?thesis
        unfolding Inr sum.case us(1)
        apply (rule htriple_bind [OF htriple_conseq [OF execute_authorized_spec [OF env os codec us(2) d], where Q' = "\<lambda>_. ?Q undefined"]])
          prefer 3 apply (rule htriple_return, assumption)
        subgoal for outcome f'' d''
          using us(3,4) Inr unfolding answered_def by (auto intro: exI [of _ us])
        subgoal by (auto simp: stopped_def intro: quietly)
        done
    qed
  qed
qed

end
