(* ===== verification/Evidence_History.thy ===== *)
theory Evidence_History
  imports Evidence_Properties
begin

text \<open>
  Histories of the evidence store: any calls of its operations and any restarts, with any failures.
  The documents such a history leaves on disk are connected by the operations alone, and along them a
  transport record is never lost or changed and a revision identifies its document.
\<close>

section \<open>Steps of the document\<close>

inductive evidence_step ::
  "task_env \<Rightarrow> evidence_env \<Rightarrow> TaskWorkerActionEvidenceStoreV1 \<Rightarrow> TaskWorkerActionEvidenceStoreV1 \<Rightarrow> bool"
  for E V s t where
  prepared: "prepare_on E V fresh a s = Inr (p, s') \<Longrightarrow> saved s' t \<Longrightarrow> validate_evidence E V t = Inr () \<Longrightarrow> evidence_step E V s t"
| cleared: "clear_known_on p s = Inr (x, s') \<Longrightarrow> saved s' t \<Longrightarrow> validate_evidence E V t = Inr () \<Longrightarrow> evidence_step E V s t"
| resolved: "resolve_on E V uuid now ui ai evidence s = Inr (r, s') \<Longrightarrow> saved s' t \<Longrightarrow> validate_evidence E V t = Inr () \<Longrightarrow>
    evidence_step E V s t"
| acknowledged: "ack_on ui ai ri digest s = Inr (x, s') \<Longrightarrow> saved s' t \<Longrightarrow> validate_evidence E V t = Inr () \<Longrightarrow> evidence_step E V s t"

lemma resolve_on_records:
  "resolve_on E V uuid now ui ai evidence s = Inr (r, s') \<Longrightarrow> es_records_by_action_key s' = es_records_by_action_key s
     \<and> es_store_revision s' = es_store_revision s"
  by (auto simp: resolve_on_def Let_def res_simps split: option.splits if_splits)

lemma prepare_on_revision: "prepare_on E V fresh a s = Inr (p, s') \<Longrightarrow> es_store_revision s' = es_store_revision s"
  by (auto simp: prepare_on_def Let_def res_simps split: if_splits)

lemma saved_revision: "saved s s' \<Longrightarrow> unat (es_store_revision s') = Suc (unat (es_store_revision s))"
  by (auto simp: saved_def dest: checked_next_Inr)

lemma evidence_step_facts:
  assumes "evidence_step E V s t"
  shows "records_kept s t" and "unat (es_store_revision t) = Suc (unat (es_store_revision s))"
    and "validate_evidence E V t = Inr ()"
proof -
  have "\<exists>s'. records_kept s s' \<and> es_store_revision s' = es_store_revision s \<and> saved s' t"
    using assms
  proof cases
    case prepared
    then show ?thesis using prepare_on_Inr prepare_on_revision by blast
  next
    case (cleared p x s')
    then show ?thesis using clear_known_on_Inr [OF cleared(1)] by (intro exI [of _ s']) (simp add: records_kept_def)
  next
    case resolved
    then show ?thesis using resolve_on_records by (metis records_kept_def)
  next
    case (acknowledged ui ai ri digest x s')
    then show ?thesis using ack_on_Inr [OF acknowledged(1)] by (intro exI [of _ s']) (simp add: records_kept_def)
  qed
  then obtain s' where s': "records_kept s s'" "es_store_revision s' = es_store_revision s" "saved s' t" by blast
  show "records_kept s t" using s'(1) saved_fields [OF s'(3)] by (simp add: records_kept_def)
  show "unat (es_store_revision t) = Suc (unat (es_store_revision s))" using s'(2) saved_revision [OF s'(3)] by simp
  show "validate_evidence E V t = Inr ()" using assms by (cases rule: evidence_step.cases)
qed

text \<open>A record under an action key is there for good; the revision identifies the document.\<close>

interpretation evidence_records: fenced_system "\<lambda>s. s = evidence_default" "evidence_step E V"
  "\<lambda>s. validate_evidence E V s = Inr ()" "\<lambda>s k. if bt_get (es_records_by_action_key s) k = None then 0 else 1"
  "\<lambda>s k. bt_get (es_records_by_action_key s) k" for E V
proof unfold_locales
  fix s t :: TaskWorkerActionEvidenceStoreV1 and k :: Sha256
  show "validate_evidence E V s = Inr ()" if "s = evidence_default"
    using that by (simp add: validate_evidence_def evidence_default_def)
  assume step: "evidence_step E V s t"
  show "validate_evidence E V t = Inr ()" using evidence_step_facts(3) [OF step] .
  show "(if bt_get (es_records_by_action_key s) k = None then 0 else 1) \<le> (if bt_get (es_records_by_action_key t) k = None then 0 else (1::nat))"
    and "bt_get (es_records_by_action_key t) k = bt_get (es_records_by_action_key s) k \<or>
      (if bt_get (es_records_by_action_key s) k = None then 0 else 1) < (if bt_get (es_records_by_action_key t) k = None then 0 else (1::nat))"
    using evidence_step_facts(1) [OF step] by (auto simp: records_kept_def)
qed

interpretation evidence_documents: fenced_system "\<lambda>s. s = evidence_default" "evidence_step E V"
  "\<lambda>s. validate_evidence E V s = Inr ()" "\<lambda>s (_::unit). unat (es_store_revision s)" "\<lambda>s _. s" for E V
  using evidence_records.inv_init evidence_step_facts(2,3) by unfold_locales auto

lemma evidence_steps_records:
  assumes "steps (evidence_step E V) s t" and "validate_evidence E V s = Inr ()"
  shows "records_kept s t"
proof -
  have "bt_get (es_records_by_action_key t) k = Some r" if r: "bt_get (es_records_by_action_key s) k = Some r" for k r
    using evidence_records.steps_rank [OF assms, of k] evidence_records.steps_holder [OF assms, of k] r
    by (simp split: if_splits)
  then show ?thesis by (simp add: records_kept_def)
qed

section \<open>Restarts\<close>

lemma remove_temps_spec: "espec d (remove_temps os entries removed) (\<lambda>_ d'. document d' = document d)"
proof (induction entries arbitrary: d removed)
  case Nil
  then show ?case by (simp add: espec_return)
next
  case (Cons entry rest)
  have unlinked: "espec d' (evidence_unlink_child os name) (\<lambda>_ d''. document d'' = document d')"
    if "take (length EVIDENCE_TEMP_PREFIX) name = EVIDENCE_TEMP_PREFIX" for name d'
  proof -
    have "name \<noteq> EVIDENCE_SNAPSHOT_FILE"
      using that by (auto simp: EVIDENCE_TEMP_PREFIX_def EVIDENCE_SNAPSHOT_FILE_def)
    then show ?thesis
      unfolding evidence_unlink_child_def
      by (auto intro!: espec_fail espec_sys espec_set espec_return split: option.splits io_error_kind.splits)
  qed
  have opened: "espec d' (evidence_open_child os name False False) (\<lambda>_ d''. d'' = d')" for name d'
    unfolding evidence_open_child_def
    by (auto intro!: espec_fail espec_sys espec_dir_bind espec_return split: option.splits io_error_kind.splits if_splits)
  have tail: "espec d' (remove_temps os rest b) (\<lambda>_ d''. document d'' = document d)" if "document d' = document d" for d' b
    by (rule espec_mono [OF Cons.IH]) (simp add: that)
  have step: "espec d (em_bind (evidence_open_child os name False False) (\<lambda>_.
        em_bind (evidence_validate_private_file os) (\<lambda>_.
        em_bind (evidence_unlink_child os name) (\<lambda>_. remove_temps os rest True)))) (\<lambda>_ d''. document d'' = document d)"
    if "take (length EVIDENCE_TEMP_PREFIX) name = EVIDENCE_TEMP_PREFIX" for name
    apply (rule espec_bind [OF opened], simp)
    apply (rule espec_keeps_bind, simp, simp)
    apply (rule espec_bind [OF unlinked [OF that]], simp)
    apply (rule tail, simp)
    done
  show ?case
    using tail [of d removed] step by (cases entry) (auto intro: espec_fail)
qed

lemma cleanup_spec: "espec d (cleanup_stale_temps os root entries) (\<lambda>_ d'. document d' = document d)"
  unfolding cleanup_stale_temps_def
  apply (rule espec_keeps_bind, simp, simp)
  apply (rule espec_bind [OF evidence_open_lock_spec], simp)
  apply (rule espec_sys_or, simp)
  apply (rule espec_sys_or, simp)
  apply (rule espec_bind [OF remove_temps_spec], simp)
  apply (auto intro!: espec_keeps espec_return)
  done

lemma evidence_open_spec:
  assumes "honest os" and "holds E V d s"
  shows "espec d (evidence_open E V os path entries) (\<lambda>_ d'. holds E V d' s)"
proof -
  have root: "keeps_directory (evidence_open_validated_root os)"
    by (simp add: keeps_directory_def evidence_open_validated_root_def em_sys_or_def em_sys_def em_fail_def em_return_def)
  show ?thesis
    unfolding evidence_open_def Let_def
    apply (rule espec_keeps_bind [OF root], simp add: assms)
    apply (rule espec_sys_or, simp add: assms)
    apply (rule espec_bind [OF cleanup_spec], simp add: holds_document [OF assms(2)])
    apply (rule espec_bind [OF snapshot_spec [OF assms(1) holds_document [OF assms(2)]]], simp)
     apply (auto intro: holds_document [OF assms(2)] espec_return)
    done
qed

section \<open>Histories\<close>

inductive evidence_history :: "task_env \<Rightarrow> evidence_env \<Rightarrow> directory \<Rightarrow> directory \<Rightarrow> bool" for E V d where
  start: "evidence_history E V d d"
| opened: "evidence_history E V d (ev_dir st) \<Longrightarrow> honest os \<Longrightarrow> evidence_open E V os path entries st = (r, st') \<Longrightarrow>
    evidence_history E V d (ev_dir st')"
| read: "evidence_history E V d (ev_dir st) \<Longrightarrow> honest os \<Longrightarrow> evidence_snapshot E V os root st = (r, st') \<Longrightarrow>
    evidence_history E V d (ev_dir st')"
| prepare: "evidence_history E V d (ev_dir st) \<Longrightarrow> honest os \<Longrightarrow> prepare E V os root fresh a st = (r, st') \<Longrightarrow>
    evidence_history E V d (ev_dir st')"
| clear: "evidence_history E V d (ev_dir st) \<Longrightarrow> honest os \<Longrightarrow> clear_known E V os root p st = (r, st') \<Longrightarrow>
    evidence_history E V d (ev_dir st')"
| resolve: "evidence_history E V d (ev_dir st) \<Longrightarrow> honest os \<Longrightarrow> resolve E V os root uuid now ui ai evidence st = (r, st') \<Longrightarrow>
    evidence_history E V d (ev_dir st')"
| ack: "evidence_history E V d (ev_dir st) \<Longrightarrow> honest os \<Longrightarrow> ack E V os root ui ai ri digest st = (r, st') \<Longrightarrow>
    evidence_history E V d (ev_dir st')"

lemma mutate_steps:
  assumes "\<exists>t. holds E V (ev_dir st) t \<and> steps (evidence_step E V) s t"
    and "mutate E V os root f st = (r, st')" and "honest os" and "evidence_codec V"
    and "\<And>u x s1 t. f u = Inr (x, s1) \<Longrightarrow> saved s1 t \<Longrightarrow> validate_evidence E V t = Inr () \<Longrightarrow> evidence_step E V u t"
  shows "\<exists>t. holds E V (ev_dir st') t \<and> steps (evidence_step E V) s t"
proof -
  obtain u where u: "holds E V (ev_dir st) u" "steps (evidence_step E V) s u" using assms(1) by blast
  have "mutated E V f u r (ev_dir st')"
    using espec_run [OF mutate_spec [OF assms(3,4) u(1)] assms(2)] .
  then consider "holds E V (ev_dir st') u" | x s1 t where "f u = Inr (x, s1)" "saved s1 t" "holds E V (ev_dir st') t"
    unfolding mutated_def by blast
  then show ?thesis
  proof cases
    case 2
    then have "evidence_step E V u t" using assms(5) by (simp add: holds_def)
    with 2(3) u(2) show ?thesis by (blast intro: steps_snoc)
  qed (use u(2) in blast)
qed

lemma history_steps:
  assumes "evidence_history E V d d'" and "evidence_codec V" and "holds E V d s"
  shows "\<exists>s'. holds E V d' s' \<and> steps (evidence_step E V) s s'"
  using assms(1)
proof induction
  case start
  show ?case using assms(3) steps_refl [of "evidence_step E V" s] by blast
next
  case (opened st os path entries r st')
  then obtain t where t: "holds E V (ev_dir st) t" "steps (evidence_step E V) s t" by blast
  show ?case using espec_run [OF evidence_open_spec [OF opened(2) t(1)] opened(3)] t(2) by blast
next
  case (read st os root r st')
  then obtain t where t: "holds E V (ev_dir st) t" "steps (evidence_step E V) s t" by blast
  have "document (ev_dir st') = document (ev_dir st)"
    using espec_run [OF snapshot_spec [OF read(2) t(1)] read(3)] by simp
  then show ?case using holds_document [OF t(1)] t(2) by blast
next
  case (prepare st os root fresh a r st')
  show ?case
    by (rule mutate_steps [OF prepare.IH prepare(3) [unfolded prepare_def] prepare(2) assms(2)]) (rule evidence_step.prepared)
next
  case (clear st os root p r st')
  show ?case
    by (rule mutate_steps [OF clear.IH clear(3) [unfolded clear_known_def] clear(2) assms(2)]) (rule evidence_step.cleared)
next
  case (resolve st os root uuid now ui ai evidence r st')
  show ?case
    by (rule mutate_steps [OF resolve.IH resolve(3) [unfolded resolve_def] resolve(2) assms(2)]) (rule evidence_step.resolved)
next
  case (ack st os root ui ai ri digest r st')
  show ?case
    by (rule mutate_steps [OF ack.IH ack(3) [unfolded ack_def] ack(2) assms(2)]) (rule evidence_step.acknowledged)
qed

end
