(* ===== verification/Worker_Claims.thy ===== *)
theory Worker_Claims
  imports Host_Properties Evidence_History Pilot_Claims
begin

text \<open>
  The properties of worker actions, with concrete runs: a task that was delivered is accepted by its
  owner, an action meets the fence of another, and a fence is inspected.
\<close>

section \<open>Concrete runs\<close>

definition wx_request :: TaskWorkerActionRequest where
  "wx_request = \<lparr>wq_action = Worker_Accept, wq_task_id = ''t1'', wq_task_revision = 1,
     wq_attempt_fence = pt_fence px_published, wq_expected_store_revision = 4, wq_action_id = ''r4'', wq_result = None\<rparr>"

definition wx_owner :: TaskWorkerAuthorizedOwner where
  "wx_owner = \<lparr>ow_sender_runtime_agent_id = ''a1'', ow_sender_roster_session_id = ''s1'',
     ow_sender_cutex_session_id = ''s1'', ow_sender_durable_revision = 1, ow_sender_runtime_generation = 1\<rparr>"

definition wx_action :: TaskWorkerAuthorizedAction where
  "wx_action = \<lparr>au_request = wx_request, au_result_bytes = None, au_owner = wx_owner\<rparr>"

definition wx_fresh :: prepare_fresh where
  "wx_fresh = \<lparr>fr_record_id = ''u1'', fr_created_at = tx_now, fr_uncertainty_id = ''u2'', fr_began_at = tx_now\<rparr>"

definition wx_accept :: TransitionEnvelope where
  "wx_accept = tx_envelope ''r4'' 4 (Some tx_fence) (Accept
     \<lparr>ev_external_receipt_id = Some ''u1'', ev_observed_at = None, ev_evidence_sha256 = None\<rparr>)"

definition wx_s4 :: TaskStore where "wx_s4 = tx_next tx_now tx_s3 px_record_delivery"

definition wx_records :: "JournalRecord list" where
  "wx_records = px_records @ [tx_rec wx_s4 wx_accept]"

definition wx_env :: task_env where
  "wx_env = table_env wx_records
     [wx_s4, tx_next preflight_time wx_s4 wx_accept, tx_next tx_now wx_s4 wx_accept] []"

text \<open>The disk after the delivery.\<close>

definition wx_dir :: directory where
  "wx_dir = [LOCK_FILE \<mapsto> [], JOURNAL_FILE \<mapsto> ''x'' @ [newline] @ ''xx'' @ [newline] @ ''xxx'' @ [newline],
     SNAPSHOT_FILE \<mapsto> ''x'']"

text \<open>The documents of the evidence store: prepared, cleared again, and resolved.\<close>

definition wx_record :: TaskWorkerTransportRecordV1 where
  "wx_record = new_record (table_env [] [] []) wx_fresh tx_hash wx_action"

definition wx_prepared :: TaskWorkerActionEvidenceStoreV1 where
  "wx_prepared = \<lparr>es_store_revision = 2, es_records_by_action_key = [(tx_hash, wx_record)],
     es_uncertainty = Some (new_fence wx_fresh wx_record)\<rparr>"

definition wx_cleared :: TaskWorkerActionEvidenceStoreV1 where
  "wx_cleared = wx_prepared\<lparr>es_store_revision := 3, es_uncertainty := None\<rparr>"

definition wx_resolution :: TaskWorkerResolution where
  "wx_resolution = \<lparr>res_resolution_id = ''u3'', res_resolution_sha256 = tx_hash, res_resolved_at = tx_now,
     res_evidence = Evidence_Absent \<lparr>abs_observed_store_revision = 4, abs_observed_journal_cursor =
       \<lparr>cur_sequence = 3, cur_event_sha256 = tx_hash\<rparr>\<rparr>\<rparr>"

definition wx_resolved :: TaskWorkerActionEvidenceStoreV1 where
  "wx_resolved = wx_prepared\<lparr>es_store_revision := 3, es_uncertainty :=
     Some ((new_fence wx_fresh wx_record)\<lparr>uf_state := Resolved, uf_resolution := Some wx_resolution\<rparr>)\<rparr>"

definition wx_evidence :: evidence_env where
  "wx_evidence = \<lparr>json_request = (\<lambda>_. Some []), json_resolution = (\<lambda>_. Some []),
     json_evidence = line_enc [wx_prepared, wx_cleared, wx_resolved], parse_evidence = line_dec [wx_prepared, wx_cleared, wx_resolved],
     is_server_uuid = (\<lambda>_. True)\<rparr>"

definition wx_host :: "task_os \<Rightarrow> host" where
  "wx_host os = \<lparr>h_task_env = wx_env, h_evidence_env = wx_evidence, h_task_os = tx_os, h_evidence_os = os,
     h_task_root = tx_root, h_evidence_root = tx_root, h_recovered = True, h_sessions = (\<lambda>_. Inr px_session)\<rparr>"

definition wx_fenced :: directory where
  "wx_fenced = [EVIDENCE_LOCK_FILE \<mapsto> [], EVIDENCE_SNAPSHOT_FILE \<mapsto> ''x'']"

definition wx_sender :: TaskWorkerRosterSender where
  "wx_sender = \<lparr>rs_runtime_agent_id = ''a1'', rs_roster_session_id = ''s1''\<rparr>"

definition wx_state :: "directory \<Rightarrow> host_state" where
  "wx_state d = \<lparr>hs_repo = tx_repo wx_dir, hs_evidence = \<lparr>ev_dir = d, ev_tick = 0\<rparr>\<rparr>"

lemma wx_env_ok: "task_env_ok wx_env"
  unfolding wx_env_def by (rule table_env_ok)

lemma wx_codec: "evidence_codec wx_evidence"
  by (auto simp: evidence_codec_def wx_evidence_def dest: line_roundtrip)

lemma wx_files: "disk_files (tx_repo wx_dir) = \<lparr>tf_lock = Some [],
    tf_journal = Some (''x'' @ [newline] @ ''xx'' @ [newline] @ ''xxx'' @ [newline]), tf_snapshot = Some ''x'', tf_recovery = None\<rparr>"
  by (simp add: disk_files_def tx_repo_def files_def wx_dir_def LOCK_FILE_def JOURNAL_FILE_def SNAPSHOT_FILE_def RECOVERY_FILE_def)

lemma wx_facts:
  "journal_bytes wx_env px_records = Some (''x'' @ [newline] @ ''xx'' @ [newline] @ ''xxx'' @ [newline])"
  "reconstruct_store wx_env px_records = Done wx_s4"
  "chained wx_env 0 zero_sha256 px_records"
  "json_store wx_env wx_s4 = Some ''x''"
  by code_simp+

lemma wx_disk: "disk_at wx_env (disk_files (tx_repo wx_dir)) px_records"
proof -
  have "snapshot_at wx_env (disk_files (tx_repo wx_dir)) px_records"
    unfolding snapshot_at_def wx_files using wx_facts(2,4)
    by (auto intro!: exI [of _ 3] simp: px_records_def)
  with wx_facts(1-3) show ?thesis
    by (auto simp: disk_at_def disk_base_def torn_def journal_at_def wx_files newline_def)
qed

lemma wx_holds: "holds wx_env wx_evidence wx_fenced wx_prepared" "holds wx_env wx_evidence (\<lambda>_. None) evidence_default"
proof -
  have "validate_evidence wx_env wx_evidence wx_prepared = Inr ()" "wx_fenced EVIDENCE_SNAPSHOT_FILE = Some ''x''"
    "parse_evidence wx_evidence ''x'' = Some wx_prepared" "json_evidence wx_evidence wx_prepared = Some ''x''"
    by code_simp+
  then show "holds wx_env wx_evidence wx_fenced wx_prepared" by (simp add: holds_def)
  show "holds wx_env wx_evidence (\<lambda>_. None) evidence_default" by (rule holds_default) simp
qed

lemma wx_host_fields [simp]:
  "h_task_env (wx_host os) = wx_env" "h_evidence_env (wx_host os) = wx_evidence" "h_task_os (wx_host os) = tx_os"
  "h_evidence_os (wx_host os) = os" "hs_repo (wx_state d) = tx_repo wx_dir" "ev_dir (hs_evidence (wx_state d)) = d"
  by (simp_all add: wx_host_def wx_state_def)

definition wx_receipt :: TaskWorkerActionReceipt where
  "wx_receipt = \<lparr>wa_action_id = ''r4'', wa_task_id = ''t1'', wa_task_revision = 1, wa_attempt_number = 1,
     wa_prior_phase = Phase_Delivered, wa_resulting_phase = Phase_Accepted, wa_committed_store_revision = 5,
     wa_committed_at = tx_now, wa_transport_record_id = ''u1'', wa_result_sha256 = None\<rparr>"

abbreviation wx_run :: "TaskWorkerActionOutcome tres \<times> host_state" where
  "wx_run \<equiv> execute_authorized (wx_host tx_os) wx_fresh tx_now wx_action (wx_state (\<lambda>_. None))"

lemma wx_committed: "fst wx_run = Done (Action_Committed wx_receipt)"
  by code_simp

abbreviation wx_inspection :: "TaskWorkerReconciliationOutcome tres \<times> host_state" where
  "wx_inspection \<equiv> reconcile (wx_host tx_os) ''u3'' tx_now wx_sender (Inspect ''u2'' ''r4'') (wx_state wx_fenced)"

lemma wx_inspected: "fst wx_inspection = Done (Reconcile_Resolved wx_resolution)"
  by code_simp

text \<open>An operating system where the directory cannot be synced after the fence was removed.\<close>

definition wx_late_os :: task_os where
  "wx_late_os = tx_os\<lparr>os_answers := (\<lambda>n. (os_answers tx_os n)\<lparr>os_error := if n = 33 then Some PermissionDenied else None\<rparr>)\<rparr>"

section \<open>Claims\<close>

text \<open>
  C14: What an answer to a worker action means, whatever system calls fail on either disk and wherever
  the process stops. Both disks stay consistent and no transport record is lost; a transition
  reaches the journal only after the transport record of the action is stored. \<open>Committed\<close> means that
  the journal holds the receipt of exactly this action with its edge and its digest;
  \<open>ReconciliationRequired\<close> that the fence it names is on disk; \<open>NoWrite\<close>, except the two errors that
  report a foreign receipt or an unavailable store, that nothing but notes about recovery was
  added to the journal; so does a process that stopped.
\<close>

theorem worker_action_outcome:
  assumes "task_env_ok (h_task_env H)" and "honest (h_task_os H)" and "honest (h_evidence_os H)"
    and "evidence_codec (h_evidence_env H)"
    and "disk_at (h_task_env H) (disk_files (hs_repo st)) rs"
    and "holds (h_task_env H) (h_evidence_env H) (ev_dir (hs_evidence st)) s"
    and "execute_authorized H fresh now a st = (r, st')"
  shows "\<exists>ts s'. disk_at (h_task_env H) (disk_files (hs_repo st')) (rs @ ts)
    \<and> holds (h_task_env H) (h_evidence_env H) (ev_dir (hs_evidence st')) s'
    \<and> records_kept s s'
    \<and> (quiet ts \<or> r \<in> range Done \<and>
        bt_get (es_records_by_action_key s') (action_key (h_task_env H) (wq_action_id (au_request a))) \<noteq> None)
    \<and> (case r of
        Done (Action_Committed receipt) \<Rightarrow> action_on (h_task_env H) (rs @ ts) a receipt
      | Done (Action_ReconciliationRequired u i) \<Rightarrow>
          (\<exists>fence. es_uncertainty s' = Some fence \<and> uf_uncertainty_id fence = u \<and> uf_action_id fence = i)
      | Done (Action_NoWrite e) \<Rightarrow> e = NW_DurableRequestRejected \<or> e = NW_PersistenceUnavailable \<or> quiet ts
      | _ \<Rightarrow> quiet ts)"
proof -
  let ?E = "h_task_env H" and ?V = "h_evidence_env H"
  consider (answer) outcome where "r = Done outcome"
      "answered ?E ?V rs s a outcome (disk_files (hs_repo st')) (ev_dir (hs_evidence st'))"
    | (stop) "\<forall>x. r \<noteq> Done x" "stopped ?E ?V rs s (disk_files (hs_repo st')) (ev_dir (hs_evidence st'))"
    using htriple_run [OF execute_authorized_spec [OF assms(1-6)] assms(7)] by blast
  then show ?thesis
  proof cases
    case answer
    then show ?thesis
      unfolding answered_def evidence_first_def outcome_true_def
      by (elim exE) (rule exI, rule exI, auto split: TaskWorkerActionOutcome.splits)
  next
    case stop
    then show ?thesis
      unfolding stopped_def quietly_def by (cases r) auto
  qed
qed

theorem worker_action_outcome_witness:
  "\<exists>ts s'. records_kept evidence_default s' \<and> action_on wx_env (px_records @ ts) wx_action wx_receipt"
proof -
  have "wx_run = (Done (Action_Committed wx_receipt), snd wx_run)"
    using wx_committed by (metis prod.collapse)
  from worker_action_outcome [where H = "wx_host tx_os" and rs = px_records and s = evidence_default, OF _ _ _ _ _ _ this]
  show ?thesis by (simp add: wx_env_ok tx_honest wx_codec wx_disk wx_holds) blast
qed

text \<open>
  C16: Nothing is done past a fence. While the evidence store holds an uncertainty fence, a worker action
  reads the Task Service for its authorization and does nothing else with it; such a read adds at most
  notes about recovery to the journal, so no transition is made. The evidence document stays as it is.
  The answer to an action that is not authorized is the refusal or a conflict; the answer to an
  authorized one is that it conflicts or is blocked, that the store is unavailable, or that the
  fence, being that of this very action, has to be reconciled first.
\<close>

theorem worker_fence_blocks:
  assumes "task_env_ok (h_task_env H)" and "honest (h_task_os H)" and "honest (h_evidence_os H)"
    and "disk_at (h_task_env H) (disk_files (hs_repo st)) rs"
    and "holds (h_task_env H) (h_evidence_env H) (ev_dir (hs_evidence st)) s" and "es_uncertainty s = Some u"
    and "authorize (h_task_env H) (h_task_os H) (h_task_root H) (h_recovered H) (h_sessions H) sender v (hs_repo st) = (ra, repo)"
    and "execute_action H fresh now sender v st = (r, st')"
  shows "hs_repo st' = repo \<and> (\<exists>ts. disk_at (h_task_env H) (disk_files (hs_repo st')) (rs @ ts) \<and> quiet ts) \<and>
    holds (h_task_env H) (h_evidence_env H) (ev_dir (hs_evidence st')) s \<and>
    (case ra of
      Done (Inl e) \<Rightarrow> \<exists>e' \<in> {e, NW_ActionConflict}. r = Done \<lparr>war_action_id = Some (wq_action_id (va_request v)), war_outcome = Action_NoWrite e'\<rparr>
    | Done (Inr a) \<Rightarrow> \<exists>x \<in> {Action_NoWrite NW_PersistenceUnavailable, Action_NoWrite NW_ActionConflict,
        Action_NoWrite NW_UncertaintyBlocked, Action_ReconciliationRequired (uf_uncertainty_id u) (uf_action_id u)}.
          r = Done \<lparr>war_action_id = Some (wq_action_id (va_request v)), war_outcome = x\<rparr>
    | _ \<Rightarrow> \<forall>x. r \<noteq> Done x)"
proof -
  note fenced = execute_action_fenced [OF assms(3,5-8)]
  have "\<exists>ts. disk_at (h_task_env H) (disk_files repo) (rs @ ts) \<and> quiet ts"
    using triple_run [OF authorize_spec [OF assms(1,2,4), unfolded rtriple_def] _ assms(7)] by (auto simp: quietly_def)
  with fenced show ?thesis by simp
qed

abbreviation wx_blocked :: "TaskWorkerActionResponse tres \<times> host_state" where
  "wx_blocked \<equiv> execute_action (wx_host tx_os) wx_fresh tx_now wx_sender \<lparr>va_request = wx_request, va_result_bytes = None\<rparr> (wx_state wx_fenced)"

theorem worker_fence_blocks_witness:
  "(\<exists>ts. disk_at wx_env (disk_files (hs_repo (snd wx_blocked))) (px_records @ ts) \<and> quiet ts)
    \<and> holds wx_env wx_evidence (ev_dir (hs_evidence (snd wx_blocked))) wx_prepared"
proof -
  have fence: "es_uncertainty wx_prepared = Some (new_fence wx_fresh wx_record)" by (simp add: wx_prepared_def)
  have disks: "task_env_ok (h_task_env (wx_host tx_os))" "honest (h_task_os (wx_host tx_os))" "honest (h_evidence_os (wx_host tx_os))"
      "disk_at (h_task_env (wx_host tx_os)) (disk_files (hs_repo (wx_state wx_fenced))) px_records"
      "holds (h_task_env (wx_host tx_os)) (h_evidence_env (wx_host tx_os)) (ev_dir (hs_evidence (wx_state wx_fenced))) wx_prepared"
    by (simp_all only: wx_host_fields wx_env_ok tx_honest wx_disk wx_holds)
  note blocked = worker_fence_blocks [OF disks fence prod.collapse [symmetric] prod.collapse [symmetric],
      THEN conjunct2, unfolded wx_host_fields]
  show ?thesis by (rule conjI [OF blocked [THEN conjunct1] blocked [THEN conjunct2, THEN conjunct1]])
qed

text \<open>
  C15: Only the owner acts. A worker request adds a transition to the journal only if the session
  in the sender's roster entry is active, runs as the sender in the generation and revision that the
  attempt fence of the request names, and this fence is that of the current attempt of the task in
  the store the request was checked against; otherwise only notes about recovery are added.
\<close>

theorem worker_only_owner_acts:
  assumes "task_env_ok (h_task_env H)" and "honest (h_task_os H)" and "honest (h_evidence_os H)"
    and "evidence_codec (h_evidence_env H)"
    and "disk_at (h_task_env H) (disk_files (hs_repo st)) rs"
    and "holds (h_task_env H) (h_evidence_env H) (ev_dir (hs_evidence st)) s"
    and "execute_action H fresh now sender v st = (r, st')"
  shows "\<exists>us vs. disk_at (h_task_env H) (disk_files (hs_repo st')) (rs @ us @ vs) \<and> quiet us \<and>
    (quiet vs \<or> current_attempt (h_task_env H) (rs @ us) (va_request v) \<and>
      (\<exists>session. h_sessions H (rs_roster_session_id sender) = Inr session \<and>
        session_owns session sender (pf_owner (wq_attempt_fence (va_request v)))))"
proof -
  have stop: ?thesis if "disk_at (h_task_env H) (disk_files (hs_repo st')) (rs @ ts)" "quiet ts" for ts
    by (rule exI [of _ ts], rule exI [of _ "[]"]) (simp add: that)
  show ?thesis
    using htriple_run [OF execute_action_spec [OF assms(1-6)] assms(7)]
  proof
    assume "(\<forall>x. r \<noteq> Done x) \<and> quietly (h_task_env H) rs (disk_files (hs_repo st'))"
    then show ?thesis using stop unfolding quietly_def by blast
  qed blast
qed

definition wx_foreign :: TaskWorkerRosterSender where
  "wx_foreign = wx_sender\<lparr>rs_runtime_agent_id := ''a2''\<rparr>"

theorem worker_only_owner_acts_witness:
  "\<exists>us vs. disk_at wx_env (disk_files (hs_repo (snd (execute_action (wx_host tx_os) wx_fresh tx_now wx_foreign
      \<lparr>va_request = wx_request, va_result_bytes = None\<rparr> (wx_state (\<lambda>_. None)))))) (px_records @ us @ vs) \<and> quiet us \<and> quiet vs"
proof -
  have "\<not> session_owns session wx_foreign (pf_owner (wq_attempt_fence wx_request))" for session
    by (simp add: session_owns_def wx_foreign_def wx_request_def px_published_def px_owner_def)
  with worker_only_owner_acts [where H = "wx_host tx_os" and rs = px_records and s = evidence_default and sender = wx_foreign
      and v = "\<lparr>va_request = wx_request, va_result_bytes = None\<rparr>", OF _ _ _ _ _ _ prod.collapse [symmetric]]
  show ?thesis by (simp add: wx_env_ok tx_honest wx_codec wx_disk wx_holds)
qed

text \<open>
  C18: A reconciliation tells the truth. It adds no transition and keeps every transport record. A
  resolution it returns is stored in the fence; one that it has just made agrees with the journal: the
  receipt of the action is absent, or present with the digest and the revision reported. A fence
  disappears, whatever the answer, only by an acknowledgement that names it, its action and the id
  and digest of its stored resolution, and \<open>Acknowledged\<close> means that it has so disappeared. A
  reconciliation that does not answer leaves the evidence document as it is.
\<close>

theorem worker_reconcile_truthful:
  assumes "task_env_ok (h_task_env H)" and "honest (h_task_os H)" and "honest (h_evidence_os H)"
    and "evidence_codec (h_evidence_env H)"
    and "disk_at (h_task_env H) (disk_files (hs_repo st)) rs"
    and "holds (h_task_env H) (h_evidence_env H) (ev_dir (hs_evidence st)) s"
    and "reconcile H uuid now sender operation st = (r, st')"
  shows "\<exists>ts s'. disk_at (h_task_env H) (disk_files (hs_repo st')) (rs @ ts) \<and> quiet ts
    \<and> holds (h_task_env H) (h_evidence_env H) (ev_dir (hs_evidence st')) s'
    \<and> es_records_by_action_key s' = es_records_by_action_key s
    \<and> (es_uncertainty s' = None \<longrightarrow> es_uncertainty s = None \<or> exact_ack s operation)
    \<and> (case r of
        Done (Reconcile_Resolved resolution) \<Rightarrow> (\<exists>u' x. es_uncertainty s' = Some u' \<and> uf_resolution u' = Some resolution
          \<and> bt_get (es_records_by_action_key s) (action_key (h_task_env H) (uf_action_id u')) = Some x
          \<and> (\<forall>u. es_uncertainty s = Some u \<longrightarrow> uf_resolution u = None \<longrightarrow>
               evidence_true (h_task_env H) (rs @ ts) (tr_action_id x) (res_evidence resolution)))
      | Done Reconcile_Acknowledged \<Rightarrow> es_uncertainty s' = None \<and> exact_ack s operation
      | Done _ \<Rightarrow> True
      | _ \<Rightarrow> s' = s)"
proof -
  consider (answer) outcome where "r = Done outcome" "reconciled (h_task_env H) (h_evidence_env H) rs s operation outcome
        (disk_files (hs_repo st')) (ev_dir (hs_evidence st'))"
    | (stop) "\<forall>x. r \<noteq> Done x" "quietly (h_task_env H) rs (disk_files (hs_repo st'))"
        "holds (h_task_env H) (h_evidence_env H) (ev_dir (hs_evidence st')) s"
    using htriple_run [OF reconcile_spec [OF assms(1-6)] assms(7)] by blast
  then show ?thesis
  proof cases
    case answer
    then obtain ts s' where t: "disk_at (h_task_env H) (disk_files (hs_repo st')) (rs @ ts)" "quiet ts"
        "holds (h_task_env H) (h_evidence_env H) (ev_dir (hs_evidence st')) s'"
        "es_records_by_action_key s' = es_records_by_action_key s" "reconciliation_true (h_task_env H) (rs @ ts) s s' operation outcome"
      unfolding reconciled_def by blast
    show ?thesis
      by (rule exI [of _ ts], rule exI [of _ s'])
        (use t answer(1) in \<open>auto simp: reconciliation_true_def split: TaskWorkerReconciliationOutcome.splits\<close>)
  next
    case stop
    then show ?thesis unfolding quietly_def by (cases r) auto
  qed
qed

theorem worker_reconcile_truthful_witness:
  "\<exists>ts. quiet ts \<and> evidence_true wx_env (px_records @ ts) ''r4'' (res_evidence wx_resolution)"
proof -
  have run: "wx_inspection = (Done (Reconcile_Resolved wx_resolution), snd wx_inspection)"
    using wx_inspected by (metis prod.collapse)
  have one: "bt_get [(tx_hash, wx_record)] (action_key wx_env i) = Some x \<Longrightarrow> tr_action_id x = ''r4''" for i x
    by (auto simp: bt_get_def wx_record_def new_record_def wx_action_def wx_request_def split: if_splits)
  from worker_reconcile_truthful [where H = "wx_host tx_os" and rs = px_records and s = wx_prepared, OF _ _ _ _ _ _ run]
  obtain ts x i where "quiet ts" "bt_get [(tx_hash, wx_record)] (action_key wx_env i) = Some x"
      "evidence_true wx_env (px_records @ ts) (tr_action_id x) (res_evidence wx_resolution)"
    by (simp add: wx_env_ok tx_honest wx_codec wx_disk wx_holds) (force simp: wx_prepared_def new_fence_def)
  with one show ?thesis by metis
qed

text \<open>
  C17: Transport records are for ever. After any history of restarts and calls of the evidence store,
  whatever calls of the operating system failed, the document on disk can be read, every transport
  record that was in it is in it unchanged, the revision never went back, and a document with the
  same revision is the same document.
\<close>

theorem evidence_records_durable:
  assumes "evidence_codec V" and "holds E V d s" and "evidence_history E V d d'"
  shows "\<exists>s'. holds E V d' s'
    \<and> (\<forall>k r. bt_get (es_records_by_action_key s) k = Some r \<longrightarrow> bt_get (es_records_by_action_key s') k = Some r)
    \<and> es_store_revision s \<le> es_store_revision s'
    \<and> (es_store_revision s' = es_store_revision s \<longrightarrow> s' = s)"
proof -
  obtain s' where s': "holds E V d' s'" "steps (evidence_step E V) s s'" using history_steps [OF assms(3,1,2)] by blast
  have v: "validate_evidence E V s = Inr ()" using assms(2) by (simp add: holds_def)
  have "records_kept s s'" by (rule evidence_steps_records [OF s'(2) v])
  moreover have "unat (es_store_revision s) \<le> unat (es_store_revision s')"
    by (rule evidence_documents.steps_rank [OF s'(2) v])
  moreover have "s' = s" if "es_store_revision s' = es_store_revision s"
    by (rule evidence_documents.steps_holder [OF s'(2) v]) (simp add: that)
  ultimately show ?thesis using s'(1) by (auto simp: records_kept_def word_le_nat_alt)
qed

theorem evidence_records_durable_witness:
  "\<exists>s'. holds wx_env wx_evidence (ev_dir (snd (clear_known wx_env wx_evidence tx_os tx_root
       \<lparr>prep_record = wx_record, prep_uncertainty = new_fence wx_fresh wx_record\<rparr> (hs_evidence (wx_state wx_fenced))))) s'
     \<and> bt_get (es_records_by_action_key s') tx_hash = Some wx_record"
proof -
  have "evidence_history wx_env wx_evidence wx_fenced (ev_dir (snd (clear_known wx_env wx_evidence tx_os tx_root
       \<lparr>prep_record = wx_record, prep_uncertainty = new_fence wx_fresh wx_record\<rparr> (hs_evidence (wx_state wx_fenced)))))"
    by (rule evidence_history.clear [OF _ tx_honest prod.collapse [symmetric]]) (simp add: evidence_history.start)
  from evidence_records_durable [OF wx_codec wx_holds(1) this]
  show ?thesis by (auto simp: wx_prepared_def bt_get_def)
qed

section \<open>A write that is not reported\<close>

text \<open>
  A transition that was committed can be answered with \<open>NoWrite\<close>: when the rename that removes the fence
  succeeds and the sync after it fails, the fence is gone when it is read again.
\<close>

definition wx_prepared_action :: PreparedTaskWorkerAction where
  "wx_prepared_action = \<lparr>prep_record = wx_record, prep_uncertainty = new_fence wx_fresh wx_record\<rparr>"

theorem worker_no_write_after_commit:
  "fst (settle_transition (wx_host wx_late_os) wx_prepared_action (Transition_Committed wx_receipt) (wx_state wx_fenced)) =
     Done (Action_NoWrite NW_PersistenceUnavailable)"
  by code_simp

end
