(* ===== verification/Task_Watchdog.thy ===== *)
theory Task_Watchdog
  imports Bus_Model
begin

text \<open>
  The watchdog of running tasks: \<open>task_service/watchdog.rs\<close> and the parts of the provider state
  (\<open>task_service/provider.rs\<close>) and of the activity of sessions that it reads. A scan compares the last
  activity of every running attempt with the time, and keeps an episode for each attempt that is
  idle too long, with a fact and a notification for each stage that was reached. The document is stored
  with the skeleton of \<open>Durable_Document\<close>.

  Times are the values of \<open>chrono\<close>: an instant is an integer, and the parser, the printer and
  the whole seconds between two instants are parameters, as are SHA-256 and JSON.
\<close>

section \<open>Provider state and activity\<close>

datatype AssignmentState = AwaitingAck | Assignment_Active | RetryPending | Assignment_Closed

datatype AttemptPhase =
    Attempt_Running | Attempt_Blocked | ReviewReady | Attempt_Completed | Attempt_Failed | Attempt_Cancelled | Aborted

record TaskRevisionRecord =
  tv_project_id :: "id option"
  tv_authority_seat_id :: id

record Assignment =
  as_project_id :: "id option"
  as_assignment_id :: id
  as_task_id :: id
  as_task_revision :: u64
  as_assignee_cutex_session :: id
  as_state :: AssignmentState
  as_active_attempt :: "u64 option"

text \<open>Of the status receipts only their times are read.\<close>

record Attempt =
  ap_project_id :: "id option"
  ap_attempt_number :: u64
  ap_phase :: AttemptPhase
  ap_started_at :: Rfc3339
  ap_updated_at :: Rfc3339
  ap_status_receipts :: "Rfc3339 list"

record TaskServiceSnapshot =
  sp_journal_sequence :: u64
  sp_task_revisions :: "(id, (u64, TaskRevisionRecord) btree) btree"
  sp_assignments :: "(id, Assignment) btree"
  sp_attempts :: "(id, (u64, Attempt) btree) btree"

datatype TaskWatchdogActivityKind = PhaseTransition | StatusProgress | LastOutput | LastToolCall

record TaskWatchdogActivityProjection =
  pj_project_id :: "id option"
  pj_assignment_id :: bytes
  pj_attempt_number :: u64
  pj_assignee_cutex_session_id :: bytes
  pj_activity_kind :: TaskWatchdogActivityKind
  pj_updated_at :: bytes
  pj_source_sequence :: u64

record ObservationAssociation =
  oa_cutex_session_id :: bytes
  oa_project_id :: "id option"
  oa_assignment_id :: "bytes option"
  oa_attempt_number :: "u64 option"

text \<open>Output and tool call are an association and a time each.\<close>

record SessionActivityState =
  sa_revision :: u64
  sa_last_output :: "(ObservationAssociation \<times> bytes) option"
  sa_last_tool_call :: "(ObservationAssociation \<times> bytes) option"

definition bounded_projection ::
  "bytes \<Rightarrow> u64 \<Rightarrow> ObservationAssociation \<Rightarrow> TaskWatchdogActivityKind \<Rightarrow> bytes \<Rightarrow> TaskWatchdogActivityProjection option" where
  "bounded_projection session_id source_sequence a kind updated_at =
     (if oa_cutex_session_id a \<noteq> session_id then None
      else Option.bind (oa_assignment_id a) (\<lambda>assignment.
        Option.bind (oa_attempt_number a) (\<lambda>n.
        Some \<lparr>pj_project_id = oa_project_id a, pj_assignment_id = assignment, pj_attempt_number = n,
          pj_assignee_cutex_session_id = session_id, pj_activity_kind = kind, pj_updated_at = updated_at,
          pj_source_sequence = source_sequence\<rparr>)))"

text \<open>\<open>states\<close> lists the entries of the \<open>HashMap\<close> in the order of its iterator.\<close>

definition task_watchdog_activity_projections ::
  "(bytes \<times> SessionActivityState) list \<Rightarrow> TaskWatchdogActivityProjection list" where
  "task_watchdog_activity_projections states = concat (map (\<lambda>(session_id, st).
     (case sa_last_output st of None \<Rightarrow> [] | Some (a, at) \<Rightarrow>
        (case bounded_projection session_id (sa_revision st) a LastOutput at of None \<Rightarrow> [] | Some p \<Rightarrow> [p])) @
     (case sa_last_tool_call st of None \<Rightarrow> [] | Some (a, at) \<Rightarrow>
        (case bounded_projection session_id (sa_revision st) a LastToolCall at of None \<Rightarrow> [] | Some p \<Rightarrow> [p]))) states)"

section \<open>Configuration\<close>

record TaskWatchdogConfig =
  cf_poll_interval :: u64
  cf_first_stale_threshold :: u64
  cf_director_escalation_interval :: u64

definition DEFAULT_POLL_SECS :: u64 where "DEFAULT_POLL_SECS = 60"
definition DEFAULT_STALE_SECS :: u64 where "DEFAULT_STALE_SECS = 600"
definition DEFAULT_ESCALATION_SECS :: u64 where "DEFAULT_ESCALATION_SECS = 600"
definition MIN_POLL_SECS :: u64 where "MIN_POLL_SECS = 5"
definition MAX_POLL_SECS :: u64 where "MAX_POLL_SECS = 3600"
definition MIN_STAGE_SECS :: u64 where "MIN_STAGE_SECS = 60"
definition MAX_STAGE_SECS :: u64 where "MAX_STAGE_SECS = 86400"
definition MAX_NOTIFICATION_CONTENT_BYTES :: nat where "MAX_NOTIFICATION_CONTENT_BYTES = 1024"
definition MAX_RETIRED_NOTIFICATIONS :: nat where "MAX_RETIRED_NOTIFICATIONS = 4096"

definition TaskWatchdogConfig_default :: TaskWatchdogConfig where
  "TaskWatchdogConfig_default = \<lparr>cf_poll_interval = DEFAULT_POLL_SECS,
     cf_first_stale_threshold = DEFAULT_STALE_SECS, cf_director_escalation_interval = DEFAULT_ESCALATION_SECS\<rparr>"

text \<open>\<open>str::parse::<u64>\<close>: an optional plus sign and at least one digit, without overflow.\<close>

fun digits_value :: "bytes \<Rightarrow> nat \<Rightarrow> nat option" where
  "digits_value [] n = Some n"
| "digits_value (c # cs) n = (if is_ascii_digit c then digits_value cs (10 * n + (of_char c - 48)) else None)"

definition parse_u64 :: "bytes \<Rightarrow> u64 option" where
  "parse_u64 s =
     (let ds = (case s of [] \<Rightarrow> [] | c # cs \<Rightarrow> if c = CHR ''+'' then cs else s) in
      if ds = [] then None
      else Option.bind (digits_value ds 0) (\<lambda>n. if n < 2 ^ 64 then Some (of_nat n) else None))"

datatype WatchdogError =
    Watchdog_Unavailable | Watchdog_Json | Watchdog_Io io_error_kind | Watchdog_NotUtf8 | Watchdog_NotInteger
  | Watchdog_OutOfRange | Watchdog_InvalidTime bytes | Watchdog_NotificationAbsent | Watchdog_Schema
  | Watchdog_InvalidEpisode | Watchdog_InvalidFact | Watchdog_InvalidNotification | Watchdog_InvalidWatermark
  | Watchdog_RetiredBound | Watchdog_InvalidRetired

text \<open>A variable of the environment: \<open>None\<close> when unset, \<open>Some None\<close> when it is not UTF-8.\<close>

definition env_seconds :: "bytes option option \<Rightarrow> u64 \<Rightarrow> u64 \<Rightarrow> u64 \<Rightarrow> WatchdogError + u64" where
  "env_seconds var fallback minimum maximum = (case var of
     None \<Rightarrow> Inr fallback
   | Some text \<Rightarrow>
       res_bind (ok_or Watchdog_NotUtf8 text) (\<lambda>s.
       res_bind (ok_or Watchdog_NotInteger (parse_u64 s)) (\<lambda>value.
       if \<not> (minimum \<le> value \<and> value \<le> maximum) then Inl Watchdog_OutOfRange else Inr value)))"

definition watchdog_config_from_env ::
  "bytes option option \<Rightarrow> bytes option option \<Rightarrow> bytes option option \<Rightarrow> WatchdogError + TaskWatchdogConfig" where
  "watchdog_config_from_env poll stale escalation =
     res_bind (env_seconds poll DEFAULT_POLL_SECS MIN_POLL_SECS MAX_POLL_SECS) (\<lambda>poll_interval.
     res_bind (env_seconds stale DEFAULT_STALE_SECS MIN_STAGE_SECS MAX_STAGE_SECS) (\<lambda>first.
     res_bind (env_seconds escalation DEFAULT_ESCALATION_SECS MIN_STAGE_SECS MAX_STAGE_SECS) (\<lambda>second.
     Inr \<lparr>cf_poll_interval = poll_interval, cf_first_stale_threshold = first, cf_director_escalation_interval = second\<rparr>)))"

section \<open>The store\<close>

definition TASK_WATCHDOG_FACT_SCHEMA :: bytes where
  "TASK_WATCHDOG_FACT_SCHEMA = ''cutex/task-watchdog-fact/v1''"

definition WATCHDOG_STORE_SCHEMA :: bytes where
  "WATCHDOG_STORE_SCHEMA = ''cutex/task-watchdog-store/v1''"

definition event_key :: "TaskWatchdogStage \<Rightarrow> bytes" where
  "event_key stage = (case stage of
     FirstStale \<Rightarrow> ''task_watchdog.first_stale''
   | DirectorEscalated \<Rightarrow> ''task_watchdog.director_escalated'')"

record TaskWatchdogFact =
  wf_schema :: bytes
  wf_event_key :: bytes
  wf_fact_id :: bytes
  wf_episode_id :: bytes
  wf_project_id :: "id option"
  wf_task_id :: bytes
  wf_task_revision :: u64
  wf_assignment_id :: bytes
  wf_attempt_number :: u64
  wf_assignee_cutex_session_id :: bytes
  wf_activity_watermark :: bytes
  wf_activity_kind :: TaskWatchdogActivityKind
  wf_idle_duration_secs :: u64
  wf_stage :: TaskWatchdogStage
  wf_source_sequence :: u64
  wf_occurred_at :: bytes

datatype TaskWatchdogDeliveryMode = Watchdog_Soon | Watchdog_AfterTurn

datatype TaskWatchdogTarget = AssigneeSession bytes | AuthoritySeat bytes

datatype TaskWatchdogDeliveryFactKind = Fact_Queued | Fact_Delivered | Fact_Uncertain | Fact_RetryScheduled

record TaskWatchdogDeliveryFact =
  df_kind :: TaskWatchdogDeliveryFactKind
  df_reference :: "bytes option"
  df_recorded_at :: bytes

record TaskWatchdogNotification =
  wn_schema :: bytes
  wn_notification_id :: bytes
  wn_external_message_id :: bytes
  wn_episode_id :: bytes
  wn_project_id :: "id option"
  wn_assignment_id :: bytes
  wn_attempt_number :: u64
  wn_stage :: TaskWatchdogStage
  wn_target :: TaskWatchdogTarget
  wn_delivery_mode :: TaskWatchdogDeliveryMode
  wn_content :: bytes
  wn_facts :: "TaskWatchdogDeliveryFact list"

definition is_delivered :: "TaskWatchdogNotification \<Rightarrow> bool" where
  "is_delivered n \<longleftrightarrow> (\<exists>f \<in> set (wn_facts n). df_kind f = Fact_Delivered)"

definition is_queued :: "TaskWatchdogNotification \<Rightarrow> bool" where
  "is_queued n \<longleftrightarrow> (\<exists>f \<in> set (wn_facts n). df_kind f = Fact_Queued)"

definition watchdog_metadata :: "TaskWatchdogNotification \<Rightarrow> TaskWatchdogMessageMetadata" where
  "watchdog_metadata n = \<lparr>wm_schema = TASK_WATCHDOG_MESSAGE_SCHEMA, wm_notification_id = wn_notification_id n,
     wm_project_id = wn_project_id n, wm_assignment_id = wn_assignment_id n,
     wm_attempt_number = wn_attempt_number n, wm_stage = wn_stage n\<rparr>"

record TaskWatchdogScanOutcome =
  wo_presentations :: "TaskWatchdogFact list"
  wo_notifications :: "TaskWatchdogNotification list"
  wo_cancelled_notification_ids :: "bytes list"

record TaskWatchdogEpisode =
  we_episode_id :: bytes
  we_activity_watermark :: bytes
  we_facts :: "TaskWatchdogFact list"
  we_notifications :: "TaskWatchdogNotification list"

record PersistedWatchdogWatermark =
  pw_encoded :: bytes
  pw_kind :: TaskWatchdogActivityKind
  pw_source_sequence :: u64

record RetiredWatchdogNotification =
  rw_attempt_key :: bytes
  rw_retired_at :: bytes
  rw_notification :: TaskWatchdogNotification

record TaskWatchdogStore =
  ws_schema :: bytes
  ws_episodes :: "(bytes, TaskWatchdogEpisode) btree"
  ws_watermarks :: "(bytes, PersistedWatchdogWatermark) btree"
  ws_retired :: "(bytes, RetiredWatchdogNotification) btree"

definition TaskWatchdogStore_default :: TaskWatchdogStore where
  "TaskWatchdogStore_default = \<lparr>ws_schema = WATCHDOG_STORE_SCHEMA, ws_episodes = [], ws_watermarks = [], ws_retired = []\<rparr>"

text \<open>What the watchdog takes from its libraries.\<close>

type_synonym instant = int

record watchdog_env =
  wd_tasks :: task_env
  wd_parse :: "bytes \<Rightarrow> instant option"
  wd_format :: "instant \<Rightarrow> bytes"
  wd_num_seconds :: "instant \<Rightarrow> instant \<Rightarrow> int"
  wd_json :: "TaskWatchdogStore \<Rightarrow> bytes option"
  wd_parse_store :: "bytes \<Rightarrow> TaskWatchdogStore option"

definition parse_time :: "watchdog_env \<Rightarrow> bytes \<Rightarrow> WatchdogError + instant" where
  "parse_time W s = ok_or (Watchdog_InvalidTime s) (wd_parse W s)"

definition format_time :: "watchdog_env \<Rightarrow> instant \<Rightarrow> bytes" where
  "format_time W t = wd_format W t"

definition stable_id :: "watchdog_env \<Rightarrow> bytes \<Rightarrow> bytes \<Rightarrow> nat \<Rightarrow> bytes" where
  "stable_id W prefix material hex_chars = prefix @ take hex_chars (sha256_bytes (wd_tasks W) material)"

text \<open>\<open>{}\<close> of an unsigned integer.\<close>

fun decimal :: "nat \<Rightarrow> bytes" where
  "decimal n = (if n < 10 then [char_of (48 + n)] else decimal (n div 10) @ [char_of (48 + n mod 10)])"

declare decimal.simps [simp del]

abbreviation show_u64 :: "u64 \<Rightarrow> bytes" where
  "show_u64 n \<equiv> decimal (unat n)"

definition attempt_key :: "watchdog_env \<Rightarrow> id option \<Rightarrow> bytes \<Rightarrow> u64 \<Rightarrow> bytes \<Rightarrow> u64 \<Rightarrow> bytes" where
  "attempt_key W project task_id task_revision assignment_id attempt_number =
     stable_id W ''twa_'' ((case project of None \<Rightarrow> ''<legacy>'' | Some p \<Rightarrow> p) @ ''|'' @ task_id @ ''|'' @ show_u64 task_revision
       @ ''|'' @ assignment_id @ ''|'' @ show_u64 attempt_number) 40"

section \<open>Watermarks\<close>

record Watermark =
  wk_time :: instant
  wk_encoded :: bytes
  wk_kind :: TaskWatchdogActivityKind
  wk_source_sequence :: u64

definition consider_watermark ::
  "Watermark \<Rightarrow> instant \<Rightarrow> bytes \<Rightarrow> TaskWatchdogActivityKind \<Rightarrow> u64 \<Rightarrow> Watermark" where
  "consider_watermark w candidate encoded kind source_sequence =
     (if candidate > wk_time w
        \<or> (candidate = wk_time w \<and> source_sequence > wk_source_sequence w)
        \<or> (candidate = wk_time w \<and> source_sequence = wk_source_sequence w
            \<and> wk_kind w = PhaseTransition \<and> kind = StatusProgress)
      then \<lparr>wk_time = candidate, wk_encoded = encoded, wk_kind = kind, wk_source_sequence = source_sequence\<rparr>
      else w)"

definition projection_matches :: "Assignment \<Rightarrow> Attempt \<Rightarrow> TaskWatchdogActivityProjection \<Rightarrow> bool" where
  "projection_matches a attempt p \<longleftrightarrow> pj_project_id p = as_project_id a \<and> pj_assignment_id p = as_assignment_id a
     \<and> pj_attempt_number p = ap_attempt_number attempt \<and> pj_assignee_cutex_session_id p = as_assignee_cutex_session a"

text \<open>The loop over the projections.\<close>

fun consider_projections ::
  "watchdog_env \<Rightarrow> Assignment \<Rightarrow> Attempt \<Rightarrow> TaskWatchdogActivityProjection list \<Rightarrow> Watermark \<Rightarrow> WatchdogError + Watermark" where
  "consider_projections W a attempt [] w = Inr w"
| "consider_projections W a attempt (p # ps) w =
     (if \<not> projection_matches a attempt p then consider_projections W a attempt ps w
      else res_bind (parse_time W (pj_updated_at p)) (\<lambda>time.
        res_bind (parse_time W (ap_started_at attempt)) (\<lambda>started.
        if time < started then consider_projections W a attempt ps w
        else consider_projections W a attempt ps
          (consider_watermark w time (pj_updated_at p) (pj_activity_kind p) (pj_source_sequence p)))))"

definition authoritative_watermark ::
  "watchdog_env \<Rightarrow> TaskServiceSnapshot \<Rightarrow> Assignment \<Rightarrow> Attempt \<Rightarrow> TaskWatchdogActivityProjection list \<Rightarrow>
     WatchdogError + Watermark" where
  "authoritative_watermark W snapshot a attempt activity =
     res_bind (parse_time W (ap_updated_at attempt)) (\<lambda>updated.
     let w = \<lparr>wk_time = updated, wk_encoded = ap_updated_at attempt, wk_kind = PhaseTransition,
           wk_source_sequence = sp_journal_sequence snapshot\<rparr> in
     res_bind (if ap_status_receipts attempt = [] then Inr w
        else let recorded_at = last (ap_status_receipts attempt) in
          res_bind (parse_time W recorded_at) (\<lambda>t.
          Inr (consider_watermark w t recorded_at StatusProgress (sp_journal_sequence snapshot)))) (\<lambda>w.
     consider_projections W a attempt activity w))"

definition persisted_watermark :: "TaskWatchdogStore \<Rightarrow> bytes \<Rightarrow> PersistedWatchdogWatermark option" where
  "persisted_watermark s key = (case bt_get (ws_watermarks s) key of
     Some p \<Rightarrow> Some p
   | None \<Rightarrow> map_option (\<lambda>e. \<lparr>pw_encoded = we_activity_watermark e,
       pw_kind = (case we_facts e of [] \<Rightarrow> PhaseTransition | f # _ \<Rightarrow> wf_activity_kind f),
       pw_source_sequence = (case we_facts e of [] \<Rightarrow> 0 | f # _ \<Rightarrow> wf_source_sequence f)\<rparr>) (bt_get (ws_episodes s) key))"

definition monotonic_watermark ::
  "watchdog_env \<Rightarrow> TaskWatchdogStore \<Rightarrow> bytes \<Rightarrow> Watermark \<Rightarrow> WatchdogError + Watermark \<times> TaskWatchdogStore" where
  "monotonic_watermark W s key observed =
     res_bind (case persisted_watermark s key of
         None \<Rightarrow> Inr observed
       | Some p \<Rightarrow> res_bind (parse_time W (pw_encoded p)) (\<lambda>time.
           Inr (consider_watermark \<lparr>wk_time = time, wk_encoded = pw_encoded p, wk_kind = pw_kind p,
               wk_source_sequence = pw_source_sequence p\<rparr>
             (wk_time observed) (wk_encoded observed) (wk_kind observed) (wk_source_sequence observed)))) (\<lambda>w.
     Inr (w, s\<lparr>ws_watermarks := bt_insert key \<lparr>pw_encoded = wk_encoded w, pw_kind = wk_kind w,
       pw_source_sequence = wk_source_sequence w\<rparr> (ws_watermarks s)\<rparr>))"

section \<open>Episodes\<close>

fun retire_notifications ::
  "watchdog_env \<Rightarrow> bytes \<Rightarrow> instant \<Rightarrow> TaskWatchdogNotification list \<Rightarrow> (bytes, RetiredWatchdogNotification) btree \<Rightarrow>
     (bytes, RetiredWatchdogNotification) btree" where
  "retire_notifications W key now [] retired = retired"
| "retire_notifications W key now (n # ns) retired =
     retire_notifications W key now ns (bt_insert (wn_notification_id n)
       \<lparr>rw_attempt_key = key, rw_retired_at = format_time W now, rw_notification = n\<rparr> retired)"

definition retire_episode ::
  "watchdog_env \<Rightarrow> bytes \<Rightarrow> instant \<Rightarrow> TaskWatchdogStore \<times> bytes list \<Rightarrow> TaskWatchdogStore \<times> bytes list" where
  "retire_episode W key now = (\<lambda>(s, cancelled). case bt_get (ws_episodes s) key of
     None \<Rightarrow> (s, cancelled)
   | Some e \<Rightarrow> (s\<lparr>ws_episodes := bt_remove key (ws_episodes s),
        ws_retired := retire_notifications W key now (we_notifications e) (ws_retired s)\<rparr>,
      cancelled @ map wn_notification_id (filter (\<lambda>n. \<not> is_delivered n) (we_notifications e))))"

text \<open>\<open>min_by\<close> on the time of retirement and then the id.\<close>

fun oldest_retired :: "(bytes, RetiredWatchdogNotification) btree \<Rightarrow> (bytes \<times> RetiredWatchdogNotification) option" where
  "oldest_retired [] = None"
| "oldest_retired ((k, r) # m) = Some (case oldest_retired m of
     None \<Rightarrow> (k, r)
   | Some (k', r') \<Rightarrow> if rw_retired_at r' < rw_retired_at r \<or> rw_retired_at r' = rw_retired_at r \<and> k' < k then (k', r') else (k, r))"

lemma oldest_retired_in: "oldest_retired m = Some e \<Longrightarrow> e \<in> set m"
  by (induction m arbitrary: e rule: oldest_retired.induct) (auto split: option.splits if_splits)

function prune_retired :: "(bytes, RetiredWatchdogNotification) btree \<Rightarrow> (bytes, RetiredWatchdogNotification) btree" where
  "prune_retired m = (if length m > MAX_RETIRED_NOTIFICATIONS
     then (case oldest_retired m of None \<Rightarrow> m | Some (k, _) \<Rightarrow> prune_retired (bt_remove k m)) else m)"
  by pat_completeness auto
termination
  by (relation "measure length") (auto simp: bt_remove_def dest!: oldest_retired_in intro!: length_filter_less)

declare prune_retired.simps [simp del]

definition prune_retired_notifications :: "TaskWatchdogStore \<Rightarrow> TaskWatchdogStore" where
  "prune_retired_notifications s = s\<lparr>ws_retired := prune_retired (ws_retired s)\<rparr>"

definition stage_fact ::
  "watchdog_env \<Rightarrow> TaskWatchdogEpisode \<Rightarrow> TaskWatchdogStage \<Rightarrow> u64 \<Rightarrow> instant \<Rightarrow> Assignment \<Rightarrow> u64 \<Rightarrow> Watermark \<Rightarrow> TaskWatchdogFact" where
  "stage_fact W e stage idle now a attempt w = \<lparr>wf_schema = TASK_WATCHDOG_FACT_SCHEMA, wf_event_key = event_key stage,
     wf_fact_id = stable_id W ''twf_'' (we_episode_id e @ ''|'' @ event_key stage) 32, wf_episode_id = we_episode_id e,
     wf_project_id = as_project_id a, wf_task_id = as_task_id a, wf_task_revision = as_task_revision a,
     wf_assignment_id = as_assignment_id a, wf_attempt_number = attempt,
     wf_assignee_cutex_session_id = as_assignee_cutex_session a, wf_activity_watermark = wk_encoded w,
     wf_activity_kind = wk_kind w, wf_idle_duration_secs = idle, wf_stage = stage,
     wf_source_sequence = wk_source_sequence w, wf_occurred_at = format_time W now\<rparr>"

definition stage_content :: "TaskWatchdogStage \<Rightarrow> u64 \<Rightarrow> Assignment \<Rightarrow> u64 \<Rightarrow> bytes" where
  "stage_content stage idle a attempt = (case stage of
     FirstStale \<Rightarrow> ''Task Service watchdog: assignment '' @ as_assignment_id a @ '' attempt '' @ show_u64 attempt
       @ '' has no authoritative progress for at least '' @ show_u64 idle
       @ '' seconds. Continue the task or report bounded status.''
   | DirectorEscalated \<Rightarrow> ''Task Service watchdog escalation: assignment '' @ as_assignment_id a @ '' attempt '' @ show_u64 attempt
       @ '' remains inactive after the Worker reminder; review the running task.'')"

definition stage_notification ::
  "watchdog_env \<Rightarrow> TaskWatchdogEpisode \<Rightarrow> TaskWatchdogStage \<Rightarrow> u64 \<Rightarrow> Assignment \<Rightarrow> u64 \<Rightarrow> id \<Rightarrow> TaskWatchdogNotification" where
  "stage_notification W e stage idle a attempt authority_seat_id =
     (let i = stable_id W ''twn_'' (we_episode_id e @ ''|'' @ event_key stage) 32 in
      \<lparr>wn_schema = TASK_WATCHDOG_MESSAGE_SCHEMA, wn_notification_id = i, wn_external_message_id = i,
       wn_episode_id = we_episode_id e, wn_project_id = as_project_id a, wn_assignment_id = as_assignment_id a,
       wn_attempt_number = attempt, wn_stage = stage,
       wn_target = (case stage of FirstStale \<Rightarrow> AssigneeSession (as_assignee_cutex_session a)
         | DirectorEscalated \<Rightarrow> AuthoritySeat authority_seat_id),
       wn_delivery_mode = (case stage of FirstStale \<Rightarrow> Watchdog_Soon | DirectorEscalated \<Rightarrow> Watchdog_AfterTurn),
       wn_content = stage_content stage idle a attempt, wn_facts = []\<rparr>)"

text \<open>The attempt is the active attempt of the assignment, which the scan has checked to be there.\<close>

definition ensure_stage ::
  "watchdog_env \<Rightarrow> TaskWatchdogEpisode \<Rightarrow> TaskWatchdogStage \<Rightarrow> u64 \<Rightarrow> instant \<Rightarrow> Assignment \<Rightarrow> u64 \<Rightarrow> id \<Rightarrow> Watermark \<Rightarrow>
     TaskWatchdogEpisode" where
  "ensure_stage W e stage idle now a attempt authority_seat_id w =
     (if \<exists>f \<in> set (we_facts e). wf_stage f = stage then e
      else e\<lparr>we_notifications := we_notifications e @ [stage_notification W e stage idle a attempt authority_seat_id],
             we_facts := we_facts e @ [stage_fact W e stage idle now a attempt w]\<rparr>)"

section \<open>The scan\<close>

definition saturating_add :: "u64 \<Rightarrow> u64 \<Rightarrow> u64" where
  "saturating_add a b = (case checked_add a b of Some c \<Rightarrow> c | None \<Rightarrow> - 1)"

text \<open>The mutable variables of the scan.\<close>

record scan_state =
  sc_store :: TaskWatchdogStore
  sc_active :: "bytes list"
  sc_presentations :: "TaskWatchdogFact list"
  sc_notifications :: "TaskWatchdogNotification list"
  sc_cancelled :: "bytes list"

text \<open>The checks at the head of the loop: the running attempt and its task, or \<open>continue\<close>.\<close>

definition running_attempt ::
  "TaskServiceSnapshot \<Rightarrow> Assignment \<Rightarrow> (u64 \<times> Attempt \<times> TaskRevisionRecord) option" where
  "running_attempt snapshot a =
     (if as_state a \<noteq> Assignment_Active then None
      else Option.bind (as_active_attempt a) (\<lambda>n.
        Option.bind (Option.bind (bt_get (sp_attempts snapshot) (as_assignment_id a)) (\<lambda>m. bt_get m n)) (\<lambda>attempt.
        if ap_phase attempt \<noteq> Attempt_Running \<or> ap_project_id attempt \<noteq> as_project_id a then None
        else Option.bind (Option.bind (bt_get (sp_task_revisions snapshot) (as_task_id a)) (\<lambda>m. bt_get m (as_task_revision a))) (\<lambda>task.
          if tv_project_id task \<noteq> as_project_id a then None else Some (n, attempt, task)))))"

definition idle_seconds :: "watchdog_env \<Rightarrow> instant \<Rightarrow> Watermark \<Rightarrow> u64" where
  "idle_seconds W now w = word_of_int (max 0 (wd_num_seconds W now (wk_time w)))"

definition assignment_key :: "watchdog_env \<Rightarrow> Assignment \<Rightarrow> u64 \<Rightarrow> bytes" where
  "assignment_key W a n = attempt_key W (as_project_id a) (as_task_id a) (as_task_revision a) (as_assignment_id a) n"

text \<open>The rest of an iteration once the watermark is known.\<close>

definition report_stages ::
  "watchdog_env \<Rightarrow> TaskWatchdogConfig \<Rightarrow> instant \<Rightarrow> Assignment \<Rightarrow> u64 \<Rightarrow> TaskRevisionRecord \<Rightarrow> bytes \<Rightarrow> Watermark \<Rightarrow>
     scan_state \<Rightarrow> scan_state" where
  "report_stages W config now a n task key w st =
     (let idle = idle_seconds W now w in
      if idle < cf_first_stale_threshold config then st
      else
        let e = (case bt_get (ws_episodes (sc_store st)) key of
              Some e \<Rightarrow> e
            | None \<Rightarrow> \<lparr>we_episode_id = stable_id W ''twe_'' (key @ ''|'' @ wk_encoded w) 32, we_activity_watermark = wk_encoded w,
                we_facts = [], we_notifications = []\<rparr>);
            e = ensure_stage W e FirstStale idle now a n (tv_authority_seat_id task) w;
            e = (if idle \<ge> saturating_add (cf_first_stale_threshold config) (cf_director_escalation_interval config)
              then ensure_stage W e DirectorEscalated idle now a n (tv_authority_seat_id task) w else e)
        in st\<lparr>sc_store := (sc_store st)\<lparr>ws_episodes := bt_insert key e (ws_episodes (sc_store st))\<rparr>,
              sc_presentations := sc_presentations st @ we_facts e,
              sc_notifications := sc_notifications st @ filter (\<lambda>n. \<not> is_delivered n) (we_notifications e)\<rparr>)"

definition scan_assignment ::
  "watchdog_env \<Rightarrow> TaskWatchdogConfig \<Rightarrow> TaskServiceSnapshot \<Rightarrow> TaskWatchdogActivityProjection list \<Rightarrow> instant \<Rightarrow>
     Assignment \<Rightarrow> scan_state \<Rightarrow> WatchdogError + scan_state" where
  "scan_assignment W config snapshot activity now a st = (case running_attempt snapshot a of
     None \<Rightarrow> Inr st
   | Some (n, attempt, task) \<Rightarrow>
       let key = assignment_key W a n in
       res_bind (authoritative_watermark W snapshot a attempt activity) (\<lambda>observed.
       res_bind (monotonic_watermark W (sc_store st) key observed) (\<lambda>(w, s).
       let (s, cancelled) = (if (case bt_get (ws_episodes s) key of None \<Rightarrow> False | Some e \<Rightarrow> we_activity_watermark e \<noteq> wk_encoded w)
             then retire_episode W key now (s, sc_cancelled st) else (s, sc_cancelled st))
       in Inr (report_stages W config now a n task key w
         (st\<lparr>sc_store := s, sc_active := key # sc_active st, sc_cancelled := cancelled\<rparr>)))))"

fun scan_assignments ::
  "watchdog_env \<Rightarrow> TaskWatchdogConfig \<Rightarrow> TaskServiceSnapshot \<Rightarrow> TaskWatchdogActivityProjection list \<Rightarrow> instant \<Rightarrow>
     Assignment list \<Rightarrow> scan_state \<Rightarrow> WatchdogError + scan_state" where
  "scan_assignments W config snapshot activity now [] st = Inr st"
| "scan_assignments W config snapshot activity now (a # as) st =
     res_bind (scan_assignment W config snapshot activity now a st) (scan_assignments W config snapshot activity now as)"

fun retire_inactive ::
  "watchdog_env \<Rightarrow> instant \<Rightarrow> bytes list \<Rightarrow> TaskWatchdogStore \<times> bytes list \<Rightarrow> TaskWatchdogStore \<times> bytes list" where
  "retire_inactive W now [] sc = sc"
| "retire_inactive W now (key # keys) sc =
     (let (s, cancelled) = retire_episode W key now sc
      in retire_inactive W now keys (s\<lparr>ws_watermarks := bt_remove key (ws_watermarks s)\<rparr>, cancelled))"

definition inactive_keys :: "TaskWatchdogStore \<Rightarrow> bytes list \<Rightarrow> bytes list" where
  "inactive_keys s active = sort (remdups (filter (\<lambda>k. k \<notin> set active) (bt_keys (ws_episodes s) @ bt_keys (ws_watermarks s))))"

definition scan_store ::
  "watchdog_env \<Rightarrow> TaskServiceSnapshot \<Rightarrow> TaskWatchdogActivityProjection list \<Rightarrow> instant \<Rightarrow> TaskWatchdogConfig \<Rightarrow>
     TaskWatchdogStore \<Rightarrow> WatchdogError + TaskWatchdogStore \<times> TaskWatchdogScanOutcome" where
  "scan_store W snapshot activity now config s =
     res_bind (scan_assignments W config snapshot activity now (bt_values (sp_assignments snapshot))
       \<lparr>sc_store = s, sc_active = [], sc_presentations = [], sc_notifications = [], sc_cancelled = []\<rparr>) (\<lambda>st.
     let (s, cancelled) = retire_inactive W now (inactive_keys (sc_store st) (sc_active st)) (sc_store st, sc_cancelled st)
     in Inr (prune_retired_notifications s, \<lparr>wo_presentations = sc_presentations st,
          wo_notifications = sc_notifications st, wo_cancelled_notification_ids = cancelled\<rparr>))"

section \<open>Delivery facts\<close>

definition add_delivery_fact ::
  "TaskWatchdogDeliveryFactKind \<Rightarrow> bytes option \<Rightarrow> bytes \<Rightarrow> TaskWatchdogNotification \<Rightarrow> TaskWatchdogNotification" where
  "add_delivery_fact kind reference now n =
     (if \<exists>f \<in> set (wn_facts n). df_kind f = kind \<and> df_reference f = reference then n
      else n\<lparr>wn_facts := wn_facts n @ [\<lparr>df_kind = kind, df_reference = reference, df_recorded_at = now\<rparr>]\<rparr>)"

text \<open>The first notification with the id, in the order of the episodes.\<close>

fun update_first :: "('a \<Rightarrow> bool) \<Rightarrow> ('a \<Rightarrow> 'a) \<Rightarrow> 'a list \<Rightarrow> 'a list option" where
  "update_first P f [] = None"
| "update_first P f (x # xs) = (if P x then Some (f x # xs) else map_option ((#) x) (update_first P f xs))"

fun update_episode :: "(TaskWatchdogNotification \<Rightarrow> bool) \<Rightarrow> (TaskWatchdogNotification \<Rightarrow> TaskWatchdogNotification) \<Rightarrow>
    (bytes, TaskWatchdogEpisode) btree \<Rightarrow> (bytes, TaskWatchdogEpisode) btree option" where
  "update_episode P f [] = None"
| "update_episode P f ((k, e) # m) = (case update_first P f (we_notifications e) of
     Some ns \<Rightarrow> Some ((k, e\<lparr>we_notifications := ns\<rparr>) # m)
   | None \<Rightarrow> map_option ((#) (k, e)) (update_episode P f m))"

definition record_fact_on ::
  "bytes \<Rightarrow> TaskWatchdogDeliveryFactKind \<Rightarrow> bytes option \<Rightarrow> bytes \<Rightarrow> TaskWatchdogStore \<Rightarrow> WatchdogError + TaskWatchdogStore \<times> unit" where
  "record_fact_on notification_id kind reference now s =
     (case update_episode (\<lambda>n. wn_notification_id n = notification_id) (add_delivery_fact kind reference now) (ws_episodes s) of
        Some episodes \<Rightarrow> Inr (s\<lparr>ws_episodes := episodes\<rparr>, ())
      | None \<Rightarrow> (case bt_get (ws_retired s) notification_id of
          None \<Rightarrow> Inl Watchdog_NotificationAbsent
        | Some r \<Rightarrow> Inr (s\<lparr>ws_retired := bt_insert notification_id
            (r\<lparr>rw_notification := add_delivery_fact kind reference now (rw_notification r)\<rparr>) (ws_retired s)\<rparr>, ())))"

definition notification_on :: "bytes \<Rightarrow> TaskWatchdogStore \<Rightarrow> TaskWatchdogNotification option" where
  "notification_on notification_id s =
     (case find (\<lambda>n. wn_notification_id n = notification_id) (concat (map we_notifications (bt_values (ws_episodes s)))) of
        Some n \<Rightarrow> Some n
      | None \<Rightarrow> map_option rw_notification (bt_get (ws_retired s) notification_id))"

section \<open>The document\<close>

definition validate_episode :: "bytes \<times> TaskWatchdogEpisode \<Rightarrow> WatchdogError + unit" where
  "validate_episode = (\<lambda>(key, e).
     if \<not> starts_with key ''twa_'' \<or> \<not> starts_with (we_episode_id e) ''twe_'' \<or> we_activity_watermark e = []
       \<or> length (we_facts e) > 2 \<or> length (we_notifications e) > 2
     then Inl Watchdog_InvalidEpisode
     else if \<exists>f \<in> set (we_facts e). wf_schema f \<noteq> TASK_WATCHDOG_FACT_SCHEMA \<or> wf_episode_id f \<noteq> we_episode_id e
       \<or> wf_event_key f \<noteq> event_key (wf_stage f) \<or> length (wf_fact_id f) > 64
     then Inl Watchdog_InvalidFact
     else if \<exists>n \<in> set (we_notifications e). wn_schema n \<noteq> TASK_WATCHDOG_MESSAGE_SCHEMA \<or> wn_episode_id n \<noteq> we_episode_id e
       \<or> wn_notification_id n \<noteq> wn_external_message_id n \<or> length (wn_notification_id n) > 48
       \<or> trim (wn_content n) = [] \<or> length (wn_content n) > MAX_NOTIFICATION_CONTENT_BYTES
     then Inl Watchdog_InvalidNotification
     else Inr ())"

definition validate_watermark :: "watchdog_env \<Rightarrow> bytes \<times> PersistedWatchdogWatermark \<Rightarrow> WatchdogError + unit" where
  "validate_watermark W = (\<lambda>(key, p).
     if \<not> starts_with key ''twa_'' \<or> pw_encoded p = [] then Inl Watchdog_InvalidWatermark
     else res_bind (parse_time W (pw_encoded p)) (\<lambda>_. Inr ()))"

definition validate_retired :: "watchdog_env \<Rightarrow> bytes \<times> RetiredWatchdogNotification \<Rightarrow> WatchdogError + unit" where
  "validate_retired W = (\<lambda>(notification_id, r).
     if \<not> starts_with (rw_attempt_key r) ''twa_'' \<or> notification_id \<noteq> wn_notification_id (rw_notification r)
       \<or> wn_notification_id (rw_notification r) \<noteq> wn_external_message_id (rw_notification r)
       \<or> length (wn_notification_id (rw_notification r)) > 48
     then Inl Watchdog_InvalidRetired
     else res_bind (parse_time W (rw_retired_at r)) (\<lambda>_. Inr ()))"

fun validate_each :: "('a \<Rightarrow> 'e + unit) \<Rightarrow> 'a list \<Rightarrow> 'e + unit" where
  "validate_each f [] = Inr ()"
| "validate_each f (x # xs) = res_bind (f x) (\<lambda>_. validate_each f xs)"

definition validate_watchdog_store :: "watchdog_env \<Rightarrow> TaskWatchdogStore \<Rightarrow> WatchdogError + unit" where
  "validate_watchdog_store W s =
     (if ws_schema s \<noteq> WATCHDOG_STORE_SCHEMA then Inl Watchdog_Schema
      else res_bind (validate_each validate_episode (ws_episodes s)) (\<lambda>_.
        res_bind (validate_each (validate_watermark W) (ws_watermarks s)) (\<lambda>_.
        if length (ws_retired s) > MAX_RETIRED_NOTIFICATIONS then Inl Watchdog_RetiredBound
        else validate_each (validate_retired W) (ws_retired s))))"

definition watchdog_doc :: "watchdog_env \<Rightarrow> (TaskWatchdogStore, WatchdogError) doc_spec" where
  "watchdog_doc W = \<lparr>empty_doc = TaskWatchdogStore_default, enc = wd_json W, dec = wd_parse_store W,
     err_unavailable = Watchdog_Unavailable, err_invalid = Watchdog_Json, err_io = Watchdog_Io\<rparr>"

text \<open>
  The locked section. \<open>stat_failed\<close> says that \<open>Path::exists\<close> cannot read the metadata of the document, which
  counts as absent.
\<close>

definition checked_operation ::
  "watchdog_env \<Rightarrow> bool \<Rightarrow> (TaskWatchdogStore \<Rightarrow> WatchdogError + TaskWatchdogStore \<times> 'v) \<Rightarrow> TaskWatchdogStore \<Rightarrow>
     WatchdogError + TaskWatchdogStore \<times> 'v \<times> bool" where
  "checked_operation W absent operation before =
     res_bind (operation before) (\<lambda>(s, v).
     res_bind (validate_watchdog_store W s) (\<lambda>_. Inr (s, v, s \<noteq> before \<or> absent)))"

definition with_store ::
  "watchdog_env \<Rightarrow> bool \<Rightarrow> (TaskWatchdogStore \<Rightarrow> WatchdogError + TaskWatchdogStore \<times> 'v) \<Rightarrow> doc_io \<Rightarrow> doc_fs \<Rightarrow>
     (WatchdogError + 'v) \<times> doc_fs" where
  "with_store W stat_failed operation io fs =
     with_locked_state (watchdog_doc W) True (checked_operation W (stat_failed \<or> store_file fs = None) operation) io fs"

definition watchdog_open :: "watchdog_env \<Rightarrow> bool \<Rightarrow> doc_io \<Rightarrow> doc_fs \<Rightarrow> (WatchdogError + unit) \<times> doc_fs" where
  "watchdog_open W stat_failed = with_store W stat_failed (\<lambda>s. Inr (s, ()))"

definition watchdog_scan ::
  "watchdog_env \<Rightarrow> TaskWatchdogConfig \<Rightarrow> TaskServiceSnapshot \<Rightarrow> TaskWatchdogActivityProjection list \<Rightarrow> instant \<Rightarrow> bool \<Rightarrow>
     doc_io \<Rightarrow> doc_fs \<Rightarrow> (WatchdogError + TaskWatchdogScanOutcome) \<times> doc_fs" where
  "watchdog_scan W config snapshot activity now stat_failed =
     with_store W stat_failed (scan_store W snapshot activity now config)"

definition record_delivery_fact ::
  "watchdog_env \<Rightarrow> bytes \<Rightarrow> TaskWatchdogDeliveryFactKind \<Rightarrow> bytes option \<Rightarrow> instant \<Rightarrow> bool \<Rightarrow> doc_io \<Rightarrow> doc_fs \<Rightarrow>
     (WatchdogError + unit) \<times> doc_fs" where
  "record_delivery_fact W notification_id kind reference now stat_failed =
     with_store W stat_failed (record_fact_on notification_id kind reference (format_time W now))"

definition watchdog_notification ::
  "watchdog_env \<Rightarrow> bytes \<Rightarrow> bool \<Rightarrow> doc_io \<Rightarrow> doc_fs \<Rightarrow> (WatchdogError + TaskWatchdogNotification option) \<times> doc_fs" where
  "watchdog_notification W notification_id stat_failed =
     with_store W stat_failed (\<lambda>s. Inr (s, notification_on notification_id s))"

end
