(* ===== verification/Watchdog_Properties.thy ===== *)
theory Watchdog_Properties
  imports Task_Watchdog
begin

text \<open>
  The proofs about the watchdog: a watermark is never older than any activity it was made from,
  an iteration of the scan touches its own attempt only, and every document that calls of the
  watchdog can leave on disk satisfies \<open>watchdog_inv\<close>.
\<close>

section \<open>Watermarks\<close>

definition watermark_ok :: "watchdog_env \<Rightarrow> Watermark \<Rightarrow> bool" where
  "watermark_ok W w \<longleftrightarrow> wd_parse W (wk_encoded w) = Some (wk_time w)"

text \<open>No activity the scan counts for this attempt is later than \<open>t\<close>.\<close>

definition no_later_activity ::
  "watchdog_env \<Rightarrow> Assignment \<Rightarrow> Attempt \<Rightarrow> TaskWatchdogActivityProjection list \<Rightarrow> instant \<Rightarrow> bool" where
  "no_later_activity W a attempt activity t \<longleftrightarrow>
     (\<forall>u. wd_parse W (ap_updated_at attempt) = Some u \<longrightarrow> u \<le> t) \<and>
     (\<forall>u. ap_status_receipts attempt \<noteq> [] \<longrightarrow> wd_parse W (last (ap_status_receipts attempt)) = Some u \<longrightarrow> u \<le> t) \<and>
     (\<forall>p u v. p \<in> set activity \<longrightarrow> projection_matches a attempt p \<longrightarrow> wd_parse W (ap_started_at attempt) = Some v \<longrightarrow>
        wd_parse W (pj_updated_at p) = Some u \<longrightarrow> v \<le> u \<longrightarrow> u \<le> t)"

lemma no_later_mono: "no_later_activity W a attempt activity t \<Longrightarrow> t \<le> t' \<Longrightarrow> no_later_activity W a attempt activity t'"
  unfolding no_later_activity_def by (meson order_trans)

lemma consider_time:
  "wk_time w \<le> wk_time (consider_watermark w t e k n)" "t \<le> wk_time (consider_watermark w t e k n)"
  by (auto simp: consider_watermark_def)

lemma consider_ok:
  "watermark_ok W w \<Longrightarrow> wd_parse W e = Some t \<Longrightarrow> watermark_ok W (consider_watermark w t e k n)"
  by (simp add: consider_watermark_def watermark_ok_def)

lemma parse_time_Inr: "parse_time W s = Inr t \<longleftrightarrow> wd_parse W s = Some t"
  by (auto simp: parse_time_def res_simps)

lemma consider_projections_Inr:
  assumes "consider_projections W a attempt ps w = Inr w'" and "watermark_ok W w"
  shows "watermark_ok W w' \<and> wk_time w \<le> wk_time w' \<and> (\<forall>p u v. p \<in> set ps \<longrightarrow> projection_matches a attempt p \<longrightarrow>
    wd_parse W (ap_started_at attempt) = Some v \<longrightarrow> wd_parse W (pj_updated_at p) = Some u \<longrightarrow> v \<le> u \<longrightarrow> u \<le> wk_time w')"
  using assms
proof (induction W a attempt ps w rule: consider_projections.induct)
  case (2 W a attempt p ps w)
  show ?case
  proof (cases "projection_matches a attempt p")
    case False
    then show ?thesis using 2 by auto
  next
    case True
    then obtain t v where t: "wd_parse W (pj_updated_at p) = Some t" "wd_parse W (ap_started_at attempt) = Some v"
      using "2.prems"(1) by (auto simp: res_simps parse_time_Inr)
    let ?w = "if t < v then w else consider_watermark w t (pj_updated_at p) (pj_activity_kind p) (pj_source_sequence p)"
    have rest: "consider_projections W a attempt ps ?w = Inr w'"
      using "2.prems"(1) True t by (auto simp: res_simps parse_time_Inr split: if_splits)
    have ok: "watermark_ok W ?w" using "2.prems"(2) t(1) by (simp add: consider_ok)
    have "watermark_ok W w' \<and> wk_time ?w \<le> wk_time w' \<and> (\<forall>p u v. p \<in> set ps \<longrightarrow> projection_matches a attempt p \<longrightarrow>
      wd_parse W (ap_started_at attempt) = Some v \<longrightarrow> wd_parse W (pj_updated_at p) = Some u \<longrightarrow> v \<le> u \<longrightarrow> u \<le> wk_time w')"
      using 2(2,3) True t rest ok by (auto simp: parse_time_Inr split: if_splits)
    moreover have "wk_time w \<le> wk_time ?w" "\<not> t < v \<Longrightarrow> t \<le> wk_time ?w"
      by (auto simp: consider_time)
    ultimately show ?thesis using t by (auto simp del: consider_projections.simps intro: order_trans)
  qed
qed simp

lemma authoritative_Inr:
  assumes "authoritative_watermark W snapshot a attempt activity = Inr w"
  shows "watermark_ok W w \<and> no_later_activity W a attempt activity (wk_time w)"
proof -
  obtain t where t: "wd_parse W (ap_updated_at attempt) = Some t"
    using assms by (auto simp: authoritative_watermark_def res_simps parse_time_Inr)
  let ?w0 = "\<lparr>wk_time = t, wk_encoded = ap_updated_at attempt, wk_kind = PhaseTransition,
      wk_source_sequence = sp_journal_sequence snapshot\<rparr>"
  obtain w1 where w1: "(if ap_status_receipts attempt = [] then Inr ?w0
      else let recorded_at = last (ap_status_receipts attempt) in
        res_bind (parse_time W recorded_at) (\<lambda>t.
        Inr (consider_watermark ?w0 t recorded_at StatusProgress (sp_journal_sequence snapshot)))) = Inr w1"
      "consider_projections W a attempt activity w1 = Inr w"
    using assms t by (auto simp: authoritative_watermark_def res_simps parse_time_Inr Let_def)
  have ok: "watermark_ok W ?w0" using t by (simp add: watermark_ok_def)
  have status: "watermark_ok W w1 \<and> t \<le> wk_time w1 \<and> (\<forall>u. ap_status_receipts attempt \<noteq> [] \<longrightarrow>
      wd_parse W (last (ap_status_receipts attempt)) = Some u \<longrightarrow> u \<le> wk_time w1)"
    using w1(1) ok consider_time [where w = ?w0]
    by (auto simp: res_simps parse_time_Inr Let_def intro: consider_ok split: if_splits)
  with consider_projections_Inr [OF w1(2)] t show ?thesis
    unfolding no_later_activity_def by (auto intro: order_trans)
qed

text \<open>The watermark a scan uses for an attempt, and what it stores.\<close>

lemma monotonic_Inr:
  assumes "monotonic_watermark W s key observed = Inr (w, s')" and "watermark_ok W observed"
  shows "watermark_ok W w" and "wk_time observed \<le> wk_time w"
    and "s' = s\<lparr>ws_watermarks := bt_insert key \<lparr>pw_encoded = wk_encoded w, pw_kind = wk_kind w,
       pw_source_sequence = wk_source_sequence w\<rparr> (ws_watermarks s)\<rparr>"
    and "\<forall>p t. bt_get (ws_watermarks s) key = Some p \<longrightarrow> wd_parse W (pw_encoded p) = Some t \<longrightarrow> t \<le> wk_time w"
proof -
  from assms(1) have "(case persisted_watermark s key of
         None \<Rightarrow> Inr observed
       | Some p \<Rightarrow> res_bind (parse_time W (pw_encoded p)) (\<lambda>time.
           Inr (consider_watermark \<lparr>wk_time = time, wk_encoded = pw_encoded p, wk_kind = pw_kind p,
               wk_source_sequence = pw_source_sequence p\<rparr>
             (wk_time observed) (wk_encoded observed) (wk_kind observed) (wk_source_sequence observed)))) = Inr w"
    and s': "s' = s\<lparr>ws_watermarks := bt_insert key \<lparr>pw_encoded = wk_encoded w, pw_kind = wk_kind w,
       pw_source_sequence = wk_source_sequence w\<rparr> (ws_watermarks s)\<rparr>"
    by (auto simp: monotonic_watermark_def res_simps)
  then consider (new) "persisted_watermark s key = None" "w = observed"
    | (old) p t where "persisted_watermark s key = Some p" "wd_parse W (pw_encoded p) = Some t"
        "w = consider_watermark \<lparr>wk_time = t, wk_encoded = pw_encoded p, wk_kind = pw_kind p,
               wk_source_sequence = pw_source_sequence p\<rparr>
             (wk_time observed) (wk_encoded observed) (wk_kind observed) (wk_source_sequence observed)"
    by (auto simp: res_simps parse_time_Inr split: option.splits)
  then have "watermark_ok W w \<and> wk_time observed \<le> wk_time w \<and>
    (\<forall>p t. bt_get (ws_watermarks s) key = Some p \<longrightarrow> wd_parse W (pw_encoded p) = Some t \<longrightarrow> t \<le> wk_time w)"
  proof cases
    case new
    then show ?thesis using assms(2) by (auto simp: persisted_watermark_def split: option.splits)
  next
    case old
    let ?p = "\<lparr>wk_time = t, wk_encoded = pw_encoded p, wk_kind = pw_kind p, wk_source_sequence = pw_source_sequence p\<rparr>"
    have "watermark_ok W ?p" using old(2) by (simp add: watermark_ok_def)
    then have "watermark_ok W w" using assms(2) unfolding old(3) watermark_ok_def [of W observed] by (rule consider_ok)
    then show ?thesis
      using consider_time [where w = ?p] old by (auto simp: persisted_watermark_def split: option.splits)
  qed
  then show "watermark_ok W w" "wk_time observed \<le> wk_time w"
    "\<forall>p t. bt_get (ws_watermarks s) key = Some p \<longrightarrow> wd_parse W (pw_encoded p) = Some t \<longrightarrow> t \<le> wk_time w" by auto
  show "s' = s\<lparr>ws_watermarks := bt_insert key \<lparr>pw_encoded = wk_encoded w, pw_kind = wk_kind w,
       pw_source_sequence = wk_source_sequence w\<rparr> (ws_watermarks s)\<rparr>" by (rule s')
qed

section \<open>The invariant\<close>

text \<open>
  An episode has one fact and one notification for each stage it reached, in their order, all made for
  its watermark.
\<close>

definition episode_ok :: "watchdog_env \<Rightarrow> bytes \<Rightarrow> TaskWatchdogEpisode \<Rightarrow> bool" where
  "episode_ok W key e \<longleftrightarrow>
     we_episode_id e = stable_id W ''twe_'' (key @ ''|'' @ we_activity_watermark e) 32 \<and>
     map wf_stage (we_facts e) \<in> {[FirstStale], [FirstStale, DirectorEscalated]} \<and>
     map wn_stage (we_notifications e) = map wf_stage (we_facts e) \<and>
     (\<forall>f \<in> set (we_facts e). wf_activity_watermark f = we_activity_watermark e \<and> wf_episode_id f = we_episode_id e) \<and>
     (\<forall>n \<in> set (we_notifications e). wn_episode_id n = we_episode_id e \<and>
        wn_notification_id n = stable_id W ''twn_'' (we_episode_id e @ ''|'' @ event_key (wn_stage n)) 32)"

definition watchdog_inv :: "watchdog_env \<Rightarrow> TaskWatchdogStore \<Rightarrow> bool" where
  "watchdog_inv W s \<longleftrightarrow> bt_ok (ws_episodes s) \<and> bt_ok (ws_watermarks s) \<and> bt_ok (ws_retired s) \<and>
     (\<forall>key e. bt_get (ws_episodes s) key = Some e \<longrightarrow> episode_ok W key e \<and>
        (\<exists>p. bt_get (ws_watermarks s) key = Some p \<and> pw_encoded p = we_activity_watermark e))"

definition fresh_episode :: "watchdog_env \<Rightarrow> bytes \<Rightarrow> Watermark \<Rightarrow> TaskWatchdogEpisode" where
  "fresh_episode W key w = \<lparr>we_episode_id = stable_id W ''twe_'' (key @ ''|'' @ wk_encoded w) 32,
     we_activity_watermark = wk_encoded w, we_facts = [], we_notifications = []\<rparr>"

text \<open>A fact that this scan adds for the assignment.\<close>

definition new_fact ::
  "watchdog_env \<Rightarrow> TaskWatchdogConfig \<Rightarrow> instant \<Rightarrow> Assignment \<Rightarrow> u64 \<Rightarrow> Watermark \<Rightarrow> TaskWatchdogFact \<Rightarrow> bool" where
  "new_fact W config now a n w f \<longleftrightarrow> wf_assignment_id f = as_assignment_id a \<and> wf_attempt_number f = n \<and>
     wf_assignee_cutex_session_id f = as_assignee_cutex_session a \<and> wf_activity_watermark f = wk_encoded w \<and>
     wf_idle_duration_secs f = idle_seconds W now w \<and>
     (wf_stage f = DirectorEscalated \<longrightarrow>
        saturating_add (cf_first_stale_threshold config) (cf_director_escalation_interval config) \<le> idle_seconds W now w)"

definition staged ::
  "watchdog_env \<Rightarrow> TaskWatchdogConfig \<Rightarrow> instant \<Rightarrow> Assignment \<Rightarrow> u64 \<Rightarrow> id \<Rightarrow> Watermark \<Rightarrow> TaskWatchdogEpisode \<Rightarrow> TaskWatchdogEpisode" where
  "staged W config now a n seat w e =
     (let idle = idle_seconds W now w; e = ensure_stage W e FirstStale idle now a n seat w in
      if idle \<ge> saturating_add (cf_first_stale_threshold config) (cf_director_escalation_interval config)
      then ensure_stage W e DirectorEscalated idle now a n seat w else e)"

lemma ensure_stage_has: "\<exists>f \<in> set (we_facts (ensure_stage W e stage idle now a n seat w)). wf_stage f = stage"
  by (auto simp: ensure_stage_def stage_fact_def)

lemma ensure_stage_adds:
  "f \<in> set (we_facts (ensure_stage W e stage idle now a n seat w)) \<Longrightarrow>
     f \<in> set (we_facts e) \<or> f = stage_fact W e stage idle now a n w"
  "f \<in> set (we_facts e) \<Longrightarrow> f \<in> set (we_facts (ensure_stage W e stage idle now a n seat w))"
  by (auto simp: ensure_stage_def split: if_splits)

lemma ensure_first_ok:
  assumes "e = fresh_episode W key w \<or> episode_ok W key e \<and> we_activity_watermark e = wk_encoded w"
  shows "episode_ok W key (ensure_stage W e FirstStale idle now a n seat w) \<and>
    we_activity_watermark (ensure_stage W e FirstStale idle now a n seat w) = wk_encoded w"
  using assms
  by (auto simp: ensure_stage_def fresh_episode_def episode_ok_def stage_fact_def stage_notification_def Let_def)

lemma ensure_director_ok:
  assumes "episode_ok W key e" and "we_activity_watermark e = wk_encoded w"
  shows "episode_ok W key (ensure_stage W e DirectorEscalated idle now a n seat w) \<and>
    we_activity_watermark (ensure_stage W e DirectorEscalated idle now a n seat w) = wk_encoded w"
  using assms
  by (auto simp: ensure_stage_def episode_ok_def stage_fact_def stage_notification_def Let_def)

lemma staged_ok:
  assumes "e = fresh_episode W key w \<or> episode_ok W key e \<and> we_activity_watermark e = wk_encoded w"
  shows "episode_ok W key (staged W config now a n seat w e)"
    and "we_activity_watermark (staged W config now a n seat w e) = wk_encoded w"
  using ensure_first_ok [OF assms] ensure_director_ok [of W key "ensure_stage W e FirstStale (idle_seconds W now w) now a n seat w" w]
  by (auto simp: staged_def Let_def)

lemma staged_facts:
  "f \<in> set (we_facts (staged W config now a n seat w e)) \<Longrightarrow> f \<in> set (we_facts e) \<or> new_fact W config now a n w f"
  "\<exists>f \<in> set (we_facts (staged W config now a n seat w e)). wf_stage f = FirstStale"
  "saturating_add (cf_first_stale_threshold config) (cf_director_escalation_interval config) \<le> idle_seconds W now w \<Longrightarrow>
     \<exists>f \<in> set (we_facts (staged W config now a n seat w e)). wf_stage f = DirectorEscalated"
proof -
  let ?i = "idle_seconds W now w"
  show "f \<in> set (we_facts e) \<or> new_fact W config now a n w f" if "f \<in> set (we_facts (staged W config now a n seat w e))"
    using that by (auto simp: staged_def Let_def new_fact_def stage_fact_def split: if_splits dest!: ensure_stage_adds(1))
  show "\<exists>f \<in> set (we_facts (staged W config now a n seat w e)). wf_stage f = FirstStale"
    using ensure_stage_has [of W e FirstStale ?i now a n seat w] ensure_stage_adds(2) by (fastforce simp: staged_def Let_def)
  show "\<exists>f \<in> set (we_facts (staged W config now a n seat w e)). wf_stage f = DirectorEscalated"
    if "saturating_add (cf_first_stale_threshold config) (cf_director_escalation_interval config) \<le> ?i"
    using that ensure_stage_has by (simp add: staged_def Let_def)
qed

section \<open>An iteration of the scan\<close>

lemma retire_notifications_ok: "bt_ok retired \<Longrightarrow> bt_ok (retire_notifications W key now ns retired)"
  by (induction ns arbitrary: retired) auto

lemma retire_episode_facts:
  assumes "retire_episode W key now (s, c) = (s', c')"
  shows "ws_watermarks s' = ws_watermarks s"
    and "bt_get (ws_episodes s') k = (if k = key then None else bt_get (ws_episodes s) k)"
    and "bt_ok (ws_episodes s) \<Longrightarrow> bt_ok (ws_episodes s')" and "bt_ok (ws_retired s) \<Longrightarrow> bt_ok (ws_retired s')"
  using assms by (auto simp: retire_episode_def bt_simps retire_notifications_ok split: option.splits)

text \<open>What an iteration does with a running attempt whose watermark is \<open>w\<close>.\<close>

definition iterated ::
  "watchdog_env \<Rightarrow> TaskWatchdogConfig \<Rightarrow> instant \<Rightarrow> Assignment \<Rightarrow> u64 \<Rightarrow> id \<Rightarrow> bytes \<Rightarrow> Watermark \<Rightarrow> scan_state \<Rightarrow> scan_state \<Rightarrow> bool" where
  "iterated W config now a n seat key w st st' \<longleftrightarrow>
     (let before = (case bt_get (ws_episodes (sc_store st)) key of
            Some e \<Rightarrow> if we_activity_watermark e = wk_encoded w then Some e else None | None \<Rightarrow> None);
          e = staged W config now a n seat w (case before of Some e \<Rightarrow> e | None \<Rightarrow> fresh_episode W key w);
          stale = (cf_first_stale_threshold config \<le> idle_seconds W now w)
      in ws_watermarks (sc_store st') = bt_insert key \<lparr>pw_encoded = wk_encoded w, pw_kind = wk_kind w,
            pw_source_sequence = wk_source_sequence w\<rparr> (ws_watermarks (sc_store st)) \<and>
         (\<forall>k. bt_get (ws_episodes (sc_store st')) k =
            (if k \<noteq> key then bt_get (ws_episodes (sc_store st)) k else if stale then Some e else before)) \<and>
         (bt_ok (ws_episodes (sc_store st)) \<longrightarrow> bt_ok (ws_episodes (sc_store st'))) \<and>
         (bt_ok (ws_retired (sc_store st)) \<longrightarrow> bt_ok (ws_retired (sc_store st'))) \<and>
         sc_active st' = key # sc_active st \<and>
         sc_presentations st' = sc_presentations st @ (if stale then we_facts e else []) \<and>
         sc_notifications st' = sc_notifications st @ (if stale then filter (\<lambda>n. \<not> is_delivered n) (we_notifications e) else []))"

lemma scan_assignment_Inr:
  assumes "scan_assignment W config snapshot activity now a st = Inr st'"
    and "running_attempt snapshot a = Some (n, attempt, task)"
  shows "\<exists>observed w s. authoritative_watermark W snapshot a attempt activity = Inr observed \<and>
    monotonic_watermark W (sc_store st) (assignment_key W a n) observed = Inr (w, s) \<and>
    iterated W config now a n (tv_authority_seat_id task) (assignment_key W a n) w st st'"
proof -
  let ?key = "assignment_key W a n"
  obtain observed w s where o: "authoritative_watermark W snapshot a attempt activity = Inr observed"
      "monotonic_watermark W (sc_store st) ?key observed = Inr (w, s)"
    using assms by (auto simp: scan_assignment_def Let_def res_simps)
  have s: "s = (sc_store st)\<lparr>ws_watermarks := bt_insert ?key \<lparr>pw_encoded = wk_encoded w, pw_kind = wk_kind w,
       pw_source_sequence = wk_source_sequence w\<rparr> (ws_watermarks (sc_store st))\<rparr>"
    by (rule monotonic_Inr(3) [OF o(2)]) (use authoritative_Inr [OF o(1)] in simp)
  let ?changed = "case bt_get (ws_episodes s) ?key of None \<Rightarrow> False | Some e \<Rightarrow> we_activity_watermark e \<noteq> wk_encoded w"
  obtain s2 c where c: "(if ?changed then retire_episode W ?key now (s, sc_cancelled st) else (s, sc_cancelled st)) = (s2, c)"
    by (cases "if ?changed then retire_episode W ?key now (s, sc_cancelled st) else (s, sc_cancelled st)")
  have st': "st' = report_stages W config now a n task ?key w
      (st\<lparr>sc_store := s2, sc_active := ?key # sc_active st, sc_cancelled := c\<rparr>)"
    using assms o c by (auto simp: scan_assignment_def Let_def res_simps)
  have s2: "ws_watermarks s2 = ws_watermarks s" "bt_ok (ws_episodes s) \<Longrightarrow> bt_ok (ws_episodes s2)"
      "bt_ok (ws_retired s) \<Longrightarrow> bt_ok (ws_retired s2)"
      "bt_get (ws_episodes s2) k = (if k = ?key \<and> ?changed then None else bt_get (ws_episodes s) k)" for k
    using c retire_episode_facts [of W ?key now s "sc_cancelled st" s2 c] by (auto split: if_splits)
  have "iterated W config now a n (tv_authority_seat_id task) ?key w st st'"
    unfolding iterated_def st' report_stages_def staged_def fresh_episode_def Let_def
    using s s2 by (auto simp: bt_simps split: option.splits if_splits)
  with o show ?thesis by blast
qed

lemma scan_assignment_idle: "running_attempt snapshot a = None \<Longrightarrow> scan_assignment W config snapshot activity now a st = Inr st"
  by (simp add: scan_assignment_def)

lemma iterated_inv:
  assumes "iterated W config now a n seat key w st st'" and inv: "watchdog_inv W (sc_store st)"
  shows "watchdog_inv W (sc_store st')"
proof -
  define before where "before = (case bt_get (ws_episodes (sc_store st)) key of
      Some e \<Rightarrow> if we_activity_watermark e = wk_encoded w then Some e else None | None \<Rightarrow> None)"
  define e where "e = staged W config now a n seat w (case before of Some e \<Rightarrow> e | None \<Rightarrow> fresh_episode W key w)"
  have it: "ws_watermarks (sc_store st') = bt_insert key \<lparr>pw_encoded = wk_encoded w, pw_kind = wk_kind w,
        pw_source_sequence = wk_source_sequence w\<rparr> (ws_watermarks (sc_store st))"
      "bt_get (ws_episodes (sc_store st')) k = (if k \<noteq> key then bt_get (ws_episodes (sc_store st)) k
        else if cf_first_stale_threshold config \<le> idle_seconds W now w then Some e else before)"
      "bt_ok (ws_episodes (sc_store st'))" "bt_ok (ws_retired (sc_store st'))" for k
    using assms unfolding iterated_def watchdog_inv_def Let_def before_def [symmetric] e_def [symmetric] by auto
  have was: "episode_ok W key b \<and> we_activity_watermark b = wk_encoded w" if "before = Some b" for b
    using inv that by (auto simp: before_def watchdog_inv_def split: option.splits if_splits)
  have "episode_ok W key e \<and> we_activity_watermark e = wk_encoded w"
    using staged_ok [of "case before of Some e \<Rightarrow> e | None \<Rightarrow> fresh_episode W key w" W key w] was
    unfolding e_def by (auto split: option.splits)
  with was it inv show ?thesis
    by (auto simp: watchdog_inv_def bt_simps split: if_splits)
qed

lemma scan_assignment_inv:
  "scan_assignment W config snapshot activity now a st = Inr st' \<Longrightarrow> watchdog_inv W (sc_store st) \<Longrightarrow> watchdog_inv W (sc_store st')"
  by (cases "running_attempt snapshot a")
    (auto simp: scan_assignment_idle dest!: scan_assignment_Inr intro: iterated_inv)

lemma scan_assignments_rule:
  assumes "scan_assignments W config snapshot activity now as st = Inr st'" and "P st"
    and "\<And>a st st'. a \<in> set as \<Longrightarrow> P st \<Longrightarrow> scan_assignment W config snapshot activity now a st = Inr st' \<Longrightarrow> P st'"
  shows "P st'"
  using assms by (induction as arbitrary: st) (auto simp: res_simps)

section \<open>The end of the scan\<close>

lemma retire_inactive_facts:
  assumes "retire_inactive W now keys (s, c) = (s', c')"
  shows "(\<forall>k. bt_get (ws_episodes s') k = (if k \<in> set keys then None else bt_get (ws_episodes s) k)) \<and>
    (\<forall>k. bt_get (ws_watermarks s') k = (if k \<in> set keys then None else bt_get (ws_watermarks s) k)) \<and>
    (bt_ok (ws_episodes s) \<longrightarrow> bt_ok (ws_episodes s')) \<and> (bt_ok (ws_watermarks s) \<longrightarrow> bt_ok (ws_watermarks s')) \<and>
    (bt_ok (ws_retired s) \<longrightarrow> bt_ok (ws_retired s'))"
  using assms
proof (induction keys arbitrary: s c)
  case (Cons key keys)
  obtain s1 c1 where r: "retire_episode W key now (s, c) = (s1, c1)" by (cases "retire_episode W key now (s, c)")
  have rest: "retire_inactive W now keys (s1\<lparr>ws_watermarks := bt_remove key (ws_watermarks s1)\<rparr>, c1) = (s', c')"
    using Cons.prems by (simp add: r Let_def)
  show ?case
    using Cons.IH [OF rest] retire_episode_facts [OF r] by (auto simp: bt_simps)
qed simp

lemma prune_retired_ok: "bt_ok m \<Longrightarrow> bt_ok (prune_retired m)"
  by (induction m rule: prune_retired.induct) (subst prune_retired.simps, auto split: option.splits)

lemma prune_retired_bound: "length (prune_retired m) \<le> MAX_RETIRED_NOTIFICATIONS"
proof (induction m rule: prune_retired.induct)
  case (1 m)
  have "oldest_retired m \<noteq> None" if "length m > MAX_RETIRED_NOTIFICATIONS"
    using that by (cases m) auto
  with 1 show ?case by (subst prune_retired.simps) (auto split: option.splits)
qed

text \<open>The outcome of a scan is what the loop collected; the attempts it saw keep their entries.\<close>

lemma scan_store_Inr:
  assumes "scan_store W snapshot activity now config s = Inr (s', outcome)"
  obtains st where "scan_assignments W config snapshot activity now (bt_values (sp_assignments snapshot))
      \<lparr>sc_store = s, sc_active = [], sc_presentations = [], sc_notifications = [], sc_cancelled = []\<rparr> = Inr st"
    and "wo_presentations outcome = sc_presentations st" and "wo_notifications outcome = sc_notifications st"
    and "\<And>k. bt_get (ws_episodes s') k = (if k \<in> set (sc_active st) then bt_get (ws_episodes (sc_store st)) k else None)"
    and "\<And>k. bt_get (ws_watermarks s') k = (if k \<in> set (sc_active st) then bt_get (ws_watermarks (sc_store st)) k else None)"
    and "watchdog_inv W (sc_store st) \<Longrightarrow> watchdog_inv W s'" and "length (ws_retired s') \<le> MAX_RETIRED_NOTIFICATIONS"
proof -
  obtain st s1 c where st: "scan_assignments W config snapshot activity now (bt_values (sp_assignments snapshot))
      \<lparr>sc_store = s, sc_active = [], sc_presentations = [], sc_notifications = [], sc_cancelled = []\<rparr> = Inr st"
      and r: "retire_inactive W now (inactive_keys (sc_store st) (sc_active st)) (sc_store st, sc_cancelled st) = (s1, c)"
      and s': "s' = prune_retired_notifications s1" "outcome = \<lparr>wo_presentations = sc_presentations st,
          wo_notifications = sc_notifications st, wo_cancelled_notification_ids = c\<rparr>"
  proof -
    from assms obtain st where st: "scan_assignments W config snapshot activity now (bt_values (sp_assignments snapshot))
        \<lparr>sc_store = s, sc_active = [], sc_presentations = [], sc_notifications = [], sc_cancelled = []\<rparr> = Inr st"
      by (auto simp: scan_store_def res_simps)
    obtain s1 c where "retire_inactive W now (inactive_keys (sc_store st) (sc_active st)) (sc_store st, sc_cancelled st) = (s1, c)"
      by (cases "retire_inactive W now (inactive_keys (sc_store st) (sc_active st)) (sc_store st, sc_cancelled st)")
    with st assms that show ?thesis by (auto simp: scan_store_def res_simps Let_def)
  qed
  have inactive: "k \<in> set (inactive_keys (sc_store st) (sc_active st)) \<longleftrightarrow> k \<notin> set (sc_active st) \<and>
      (bt_get (ws_episodes (sc_store st)) k \<noteq> None \<or> bt_get (ws_watermarks (sc_store st)) k \<noteq> None)" for k
    using bt_keys_get [of k "ws_episodes (sc_store st)"] bt_keys_get [of k "ws_watermarks (sc_store st)"]
    by (auto simp: inactive_keys_def bt_keys_def)
  have episodes: "bt_get (ws_episodes s') k = (if k \<in> set (sc_active st) then bt_get (ws_episodes (sc_store st)) k else None)" for k
    using retire_inactive_facts [OF r] inactive [of k] s'(1) by (auto simp: prune_retired_notifications_def)
  have watermarks: "bt_get (ws_watermarks s') k = (if k \<in> set (sc_active st) then bt_get (ws_watermarks (sc_store st)) k else None)" for k
    using retire_inactive_facts [OF r] inactive [of k] s'(1) by (auto simp: prune_retired_notifications_def)
  have "watchdog_inv W s'" if "watchdog_inv W (sc_store st)"
    using that retire_inactive_facts [OF r] episodes watermarks s'(1)
    by (auto simp: watchdog_inv_def prune_retired_notifications_def prune_retired_ok split: if_splits)
  moreover have "length (ws_retired s') \<le> MAX_RETIRED_NOTIFICATIONS"
    using s'(1) prune_retired_bound by (simp add: prune_retired_notifications_def)
  ultimately show ?thesis using that st s'(2) episodes watermarks by simp
qed

lemma scan_store_inv:
  assumes "scan_store W snapshot activity now config s = Inr (s', outcome)" and "watchdog_inv W s"
  shows "watchdog_inv W s'"
  using assms(1)
proof (rule scan_store_Inr)
  fix st
  assume run: "scan_assignments W config snapshot activity now (bt_values (sp_assignments snapshot))
      \<lparr>sc_store = s, sc_active = [], sc_presentations = [], sc_notifications = [], sc_cancelled = []\<rparr> = Inr st"
    and keep: "watchdog_inv W (sc_store st) \<Longrightarrow> watchdog_inv W s'"
  have "watchdog_inv W (sc_store st)"
    by (rule scan_assignments_rule [OF run]) (use assms(2) scan_assignment_inv in auto)
  then show ?thesis by (rule keep)
qed

section \<open>Why a fact is presented\<close>

definition stored_fact :: "TaskWatchdogStore \<Rightarrow> TaskWatchdogFact \<Rightarrow> bool" where
  "stored_fact s f \<longleftrightarrow> (\<exists>key e. bt_get (ws_episodes s) key = Some e \<and> f \<in> set (we_facts e))"

definition justified ::
  "watchdog_env \<Rightarrow> TaskWatchdogConfig \<Rightarrow> TaskServiceSnapshot \<Rightarrow> TaskWatchdogActivityProjection list \<Rightarrow> instant \<Rightarrow>
     TaskWatchdogStore \<Rightarrow> TaskWatchdogFact \<Rightarrow> bool" where
  "justified W config snapshot activity now s f \<longleftrightarrow> (\<exists>a n attempt task w.
     a \<in> set (bt_values (sp_assignments snapshot)) \<and> running_attempt snapshot a = Some (n, attempt, task) \<and>
     wf_activity_watermark f = wk_encoded w \<and> wd_parse W (wk_encoded w) = Some (wk_time w) \<and>
     no_later_activity W a attempt activity (wk_time w) \<and> cf_first_stale_threshold config \<le> idle_seconds W now w \<and>
     (stored_fact s f \<or> new_fact W config now a n w f))"

lemma iterated_facts:
  assumes "iterated W config now a n seat key w st st'" and inv: "watchdog_inv W (sc_store st)"
  shows "f \<in> set (sc_presentations st') \<Longrightarrow> f \<in> set (sc_presentations st) \<or>
      cf_first_stale_threshold config \<le> idle_seconds W now w \<and> wf_activity_watermark f = wk_encoded w \<and>
      (stored_fact (sc_store st) f \<or> new_fact W config now a n w f)"
    and "stored_fact (sc_store st') f \<Longrightarrow> stored_fact (sc_store st) f \<or>
      cf_first_stale_threshold config \<le> idle_seconds W now w \<and> wf_activity_watermark f = wk_encoded w \<and>
      new_fact W config now a n w f"
proof -
  define before where "before = (case bt_get (ws_episodes (sc_store st)) key of
      Some e \<Rightarrow> if we_activity_watermark e = wk_encoded w then Some e else None | None \<Rightarrow> None)"
  define e where "e = staged W config now a n seat w (case before of Some e \<Rightarrow> e | None \<Rightarrow> fresh_episode W key w)"
  have it: "bt_get (ws_episodes (sc_store st')) k = (if k \<noteq> key then bt_get (ws_episodes (sc_store st)) k
        else if cf_first_stale_threshold config \<le> idle_seconds W now w then Some e else before)"
      "sc_presentations st' = sc_presentations st @ (if cf_first_stale_threshold config \<le> idle_seconds W now w then we_facts e else [])" for k
    using assms(1) unfolding iterated_def Let_def before_def [symmetric] e_def [symmetric] by auto
  have was: "bt_get (ws_episodes (sc_store st)) key = Some b" "episode_ok W key b" "we_activity_watermark b = wk_encoded w"
    if "before = Some b" for b
    using inv that by (auto simp: before_def watchdog_inv_def split: option.splits if_splits)
  have facts: "wf_activity_watermark f = wk_encoded w \<and> (stored_fact (sc_store st) f \<or> new_fact W config now a n w f)"
    if "f \<in> set (we_facts e)" for f
  proof (cases before)
    case None
    then have "new_fact W config now a n w f"
      using staged_facts(1) [OF that [unfolded e_def]] by (simp add: fresh_episode_def)
    then show ?thesis by (simp add: new_fact_def)
  next
    case (Some b)
    have "f \<in> set (we_facts b) \<or> new_fact W config now a n w f"
      using staged_facts(1) [OF that [unfolded e_def]] by (simp add: Some)
    then show ?thesis
      using was [OF Some] by (auto simp: new_fact_def stored_fact_def episode_ok_def)
  qed
  show "f \<in> set (sc_presentations st) \<or>
      cf_first_stale_threshold config \<le> idle_seconds W now w \<and> wf_activity_watermark f = wk_encoded w \<and>
      (stored_fact (sc_store st) f \<or> new_fact W config now a n w f)" if "f \<in> set (sc_presentations st')"
    using that it(2) facts by (auto split: if_splits)
  show "stored_fact (sc_store st) f \<or>
      cf_first_stale_threshold config \<le> idle_seconds W now w \<and> wf_activity_watermark f = wk_encoded w \<and>
      new_fact W config now a n w f" if f: "stored_fact (sc_store st') f"
  proof -
    obtain k x where x: "bt_get (ws_episodes (sc_store st')) k = Some x" "f \<in> set (we_facts x)"
      using f by (auto simp: stored_fact_def)
    consider "k \<noteq> key" | "k = key" "cf_first_stale_threshold config \<le> idle_seconds W now w"
      | "k = key" "\<not> cf_first_stale_threshold config \<le> idle_seconds W now w" by blast
    then show ?thesis
    proof cases
      case 1
      then have "bt_get (ws_episodes (sc_store st)) k = Some x" using x(1) it(1) by simp
      then show ?thesis using x(2) by (auto simp: stored_fact_def)
    next
      case 2
      then have "x = e" using x(1) it(1) by simp
      then show ?thesis using 2(2) facts [of f] x(2) by simp
    next
      case 3
      then have "before = Some x" using x(1) it(1) by simp
      then show ?thesis using was(1) x(2) by (auto simp: stored_fact_def)
    qed
  qed
qed

lemma scan_justified:
  assumes "scan_store W snapshot activity now config s = Inr (s', outcome)" and inv: "watchdog_inv W s"
    and "f \<in> set (wo_presentations outcome)"
  shows "justified W config snapshot activity now s f"
proof -
  let ?J = "justified W config snapshot activity now s"
  obtain st where run: "scan_assignments W config snapshot activity now (bt_values (sp_assignments snapshot))
      \<lparr>sc_store = s, sc_active = [], sc_presentations = [], sc_notifications = [], sc_cancelled = []\<rparr> = Inr st"
    and out: "wo_presentations outcome = sc_presentations st"
    by (rule scan_store_Inr [OF assms(1)])
  let ?P = "\<lambda>st. watchdog_inv W (sc_store st) \<and> (\<forall>f. stored_fact (sc_store st) f \<longrightarrow> stored_fact s f \<or> ?J f) \<and>
    (\<forall>f \<in> set (sc_presentations st). ?J f)"
  have "?P st"
  proof (rule scan_assignments_rule [where P = ?P, OF run])
    fix a st st'
    assume a: "a \<in> set (bt_values (sp_assignments snapshot))" and P: "?P st"
      and step: "scan_assignment W config snapshot activity now a st = Inr st'"
    show "?P st'"
    proof (cases "running_attempt snapshot a")
      case None
      then show ?thesis using step P by (simp add: scan_assignment_idle)
    next
      case (Some x)
      then obtain n attempt task where x: "running_attempt snapshot a = Some (n, attempt, task)" by (cases x) auto
      obtain observed w s1 where o: "authoritative_watermark W snapshot a attempt activity = Inr observed"
          "monotonic_watermark W (sc_store st) (assignment_key W a n) observed = Inr (w, s1)"
          "iterated W config now a n (tv_authority_seat_id task) (assignment_key W a n) w st st'"
        using scan_assignment_Inr [OF step x] by blast
      have w: "watermark_ok W w" "no_later_activity W a attempt activity (wk_time w)"
        using authoritative_Inr [OF o(1)] monotonic_Inr(1,2) [OF o(2)] no_later_mono by blast+
      have j: "?J f" if "cf_first_stale_threshold config \<le> idle_seconds W now w" "wf_activity_watermark f = wk_encoded w"
          "stored_fact s f \<or> new_fact W config now a n w f" for f
        using a x w that unfolding justified_def watermark_ok_def by blast
      have inv': "watchdog_inv W (sc_store st)" using P by simp
      show ?thesis
        using iterated_inv [OF o(3) inv'] iterated_facts [OF o(3) inv'] j P by blast
    qed
  qed (use inv in simp)
  then show ?thesis using out assms(3) by simp
qed

section \<open>What a scan reports\<close>

lemma monotonic_cong:
  assumes "bt_get (ws_watermarks s) key = bt_get (ws_watermarks t) key" and "bt_get (ws_episodes s) key = bt_get (ws_episodes t) key"
    and "monotonic_watermark W s key observed = Inr (w, s')"
  shows "\<exists>t'. monotonic_watermark W t key observed = Inr (w, t')"
proof -
  have "persisted_watermark s key = persisted_watermark t key" by (simp only: persisted_watermark_def assms(1,2))
  with assms(3) show ?thesis by (auto simp: monotonic_watermark_def res_simps)
qed

text \<open>The entries of an attempt that the iterations leave alone, and what they collect.\<close>

definition untouched :: "bytes \<Rightarrow> scan_state \<Rightarrow> scan_state \<Rightarrow> bool" where
  "untouched key st st' \<longleftrightarrow> bt_get (ws_watermarks (sc_store st')) key = bt_get (ws_watermarks (sc_store st)) key \<and>
     bt_get (ws_episodes (sc_store st')) key = bt_get (ws_episodes (sc_store st)) key \<and>
     set (sc_presentations st) \<subseteq> set (sc_presentations st') \<and> set (sc_notifications st) \<subseteq> set (sc_notifications st') \<and>
     set (sc_active st) \<subseteq> set (sc_active st')"

lemma iterated_untouched: "iterated W config now a n seat key' w st st' \<Longrightarrow> key' \<noteq> key \<Longrightarrow> untouched key st st'"
  unfolding iterated_def untouched_def Let_def by (auto simp: bt_simps)

lemma scan_assignments_untouched:
  assumes "scan_assignments W config snapshot activity now as st = Inr st'"
    and "\<And>b m x. b \<in> set as \<Longrightarrow> running_attempt snapshot b = Some (m, x) \<Longrightarrow> assignment_key W b m \<noteq> key"
  shows "untouched key st st'"
proof (rule scan_assignments_rule [where P = "untouched key st", OF assms(1)])
  show "untouched key st st" by (simp add: untouched_def)
  fix b st1 st2
  assume b: "b \<in> set as" and u: "untouched key st st1" and step: "scan_assignment W config snapshot activity now b st1 = Inr st2"
  have "untouched key st1 st2"
  proof (cases "running_attempt snapshot b")
    case None
    then show ?thesis using step by (simp add: scan_assignment_idle untouched_def)
  next
    case (Some x)
    then obtain n attempt task where x: "running_attempt snapshot b = Some (n, attempt, task)" by (cases x) auto
    show ?thesis using scan_assignment_Inr [OF step x] iterated_untouched assms(2) [OF b x] by blast
  qed
  with u show "untouched key st st2" by (auto simp: untouched_def)
qed

lemma scan_assignments_append:
  "scan_assignments W config snapshot activity now (as @ bs) st =
     res_bind (scan_assignments W config snapshot activity now as st) (scan_assignments W config snapshot activity now bs)"
  by (induction as arbitrary: st) (auto simp: res_bind_def split: sum.splits)

lemma iterated_reports:
  assumes "iterated W config now a n seat key w st st'" and inv: "watchdog_inv W (sc_store st)"
    and stale: "cf_first_stale_threshold config \<le> idle_seconds W now w"
  shows "\<exists>e. bt_get (ws_episodes (sc_store st')) key = Some e \<and> we_activity_watermark e = wk_encoded w \<and>
    set (we_facts e) \<subseteq> set (sc_presentations st') \<and> (\<exists>f \<in> set (we_facts e). wf_stage f = FirstStale) \<and>
    (saturating_add (cf_first_stale_threshold config) (cf_director_escalation_interval config) \<le> idle_seconds W now w \<longrightarrow>
       (\<exists>f \<in> set (we_facts e). wf_stage f = DirectorEscalated)) \<and>
    (\<forall>m \<in> set (we_notifications e). is_delivered m \<or> m \<in> set (sc_notifications st'))"
proof -
  define before where "before = (case bt_get (ws_episodes (sc_store st)) key of
      Some e \<Rightarrow> if we_activity_watermark e = wk_encoded w then Some e else None | None \<Rightarrow> None)"
  define e where "e = staged W config now a n seat w (case before of Some e \<Rightarrow> e | None \<Rightarrow> fresh_episode W key w)"
  have it: "bt_get (ws_episodes (sc_store st')) key = Some e" "sc_presentations st' = sc_presentations st @ we_facts e"
      "sc_notifications st' = sc_notifications st @ filter (\<lambda>n. \<not> is_delivered n) (we_notifications e)"
    using assms(1) stale unfolding iterated_def Let_def before_def [symmetric] e_def [symmetric] by auto
  have "we_activity_watermark e = wk_encoded w"
    using iterated_inv [OF assms(1) inv] it(1) assms(1) unfolding watchdog_inv_def iterated_def Let_def by (fastforce simp: bt_simps)
  moreover have "\<exists>f \<in> set (we_facts e). wf_stage f = FirstStale" unfolding e_def by (rule staged_facts(2))
  moreover have "\<exists>f \<in> set (we_facts e). wf_stage f = DirectorEscalated"
    if "saturating_add (cf_first_stale_threshold config) (cf_director_escalation_interval config) \<le> idle_seconds W now w"
    unfolding e_def by (rule staged_facts(3) [OF that])
  ultimately show ?thesis using it by auto
qed

lemma scan_reports:
  assumes run: "scan_store W snapshot activity now config s = Inr (s', outcome)" and inv: "watchdog_inv W s"
    and a: "bt_values (sp_assignments snapshot) = as @ a # bs" and x: "running_attempt snapshot a = Some (n, attempt, task)"
    and other: "\<And>b m x. b \<in> set as \<union> set bs \<Longrightarrow> running_attempt snapshot b = Some (m, x) \<Longrightarrow> assignment_key W b m \<noteq> assignment_key W a n"
  shows "\<exists>observed w t. authoritative_watermark W snapshot a attempt activity = Inr observed \<and>
    monotonic_watermark W s (assignment_key W a n) observed = Inr (w, t) \<and>
    (cf_first_stale_threshold config \<le> idle_seconds W now w \<longrightarrow>
      (\<exists>e. bt_get (ws_episodes s') (assignment_key W a n) = Some e \<and> we_activity_watermark e = wk_encoded w \<and>
        set (we_facts e) \<subseteq> set (wo_presentations outcome) \<and> (\<exists>f \<in> set (we_facts e). wf_stage f = FirstStale) \<and>
        (saturating_add (cf_first_stale_threshold config) (cf_director_escalation_interval config) \<le> idle_seconds W now w \<longrightarrow>
           (\<exists>f \<in> set (we_facts e). wf_stage f = DirectorEscalated)) \<and>
        (\<forall>m \<in> set (we_notifications e). is_delivered m \<or> m \<in> set (wo_notifications outcome))))"
proof -
  let ?key = "assignment_key W a n"
  let ?st0 = "\<lparr>sc_store = s, sc_active = [], sc_presentations = [], sc_notifications = [], sc_cancelled = []\<rparr>"
  obtain st3 where st3: "scan_assignments W config snapshot activity now (bt_values (sp_assignments snapshot)) ?st0 = Inr st3"
      "wo_presentations outcome = sc_presentations st3" "wo_notifications outcome = sc_notifications st3"
      "\<And>k. bt_get (ws_episodes s') k = (if k \<in> set (sc_active st3) then bt_get (ws_episodes (sc_store st3)) k else None)"
    using scan_store_Inr [OF run] by metis
  obtain st1 st2 where st1: "scan_assignments W config snapshot activity now as ?st0 = Inr st1"
      and st2: "scan_assignment W config snapshot activity now a st1 = Inr st2"
      and rest: "scan_assignments W config snapshot activity now bs st2 = Inr st3"
    using st3(1) unfolding a scan_assignments_append by (auto simp: res_simps)
  have u1: "untouched ?key ?st0 st1" by (rule scan_assignments_untouched [OF st1]) (use other in blast)
  have u3: "untouched ?key st2 st3" by (rule scan_assignments_untouched [OF rest]) (use other in blast)
  have inv1: "watchdog_inv W (sc_store st1)"
    by (rule scan_assignments_rule [OF st1]) (use inv scan_assignment_inv in auto)
  obtain observed w s1 where o: "authoritative_watermark W snapshot a attempt activity = Inr observed"
      "monotonic_watermark W (sc_store st1) ?key observed = Inr (w, s1)"
      "iterated W config now a n (tv_authority_seat_id task) ?key w st1 st2"
    using scan_assignment_Inr [OF st2 x] by blast
  obtain t where t: "monotonic_watermark W s ?key observed = Inr (w, t)"
    using monotonic_cong [OF _ _ o(2), of s] u1 by (auto simp: untouched_def)
  have "?key \<in> set (sc_active st2)" using o(3) by (simp add: iterated_def Let_def)
  then have active: "?key \<in> set (sc_active st3)" using u3 by (auto simp: untouched_def)
  have episodes: "bt_get (ws_episodes s') ?key = bt_get (ws_episodes (sc_store st2)) ?key"
    using st3(4) [of ?key] active u3 by (simp add: untouched_def)
  have collected: "set (sc_presentations st2) \<subseteq> set (wo_presentations outcome)" "set (sc_notifications st2) \<subseteq> set (wo_notifications outcome)"
    using st3(2,3) u3 by (simp_all add: untouched_def)
  have "\<exists>e. bt_get (ws_episodes s') ?key = Some e \<and> we_activity_watermark e = wk_encoded w \<and>
        set (we_facts e) \<subseteq> set (wo_presentations outcome) \<and> (\<exists>f \<in> set (we_facts e). wf_stage f = FirstStale) \<and>
        (saturating_add (cf_first_stale_threshold config) (cf_director_escalation_interval config) \<le> idle_seconds W now w \<longrightarrow>
           (\<exists>f \<in> set (we_facts e). wf_stage f = DirectorEscalated)) \<and>
        (\<forall>m \<in> set (we_notifications e). is_delivered m \<or> m \<in> set (wo_notifications outcome))"
    if "cf_first_stale_threshold config \<le> idle_seconds W now w"
    using iterated_reports [OF o(3) inv1 that] collected unfolding episodes by blast
  with o(1) t show ?thesis by blast
qed

section \<open>Delivery facts\<close>

lemma update_first_keeps:
  assumes "update_first P f xs = Some ys" and "\<And>x. g (f x) = g x"
  shows "map g ys = map g xs"
  using assms by (induction xs arbitrary: ys) (auto split: if_splits)

lemma add_delivery_fact_fields:
  "wn_stage (add_delivery_fact kind reference now n) = wn_stage n"
  "wn_episode_id (add_delivery_fact kind reference now n) = wn_episode_id n"
  "wn_notification_id (add_delivery_fact kind reference now n) = wn_notification_id n"
  by (simp_all add: add_delivery_fact_def)

lemma update_episode_ok:
  assumes "update_first P (add_delivery_fact kind reference now) (we_notifications e) = Some ns" and "episode_ok W key e"
  shows "episode_ok W key (e\<lparr>we_notifications := ns\<rparr>)"
proof -
  let ?g = "\<lambda>n. (wn_stage n, wn_episode_id n, wn_notification_id n)"
  have eq: "map ?g ns = map ?g (we_notifications e)"
    by (rule update_first_keeps [OF assms(1)]) (simp add: add_delivery_fact_fields)
  have "map wn_stage ns = map wn_stage (we_notifications e)"
    by (rule update_first_keeps [OF assms(1)]) (simp add: add_delivery_fact_fields)
  moreover have "wn_episode_id n = we_episode_id e \<and>
      wn_notification_id n = stable_id W ''twn_'' (we_episode_id e @ ''|'' @ event_key (wn_stage n)) 32" if "n \<in> set ns" for n
  proof -
    have "?g n \<in> ?g ` set (we_notifications e)"
      using that unfolding list.set_map [symmetric] eq [symmetric] by simp
    then obtain m where "m \<in> set (we_notifications e)" "?g n = ?g m" by blast
    then show ?thesis using assms(2) by (simp add: episode_ok_def)
  qed
  ultimately show ?thesis using assms(2) by (simp add: episode_ok_def)
qed

lemma update_episode_facts:
  assumes "update_episode P f m = Some m'"
  shows "map fst m' = map fst m" and "bt_get m' k = Some e' \<Longrightarrow> \<exists>e. bt_get m k = Some e \<and>
    (e' = e \<or> (\<exists>ns. update_first P f (we_notifications e) = Some ns \<and> e' = e\<lparr>we_notifications := ns\<rparr>))"
  using assms by (induction P f m arbitrary: m' rule: update_episode.induct) (auto split: option.splits if_splits)

lemma record_fact_inv:
  assumes "record_fact_on i kind reference now s = Inr (s', x)" and inv: "watchdog_inv W s"
  shows "watchdog_inv W s'"
proof (cases "update_episode (\<lambda>n. wn_notification_id n = i) (add_delivery_fact kind reference now) (ws_episodes s)")
  case None
  then show ?thesis using assms by (auto simp: record_fact_on_def watchdog_inv_def split: option.splits)
next
  case (Some m)
  then have s': "s' = s\<lparr>ws_episodes := m\<rparr>" using assms(1) by (simp add: record_fact_on_def)
  have "bt_ok m" using update_episode_facts(1) [OF Some] inv by (simp add: bt_ok_def watchdog_inv_def)
  moreover have "episode_ok W key e' \<and> (\<exists>p. bt_get (ws_watermarks s) key = Some p \<and> pw_encoded p = we_activity_watermark e')"
    if at: "bt_get m key = Some e'" for key e'
  proof -
    obtain e where e: "bt_get (ws_episodes s) key = Some e" "e' = e \<or> (\<exists>ns. update_first (\<lambda>n. wn_notification_id n = i)
        (add_delivery_fact kind reference now) (we_notifications e) = Some ns \<and> e' = e\<lparr>we_notifications := ns\<rparr>)"
      using update_episode_facts(2) [OF Some at] by blast
    have "episode_ok W key e \<and> (\<exists>p. bt_get (ws_watermarks s) key = Some p \<and> pw_encoded p = we_activity_watermark e)"
      using inv e(1) by (simp add: watchdog_inv_def)
    then show ?thesis using e(2) update_episode_ok by auto
  qed
  ultimately show ?thesis using inv s' by (simp add: watchdog_inv_def)
qed

section \<open>The document on disk\<close>

inductive watchdog_step :: "watchdog_env \<Rightarrow> doc_fs \<Rightarrow> doc_fs \<Rightarrow> bool" for W fs fs' where
  opened: "no_spurious_not_found io \<Longrightarrow> watchdog_open W stat io fs = (r, fs') \<Longrightarrow> watchdog_step W fs fs'"
| scanned: "no_spurious_not_found io \<Longrightarrow> watchdog_scan W config snapshot activity now stat io fs = (r', fs') \<Longrightarrow> watchdog_step W fs fs'"
| recorded: "no_spurious_not_found io \<Longrightarrow> record_delivery_fact W i kind reference now stat io fs = (r, fs') \<Longrightarrow> watchdog_step W fs fs'"
| queried: "no_spurious_not_found io \<Longrightarrow> watchdog_notification W i stat io fs = (r'', fs') \<Longrightarrow> watchdog_step W fs fs'"

definition watchdog_disk_inv :: "watchdog_env \<Rightarrow> doc_fs \<Rightarrow> bool" where
  "watchdog_disk_inv W fs \<longleftrightarrow> (\<exists>s. doc_state (watchdog_doc W) fs = Some s \<and> watchdog_inv W s \<and>
     (store_file fs \<noteq> None \<longrightarrow> validate_watchdog_store W s = Inr ()))"

lemma with_store_inv:
  assumes rt: "doc_roundtrip (watchdog_doc W)" and run: "with_store W stat operation io fs = (r, fs')"
    and nf: "no_spurious_not_found io" and inv: "watchdog_disk_inv W fs"
    and keeps: "\<And>s s' v. operation s = Inr (s', v) \<Longrightarrow> watchdog_inv W s \<Longrightarrow> watchdog_inv W s'"
  shows "watchdog_disk_inv W fs'"
proof -
  let ?op = "checked_operation W (stat \<or> store_file fs = None) operation"
  obtain s where s: "doc_state (watchdog_doc W) fs = Some s" "watchdog_inv W s"
      "store_file fs \<noteq> None \<longrightarrow> validate_watchdog_store W s = Inr ()"
    using inv by (auto simp: watchdog_disk_inv_def)
  have run': "with_locked_state (watchdog_doc W) True ?op io fs = (r, fs')" using run by (simp add: with_store_def)
  have files: "store_file fs' = store_file fs \<or> (\<exists>t v. ?op s = Inr (t, v, True) \<and> doc_state (watchdog_doc W) fs' = Some t)"
    using run' s(1) by (auto simp: locked_state_defs doc_state_written [OF rt] split: doc_splits dest!: read_snapshot_state [OF nf])
  then show ?thesis
  proof
    assume "store_file fs' = store_file fs"
    then have "doc_state (watchdog_doc W) fs' = Some s" using s(1) by (simp add: doc_state_def)
    then show ?thesis using s \<open>store_file fs' = store_file fs\<close> by (auto simp: watchdog_disk_inv_def)
  next
    assume "\<exists>t v. ?op s = Inr (t, v, True) \<and> doc_state (watchdog_doc W) fs' = Some t"
    then show ?thesis using keeps s(2) by (auto simp: watchdog_disk_inv_def checked_operation_def res_simps)
  qed
qed

lemma watchdog_step_inv:
  assumes "watchdog_step W fs fs'" and "doc_roundtrip (watchdog_doc W)" and "watchdog_disk_inv W fs"
  shows "watchdog_disk_inv W fs'"
  using assms(1)
proof cases
  case (opened io stat r)
  then show ?thesis using with_store_inv [OF assms(2) _ opened(1) assms(3)] by (fastforce simp: watchdog_open_def)
next
  case (scanned io config snapshot activity now stat r')
  then show ?thesis using with_store_inv [OF assms(2) _ scanned(1) assms(3)] scan_store_inv by (fastforce simp: watchdog_scan_def)
next
  case (recorded io i kind reference now stat r)
  then show ?thesis using with_store_inv [OF assms(2) _ recorded(1) assms(3)] record_fact_inv by (fastforce simp: record_delivery_fact_def)
next
  case (queried io i stat r'')
  then show ?thesis using with_store_inv [OF assms(2) _ queried(1) assms(3)] by (fastforce simp: watchdog_notification_def)
qed

lemma watchdog_disk_start: "store_file fs = None \<Longrightarrow> watchdog_disk_inv W fs"
  by (simp add: watchdog_disk_inv_def doc_state_def watchdog_doc_def TaskWatchdogStore_default_def watchdog_inv_def)

interpretation watchdog_runs: invariant_system "\<lambda>fs. store_file fs = None" "watchdog_step W"
  "\<lambda>fs. doc_roundtrip (watchdog_doc W) \<longrightarrow> watchdog_disk_inv W fs" "\<lambda>_ (_::unit). 0" for W
  by unfold_locales (use watchdog_disk_start watchdog_step_inv in blast)+

end
