(* ===== verification/Watchdog_Claims.thy ===== *)
theory Watchdog_Claims
  imports Watchdog_Properties Task_Examples
begin

text \<open>
  The properties of the watchdog, with a concrete scan: one running attempt that was last active at
  second 1 is scanned at second 20 under thresholds of five seconds each. A time is written in unary.
\<close>

section \<open>A concrete scan\<close>

definition gx_store :: "TaskWatchdogStore list \<Rightarrow> watchdog_env" where
  "gx_store ss = \<lparr>wd_tasks = table_env [] [] [], wd_parse = (\<lambda>s. Some (int (length s))),
     wd_format = (\<lambda>t. replicate (nat t) (CHR ''x'')), wd_num_seconds = (-),
     wd_json = table_enc ss, wd_parse_store = table_dec ss\<rparr>"

definition gx_env :: watchdog_env where "gx_env = gx_store []"

definition gx_config :: TaskWatchdogConfig where
  "gx_config = \<lparr>cf_poll_interval = 1, cf_first_stale_threshold = 5, cf_director_escalation_interval = 5\<rparr>"

definition gx_assignment :: Assignment where
  "gx_assignment = \<lparr>as_project_id = None, as_assignment_id = ''a1'', as_task_id = ''t1'', as_task_revision = 1,
     as_assignee_cutex_session = ''s1'', as_state = Assignment_Active, as_active_attempt = Some 1\<rparr>"

definition gx_attempt :: Attempt where
  "gx_attempt = \<lparr>ap_project_id = None, ap_attempt_number = 1, ap_phase = Attempt_Running, ap_started_at = ''x'',
     ap_updated_at = ''x'', ap_status_receipts = []\<rparr>"

definition gx_task :: TaskRevisionRecord where
  "gx_task = \<lparr>tv_project_id = None, tv_authority_seat_id = ''director''\<rparr>"

definition gx_snapshot :: TaskServiceSnapshot where
  "gx_snapshot = \<lparr>sp_journal_sequence = 7, sp_task_revisions = [(''t1'', [(1, gx_task)])],
     sp_assignments = [(''a1'', gx_assignment)], sp_attempts = [(''a1'', [(1, gx_attempt)])]\<rparr>"

definition gx_scan :: "TaskWatchdogStore \<times> TaskWatchdogScanOutcome" where
  "gx_scan = (case scan_store gx_env gx_snapshot [] 20 gx_config TaskWatchdogStore_default of Inr x \<Rightarrow> x)"

lemma prune_retired_code [code]:
  "prune_retired m = (if int (length m) > 4096
     then (case oldest_retired m of None \<Rightarrow> m | Some (k, _) \<Rightarrow> prune_retired (bt_remove k m)) else m)"
  by (subst prune_retired.simps) (simp add: MAX_RETIRED_NOTIFICATIONS_def)

lemma gx_scanned:
  "scan_store gx_env gx_snapshot [] 20 gx_config TaskWatchdogStore_default = Inr (fst gx_scan, snd gx_scan)"
  "map wf_stage (wo_presentations (snd gx_scan)) = [FirstStale, DirectorEscalated]"
  "map wn_target (wo_notifications (snd gx_scan)) = [AssigneeSession ''s1'', AuthoritySeat ''director'']"
  by code_simp+

lemma gx_inv: "watchdog_inv W TaskWatchdogStore_default"
  by (simp add: watchdog_inv_def TaskWatchdogStore_default_def)

section \<open>Claims\<close>

text \<open>
  C31: No false alarm. Every fact a scan presents has a reason: there is an active assignment with a
  running attempt, the fact names the time of the last activity, no activity that counts for the
  attempt is later, and since then at least the first threshold has passed. A fact that was not
  in the store before names the assignment, the attempt and the idle time, and it escalates to the
  Director only when both intervals have passed.
\<close>

theorem watchdog_alarm_justified:
  assumes "watchdog_inv W s" and "scan_store W snapshot activity now config s = Inr (s', outcome)"
    and "f \<in> set (wo_presentations outcome)"
  shows "\<exists>a n attempt task w. a \<in> set (bt_values (sp_assignments snapshot))
    \<and> running_attempt snapshot a = Some (n, attempt, task)
    \<and> wd_parse W (wf_activity_watermark f) = Some (wk_time w)
    \<and> no_later_activity W a attempt activity (wk_time w)
    \<and> cf_first_stale_threshold config \<le> idle_seconds W now w
    \<and> ((\<exists>key e. bt_get (ws_episodes s) key = Some e \<and> f \<in> set (we_facts e)) \<or>
       wf_assignment_id f = as_assignment_id a \<and> wf_attempt_number f = n \<and>
       wf_assignee_cutex_session_id f = as_assignee_cutex_session a \<and> wf_idle_duration_secs f = idle_seconds W now w \<and>
       (wf_stage f = FirstStale \<or>
        saturating_add (cf_first_stale_threshold config) (cf_director_escalation_interval config) \<le> idle_seconds W now w))"
proof -
  obtain a n attempt task w where "a \<in> set (bt_values (sp_assignments snapshot))"
      "running_attempt snapshot a = Some (n, attempt, task)" "wf_activity_watermark f = wk_encoded w"
      "wd_parse W (wk_encoded w) = Some (wk_time w)" "no_later_activity W a attempt activity (wk_time w)"
      "cf_first_stale_threshold config \<le> idle_seconds W now w" "stored_fact s f \<or> new_fact W config now a n w f"
    using scan_justified [OF assms(2,1,3)] unfolding justified_def by blast
  moreover from this(7) have "(\<exists>key e. bt_get (ws_episodes s) key = Some e \<and> f \<in> set (we_facts e)) \<or>
       wf_assignment_id f = as_assignment_id a \<and> wf_attempt_number f = n \<and>
       wf_assignee_cutex_session_id f = as_assignee_cutex_session a \<and> wf_idle_duration_secs f = idle_seconds W now w \<and>
       (wf_stage f = FirstStale \<or>
        saturating_add (cf_first_stale_threshold config) (cf_director_escalation_interval config) \<le> idle_seconds W now w)"
    by (cases "wf_stage f") (auto simp: stored_fact_def new_fact_def)
  ultimately show ?thesis by (intro exI [of _ a] exI [of _ n] exI [of _ attempt] exI [of _ task] exI [of _ w]) simp
qed

theorem watchdog_alarm_justified_witness:
  "\<exists>a n attempt task. running_attempt gx_snapshot a = Some (n, attempt, task) \<and>
     wf_assignment_id (hd (wo_presentations (snd gx_scan))) = as_assignment_id a"
proof -
  have "wo_presentations (snd gx_scan) \<noteq> []" using gx_scanned(2) by auto
  then have f: "hd (wo_presentations (snd gx_scan)) \<in> set (wo_presentations (snd gx_scan))" by simp
  have none: "bt_get (ws_episodes TaskWatchdogStore_default) key = None" for key by (simp add: TaskWatchdogStore_default_def)
  from watchdog_alarm_justified [OF gx_inv gx_scanned(1) f] show ?thesis unfolding none by blast
qed

text \<open>
  C32: No missed alarm. After a successful scan, every running attempt whose watermark is older than the
  first threshold has an episode for this watermark; its first stage is reached, its second one too when
  both intervals have passed, all its facts are presented, and each of its notifications is either
  known to be delivered or handed out again. The key of the attempt must not be that of another
  running attempt of the snapshot.
\<close>

theorem watchdog_stale_reported:
  assumes "watchdog_inv W s" and "scan_store W snapshot activity now config s = Inr (s', outcome)"
    and "bt_values (sp_assignments snapshot) = as @ a # bs" and "running_attempt snapshot a = Some (n, attempt, task)"
    and "\<And>b m x. b \<in> set as \<union> set bs \<Longrightarrow> running_attempt snapshot b = Some (m, x) \<Longrightarrow> assignment_key W b m \<noteq> assignment_key W a n"
  shows "\<exists>observed w t. authoritative_watermark W snapshot a attempt activity = Inr observed
    \<and> monotonic_watermark W s (assignment_key W a n) observed = Inr (w, t)
    \<and> (cf_first_stale_threshold config \<le> idle_seconds W now w \<longrightarrow>
      (\<exists>e. bt_get (ws_episodes s') (assignment_key W a n) = Some e \<and> we_activity_watermark e = wk_encoded w
        \<and> set (we_facts e) \<subseteq> set (wo_presentations outcome) \<and> (\<exists>f \<in> set (we_facts e). wf_stage f = FirstStale)
        \<and> (saturating_add (cf_first_stale_threshold config) (cf_director_escalation_interval config) \<le> idle_seconds W now w \<longrightarrow>
             (\<exists>f \<in> set (we_facts e). wf_stage f = DirectorEscalated))
        \<and> (\<forall>m \<in> set (we_notifications e). is_delivered m \<or> m \<in> set (wo_notifications outcome))))"
  by (rule scan_reports [OF assms(2,1,3,4)]) (rule assms(5))

theorem watchdog_stale_reported_witness:
  "\<exists>e. bt_get (ws_episodes (fst gx_scan)) (assignment_key gx_env gx_assignment 1) = Some e \<and>
     set (we_facts e) \<subseteq> set (wo_presentations (snd gx_scan))"
proof -
  have one: "bt_values (sp_assignments gx_snapshot) = [] @ gx_assignment # []" by (simp add: bt_values_def gx_snapshot_def)
  have running: "running_attempt gx_snapshot gx_assignment = Some (1, gx_attempt, gx_task)" by code_simp
  have due: "map_sum id (\<lambda>(w, t). cf_first_stale_threshold gx_config \<le> idle_seconds gx_env 20 w)
      (res_bind (authoritative_watermark gx_env gx_snapshot gx_assignment gx_attempt [])
        (monotonic_watermark gx_env TaskWatchdogStore_default (assignment_key gx_env gx_assignment 1))) = Inr True"
    by code_simp
  have "b \<in> set [] \<union> set [] \<Longrightarrow> assignment_key gx_env b m \<noteq> assignment_key gx_env gx_assignment 1" for b m by simp
  from watchdog_stale_reported [OF gx_inv gx_scanned(1) one running this] due show ?thesis by fastforce
qed

text \<open>
  C33: The watchdog's document. After any sequence of calls from an empty directory, whatever input or
  output failed, the document on disk can be read and is one its own check accepts; every episode in it has
  one fact and one notification for each stage, the first stage before the second, all for the
  watermark that is stored for its attempt, and at most 4096 retired notifications are kept.
\<close>

theorem watchdog_store_invariant:
  assumes "doc_roundtrip (watchdog_doc W)" and "reach (\<lambda>fs. store_file fs = None) (watchdog_step W) fs"
  shows "\<exists>s. doc_state (watchdog_doc W) fs = Some s
    \<and> (store_file fs = None \<or> validate_watchdog_store W s = Inr ())
    \<and> length (ws_retired s) \<le> MAX_RETIRED_NOTIFICATIONS
    \<and> (\<forall>key e. bt_get (ws_episodes s) key = Some e \<longrightarrow>
        map wf_stage (we_facts e) \<in> {[FirstStale], [FirstStale, DirectorEscalated]}
        \<and> map wn_stage (we_notifications e) = map wf_stage (we_facts e)
        \<and> (\<forall>f \<in> set (we_facts e). wf_activity_watermark f = we_activity_watermark e)
        \<and> (\<exists>p. bt_get (ws_watermarks s) key = Some p \<and> pw_encoded p = we_activity_watermark e))"
proof -
  obtain s where s: "doc_state (watchdog_doc W) fs = Some s" "watchdog_inv W s"
      "store_file fs \<noteq> None \<longrightarrow> validate_watchdog_store W s = Inr ()"
    using watchdog_runs.reach_inv [OF assms(2)] assms(1) unfolding watchdog_disk_inv_def by blast
  have "length (ws_retired s) \<le> MAX_RETIRED_NOTIFICATIONS"
  proof (cases "store_file fs")
    case None
    then show ?thesis using s(1) by (auto simp: doc_state_def watchdog_doc_def TaskWatchdogStore_default_def)
  next
    case (Some b)
    then show ?thesis using s(3) by (auto simp: validate_watchdog_store_def res_simps split: if_splits)
  qed
  with s show ?thesis by (intro exI [of _ s]) (auto simp: watchdog_inv_def episode_ok_def)
qed

definition gx_disk :: watchdog_env where
  "gx_disk = gx_store [fst gx_scan]"

theorem watchdog_store_invariant_witness:
  "\<exists>s. doc_state (watchdog_doc gx_disk) (snd (watchdog_scan gx_disk gx_config gx_snapshot [] 20 False io_fine
       \<lparr>lock_file = False, store_file = None\<rparr>)) = Some s \<and> length (ws_retired s) \<le> MAX_RETIRED_NOTIFICATIONS"
proof -
  let ?fs = "\<lparr>lock_file = False, store_file = None\<rparr>"
  have "watchdog_step gx_disk ?fs (snd (watchdog_scan gx_disk gx_config gx_snapshot [] 20 False io_fine ?fs))"
    by (rule watchdog_step.scanned [OF io_fine_simps(7) prod.collapse [symmetric]])
  moreover have "reach (\<lambda>fs. store_file fs = None) (watchdog_step gx_disk) ?fs"
    by (rule reach_init) simp
  ultimately have "reach (\<lambda>fs. store_file fs = None) (watchdog_step gx_disk)
      (snd (watchdog_scan gx_disk gx_config gx_snapshot [] 20 False io_fine ?fs))"
    by (rule reach_step [rotated])
  moreover have "doc_roundtrip (watchdog_doc gx_disk)"
    by (simp add: doc_roundtrip_def watchdog_doc_def gx_disk_def gx_store_def table_roundtrip)
  ultimately show ?thesis using watchdog_store_invariant by blast
qed

end
