(* ===== verification/Spec2Isabelle.thy ===== *)
theory Spec2Isabelle
  imports Seat_Claims Release_Claims Task_Claims Bus_Claims Pilot_Claims Worker_Claims Watchdog_Claims
begin

text \<open>
  Verification of the durable authority core of cutex, a command-line program that runs, names and
  coordinates coding agents on one or more hosts.

  \<^bold>\<open>The program.\<close> Agents are processes with durable sessions. Some sessions hold a \<^emph>\<open>seat\<close>, which gives
  them authority (Director, Release); the holder of the Release seat is replaced by a \<^emph>\<open>rotation\<close>.
  The \<^emph>\<open>Task Service\<close> keeps the life cycle of tasks in a journal on disk. The \<^emph>\<open>agent bus\<close> keeps the
  roster of running agents and a queue of messages for each. The \<^emph>\<open>delivery pilot\<close> joins the two: it
  publishes a task, sends it to its owner over the bus, and records the delivery. The owner answers with
  \<^emph>\<open>worker actions\<close> (accept, start, complete), which a host in the bus server makes transitions of the
  Task Service, with a durable fence around every transition whose outcome is not yet known. Paths
  below are relative to \<open>src/src\<close>.

  \<^bold>\<open>Theories and sources.\<close>
  \<^item> \<open>Cutex_Prelude\<close>, \<open>Rust_Text\<close>, \<open>Typed_Values\<close>: results as sums, ordered maps as sorted association
    lists (\<open>BTreeMap\<close>), checked arithmetic on 64-bit words, the string functions of the standard
    library that the validators call, and the value types of \<open>role_revision/mod.rs\<close>. The
    prelude also holds the interfaces: \<open>ordered_map\<close>, \<open>invariant_system\<close> (an invariant kept by every
    step), \<open>fenced_system\<close> (an epoch that never goes back and fixes its holder) and
    \<open>receipted_store\<close> (a mutation that stores a receipt is replayed exactly).
  \<^item> \<open>Durable_Document\<close>: the lock, read, change and atomic replacement that the three single-document
    stores (seats, templates, watchdog) share, with every failure of the operating system.
  \<^item> \<open>Seat_Authority\<close>, \<open>Seat_Properties\<close>, \<open>Seat_Claims\<close>: \<open>seat/mod.rs\<close> and the principals of
    \<open>task_service/provider.rs\<close>. The state is the record \<open>SeatOccupancySnapshot\<close>; each operation is a function
    \<open>op_on\<close> of it, and the method of the store is \<open>op_on\<close> inside \<open>with_locked_state\<close>.
  \<^item> \<open>Release_Model\<close>, \<open>Release_Template\<close>, \<open>Release_Rotation\<close>, \<open>Rotation_Properties\<close>, \<open>Release_Claims\<close>: the
    files of \<open>rotation/\<close>. The provider is a loop over the durable record of a rotation; the
    lifecycle of agents, which is another process, is a parameter.
  \<^item> \<open>Task_Model\<close>, \<open>Task_Journal\<close>, \<open>Task_Plan\<close>, \<open>Task_Persist\<close>, \<open>Task_Repository\<close>: \<open>task_service/\<close> \<open>model.rs\<close>,
    \<open>digest.rs\<close>, \<open>journal.rs\<close>, \<open>persist.rs\<close> and \<open>store.rs\<close>. A method is a state transformer over the
    directory, the faults injected by tests, and the watch hub; each system call asks an
    oracle whether it fails. \<open>Task_Properties\<close>, \<open>Task_Disk\<close>, \<open>Task_Recovery\<close>, \<open>Task_Safety\<close>, \<open>Task_Watch\<close>,
    \<open>Task_History\<close>, \<open>Task_Liveness\<close>, \<open>Task_Answer\<close> hold the proofs, \<open>Task_Examples\<close> a concrete run and
    \<open>Task_Claims\<close> the properties.
  \<^item> \<open>Bus_Model\<close>, \<open>Bus_Store\<close>, \<open>Bus_Routing\<close>, \<open>Bus_Queue\<close>: \<open>agent_bus/\<close> \<open>model.rs\<close>, \<open>delivery.rs\<close>, \<open>identity.rs\<close>,
    \<open>store.rs\<close>, \<open>groups.rs\<close>, \<open>routing.rs\<close>, \<open>queue.rs\<close>, the lists of \<open>federation.rs\<close>, and of \<open>server.rs\<close> the
    registration requests and the withdrawal of notifications in \<open>run_task_watchdog_once\<close>. The state is
    the record \<open>AgentBusState\<close> behind one mutex, so a request or a withdrawal is one step.
    \<open>Bus_Properties\<close> has the step relation over everything that changes this state, its invariant and the refinement to mailboxes
    (interface \<open>simulated\<close>), \<open>Routing_Properties\<close> the resolution of targets, \<open>Bus_Claims\<close> the properties.
  \<^item> \<open>Task_Pilot\<close>, \<open>Pilot_Properties\<close>, \<open>Pilot_Claims\<close>: \<open>task_delivery/mod.rs\<close> and \<open>agent_bus_adapter.rs\<close>.
  \<^item> \<open>Worker_Action\<close>, \<open>Worker_Evidence\<close>, \<open>Worker_Host\<close>: \<open>task_delivery/worker_action_adapter.rs\<close>, the document of
    \<open>agent_bus/server/task_action_store.rs\<close>, and \<open>execute\<close>, \<open>execute_authorized\<close> and \<open>reconcile\<close> of
    \<open>TaskWorkerActionHost\<close> in \<open>agent_bus/server.rs\<close>. The state is two directories, each with its own
    operating system. \<open>Evidence_Properties\<close> and \<open>Host_Properties\<close> hold the proofs, as triples over one disk
    and over both, \<open>Evidence_History\<close> the histories of the evidence store (two instances of
    \<open>fenced_system\<close>), and \<open>Worker_Claims\<close> the properties.
  \<^item> \<open>Task_Watchdog\<close>, \<open>Watchdog_Properties\<close>, \<open>Watchdog_Claims\<close>: \<open>task_service/watchdog.rs\<close> with the parts of
    \<open>task_service/provider.rs\<close>, \<open>management/v2/activity.rs\<close> and \<open>observability.rs\<close> that it reads.

  \<^bold>\<open>What is shown.\<close>
  \<^item> Seats: a session holds at most one seat, an epoch of a seat has one holder for ever, repeated
    requests are answered with their receipt, a Director transfer can always be finished, nobody
    holds the Release seat during a rotation, and the document on disk after any failures is one
    that committed requests alone can reach.
  \<^item> Release: template versions are dense and never overwritten, a new rotation that succeeds ends with
    the successor seated one epoch later, one that is blocked is so for a fixed reason, a repeated
    request writes nothing, and the loop is bounded.
  \<^item> Task Service: the journal is a hash chain that determines the store, incremental updates agree
    with the replay of the journal, the phase machine and the fences hold, finished revisions never
    change. Over histories of calls with any failures and stopped processes, committed
    transitions are never lost and never applied twice; on a working machine every disk that a crash can
    leave is loaded again, and the answer of a transition is a function of the store. Pages
    and subscriptions deliver every event once and in order.
  \<^item> Bus: queues are mailboxes, from which only the watchdog withdraws messages of its own; a send that is
    repeated within the window and was not withdrawn is answered with the first record,
    targets resolve exactly as the contract says, and assignments carry a checked contract.
  \<^item> Pilot: for what \<open>publish\<close> returns the store on disk plans the transition to Delivered under the returned
    fence (that a transport then succeeds is not claimed), and what the adapter returns passes the
    checks of \<open>deliver\<close>; a task that \<open>deliver\<close> reports as delivered is so in the journal.
  \<^item> Worker actions: whatever fails and wherever the process stops, \<open>Committed\<close> and \<open>ReconciliationRequired\<close> are
    true of both disks, and so is \<open>NoWrite\<close> except for the errors \<open>DurableRequestRejected\<close> and
    \<open>PersistenceUnavailable\<close>, which leave open whether the transition was made. A transition needs a
    stored transport record and a sender that owns the current attempt. Behind a fence an action only
    reads the Task Service for its authorization, which may recover a torn journal. A reconciliation
    reports what the journal holds, and a fence is removed by it only for an exact
    acknowledgement. Transport records are never lost or changed.
  \<^item> Watchdog: a reported attempt is idle beyond the threshold and no activity is later than the time the
    report names, an attempt that is idle that long is reported, and each stage of an episode is
    reported once.
  Three theorems are about defects: the redaction of reasons keeps an earlier marker
  (\<open>sanitize_reason_keeps_earlier_token\<close>), a unit separator inside a part of a message lets two sends
  share a deduplication key (\<open>bus_dedupe_key_collides\<close>), and an action whose transition was committed is
  answered with \<open>NoWrite\<close> when the sync after removing its fence fails (\<open>worker_no_write_after_commit\<close>).

  \<^bold>\<open>Parameters.\<close> SHA-256, JSON, base64, the clock and its formats, UUIDs, the host name, the probe of a process, the
  transport and the agent lifecycle are not part of the sources; they are arguments. \<open>task_env_ok\<close> says
  what the Task Service relies on: what is written can be parsed again, a line of JSON has no
  newline, and no digest is the zero digest; \<open>evidence_codec\<close> says the first of the evidence document.
  \<open>honest\<close> says that the operating system reports a file as missing only when it is missing, \<open>healthy\<close>
  that no call fails. Collision freedom is not assumed.

  \<^bold>\<open>Bounds.\<close> Revisions, epochs and sequences are 64-bit words with the check against \<open>2 ^ 53 - 1\<close> the code
  makes. The rotation loop \<open>execute\<close> has no fuel: every pass moves the record to a later boundary, which is its
  termination measure, and it makes at most two store calls for each boundary left. Following pages
  takes more fuel than the journal has records, which is proved to be enough. \<open>prune_retired\<close> of
  the watchdog ends because every round removes an entry. All other recursion is structural.

  \<^bold>\<open>Not modelled.\<close> The Windows branches of the file operations; reordering of writes by a power loss
  (a failed call may write a prefix, but what was written stays); poisoned mutexes; blocking waits on a
  subscription, which do what \<open>try_recv\<close> does after they wake up; the registry file of the bus and its HTTP
  routes; the rest of the watchdog's scheduler in \<open>server.rs\<close>, which commits presentation facts and sends
  notifications through the modelled \<open>enqueue_task_service_watchdog_message_once\<close>; the search for peers; the faults that tests inject into the evidence store, which are not in the
  program. The stores of \<open>task_service/provider.rs\<close> with its dispatch in \<open>task_delivery/provider_adapter.rs\<close>,
  the role revisions and agent management are further durable state machines of
  the same kind that are left out for their size. Process control, terminal interface,
  configuration, profiles and HTTP glue have no logic that a kernel could check without modelling
  other programs.
\<close>

end
